(* ===== verification/Prelude.thy ===== *)
theory Prelude
  imports Main "HOL-Library.AList" "HOL-Library.Char_ord" "HOL-Library.List_Lexorder"
    "HOL-Library.Product_Lexorder" "HOL-Library.Word"
begin

text \<open>
  Shared ground of the development: the collections of facts the components extend, the parts
  of Go's \<^verbatim>\<open>strings\<close> and \<^verbatim>\<open>strconv\<close> packages that the honeypot calls, and the
  generic lemmas on lists and association lists that carry the component proofs.

  A Go \<^verbatim>\<open>string\<close> is a sequence of bytes, and so is a HOL \<^typ>\<open>string\<close> (a list of
  8-bit characters): \<^verbatim>\<open>len(s)\<close> is \<^const>\<open>length\<close>, comparison is the lexicographic
  order of \<^verbatim>\<open>List_Lexorder\<close>, a Go map is an association list with distinct keys
  (\<^const>\<open>map_of\<close>, \<^const>\<open>AList.update\<close>, \<^const>\<open>AList.delete\<close>).
\<close>

named_theorems store_simps \<open>rewriting with the operations of the object store\<close>
named_theorems store_inv \<open>preservation of the object store's invariant\<close>
named_theorems docker_inv \<open>preservation of the Docker sensor's invariant\<close>
named_theorems name_simps \<open>rewriting with the name validators\<close>

section \<open>Decimal text: \<^verbatim>\<open>strconv.Itoa\<close>, \<^verbatim>\<open>strconv.Atoi\<close>\<close>

definition digit_char :: "nat \<Rightarrow> char" where
  "digit_char d = char_of (48 + d)"

definition is_digit :: "char \<Rightarrow> bool" where
  "is_digit c \<longleftrightarrow> 48 \<le> (of_char c :: nat) \<and> (of_char c :: nat) \<le> 57"

definition digit_val :: "char \<Rightarrow> nat" where
  "digit_val c = of_char c - 48"

fun show_nat :: "nat \<Rightarrow> string" where
  "show_nat n = (if n < 10 then [digit_char n] else show_nat (n div 10) @ [digit_char (n mod 10)])"

declare show_nat.simps [simp del]

definition show_int :: "int \<Rightarrow> string" where
  "show_int i = (if i < 0 then CHR ''-'' # show_nat (nat (- i)) else show_nat (nat i))"

definition digits_val :: "string \<Rightarrow> nat" where
  "digits_val = foldl (\<lambda>n c. 10 * n + digit_val c) 0"

definition parse_digits :: "string \<Rightarrow> nat option" where
  "parse_digits s = (if s \<noteq> [] \<and> list_all is_digit s then Some (digits_val s) else None)"

text \<open>
  \<^verbatim>\<open>strconv.Atoi\<close>: an optional sign and at least one decimal digit, with the value in the
  range of a 64-bit \<^verbatim>\<open>int\<close>; anything else is an error (\<open>None\<close>).
\<close>

definition atoi :: "string \<Rightarrow> int option" where
  "atoi s =
     (let (neg, ds) = (case s of
            [] \<Rightarrow> (False, [])
          | c # cs \<Rightarrow> (if c = CHR ''-'' then (True, cs) else if c = CHR ''+'' then (False, cs) else (False, s)))
      in case parse_digits ds of
           None \<Rightarrow> None
         | Some n \<Rightarrow>
             (let i = (if neg then - int n else int n)
              in if - (2 ^ 63) \<le> i \<and> i < 2 ^ 63 then Some i else None))"

text \<open>\<^verbatim>\<open>fmt.Sprintf("%0wd", n)\<close> for a non-negative \<^verbatim>\<open>n\<close>: zero-padded to width \<^verbatim>\<open>w\<close>.\<close>

definition pad_nat :: "nat \<Rightarrow> nat \<Rightarrow> string" where
  "pad_nat w n = replicate (w - length (show_nat n)) (CHR ''0'') @ show_nat n"

lemma of_char_digit_char [simp]: "d < 10 \<Longrightarrow> of_char (digit_char d) = 48 + d"
  by (simp add: digit_char_def)

lemma is_digit_digit_char [simp]: "d < 10 \<Longrightarrow> is_digit (digit_char d)"
  by (simp add: is_digit_def)

lemma digit_val_digit_char [simp]: "d < 10 \<Longrightarrow> digit_val (digit_char d) = d"
  by (simp add: digit_val_def)

text \<open>Evaluation on literals.\<close>

lemma digit_char_eval [simp]:
  "digit_char 0 = CHR ''0''" "digit_char 1 = CHR ''1''" "digit_char (Suc 0) = CHR ''1''"
  "digit_char 2 = CHR ''2''" "digit_char 3 = CHR ''3''" "digit_char 4 = CHR ''4''" "digit_char 5 = CHR ''5''"
  "digit_char 6 = CHR ''6''" "digit_char 7 = CHR ''7''" "digit_char 8 = CHR ''8''" "digit_char 9 = CHR ''9''"
  by code_simp+

lemma show_nat_eval [simp]:
  "show_nat 0 = ''0''" "show_nat (Suc 0) = ''1''"
  "show_nat (numeral n) =
     (if numeral n < (10 :: nat) then [digit_char (numeral n)]
      else show_nat (numeral n div 10) @ [digit_char (numeral n mod 10)])"
  by (simp_all add: show_nat.simps)

lemma replicate_eval: "replicate (numeral n) x = x # replicate (pred_numeral n) x"
  by (simp add: numeral_eq_Suc)

lemma digits_val_snoc [simp]: "digits_val (s @ [c]) = 10 * digits_val s + digit_val c"
  by (simp add: digits_val_def)

lemma digits_val_Nil [simp]: "digits_val [] = 0"
  by (simp add: digits_val_def)

lemma show_nat_nonempty [simp]: "show_nat n \<noteq> []"
  by (subst show_nat.simps) simp

lemma show_nat_digits: "list_all is_digit (show_nat n)"
proof (induction n rule: show_nat.induct)
  case (1 n)
  then show ?case by (subst show_nat.simps) simp
qed

lemma digits_val_show_nat [simp]: "digits_val (show_nat n) = n"
proof (induction n rule: show_nat.induct)
  case (1 n)
  show ?case
  proof (cases "n < 10")
    case True
    then show ?thesis using digits_val_snoc [of "[]"] by (subst show_nat.simps) simp
  next
    case False
    with "1.IH" show ?thesis by (subst show_nat.simps) simp
  qed
qed

lemma show_nat_inject [simp]: "show_nat m = show_nat n \<longleftrightarrow> m = n"
  using digits_val_show_nat by metis

lemma parse_digits_show_nat [simp]: "parse_digits (show_nat n) = Some n"
  by (simp add: parse_digits_def show_nat_digits)

lemma show_nat_Cons: "\<exists>c cs. show_nat n = c # cs \<and> is_digit c"
  using show_nat_digits [of n] by (cases "show_nat n") auto

lemma atoi_show_int:
  assumes "- (2 ^ 63) \<le> i" "i < 2 ^ 63"
  shows "atoi (show_int i) = Some i"
proof (cases "i < 0")
  case True
  with assms show ?thesis by (simp add: atoi_def show_int_def)
next
  case False
  obtain c cs where "show_nat (nat i) = c # cs" "is_digit c"
    using show_nat_Cons by blast
  moreover from this have "c \<noteq> CHR ''-''" "c \<noteq> CHR ''+''"
    by (auto simp: is_digit_def)
  moreover have "parse_digits (c # cs) = Some (nat i)"
    using parse_digits_show_nat [of "nat i"] \<open>show_nat (nat i) = c # cs\<close> by simp
  ultimately show ?thesis using False assms by (simp add: atoi_def show_int_def)
qed

lemma show_nat_length_le: "n < 10 ^ k \<Longrightarrow> 0 < k \<Longrightarrow> length (show_nat n) \<le> k"
proof (induction k arbitrary: n)
  case (Suc k)
  show ?case
  proof (cases "n < 10")
    case True
    then show ?thesis by (subst show_nat.simps) simp
  next
    case False
    then have "0 < k" using Suc.prems by (cases k) auto
    moreover have "n div 10 < 10 ^ k" using Suc.prems by (simp add: div_less_iff_less_mult mult.commute)
    ultimately have "length (show_nat (n div 10)) \<le> k" using Suc.IH by blast
    then show ?thesis using False by (subst show_nat.simps) simp
  qed
qed simp

lemma digits_val_replicate_0 [simp]: "digits_val (replicate k (CHR ''0'') @ s) = digits_val s"
proof -
  have *: "foldl (\<lambda>n c. 10 * n + digit_val c) 0 (replicate k (CHR ''0'')) = 0"
    by (induction k) (auto simp: digit_val_def)
  show ?thesis by (simp add: digits_val_def *)
qed

lemma digits_val_pad_nat [simp]: "digits_val (pad_nat w n) = n"
  by (simp add: pad_nat_def)

lemma length_pad_nat: "n < 10 ^ w \<Longrightarrow> 0 < w \<Longrightarrow> length (pad_nat w n) = w"
  using show_nat_length_le [of n w] by (simp add: pad_nat_def)

lemma pad_nat_digits: "list_all is_digit (pad_nat w n)"
proof -
  have "list_all is_digit (replicate k (CHR ''0''))" for k
    by (induction k) (auto simp: is_digit_def)
  then show ?thesis by (simp add: pad_nat_def show_nat_digits)
qed

section \<open>The \<^verbatim>\<open>strings\<close> package\<close>

definition has_prefix :: "string \<Rightarrow> string \<Rightarrow> bool" where
  "has_prefix s p \<longleftrightarrow> take (length p) s = p"

definition has_suffix :: "string \<Rightarrow> string \<Rightarrow> bool" where
  "has_suffix s p \<longleftrightarrow> has_prefix (rev s) (rev p)"

definition trim_prefix :: "string \<Rightarrow> string \<Rightarrow> string" where
  "trim_prefix s p = (if has_prefix s p then drop (length p) s else s)"

definition trim_suffix :: "string \<Rightarrow> string \<Rightarrow> string" where
  "trim_suffix s p = (if has_suffix s p then take (length s - length p) s else s)"

text \<open>\<^verbatim>\<open>strings.Split(s, sep)\<close> for a separator of one byte.\<close>

fun go_split :: "char \<Rightarrow> string \<Rightarrow> string list" where
  "go_split c [] = [[]]"
| "go_split c (x # xs) =
     (if x = c then [] # go_split c xs
      else (case go_split c xs of [] \<Rightarrow> [[x]] | w # ws \<Rightarrow> (x # w) # ws))"

fun go_join :: "string \<Rightarrow> string list \<Rightarrow> string" where
  "go_join sep [] = []"
| "go_join sep [w] = w"
| "go_join sep (w # ws) = w @ sep @ go_join sep ws"

text \<open>\<^verbatim>\<open>strings.Index\<close>-based cutting: the text before and after the first occurrence.\<close>

fun cut_at :: "string \<Rightarrow> string \<Rightarrow> (string \<times> string) option" where
  "cut_at sep [] = (if sep = [] then Some ([], []) else None)"
| "cut_at sep (x # xs) =
     (if has_prefix (x # xs) sep then Some ([], drop (length sep) (x # xs))
      else map_option (\<lambda>(a, b). (x # a, b)) (cut_at sep xs))"

definition contains_str :: "string \<Rightarrow> string \<Rightarrow> bool" where
  "contains_str s sub \<longleftrightarrow> cut_at sub s \<noteq> None"

text \<open>
  \<^verbatim>\<open>strings.TrimSpace\<close> drops Unicode white space at both ends. The UTF-8 encodings of the
  white-space code points: the six ASCII ones, U+0085, U+00A0, U+1680, U+2000 to U+200A,
  U+2028, U+2029, U+202F, U+205F and U+3000.
\<close>

definition white_space :: "string list" where
  "white_space =
     [[CHR 0x20], [CHR 0x09], [CHR 0x0A], [CHR 0x0B], [CHR 0x0C], [CHR 0x0D],
      [CHR 0xC2, CHR 0x85], [CHR 0xC2, CHR 0xA0], [CHR 0xE1, CHR 0x9A, CHR 0x80]]
     @ map (\<lambda>d. [CHR 0xE2, CHR 0x80, char_of (0x80 + d :: nat)]) [0..<11]
     @ [[CHR 0xE2, CHR 0x80, CHR 0xA8], [CHR 0xE2, CHR 0x80, CHR 0xA9], [CHR 0xE2, CHR 0x80, CHR 0xAF],
        [CHR 0xE2, CHR 0x81, CHR 0x9F], [CHR 0xE3, CHR 0x80, CHR 0x80]]"

function trim_left :: "string list \<Rightarrow> string \<Rightarrow> string" where
  "trim_left ws s =
     (case find (\<lambda>w. w \<noteq> [] \<and> has_prefix s w) ws of
        None \<Rightarrow> s
      | Some w \<Rightarrow> trim_left ws (drop (length w) s))"
  by pat_completeness auto
termination
proof (relation "measure (\<lambda>(ws, s). length s)", goal_cases)
  case (2 ws s w)
  then have "w \<noteq> []" "has_prefix s w" by (auto simp: find_Some_iff)
  then have "s \<noteq> []" by (auto simp: has_prefix_def)
  with \<open>w \<noteq> []\<close> show ?case by simp
qed simp

declare trim_left.simps [simp del]

definition trim_space :: "string \<Rightarrow> string" where
  "trim_space s = rev (trim_left (map rev white_space) (rev (trim_left white_space s)))"

text \<open>\<^verbatim>\<open>strings.ToLower\<close> on ASCII text (the honeypot lowers mode names, kinds and media types).\<close>

definition lower_char :: "char \<Rightarrow> char" where
  "lower_char c =
     (if 65 \<le> (of_char c :: nat) \<and> (of_char c :: nat) \<le> 90 then char_of ((of_char c :: nat) + 32) else c)"

definition to_lower :: "string \<Rightarrow> string" where
  "to_lower = map lower_char"

lemma go_split_nonempty [simp]: "go_split c s \<noteq> []"
  by (induction s) (auto split: list.splits)

lemma go_split_no_sep: "w \<in> set (go_split c s) \<Longrightarrow> c \<notin> set w"
  by (induction s arbitrary: w) (auto split: if_splits list.splits)

lemma go_join_Cons: "ws \<noteq> [] \<Longrightarrow> go_join sep (w # ws) = w @ sep @ go_join sep ws"
  by (cases ws) auto

text \<open>Splitting and joining are inverse: the round trip both ways.\<close>

lemma go_join_split [simp]: "go_join [c] (go_split c s) = s"
proof (induction s)
  case (Cons x xs)
  then show ?case
    by (cases "go_split c xs"; cases "tl (go_split c xs)") (auto simp: go_join_Cons)
qed simp

lemma go_split_no_occ: "c \<notin> set s \<Longrightarrow> go_split c s = [s]"
  by (induction s) auto

lemma go_split_append_sep: "go_split c (a @ c # b) = go_split c a @ go_split c b"
proof (induction a)
  case (Cons x a)
  then show ?case by (cases "go_split c a") auto
qed simp

lemma go_split_join:
  "ws \<noteq> [] \<Longrightarrow> \<forall>w \<in> set ws. c \<notin> set w \<Longrightarrow> go_split c (go_join [c] ws) = ws"
proof (induction ws)
  case (Cons w ws)
  then show ?case
    by (cases ws) (auto simp: go_split_append_sep go_split_no_occ)
qed simp

lemma length_go_split: "length (go_split c s) = Suc (count_list s c)"
  by (induction s) (auto split: list.splits)

lemma has_prefix_append [simp]: "has_prefix (p @ s) p"
  by (simp add: has_prefix_def)

lemma has_prefix_conv: "has_prefix s p \<longleftrightarrow> (\<exists>t. s = p @ t)"
  unfolding has_prefix_def by (metis append_eq_conv_conj append_take_drop_id)

lemma trim_prefix_append [simp]: "trim_prefix (p @ s) p = s"
  by (simp add: trim_prefix_def)

lemma cut_at_single:
  "cut_at [c] s = (if c \<in> set s then Some (takeWhile (\<lambda>x. x \<noteq> c) s, tl (dropWhile (\<lambda>x. x \<noteq> c) s)) else None)"
  by (induction s) (auto simp: has_prefix_def)

section \<open>Association lists\<close>

lemma map_of_update [simp]: "map_of (AList.update k v xs) = (map_of xs)(k \<mapsto> v)"
  by (simp add: update_conv')

lemma map_of_delete [simp]: "map_of (AList.delete k xs) = (map_of xs)(k := None)"
  by (simp add: delete_conv')

lemma distinct_update_keys [simp]:
  "distinct (map fst xs) \<Longrightarrow> distinct (map fst (AList.update k v xs))"
  by (rule distinct_update)

lemma distinct_delete_keys [simp]:
  "distinct (map fst xs) \<Longrightarrow> distinct (map fst (AList.delete k xs))"
  by (rule distinct_delete)

lemma length_update:
  "length (AList.update k v xs) = (if k \<in> fst ` set xs then length xs else Suc (length xs))"
  by (induction xs) auto

lemma length_update_le: "length (AList.update k v xs) \<le> Suc (length xs)"
  by (simp add: length_update)

lemma delete_notin [simp]: "k \<notin> fst ` set xs \<Longrightarrow> AList.delete k xs = xs"
  by (induction xs) auto

lemma set_update_distinct:
  "distinct (map fst xs) \<Longrightarrow>
   set (AList.update k v xs) = insert (k, v) {(k', v'). (k', v') \<in> set xs \<and> k' \<noteq> k}"
  by (induction xs) (auto simp: rev_image_eqI image_iff)

lemma set_delete_alist: "set (AList.delete k xs) = {(k', v'). (k', v') \<in> set xs \<and> k' \<noteq> k}"
  by (auto simp: AList.delete_eq)

text \<open>A weight summed over the entries of an association list, and how an update and a deletion change it.\<close>

definition weight :: "('v \<Rightarrow> nat) \<Rightarrow> ('k \<times> 'v) list \<Rightarrow> nat" where
  "weight f xs = sum_list (map (f \<circ> snd) xs)"

lemma weight_Nil [simp]: "weight f [] = 0"
  by (simp add: weight_def)

lemma weight_Cons [simp]: "weight f (x # xs) = f (snd x) + weight f xs"
  by (simp add: weight_def)

lemma weight_update_new:
  "k \<notin> fst ` set xs \<Longrightarrow> weight f (AList.update k v xs) = weight f xs + f v"
  by (induction xs) auto

lemma weight_update_old:
  "distinct (map fst xs) \<Longrightarrow> map_of xs k = Some u \<Longrightarrow>
   weight f (AList.update k v xs) + f u = weight f xs + f v"
  by (induction xs) (auto split: if_splits)

lemma weight_delete:
  "distinct (map fst xs) \<Longrightarrow> map_of xs k = Some u \<Longrightarrow>
   weight f (AList.delete k xs) + f u = weight f xs"
proof (induction xs)
  case (Cons x xs)
  then show ?case by (cases "fst x = k") auto
qed simp

lemma weight_ge: "map_of xs k = Some u \<Longrightarrow> f u \<le> weight f xs"
  by (induction xs) (auto split: if_splits)

lemma length_delete_alist:
  "distinct (map fst xs) \<Longrightarrow> map_of xs k = Some u \<Longrightarrow> Suc (length (AList.delete k xs)) = length xs"
proof (induction xs)
  case (Cons x xs)
  then show ?case by (cases "fst x = k") auto
qed simp

lemma length_delete_alist_le: "length (AList.delete k xs) \<le> length xs"
  by (simp add: AList.delete_eq)

section \<open>Counters\<close>

text \<open>Incrementing a machine word that is not at its maximum.\<close>

lemma unat_inc: "x \<noteq> - 1 \<Longrightarrow> unat (x + 1) = Suc (unat (x :: 'a::len word))"
  using unatSuc [of x] by (metis add.commute add.inverse_inverse add_eq_0_iff)

lemma less_inc: "x \<noteq> - 1 \<Longrightarrow> x < x + (1 :: 'a::len word)"
  by (simp add: word_less_nat_alt unat_inc)

end
