(* ===== verification/KeyedStore.thy ===== *)
theory KeyedStore
  imports Prelude
begin

text \<open>
  The contract between a keyed store and its clients: what a lookup returns after an insertion or a
  removal, that a refused insertion changes nothing, and that both keep the store's invariant. The
  clients' lemmas (bulk removal and bulk insertion, in any order and with repeated or missing keys) are
  proved once from the contract. The API server's object store is shown to satisfy it in its
  theory.
\<close>

fun remove_all :: "('k \<Rightarrow> 's \<Rightarrow> bool \<times> 's) \<Rightarrow> 'k list \<Rightarrow> 's \<Rightarrow> nat \<times> 's" where
  "remove_all rem [] s = (0, s)"
| "remove_all rem (k # ks) s =
     (let (found, s1) = rem k s; (n, s2) = remove_all rem ks s1 in (if found then n + 1 else n, s2))"

fun insert_all :: "('k \<Rightarrow> 'v \<Rightarrow> 's \<Rightarrow> bool \<times> 's) \<Rightarrow> ('k \<times> 'v) list \<Rightarrow> 's \<Rightarrow> nat \<times> 's" where
  "insert_all ins [] s = (0, s)"
| "insert_all ins ((k, v) # kvs) s =
     (let (done, s1) = ins k v s; (n, s2) = insert_all ins kvs s1 in (if done then n + 1 else n, s2))"

locale keyed_store =
  fixes inv :: "'s \<Rightarrow> bool"
    and lookup :: "'s \<Rightarrow> 'k \<Rightarrow> 'v option"
    and stored :: "'s \<Rightarrow> 'v \<Rightarrow> 'v"
    and ins :: "'k \<Rightarrow> 'v \<Rightarrow> 's \<Rightarrow> bool \<times> 's"
    and rem :: "'k \<Rightarrow> 's \<Rightarrow> bool \<times> 's"
  assumes inv_ins: "inv s \<Longrightarrow> inv (snd (ins k v s))"
    and inv_rem: "inv s \<Longrightarrow> inv (snd (rem k s))"
    and lookup_ins: "inv s \<Longrightarrow> fst (ins k v s) \<Longrightarrow> lookup (snd (ins k v s)) = (lookup s)(k \<mapsto> stored s v)"
    and ins_refused: "inv s \<Longrightarrow> \<not> fst (ins k v s) \<Longrightarrow> snd (ins k v s) = s"
    and lookup_rem: "inv s \<Longrightarrow> lookup (snd (rem k s)) = (lookup s)(k := None)"
    and rem_found: "inv s \<Longrightarrow> fst (rem k s) \<longleftrightarrow> lookup s k \<noteq> None"
begin

lemma inv_remove_all: "inv s \<Longrightarrow> inv (snd (remove_all rem ks s))"
proof (induction ks arbitrary: s)
  case (Cons k ks)
  then show ?case using Cons.IH [OF inv_rem [of s k]] by (auto simp: Let_def split: prod.splits)
qed simp

lemma inv_insert_all: "inv s \<Longrightarrow> inv (snd (insert_all ins kvs s))"
proof (induction kvs arbitrary: s)
  case (Cons kv kvs)
  then show ?case
    using Cons.IH [OF inv_ins [of s "fst kv" "snd kv"]] by (cases kv) (auto simp: Let_def split: prod.splits)
qed simp

lemma lookup_remove_all: "inv s \<Longrightarrow> lookup (snd (remove_all rem ks s)) = (lookup s) |` (- set ks)"
proof (induction ks arbitrary: s)
  case (Cons k ks)
  have "snd (remove_all rem (k # ks) s) = snd (remove_all rem ks (snd (rem k s)))"
    by (simp add: Let_def split: prod.splits)
  moreover have "lookup (snd (rem k s)) |` (- set ks) = (lookup s) |` (- set (k # ks))"
    using lookup_rem [OF Cons.prems] by (auto simp: restrict_map_def)
  ultimately show ?case using Cons.IH [OF inv_rem [OF Cons.prems]] by simp
qed (simp add: restrict_map_def)

text \<open>Each key that was present is counted exactly once.\<close>

lemma count_remove_all: "inv s \<Longrightarrow> fst (remove_all rem ks s) = card (set ks \<inter> dom (lookup s))"
proof (induction ks arbitrary: s)
  case (Cons k ks)
  have dom: "dom (lookup (snd (rem k s))) = dom (lookup s) - {k}"
    using lookup_rem [OF Cons.prems] by (auto simp: dom_def)
  have fin: "finite (set ks \<inter> (dom (lookup s) - {k}))" by simp
  have "fst (remove_all rem (k # ks) s) =
      (if fst (rem k s) then 1 else 0) + fst (remove_all rem ks (snd (rem k s)))"
    by (simp add: Let_def split: prod.splits)
  also have "\<dots> = (if lookup s k \<noteq> None then 1 else 0) + card (set ks \<inter> (dom (lookup s) - {k}))"
    using Cons.IH [OF inv_rem [OF Cons.prems]] rem_found [OF Cons.prems] dom by simp
  also have "\<dots> = card (set (k # ks) \<inter> dom (lookup s))"
  proof (cases "lookup s k")
    case None
    then have "set (k # ks) \<inter> dom (lookup s) = set ks \<inter> (dom (lookup s) - {k})" by (auto simp: dom_def)
    with None show ?thesis by simp
  next
    case (Some v)
    then have "set (k # ks) \<inter> dom (lookup s) = insert k (set ks \<inter> (dom (lookup s) - {k}))" by auto
    then have "card (set (k # ks) \<inter> dom (lookup s)) = card (insert k (set ks \<inter> (dom (lookup s) - {k})))" by simp
    then show ?thesis using Some card_insert_disjoint [OF fin, of k] by simp
  qed
  finally show ?case .
qed simp

text \<open>Bulk insertion touches no key outside its list and never loses a key.\<close>

lemma lookup_insert_all_other:
  "inv s \<Longrightarrow> k \<notin> fst ` set kvs \<Longrightarrow> lookup (snd (insert_all ins kvs s)) k = lookup s k"
proof (induction kvs arbitrary: s)
  case (Cons kv kvs)
  have "lookup (snd (ins (fst kv) (snd kv) s)) k = lookup s k"
    using Cons.prems lookup_ins [OF Cons.prems(1)] ins_refused [OF Cons.prems(1)]
    by (cases "fst (ins (fst kv) (snd kv) s)") auto
  with Cons.IH [OF inv_ins [OF Cons.prems(1)], of "fst kv" "snd kv"] Cons.prems(2) show ?case
    by (cases kv) (auto simp: Let_def split: prod.splits)
qed simp

lemma dom_ins: "inv s \<Longrightarrow> dom (lookup s) \<subseteq> dom (lookup (snd (ins k v s)))"
  using lookup_ins [of s k v] ins_refused [of s k v] by (cases "fst (ins k v s)") auto

lemma dom_insert_all: "inv s \<Longrightarrow> dom (lookup s) \<subseteq> dom (lookup (snd (insert_all ins kvs s)))"
proof (induction kvs arbitrary: s)
  case (Cons kv kvs)
  have "snd (insert_all ins (kv # kvs) s) = snd (insert_all ins kvs (snd (ins (fst kv) (snd kv) s)))"
    by (cases kv) (simp add: Let_def split: prod.splits)
  moreover have "dom (lookup s) \<subseteq> dom (lookup (snd (ins (fst kv) (snd kv) s)))" using Cons.prems by (rule dom_ins)
  ultimately show ?case using Cons.IH [OF inv_ins [OF Cons.prems], of "fst kv" "snd kv"] by (metis order_trans)
qed simp

end

end
