(* ===== verification/Names.thy ===== *)
theory Names
  imports Prelude
begin

text \<open>
  Validation of names. The API server (\<^verbatim>\<open>honeypots/k8s/handler\<close>) and the configuration loader
  (\<^verbatim>\<open>config/config.go\<close>) each have their own validators for object names, namespaces and Secret data
  keys. A name the loader accepts and the server refuses would be a configured honeytoken that
  silently never appears, so the two families are shown to agree. Both iterate over a string whose
  non-ASCII characters are all refused, so ranging over runes and over bytes give the same answer.
\<close>

section \<open>\<^verbatim>\<open>handler/api.go\<close> and \<^verbatim>\<open>handler/state.go\<close>\<close>

definition validObjectName :: "string \<Rightarrow> bool" where
  "validObjectName value \<longleftrightarrow>
     \<not> (value = [] \<or> length value > 253) \<and>
     list_all (\<lambda>label.
       \<not> (length label = 0 \<or> length label > 63) \<and>
       list_all (\<lambda>(index, character).
         let valid = CHR ''a'' \<le> character \<and> character \<le> CHR ''z'' \<or> CHR ''0'' \<le> character \<and> character \<le> CHR ''9''
         in \<not> (\<not> valid \<and> \<not> (character = CHR ''-'' \<and> index > 0 \<and> index < length label - 1)))
         (enumerate 0 label))
       (go_split (CHR ''.'') value)"

definition validNamespaceName :: "string \<Rightarrow> bool" where
  "validNamespaceName value \<longleftrightarrow>
     length value \<le> 63 \<and> \<not> contains_str value ''.'' \<and> validObjectName value"

definition validSecretDataKey :: "string \<Rightarrow> bool" where
  "validSecretDataKey key \<longleftrightarrow>
     \<not> (key = [] \<or> length key > 253) \<and>
     list_all (\<lambda>character.
       CHR ''a'' \<le> character \<and> character \<le> CHR ''z'' \<or> CHR ''A'' \<le> character \<and> character \<le> CHR ''Z'' \<or>
       CHR ''0'' \<le> character \<and> character \<le> CHR ''9'' \<or>
       character = CHR ''-'' \<or> character = CHR ''_'' \<or> character = CHR ''.'') key"

section \<open>\<^verbatim>\<open>config/config.go\<close>\<close>

abbreviation maxNamespaceBytes :: nat where "maxNamespaceBytes \<equiv> 63"

definition isLowerAlphaNumeric :: "char \<Rightarrow> bool" where
  "isLowerAlphaNumeric c \<longleftrightarrow> CHR ''a'' \<le> c \<and> c \<le> CHR ''z'' \<or> CHR ''0'' \<le> c \<and> c \<le> CHR ''9''"

definition validTokenName :: "string \<Rightarrow> bool" where
  "validTokenName name \<longleftrightarrow>
     \<not> (length name = 0 \<or> length name > 253) \<and>
     list_all (\<lambda>label.
       \<not> (length label = 0 \<or> length label > 63 \<or>
          \<not> isLowerAlphaNumeric (label ! 0) \<or> \<not> isLowerAlphaNumeric (label ! (length label - 1))) \<and>
       list_all (\<lambda>i. \<not> (\<not> isLowerAlphaNumeric (label ! i) \<and> label ! i \<noteq> CHR ''-'')) [1..<length label - 1])
       (go_split (CHR ''.'') name)"

definition validDNSLabel :: "string \<Rightarrow> bool" where
  "validDNSLabel value \<longleftrightarrow>
     \<not> (length value = 0 \<or> length value > maxNamespaceBytes \<or>
        \<not> isLowerAlphaNumeric (value ! 0) \<or> \<not> isLowerAlphaNumeric (value ! (length value - 1))) \<and>
     list_all (\<lambda>i. \<not> (\<not> isLowerAlphaNumeric (value ! i) \<and> value ! i \<noteq> CHR ''-'')) [1..<length value - 1]"

definition validHoneytokenType :: "string \<Rightarrow> bool" where
  "validHoneytokenType value =
     (if length value = 0 \<or> length value > 256 then False
      else if value = ''Opaque'' then True
      else if count_list value (CHR 0x2F) \<noteq> 1 then False
      else (case cut_at [CHR 0x2F] value of
              Some (a, b) \<Rightarrow> validTokenName a \<and> validDNSLabel b
            | None \<Rightarrow> False))"

text \<open>\<^verbatim>\<open>validSecretDataKey\<close> of the configuration package.\<close>

definition config_validSecretDataKey :: "string \<Rightarrow> bool" where
  "config_validSecretDataKey value \<longleftrightarrow>
     \<not> (length value = 0 \<or> length value > 253) \<and>
     list_all (\<lambda>char.
       \<not> (\<not> isLowerAlphaNumeric char \<and> \<not> (CHR ''A'' \<le> char \<and> char \<le> CHR ''Z'') \<and>
          char \<noteq> CHR ''-'' \<and> char \<noteq> CHR ''_'' \<and> char \<noteq> CHR ''.'')) value"

section \<open>A common reading of both\<close>

text \<open>A DNS label: alphanumeric at both ends, with hyphens allowed inside.\<close>

definition dns_label :: "string \<Rightarrow> bool" where
  "dns_label l \<longleftrightarrow>
     l \<noteq> [] \<and> length l \<le> 63 \<and>
     isLowerAlphaNumeric (hd l) \<and> isLowerAlphaNumeric (last l) \<and>
     (\<forall>c \<in> set l. isLowerAlphaNumeric c \<or> c = CHR ''-'')"

lemma hyphen_not_alnum [simp]: "\<not> isLowerAlphaNumeric (CHR ''-'')"
  by (simp add: isLowerAlphaNumeric_def)

lemma dot_not_alnum [simp]: "\<not> isLowerAlphaNumeric (CHR ''.'')"
  by (simp add: isLowerAlphaNumeric_def)

text \<open>Both loops over a label decide \<^const>\<open>dns_label\<close>.\<close>

lemma dns_label_nth:
  "dns_label l \<longleftrightarrow>
     l \<noteq> [] \<and> length l \<le> 63 \<and>
     (\<forall>i < length l. isLowerAlphaNumeric (l ! i) \<or> l ! i = CHR ''-'' \<and> 0 < i \<and> i < length l - 1)"
proof (cases "l = []")
  case False
  have "isLowerAlphaNumeric (l ! i) \<or> l ! i = CHR ''-'' \<and> 0 < i \<and> i < length l - 1"
    if "dns_label l" "i < length l" for i
  proof (cases "i = 0 \<or> i = length l - 1")
    case True
    then show ?thesis using that False by (auto simp: dns_label_def hd_conv_nth last_conv_nth)
  next
    case inner: False
    then show ?thesis using that by (auto simp: dns_label_def)
  qed
  moreover have "dns_label l"
    if "length l \<le> 63"
      and pos: "\<forall>i < length l. isLowerAlphaNumeric (l ! i) \<or> l ! i = CHR ''-'' \<and> 0 < i \<and> i < length l - 1"
  proof -
    have "isLowerAlphaNumeric (l ! 0)" "isLowerAlphaNumeric (l ! (length l - 1))"
      using pos False by (metis length_greater_0_conv less_irrefl, metis diff_less length_greater_0_conv less_irrefl less_one)
    with pos that(1) False show ?thesis
      by (auto simp: dns_label_def hd_conv_nth last_conv_nth in_set_conv_nth)
  qed
  ultimately show ?thesis using False by (auto simp: dns_label_def)
qed (simp add: dns_label_def)

lemma list_all_enumerate: "list_all P (enumerate 0 l) \<longleftrightarrow> (\<forall>i < length l. P (i, l ! i))"
  by (auto simp: list_all_iff in_set_enumerate_eq)

lemma validObjectName_dns [name_simps]:
  "validObjectName s \<longleftrightarrow> s \<noteq> [] \<and> length s \<le> 253 \<and> list_all dns_label (go_split (CHR ''.'') s)"
proof -
  have eq: "dns_label = (\<lambda>l. \<not> (length l = 0 \<or> length l > 63) \<and>
      list_all (\<lambda>(index, character).
         let valid = CHR ''a'' \<le> character \<and> character \<le> CHR ''z'' \<or> CHR ''0'' \<le> character \<and> character \<le> CHR ''9''
         in \<not> (\<not> valid \<and> \<not> (character = CHR ''-'' \<and> index > 0 \<and> index < length l - 1))) (enumerate 0 l))"
    unfolding fun_eq_iff dns_label_nth list_all_enumerate isLowerAlphaNumeric_def [symmetric] Let_def by auto
  show ?thesis unfolding validObjectName_def eq by (simp only: not_less de_Morgan_disj conj_assoc)
qed

lemma validDNSLabel_dns [name_simps]: "validDNSLabel s = dns_label s"
proof (cases "s = []")
  case False
  have "(\<forall>i < n. P i \<or> Q i \<and> 0 < i \<and> i < n - 1) \<longleftrightarrow>
      P 0 \<and> P (n - 1) \<and> (\<forall>i. 1 \<le> i \<and> i < n - 1 \<longrightarrow> P i \<or> Q i)" if "0 < n" for P Q and n :: nat
  proof -
    have split: "(\<forall>i < n. R i) \<longleftrightarrow> R 0 \<and> R (n - 1) \<and> (\<forall>i. 1 \<le> i \<and> i < n - 1 \<longrightarrow> R i)" for R
    proof -
      have "i = 0 \<or> i = n - 1 \<or> 1 \<le> i \<and> i < n - 1" if "i < n" for i using that by linarith
      then show ?thesis using \<open>0 < n\<close> by auto
    qed
    show ?thesis unfolding split [of "\<lambda>i. P i \<or> Q i \<and> 0 < i \<and> i < n - 1"] by auto
  qed
  from this [of "length s" "\<lambda>i. isLowerAlphaNumeric (s ! i)" "\<lambda>i. s ! i = CHR ''-''"] False
  have "dns_label s \<longleftrightarrow> length s \<le> 63 \<and> isLowerAlphaNumeric (s ! 0) \<and> isLowerAlphaNumeric (s ! (length s - 1)) \<and>
      (\<forall>i. 1 \<le> i \<and> i < length s - 1 \<longrightarrow> isLowerAlphaNumeric (s ! i) \<or> s ! i = CHR ''-'')"
    unfolding dns_label_nth by simp
  with False show ?thesis unfolding validDNSLabel_def list_all_iff by auto
qed (simp add: validDNSLabel_def dns_label_def)

lemma validTokenName_dns [name_simps]:
  "validTokenName s \<longleftrightarrow> s \<noteq> [] \<and> length s \<le> 253 \<and> list_all dns_label (go_split (CHR ''.'') s)"
proof -
  have "validTokenName s \<longleftrightarrow> s \<noteq> [] \<and> length s \<le> 253 \<and> list_all validDNSLabel (go_split (CHR ''.'') s)"
    unfolding validTokenName_def validDNSLabel_def by (simp add: not_less)
  moreover have "validDNSLabel = dns_label" by (rule ext) (rule validDNSLabel_dns)
  ultimately show ?thesis by simp
qed

lemma contains_char [simp]: "contains_str s [c] \<longleftrightarrow> c \<in> set s"
  by (simp add: contains_str_def cut_at_single)

lemma dns_label_alphabet: "dns_label l \<Longrightarrow> c \<in> set l \<Longrightarrow> isLowerAlphaNumeric c \<or> c = CHR ''-''"
  by (auto simp: dns_label_def)

lemma validNamespaceName_dns [name_simps]: "validNamespaceName s = dns_label s"
proof -
  have "CHR ''.'' \<notin> set s" if "dns_label s" using dns_label_alphabet [OF that] by force
  then show ?thesis
    by (auto simp: validNamespaceName_def validObjectName_dns go_split_no_occ dns_label_def)
qed

text \<open>
  Every character of a valid object name is a lower-case letter, a digit, a hyphen or a dot: no
  slash, NUL or percent sign can reach a request path or a stored key through a name.
\<close>

lemma validObjectName_alphabet:
  assumes "validObjectName s" "c \<in> set s"
  shows "isLowerAlphaNumeric c \<or> c = CHR ''-'' \<or> c = CHR ''.''"
proof -
  have "c = sep \<or> (\<exists>w \<in> set (go_split sep t). c \<in> set w)" if "c \<in> set t" for t sep
    using that by (induction t) (auto split: list.splits if_splits)
  from this [of s "CHR ''.''"] assms show ?thesis
    by (auto simp: validObjectName_dns list_all_iff dest: dns_label_alphabet)
qed

text \<open>
  The configuration loader and the API server agree on what a valid name is: for every string
  the loader's DNS-subdomain check and the server's object-name check give the same answer, and so do
  the two checks for namespaces and for Secret data keys.
\<close>

lemma config_validators_agree:
  "validTokenName s = validObjectName s \<and>
   validDNSLabel s = validNamespaceName s \<and>
   config_validSecretDataKey s = validSecretDataKey s"
  by (auto simp: name_simps config_validSecretDataKey_def validSecretDataKey_def isLowerAlphaNumeric_def list_all_iff)

text \<open>
  An accepted Secret type is at most 256 bytes long, and is either Opaque or a valid subdomain and a
  valid label joined by one slash.
\<close>

lemma validHoneytokenType_iff:
  "validHoneytokenType t \<longleftrightarrow>
     length t \<le> 256 \<and>
     (t = ''Opaque'' \<or> (\<exists>a b. t = a @ CHR 0x2F # b \<and> validTokenName a \<and> validDNSLabel b))"
proof -
  have no_slash: "CHR 0x2F \<notin> set b" if "validDNSLabel b" for b
    using dns_label_alphabet [of b "CHR 0x2F"] that by (auto simp: name_simps isLowerAlphaNumeric_def)
  have no_slash': "CHR 0x2F \<notin> set a" if "validTokenName a" for a
    using validObjectName_alphabet [of a "CHR 0x2F"] that by (auto simp: validTokenName_dns validObjectName_dns isLowerAlphaNumeric_def)
  have cut: "cut_at [CHR 0x2F] (a @ CHR 0x2F # b) = Some (a, b)" if "CHR 0x2F \<notin> set a" for a b
    using that by (induction a) (auto simp: has_prefix_def)
  have uncut: "t = a @ CHR 0x2F # b" if "cut_at [CHR 0x2F] t = Some (a, b)" for a b
    using that by (induction t arbitrary: a b) (auto simp: has_prefix_def split: if_splits)
  have one: "count_list (a @ CHR 0x2F # b) (CHR 0x2F) = 1" if "validTokenName a" "validDNSLabel b" for a b
    using no_slash no_slash' that by (simp add: count_list_0_iff)
  have "validHoneytokenType (a @ CHR 0x2F # b)" if "length (a @ CHR 0x2F # b) \<le> 256" "validTokenName a" "validDNSLabel b" for a b
    using that cut [OF no_slash' [OF that(2)], of b] one [OF that(2,3)] by (simp add: validHoneytokenType_def)
  moreover have "\<exists>a b. t = a @ CHR 0x2F # b \<and> validTokenName a \<and> validDNSLabel b"
    if "validHoneytokenType t" "t \<noteq> ''Opaque''"
    using that uncut by (fastforce simp: validHoneytokenType_def split: option.splits if_splits)
  moreover have "validHoneytokenType t \<Longrightarrow> length t \<le> 256" "validHoneytokenType ''Opaque''"
    by (simp_all add: validHoneytokenType_def split: if_splits)
  ultimately show ?thesis by blast
qed

end
