(* ===== verification/GoValue.thy ===== *)
theory GoValue
  imports Prelude
begin

text \<open>
  Dynamic Go values. The simulated API server keeps every object as a
  \<^verbatim>\<open>map[string]any\<close>; this theory gives the values such a map can hold, the typed
  accessors of \<^verbatim>\<open>table.go\<close> and \<^verbatim>\<open>api.go\<close> (\<^verbatim>\<open>objectMap\<close>, \<^verbatim>\<open>objectList\<close>, \<^verbatim>\<open>intField\<close>,
  \<^verbatim>\<open>stringField\<close>, \<^verbatim>\<open>anyString\<close>, \<^verbatim>\<open>orDefault\<close>), \<^verbatim>\<open>encoding/json\<close>'s \<^verbatim>\<open>Marshal\<close> and the deep copy
  \<^verbatim>\<open>cloneObject\<close> of \<^verbatim>\<open>state.go\<close>, which is a JSON round trip.

  What is left out: a float is written by its shortest decimal \<open>m * 10 ^ e\<close> (the text that
  \<^verbatim>\<open>encoding/json\<close> prints), so the rounding of integers beyond \<open>2 ^ 53\<close> is not visible, and
  strings are taken to be valid UTF-8 (what the JSON and YAML decoders deliver).
\<close>

datatype gval =
    GNil
  | GBool bool
  | GInt int \<comment> \<open>\<^verbatim>\<open>int\<close>, \<^verbatim>\<open>int64\<close>, \<^verbatim>\<open>uint64\<close>\<close>
  | GFloat int int \<comment> \<open>\<^verbatim>\<open>float64\<close>: mantissa and decimal exponent\<close>
  | GStr string
  | GList "gval list" \<comment> \<open>\<^verbatim>\<open>[]any\<close>\<close>
  | GStrs "string list" \<comment> \<open>\<^verbatim>\<open>[]string\<close>\<close>
  | GMap "(string \<times> gval) list" \<comment> \<open>\<^verbatim>\<open>map[string]any\<close>\<close>
  | GStrMap "(string \<times> string) list" \<comment> \<open>\<^verbatim>\<open>map[string]string\<close>\<close>

type_synonym gobj = "(string \<times> gval) list"

section \<open>Maps and type assertions\<close>

text \<open>\<^verbatim>\<open>m[k]\<close> of a \<^verbatim>\<open>map[string]any\<close> is \<^verbatim>\<open>nil\<close> for a missing key; \<^verbatim>\<open>_, ok := m[k]\<close> is \<open>has_key\<close>.\<close>

definition gget :: "gobj \<Rightarrow> string \<Rightarrow> gval" where
  "gget m k = (case map_of m k of None \<Rightarrow> GNil | Some v \<Rightarrow> v)"

definition has_key :: "gobj \<Rightarrow> string \<Rightarrow> bool" where
  "has_key m k \<longleftrightarrow> map_of m k \<noteq> None"

abbreviation gset :: "string \<Rightarrow> gval \<Rightarrow> gobj \<Rightarrow> gobj" where
  "gset k v m \<equiv> AList.update k v m"

text \<open>A Go map is a finite function: its entries are distinct at every level.\<close>

fun wf_gval :: "gval \<Rightarrow> bool" where
  "wf_gval (GMap m) = (distinct (map fst m) \<and> list_all (\<lambda>kv. wf_gval (snd kv)) m)"
| "wf_gval (GList vs) = list_all wf_gval vs"
| "wf_gval (GStrMap m) = distinct (map fst m)"
| "wf_gval _ = True"

definition objectMap :: "gval \<Rightarrow> gobj" where
  "objectMap value = (case value of GMap m \<Rightarrow> m | _ \<Rightarrow> [])"

definition objectList :: "gval \<Rightarrow> gval list" where
  "objectList value = (case value of GList l \<Rightarrow> l | _ \<Rightarrow> [])"

text \<open>\<^verbatim>\<open>s, ok := v.(string)\<close> and \<^verbatim>\<open>b, ok := v.(bool)\<close>.\<close>

definition as_string :: "gval \<Rightarrow> string option" where
  "as_string v = (case v of GStr s \<Rightarrow> Some s | _ \<Rightarrow> None)"

definition as_bool :: "gval \<Rightarrow> bool option" where
  "as_bool v = (case v of GBool b \<Rightarrow> Some b | _ \<Rightarrow> None)"

definition stringField :: "gobj \<Rightarrow> string \<Rightarrow> string" where
  "stringField object key = (case as_string (gget object key) of Some s \<Rightarrow> s | None \<Rightarrow> [])"

definition orDefault :: "string \<Rightarrow> string \<Rightarrow> string" where
  "orDefault value fallback = (if value = [] then fallback else value)"

section \<open>Numbers\<close>

text \<open>\<^verbatim>\<open>int(x)\<close> of an unsigned 64-bit value wraps; of a float it truncates, and an unrepresentable
  value becomes the least \<^verbatim>\<open>int64\<close> (amd64).\<close>

definition wrap_int64 :: "int \<Rightarrow> int" where
  "wrap_int64 i = (i + 2 ^ 63) mod 2 ^ 64 - 2 ^ 63"

definition float_trunc :: "int \<Rightarrow> int \<Rightarrow> int" where
  "float_trunc m e = (if 0 \<le> e then m * 10 ^ nat e else sgn m * (\<bar>m\<bar> div 10 ^ nat (- e)))"

definition float_to_int :: "int \<Rightarrow> int \<Rightarrow> int" where
  "float_to_int m e =
     (let t = float_trunc m e in if - (2 ^ 63) \<le> t \<and> t < 2 ^ 63 then t else - (2 ^ 63))"

definition intField :: "gobj \<Rightarrow> string \<Rightarrow> int" where
  "intField object key =
     (case gget object key of
        GInt i \<Rightarrow> wrap_int64 i
      | GFloat m e \<Rightarrow> float_to_int m e
      | _ \<Rightarrow> 0)"

lemma wrap_int64_id [simp]: "- (2 ^ 63) \<le> i \<Longrightarrow> i < 2 ^ 63 \<Longrightarrow> wrap_int64 i = i"
  by (simp add: wrap_int64_def)

lemma wrap_int64_range: "- (2 ^ 63) \<le> wrap_int64 i \<and> wrap_int64 i < 2 ^ 63"
  using pos_mod_sign [of "2 ^ 64" "i + 2 ^ 63"] pos_mod_bound [of "2 ^ 64" "i + 2 ^ 63"]
  by (simp add: wrap_int64_def)

lemma intField_range: "- (2 ^ 63) \<le> intField object key \<and> intField object key < 2 ^ 63"
  using wrap_int64_range by (auto simp: intField_def float_to_int_def Let_def split: gval.splits)

text \<open>The shortest decimal without trailing zeros, and its two printed forms.\<close>

function strip_zeros :: "nat \<Rightarrow> int \<Rightarrow> nat \<times> int" where
  "strip_zeros m e = (if 0 < m \<and> m mod 10 = 0 then strip_zeros (m div 10) (e + 1) else (m, e))"
  by pat_completeness auto
termination
  by (relation "measure (\<lambda>(m, e). m)") auto

declare strip_zeros.simps [simp del]

definition fixed_text :: "nat \<Rightarrow> int \<Rightarrow> string" where
  "fixed_text m e =
     (let ds = show_nat m; point = int (length ds) + e
      in if 0 \<le> e then ds @ replicate (nat e) (CHR ''0'')
         else if point \<le> 0 then ''0.'' @ replicate (nat (- point)) (CHR ''0'') @ ds
         else take (nat point) ds @ ''.'' @ drop (nat point) ds)"

text \<open>Exponent form, with at least \<open>w\<close> exponent digits.\<close>

definition exp_text :: "nat \<Rightarrow> nat \<Rightarrow> int \<Rightarrow> string" where
  "exp_text w m e =
     (let ds = show_nat m; x = int (length ds) + e - 1
      in hd ds # (if tl ds = [] then [] else CHR ''.'' # tl ds) @ ''e''
         @ (if x < 0 then ''-'' else ''+'') @ pad_nat w (nat \<bar>x\<bar>))"

text \<open>\<^verbatim>\<open>encoding/json\<close> prints a number below \<open>10 ^ 21\<close> and not below \<open>10 ^ -6\<close> in magnitude plainly, others in
  exponent form. A Go integer has at most 20 digits, so it is printed as \<^verbatim>\<open>strconv.Itoa\<close> would.\<close>

definition number_text :: "int \<Rightarrow> int \<Rightarrow> string" where
  "number_text m e =
     (if 0 \<le> e \<and> \<bar>m * 10 ^ nat e\<bar> < 10 ^ 21 then show_int (m * 10 ^ nat e)
      else (let (a, x) = strip_zeros (nat \<bar>m\<bar>) e; point = int (length (show_nat a)) + x
            in (if m < 0 then ''-'' else '''') @
               (if m \<noteq> 0 \<and> (point \<le> - 6 \<or> 22 \<le> point) then exp_text 1 a x else fixed_text a x)))"

lemma number_text_int: "\<bar>i\<bar> < 10 ^ 21 \<Longrightarrow> number_text i 0 = show_int i"
  by (simp add: number_text_def)

section \<open>\<^verbatim>\<open>json.Marshal\<close> and \<^verbatim>\<open>cloneObject\<close>\<close>

definition hex_digit :: "nat \<Rightarrow> char" where
  "hex_digit d = (if d < 10 then char_of (48 + d) else char_of (87 + d))"

definition unicode_escape :: "nat \<Rightarrow> string" where
  "unicode_escape n =
     [CHR 0x5C, CHR ''u'', hex_digit (n div 4096 mod 16), hex_digit (n div 256 mod 16),
      hex_digit (n div 16 mod 16), hex_digit (n mod 16)]"

definition escape_char :: "char \<Rightarrow> string" where
  "escape_char c =
     (if c = CHR 0x22 then [CHR 0x5C, CHR 0x22]
      else if c = CHR 0x5C then [CHR 0x5C, CHR 0x5C]
      else if c = CHR 0x08 then [CHR 0x5C, CHR ''b'']
      else if c = CHR 0x0C then [CHR 0x5C, CHR ''f'']
      else if c = CHR 0x0A then [CHR 0x5C, CHR ''n'']
      else if c = CHR 0x0D then [CHR 0x5C, CHR ''r'']
      else if c = CHR 0x09 then [CHR 0x5C, CHR ''t'']
      else if (of_char c :: nat) < 32 \<or> c = CHR ''<'' \<or> c = CHR ''>'' \<or> c = CHR ''&''
      then unicode_escape (of_char c)
      else [c])"

text \<open>The line separators U+2028 and U+2029 (bytes E2 80 A8 and E2 80 A9) are escaped too.\<close>

fun escape_string :: "string \<Rightarrow> string" where
  "escape_string [] = []"
| "escape_string (c # cs) =
     (if has_prefix (c # cs) [CHR 0xE2, CHR 0x80, CHR 0xA8] then unicode_escape 0x2028 @ escape_string (drop 2 cs)
      else if has_prefix (c # cs) [CHR 0xE2, CHR 0x80, CHR 0xA9] then unicode_escape 0x2029 @ escape_string (drop 2 cs)
      else escape_char c @ escape_string cs)"

definition json_quote :: "string \<Rightarrow> string" where
  "json_quote s = CHR 0x22 # escape_string s @ [CHR 0x22]"

text \<open>Keys are written in increasing order.\<close>

definition json_object :: "(string \<times> string) list \<Rightarrow> string" where
  "json_object fields =
     ''{'' @ go_join '','' (map (\<lambda>(k, t). json_quote k @ '':'' @ t) (sort_key fst fields)) @ ''}''"

fun marshal :: "gval \<Rightarrow> string" where
  "marshal GNil = ''null''"
| "marshal (GBool b) = (if b then ''true'' else ''false'')"
| "marshal (GInt i) = number_text i 0"
| "marshal (GFloat m e) = number_text m e"
| "marshal (GStr s) = json_quote s"
| "marshal (GList vs) = ''['' @ go_join '','' (map marshal vs) @ '']''"
| "marshal (GStrs ss) = ''['' @ go_join '','' (map json_quote ss) @ '']''"
| "marshal (GMap m) = json_object (map (\<lambda>(k, v). (k, marshal v)) m)"
| "marshal (GStrMap m) = json_object (map (\<lambda>(k, s). (k, json_quote s)) m)"

text \<open>Decoding what \<^const>\<open>marshal\<close> wrote gives the same value with every number a float and every
  typed map or slice a \<^verbatim>\<open>map[string]any\<close> or \<^verbatim>\<open>[]any\<close>.\<close>

fun clone :: "gval \<Rightarrow> gval" where
  "clone GNil = GNil"
| "clone (GBool b) = GBool b"
| "clone (GInt i) = GFloat i 0"
| "clone (GFloat m e) = GFloat m e"
| "clone (GStr s) = GStr s"
| "clone (GList vs) = GList (map clone vs)"
| "clone (GStrs ss) = GList (map GStr ss)"
| "clone (GMap m) = GMap (map (\<lambda>(k, v). (k, clone v)) m)"
| "clone (GStrMap m) = GMap (map (\<lambda>(k, s). (k, GStr s)) m)"

definition cloneObject :: "gobj \<Rightarrow> gobj" where
  "cloneObject object = map (\<lambda>(k, v). (k, clone v)) object"

definition encodedLen :: "gobj \<Rightarrow> nat" where
  "encodedLen object = length (marshal (GMap object))"

text \<open>The copy encodes to the same bytes: the store may account with either.\<close>

lemma escape_char_len: "length (escape_char c) \<le> 6"
  by (simp add: escape_char_def unicode_escape_def)

lemma escape_string_len: "length (escape_string cs) \<le> 6 * length cs"
proof (induction cs rule: escape_string.induct)
  case (2 c cs)
  have *: "6 + n \<le> 6 + 6 * length cs" if "n \<le> 6 * (length cs - 2)" for n
    using that by linarith
  show ?case
    using 2 escape_char_len [of c] by (auto simp: unicode_escape_def intro: le_trans [OF _ * [unfolded add_le_cancel_left]])
qed simp

lemma marshal_clone [simp]: "marshal (clone v) = marshal v"
proof (induction v)
  case (GMap m)
  then have "map (\<lambda>(k, v). (k, marshal v)) (map (\<lambda>(k, v). (k, clone v)) m) = map (\<lambda>(k, v). (k, marshal v)) m"
    by (force simp: snds.simps)
  then show ?case by (simp only: clone.simps marshal.simps)
next
  case (GStrMap m)
  have "map (\<lambda>(k, v). (k, marshal v)) (map (\<lambda>(k, s). (k, GStr s)) m) = map (\<lambda>(k, s). (k, json_quote s)) m"
    by auto
  then show ?case by (simp only: clone.simps marshal.simps)
qed (simp_all add: comp_def cong: map_cong)

lemma clone_clone [simp]: "clone (clone v) = clone v"
proof (induction v)
  case (GMap m)
  then have "map (\<lambda>(k, v). (k, clone v)) (map (\<lambda>(k, v). (k, clone v)) m) = map (\<lambda>(k, v). (k, clone v)) m"
    by (force simp: snds.simps)
  then show ?case by (simp only: clone.simps)
next
  case (GStrMap m)
  have "map (\<lambda>(k, v). (k, clone v)) (map (\<lambda>(k, s). (k, GStr s)) m) = map (\<lambda>(k, s). (k, GStr s)) m"
    by auto
  then show ?case by (simp only: clone.simps)
qed (simp_all add: comp_def cong: map_cong)

lemma clone_GMap: "clone (GMap m) = GMap (cloneObject m)"
  by (simp add: cloneObject_def)

lemma encodedLen_cloneObject [simp]: "encodedLen (cloneObject object) = encodedLen object"
  using marshal_clone [of "GMap object"]
  by (simp only: clone.simps encodedLen_def cloneObject_def)

lemma cloneObject_idem [simp]: "cloneObject (cloneObject object) = cloneObject object"
  by (auto simp: cloneObject_def)

lemma map_of_cloneObject [simp]: "map_of (cloneObject object) k = map_option clone (map_of object k)"
  by (induction object) (auto simp: cloneObject_def)

lemma gget_cloneObject: "gget (cloneObject object) k = clone (gget object k)"
  by (auto simp: gget_def split: option.splits)

lemma has_key_cloneObject [simp]: "has_key (cloneObject object) k = has_key object k"
  by (auto simp: has_key_def)

lemma keys_cloneObject [simp]: "map fst (cloneObject object) = map fst object"
  by (induction object) (auto simp: cloneObject_def)

lemma as_string_clone [simp]: "as_string (clone v) = as_string v"
  by (cases v) (auto simp: as_string_def)

lemma stringField_cloneObject [simp]: "stringField (cloneObject object) k = stringField object k"
  by (simp add: stringField_def gget_cloneObject)

lemma objectMap_clone: "wf_gval v \<Longrightarrow> (\<nexists>m. v = GStrMap m) \<Longrightarrow> objectMap (clone v) = cloneObject (objectMap v)"
  by (cases v) (auto simp: objectMap_def cloneObject_def)

lemma gget_gset [simp]: "gget (gset k v m) k' = (if k = k' then v else gget m k')"
  by (simp add: gget_def)

lemma has_key_gset [simp]: "has_key (gset k v m) k' \<longleftrightarrow> k = k' \<or> has_key m k'"
  by (auto simp: has_key_def)

lemma gget_Nil [simp]: "gget [] k = GNil"
  by (simp add: gget_def)

lemma objectMap_GMap [simp]: "objectMap (GMap m) = m"
  by (simp add: objectMap_def)

lemma objectMap_GNil [simp]: "objectMap GNil = []"
  by (simp add: objectMap_def)

section \<open>Rendering\<close>

text \<open>\<^verbatim>\<open>fmt.Sprint\<close> of a value: floats in \<^verbatim>\<open>%g\<close> form, maps in key order.\<close>

definition sprint_float :: "int \<Rightarrow> int \<Rightarrow> string" where
  "sprint_float m e =
     (let (a, x) = strip_zeros (nat \<bar>m\<bar>) (if m = 0 then 0 else e); point = int (length (show_nat a)) + x
      in (if m < 0 then ''-'' else '''') @
         (if m \<noteq> 0 \<and> (point - 1 < - 4 \<or> 6 \<le> point - 1) then exp_text 2 a x else fixed_text a x))"

fun go_sprint :: "gval \<Rightarrow> string" where
  "go_sprint GNil = ''<nil>''"
| "go_sprint (GBool b) = (if b then ''true'' else ''false'')"
| "go_sprint (GInt i) = show_int i"
| "go_sprint (GFloat m e) = sprint_float m e"
| "go_sprint (GStr s) = s"
| "go_sprint (GList vs) = ''['' @ go_join '' '' (map go_sprint vs) @ '']''"
| "go_sprint (GStrs ss) = ''['' @ go_join '' '' ss @ '']''"
| "go_sprint (GMap m) =
     ''map['' @ go_join '' '' (map (\<lambda>(k, t). k @ '':'' @ t) (sort_key fst (map (\<lambda>(k, v). (k, go_sprint v)) m))) @ '']''"
| "go_sprint (GStrMap m) = ''map['' @ go_join '' '' (map (\<lambda>(k, s). k @ '':'' @ s) (sort_key fst m)) @ '']''"

definition anyString :: "gval \<Rightarrow> string" where
  "anyString value =
     (case value of
        GStr s \<Rightarrow> s
      | GFloat m e \<Rightarrow>
          (let (a, x) = strip_zeros (nat \<bar>m\<bar>) (if m = 0 then 0 else e)
           in (if m < 0 then ''-'' else '''') @ fixed_text a x)
      | GInt i \<Rightarrow> show_int i
      | GNil \<Rightarrow> []
      | v \<Rightarrow> go_sprint v)"

text \<open>\<^verbatim>\<open>%q\<close>: a Go string literal. Non-ASCII text is taken to be printable and kept.\<close>

definition quote_char :: "char \<Rightarrow> string" where
  "quote_char c =
     (if c = CHR 0x22 then [CHR 0x5C, CHR 0x22]
      else if c = CHR 0x5C then [CHR 0x5C, CHR 0x5C]
      else if c = CHR 0x07 then [CHR 0x5C, CHR ''a'']
      else if c = CHR 0x08 then [CHR 0x5C, CHR ''b'']
      else if c = CHR 0x0C then [CHR 0x5C, CHR ''f'']
      else if c = CHR 0x0A then [CHR 0x5C, CHR ''n'']
      else if c = CHR 0x0D then [CHR 0x5C, CHR ''r'']
      else if c = CHR 0x09 then [CHR 0x5C, CHR ''t'']
      else if c = CHR 0x0B then [CHR 0x5C, CHR ''v'']
      else if (of_char c :: nat) < 32 \<or> (of_char c :: nat) = 127
      then [CHR 0x5C, CHR ''x'', hex_digit (of_char c div 16), hex_digit (of_char c mod 16)]
      else [c])"

definition go_quote :: "string \<Rightarrow> string" where
  "go_quote s = CHR 0x22 # concat (map quote_char s) @ [CHR 0x22]"

end
