(* ===== verification/Selectors.thy ===== *)
theory Selectors
  imports GoValue
begin

text \<open>
  Label and field selectors of list, watch and deletecollection requests
  (\<^verbatim>\<open>honeypots/k8s/handler/api.go\<close>): parsing, matching, the admissible field names and the page limit.
\<close>

record selectorRequirement =
  sel_key :: string
  sel_operator :: string
  sel_value :: string

section \<open>Matching\<close>

text \<open>\<^verbatim>\<open>actual, present := v.(string)\<close>\<close>

definition str_assert :: "gval \<Rightarrow> string \<times> bool" where
  "str_assert v = (case v of GStr s \<Rightarrow> (s, True) | _ \<Rightarrow> ([], False))"

definition matchesRequirement :: "string \<Rightarrow> bool \<Rightarrow> selectorRequirement \<Rightarrow> bool" where
  "matchesRequirement actual present requirement =
     (if sel_operator requirement = ''!='' then \<not> present \<or> actual \<noteq> sel_value requirement
      else present \<and> actual = sel_value requirement)"

text \<open>The \<^verbatim>\<open>switch requirement.key\<close> of \<^verbatim>\<open>objectMatches\<close>; \<open>None\<close> is its \<^verbatim>\<open>default\<close>.\<close>

definition field_actual :: "gobj \<Rightarrow> string \<Rightarrow> (string \<times> bool) option" where
  "field_actual object k =
     (let metadata = objectMap (gget object ''metadata'');
          involved = (let i = objectMap (gget object ''involvedObject'')
                      in if length i = 0 then objectMap (gget object ''regarding'') else i)
      in if k = ''metadata.name'' then Some (str_assert (gget metadata ''name''))
         else if k = ''metadata.namespace'' then Some (str_assert (gget metadata ''namespace''))
         else if k = ''status.phase'' then Some (str_assert (gget (objectMap (gget object ''status'')) ''phase''))
         else if k = ''spec.nodeName'' then Some (str_assert (gget (objectMap (gget object ''spec'')) ''nodeName''))
         else if k = ''involvedObject.name'' \<or> k = ''regarding.name'' \<or> k = ''involvedObject.namespace'' \<or> k = ''regarding.namespace''
         then Some (if has_suffix k ''.name'' then str_assert (gget involved ''name'')
                    else str_assert (gget involved ''namespace''))
         else if k = ''involvedObject.kind'' \<or> k = ''regarding.kind'' then Some (str_assert (gget involved ''kind''))
         else if k = ''reason'' \<or> k = ''type'' \<or> k = ''source.component'' \<or> k = ''reportingComponent''
         then Some (let (actual, present) = str_assert (gget object k)
                    in if \<not> present then str_assert (gget (objectMap (gget object ''source'')) ''component'')
                       else (actual, present))
         else None)"

definition objectMatches :: "gobj \<Rightarrow> selectorRequirement list \<Rightarrow> selectorRequirement list \<Rightarrow> bool" where
  "objectMatches object labelReqs fieldReqs \<longleftrightarrow>
     (let metadata = objectMap (gget object ''metadata'');
          objectLabels = objectMap (gget metadata ''labels'')
      in list_all (\<lambda>requirement.
           let (actual, present) = str_assert (gget objectLabels (sel_key requirement))
           in matchesRequirement actual present requirement) labelReqs \<and>
         list_all (\<lambda>requirement.
           case field_actual object (sel_key requirement) of
             None \<Rightarrow> False
           | Some (actual, present) \<Rightarrow> matchesRequirement actual present requirement) fieldReqs)"

section \<open>Parsing\<close>

text \<open>One comma-separated part: the first of the three operators that occurs in it splits it.\<close>

definition parseRequirement :: "string \<Rightarrow> selectorRequirement option" where
  "parseRequirement rawRequirement =
     (let text = trim_space rawRequirement
      in case find (\<lambda>candidate. contains_str text candidate) [''!='', ''=='', ''=''] of
           None \<Rightarrow> None
         | Some operator \<Rightarrow>
             (case cut_at operator text of
                None \<Rightarrow> None
              | Some (a, b) \<Rightarrow>
                  (let key = trim_space a; value = trim_space b
                   in if key = [] \<or> value = [] \<or> list_ex (\<lambda>c. c = CHR ''='' \<or> c = CHR ''!'') value then None
                      else Some \<lparr>sel_key = key, sel_operator = operator, sel_value = value\<rparr>)))"

fun parseRequirements :: "string list \<Rightarrow> selectorRequirement list option" where
  "parseRequirements [] = Some []"
| "parseRequirements (raw # rest) =
     (case parseRequirement raw of
        None \<Rightarrow> None
      | Some r \<Rightarrow> map_option ((#) r) (parseRequirements rest))"

text \<open>The result slice and the \<^verbatim>\<open>ok\<close> flag; on failure the slice is \<^verbatim>\<open>nil\<close>.\<close>

definition parseSelector :: "string \<Rightarrow> selectorRequirement list \<times> bool" where
  "parseSelector raw =
     (if trim_space raw = [] then ([], True)
      else case parseRequirements (go_split (CHR '','') raw) of
             None \<Rightarrow> ([], False)
           | Some rs \<Rightarrow> (rs, True))"

definition selectableFields :: "string list" where
  "selectableFields =
     [''metadata.name'', ''metadata.namespace'', ''status.phase'', ''spec.nodeName'',
      ''involvedObject.name'', ''involvedObject.namespace'', ''involvedObject.kind'',
      ''regarding.name'', ''regarding.namespace'', ''regarding.kind'',
      ''reason'', ''type'', ''source.component'', ''reportingComponent'']"

definition validFieldSelector :: "string \<Rightarrow> bool" where
  "validFieldSelector raw =
     (let (requirements, valid) = parseSelector raw
      in valid \<and> list_all (\<lambda>r. sel_key r \<in> set selectableFields) requirements)"

definition filterObjects :: "gobj list \<Rightarrow> string \<Rightarrow> string \<Rightarrow> gobj list" where
  "filterObjects objects labelSelector fieldSelector =
     (let (labelReqs, labelsOK) = parseSelector labelSelector; (fieldReqs, fieldsOK) = parseSelector fieldSelector
      in [object \<leftarrow> objects. labelsOK \<and> fieldsOK \<and> objectMatches object labelReqs fieldReqs])"

section \<open>Page limits\<close>

abbreviation maxListPageBytes :: int where "maxListPageBytes \<equiv> 1048576"
abbreviation maxListPageItems :: int where "maxListPageItems \<equiv> 100"
abbreviation maxListLimit :: int where "maxListLimit \<equiv> 1000"

text \<open>\<open>None\<close> is the error \<^verbatim>\<open>limit must be an integer from 0 to 1000\<close>.\<close>

definition parseListLimit :: "string \<Rightarrow> int option" where
  "parseListLimit raw =
     (if raw = [] then Some maxListPageItems
      else case atoi raw of
             None \<Rightarrow> None
           | Some limit \<Rightarrow>
               (if limit < 0 \<or> limit > maxListLimit then None
                else if limit = 0 \<or> limit > maxListPageItems then Some maxListPageItems
                else Some limit))"

section \<open>Facts\<close>

lemma str_assert_clone [simp]: "str_assert (clone v) = str_assert v"
  by (cases v) (auto simp: str_assert_def)

text \<open>Printable ASCII is never trimmed.\<close>

definition plain_char :: "char \<Rightarrow> bool" where
  "plain_char c \<longleftrightarrow> 33 \<le> (of_char c :: nat) \<and> (of_char c :: nat) \<le> 126"

lemma trim_left_plain:
  assumes "s = [] \<or> plain_char (hd s)" "\<forall>w \<in> set ws. w \<noteq> [] \<longrightarrow> \<not> plain_char (hd w)"
  shows "trim_left ws s = s"
proof -
  have "find (\<lambda>w. w \<noteq> [] \<and> has_prefix s w) ws = None"
    using assms by (fastforce simp: find_None_iff has_prefix_conv)
  then show ?thesis by (subst trim_left.simps) simp
qed

lemma white_space_not_plain:
  "\<forall>w \<in> set white_space. w \<noteq> [] \<longrightarrow> \<not> plain_char (hd w)"
  "\<forall>w \<in> set (map rev white_space). w \<noteq> [] \<longrightarrow> \<not> plain_char (hd w)"
  by (simp_all add: white_space_def plain_char_def upt_conv_Cons)

lemma trim_space_plain:
  assumes "\<forall>c \<in> set s. plain_char c"
  shows "trim_space s = s"
proof -
  have "trim_left white_space s = s"
    using assms white_space_not_plain(1) by (intro trim_left_plain) (cases s; auto)
  moreover have "trim_left (map rev white_space) (rev s) = rev s"
    using assms white_space_not_plain(2) by (intro trim_left_plain) (cases "rev s"; auto)
  ultimately show ?thesis by (simp add: trim_space_def)
qed

text \<open>Cutting at the first occurrence of a separator that does not straddle.\<close>

lemma cut_at_first:
  "sep \<noteq> [] \<Longrightarrow> \<forall>c \<in> set a. c \<notin> set sep \<Longrightarrow> cut_at sep (a @ sep @ b) = Some (a, b)"
proof (induction a)
  case Nil
  then show ?case using has_prefix_append [of sep b] by (cases sep) auto
next
  case (Cons x a)
  then have "\<not> has_prefix (x # a @ sep @ b) sep"
    by (cases sep) (auto simp: has_prefix_def)
  with Cons show ?case by simp
qed

lemma cut_at_SomeD: "cut_at sep s = Some (a, b) \<Longrightarrow> s = a @ sep @ b"
  by (induction sep s arbitrary: a b rule: cut_at.induct)
    (auto split: if_splits simp: has_prefix_conv)

text \<open>The part of a selector that one requirement prints as.\<close>

definition print_requirement :: "selectorRequirement \<Rightarrow> string" where
  "print_requirement r = sel_key r @ sel_operator r @ sel_value r"

definition print_selector :: "selectorRequirement list \<Rightarrow> string" where
  "print_selector rs = go_join '','' (map print_requirement rs)"

definition word_char :: "char \<Rightarrow> bool" where
  "word_char c \<longleftrightarrow> plain_char c \<and> c \<notin> set '',=!''"

definition wf_requirement :: "selectorRequirement \<Rightarrow> bool" where
  "wf_requirement r \<longleftrightarrow>
     sel_key r \<noteq> [] \<and> sel_value r \<noteq> [] \<and> list_all word_char (sel_key r) \<and> list_all word_char (sel_value r) \<and>
     sel_operator r \<in> set [''!='', ''=='', ''='']"

lemma count_list_word: "list_all word_char w \<Longrightarrow> count_list w (CHR ''='') = 0 \<and> count_list w (CHR ''!'') = 0"
  by (induction w) (auto simp: word_char_def)

lemma not_contains_count:
  "count_list s c < count_list sep c \<Longrightarrow> \<not> contains_str s sep"
  by (auto simp: contains_str_def dest!: cut_at_SomeD)

lemma list_all_word_plain: "list_all word_char w \<Longrightarrow> c \<in> set w \<Longrightarrow> plain_char c"
  by (auto simp: list_all_iff word_char_def)

lemma parseRequirement_print:
  assumes "wf_requirement r"
  shows "parseRequirement (print_requirement r) = Some r"
proof -
  let ?k = "sel_key r" and ?v = "sel_value r" and ?op = "sel_operator r"
  have wf: "?k \<noteq> []" "?v \<noteq> []" "list_all word_char ?k" "list_all word_char ?v" and op: "?op = ''!='' \<or> ?op = ''=='' \<or> ?op = ''=''"
    using assms by (auto simp: wf_requirement_def)
  have opc: "plain_char c \<and> c \<noteq> CHR '',''" if "c \<in> set ?op" for c
    using op that by (elim disjE) (auto simp: plain_char_def)
  have plain: "\<forall>c \<in> set (?k @ ?op @ ?v). plain_char c"
    using opc list_all_word_plain [OF wf(3)] list_all_word_plain [OF wf(4)] by auto
  have trims: "trim_space (print_requirement r) = ?k @ ?op @ ?v" "trim_space ?k = ?k" "trim_space ?v = ?v"
    using plain by (auto simp: print_requirement_def intro!: trim_space_plain)
  have cut: "cut_at ?op (?k @ ?op @ ?v) = Some (?k, ?v)"
  proof (rule cut_at_first)
    show "?op \<noteq> []" using op by auto
    have "set ?op \<subseteq> set ''!=''" using op by auto
    then show "\<forall>c \<in> set ?k. c \<notin> set ?op" using wf(3) unfolding list_all_iff word_char_def by auto
  qed
  then have "contains_str (?k @ ?op @ ?v) ?op" by (simp add: contains_str_def)
  moreover have "\<not> contains_str (?k @ ?op @ ?v) ''!=''" if "?op \<noteq> ''!=''"
    using that op wf(3,4) by (intro not_contains_count [where c = "CHR ''!''"]) (auto simp: count_list_word)
  moreover have "\<not> contains_str (?k @ ?op @ ?v) ''==''" if "?op = ''=''"
    using that wf(3,4) by (intro not_contains_count [where c = "CHR ''=''"]) (auto simp: count_list_word)
  ultimately have "find (\<lambda>candidate. contains_str (?k @ ?op @ ?v) candidate) [''!='', ''=='', ''=''] = Some ?op"
    using op by auto
  moreover have "\<not> list_ex (\<lambda>c. c = CHR ''='' \<or> c = CHR ''!'') ?v"
    using wf(4) by (auto simp: list_all_iff list_ex_iff word_char_def)
  ultimately show ?thesis
    using wf(1,2) cut by (simp add: parseRequirement_def trims)
qed

lemma parseRequirements_print:
  "list_all wf_requirement rs \<Longrightarrow> parseRequirements (map print_requirement rs) = Some rs"
  by (induction rs) (auto simp: parseRequirement_print)

lemma print_requirement_chars:
  assumes "wf_requirement r" "c \<in> set (print_requirement r)"
  shows "plain_char c \<and> c \<noteq> CHR '',''"
proof -
  have "word_char c \<or> c \<in> set ''!=''"
    using assms by (auto simp: wf_requirement_def print_requirement_def list_all_iff)
  then show ?thesis by (auto simp: word_char_def plain_char_def)
qed

lemma go_join_chars: "c \<in> set (go_join sep ws) \<Longrightarrow> c \<in> set sep \<or> (\<exists>w \<in> set ws. c \<in> set w)"
  by (induction sep ws rule: go_join.induct) auto

text \<open>
  Printing a list of requirements and parsing the text gives the list back, whichever of the three
  operators each requirement uses; the parser is not confused by \<^verbatim>\<open>=\<close> being a part of the other two.
\<close>

lemma parseSelector_print:
  assumes "list_all wf_requirement rs" "rs \<noteq> []"
  shows "parseSelector (print_selector rs) = (rs, True)"
proof -
  have "\<forall>w \<in> set (map print_requirement rs). CHR '','' \<notin> set w"
    using assms print_requirement_chars by (auto simp: list_all_iff)
  then have "go_split (CHR '','') (print_selector rs) = map print_requirement rs"
    using assms(2) by (simp add: print_selector_def go_split_join)
  moreover have "trim_space (print_selector rs) = print_selector rs"
  proof (intro trim_space_plain ballI)
    fix c assume "c \<in> set (print_selector rs)"
    then consider "c = CHR '',''" | r where "r \<in> set rs" "c \<in> set (print_requirement r)"
      using go_join_chars by (fastforce simp: print_selector_def)
    then show "plain_char c"
      using assms(1) print_requirement_chars by cases (auto simp: plain_char_def list_all_iff)
  qed
  moreover have "print_selector rs \<noteq> []"
    using assms by (cases rs; cases "tl rs") (auto simp: print_selector_def print_requirement_def wf_requirement_def)
  ultimately show ?thesis
    using assms(1) by (simp add: parseSelector_def parseRequirements_print)
qed

lemma parseSelector_print_example:
  "parseSelector (print_selector [\<lparr>sel_key = ''app'', sel_operator = ''='', sel_value = ''web''\<rparr>,
     \<lparr>sel_key = ''tier'', sel_operator = ''!='', sel_value = ''db''\<rparr>]) =
   ([\<lparr>sel_key = ''app'', sel_operator = ''='', sel_value = ''web''\<rparr>,
     \<lparr>sel_key = ''tier'', sel_operator = ''!='', sel_value = ''db''\<rparr>], True)"
  by (rule parseSelector_print) (simp_all add: wf_requirement_def word_char_def plain_char_def)

lemma selectable_understood: "k \<in> set selectableFields \<Longrightarrow> field_actual object k \<noteq> None"
  by (auto simp: selectableFields_def field_actual_def Let_def)

text \<open>
  A field selector that the request validation accepts never reaches the \<^verbatim>\<open>default\<close> branch of the
  matcher: the parse succeeds and every requirement in it names a field the matcher can read, in every
  object. (An unknown field would make the matcher drop every object without an error.)
\<close>

lemma validFieldSelector_understood:
  assumes "validFieldSelector raw"
  shows "\<exists>rs. parseSelector raw = (rs, True) \<and>
           (\<forall>object. list_all (\<lambda>r. field_actual object (sel_key r) \<noteq> None) rs)"
proof -
  obtain rs ok where rs: "parseSelector raw = (rs, ok)" by fastforce
  with assms have "ok" "\<forall>r \<in> set rs. sel_key r \<in> set selectableFields"
    by (auto simp: validFieldSelector_def list_all_iff)
  with rs selectable_understood show ?thesis by (auto simp: list_all_iff)
qed

lemma validFieldSelector_understood_example:
  "\<exists>rs. parseSelector ''status.phase=Running'' = (rs, True) \<and>
     (\<forall>object. list_all (\<lambda>r. field_actual object (sel_key r) \<noteq> None) rs)"
proof (rule validFieldSelector_understood)
  let ?r = "\<lparr>sel_key = ''status.phase'', sel_operator = ''='', sel_value = ''Running''\<rparr>"
  have "parseRequirements [''status.phase=Running''] = Some [?r]"
    using parseRequirements_print [of "[?r]"]
    by (simp add: wf_requirement_def word_char_def plain_char_def print_requirement_def)
  moreover have "trim_space ''status.phase=Running'' = ''status.phase=Running''"
    by (rule trim_space_plain) (simp add: plain_char_def)
  ultimately show "validFieldSelector ''status.phase=Running''"
    by (simp add: validFieldSelector_def parseSelector_def selectableFields_def)
qed

text \<open>The two operators are each other's complement, for labels and for the fields the matcher reads.\<close>

lemma objectMatches_negation:
  assumes "field_actual object k \<noteq> None"
  shows "objectMatches object [\<lparr>sel_key = k, sel_operator = ''!='', sel_value = v\<rparr>] [] =
           (\<not> objectMatches object [\<lparr>sel_key = k, sel_operator = ''='', sel_value = v\<rparr>] [])"
    and "objectMatches object [] [\<lparr>sel_key = k, sel_operator = ''!='', sel_value = v\<rparr>] =
           (\<not> objectMatches object [] [\<lparr>sel_key = k, sel_operator = ''='', sel_value = v\<rparr>])"
  using assms by (auto simp: objectMatches_def matchesRequirement_def Let_def split: prod.splits)

lemma objectMatches_append:
  "objectMatches object (l1 @ l2) (f1 @ f2) \<longleftrightarrow> objectMatches object l1 f1 \<and> objectMatches object l2 f2"
  by (auto simp: objectMatches_def Let_def)

lemma objectMatches_Nil [simp]: "objectMatches object [] []"
  by (simp add: objectMatches_def)

lemma parseListLimit_range: "parseListLimit raw = Some n \<Longrightarrow> 1 \<le> n \<and> n \<le> maxListPageItems"
  by (auto simp: parseListLimit_def split: if_splits option.splits)

end
