(* ===== verification/ObjectStore.thy ===== *)
theory ObjectStore
  imports KeyedStore Names Selectors
begin

text \<open>
  The in-memory object store behind the simulated Kubernetes API server
  (\<^verbatim>\<open>honeypots/k8s/handler/state.go\<close>): a bounded map from object keys to objects with byte
  accounting, resource versions, generated names, paged listing and watches.

  Every operation runs under the store's mutex from its first to its last line (\<^verbatim>\<open>deleteMatching\<close>
  takes it once to collect keys and once per deletion), so the state between two critical sections is
  what the definitions below map to each other, and an interleaving of requests is a sequence of them.
  A watch channel is shared between the store and the request that created it: channels live in a heap
  (\<open>chans\<close>, the address is the index) and \<open>chan_panic\<close> records a send on, or a close of, a closed
  channel, which is a run-time panic in Go.
\<close>

section \<open>Data\<close>

abbreviation maxStoredObjects :: nat where "maxStoredObjects \<equiv> 4096"
abbreviation maxStoredBytes :: int where "maxStoredBytes \<equiv> 33554432"
abbreviation maxStoredObjectBytes :: nat where "maxStoredObjectBytes \<equiv> 262144"

datatype storeError =
    errStoreCapacity
  | errObjectAlreadyExists
  | errGeneratedNameCapacity
  | errInvalidGeneratedName

record groupVersion =
  Group :: string
  Version :: string

record objectKey =
  k_group :: string
  k_version :: string
  k_resource :: string
  k_namespace :: string
  k_name :: string

record watchEvent =
  ev_Type :: string
  ev_Object :: gobj

record watcher =
  w_id :: "64 word"
  w_group :: string
  w_version :: string
  w_resource :: string
  w_namespace :: string
  w_labels :: "selectorRequirement list"
  w_fields :: "selectorRequirement list"
  w_ch :: nat

record channel =
  ch_buf :: "watchEvent list"
  ch_closed :: bool

record objectStore =
  objects :: "(objectKey \<times> gobj) list"
  watchers :: "(64 word \<times> watcher) list"
  nextWatcher :: "64 word"
  resourceRev :: "64 word"
  storedBytes :: int
  generatedNames :: "64 word"
  startedAt :: nat
  chans :: "channel list"
  chan_panic :: bool

definition newObjectStore :: "nat \<Rightarrow> objectStore" where
  "newObjectStore now =
     \<lparr>objects = [], watchers = [], nextWatcher = 0, resourceRev = 1000, storedBytes = 0,
      generatedNames = 0, startedAt = now, chans = [], chan_panic = False\<rparr>"

section \<open>Watches\<close>

abbreviation watch_capacity :: nat where "watch_capacity \<equiv> 4"

text \<open>
  \<^verbatim>\<open>select { case ch <- e: default: ... }\<close>: a closed channel panics, a free slot takes the event,
  otherwise the \<^verbatim>\<open>default\<close> branch runs.
\<close>

definition close_chan :: "nat \<Rightarrow> objectStore \<Rightarrow> objectStore" where
  "close_chan c s =
     (if ch_closed (chans s ! c) then s\<lparr>chan_panic := True\<rparr>
      else s\<lparr>chans := (chans s)[c := (chans s ! c)\<lparr>ch_closed := True\<rparr>]\<rparr>)"

definition publish_one :: "objectKey \<Rightarrow> string \<Rightarrow> gobj \<Rightarrow> 64 word \<times> watcher \<Rightarrow> objectStore \<Rightarrow> objectStore" where
  "publish_one key eventType object = (\<lambda>(id, watcher) s.
     if w_group watcher \<noteq> k_group key \<or> w_version watcher \<noteq> k_version key \<or> w_resource watcher \<noteq> k_resource key then s
     else if w_namespace watcher \<noteq> [] \<and> w_namespace watcher \<noteq> k_namespace key then s
     else if \<not> objectMatches object (w_labels watcher) (w_fields watcher) then s
     else (let ch = chans s ! w_ch watcher
           in if ch_closed ch then s\<lparr>chan_panic := True\<rparr>
              else if length (ch_buf ch) < watch_capacity
              then s\<lparr>chans := (chans s)[w_ch watcher :=
                       ch\<lparr>ch_buf := ch_buf ch @ [\<lparr>ev_Type = eventType, ev_Object = cloneObject object\<rparr>]\<rparr>]\<rparr>
              else close_chan (w_ch watcher) (s\<lparr>watchers := AList.delete id (watchers s)\<rparr>)))"

definition publishLocked :: "objectKey \<Rightarrow> string \<Rightarrow> gobj \<Rightarrow> objectStore \<Rightarrow> objectStore" where
  "publishLocked key eventType object s = fold (publish_one key eventType object) (watchers s) s"

definition watch ::
  "groupVersion \<Rightarrow> string \<Rightarrow> string \<Rightarrow> selectorRequirement list \<Rightarrow> selectorRequirement list \<Rightarrow> objectStore \<Rightarrow> watcher \<times> objectStore"
where
  "watch gv namespace resource labelReqs fieldReqs s =
     (let next = nextWatcher s + 1;
          watcher = \<lparr>w_id = next, w_group = Group gv, w_version = Version gv, w_resource = resource,
                     w_namespace = namespace, w_labels = labelReqs, w_fields = fieldReqs, w_ch = length (chans s)\<rparr>
      in (watcher, s\<lparr>nextWatcher := next, watchers := AList.update next watcher (watchers s),
                     chans := chans s @ [\<lparr>ch_buf = [], ch_closed = False\<rparr>]\<rparr>))"

definition unwatch :: "watcher \<Rightarrow> objectStore \<Rightarrow> objectStore" where
  "unwatch watcher s =
     (if map_of (watchers s) (w_id watcher) \<noteq> None
      then close_chan (w_ch watcher) (s\<lparr>watchers := AList.delete (w_id watcher) (watchers s)\<rparr>)
      else s)"

text \<open>\<^verbatim>\<open>event, ok := <-watcher.ch\<close> in the watch handler, when it does not block.\<close>

definition recv_event :: "watcher \<Rightarrow> objectStore \<Rightarrow> (watchEvent option \<times> objectStore) option" where
  "recv_event watcher s =
     (let ch = chans s ! w_ch watcher
      in case ch_buf ch of
           e # es \<Rightarrow> Some (Some e, s\<lparr>chans := (chans s)[w_ch watcher := ch\<lparr>ch_buf := es\<rparr>]\<rparr>)
         | [] \<Rightarrow> if ch_closed ch then Some (None, s) else None)"

section \<open>Objects\<close>

definition put :: "objectKey \<Rightarrow> gobj \<Rightarrow> string \<Rightarrow> objectStore \<Rightarrow> storeError option \<times> gobj \<times> objectStore" where
  "put key object eventType s =
     (let metadata = objectMap (gget object ''metadata'');
          s1 = s\<lparr>resourceRev := resourceRev s + 1\<rparr>;
          object1 = gset ''metadata'' (GMap (gset ''resourceVersion'' (GStr (show_nat (unat (resourceRev s1)))) metadata)) object;
          encoded = encodedLen object1;
          rollback = s1\<lparr>resourceRev := resourceRev s1 - 1\<rparr>
      in if encoded > maxStoredObjectBytes then (Some errStoreCapacity, object1, rollback)
         else let previous = map_of (objects s1) key in
           if previous \<noteq> None \<and> eventType = ''ADDED'' then (Some errObjectAlreadyExists, object1, rollback)
           else if previous = None \<and> length (objects s1) \<ge> maxStoredObjects then (Some errStoreCapacity, object1, rollback)
           else let oldBytes = (case previous of Some p \<Rightarrow> int (encodedLen p) | None \<Rightarrow> 0);
                    newTotal = storedBytes s1 - oldBytes + int encoded
             in if newTotal > maxStoredBytes then (Some errStoreCapacity, object1, rollback)
                else let copyOfObject = cloneObject object1
                  in (None, object1,
                      publishLocked key eventType copyOfObject
                        (s1\<lparr>objects := AList.update key copyOfObject (objects s1), storedBytes := newTotal\<rparr>)))"

definition get :: "objectStore \<Rightarrow> objectKey \<Rightarrow> gobj option" where
  "get s key = map_option cloneObject (map_of (objects s) key)"

definition delete :: "objectKey \<Rightarrow> objectStore \<Rightarrow> (gobj \<times> bool) \<times> objectStore" where
  "delete key s =
     (case map_of (objects s) key of
        None \<Rightarrow> (([], False), s)
      | Some object \<Rightarrow>
          ((cloneObject object, True),
           publishLocked key ''DELETED'' (cloneObject object)
             (s\<lparr>objects := AList.delete key (objects s), storedBytes := storedBytes s - int (encodedLen object),
                resourceRev := resourceRev s + 1\<rparr>)))"

definition key_matches :: "groupVersion \<Rightarrow> string \<Rightarrow> string \<Rightarrow> objectKey \<Rightarrow> bool" where
  "key_matches gv namespace resource key \<longleftrightarrow>
     k_group key = Group gv \<and> k_version key = Version gv \<and> k_resource key = resource \<and>
     (namespace = [] \<or> k_namespace key = namespace)"

text \<open>The loop of \<^verbatim>\<open>listPage\<close>: \<open>n\<close> items and \<open>used\<close> bytes so far.\<close>

fun page_loop :: "nat \<Rightarrow> nat \<Rightarrow> nat \<Rightarrow> gobj list \<Rightarrow> gobj list" where
  "page_loop limit n used [] = []"
| "page_loop limit n used (object # rest) =
     (if n < limit then
        (let encoded = encodedLen object
         in if int (used + encoded) > maxListPageBytes \<and> n > 0 then []
            else cloneObject object # page_loop limit (n + 1) (used + encoded) rest)
      else [])"

definition candidates ::
  "groupVersion \<Rightarrow> string \<Rightarrow> string \<Rightarrow> selectorRequirement list \<Rightarrow> selectorRequirement list \<Rightarrow> objectStore \<Rightarrow> (objectKey \<times> gobj) list"
where
  "candidates gv namespace resource labelReqs fieldReqs s =
     sort_key (\<lambda>(key, object). (k_namespace key, k_name key))
       [(key, object) \<leftarrow> objects s. key_matches gv namespace resource key \<and> objectMatches object labelReqs fieldReqs]"

definition listPage ::
  "groupVersion \<Rightarrow> string \<Rightarrow> string \<Rightarrow> selectorRequirement list \<Rightarrow> selectorRequirement list \<Rightarrow> int \<Rightarrow> int \<Rightarrow> objectStore
   \<Rightarrow> (gobj list \<times> int \<times> int) option"
where
  "listPage gv namespace resource labelReqs fieldReqs offset limit s =
     (let cs = candidates gv namespace resource labelReqs fieldReqs s;
          total = int (length cs)
      in if offset < 0 \<or> offset > total then None
         else let limit = (if limit \<le> 0 \<or> limit > maxListPageItems then maxListPageItems else limit);
                  items = page_loop (nat limit) 0 0 (map snd (drop (nat offset) cs))
           in Some (items, total, offset + int (length items)))"

definition matching_keys :: "groupVersion \<Rightarrow> string \<Rightarrow> string \<Rightarrow> string \<Rightarrow> string \<Rightarrow> objectStore \<Rightarrow> objectKey list" where
  "matching_keys gv namespace resource labelSelector fieldSelector s =
     (let labelReqs = fst (parseSelector labelSelector); fieldReqs = fst (parseSelector fieldSelector)
      in map fst [(key, object) \<leftarrow> objects s. key_matches gv namespace resource key \<and> objectMatches object labelReqs fieldReqs])"

fun delete_keys :: "objectKey list \<Rightarrow> objectStore \<Rightarrow> nat \<times> objectStore" where
  "delete_keys [] s = (0, s)"
| "delete_keys (key # keys) s =
     (let ((_, exists), s1) = delete key s; (n, s2) = delete_keys keys s1
      in (if exists then n + 1 else n, s2))"

definition deleteMatching :: "groupVersion \<Rightarrow> string \<Rightarrow> string \<Rightarrow> string \<Rightarrow> string \<Rightarrow> objectStore \<Rightarrow> nat \<times> objectStore" where
  "deleteMatching gv namespace resource labelSelector fieldSelector s =
     delete_keys (matching_keys gv namespace resource labelSelector fieldSelector s) s"

definition resourceVersion :: "objectStore \<Rightarrow> string" where
  "resourceVersion s = show_nat (unat (resourceRev s))"

definition nextName :: "string \<Rightarrow> objectStore \<Rightarrow> (storeError + string) \<times> objectStore" where
  "nextName prefix s =
     (if generatedNames s = - 1 then (Inl errGeneratedNameCapacity, s)
      else let next = generatedNames s + 1;
               name = prefix @ pad_nat 20 (unat next)
        in if \<not> validObjectName name then (Inl errInvalidGeneratedName, s)
           else (Inr name, s\<lparr>generatedNames := next\<rparr>))"

definition namespaceExists :: "string \<Rightarrow> objectStore \<Rightarrow> bool" where
  "namespaceExists namespace s \<longleftrightarrow>
     get s \<lparr>k_group = [], k_version = ''v1'', k_resource = ''namespaces'', k_namespace = [], k_name = namespace\<rparr> \<noteq> None"

section \<open>What publishing leaves alone\<close>

lemma close_chan_frame [store_simps]:
  "objects (close_chan c s) = objects s" "storedBytes (close_chan c s) = storedBytes s"
  "resourceRev (close_chan c s) = resourceRev s" "generatedNames (close_chan c s) = generatedNames s"
  "nextWatcher (close_chan c s) = nextWatcher s" "startedAt (close_chan c s) = startedAt s"
  "watchers (close_chan c s) = watchers s" "length (chans (close_chan c s)) = length (chans s)"
  by (simp_all add: close_chan_def)

lemma publish_one_frame [store_simps]:
  "objects (publish_one key ev obj iw s) = objects s" "storedBytes (publish_one key ev obj iw s) = storedBytes s"
  "resourceRev (publish_one key ev obj iw s) = resourceRev s"
  "generatedNames (publish_one key ev obj iw s) = generatedNames s"
  "nextWatcher (publish_one key ev obj iw s) = nextWatcher s"
  "startedAt (publish_one key ev obj iw s) = startedAt s"
  "length (chans (publish_one key ev obj iw s)) = length (chans s)"
  by (simp_all add: publish_one_def Let_def store_simps split: prod.splits)

lemma fold_frame: "(\<And>x s. g (f x s) = g s) \<Longrightarrow> g (fold f xs s) = g s"
  by (induction xs arbitrary: s) simp_all

lemma publishLocked_frame [store_simps]:
  "objects (publishLocked key ev obj s) = objects s" "storedBytes (publishLocked key ev obj s) = storedBytes s"
  "resourceRev (publishLocked key ev obj s) = resourceRev s"
  "generatedNames (publishLocked key ev obj s) = generatedNames s"
  "nextWatcher (publishLocked key ev obj s) = nextWatcher s"
  "startedAt (publishLocked key ev obj s) = startedAt s"
  "length (chans (publishLocked key ev obj s)) = length (chans s)"
  unfolding publishLocked_def
  by (simp_all add: store_simps fold_frame [of objects] fold_frame [of storedBytes] fold_frame [of resourceRev]
      fold_frame [of generatedNames] fold_frame [of nextWatcher] fold_frame [of startedAt]
      fold_frame [of "\<lambda>s. length (chans s)"])

section \<open>The four outcomes of \<^verbatim>\<open>put\<close>\<close>

definition stamped :: "gobj \<Rightarrow> objectStore \<Rightarrow> gobj" where
  "stamped object s =
     gset ''metadata'' (GMap (gset ''resourceVersion'' (GStr (show_nat (unat (resourceRev s + 1))))
       (objectMap (gget object ''metadata'')))) object"

definition old_bytes :: "objectKey \<Rightarrow> objectStore \<Rightarrow> int" where
  "old_bytes key s = (case map_of (objects s) key of Some p \<Rightarrow> int (encodedLen p) | None \<Rightarrow> 0)"

definition put_accepts :: "objectKey \<Rightarrow> gobj \<Rightarrow> string \<Rightarrow> objectStore \<Rightarrow> bool" where
  "put_accepts key object eventType s \<longleftrightarrow>
     encodedLen (stamped object s) \<le> maxStoredObjectBytes \<and>
     (map_of (objects s) key \<noteq> None \<longrightarrow> eventType \<noteq> ''ADDED'') \<and>
     (map_of (objects s) key = None \<longrightarrow> length (objects s) < maxStoredObjects) \<and>
     storedBytes s - old_bytes key s + int (encodedLen (stamped object s)) \<le> maxStoredBytes"

definition put_state :: "objectKey \<Rightarrow> gobj \<Rightarrow> string \<Rightarrow> objectStore \<Rightarrow> objectStore" where
  "put_state key object eventType s =
     publishLocked key eventType (cloneObject (stamped object s))
       (s\<lparr>resourceRev := resourceRev s + 1,
          objects := AList.update key (cloneObject (stamped object s)) (objects s),
          storedBytes := storedBytes s - old_bytes key s + int (encodedLen (stamped object s))\<rparr>)"

lemma put_success:
  "put_accepts key object eventType s \<Longrightarrow> put key object eventType s = (None, stamped object s, put_state key object eventType s)"
  by (auto simp: put_def put_accepts_def put_state_def stamped_def old_bytes_def Let_def split: option.splits)

text \<open>A refused \<^verbatim>\<open>put\<close> leaves the store exactly as it was, the revision counter included.\<close>

lemma put_refused:
  "\<not> put_accepts key object eventType s \<Longrightarrow> \<exists>e. put key object eventType s = (Some e, stamped object s, s)"
  by (auto simp: put_def put_accepts_def put_state_def stamped_def old_bytes_def Let_def not_less not_le)

lemma put_cases:
  obtains (stored) "put_accepts key object eventType s" "put key object eventType s = (None, stamped object s, put_state key object eventType s)"
  | (refused) e where "\<not> put_accepts key object eventType s" "put key object eventType s = (Some e, stamped object s, s)"
  using put_success put_refused by blast

lemma put_None_iff: "fst (put key object eventType s) = None \<longleftrightarrow> put_accepts key object eventType s"
  by (cases rule: put_cases [of key object eventType s]) auto

lemma put_state_frame [store_simps]:
  "objects (put_state key object ev s) = AList.update key (cloneObject (stamped object s)) (objects s)"
  "storedBytes (put_state key object ev s) = storedBytes s - old_bytes key s + int (encodedLen (stamped object s))"
  "resourceRev (put_state key object ev s) = resourceRev s + 1"
  "generatedNames (put_state key object ev s) = generatedNames s"
  "nextWatcher (put_state key object ev s) = nextWatcher s"
  "startedAt (put_state key object ev s) = startedAt s"
  by (simp_all add: put_state_def store_simps)

section \<open>The storage invariant\<close>

definition store_ok :: "objectStore \<Rightarrow> bool" where
  "store_ok s \<longleftrightarrow>
     distinct (map fst (objects s)) \<and>
     storedBytes s = int (weight encodedLen (objects s)) \<and>
     storedBytes s \<le> maxStoredBytes \<and>
     length (objects s) \<le> maxStoredObjects \<and>
     list_all (\<lambda>(key, object). encodedLen object \<le> maxStoredObjectBytes \<and> cloneObject object = object) (objects s)"

lemma store_ok_new [store_inv]: "store_ok (newObjectStore now)"
  by (simp add: store_ok_def newObjectStore_def)

lemma store_ok_cong:
  "objects s' = objects s \<Longrightarrow> storedBytes s' = storedBytes s \<Longrightarrow> store_ok s' = store_ok s"
  by (simp add: store_ok_def)

lemma list_all_update:
  "list_all P xs \<Longrightarrow> P (k, v) \<Longrightarrow> list_all P (AList.update k v xs)"
  by (induction xs) auto

lemma list_all_delete: "list_all P xs \<Longrightarrow> list_all P (AList.delete k xs)"
  by (auto simp: list_all_iff AList.delete_eq)

lemma weight_put:
  assumes "distinct (map fst (objects s))" "storedBytes s = int (weight encodedLen (objects s))"
  shows "storedBytes s - old_bytes key s + int (encodedLen v) = int (weight encodedLen (AList.update key v (objects s)))"
proof (cases "map_of (objects s) key")
  case None
  then have "key \<notin> fst ` set (objects s)" by (simp add: map_of_eq_None_iff)
  with None show ?thesis using assms weight_update_new [of key "objects s" encodedLen v]
    by (simp add: old_bytes_def)
next
  case (Some u)
  then show ?thesis using assms weight_update_old [OF assms(1) Some, of encodedLen v]
    by (simp add: old_bytes_def)
qed

lemma store_ok_put_state [store_inv]:
  assumes "store_ok s" "put_accepts key object ev s"
  shows "store_ok (put_state key object ev s)"
proof -
  have "length (AList.update key v (objects s)) \<le> maxStoredObjects" for v
    using assms by (auto simp: length_update store_ok_def put_accepts_def map_of_eq_None_iff)
  moreover have "storedBytes s - old_bytes key s + int (encodedLen (stamped object s)) =
      int (weight encodedLen (AList.update key (cloneObject (stamped object s)) (objects s)))"
    using assms weight_put [of s key "cloneObject (stamped object s)"] by (simp add: store_ok_def)
  ultimately show ?thesis
    using assms by (auto simp: store_ok_def store_simps put_accepts_def intro!: list_all_update)
qed

lemma store_ok_put [store_inv]: "store_ok s \<Longrightarrow> store_ok (snd (snd (put key object ev s)))"
  by (cases rule: put_cases [of key object ev s]) (auto intro: store_inv)

lemma store_ok_delete [store_inv]:
  assumes "store_ok s"
  shows "store_ok (snd (delete key s))"
proof (cases "map_of (objects s) key")
  case (Some u)
  have "length (AList.delete key (objects s)) \<le> maxStoredObjects"
    using assms length_delete_alist_le [of key "objects s"] unfolding store_ok_def by linarith
  moreover have "storedBytes s - int (encodedLen u) = int (weight encodedLen (AList.delete key (objects s)))"
    using assms weight_delete [OF _ Some, of encodedLen] by (simp add: store_ok_def)
  ultimately show ?thesis
    using assms Some by (auto simp: store_ok_def delete_def store_simps intro!: list_all_delete)
qed (use assms in \<open>simp add: delete_def\<close>)

lemma store_ok_delete_keys [store_inv]: "store_ok s \<Longrightarrow> store_ok (snd (delete_keys keys s))"
proof (induction keys arbitrary: s)
  case (Cons key keys)
  have "store_ok (snd (delete key s))" using Cons.prems by (rule store_inv)
  from Cons.IH [OF this] show ?case by (auto simp: Let_def split: prod.splits)
qed simp

lemma store_ok_nextName [store_inv]: "store_ok s \<Longrightarrow> store_ok (snd (nextName prefix s))"
  by (simp add: nextName_def Let_def store_ok_def)

lemma store_ok_watch [store_inv]: "store_ok s \<Longrightarrow> store_ok (snd (watch gv ns res ls fs s))"
  by (simp add: watch_def Let_def store_ok_def)

lemma store_ok_unwatch [store_inv]: "store_ok s \<Longrightarrow> store_ok (unwatch w s)"
  by (simp add: unwatch_def store_ok_def store_simps)

section \<open>Watch channels\<close>

text \<open>
  Every registered watcher is filed under its own id and owns an open channel, no two share one, no buffer
  exceeds its capacity, and no channel operation has panicked.
\<close>

definition open_chan :: "objectStore \<Rightarrow> nat \<Rightarrow> bool" where
  "open_chan s c \<longleftrightarrow> c < length (chans s) \<and> \<not> ch_closed (chans s ! c)"

definition chan_ok :: "objectStore \<Rightarrow> bool" where
  "chan_ok s \<longleftrightarrow>
     distinct (map fst (watchers s)) \<and>
     inj_on (w_ch \<circ> snd) (set (watchers s)) \<and>
     (\<forall>(id, w) \<in> set (watchers s). w_id w = id \<and> open_chan s (w_ch w)) \<and>
     (\<forall>ch \<in> set (chans s). length (ch_buf ch) \<le> watch_capacity) \<and>
     \<not> chan_panic s"

lemma chan_ok_cong:
  "watchers s' = watchers s \<Longrightarrow> chans s' = chans s \<Longrightarrow> chan_panic s' = chan_panic s \<Longrightarrow> chan_ok s' = chan_ok s"
  by (simp add: chan_ok_def open_chan_def)

lemma chan_ok_new [store_inv]: "chan_ok (newObjectStore now)"
  by (simp add: chan_ok_def newObjectStore_def)

lemma chan_ok_set_chan:
  assumes "chan_ok s" "c < length (chans s)" "length (ch_buf ch) \<le> watch_capacity" "ch_closed ch = ch_closed (chans s ! c)"
  shows "chan_ok (s\<lparr>chans := (chans s)[c := ch]\<rparr>)"
  using assms by (auto simp: chan_ok_def open_chan_def nth_list_update dest!: set_update_subset_insert [THEN subsetD])

lemma chan_ok_unregister:
  assumes "chan_ok s" "(i, w) \<in> set (watchers s)"
  shows "chan_ok (close_chan (w_ch w) (s\<lparr>watchers := AList.delete i (watchers s)\<rparr>))"
proof -
  let ?c = "w_ch w"
  from assms have c: "open_chan s ?c" "w_id w = i" by (auto simp: chan_ok_def)
  have other: "?c \<noteq> w_ch w'" if "(i', w') \<in> set (watchers s)" "i' \<noteq> i" for i' w'
    using assms that inj_onD [of "w_ch \<circ> snd" "set (watchers s)" "(i, w)" "(i', w')"] by (auto simp: chan_ok_def)
  have buf: "length (ch_buf ch) \<le> watch_capacity" if "ch \<in> set ((chans s)[?c := (chans s ! ?c)\<lparr>ch_closed := True\<rparr>])" for ch
    using assms(1) c that by (auto simp: chan_ok_def open_chan_def dest!: set_update_subset_insert [THEN subsetD])
  have "inj_on (w_ch \<circ> snd) (set (AList.delete i (watchers s)))"
    using assms(1) unfolding chan_ok_def by (elim conjE inj_on_subset) (auto simp: set_delete_alist)
  moreover have "\<forall>(i', w') \<in> set (AList.delete i (watchers s)). w_id w' = i' \<and>
      open_chan (s\<lparr>chans := (chans s)[?c := (chans s ! ?c)\<lparr>ch_closed := True\<rparr>]\<rparr>) (w_ch w')"
    using assms(1) other by (fastforce simp: chan_ok_def open_chan_def set_delete_alist)
  ultimately show ?thesis
    using assms(1) c buf by (auto simp: chan_ok_def close_chan_def open_chan_def)
qed

lemma publish_one_chan_ok:
  assumes "chan_ok s" "(i, w) \<in> set (watchers s)"
  shows "chan_ok (publish_one key ev obj (i, w) s)"
proof -
  have "open_chan s (w_ch w)" using assms by (auto simp: chan_ok_def)
  moreover have "chan_ok (s\<lparr>chans := (chans s)[w_ch w := (chans s ! w_ch w)\<lparr>ch_buf := ch_buf (chans s ! w_ch w) @ [e]\<rparr>]\<rparr>)"
    if "length (ch_buf (chans s ! w_ch w)) < watch_capacity" for e
    using assms calculation that by (intro chan_ok_set_chan) (auto simp: open_chan_def)
  ultimately show ?thesis
    using assms chan_ok_unregister [OF assms] by (auto simp: publish_one_def Let_def open_chan_def)
qed

lemma publish_one_keeps:
  "set (watchers s) - {iw} \<subseteq> set (watchers (publish_one key ev obj iw s))" if "distinct (map fst (watchers s))" "iw \<in> set (watchers s)"
  using that
  by (auto simp: publish_one_def Let_def store_simps set_delete_alist split: prod.splits dest: eq_key_imp_eq_value)

lemma publish_one_distinct:
  "distinct (map fst (watchers s)) \<Longrightarrow> distinct (map fst (watchers (publish_one key ev obj iw s)))"
  by (auto simp: publish_one_def Let_def store_simps split: prod.splits)

lemma fold_publish_chan_ok:
  "chan_ok s \<Longrightarrow> set ws \<subseteq> set (watchers s) \<Longrightarrow> distinct ws \<Longrightarrow> chan_ok (fold (publish_one key ev obj) ws s)"
proof (induction ws arbitrary: s)
  case (Cons iw ws)
  then have *: "distinct (map fst (watchers s))" "iw \<in> set (watchers s)" by (auto simp: chan_ok_def)
  then have "set ws \<subseteq> set (watchers (publish_one key ev obj iw s))"
    using publish_one_keeps [OF *, of key ev obj] Cons.prems by auto
  moreover have "chan_ok (publish_one key ev obj iw s)"
    using Cons.prems publish_one_chan_ok [of s "fst iw" "snd iw"] by simp
  ultimately show ?case using Cons by simp
qed simp

lemma chan_ok_publish: "chan_ok s \<Longrightarrow> chan_ok (publishLocked key ev obj s)"
  unfolding publishLocked_def
  by (rule fold_publish_chan_ok) (auto simp: chan_ok_def dest: distinct_map [THEN iffD1])

lemma chan_ok_put [store_inv]: "chan_ok s \<Longrightarrow> chan_ok (snd (snd (put key object ev s)))"
  by (cases rule: put_cases [of key object ev s])
    (auto simp: put_state_def intro!: chan_ok_publish elim: chan_ok_cong [THEN iffD1, rotated -1])

lemma chan_ok_delete [store_inv]: "chan_ok s \<Longrightarrow> chan_ok (snd (delete key s))"
  by (auto simp: delete_def intro!: chan_ok_publish elim: chan_ok_cong [THEN iffD1, rotated -1] split: option.splits)

lemma chan_ok_nextName [store_inv]: "chan_ok s \<Longrightarrow> chan_ok (snd (nextName prefix s))"
  by (auto simp: nextName_def Let_def elim: chan_ok_cong [THEN iffD1, rotated -1])

section \<open>Requests interleaved\<close>

text \<open>
  A request holds the watcher it registered until its deferred \<^verbatim>\<open>unwatch\<close>. The state of the step
  relation is the store with the watchers that requests still hold; every step is one critical section.
  A watch step is taken while the 64-bit watcher counter has not wrapped.
\<close>

type_synonym store_state = "objectStore \<times> watcher list"

inductive store_step :: "store_state \<Rightarrow> store_state \<Rightarrow> bool" where
  step_put: "store_step (s, ws) (snd (snd (put key object ev s)), ws)"
| step_delete: "store_step (s, ws) (snd (delete key s), ws)"
| step_name: "store_step (s, ws) (snd (nextName prefix s), ws)"
| step_watch: "watch gv ns res ls fs s = (w, s') \<Longrightarrow> nextWatcher s \<noteq> - 1 \<Longrightarrow> store_step (s, ws) (s', w # ws)"
| step_recv: "w \<in> set ws \<Longrightarrow> recv_event w s = Some (e, s') \<Longrightarrow> store_step (s, ws) (s', ws)"
| step_unwatch: "w \<in> set ws \<Longrightarrow> store_step (s, ws) (unwatch w s, remove1 w ws)"

inductive_cases store_stepE: "store_step (s, ws) st"

text \<open>
  A held watcher whose id is registered is the registered one, its channel exists, ids do not exceed the
  counter, and each watcher is held once.
\<close>

definition held_ok :: "store_state \<Rightarrow> bool" where
  "held_ok = (\<lambda>(s, ws).
     distinct (map w_id ws) \<and>
     (\<forall>w \<in> set ws. w_ch w < length (chans s) \<and> w_id w \<le> nextWatcher s \<and>
        (\<forall>w'. map_of (watchers s) (w_id w) = Some w' \<longrightarrow> w' = w)) \<and>
     (\<forall>(i, w) \<in> set (watchers s). i \<le> nextWatcher s))"

definition system_ok :: "store_state \<Rightarrow> bool" where
  "system_ok st \<longleftrightarrow> store_ok (fst st) \<and> chan_ok (fst st) \<and> held_ok st"

lemma publish_one_watchers_subset: "set (watchers (publish_one key ev obj iw s)) \<subseteq> set (watchers s)"
  by (auto simp: publish_one_def Let_def store_simps set_delete_alist split: prod.splits)

lemma publish_watchers_subset: "set (watchers (publishLocked key ev obj s)) \<subseteq> set (watchers s)"
proof -
  have "set (watchers (fold (publish_one key ev obj) ws s)) \<subseteq> set (watchers s)" for ws
    by (induction ws arbitrary: s) (use publish_one_watchers_subset in force)+
  then show ?thesis by (simp add: publishLocked_def)
qed

text \<open>Shrinking the table of watchers keeps \<^const>\<open>held_ok\<close>.\<close>

lemma held_ok_shrink:
  assumes "held_ok (s, ws)" "distinct (map fst (watchers s))" "set (watchers s') \<subseteq> set (watchers s)"
    "nextWatcher s' = nextWatcher s" "length (chans s') = length (chans s)"
  shows "held_ok (s', ws)"
  using assms by (fastforce simp: held_ok_def dest!: map_of_SomeD)

lemma held_ok_publish:
  assumes "held_ok (s, ws)" "chan_ok s" "watchers s' = watchers s" "nextWatcher s' = nextWatcher s" "chans s' = chans s"
  shows "held_ok (publishLocked key ev obj s', ws)"
proof (rule held_ok_shrink [OF assms(1)])
  show "distinct (map fst (watchers s))" using assms(2) by (simp add: chan_ok_def)
  show "set (watchers (publishLocked key ev obj s')) \<subseteq> set (watchers s)"
    using publish_watchers_subset [of key ev obj s'] assms(3) by simp
qed (simp_all add: assms store_simps)

lemma held_ok_remove1: "held_ok (s, ws) \<Longrightarrow> held_ok (s, remove1 w ws)"
  unfolding held_ok_def split
  by (auto simp: distinct_map intro: inj_on_subset dest: notin_set_remove1)

lemma held_ok_put: "held_ok (s, ws) \<Longrightarrow> chan_ok s \<Longrightarrow> held_ok (snd (snd (put key object ev s)), ws)"
  by (cases rule: put_cases [of key object ev s]) (simp_all add: put_state_def held_ok_publish)

lemma held_ok_delete: "held_ok (s, ws) \<Longrightarrow> chan_ok s \<Longrightarrow> held_ok (snd (delete key s), ws)"
  by (simp add: delete_def held_ok_publish split: option.splits)

lemma system_ok_watch:
  assumes "system_ok (s, ws)" "watch gv ns res ls fs s = (w, s')" "nextWatcher s \<noteq> - 1"
  shows "system_ok (s', w # ws)"
proof -
  let ?n = "nextWatcher s + 1"
  have less: "nextWatcher s < ?n"
    using assms(3) by (rule less_inc)
  then have fresh: "?n \<notin> fst ` set (watchers s)" "?n \<notin> w_id ` set ws"
    using assms(1) by (fastforce simp: system_ok_def held_ok_def, fastforce simp: system_ok_def held_ok_def)
  then have unmapped: "map_of (watchers s) ?n = None" by (simp add: map_of_eq_None_iff)
  from fresh have upd: "set (AList.update ?n w (watchers s)) = insert (?n, w) (set (watchers s))"
    using assms(1) by (subst set_update_distinct) (auto simp: system_ok_def chan_ok_def rev_image_eqI)
  have w: "w_id w = ?n" "w_ch w = length (chans s)"
    and s': "watchers s' = AList.update ?n w (watchers s)" "chans s' = chans s @ [\<lparr>ch_buf = [], ch_closed = False\<rparr>]"
      "nextWatcher s' = ?n" "chan_panic s' = chan_panic s" "objects s' = objects s" "storedBytes s' = storedBytes s"
    using assms(2) by (auto simp: watch_def Let_def)
  have "chan_ok s'"
    using assms(1) by (auto simp: system_ok_def chan_ok_def s' upd w open_chan_def inj_on_def nth_append)
  moreover have "held_ok (s', w # ws)"
    using assms(1) fresh less by (fastforce simp: system_ok_def held_ok_def s' upd w)
  ultimately show ?thesis using assms(1) by (simp add: system_ok_def store_ok_def s')
qed

lemma system_ok_unwatch:
  assumes "system_ok (s, ws)" "w \<in> set ws"
  shows "system_ok (unwatch w s, remove1 w ws)"
proof (cases "map_of (watchers s) (w_id w)")
  case None
  then show ?thesis using assms by (simp add: system_ok_def unwatch_def held_ok_remove1)
next
  case (Some w')
  then have reg: "(w_id w, w) \<in> set (watchers s)"
    using assms by (auto simp: system_ok_def held_ok_def dest: map_of_SomeD)
  have "chan_ok (unwatch w s)"
    using assms(1) Some chan_ok_unregister [OF _ reg] by (simp add: system_ok_def unwatch_def)
  moreover have "held_ok (unwatch w s, ws)"
  proof (rule held_ok_shrink)
    show "held_ok (s, ws)" "distinct (map fst (watchers s))" using assms(1) by (simp_all add: system_ok_def chan_ok_def)
  qed (auto simp: unwatch_def store_simps set_delete_alist)
  ultimately show ?thesis using assms(1) by (simp add: system_ok_def store_inv held_ok_remove1)
qed

lemma system_ok_recv:
  assumes "system_ok (s, ws)" "w \<in> set ws" "recv_event w s = Some (e, s')"
  shows "system_ok (s', ws)"
proof -
  have c: "w_ch w < length (chans s)" using assms(1,2) by (auto simp: system_ok_def held_ok_def)
  consider "s' = s" | x es where "ch_buf (chans s ! w_ch w) = x # es"
      "s' = s\<lparr>chans := (chans s)[w_ch w := (chans s ! w_ch w)\<lparr>ch_buf := es\<rparr>]\<rparr>"
    using assms(3) by (auto simp: recv_event_def Let_def split: list.splits if_splits)
  then show ?thesis
  proof cases
    case 2
    then have "length es \<le> watch_capacity"
      using assms(1) c by (fastforce simp: system_ok_def chan_ok_def dest: nth_mem)
    then show ?thesis
      using 2 assms(1) c chan_ok_set_chan [of s "w_ch w"] by (simp add: system_ok_def held_ok_def store_ok_def)
  qed (use assms in simp)
qed

lemma system_ok_step: "store_step st st' \<Longrightarrow> system_ok st \<Longrightarrow> system_ok st'"
proof (induction rule: store_step.induct)
  case (step_name s ws prefix)
  then have "held_ok (snd (nextName prefix s), ws)"
    by (auto simp: system_ok_def held_ok_def nextName_def Let_def)
  with step_name show ?case by (simp add: system_ok_def store_inv)
next
  case (step_put s ws key object ev)
  then show ?case by (simp add: system_ok_def store_inv held_ok_put)
next
  case (step_delete s ws key)
  then show ?case by (simp add: system_ok_def store_inv held_ok_delete)
qed (blast intro: system_ok_watch system_ok_unwatch system_ok_recv)+

lemma system_ok_reachable: "store_step\<^sup>*\<^sup>* (newObjectStore now, []) st \<Longrightarrow> system_ok st"
proof (induction rule: rtranclp_induct)
  case base
  show ?case by (simp add: system_ok_def store_inv) (simp add: held_ok_def newObjectStore_def)
qed (rule system_ok_step)


text \<open>
  No interleaving of writes, deletions, watches, receives and unwatches sends on or closes a closed
  channel (either would crash the handler with the store's lock held): a watcher in the table has an open
  channel, and no event buffer ever holds more than four events.
\<close>

lemma reachable_no_channel_panic:
  assumes "store_step\<^sup>*\<^sup>* (newObjectStore now, []) (s, ws)"
  shows "\<not> chan_panic s \<and>
         (\<forall>(i, w) \<in> set (watchers s). w_ch w < length (chans s) \<and> \<not> ch_closed (chans s ! w_ch w)) \<and>
         (\<forall>ch \<in> set (chans s). length (ch_buf ch) \<le> 4)"
  using system_ok_reachable [OF assms] by (auto simp: system_ok_def chan_ok_def open_chan_def)

section \<open>What reads return after writes\<close>

text \<open>The store as a keyed store: insertion is \<^verbatim>\<open>put\<close> for an event type, and reports whether it stored.\<close>

definition put_ok :: "string \<Rightarrow> objectKey \<Rightarrow> gobj \<Rightarrow> objectStore \<Rightarrow> bool \<times> objectStore" where
  "put_ok ev key object s = (let (e, _, s') = put key object ev s in (e = None, s'))"

definition delete_ok :: "objectKey \<Rightarrow> objectStore \<Rightarrow> bool \<times> objectStore" where
  "delete_ok key s = (let ((_, found), s') = delete key s in (found, s'))"

definition stored_form :: "objectStore \<Rightarrow> gobj \<Rightarrow> gobj" where
  "stored_form s object = cloneObject (stamped object s)"

lemma get_put_state: "get (put_state key object ev s) = (get s)(key \<mapsto> cloneObject (stamped object s))"
  by (auto simp: get_def store_simps fun_eq_iff)

lemma get_delete: "get (snd (delete key s)) = (get s)(key := None)"
  by (auto simp: get_def delete_def store_simps fun_eq_iff split: option.splits)

lemma delete_found: "snd (fst (delete key s)) \<longleftrightarrow> get s key \<noteq> None"
  by (auto simp: get_def delete_def split: option.splits)

interpretation objs: keyed_store store_ok get stored_form "put_ok ev" delete_ok
proof
  fix s k v
  assume ok: "store_ok s"
  show "store_ok (snd (put_ok ev k v s))"
    using store_ok_put [OF ok, of k v ev] by (auto simp: put_ok_def split: prod.splits)
  show "store_ok (snd (delete_ok k s))"
    using store_ok_delete [OF ok, of k] by (auto simp: delete_ok_def split: prod.splits)
  show "fst (put_ok ev k v s) \<Longrightarrow> get (snd (put_ok ev k v s)) = (get s)(k \<mapsto> stored_form s v)"
    by (cases rule: put_cases [of k v ev s]) (simp_all add: put_ok_def get_put_state stored_form_def)
  show "\<not> fst (put_ok ev k v s) \<Longrightarrow> snd (put_ok ev k v s) = s"
    by (cases rule: put_cases [of k v ev s]) (simp_all add: put_ok_def)
  show "get (snd (delete_ok k s)) = (get s)(k := None)"
    using get_delete [of k s] by (auto simp: delete_ok_def split: prod.splits)
  show "fst (delete_ok k s) = (get s k \<noteq> None)"
    using delete_found [of k s] by (auto simp: delete_ok_def split: prod.splits)
qed

lemma delete_keys_remove_all: "delete_keys keys s = remove_all delete_ok keys s"
  by (induction keys arbitrary: s) (auto simp: delete_ok_def Let_def split: prod.splits)

lemma put_outcome:
  "put key object ev s = (None, object', s') \<Longrightarrow> get s' = (get s)(key \<mapsto> cloneObject object') \<and> object' = stamped object s"
  by (cases rule: put_cases [of key object ev s]) (auto simp: get_put_state)


text \<open>
  C14. Deleting a collection removes exactly the objects that match the selectors, reports how many there
  were, and leaves every other object readable as before.
\<close>

theorem deleteMatching_spec:
  assumes "store_ok s" "deleteMatching gv ns res ls fs s = (n, s')"
  defines "hit \<equiv> \<lambda>key object. k_group key = Group gv \<and> k_version key = Version gv \<and> k_resource key = res \<and> (ns = [] \<or> k_namespace key = ns) \<and>
                   objectMatches object (fst (parseSelector ls)) (fst (parseSelector fs))"
  shows "store_ok s' \<and>
         n = length (filter (\<lambda>(key, object). hit key object) (objects s)) \<and>
         (\<forall>key. get s' key = (case map_of (objects s) key of None \<Rightarrow> None | Some object \<Rightarrow> if hit key object then None else get s key))"
proof -
  let ?keys = "matching_keys gv ns res ls fs s"
  have dist: "distinct (map fst (objects s))" using assms(1) by (simp add: store_ok_def)
  have keys: "?keys = map fst (filter (\<lambda>(key, object). hit key object) (objects s))"
    by (simp add: matching_keys_def Let_def key_matches_def hit_def)
  have "distinct ?keys" using dist by (simp add: keys distinct_map_filter)
  moreover have "set ?keys \<inter> dom (get s) = set ?keys"
    by (force simp: keys get_def dom_def dest: weak_map_of_SomeI)
  ultimately have "card (set ?keys \<inter> dom (get s)) = length ?keys" by (simp add: distinct_card)
  moreover have "remove_all delete_ok ?keys s = (n, s')"
    using assms(2) by (simp add: deleteMatching_def delete_keys_remove_all)
  ultimately have "store_ok s'" "get s' = get s |` (- set ?keys)" "n = length ?keys"
    using objs.inv_remove_all [OF assms(1), of ?keys] objs.lookup_remove_all [OF assms(1), of ?keys]
      objs.count_remove_all [OF assms(1), of ?keys] by simp_all
  moreover have "key \<in> set ?keys \<longleftrightarrow> (\<exists>object. map_of (objects s) key = Some object \<and> hit key object)" for key
    using dist by (force simp: keys intro: map_of_is_SomeI dest: map_of_SomeD)
  ultimately show ?thesis
    by (auto simp: keys restrict_map_def get_def split: option.splits)
qed

section \<open>Resource versions\<close>

definition rv_of :: "gobj \<Rightarrow> string" where
  "rv_of object = stringField (objectMap (gget object ''metadata'')) ''resourceVersion''"

definition rev_ok :: "objectStore \<Rightarrow> bool" where
  "rev_ok s \<longleftrightarrow>
     inj_on (rv_of \<circ> snd) (set (objects s)) \<and>
     (\<forall>(key, object) \<in> set (objects s). \<exists>n \<le> unat (resourceRev s). rv_of object = show_nat n)"

lemma rv_of_stamped: "rv_of (cloneObject (stamped object s)) = show_nat (unat (resourceRev s + 1))"
proof -
  have "gget (cloneObject (stamped object s)) ''metadata'' =
      GMap (cloneObject (gset ''resourceVersion'' (GStr (show_nat (unat (resourceRev s + 1)))) (objectMap (gget object ''metadata''))))"
    by (simp add: stamped_def gget_cloneObject clone_GMap del: clone.simps)
  then have "rv_of (cloneObject (stamped object s)) =
      stringField (gset ''resourceVersion'' (GStr (show_nat (unat (resourceRev s + 1)))) (objectMap (gget object ''metadata''))) ''resourceVersion''"
    by (simp add: rv_of_def)
  then show ?thesis by (simp add: stringField_def as_string_def)
qed

lemma rev_ok_put:
  assumes "rev_ok s" "store_ok s" "resourceRev s \<noteq> - 1"
  shows "rev_ok (snd (snd (put key object ev s)))"
proof (cases rule: put_cases [of key object ev s])
  case stored
  let ?new = "cloneObject (stamped object s)"
  have set: "set (AList.update key ?new (objects s)) = insert (key, ?new) {(k, o'). (k, o') \<in> set (objects s) \<and> k \<noteq> key}"
    using assms(2) by (intro set_update_distinct) (simp add: store_ok_def)
  have new: "rv_of ?new = show_nat (Suc (unat (resourceRev s)))" using assms(3) by (simp add: rv_of_stamped unat_inc)
  have old: "rv_of o' \<noteq> rv_of ?new" if "(k, o') \<in> set (objects s)" for k o'
    using assms(1) that by (auto simp: rev_ok_def new)
  have "inj_on (rv_of \<circ> snd) {(k, o'). (k, o') \<in> set (objects s) \<and> k \<noteq> key}"
    using assms(1) by (auto simp: rev_ok_def intro: inj_on_subset)
  then have "inj_on (rv_of \<circ> snd) (set (AList.update key ?new (objects s)))"
    using old unfolding set inj_on_insert by (fastforce dest: sym)
  moreover have "\<exists>n \<le> Suc (unat (resourceRev s)). rv_of o' = show_nat n"
    if "(k, o') \<in> set (AList.update key ?new (objects s))" for k o'
    using that assms(1) new unfolding set rev_ok_def by (auto intro: le_SucI)
  ultimately show ?thesis using stored assms(3) by (auto simp: rev_ok_def store_simps unat_inc)
qed (use assms in simp)

lemma rev_ok_delete:
  assumes "rev_ok s" "resourceRev s \<noteq> - 1"
  shows "rev_ok (snd (delete key s))"
proof (cases "map_of (objects s) key")
  case (Some u)
  have "inj_on (rv_of \<circ> snd) (set (AList.delete key (objects s)))"
    using assms(1) by (auto simp: rev_ok_def set_delete_alist intro: inj_on_subset)
  then show ?thesis
    using assms Some by (fastforce simp: rev_ok_def delete_def store_simps unat_inc set_delete_alist intro: le_SucI)
qed (use assms in \<open>simp add: delete_def\<close>)

lemma rev_ok_cong: "rev_ok s \<Longrightarrow> objects s' = objects s \<Longrightarrow> resourceRev s' = resourceRev s \<Longrightarrow> rev_ok s'"
  by (simp add: rev_ok_def)

text \<open>Runs on which the 64-bit revision counter does not wrap.\<close>

definition unwrapped_step :: "store_state \<Rightarrow> store_state \<Rightarrow> bool" where
  "unwrapped_step st st' \<longleftrightarrow> store_step st st' \<and> resourceRev (fst st) \<noteq> - 1"

lemma rev_ok_step:
  assumes "store_step st st'" "resourceRev (fst st) \<noteq> - 1" "rev_ok (fst st)" "store_ok (fst st)"
  shows "rev_ok (fst st') \<and> unat (resourceRev (fst st)) \<le> unat (resourceRev (fst st'))"
  using assms
proof (induction rule: store_step.induct)
  case (step_put s ws key object ev)
  then show ?case
    by (cases rule: put_cases [of key object ev s]) (use rev_ok_put [of s key object ev] in \<open>auto simp: store_simps unat_inc\<close>)
next
  case (step_delete s ws key)
  then show ?case
    using rev_ok_delete [of s key] by (auto simp: delete_def store_simps unat_inc split: option.splits)
qed (auto simp: nextName_def watch_def recv_event_def unwatch_def Let_def store_simps
    intro: rev_ok_cong split: list.splits if_splits)

lemma unwrapped_reachable:
  "unwrapped_step\<^sup>*\<^sup>* (newObjectStore now, []) st \<Longrightarrow> system_ok st \<and> rev_ok (fst st)"
proof (induction rule: rtranclp_induct)
  case base
  then show ?case
    using system_ok_reachable [of now] by (simp add: rev_ok_def newObjectStore_def)
next
  case (step st st')
  then have one: "store_step st st'" "resourceRev (fst st) \<noteq> - 1" by (simp_all add: unwrapped_step_def)
  with step.IH show ?case
    using system_ok_step [OF one(1)] rev_ok_step [OF one] by (simp add: system_ok_def)
qed

text \<open>
  Until the 64-bit counter wraps, no two stored objects carry the same resource version, and every
  version a client can read is at most the store's current revision.
\<close>

lemma resource_versions_unique:
  assumes "unwrapped_step\<^sup>*\<^sup>* (newObjectStore now, []) (s, ws)"
    and "get s k1 = Some o1" "get s k2 = Some o2" "k1 \<noteq> k2"
  shows "rv_of o1 \<noteq> rv_of o2 \<and> (\<exists>n \<le> unat (resourceRev s). rv_of o1 = show_nat n)"
proof -
  have ok: "rev_ok s" "store_ok s" using unwrapped_reachable [OF assms(1)] by (simp_all add: system_ok_def)
  then have "(k1, o1) \<in> set (objects s)" "(k2, o2) \<in> set (objects s)"
    using assms(2,3) by (auto simp: get_def store_ok_def list_all_iff dest!: map_of_SomeD)
  with ok(1) assms(4) show ?thesis
    using inj_onD [of "rv_of \<circ> snd" "set (objects s)" "(k1, o1)" "(k2, o2)"] by (auto simp: rev_ok_def)
qed

section \<open>Generated names\<close>

lemma nextName_Inr:
  assumes "nextName prefix s = (Inr name, s')"
  shows "name = prefix @ pad_nat 20 (unat (generatedNames s'))" "unat (generatedNames s') = Suc (unat (generatedNames s))"
    "validObjectName name"
  using assms by (auto simp: nextName_def Let_def unat_inc split: if_splits)

lemma generatedNames_step: "store_step st st' \<Longrightarrow> unat (generatedNames (fst st)) \<le> unat (generatedNames (fst st'))"
proof (induction rule: store_step.induct)
  case (step_put s ws key object ev)
  then show ?case by (cases rule: put_cases [of key object ev s]) (simp_all add: store_simps)
next
  case (step_name s ws prefix)
  then show ?case by (auto simp: nextName_def Let_def unat_inc)
qed (auto simp: delete_def watch_def recv_event_def unwatch_def Let_def store_simps
    split: option.splits list.splits if_splits)

lemma generatedNames_mono:
  "store_step\<^sup>*\<^sup>* st st' \<Longrightarrow> unat (generatedNames (fst st)) \<le> unat (generatedNames (fst st'))"
  by (induction rule: rtranclp_induct) (auto dest: generatedNames_step)

lemma length_pad_64: "length (pad_nat 20 (unat (w :: 64 word))) = 20"
proof -
  have "unat w < 2 ^ LENGTH(64)" by (rule unsigned_less)
  then show ?thesis by (intro length_pad_nat) simp_all
qed

text \<open>
  A generated name is never handed out twice, whatever happens in between and even for different
  prefixes (the fixed-width counter cannot be imitated by a prefix that ends in digits).
\<close>

lemma nextName_unique:
  assumes "nextName p s = (Inr n, s')" "store_step\<^sup>*\<^sup>* (s', ws) (t, vs)" "nextName q t = (Inr m, t')"
  shows "n \<noteq> m \<and> validObjectName n \<and> validObjectName m"
proof -
  let ?a = "unat (generatedNames s')" and ?b = "unat (generatedNames t')"
  have names: "n = p @ pad_nat 20 ?a" "m = q @ pad_nat 20 ?b" "validObjectName n" "validObjectName m"
    using nextName_Inr [OF assms(1)] nextName_Inr [OF assms(3)] by simp_all
  have "?a < ?b"
    using generatedNames_mono [OF assms(2)] nextName_Inr(2) [OF assms(3)] by simp
  moreover have "length (pad_nat 20 ?a) = 20" "length (pad_nat 20 ?b) = 20"
    by (rule length_pad_64)+
  moreover have "pad_nat 20 ?a \<noteq> pad_nat 20 ?b"
    using \<open>?a < ?b\<close> digits_val_pad_nat by (metis less_irrefl)
  ultimately show ?thesis using names by auto
qed

section \<open>Paging\<close>

lemma page_loop_take:
  "page_loop limit n used xs = map cloneObject (take (length (page_loop limit n used xs)) xs)"
  by (induction limit n used xs rule: page_loop.induct) (auto simp: Let_def)

lemma length_page_loop: "length (page_loop limit n used xs) \<le> limit - n"
  by (induction limit n used xs rule: page_loop.induct) (auto simp: Let_def)

lemma page_loop_progress: "0 < limit \<Longrightarrow> xs \<noteq> [] \<Longrightarrow> page_loop limit 0 0 xs \<noteq> []"
  by (cases xs) (auto simp: Let_def)

lemma page_loop_bytes:
  "0 < n \<Longrightarrow> int used \<le> maxListPageBytes \<Longrightarrow>
   int used + int (\<Sum>x \<leftarrow> page_loop limit n used xs. encodedLen x) \<le> maxListPageBytes"
  by (induction limit n used xs rule: page_loop.induct) (auto simp: Let_def not_less add.assoc)

text \<open>A client that follows \<^verbatim>\<open>continue\<close> tokens: the concatenation of the pages from an offset.\<close>

function all_pages ::
  "groupVersion \<Rightarrow> string \<Rightarrow> string \<Rightarrow> selectorRequirement list \<Rightarrow> selectorRequirement list \<Rightarrow> int \<Rightarrow> objectStore \<Rightarrow> int \<Rightarrow> gobj list"
where
  "all_pages gv ns res ls fs limit s offset =
     (case listPage gv ns res ls fs offset limit s of
        None \<Rightarrow> []
      | Some (items, tot, nxt) \<Rightarrow> items @ (if nxt < tot then all_pages gv ns res ls fs limit s nxt else []))"
  by pat_completeness auto

lemma listPage_SomeD:
  assumes "listPage gv ns res ls fs offset limit s = Some (items, tot, nxt)"
  shows "0 \<le> offset" "offset \<le> tot" "tot = int (length (candidates gv ns res ls fs s))"
    "nxt = offset + int (length items)" "length items \<le> 100" "offset < tot \<Longrightarrow> items \<noteq> []"
    "items = map (cloneObject \<circ> snd) (take (length items) (drop (nat offset) (candidates gv ns res ls fs s)))"
proof -
  define cs where "cs = candidates gv ns res ls fs s"
  define l where "l = nat (if limit \<le> 0 \<or> limit > maxListPageItems then maxListPageItems else limit)"
  have l: "0 < l" "l \<le> 100" by (auto simp: l_def)
  from assms have items: "items = page_loop l 0 0 (map snd (drop (nat offset) cs))"
    and rest: "0 \<le> offset" "offset \<le> tot" "tot = int (length cs)" "nxt = offset + int (length items)"
    by (auto simp: listPage_def Let_def cs_def l_def split: if_splits)
  then show "0 \<le> offset" "offset \<le> tot" "tot = int (length (candidates gv ns res ls fs s))"
    "nxt = offset + int (length items)" by (simp_all add: cs_def)
  show "length items \<le> 100" using l length_page_loop [of l 0 0 "map snd (drop (nat offset) cs)"] by (simp add: items)
  show "offset < tot \<Longrightarrow> items \<noteq> []" using l page_loop_progress [of l "map snd (drop (nat offset) cs)"] rest by (simp add: items)
  show "items = map (cloneObject \<circ> snd) (take (length items) (drop (nat offset) (candidates gv ns res ls fs s)))"
    using page_loop_take [of l 0 0 "map snd (drop (nat offset) cs)"] by (simp add: items cs_def take_map)
qed

lemma listPage_progress:
  assumes "listPage gv ns res ls fs offset limit s = Some (items, tot, nxt)"
  shows "nxt \<le> tot" "nxt < tot \<Longrightarrow> offset < nxt"
proof -
  note facts = listPage_SomeD [OF assms]
  have "length items \<le> length (drop (nat offset) (candidates gv ns res ls fs s))"
    using arg_cong [OF facts(7), of length] by simp
  then show "nxt \<le> tot" using facts(1,2,3,4) by simp
  show "offset < nxt" if "nxt < tot"
    using that facts(4,6) by (cases "items = []") auto
qed

termination all_pages
proof (relation "measure (\<lambda>(gv, ns, res, ls, fs, limit, s, offset). nat (int (length (candidates gv ns res ls fs s)) - offset))", goal_cases)
  case (2 gv ns res ls fs limit s offset page items rest tot nxt)
  then show ?case using listPage_progress [of gv ns res ls fs offset limit s items tot nxt] listPage_SomeD(3) [of gv ns res ls fs offset limit s items tot nxt]
    by simp
qed simp

declare all_pages.simps [simp del]

lemma all_pages_drop:
  assumes "0 \<le> offset" "offset \<le> int (length (candidates gv ns res ls fs s))"
  shows "all_pages gv ns res ls fs limit s offset =
         map (cloneObject \<circ> snd) (drop (nat offset) (candidates gv ns res ls fs s))"
  using assms
proof (induction gv ns res ls fs limit s offset rule: all_pages.induct)
  case (1 gv ns res ls fs limit s offset)
  let ?cs = "candidates gv ns res ls fs s"
  obtain items tot nxt where page: "listPage gv ns res ls fs offset limit s = Some (items, tot, nxt)"
    using "1.prems" by (auto simp: listPage_def Let_def)
  note facts = listPage_SomeD [OF page]
  let ?rest = "drop (nat offset) ?cs"
  have nx: "nat nxt = length items + nat offset" using facts(1,4) by simp
  have "all_pages gv ns res ls fs limit s offset = items @ (if nxt < tot then all_pages gv ns res ls fs limit s nxt else [])"
    by (subst all_pages.simps) (simp add: page)
  also have "(if nxt < tot then all_pages gv ns res ls fs limit s nxt else []) = map (cloneObject \<circ> snd) (drop (length items) ?rest)"
  proof (cases "nxt < tot")
    case True
    then show ?thesis using "1.IH" [OF page] facts nx by simp
  next
    case False
    then show ?thesis using facts nx by simp
  qed
  also have "items @ \<dots> = map (cloneObject \<circ> snd) (take (length items) ?rest @ drop (length items) ?rest)"
    using facts(7) by (metis map_append)
  finally show ?case by (simp only: append_take_drop_id)
qed

lemma candidates_sorted:
  "sorted (map (\<lambda>(key, object). (k_namespace key, k_name key)) (candidates gv ns res ls fs s))"
  by (simp add: candidates_def)

lemma set_candidates:
  "set (candidates gv ns res ls fs s) =
   {(key, object). (key, object) \<in> set (objects s) \<and> key_matches gv ns res key \<and> objectMatches object ls fs}"
  by (auto simp: candidates_def)

lemma distinct_candidates: "store_ok s \<Longrightarrow> distinct (map fst (candidates gv ns res ls fs s))"
proof -
  assume "store_ok s"
  then have "distinct (objects s)" "inj_on fst (set (objects s))" by (auto simp: store_ok_def distinct_map)
  then show ?thesis
    by (auto simp: distinct_map set_candidates candidates_def intro: inj_on_subset)
qed

text \<open>
  Listing is complete and without repetition: the pages a client gets by following the returned
  offsets from the start are together the list of all matching objects, each exactly once, in increasing
  order of namespace and name. Following the pages terminates for every limit, zero and negative ones
  included, because each page with items left is non-empty.
\<close>

lemma pages_enumerate_matches:
  assumes "store_ok s"
  shows "\<exists>keys. distinct keys \<and>
           sorted (map (\<lambda>key. (k_namespace key, k_name key)) keys) \<and>
           set keys = {key. key_matches gv ns res key \<and> (\<exists>object. get s key = Some object \<and> objectMatches object ls fs)} \<and>
           map Some (all_pages gv ns res ls fs limit s 0) = map (get s) keys"
proof -
  let ?cs = "candidates gv ns res ls fs s"
  have stored: "get s key = Some object \<longleftrightarrow> (key, object) \<in> set (objects s)" for key object
    using assms by (auto simp: get_def store_ok_def list_all_iff dest!: map_of_SomeD)
  have "get s (fst c) = Some (cloneObject (snd c))" if "c \<in> set ?cs" for c
    using that assms stored by (auto simp: set_candidates store_ok_def list_all_iff)
  then have "map Some (all_pages gv ns res ls fs limit s 0) = map (get s) (map fst ?cs)"
    by (simp add: all_pages_drop)
  moreover have "set (map fst ?cs) = {key. key_matches gv ns res key \<and> (\<exists>object. get s key = Some object \<and> objectMatches object ls fs)}"
    by (force simp: set_candidates stored)
  moreover have "sorted (map (\<lambda>key. (k_namespace key, k_name key)) (map fst ?cs))"
    using candidates_sorted [of gv ns res ls fs s] by (simp add: comp_def case_prod_beta')
  ultimately show ?thesis using distinct_candidates [OF assms, of gv ns res ls fs] by blast
qed

text \<open>
  A list page is bounded: at most 100 items, and at most 1 MiB of encoded objects, for every limit
  the client asks for.
\<close>

lemma listPage_bounded:
  assumes "store_ok s" "listPage gv ns res ls fs offset limit s = Some (items, tot, nxt)"
  shows "length items \<le> 100 \<and> (\<Sum>item \<leftarrow> items. encodedLen item) \<le> 1024 * 1024 \<and>
         0 \<le> offset \<and> nxt = offset + int (length items) \<and> nxt \<le> tot"
proof -
  let ?cs = "candidates gv ns res ls fs s"
  have page: "\<exists>l. items = page_loop l 0 0 (map snd (drop (nat offset) ?cs))"
    using assms(2) by (auto simp: listPage_def Let_def split: if_splits)
  have small: "encodedLen x \<le> maxStoredObjectBytes" if "x \<in> set (map snd (drop (nat offset) ?cs))" for x
    using that assms(1) by (auto dest!: in_set_dropD simp: set_candidates store_ok_def list_all_iff)
  have "(\<Sum>item \<leftarrow> page_loop l 0 0 xs. encodedLen item) \<le> 1024 * 1024" if "\<forall>x \<in> set xs. encodedLen x \<le> maxStoredObjectBytes" for l xs
  proof (cases xs)
    case (Cons x xs')
    then show ?thesis
      using that page_loop_bytes [of 1 "encodedLen x" l xs'] by (auto simp: Let_def)
  qed simp
  with page small have "(\<Sum>item \<leftarrow> items. encodedLen item) \<le> 1024 * 1024" by blast
  moreover have "nxt \<le> tot"
    by (rule listPage_progress [OF assms(2)])
  ultimately show ?thesis using listPage_SomeD [OF assms(2)] by simp
qed

section \<open>Delivery of watch events\<close>

definition watches :: "watcher \<Rightarrow> objectKey \<Rightarrow> gobj \<Rightarrow> bool" where
  "watches w key object \<longleftrightarrow>
     w_group w = k_group key \<and> w_version w = k_version key \<and> w_resource w = k_resource key \<and>
     (w_namespace w = [] \<or> w_namespace w = k_namespace key) \<and> objectMatches object (w_labels w) (w_fields w)"

lemma publish_one_other_chan:
  "c \<noteq> w_ch (snd iw) \<Longrightarrow> chans (publish_one key ev obj iw s) ! c = chans s ! c"
  by (auto simp: publish_one_def close_chan_def Let_def split: prod.splits)

lemma fold_publish_other_chan:
  "c \<notin> (w_ch \<circ> snd) ` set ws \<Longrightarrow> chans (fold (publish_one key ev obj) ws s) ! c = chans s ! c"
  by (induction ws arbitrary: s) (auto simp: publish_one_other_chan)

lemma publish_one_local:
  assumes "chans s ! w_ch w = chans t ! w_ch w" "w_ch w < length (chans s)" "w_ch w < length (chans t)"
  shows "chans (publish_one key ev obj (i, w) s) ! w_ch w = chans (publish_one key ev obj (i, w) t) ! w_ch w"
  using assms by (auto simp: publish_one_def close_chan_def Let_def)

lemma fold_publish_own_chan:
  assumes "distinct ws" "inj_on (w_ch \<circ> snd) (set ws)" "(i, w) \<in> set ws" "w_ch w < length (chans s)"
  shows "chans (fold (publish_one key ev obj) ws s) ! w_ch w = chans (publish_one key ev obj (i, w) s) ! w_ch w"
  using assms
proof (induction ws arbitrary: s)
  case (Cons iw ws)
  show ?case
  proof (cases "iw = (i, w)")
    case True
    then have "w_ch w \<notin> (w_ch \<circ> snd) ` set ws"
      using Cons.prems(1,2) by (auto simp: inj_on_def)
    with True show ?thesis by (simp add: fold_publish_other_chan)
  next
    case False
    have ne: "w_ch w \<noteq> w_ch (snd iw)"
    proof
      assume "w_ch w = w_ch (snd iw)"
      then have "(i, w) = iw" by (intro inj_onD [OF Cons.prems(2)]) (use Cons.prems(3) in simp_all)
      with False show False by simp
    qed
    have "chans (fold (publish_one key ev obj) ws (publish_one key ev obj iw s)) ! w_ch w =
        chans (publish_one key ev obj (i, w) (publish_one key ev obj iw s)) ! w_ch w"
      using Cons.prems False by (intro Cons.IH) (auto simp: store_simps)
    also have "\<dots> = chans (publish_one key ev obj (i, w) s) ! w_ch w"
      using publish_one_other_chan [OF ne] Cons.prems(4) by (intro publish_one_local) (simp_all add: store_simps)
    finally show ?thesis by simp
  qed
qed simp

text \<open>
  A stored write is announced to every registered watcher whose scope and selectors it matches:
  with room in the buffer the event is appended after the ones already queued, and with a full buffer the
  watch is ended by closing its channel with the queued events kept. A watcher that does not match sees
  nothing.
\<close>

lemma put_announces:
  assumes "chan_ok s" "put key object ev s = (None, object', s')" "(i, w) \<in> set (watchers s)"
  shows "chans s' ! w_ch w =
    (let ch = chans s ! w_ch w in
     if \<not> watches w key (cloneObject object') then ch
     else if length (ch_buf ch) < 4
     then ch\<lparr>ch_buf := ch_buf ch @ [\<lparr>ev_Type = ev, ev_Object = cloneObject object'\<rparr>]\<rparr>
     else ch\<lparr>ch_closed := True\<rparr>)"
proof -
  have s': "s' = put_state key object ev s" "object' = stamped object s"
    using assms(2) by (cases rule: put_cases [of key object ev s]; simp)+
  let ?s1 = "s\<lparr>resourceRev := resourceRev s + 1, objects := AList.update key (cloneObject object') (objects s),
    storedBytes := storedBytes s - old_bytes key s + int (encodedLen object')\<rparr>"
  have c: "w_ch w < length (chans s)" "\<not> ch_closed (chans s ! w_ch w)"
    using assms(1,3) by (auto simp: chan_ok_def open_chan_def)
  have "chans s' ! w_ch w = chans (publish_one key ev (cloneObject object') (i, w) ?s1) ! w_ch w"
    unfolding s' put_state_def publishLocked_def
    using assms(1,3) c(1) by (subst fold_publish_own_chan) (auto simp: chan_ok_def distinct_map)
  then show ?thesis
    using c by (auto simp: publish_one_def watches_def Let_def close_chan_def)
qed

section \<open>Concrete runs\<close>

abbreviation demo_key :: "string \<Rightarrow> objectKey" where
  "demo_key n \<equiv> \<lparr>k_group = [], k_version = ''v1'', k_resource = ''pods'', k_namespace = ''default'', k_name = n\<rparr>"

abbreviation demo_pod :: gobj where
  "demo_pod \<equiv> [(''kind'', GStr ''Pod''), (''metadata'', GMap [(''name'', GStr ''a'')])]"

definition demo_store :: objectStore where
  "demo_store = snd (snd (put (demo_key ''b'') demo_pod ''ADDED''
     (snd (snd (put (demo_key ''a'') demo_pod ''ADDED'' (newObjectStore 0))))))"

lemma demo_steps: "store_step\<^sup>*\<^sup>* (newObjectStore 0, []) (demo_store, [])"
  unfolding demo_store_def
  by (rule rtranclp.rtrancl_into_rtrancl, rule r_into_rtranclp, rule step_put, rule step_put)

lemma demo_ok: "store_ok demo_store" "chan_ok demo_store"
  using system_ok_reachable [OF demo_steps] by (simp_all add: system_ok_def)

lemmas marshal_eval = encodedLen_def json_object_def json_quote_def escape_char_def has_prefix_def
lemmas store_eval = put_def newObjectStore_def Let_def gget_def objectMap_def publishLocked_def cloneObject_def marshal_eval

lemma demo_store_eval:
  "demo_store =
     \<lparr>objects =
        [(demo_key ''a'', [(''kind'', GStr ''Pod''), (''metadata'', GMap [(''name'', GStr ''a''), (''resourceVersion'', GStr ''1001'')])]),
         (demo_key ''b'', [(''kind'', GStr ''Pod''), (''metadata'', GMap [(''name'', GStr ''a''), (''resourceVersion'', GStr ''1002'')])])],
      watchers = [], nextWatcher = 0, resourceRev = 1002, storedBytes = 126, generatedNames = 0, startedAt = 0,
      chans = [], chan_panic = False\<rparr>"
  by (simp add: demo_store_def store_eval)


definition demo_watched :: objectStore where
  "demo_watched = snd (watch \<lparr>Group = [], Version = ''v1''\<rparr> ''default'' ''pods'' [] [] (newObjectStore 0))"

definition demo_watcher :: watcher where
  "demo_watcher = fst (watch \<lparr>Group = [], Version = ''v1''\<rparr> ''default'' ''pods'' [] [] (newObjectStore 0))"

lemma demo_watched_step: "store_step\<^sup>*\<^sup>* (newObjectStore 0, []) (demo_watched, [demo_watcher])"
  by (rule r_into_rtranclp, rule step_watch) (simp_all add: demo_watched_def demo_watcher_def newObjectStore_def)

lemma demo_watched_eval:
  "demo_watched = \<lparr>objects = [], watchers = [(1, demo_watcher)], nextWatcher = 1, resourceRev = 1000, storedBytes = 0,
     generatedNames = 0, startedAt = 0, chans = [\<lparr>ch_buf = [], ch_closed = False\<rparr>], chan_panic = False\<rparr>"
  by (simp add: demo_watched_def demo_watcher_def watch_def newObjectStore_def Let_def)

lemma reachable_no_channel_panic_example:
  "\<not> chan_panic demo_watched \<and> watchers demo_watched = [(1, demo_watcher)] \<and>
   w_ch demo_watcher < length (chans demo_watched) \<and> \<not> ch_closed (chans demo_watched ! w_ch demo_watcher)"
  using reachable_no_channel_panic [OF demo_watched_step] by (simp add: demo_watched_eval)


lemma put_announces_example:
  "ch_buf (chans (snd (snd (put (demo_key ''a'') demo_pod ''ADDED'' demo_watched))) ! w_ch demo_watcher) =
   [\<lparr>ev_Type = ''ADDED'', ev_Object = [(''kind'', GStr ''Pod''), (''metadata'', GMap [(''name'', GStr ''a''), (''resourceVersion'', GStr ''1001'')])]\<rparr>]"
proof -
  let ?obj = "[(''kind'', GStr ''Pod''), (''metadata'', GMap [(''name'', GStr ''a''), (''resourceVersion'', GStr ''1001'')])]"
  let ?p = "put (demo_key ''a'') demo_pod ''ADDED'' demo_watched"
  have put: "?p = (None, ?obj, snd (snd ?p))"
    by (simp add: demo_watched_eval put_def Let_def gget_def objectMap_def marshal_eval)
  have w: "(1, demo_watcher) \<in> set (watchers demo_watched)" "chan_ok demo_watched"
    using system_ok_reachable [OF demo_watched_step] by (simp_all add: demo_watched_eval system_ok_def)
  have "w_ch demo_watcher = 0" "watches demo_watcher (demo_key ''a'') (cloneObject ?obj)"
    by (simp_all add: demo_watcher_def watch_def Let_def newObjectStore_def watches_def)
  then show ?thesis using put_announces [OF w(2) put w(1)] by (simp add: demo_watched_eval Let_def cloneObject_def)
qed

theorem deleteMatching_spec_witness:
  "let (n, s') = deleteMatching \<lparr>Group = [], Version = ''v1''\<rparr> ''default'' ''pods'' [] [] demo_store
   in store_ok s' \<and> n = 2 \<and> get s' (demo_key ''a'') = None"
proof -
  let ?gv = "\<lparr>Group = [], Version = ''v1''\<rparr>"
  obtain n s' where del: "deleteMatching ?gv ''default'' ''pods'' [] [] demo_store = (n, s')" by fastforce
  have objs: "objects demo_store = [(demo_key ''a'', [(''kind'', GStr ''Pod''), (''metadata'', GMap [(''name'', GStr ''a''), (''resourceVersion'', GStr ''1001'')])]),
      (demo_key ''b'', [(''kind'', GStr ''Pod''), (''metadata'', GMap [(''name'', GStr ''a''), (''resourceVersion'', GStr ''1002'')])])]"
    by (simp add: demo_store_eval)
  from deleteMatching_spec [OF demo_ok(1) del] show ?thesis
    unfolding del by (simp add: objs parseSelector_def trim_space_plain)
qed

lemma resource_versions_unique_example:
  "\<exists>o1 o2. get demo_store (demo_key ''a'') = Some o1 \<and> get demo_store (demo_key ''b'') = Some o2 \<and> rv_of o1 \<noteq> rv_of o2"
proof -
  have run: "unwrapped_step\<^sup>*\<^sup>* (newObjectStore 0, []) (demo_store, [])"
    unfolding demo_store_def
  proof (rule rtranclp.rtrancl_into_rtrancl, rule r_into_rtranclp)
    show "unwrapped_step (newObjectStore 0, []) (snd (snd (put (demo_key ''a'') demo_pod ''ADDED'' (newObjectStore 0))), [])"
      unfolding unwrapped_step_def by (rule conjI, rule step_put) (simp add: newObjectStore_def)
    show "unwrapped_step (snd (snd (put (demo_key ''a'') demo_pod ''ADDED'' (newObjectStore 0))), [])
        (snd (snd (put (demo_key ''b'') demo_pod ''ADDED'' (snd (snd (put (demo_key ''a'') demo_pod ''ADDED'' (newObjectStore 0)))))), [])"
      unfolding unwrapped_step_def by (rule conjI, rule step_put) (simp add: store_eval)
  qed
  obtain o1 o2 where "get demo_store (demo_key ''a'') = Some o1" "get demo_store (demo_key ''b'') = Some o2"
    by (simp add: get_def demo_store_eval)
  with resource_versions_unique [OF run this] show ?thesis by simp
qed

lemma nextName_unique_example:
  "\<exists>n m. fst (nextName ''a-'' (newObjectStore 0)) = Inr n \<and>
         fst (nextName ''b-'' (snd (nextName ''a-'' (newObjectStore 0)))) = Inr m \<and> n \<noteq> m"
proof -
  have name: "validObjectName (c # ''-0000000000000000000'' @ d)" if "c \<in> set ''ab''" "d \<in> set [''1'', ''2'']" for c d
    using that by (auto simp: validObjectName_def)
  have a: "nextName ''a-'' (newObjectStore 0) = (Inr ''a-00000000000000000001'', (newObjectStore 0)\<lparr>generatedNames := 1\<rparr>)"
    using name [of "CHR ''a''" "''1''"] by (simp add: nextName_def newObjectStore_def pad_nat_def Let_def replicate_eval)
  have b: "nextName ''b-'' ((newObjectStore 0)\<lparr>generatedNames := 1\<rparr>) =
      (Inr ''b-00000000000000000002'', (newObjectStore 0)\<lparr>generatedNames := 2\<rparr>)"
    using name [of "CHR ''b''" "''2''"] by (simp add: nextName_def newObjectStore_def pad_nat_def Let_def replicate_eval)
  from nextName_unique [OF a rtranclp.rtrancl_refl b] show ?thesis by (simp add: a b)
qed

lemma pages_enumerate_matches_example:
  "\<exists>keys. distinct keys \<and> sorted (map (\<lambda>key. (k_namespace key, k_name key)) keys) \<and>
     set keys = {demo_key ''a'', demo_key ''b''} \<and>
     map Some (all_pages \<lparr>Group = [], Version = ''v1''\<rparr> [] ''pods'' [] [] 1 demo_store 0) = map (get demo_store) keys"
proof -
  have "{key. key_matches \<lparr>Group = [], Version = ''v1''\<rparr> [] ''pods'' key \<and>
      (\<exists>object. get demo_store key = Some object \<and> objectMatches object [] [])} = {demo_key ''a'', demo_key ''b''}"
    by (auto simp: demo_store_eval get_def key_matches_def split: if_splits)
  with pages_enumerate_matches [OF demo_ok(1), of "\<lparr>Group = [], Version = ''v1''\<rparr>" "[]" "''pods''" "[]" "[]" 1]
  show ?thesis by metis
qed

lemma listPage_bounded_example:
  "\<exists>items. listPage \<lparr>Group = [], Version = ''v1''\<rparr> [] ''pods'' [] [] 1 0 demo_store = Some (items, 2, 2) \<and>
     length items \<le> 100 \<and> (\<Sum>item \<leftarrow> items. encodedLen item) \<le> 1024 * 1024"
proof -
  obtain items where page: "listPage \<lparr>Group = [], Version = ''v1''\<rparr> [] ''pods'' [] [] 1 0 demo_store = Some (items, 2, 2)"
    by (simp add: listPage_def candidates_def demo_store_eval key_matches_def Let_def marshal_eval less_list_code)
  from listPage_bounded [OF demo_ok(1) page] page show ?thesis by simp
qed

end
