(* ===== verification/StoreRefinement.thy ===== *)
theory StoreRefinement
  imports ObjectStore
begin

text \<open>
  The abstract object store: a finite map from keys to objects and a revision number. The detailed store, with its association list, byte
  counter, watchers, channels and error paths, refines it: every operation is one step of the map or none.
\<close>

type_synonym versioned_map = "(objectKey \<rightharpoonup> gobj) \<times> 64 word"

definition abs_store :: "store_state \<Rightarrow> versioned_map" where
  "abs_store st = (get (fst st), resourceRev (fst st))"

text \<open>
  A write puts an object of bounded size under a key and labels it with the new revision, as long as the map stays within 4096 keys; a removal takes a present key
  away. Either advances the revision by one.
\<close>

inductive map_step :: "versioned_map \<Rightarrow> versioned_map \<Rightarrow> bool" where
  map_write: "rv_of object = show_nat (unat (rv + 1)) \<Longrightarrow> encodedLen object \<le> 256 * 1024 \<Longrightarrow> card (dom (m(key \<mapsto> object))) \<le> 4096 \<Longrightarrow>
    map_step (m, rv) (m(key \<mapsto> object), rv + 1)"
| map_remove: "m key \<noteq> None \<Longrightarrow> map_step (m, rv) (m(key := None), rv + 1)"

inductive_cases map_stepE: "map_step (m, rv) x"

lemma get_dom_card: "distinct (map fst (objects s)) \<Longrightarrow> card (dom (get s)) = length (objects s)"
proof -
  assume d: "distinct (map fst (objects s))"
  have "dom (get s) = dom (map_of (objects s))" by (auto simp: get_def dom_def)
  then have "dom (get s) = fst ` set (objects s)" by (simp add: dom_map_of_conv_image_fst)
  then show ?thesis using d distinct_card [of "map fst (objects s)"] by simp
qed

lemma put_refines:
  assumes "store_ok s"
  shows "map_step\<^sup>=\<^sup>= (abs_store (s, ws)) (abs_store (snd (snd (put key object ev s)), ws))"
proof (cases rule: put_cases [of key object ev s])
  case stored
  let ?t = "put_state key object ev s"
  have "store_ok ?t" using assms stored(1) by (rule store_ok_put_state)
  then have "distinct (map fst (objects ?t))" "length (objects ?t) \<le> 4096" by (simp_all add: store_ok_def)
  then have "card (dom (get ?t)) \<le> 4096" by (simp add: get_dom_card)
  moreover have "encodedLen (cloneObject (stamped object s)) \<le> 256 * 1024" using stored(1) by (simp add: put_accepts_def)
  ultimately have "map_step (get s, resourceRev s) (get ?t, resourceRev s + 1)"
    unfolding get_put_state by (intro map_write rv_of_stamped)
  then show ?thesis using stored by (simp add: abs_store_def store_simps)
next
  case (refused e)
  then show ?thesis by simp
qed

lemma delete_refines: "map_step\<^sup>=\<^sup>= (abs_store (s, ws)) (abs_store (snd (delete key s), ws))"
proof (cases "map_of (objects s) key")
  case None
  then show ?thesis by (simp add: delete_def)
next
  case (Some object)
  then have "map_step (get s, resourceRev s) (get (snd (delete key s)), resourceRev s + 1)"
    unfolding get_delete by (intro map_remove) (simp add: get_def)
  moreover have "resourceRev (snd (delete key s)) = resourceRev s + 1" using Some by (simp add: delete_def store_simps)
  ultimately show ?thesis by (simp add: abs_store_def)
qed

lemma store_step_refines:
  assumes "store_step st st'" "system_ok st"
  shows "map_step\<^sup>=\<^sup>= (abs_store st) (abs_store st')"
  using assms
proof (cases rule: store_step.cases)
  case (step_put s ws key object ev)
  then show ?thesis using assms(2) put_refines by (simp add: system_ok_def)
next
  case (step_delete s ws key)
  then show ?thesis using delete_refines by simp
qed (auto simp: abs_store_def get_def nextName_def watch_def unwatch_def recv_event_def close_chan_def Let_def split: if_splits option.splits list.splits)

lemma store_steps_refine:
  assumes "store_step\<^sup>*\<^sup>* st st'" "system_ok st"
  shows "map_step\<^sup>*\<^sup>* (abs_store st) (abs_store st')"
  using assms(1)
proof (induction rule: rtranclp_induct)
  case (step st1 st2)
  have "system_ok st1" using step(1) assms(2) by (induction rule: rtranclp_induct) (auto intro: system_ok_step)
  from store_step_refines [OF step(2) this] step(3) show ?case by (auto intro: rtranclp.rtrancl_into_rtrancl)
qed simp

end
