(* ===== verification/Utf8.thy ===== *)
theory Utf8
  imports Prelude
begin

text \<open>
  UTF-8 as Go reads and writes it: decoding a byte string rune by rune, encoding a rune, and \<^verbatim>\<open>strings.ToLower\<close>. The Unicode
  tables beyond ASCII are a parameter where the code depends on them.
\<close>

definition byte :: "char \<Rightarrow> nat" where "byte c = of_char c"

definition cont :: "nat \<Rightarrow> bool" where "cont b \<longleftrightarrow> 0x80 \<le> b \<and> b \<le> 0xBF"

text \<open>The first rune of a non-empty string and its width; an invalid byte is U+FFFD of width one.\<close>

definition decode_rune :: "string \<Rightarrow> nat \<times> nat" where
  "decode_rune s =
     (let b = map byte (take 4 s); n = length b; b0 = b ! 0; b1 = b ! 1; b2 = b ! 2; b3 = b ! 3
      in if b0 < 0x80 then (b0, 1)
         else if 0xC2 \<le> b0 \<and> b0 \<le> 0xDF \<and> n \<ge> 2 \<and> cont b1 then ((b0 - 0xC0) * 64 + (b1 - 0x80), 2)
         else if 0xE0 \<le> b0 \<and> b0 \<le> 0xEF \<and> n \<ge> 3 \<and> cont b1 \<and> cont b2 \<and> (b0 = 0xE0 \<longrightarrow> 0xA0 \<le> b1) \<and> (b0 = 0xED \<longrightarrow> b1 \<le> 0x9F)
         then ((b0 - 0xE0) * 4096 + (b1 - 0x80) * 64 + (b2 - 0x80), 3)
         else if 0xF0 \<le> b0 \<and> b0 \<le> 0xF4 \<and> n \<ge> 4 \<and> cont b1 \<and> cont b2 \<and> cont b3 \<and> (b0 = 0xF0 \<longrightarrow> 0x90 \<le> b1) \<and> (b0 = 0xF4 \<longrightarrow> b1 \<le> 0x8F)
         then ((b0 - 0xF0) * 262144 + (b1 - 0x80) * 4096 + (b2 - 0x80) * 64 + (b3 - 0x80), 4)
         else (0xFFFD, 1))"

lemma decode_rune_width: "1 \<le> snd (decode_rune s)"
  by (simp add: decode_rune_def Let_def)

function runes :: "string \<Rightarrow> nat list" where
  "runes s = (if s = [] then [] else fst (decode_rune s) # runes (drop (snd (decode_rune s)) s))"
  by pat_completeness auto
termination
proof (relation "measure length", goal_cases)
  case (2 s)
  then show ?case using decode_rune_width [of s] by (cases s) auto
qed simp

declare runes.simps [simp del]

definition encode_rune :: "nat \<Rightarrow> string" where
  "encode_rune r =
     map char_of
       (if r < 0x80 then [r]
        else if r < 0x800 then [0xC0 + r div 64, 0x80 + r mod 64]
        else if r < 0x10000 then [0xE0 + r div 4096, 0x80 + r div 64 mod 64, 0x80 + r mod 64]
        else [0xF0 + r div 262144, 0x80 + r div 4096 mod 64, 0x80 + r div 64 mod 64, 0x80 + r mod 64])"

lemma byte_less [simp]: "byte c < 256"
  using mod_less_divisor [of 256 "of_char c :: nat"] unfolding byte_def by (simp only: of_char_mod_256)

lemma decode_rune_less:
  assumes "s \<noteq> []"
  shows "fst (decode_rune s) < 0x140000"
proof -
  have b: "map byte (take 4 s) ! i < 256" if "i < length (take 4 s)" for i
    using that by simp
  have "4 \<le> length (take 4 s) \<Longrightarrow> map byte (take 4 s) ! 1 < 256 \<and> map byte (take 4 s) ! 2 < 256 \<and> map byte (take 4 s) ! 3 < 256"
    by (intro conjI b) auto
  moreover have "3 \<le> length (take 4 s) \<Longrightarrow> map byte (take 4 s) ! 1 < 256 \<and> map byte (take 4 s) ! 2 < 256" by (intro conjI b) auto
  moreover have "2 \<le> length (take 4 s) \<Longrightarrow> map byte (take 4 s) ! 1 < 256" by (intro b) auto
  ultimately show ?thesis
    unfolding decode_rune_def Let_def by (auto simp: cont_def)
qed

text \<open>A rune beyond ASCII is encoded in bytes beyond ASCII.\<close>

lemma encode_rune_ascii:
  assumes "c \<in> set (encode_rune r)" "r < 0x140000" "byte c < 0x80"
  shows "r = byte c"
proof (cases "r < 0x80")
  case True
  with assms show ?thesis by (simp add: encode_rune_def byte_def)
next
  case False
  have "\<not> byte (char_of (k :: nat)) < 0x80" if "0x80 \<le> k" "k < 256" for k
    using that by (simp add: byte_def)
  moreover have "r div 64 < 32" if "r < 0x800" using that by (simp add: div_less_iff_less_mult)
  moreover have "r div 4096 < 16" if "r < 0x10000" using that by (simp add: div_less_iff_less_mult)
  moreover have "r div 262144 < 5" using assms(2) by (simp add: div_less_iff_less_mult)
  moreover have "x mod 64 < 64" for x :: nat by simp
  ultimately show ?thesis using assms False by (fastforce simp: encode_rune_def split: if_splits)
qed

section \<open>Lower case\<close>

text \<open>\<open>uni\<close> is \<^verbatim>\<open>unicode.ToLower\<close> on runes beyond ASCII; a byte that is no UTF-8 becomes the replacement character.\<close>

definition lower_rune :: "(nat \<Rightarrow> nat) \<Rightarrow> nat \<Rightarrow> nat" where
  "lower_rune uni r = (if r < 0x80 then if 65 \<le> r \<and> r \<le> 90 then r + 32 else r else uni r)"

definition toLower :: "(nat \<Rightarrow> nat) \<Rightarrow> string \<Rightarrow> string" where
  "toLower uni s = concat (map (encode_rune \<circ> lower_rune uni) (runes s))"

lemma toLower_ascii:
  assumes "list_all (\<lambda>c. byte c < 0x80) s"
  shows "toLower uni s = to_lower s"
proof -
  have "runes s = map byte s"
    using assms
  proof (induction s)
    case Nil
    show ?case by (simp add: runes.simps)
  next
    case (Cons c cs)
    then have "decode_rune (c # cs) = (byte c, 1)" by (simp add: decode_rune_def)
    with Cons show ?case by (subst runes.simps) simp
  qed
  moreover have lower: "byte c < 0x80 \<Longrightarrow> encode_rune (lower_rune uni (byte c)) = [lower_char c]" for c
    by (auto simp: encode_rune_def lower_rune_def lower_char_def byte_def)
  have "concat (map (\<lambda>c. encode_rune (lower_rune uni (byte c))) s) = map lower_char s"
    using assms by (induction s) (simp_all add: lower)
  ultimately show ?thesis by (simp add: toLower_def to_lower_def comp_def)
qed

end
