(* ===== verification/Json.thy ===== *)
theory Json
  imports GoValue Utf8
begin

text \<open>
  \<^verbatim>\<open>encoding/json\<close> as the honeypot uses it to read: the scanner behind \<^verbatim>\<open>json.Unmarshal\<close>, one step per byte
  with a stack of open arrays and objects (at most 10000 of them), the decoding of string literals, and the value an
  \<^verbatim>\<open>any\<close> receives. \<^verbatim>\<open>cloneObject\<close> of \<^verbatim>\<open>state.go\<close> is a round trip through it, \<^verbatim>\<open>decodeObject\<close> of \<^verbatim>\<open>api.go\<close> and
  \<^verbatim>\<open>decode\<close> of the AI sensor read request bodies with it, the Docker sensor decodes a container configuration.

  The scanner state carries the value read so far, where the library scans first and decodes in a second
  pass over the same bytes.
\<close>

section \<open>Values as written\<close>

text \<open>A number keeps its literal, an object its members in the order of the text, repeated keys included.\<close>

datatype json =
    JNull
  | JBool bool
  | JNum string
  | JStr string
  | JArr "json list"
  | JObj "(string \<times> json) list"

section \<open>String literals\<close>

definition hex_value :: "char \<Rightarrow> nat option" where
  "hex_value c =
     (if CHR ''0'' \<le> c \<and> c \<le> CHR ''9'' then Some (byte c - 48)
      else if CHR ''a'' \<le> c \<and> c \<le> CHR ''f'' then Some (byte c - 87)
      else if CHR ''A'' \<le> c \<and> c \<le> CHR ''F'' then Some (byte c - 55)
      else None)"

definition is_hex_char :: "char \<Rightarrow> bool" where
  "is_hex_char c \<longleftrightarrow> hex_value c \<noteq> None"

definition hex4 :: "string \<Rightarrow> nat" where
  "hex4 s = foldl (\<lambda>n c. 16 * n + (case hex_value c of Some d \<Rightarrow> d | None \<Rightarrow> 0)) 0 (take 4 s)"

definition is_surrogate :: "nat \<Rightarrow> bool" where
  "is_surrogate r \<longleftrightarrow> 0xD800 \<le> r \<and> r < 0xE000"

definition surrogate_pair :: "nat \<Rightarrow> nat \<Rightarrow> nat option" where
  "surrogate_pair r1 r2 =
     (if 0xD800 \<le> r1 \<and> r1 < 0xDC00 \<and> 0xDC00 \<le> r2 \<and> r2 < 0xE000
      then Some ((r1 - 0xD800) * 1024 + (r2 - 0xDC00) + 0x10000) else None)"

text \<open>The byte a two-character escape stands for.\<close>

definition escape_value :: "char \<Rightarrow> char" where
  "escape_value c =
     (if c = CHR ''b'' then CHR 0x08 else if c = CHR ''f'' then CHR 0x0C else if c = CHR ''n'' then CHR 0x0A
      else if c = CHR ''r'' then CHR 0x0D else if c = CHR ''t'' then CHR 0x09 else c)"

text \<open>\<^verbatim>\<open>unquote\<close>: the text between the quotes, with escapes and surrogate pairs resolved; a byte that is no UTF-8 and a
  surrogate without its partner become U+FFFD.\<close>

function unquote :: "string \<Rightarrow> string" where
  "unquote s =
     (if s = [] then []
      else if hd s = CHR 0x5C then
        (if tl s = [] then []
         else if hd (tl s) = CHR ''u'' then
           (let r = hex4 (drop 2 s); rest = drop 6 s
            in if is_surrogate r then
                 (case (if take 2 rest = [CHR 0x5C, CHR ''u''] then surrogate_pair r (hex4 (drop 2 rest)) else None) of
                    Some p \<Rightarrow> encode_rune p @ unquote (drop 12 s)
                  | None \<Rightarrow> encode_rune 0xFFFD @ unquote rest)
               else encode_rune r @ unquote rest)
         else escape_value (hd (tl s)) # unquote (drop 2 s))
      else encode_rune (fst (decode_rune s)) @ unquote (drop (snd (decode_rune s)) s))"
  by pat_completeness auto
termination
proof (relation "measure length", goal_cases)
  case (6 s)
  then show ?case using decode_rune_width [of s] by (cases s) auto
qed auto

declare unquote.simps [simp del]

section \<open>The scanner\<close>

datatype num_state = NNeg | N0 | N1 | NDot | NDot0 | NE | NESign | NE0

datatype mode =
    MBegin
  | MBeginOrEmpty
  | MKeyOrEmpty
  | MKey
  | MStr string
  | MEsc string
  | MEscU nat string
  | MWord string json
  | MNum num_state string
  | MEnd json

datatype frame =
    FKey "(string \<times> json) list"
  | FVal "(string \<times> json) list" string
  | FArr "json list"

type_synonym scan = "mode \<times> frame list"

abbreviation maxNestingDepth :: nat where "maxNestingDepth \<equiv> 10000"

definition json_space :: "char \<Rightarrow> bool" where
  "json_space c \<longleftrightarrow> c = CHR '' '' \<or> c = CHR 0x09 \<or> c = CHR 0x0D \<or> c = CHR 0x0A"

definition push_frame :: "mode \<Rightarrow> frame \<Rightarrow> frame list \<Rightarrow> scan option" where
  "push_frame m f st = (if length st + 1 \<le> maxNestingDepth then Some (m, f # st) else None)"

definition begin_value :: "char \<Rightarrow> mode \<Rightarrow> frame list \<Rightarrow> scan option" where
  "begin_value c m st =
     (if json_space c then Some (m, st)
      else if c = CHR ''{'' then push_frame MKeyOrEmpty (FKey []) st
      else if c = CHR ''['' then push_frame MBeginOrEmpty (FArr []) st
      else if c = CHR 0x22 then Some (MStr [], st)
      else if c = CHR ''-'' then Some (MNum NNeg [c], st)
      else if c = CHR ''0'' then Some (MNum N0 [c], st)
      else if c = CHR ''t'' then Some (MWord ''rue'' (JBool True), st)
      else if c = CHR ''f'' then Some (MWord ''alse'' (JBool False), st)
      else if c = CHR ''n'' then Some (MWord ''ull'' JNull, st)
      else if is_digit c then Some (MNum N1 [c], st)
      else None)"

definition begin_key :: "char \<Rightarrow> mode \<Rightarrow> frame list \<Rightarrow> scan option" where
  "begin_key c m st =
     (if json_space c then Some (m, st) else if c = CHR 0x22 then Some (MStr [], st) else None)"

definition end_value :: "json \<Rightarrow> char \<Rightarrow> frame list \<Rightarrow> scan option" where
  "end_value v c st =
     (if json_space c then Some (MEnd v, st)
      else case st of
          [] \<Rightarrow> None
        | FKey ms # rest \<Rightarrow>
            (case v of JStr k \<Rightarrow> if c = CHR '':'' then Some (MBegin, FVal ms k # rest) else None | _ \<Rightarrow> None)
        | FVal ms k # rest \<Rightarrow>
            (if c = CHR '','' then Some (MKey, FKey ((k, v) # ms) # rest)
             else if c = CHR ''}'' then Some (MEnd (JObj (rev ((k, v) # ms))), rest) else None)
        | FArr vs # rest \<Rightarrow>
            (if c = CHR '','' then Some (MBegin, FArr (v # vs) # rest)
             else if c = CHR '']'' then Some (MEnd (JArr (rev (v # vs))), rest) else None))"

text \<open>The state of a number after one more character, \<open>None\<close> where the number cannot go on.\<close>

definition num_next :: "num_state \<Rightarrow> char \<Rightarrow> num_state option" where
  "num_next q c =
     (let d = is_digit c; e = (c = CHR ''e'' \<or> c = CHR ''E'')
      in case q of
          NNeg \<Rightarrow> if c = CHR ''0'' then Some N0 else if d then Some N1 else None
        | N0 \<Rightarrow> if c = CHR ''.'' then Some NDot else if e then Some NE else None
        | N1 \<Rightarrow> if d then Some N1 else if c = CHR ''.'' then Some NDot else if e then Some NE else None
        | NDot \<Rightarrow> if d then Some NDot0 else None
        | NDot0 \<Rightarrow> if d then Some NDot0 else if e then Some NE else None
        | NE \<Rightarrow> if c = CHR ''+'' \<or> c = CHR ''-'' then Some NESign else if d then Some NE0 else None
        | NESign \<Rightarrow> if d then Some NE0 else None
        | NE0 \<Rightarrow> if d then Some NE0 else None)"

definition num_complete :: "num_state \<Rightarrow> bool" where
  "num_complete q \<longleftrightarrow> q = N0 \<or> q = N1 \<or> q = NDot0 \<or> q = NE0"

fun scan_char :: "char \<Rightarrow> scan \<Rightarrow> scan option" where
  "scan_char c (MBegin, st) = begin_value c MBegin st"
| "scan_char c (MBeginOrEmpty, st) =
     (if c = CHR '']'' then (case st of FArr vs # rest \<Rightarrow> Some (MEnd (JArr []), rest) | _ \<Rightarrow> None)
      else begin_value c MBeginOrEmpty st)"
| "scan_char c (MKeyOrEmpty, st) =
     (if c = CHR ''}'' then (case st of FKey ms # rest \<Rightarrow> Some (MEnd (JObj []), rest) | _ \<Rightarrow> None)
      else begin_key c MKeyOrEmpty st)"
| "scan_char c (MKey, st) = begin_key c MKey st"
| "scan_char c (MStr acc, st) =
     (if c = CHR 0x22 then Some (MEnd (JStr (unquote (rev acc))), st)
      else if c = CHR 0x5C then Some (MEsc (c # acc), st)
      else if byte c < 0x20 then None
      else Some (MStr (c # acc), st))"
| "scan_char c (MEsc acc, st) =
     (if c \<in> set [CHR ''b'', CHR ''f'', CHR ''n'', CHR ''r'', CHR ''t'', CHR 0x5C, CHR ''/'', CHR 0x22]
      then Some (MStr (c # acc), st)
      else if c = CHR ''u'' then Some (MEscU 4 (c # acc), st) else None)"
| "scan_char c (MEscU n acc, st) =
     (if is_hex_char c then Some (if n \<le> 1 then MStr (c # acc) else MEscU (n - 1) (c # acc), st) else None)"
| "scan_char c (MWord w v, st) =
     (case w of
        [] \<Rightarrow> None
      | x # xs \<Rightarrow> if c = x then Some (if xs = [] then MEnd v else MWord xs v, st) else None)"
| "scan_char c (MNum q acc, st) =
     (case num_next q c of
        Some q' \<Rightarrow> Some (MNum q' (c # acc), st)
      | None \<Rightarrow> if num_complete q then end_value (JNum (rev acc)) c st else None)"
| "scan_char c (MEnd v, st) = end_value v c st"

fun scan_all :: "string \<Rightarrow> scan \<Rightarrow> scan option" where
  "scan_all [] s = Some s"
| "scan_all (c # cs) s = (case scan_char c s of None \<Rightarrow> None | Some s' \<Rightarrow> scan_all cs s')"

text \<open>\<^verbatim>\<open>scanner.eof\<close>: a value must be complete and nothing open.\<close>

definition scan_result :: "scan \<Rightarrow> json option" where
  "scan_result s =
     (case s of
        (MEnd v, []) \<Rightarrow> Some v
      | (MNum q acc, []) \<Rightarrow> if num_complete q then Some (JNum (rev acc)) else None
      | _ \<Rightarrow> None)"

definition json_parse :: "string \<Rightarrow> json option" where
  "json_parse data = Option.bind (scan_all data (MBegin, [])) scan_result"

section \<open>The value of an \<^verbatim>\<open>any\<close>\<close>

text \<open>The literal as \<open>m * 10 ^ e\<close>; \<^verbatim>\<open>ParseFloat\<close> rejects what rounds to infinity. A literal of more than 15 significant
  digits keeps its exact value here, where a \<^verbatim>\<open>float64\<close> holds the nearest binary fraction.\<close>

definition num_value :: "string \<Rightarrow> int \<times> int" where
  "num_value lit =
     (let neg = has_prefix lit ''-''; body = trim_prefix lit ''-'';
          mant = takeWhile (\<lambda>c. c \<noteq> CHR ''e'' \<and> c \<noteq> CHR ''E'') body;
          ex = drop (length mant + 1) body;
          whole = takeWhile (\<lambda>c. c \<noteq> CHR ''.'') mant;
          frac = drop (length whole + 1) mant;
          m = int (digits_val (whole @ frac));
          x = (if has_prefix ex ''-'' then - int (digits_val (drop 1 ex))
               else int (digits_val (trim_prefix ex ''+'')))
      in (if neg then - m else m, x - int (length frac)))"

definition float_finite :: "int \<Rightarrow> int \<Rightarrow> bool" where
  "float_finite m e \<longleftrightarrow>
     m = 0 \<or> (if 0 \<le> e then \<bar>m\<bar> * 10 ^ nat e < 2 ^ 1024 - 2 ^ 970 else \<bar>m\<bar> < (2 ^ 1024 - 2 ^ 970) * 10 ^ nat (- e))"

fun to_any :: "json \<Rightarrow> gval option"
  and to_any_list :: "json list \<Rightarrow> gval list option"
  and to_any_members :: "(string \<times> json) list \<Rightarrow> gobj \<Rightarrow> gobj option" where
  "to_any JNull = Some GNil"
| "to_any (JBool b) = Some (GBool b)"
| "to_any (JNum lit) = (let (m, e) = num_value lit in if float_finite m e then Some (GFloat m e) else None)"
| "to_any (JStr s) = Some (GStr s)"
| "to_any (JArr vs) = map_option GList (to_any_list vs)"
| "to_any (JObj ms) = map_option GMap (to_any_members ms [])"
| "to_any_list [] = Some []"
| "to_any_list (v # vs) =
     (case to_any v of None \<Rightarrow> None | Some x \<Rightarrow> map_option (Cons x) (to_any_list vs))"
| "to_any_members [] m = Some m"
| "to_any_members ((k, v) # ms) m =
     (case to_any v of None \<Rightarrow> None | Some x \<Rightarrow> to_any_members ms (AList.update k x m))"

definition unmarshal_any :: "string \<Rightarrow> gval option" where
  "unmarshal_any data = Option.bind (json_parse data) to_any"

text \<open>\<^verbatim>\<open>json.Unmarshal\<close> into a \<^verbatim>\<open>map[string]any\<close>: \<^verbatim>\<open>null\<close> leaves the map \<^verbatim>\<open>nil\<close> (\<open>Some None\<close>), any other value that is no
  object is an error.\<close>

definition unmarshal_object :: "string \<Rightarrow> gobj option option" where
  "unmarshal_object data =
     (case unmarshal_any data of
        Some GNil \<Rightarrow> Some None
      | Some (GMap m) \<Rightarrow> Some (Some m)
      | _ \<Rightarrow> None)"

section \<open>Structs\<close>

text \<open>
  \<^verbatim>\<open>json.Unmarshal\<close> into a struct. A key selects a field whatever its case (U+212A and U+017F fold to \<^verbatim>\<open>k\<close> and \<^verbatim>\<open>s\<close>); unknown
  keys are skipped; \<^verbatim>\<open>null\<close> leaves a string, a boolean, a number and a struct as they are; a repeated key
  decodes over the earlier value. A value of the wrong type makes the whole call fail. \<^verbatim>\<open>json.Marshal\<close> of a struct keeps the order of its fields.
\<close>

definition fold_rune :: "nat \<Rightarrow> nat" where
  "fold_rune r = (if 65 \<le> r \<and> r \<le> 90 then r + 32 else if r = 0x212A then 107 else if r = 0x17F then 115 else r)"

definition field_is :: "string \<Rightarrow> string \<Rightarrow> bool" where
  "field_is key name \<longleftrightarrow> map fold_rune (runes key) = map fold_rune (runes name)"

definition decode_string :: "json \<Rightarrow> string \<Rightarrow> string option" where
  "decode_string j old = (case j of JStr s \<Rightarrow> Some s | JNull \<Rightarrow> Some old | _ \<Rightarrow> None)"

definition decode_bool :: "json \<Rightarrow> bool \<Rightarrow> bool option" where
  "decode_bool j old = (case j of JBool b \<Rightarrow> Some b | JNull \<Rightarrow> Some old | _ \<Rightarrow> None)"

fun decode_fields :: "(string \<Rightarrow> json \<Rightarrow> 'a \<Rightarrow> 'a option) \<Rightarrow> (string \<times> json) list \<Rightarrow> 'a \<Rightarrow> 'a option" where
  "decode_fields field [] x = Some x"
| "decode_fields field ((k, j) # ms) x = Option.bind (field k j x) (decode_fields field ms)"

definition decode_struct :: "(string \<Rightarrow> json \<Rightarrow> 'a \<Rightarrow> 'a option) \<Rightarrow> json \<Rightarrow> 'a \<Rightarrow> 'a option" where
  "decode_struct field j x = (case j of JNull \<Rightarrow> Some x | JObj ms \<Rightarrow> decode_fields field ms x | _ \<Rightarrow> None)"

definition struct_text :: "(string \<times> string) list \<Rightarrow> string" where
  "struct_text fs = ''{'' @ go_join '','' (map (\<lambda>(k, t). json_quote k @ '':'' @ t) fs) @ ''}''"

lemma scan_all_append: "scan_all (a @ b) s = Option.bind (scan_all a s) (scan_all b)"
  by (induction a arbitrary: s) (auto split: option.splits)

section \<open>Strings survive\<close>

lemma hex_value_hex_digit: "d < 16 \<Longrightarrow> hex_value (hex_digit d) = Some d"
  by (auto simp: hex_value_def hex_digit_def less_eq_char_def byte_def)

lemma hex4_hex_digits:
  assumes "n < 65536"
  shows "hex4 ([hex_digit (n div 4096 mod 16), hex_digit (n div 256 mod 16), hex_digit (n div 16 mod 16), hex_digit (n mod 16)] @ t) = n"
proof -
  have "n div 4096 < 16" using assms by (simp add: div_less_iff_less_mult)
  then have "hex4 ([hex_digit (n div 4096 mod 16), hex_digit (n div 256 mod 16), hex_digit (n div 16 mod 16), hex_digit (n mod 16)] @ t)
      = 16 * (16 * (16 * (n div 4096) + n div 256 mod 16) + n div 16 mod 16) + n mod 16"
    by (simp add: hex4_def hex_value_hex_digit take_Cons')
  also have "16 * (n div 4096) + n div 256 mod 16 = n div 256"
    using mult_div_mod_eq [of 16 "n div 256"] by (simp add: div_mult2_eq [symmetric])
  also have "16 * (n div 256) + n div 16 mod 16 = n div 16"
    using mult_div_mod_eq [of 16 "n div 16"] by (simp add: div_mult2_eq [symmetric])
  also have "16 * (n div 16) + n mod 16 = n" by simp
  finally show ?thesis .
qed

lemma char_of_byte [simp]: "char_of (byte c) = c"
  by (simp add: byte_def)

lemma rune_parts:
  "b < 64 \<Longrightarrow> (a * 64 + b) div 64 = a" "b < 64 \<Longrightarrow> (a * 64 + b) mod 64 = (b :: nat)"
  by simp_all

lemma encode_two: "2 \<le> a \<Longrightarrow> a < 32 \<Longrightarrow> b < 64 \<Longrightarrow> encode_rune (a * 64 + b) = map char_of [a + 0xC0, b + 0x80]"
  by (simp add: encode_rune_def rune_parts add.commute)

lemma encode_three:
  assumes "a < 16" "b < 64" "c < 64" "a = 0 \<longrightarrow> 32 \<le> b"
  shows "encode_rune (a * 4096 + b * 64 + c) = map char_of [a + 0xE0, b + 0x80, c + 0x80]"
proof -
  have r: "a * 4096 + b * 64 + c = (a * 64 + b) * 64 + c" by simp
  have "0x800 \<le> a * 4096 + b * 64 + c" "a * 4096 + b * 64 + c < 0x10000" using assms by auto
  moreover have "(a * 4096 + b * 64 + c) div 64 = a * 64 + b" "(a * 4096 + b * 64 + c) mod 64 = c"
    unfolding r using assms(3) by (rule rune_parts)+
  moreover have "(a * 4096 + b * 64 + c) div 4096 = (a * 4096 + b * 64 + c) div 64 div 64" by (simp add: div_mult2_eq [symmetric])
  ultimately show ?thesis using assms(2) by (simp add: encode_rune_def rune_parts add.commute)
qed

lemma encode_four:
  assumes "b < 64" "c < 64" "d < 64" "a = 0 \<longrightarrow> 16 \<le> b"
  shows "encode_rune (a * 262144 + b * 4096 + c * 64 + d) = map char_of [a + 0xF0, b + 0x80, c + 0x80, d + 0x80]"
proof -
  let ?n = "a * 262144 + b * 4096 + c * 64 + d"
  have r: "?n = ((a * 64 + b) * 64 + c) * 64 + d" by simp
  have big: "\<not> ?n < 0x10000" "\<not> ?n < 0x800" "\<not> ?n < 0x80" using assms by auto
  have n1: "?n div 64 = (a * 64 + b) * 64 + c" "?n mod 64 = d" unfolding r using assms(3) by (rule rune_parts)+
  have n2: "?n div 4096 = a * 64 + b"
    using rune_parts(1) [OF assms(2), of "a * 64 + b"] by (simp only: n1(1) [symmetric] div_mult2_eq [symmetric]) simp
  have n3: "?n div 262144 = a"
    using rune_parts(1) [OF assms(1), of a] by (simp only: n2 [symmetric] div_mult2_eq [symmetric]) simp
  show ?thesis unfolding encode_rune_def by (simp only: big if_False n1 n2 n3 rune_parts assms) (simp only: add.commute)
qed

text \<open>The four shapes of a valid encoding.\<close>

lemma rune_shapes:
  assumes "s \<noteq> []" "decode_rune s \<noteq> (0xFFFD, 1)"
  obtains (one) c0 u where "s = c0 # u" "byte c0 < 0x80"
  | (two) c0 c1 u where "s = c0 # c1 # u" "0xC2 \<le> byte c0" "byte c0 \<le> 0xDF" "cont (byte c1)"
  | (three) c0 c1 c2 u where "s = c0 # c1 # c2 # u" "0xE0 \<le> byte c0" "byte c0 \<le> 0xEF" "cont (byte c1)" "cont (byte c2)"
        "byte c0 = 0xE0 \<longrightarrow> 0xA0 \<le> byte c1" "byte c0 = 0xED \<longrightarrow> byte c1 \<le> 0x9F"
  | (four) c0 c1 c2 c3 u where "s = c0 # c1 # c2 # c3 # u" "0xF0 \<le> byte c0" "byte c0 \<le> 0xF4" "cont (byte c1)" "cont (byte c2)" "cont (byte c3)"
        "byte c0 = 0xF0 \<longrightarrow> 0x90 \<le> byte c1" "byte c0 = 0xF4 \<longrightarrow> byte c1 \<le> 0x8F"
proof -
  obtain c0 t where s: "s = c0 # t" using assms(1) by (cases s) auto
  have "thesis" if "t = []" using that assms(2) one s by (auto simp: decode_rune_def Let_def split: if_splits)
  moreover have "thesis" if "t = [c1]" for c1
    using that assms(2) one two s by (auto simp: decode_rune_def Let_def split: if_splits)
  moreover have "thesis" if "t = [c1, c2]" for c1 c2
    using that assms(2) one two three s by (auto simp: decode_rune_def Let_def split: if_splits)
  moreover have "thesis" if "t = c1 # c2 # c3 # u" for c1 c2 c3 u
    using that assms(2) one two three four s by (auto simp: decode_rune_def Let_def split: if_splits)
  ultimately show ?thesis by (metis neq_Nil_conv)
qed

lemma decode_one: "byte c0 < 0x80 \<Longrightarrow> decode_rune (c0 # t) = (byte c0, 1)"
  by (simp add: decode_rune_def)

lemma decode_two: "0xC2 \<le> byte c0 \<Longrightarrow> byte c0 \<le> 0xDF \<Longrightarrow> cont (byte c1) \<Longrightarrow>
  decode_rune (c0 # c1 # t) = ((byte c0 - 0xC0) * 64 + (byte c1 - 0x80), 2)"
  by (simp add: decode_rune_def)

lemma decode_three: "0xE0 \<le> byte c0 \<Longrightarrow> byte c0 \<le> 0xEF \<Longrightarrow> cont (byte c1) \<Longrightarrow> cont (byte c2) \<Longrightarrow>
  (byte c0 = 0xE0 \<longrightarrow> 0xA0 \<le> byte c1) \<Longrightarrow> (byte c0 = 0xED \<longrightarrow> byte c1 \<le> 0x9F) \<Longrightarrow>
  decode_rune (c0 # c1 # c2 # t) = ((byte c0 - 0xE0) * 4096 + (byte c1 - 0x80) * 64 + (byte c2 - 0x80), 3)"
  by (simp add: decode_rune_def)

lemma decode_four: "0xF0 \<le> byte c0 \<Longrightarrow> byte c0 \<le> 0xF4 \<Longrightarrow> cont (byte c1) \<Longrightarrow> cont (byte c2) \<Longrightarrow> cont (byte c3) \<Longrightarrow>
  (byte c0 = 0xF0 \<longrightarrow> 0x90 \<le> byte c1) \<Longrightarrow> (byte c0 = 0xF4 \<longrightarrow> byte c1 \<le> 0x8F) \<Longrightarrow>
  decode_rune (c0 # c1 # c2 # c3 # t) =
    ((byte c0 - 0xF0) * 262144 + (byte c1 - 0x80) * 4096 + (byte c2 - 0x80) * 64 + (byte c3 - 0x80), 4)"
  by (simp add: decode_rune_def)

text \<open>Decoding looks at the bytes of the rune only, and encoding gives them back.\<close>

definition rune_ok :: "string \<Rightarrow> bool" where
  "rune_ok s \<longleftrightarrow>
     encode_rune (fst (decode_rune s)) = take (snd (decode_rune s)) s \<and>
     (\<forall>t. decode_rune (take (snd (decode_rune s)) s @ t) = decode_rune s) \<and>
     (snd (decode_rune s) \<noteq> 1 \<longrightarrow>
        (\<exists>c0 cs. take (snd (decode_rune s)) s = c0 # cs \<and> 0xC2 \<le> byte c0 \<and> list_all (\<lambda>c. cont (byte c)) cs)) \<and>
     (snd (decode_rune s) = 1 \<longrightarrow> byte (hd s) < 0x80)"

lemma rune_bytes:
  assumes "s \<noteq> []" "decode_rune s \<noteq> (0xFFFD, 1)"
  shows "rune_ok s"
proof (rule rune_shapes [OF assms])
  fix c0 u assume s: "s = c0 # u" "byte c0 < 0x80"
  then show ?thesis by (simp add: rune_ok_def decode_one encode_rune_def)
next
  fix c0 c1 u assume s: "s = c0 # c1 # u" and b: "0xC2 \<le> byte c0" "byte c0 \<le> 0xDF" "cont (byte c1)"
  note d = decode_two [OF b]
  have "encode_rune ((byte c0 - 0xC0) * 64 + (byte c1 - 0x80)) = [c0, c1]"
    using b by (subst encode_two) (auto simp: cont_def)
  then show ?thesis using b by (simp add: s d rune_ok_def take_Cons')
next
  fix c0 c1 c2 u assume s: "s = c0 # c1 # c2 # u"
    and b: "0xE0 \<le> byte c0" "byte c0 \<le> 0xEF" "cont (byte c1)" "cont (byte c2)"
        "byte c0 = 0xE0 \<longrightarrow> 0xA0 \<le> byte c1" "byte c0 = 0xED \<longrightarrow> byte c1 \<le> 0x9F"
  note d = decode_three [OF b]
  have "encode_rune ((byte c0 - 0xE0) * 4096 + (byte c1 - 0x80) * 64 + (byte c2 - 0x80)) = [c0, c1, c2]"
    using b by (subst encode_three) (auto simp: cont_def)
  then show ?thesis using b by (simp add: s d rune_ok_def take_Cons')
next
  fix c0 c1 c2 c3 u assume s: "s = c0 # c1 # c2 # c3 # u"
    and b: "0xF0 \<le> byte c0" "byte c0 \<le> 0xF4" "cont (byte c1)" "cont (byte c2)" "cont (byte c3)"
        "byte c0 = 0xF0 \<longrightarrow> 0x90 \<le> byte c1" "byte c0 = 0xF4 \<longrightarrow> byte c1 \<le> 0x8F"
  note d = decode_four [OF b]
  have "encode_rune ((byte c0 - 0xF0) * 262144 + (byte c1 - 0x80) * 4096 + (byte c2 - 0x80) * 64 + (byte c3 - 0x80)) = [c0, c1, c2, c3]"
    using b by (subst encode_four) (auto simp: cont_def)
  then show ?thesis using b by (simp add: s d rune_ok_def take_Cons')
qed

text \<open>Valid UTF-8, rune by rune.\<close>

function utf8_ok :: "string \<Rightarrow> bool" where
  "utf8_ok s = (if s = [] then True else decode_rune s \<noteq> (0xFFFD, 1) \<and> utf8_ok (drop (snd (decode_rune s)) s))"
  by pat_completeness auto
termination
proof (relation "measure length", goal_cases)
  case (2 s)
  then show ?case using decode_rune_width [of s] by (cases s) auto
qed simp

declare utf8_ok.simps [simp del]

lemma escape_char_high: "0x80 \<le> byte c \<Longrightarrow> escape_char c = [c]"
proof -
  assume c: "0x80 \<le> byte c"
  have ne: "byte d < 0x80 \<Longrightarrow> c \<noteq> d" for d using c by auto
  have "c \<notin> set [CHR 0x22, CHR 0x5C, CHR 0x08, CHR 0x0C, CHR 0x0A, CHR 0x0D, CHR 0x09, CHR ''<'', CHR ''>'', CHR ''&'']"
    by (simp only: list.set insert_iff empty_iff de_Morgan_disj simp_thms, intro conjI ne) (simp_all add: byte_def)
  then show ?thesis using c by (simp add: escape_char_def byte_def)
qed

lemma escape_cont:
  assumes "list_all (\<lambda>c. cont (byte c)) cs"
  shows "escape_string (cs @ t) = cs @ escape_string t"
  using assms
proof (induction cs)
  case (Cons c cs)
  then have c: "0x80 \<le> byte c" "c \<noteq> CHR 0xE2" by (auto simp: cont_def byte_def)
  then show ?case using Cons by (simp add: escape_char_high has_prefix_def)
qed simp

lemma unquote_unicode:
  assumes "n < 65536" "\<not> is_surrogate n"
  shows "unquote (unicode_escape n @ t) = encode_rune n @ unquote t"
proof -
  let ?h = "[hex_digit (n div 4096 mod 16), hex_digit (n div 256 mod 16), hex_digit (n div 16 mod 16), hex_digit (n mod 16)] @ t"
  have "unquote (CHR 0x5C # CHR ''u'' # ?h) = encode_rune (hex4 ?h) @ unquote t"
    using assms(2) hex4_hex_digits [OF assms(1), of t] by (subst unquote.simps) (simp add: Let_def)
  then show ?thesis using hex4_hex_digits [OF assms(1), of t] by (simp add: unicode_escape_def)
qed

lemma encode_line_sep:
  "encode_rune 0x2028 = [CHR 0xE2, CHR 0x80, CHR 0xA8]" "encode_rune 0x2029 = [CHR 0xE2, CHR 0x80, CHR 0xA9]"
  by (simp_all add: encode_rune_def char_of_eq_iff take_bit_eq_mod)

lemma unquote_escape_ascii:
  assumes "byte c < 0x80"
  shows "unquote (escape_char c @ t) = c # unquote t"
proof -
  have plain: "unquote (c # t) = c # unquote t" if "c \<noteq> CHR 0x5C"
    using that assms by (subst unquote.simps) (simp add: decode_one encode_rune_def)
  have uni: "unquote (unicode_escape (byte c) @ t) = c # unquote t"
    using unquote_unicode [of "byte c" t] assms by (simp add: is_surrogate_def encode_rune_def)
  have two: "unquote (CHR 0x5C # x # t) = escape_value x # unquote t" if "x \<noteq> CHR ''u''" for x
    using that by (subst unquote.simps) simp
  show ?thesis
    using plain uni by (auto simp: escape_char_def two escape_value_def byte_def)
qed

lemma line_sep_rune:
  "decode_rune (CHR 0xE2 # CHR 0x80 # CHR 0xA8 # u) = (0x2028, 3)"
  "decode_rune (CHR 0xE2 # CHR 0x80 # CHR 0xA9 # u) = (0x2029, 3)"
  by (subst decode_three; simp add: byte_def cont_def)+

lemma unquote_rune:
  assumes "rune_ok s" "s \<noteq> []" "snd (decode_rune s) \<noteq> 1" "snd (decode_rune s) \<le> length s"
  shows "unquote (take (snd (decode_rune s)) s @ t) = take (snd (decode_rune s)) s @ unquote t"
proof -
  let ?w = "snd (decode_rune s)"
  obtain c0 cs where b: "take ?w s = c0 # cs" "0xC2 \<le> byte c0" using assms(1,3) unfolding rune_ok_def by blast
  have c0: "c0 \<noteq> CHR 0x5C" using b(2) by (auto simp: byte_def)
  have len: "length (c0 # cs) = ?w" unfolding b(1) [symmetric] using assms(4) by simp
  have d: "decode_rune ((c0 # cs) @ t) = decode_rune s" using assms(1) b(1) unfolding rune_ok_def by metis
  have "unquote ((c0 # cs) @ t) = encode_rune (fst (decode_rune s)) @ unquote (drop ?w ((c0 # cs) @ t))"
    using c0 d by (subst unquote.simps) simp
  also have "drop ?w ((c0 # cs) @ t) = t" unfolding len [symmetric] by simp
  also have "encode_rune (fst (decode_rune s)) = c0 # cs" using assms(1) b(1) unfolding rune_ok_def by simp
  finally show ?thesis using b(1) by simp
qed

lemma unquote_Nil [simp]: "unquote [] = []"
  by (simp add: unquote.simps)

lemma rune_fits: "s \<noteq> [] \<Longrightarrow> snd (decode_rune s) \<le> length s"
  by (simp add: decode_rune_def Let_def Suc_le_eq)

lemma unquote_escape: "utf8_ok s \<Longrightarrow> unquote (escape_string s) = s"
proof (induction s rule: utf8_ok.induct)
  case (1 s)
  show ?case
  proof (cases "s = []")
    case False
    let ?w = "snd (decode_rune s)"
    have d: "decode_rune s \<noteq> (0xFFFD, 1)" "utf8_ok (drop ?w s)" using "1.prems" False by (simp_all add: utf8_ok.simps [of s])
    have IH: "unquote (escape_string (drop ?w s)) = drop ?w s" using "1.IH" False d by blast
    have ok: "rune_ok s" using rune_bytes [OF False d(1)] .
    have split: "s = take ?w s @ drop ?w s" by simp
    show ?thesis
    proof (cases "?w = 1")
      case True
      obtain c cs where s: "s = c # cs" using False by (cases s) auto
      have c: "byte c < 0x80" using ok True s by (simp add: rune_ok_def)
      then have "c \<noteq> CHR 0xE2" by (auto simp: byte_def)
      then have "escape_string s = escape_char c @ escape_string cs" by (simp add: s has_prefix_def)
      then show ?thesis using unquote_escape_ascii [OF c] IH True s by simp
    next
      case wide: False
      note un = unquote_rune [OF ok False wide rune_fits [OF False]]
      obtain c0 cs where b: "take ?w s = c0 # cs" "0xC2 \<le> byte c0" "list_all (\<lambda>c. cont (byte c)) cs"
        using ok wide unfolding rune_ok_def by blast
      consider (sep1) u where "s = CHR 0xE2 # CHR 0x80 # CHR 0xA8 # u" | (sep2) u where "s = CHR 0xE2 # CHR 0x80 # CHR 0xA9 # u"
        | (other) "\<not> has_prefix s [CHR 0xE2, CHR 0x80, CHR 0xA8]" "\<not> has_prefix s [CHR 0xE2, CHR 0x80, CHR 0xA9]"
        by (auto simp: has_prefix_conv)
      then show ?thesis
      proof cases
        case (sep1 u)
        then show ?thesis using IH
          by (simp add: line_sep_rune has_prefix_def unquote_unicode is_surrogate_def encode_line_sep)
      next
        case (sep2 u)
        then show ?thesis using IH
          by (simp add: line_sep_rune has_prefix_def unquote_unicode is_surrogate_def encode_line_sep)
      next
        case other
        have s: "s = c0 # cs @ drop ?w s" using split b(1) by simp
        have "escape_string s = escape_char c0 @ escape_string (cs @ drop ?w s)"
          using other s escape_string.simps(2) [of c0 "cs @ drop ?w s"] by (metis (no_types))
        also have "\<dots> = take ?w s @ escape_string (drop ?w s)"
          using b escape_cont [OF b(3)] by (simp add: escape_char_high)
        finally show ?thesis using un IH split by simp
      qed
    qed
  qed simp
qed

section \<open>Scanning what \<^verbatim>\<open>Marshal\<close> wrote\<close>

lemma is_hex_hex_digit: "d < 16 \<Longrightarrow> is_hex_char (hex_digit d)"
  by (simp add: is_hex_char_def hex_value_hex_digit)

lemma scan_unicode: "scan_all (unicode_escape n) (MStr acc, st) = Some (MStr (rev (unicode_escape n) @ acc), st)"
  by (simp add: unicode_escape_def is_hex_hex_digit)

lemma scan_escape_char: "scan_all (escape_char c) (MStr acc, st) = Some (MStr (rev (escape_char c) @ acc), st)"
proof -
  have "\<not> byte c < 32 \<Longrightarrow> c \<noteq> CHR 0x22 \<Longrightarrow> c \<noteq> CHR 0x5C \<Longrightarrow> scan_all [c] (MStr acc, st) = Some (MStr (c # acc), st)" by simp
  then show ?thesis using scan_unicode [of "of_char c" acc st] by (simp add: escape_char_def byte_def)
qed

lemma scan_escape_string: "scan_all (escape_string s) (MStr acc, st) = Some (MStr (rev (escape_string s) @ acc), st)"
  by (induction s arbitrary: acc rule: escape_string.induct) (simp_all add: scan_all_append scan_unicode scan_escape_char)

lemma scan_json_quote:
  assumes "utf8_ok s" "scan_char (CHR 0x22) (m, st) = Some (MStr [], st)"
  shows "scan_all (json_quote s) (m, st) = Some (MEnd (JStr s), st)"
proof -
  have "scan_all (json_quote s) (m, st) = Option.bind (scan_all (escape_string s) (MStr [], st)) (scan_all [CHR 0x22])"
    using assms(2) by (simp add: json_quote_def scan_all_append)
  then show ?thesis using unquote_escape [OF assms(1)] by (simp add: scan_escape_string)
qed

text \<open>A value has been read: its last character is consumed, or it is a number that the next character ends.\<close>

definition value_read :: "json \<Rightarrow> frame list \<Rightarrow> scan \<Rightarrow> bool" where
  "value_read v st s \<longleftrightarrow> s = (MEnd v, st) \<or> (\<exists>q acc. s = (MNum q acc, st) \<and> num_complete q \<and> v = JNum (rev acc))"

lemma value_read_next:
  assumes "value_read v st s" "c \<in> {CHR '','', CHR '']'', CHR ''}''}"
  shows "scan_char c s = end_value v c st"
  using assms by (auto simp: value_read_def num_next_def num_complete_def is_digit_def)

lemma value_read_result: "value_read v [] s \<Longrightarrow> scan_result s = Some v"
  by (auto simp: value_read_def scan_result_def)

lemma begin_or_empty:
  "s \<noteq> [] \<Longrightarrow> hd s \<noteq> CHR '']'' \<Longrightarrow> \<not> json_space (hd s) \<Longrightarrow> scan_all s (MBeginOrEmpty, st) = scan_all s (MBegin, st)"
  by (cases s) (simp_all add: begin_value_def)

lemma show_nat_first: "0 < n \<Longrightarrow> \<exists>c cs. show_nat n = c # cs \<and> is_digit c \<and> c \<noteq> CHR ''0'' \<and> list_all is_digit cs"
proof (induction n rule: show_nat.induct)
  case (1 n)
  show ?case
  proof (cases "n < 10")
    case True
    have "digit_char n \<noteq> CHR ''0''"
    proof
      assume "digit_char n = CHR ''0''"
      then have "(of_char (digit_char n) :: nat) = of_char (CHR ''0'')" by (rule arg_cong)
      then show False using True "1.prems" by simp
    qed
    then show ?thesis using True 1 by (simp add: show_nat.simps [of n])
  next
    case False
    then have "0 < n div 10" by (simp add: div_greater_zero_iff)
    then show ?thesis using 1 False by (subst show_nat.simps) auto
  qed
qed

lemma scan_digits: "list_all is_digit ds \<Longrightarrow> scan_all ds (MNum N1 acc, st) = Some (MNum N1 (rev ds @ acc), st)"
  by (induction ds arbitrary: acc) (auto simp: num_next_def)

lemma digit_not_special:
  "is_digit c \<Longrightarrow> \<not> json_space c \<and> c \<noteq> CHR ''{'' \<and> c \<noteq> CHR ''['' \<and> c \<noteq> CHR 0x22 \<and> c \<noteq> CHR ''-'' \<and> c \<noteq> CHR ''t'' \<and> c \<noteq> CHR ''f'' \<and> c \<noteq> CHR ''n'' \<and> c \<noteq> CHR '']''"
  by (auto simp: is_digit_def json_space_def)

lemma scan_show_nat:
  assumes "m = MBegin \<or> m = MNum NNeg acc" "acc = [] \<or> m \<noteq> MBegin"
  shows "\<exists>q. scan_all (show_nat n) (m, st) = Some (MNum q (rev (show_nat n) @ acc), st) \<and> num_complete q"
proof (cases "n = 0")
  case True
  have "show_nat 0 = [CHR ''0'']" by (simp add: show_nat.simps)
  then show ?thesis using assms True by (auto simp: num_complete_def num_next_def begin_value_def json_space_def)
next
  case False
  then obtain c cs where c: "show_nat n = c # cs" "is_digit c" "c \<noteq> CHR ''0''" "list_all is_digit cs"
    using show_nat_first by blast
  then have "scan_char c (m, st) = Some (MNum N1 (c # acc), st)"
    using assms digit_not_special [OF c(2)] by (auto simp: begin_value_def num_next_def)
  then show ?thesis using c(1) scan_digits [OF c(4)] by (simp add: num_complete_def)
qed

lemma scan_show_int: "\<exists>s. scan_all (show_int i) (MBegin, st) = Some s \<and> value_read (JNum (show_int i)) st s"
proof (cases "i < 0")
  case True
  have "scan_char (CHR ''-'') (MBegin, st) = Some (MNum NNeg ''-'', st)" by (simp add: begin_value_def json_space_def)
  moreover obtain q where "scan_all (show_nat (nat (- i))) (MNum NNeg ''-'', st) = Some (MNum q (rev (show_nat (nat (- i))) @ ''-''), st)" "num_complete q"
    using scan_show_nat [of "MNum NNeg ''-''" "''-''"] by blast
  ultimately show ?thesis using True by (auto simp: show_int_def value_read_def)
next
  case False
  obtain q where "scan_all (show_nat (nat i)) (MBegin, st) = Some (MNum q (rev (show_nat (nat i))), st)" "num_complete q"
    using scan_show_nat [of MBegin "[]"] by auto
  then show ?thesis using False by (auto simp: show_int_def value_read_def)
qed

section \<open>Arrays and objects\<close>

lemma scan_elements:
  assumes "vs \<noteq> []"
    and "\<And>v acc. v \<in> set vs \<Longrightarrow> \<exists>s. scan_all (f v) (MBegin, FArr acc # st) = Some s \<and> value_read (t v) (FArr acc # st) s"
  shows "scan_all (go_join '','' (map f vs) @ '']'') (MBegin, FArr acc # st) = Some (MEnd (JArr (rev acc @ map t vs)), st)"
  using assms
proof (induction vs arbitrary: acc)
  case (Cons v vs)
  obtain s where s: "scan_all (f v) (MBegin, FArr acc # st) = Some s" "value_read (t v) (FArr acc # st) s"
    using Cons.prems(2) by (meson list.set_intros(1))
  show ?case
  proof (cases "vs = []")
    case True
    then show ?thesis using s value_read_next [OF s(2), of "CHR '']''"] by (simp add: scan_all_append end_value_def json_space_def)
  next
    case False
    have "scan_char (CHR '','') s = Some (MBegin, FArr (t v # acc) # st)"
      using value_read_next [OF s(2), of "CHR '',''"] by (simp add: end_value_def json_space_def)
    then show ?thesis using False s Cons.IH [OF False Cons.prems(2), of "t v # acc"] by (simp add: go_join_Cons scan_all_append)
  qed
qed simp

lemma scan_members:
  assumes "xs \<noteq> []" "m = MKey \<or> m = MKeyOrEmpty" "\<And>k v. (k, v) \<in> set xs \<Longrightarrow> utf8_ok k"
    and "\<And>k v acc. (k, v) \<in> set xs \<Longrightarrow>
      \<exists>s. scan_all (f v) (MBegin, FVal acc k # st) = Some s \<and> value_read (t v) (FVal acc k # st) s"
  shows "scan_all (go_join '','' (map (\<lambda>(k, v). json_quote k @ '':'' @ f v) xs) @ ''}'') (m, FKey acc # st) =
    Some (MEnd (JObj (rev acc @ map (\<lambda>(k, v). (k, t v)) xs)), st)"
  using assms
proof (induction xs arbitrary: acc m)
  case (Cons x xs)
  obtain k v where x: "x = (k, v)" by (cases x)
  obtain s where s: "scan_all (f v) (MBegin, FVal acc k # st) = Some s" "value_read (t v) (FVal acc k # st) s"
    using Cons.prems(4) x by (meson list.set_intros(1))
  have "scan_char (CHR 0x22) (m, FKey acc # st) = Some (MStr [], FKey acc # st)"
    using Cons.prems(2) by (auto simp: begin_key_def json_space_def)
  then have key: "scan_all (json_quote k @ CHR '':'' # f v @ z) (m, FKey acc # st) = scan_all z s" for z
    using s Cons.prems(3) [of k v] x by (simp add: scan_all_append scan_json_quote end_value_def json_space_def)
  show ?case
  proof (cases "xs = []")
    case True
    then show ?thesis using key x value_read_next [OF s(2), of "CHR ''}''"]
      by (simp add: end_value_def json_space_def)
  next
    case False
    have comma: "scan_char (CHR '','') s = Some (MKey, FKey ((k, t v) # acc) # st)"
      using value_read_next [OF s(2), of "CHR '',''"] by (simp add: end_value_def json_space_def)
    have "scan_all (go_join '','' (map (\<lambda>(k, v). json_quote k @ '':'' @ f v) xs) @ ''}'') (MKey, FKey ((k, t v) # acc) # st) =
      Some (MEnd (JObj (rev ((k, t v) # acc) @ map (\<lambda>(k, v). (k, t v)) xs)), st)"
      using Cons.prems(3,4) by (intro Cons.IH [OF False]) auto
    then show ?thesis using False key x comma
      by (simp add: go_join_Cons)
  qed
qed simp

section \<open>The round trip\<close>

text \<open>Values whose text is exact: strings of valid UTF-8, integers that are printed plainly, distinct keys.\<close>

fun json_ready :: "gval \<Rightarrow> bool" where
  "json_ready (GInt i) = (\<bar>i\<bar> < 10 ^ 21)"
| "json_ready (GFloat m e) = (e = 0 \<and> \<bar>m\<bar> < 10 ^ 21)"
| "json_ready (GStr s) = utf8_ok s"
| "json_ready (GList vs) = list_all json_ready vs"
| "json_ready (GStrs ss) = list_all utf8_ok ss"
| "json_ready (GMap m) = (distinct (map fst m) \<and> list_all (\<lambda>kv. utf8_ok (fst kv) \<and> json_ready (snd kv)) m)"
| "json_ready (GStrMap m) = (distinct (map fst m) \<and> list_all (\<lambda>kv. utf8_ok (fst kv) \<and> utf8_ok (snd kv)) m)"
| "json_ready _ = True"

fun nesting :: "gval \<Rightarrow> nat" where
  "nesting (GList vs) = Suc (Max (insert 0 (set (map nesting vs))))"
| "nesting (GMap m) = Suc (Max (insert 0 (set (map (\<lambda>kv. nesting (snd kv)) m))))"
| "nesting (GStrs ss) = 1"
| "nesting (GStrMap m) = 1"
| "nesting _ = 0"

text \<open>The text that \<^const>\<open>marshal\<close> writes, as a tree.\<close>

fun tree :: "gval \<Rightarrow> json" where
  "tree GNil = JNull"
| "tree (GBool b) = JBool b"
| "tree (GInt i) = JNum (number_text i 0)"
| "tree (GFloat m e) = JNum (number_text m e)"
| "tree (GStr s) = JStr s"
| "tree (GList vs) = JArr (map tree vs)"
| "tree (GStrs ss) = JArr (map JStr ss)"
| "tree (GMap m) = JObj (sort_key fst (map (\<lambda>(k, v). (k, tree v)) m))"
| "tree (GStrMap m) = JObj (sort_key fst (map (\<lambda>(k, s). (k, JStr s)) m))"

lemma sort_pairs_map: "sort_key fst (map (\<lambda>(k, v). (k, f v)) m) = map (\<lambda>(k, v). (k, f v)) (sort_key fst m)"
proof (induction m)
  case (Cons x m)
  have "insort_key fst (fst x, f (snd x)) (map (\<lambda>(k, v). (k, f v)) ys) = map (\<lambda>(k, v). (k, f v)) (insort_key fst x ys)" for ys
    by (induction ys) (auto simp: case_prod_beta)
  with Cons show ?case by (cases x) simp
qed simp

lemma json_object_map:
  "json_object (map (\<lambda>(k, v). (k, f v)) m) =
   ''{'' @ go_join '','' (map (\<lambda>(k, v). json_quote k @ '':'' @ f v) (sort_key fst m)) @ ''}''"
  unfolding json_object_def sort_pairs_map by (simp add: comp_def case_prod_unfold)

lemma scan_array:
  assumes "length st < maxNestingDepth"
    and "\<And>v acc. v \<in> set vs \<Longrightarrow> \<exists>s. scan_all (f v) (MBegin, FArr acc # st) = Some s \<and> value_read (t v) (FArr acc # st) s"
    and "\<And>v. v \<in> set vs \<Longrightarrow> f v \<noteq> [] \<and> hd (f v) \<noteq> CHR '']'' \<and> \<not> json_space (hd (f v))"
  shows "scan_all (''['' @ go_join '','' (map f vs) @ '']'') (MBegin, st) = Some (MEnd (JArr (map t vs)), st)"
proof -
  have o: "scan_char (CHR ''['') (MBegin, st) = Some (MBeginOrEmpty, FArr [] # st)"
    using assms(1) by (simp add: begin_value_def push_frame_def json_space_def)
  show ?thesis
  proof (cases vs)
    case Nil
    then show ?thesis using o by simp
  next
    case (Cons v ws)
    have "go_join '','' (map f vs) @ '']'' \<noteq> []" "hd (go_join '','' (map f vs) @ '']'') = hd (f v)"
      using Cons assms(3) [of v] by (cases ws; auto simp: go_join_Cons)+
    then have "scan_all (go_join '','' (map f vs) @ '']'') (MBeginOrEmpty, FArr [] # st) = scan_all (go_join '','' (map f vs) @ '']'') (MBegin, FArr [] # st)"
      using assms(3) [of v] Cons by (intro begin_or_empty) auto
    then show ?thesis using o scan_elements [of vs f st t "[]"] assms(2) Cons by simp
  qed
qed

lemma scan_object:
  assumes "length st < maxNestingDepth"
    and "\<And>k v. (k, v) \<in> set m \<Longrightarrow> utf8_ok k"
    and "\<And>k v acc. (k, v) \<in> set m \<Longrightarrow>
      \<exists>s. scan_all (f v) (MBegin, FVal acc k # st) = Some s \<and> value_read (t v) (FVal acc k # st) s"
  shows "scan_all (json_object (map (\<lambda>(k, v). (k, f v)) m)) (MBegin, st) =
    Some (MEnd (JObj (sort_key fst (map (\<lambda>(k, v). (k, t v)) m))), st)"
proof -
  have o: "scan_char (CHR ''{'') (MBegin, st) = Some (MKeyOrEmpty, FKey [] # st)"
    using assms(1) by (simp add: begin_value_def push_frame_def json_space_def)
  show ?thesis
  proof (cases "m = []")
    case True
    then show ?thesis using o by (simp add: json_object_def)
  next
    case False
    then have "sort_key fst m \<noteq> []" by (metis length_0_conv length_sort)
    then show ?thesis
      using o scan_members [of "sort_key fst m" MKeyOrEmpty f st t "[]"] assms(2,3)
      by (simp add: json_object_map sort_pairs_map)
  qed
qed

text \<open>A struct: the texts of its fields, each with the value it reads as.\<close>

lemma json_parse_struct:
  assumes "m \<noteq> []" "\<And>k x acc. (k, x) \<in> set m \<Longrightarrow> utf8_ok k \<and> (\<exists>s. scan_all (fst x) (MBegin, FVal acc k # []) = Some s \<and> value_read (snd x) (FVal acc k # []) s)"
  shows "json_parse (struct_text (map (\<lambda>(k, x). (k, fst x)) m)) = Some (JObj (map (\<lambda>(k, x). (k, snd x)) m))"
proof -
  have "scan_char (CHR ''{'') (MBegin, []) = Some (MKeyOrEmpty, FKey [] # [])"
    by (simp add: begin_value_def push_frame_def json_space_def)
  then have "scan_all (struct_text (map (\<lambda>(k, x). (k, fst x)) m)) (MBegin, []) = Some (MEnd (JObj (map (\<lambda>(k, x). (k, snd x)) m)), [])"
    using scan_members [of m MKeyOrEmpty fst "[]" snd "[]"] assms by (simp add: struct_text_def comp_def case_prod_unfold)
  then show ?thesis by (simp add: json_parse_def scan_result_def)
qed

lemma number_first: "hd (show_int i) \<noteq> CHR '']'' \<and> \<not> json_space (hd (show_int i)) \<and> show_int i \<noteq> []"
proof -
  obtain c cs where "show_nat (nat i) = c # cs" "is_digit c" using show_nat_Cons by blast
  then show ?thesis using digit_not_special [of c] by (auto simp: show_int_def json_space_def)
qed

lemma marshal_first: "json_ready v \<Longrightarrow> marshal v \<noteq> [] \<and> hd (marshal v) \<noteq> CHR '']'' \<and> \<not> json_space (hd (marshal v))"
  using number_first by (cases v) (auto simp: number_text_int json_space_def json_quote_def json_object_def)

lemma nesting_member: "x \<in> set vs \<Longrightarrow> nesting x < nesting (GList vs)" "(k, x) \<in> set m \<Longrightarrow> nesting x < nesting (GMap m)"
  by (auto simp: less_Suc_eq_le intro!: Max_ge) force

lemma scan_marshal:
  "json_ready v \<Longrightarrow> nesting v + length st \<le> maxNestingDepth \<Longrightarrow>
   \<exists>s. scan_all (marshal v) (MBegin, st) = Some s \<and> value_read (tree v) st s"
proof (induction v arbitrary: st)
  case GNil
  show ?case by (simp add: begin_value_def json_space_def value_read_def)
next
  case (GBool b)
  show ?case by (simp add: begin_value_def json_space_def value_read_def)
next
  case (GInt i)
  then show ?case using scan_show_int by (simp add: number_text_int)
next
  case (GFloat m e)
  then show ?case using scan_show_int by (simp add: number_text_int)
next
  case (GStr s)
  have "scan_char (CHR 0x22) (MBegin, st) = Some (MStr [], st)" by (simp add: begin_value_def json_space_def)
  then show ?case using GStr scan_json_quote by (simp add: value_read_def)
next
  case (GList vs)
  have "scan_all (''['' @ go_join '','' (map marshal vs) @ '']'') (MBegin, st) = Some (MEnd (JArr (map tree vs)), st)"
  proof (rule scan_array)
    show "length st < maxNestingDepth" using GList.prems(2) by simp
    show "\<exists>s. scan_all (marshal v) (MBegin, FArr acc # st) = Some s \<and> value_read (tree v) (FArr acc # st) s" if "v \<in> set vs" for v acc
      using that GList.prems nesting_member(1) [OF that] by (intro GList.IH [OF that]) (auto simp: list_all_iff)
    show "marshal v \<noteq> [] \<and> hd (marshal v) \<noteq> CHR '']'' \<and> \<not> json_space (hd (marshal v))" if "v \<in> set vs" for v
      using that GList.prems(1) by (intro marshal_first) (auto simp: list_all_iff)
  qed
  then show ?case by (simp add: value_read_def)
next
  case (GStrs ss)
  have q: "scan_char (CHR 0x22) (MBegin, st') = Some (MStr [], st')" for st' by (simp add: begin_value_def json_space_def)
  have "scan_all (''['' @ go_join '','' (map json_quote ss) @ '']'') (MBegin, st) = Some (MEnd (JArr (map JStr ss)), st)"
    using GStrs scan_json_quote [OF _ q]
    by (intro scan_array) (auto simp: list_all_iff value_read_def json_quote_def json_space_def)
  then show ?case by (simp add: value_read_def)
next
  case (GMap m)
  have "scan_all (json_object (map (\<lambda>(k, v). (k, marshal v)) m)) (MBegin, st) =
    Some (MEnd (JObj (sort_key fst (map (\<lambda>(k, v). (k, tree v)) m))), st)"
  proof (rule scan_object)
    show "length st < maxNestingDepth" using GMap.prems(2) by simp
    show "utf8_ok k" if "(k, v) \<in> set m" for k v using that GMap.prems(1) by (auto simp: list_all_iff)
    show "\<exists>s. scan_all (marshal v) (MBegin, FVal acc k # st) = Some s \<and> value_read (tree v) (FVal acc k # st) s"
      if "(k, v) \<in> set m" for k v acc
      using that GMap.prems nesting_member(2) [OF that]
      by (intro GMap.IH [OF that]) (auto simp: list_all_iff)
  qed
  then show ?case by (simp add: value_read_def)
next
  case (GStrMap m)
  have q: "scan_char (CHR 0x22) (MBegin, st') = Some (MStr [], st')" for st' by (simp add: begin_value_def json_space_def)
  have "scan_all (json_object (map (\<lambda>(k, s). (k, json_quote s)) m)) (MBegin, st) =
    Some (MEnd (JObj (sort_key fst (map (\<lambda>(k, s). (k, JStr s)) m))), st)"
    using GStrMap scan_json_quote [OF _ q]
    by (intro scan_object) (auto simp: list_all_iff value_read_def)
  then show ?case by (simp add: value_read_def)
qed

text \<open>A map is a set of entries: listing every map by its keys, at every level, gives one representative of a value.\<close>

fun key_sorted :: "gval \<Rightarrow> gval" where
  "key_sorted (GList vs) = GList (map key_sorted vs)"
| "key_sorted (GMap m) = GMap (sort_key fst (map (\<lambda>(k, v). (k, key_sorted v)) m))"
| "key_sorted v = v"

lemma update_new: "k \<notin> fst ` set m \<Longrightarrow> AList.update k v m = m @ [(k, v)]"
  by (induction m) auto

lemma to_any_members_distinct:
  assumes "distinct (map fst ms @ map fst acc)" "\<And>k v. (k, v) \<in> set ms \<Longrightarrow> to_any (g v) = Some (h v)"
  shows "to_any_members (map (\<lambda>(k, v). (k, g v)) ms) acc = Some (acc @ map (\<lambda>(k, v). (k, h v)) ms)"
  using assms
proof (induction ms arbitrary: acc)
  case (Cons x ms)
  obtain k v where x: "x = (k, v)" by (cases x)
  have new: "AList.update k (h v) acc = acc @ [(k, h v)]" using Cons.prems(1) x by (intro update_new) auto
  have "to_any_members (map (\<lambda>(k, v). (k, g v)) ms) (acc @ [(k, h v)]) = Some ((acc @ [(k, h v)]) @ map (\<lambda>(k, v). (k, h v)) ms)"
    using Cons.prems x by (intro Cons.IH) auto
  then show ?case using Cons.prems(2) [of k v] x new by simp
qed simp

lemma to_any_list_map: "(\<And>v. v \<in> set vs \<Longrightarrow> to_any (g v) = Some (h v)) \<Longrightarrow> to_any_list (map g vs) = Some (map h vs)"
  by (induction vs) auto

lemma digits_free: "list_all is_digit ds \<Longrightarrow> c \<in> set ds \<Longrightarrow> c \<noteq> CHR ''e'' \<and> c \<noteq> CHR ''E'' \<and> c \<noteq> CHR ''.'' \<and> c \<noteq> CHR ''-''"
  by (auto simp: list_all_iff is_digit_def)

lemma num_value_show_int: "num_value (show_int i) = (i, 0)"
proof -
  have d: "takeWhile (\<lambda>c. c \<noteq> CHR ''e'' \<and> c \<noteq> CHR ''E'') (show_nat n) = show_nat n"
    "takeWhile (\<lambda>c. c \<noteq> CHR ''.'') (show_nat n) = show_nat n" for n
    using digits_free [OF show_nat_digits] by (auto simp: takeWhile_eq_all_conv)
  have p: "\<not> has_prefix (show_nat n) ''-''" "trim_prefix (show_nat n) ''-'' = show_nat n" for n
    using show_nat_Cons [of n] by (auto simp: has_prefix_conv trim_prefix_def is_digit_def)
  have m: "has_prefix (CHR ''-'' # t) ''-''" "trim_prefix (CHR ''-'' # t) ''-'' = t" for t
    using has_prefix_append [of "''-''" t] trim_prefix_append [of "''-''" t] by simp_all
  have e: "has_prefix [] ''-'' = False" "trim_prefix [] ''+'' = []" by (auto simp: has_prefix_conv trim_prefix_def)
  show ?thesis by (cases "i < 0") (simp_all add: num_value_def Let_def show_int_def d p m e)
qed

lemma float_finite_int: "\<bar>i\<bar> < 10 ^ 21 \<Longrightarrow> float_finite i 0"
  by (simp add: float_finite_def)

lemma to_any_tree:
  "json_ready v \<Longrightarrow> to_any (tree v) = Some (key_sorted (clone v))"
proof (induction v)
  case (GInt i)
  then show ?case by (simp add: number_text_int num_value_show_int float_finite_int)
next
  case (GFloat m e)
  then show ?case by (simp add: number_text_int num_value_show_int float_finite_int)
next
  case (GList vs)
  then show ?case using to_any_list_map [of vs tree "key_sorted \<circ> clone"] by (simp add: list_all_iff)
next
  case (GStrs ss)
  then show ?case using to_any_list_map [of ss JStr GStr] by (simp add: comp_def)
next
  case (GMap m)
  have "distinct (map fst (sort_key fst m))" using GMap.prems by (simp add: distinct_map)
  moreover have "to_any (tree v) = Some (key_sorted (clone v))" if "(k, v) \<in> set m" for k v
    using that GMap.prems GMap.IH [OF that] by (auto simp: list_all_iff)
  ultimately show ?case
    using to_any_members_distinct [of "sort_key fst m" "[]" tree "\<lambda>v. key_sorted (clone v)"]
      sort_pairs_map [of "\<lambda>v. key_sorted (clone v)" m]
    by (simp add: sort_pairs_map [unfolded case_prod_unfold] comp_def case_prod_unfold)
next
  case (GStrMap m)
  have "distinct (map fst (sort_key fst m))" using GStrMap.prems by (simp add: distinct_map)
  then show ?case
    using to_any_members_distinct [of "sort_key fst m" "[]" JStr "\<lambda>s. GStr s"]
    by (simp add: sort_pairs_map [unfolded case_prod_unfold] comp_def case_prod_unfold)
qed simp_all



end
