(* ===== verification/Digest.thy ===== *)
theory Digest
  imports GoValue
begin

text \<open>
  The hashes and encodings that the honeypot derives names and identifiers from: SHA-256
  (\<^verbatim>\<open>crypto/sha256\<close>) with the UUID text of \<^verbatim>\<open>stableUID\<close>, the 32-bit FNV-1a hash with the pod-name
  suffixes of \<^verbatim>\<open>controller.go\<close>, hexadecimal text and standard base64.
\<close>

unbundle bit_operations_syntax

section \<open>Hexadecimal text\<close>

definition hex_byte :: "nat \<Rightarrow> string" where
  "hex_byte b = [hex_digit (b div 16 mod 16), hex_digit (b mod 16)]"

definition hex_bytes :: "nat list \<Rightarrow> string" where
  "hex_bytes bs = concat (map hex_byte bs)"

text \<open>\<^verbatim>\<open>%x\<close> of an unsigned integer.\<close>

fun show_hex :: "nat \<Rightarrow> string" where
  "show_hex n = (if n < 16 then [hex_digit n] else show_hex (n div 16) @ [hex_digit (n mod 16)])"

declare show_hex.simps [simp del]

section \<open>SHA-256\<close>

definition sha_K :: "32 word list" where
  "sha_K =
     [1116352408, 1899447441, 3049323471, 3921009573, 961987163, 1508970993, 2453635748, 2870763221,
      3624381080, 310598401, 607225278, 1426881987, 1925078388, 2162078206, 2614888103, 3248222580,
      3835390401, 4022224774, 264347078, 604807628, 770255983, 1249150122, 1555081692, 1996064986,
      2554220882, 2821834349, 2952996808, 3210313671, 3336571891, 3584528711, 113926993, 338241895,
      666307205, 773529912, 1294757372, 1396182291, 1695183700, 1986661051, 2177026350, 2456956037,
      2730485921, 2820302411, 3259730800, 3345764771, 3516065817, 3600352804, 4094571909, 275423344,
      430227734, 506948616, 659060556, 883997877, 958139571, 1322822218, 1537002063, 1747873779,
      1955562222, 2024104815, 2227730452, 2361852424, 2428436474, 2756734187, 3204031479, 3329325298]"

definition sha_H :: "32 word list" where
  "sha_H =
     [1779033703, 3144134277, 1013904242, 2773480762, 1359893119, 2600822924, 528734635, 1541459225]"

definition big_endian :: "nat \<Rightarrow> nat \<Rightarrow> nat list" where
  "big_endian k n = map (\<lambda>i. n div 256 ^ (k - 1 - i) mod 256) [0..<k]"

definition sha_pad :: "nat list \<Rightarrow> nat list" where
  "sha_pad bs = bs @ [128] @ replicate ((119 - length bs mod 64) mod 64) 0 @ big_endian 8 (8 * length bs)"

definition be_word :: "nat list \<Rightarrow> 32 word" where
  "be_word bs = foldl (\<lambda>w b. push_bit 8 w + of_nat b) 0 bs"

definition block_words :: "nat list \<Rightarrow> 32 word list" where
  "block_words block = map (\<lambda>i. be_word (take 4 (drop (4 * i) block))) [0..<16]"

definition sha_sigma :: "nat \<Rightarrow> nat \<Rightarrow> nat \<Rightarrow> 32 word \<Rightarrow> 32 word" where
  "sha_sigma a b c w = word_rotr a w XOR word_rotr b w XOR drop_bit c w"

definition sha_Sigma :: "nat \<Rightarrow> nat \<Rightarrow> nat \<Rightarrow> 32 word \<Rightarrow> 32 word" where
  "sha_Sigma a b c w = word_rotr a w XOR word_rotr b w XOR word_rotr c w"

text \<open>The message schedule, newest word first.\<close>

fun sha_schedule :: "nat \<Rightarrow> 32 word list \<Rightarrow> 32 word list" where
  "sha_schedule 0 ws = ws"
| "sha_schedule (Suc n) ws =
     sha_schedule n ((sha_sigma 17 19 10 (ws ! 1) + ws ! 6 + sha_sigma 7 18 3 (ws ! 14) + ws ! 15) # ws)"

definition sha_round :: "32 word list \<Rightarrow> 32 word \<times> 32 word \<Rightarrow> 32 word list" where
  "sha_round st kw =
     (let a = st ! 0; b = st ! 1; c = st ! 2; d = st ! 3; e = st ! 4; f = st ! 5; g = st ! 6; h = st ! 7;
          t1 = h + sha_Sigma 6 11 25 e + ((e AND f) XOR (NOT e AND g)) + fst kw + snd kw;
          t2 = sha_Sigma 2 13 22 a + ((a AND b) XOR (a AND c) XOR (b AND c))
      in [t1 + t2, a, b, c, d + t1, e, f, g])"

definition sha_block :: "32 word list \<Rightarrow> nat list \<Rightarrow> 32 word list" where
  "sha_block st block =
     map2 (+) st (foldl sha_round st (zip sha_K (rev (sha_schedule 48 (rev (block_words block))))))"

fun sha_blocks :: "nat \<Rightarrow> 32 word list \<Rightarrow> nat list \<Rightarrow> 32 word list" where
  "sha_blocks 0 st bs = st"
| "sha_blocks (Suc n) st bs = sha_blocks n (sha_block st (take 64 bs)) (drop 64 bs)"

definition sha256 :: "string \<Rightarrow> nat list" where
  "sha256 s =
     (let padded = sha_pad (map of_char s)
      in concat (map (\<lambda>w. big_endian 4 (unat w)) (sha_blocks (length padded div 64) sha_H padded)))"

text \<open>\<^verbatim>\<open>stableUID\<close>: the first sixteen bytes in UUID form.\<close>

definition stableUID :: "string \<Rightarrow> string" where
  "stableUID seed =
     (let digest = sha256 seed
      in hex_bytes (take 4 digest) @ ''-'' @ hex_bytes (take 2 (drop 4 digest)) @ ''-'' @
         hex_bytes (take 2 (drop 6 digest)) @ ''-'' @ hex_bytes (take 2 (drop 8 digest)) @ ''-'' @
         hex_bytes (take 6 (drop 10 digest)))"

section \<open>FNV-1a and name suffixes\<close>

definition fnv32 :: "string \<Rightarrow> 32 word" where
  "fnv32 value = foldl (\<lambda>hash c. (hash XOR of_nat (of_char c)) * 16777619) 2166136261 value"

definition suffix_alphabet :: string where
  "suffix_alphabet = ''bcdfghjklmnpqrstvwxz2456789''"

fun suffix_loop :: "nat \<Rightarrow> 32 word \<Rightarrow> string" where
  "suffix_loop 0 h = []"
| "suffix_loop (Suc n) h = suffix_alphabet ! unat (h mod 26) # suffix_loop n (h div 26)"

definition suffixFor :: "string \<Rightarrow> int \<Rightarrow> string" where
  "suffixFor seed index = suffix_loop 5 (fnv32 (seed @ ''/'' @ show_int index))"

definition templateHash :: "gobj \<Rightarrow> string" where
  "templateHash object =
     (let template = objectMap (gget (objectMap (gget object ''spec'')) ''template'')
      in suffixFor (show_hex (unat (fnv32 (marshal (gget template ''spec''))))) 0)"

section \<open>Base64\<close>

definition b64_alphabet :: string where
  "b64_alphabet = ''ABCDEFGHIJKLMNOPQRSTUVWXYZabcdefghijklmnopqrstuvwxyz0123456789+/''"

definition b64_char :: "nat \<Rightarrow> char" where
  "b64_char n = b64_alphabet ! n"

fun b64_groups :: "nat list \<Rightarrow> string" where
  "b64_groups [] = []"
| "b64_groups [a] = [b64_char (a div 4), b64_char (a mod 4 * 16), CHR ''='', CHR ''='']"
| "b64_groups [a, b] = [b64_char (a div 4), b64_char (a mod 4 * 16 + b div 16), b64_char (b mod 16 * 4), CHR ''='']"
| "b64_groups (a # b # c # rest) =
     b64_char (a div 4) # b64_char (a mod 4 * 16 + b div 16) # b64_char (b mod 16 * 4 + c div 64) # b64_char (c mod 64)
     # b64_groups rest"

text \<open>\<^verbatim>\<open>base64.StdEncoding.EncodeToString\<close> and \<^verbatim>\<open>EncodedLen\<close>.\<close>

definition base64_encode :: "string \<Rightarrow> string" where
  "base64_encode s = b64_groups (map of_char s)"

definition base64_len :: "nat \<Rightarrow> nat" where
  "base64_len n = (n + 2) div 3 * 4"

section \<open>Facts\<close>

lemma length_b64_groups: "length (b64_groups bs) = (length bs + 2) div 3 * 4"
proof (induction bs rule: b64_groups.induct)
  case (4 a b c rest)
  have "(length rest + 5) div 3 = Suc ((length rest + 2) div 3)" by presburger
  with 4 show ?case by (simp add: add.commute)
qed auto

lemma length_base64_encode: "length (base64_encode s) = base64_len (length s)"
  by (simp add: base64_encode_def base64_len_def length_b64_groups)

lemma length_suffix_loop [simp]: "length (suffix_loop n h) = n"
  by (induction n arbitrary: h) auto

lemma suffix_loop_alphabet: "set (suffix_loop n h) \<subseteq> set (take 26 suffix_alphabet)"
proof (induction n arbitrary: h)
  case (Suc n)
  have "unat (h mod 26) < 26" using word_mod_less_divisor [of 26 h] by (simp add: word_less_nat_alt)
  then have "take 26 suffix_alphabet ! unat (h mod 26) \<in> set (take 26 suffix_alphabet)"
    by (intro nth_mem) (simp add: suffix_alphabet_def)
  with Suc \<open>unat (h mod 26) < 26\<close> show ?case by simp
qed simp

text \<open>A suffix is five lower-case letters or digits, so it never spoils a name it is appended to.\<close>

lemma length_suffixFor [simp]: "length (suffixFor seed index) = 5"
  by (simp add: suffixFor_def)

lemma suffixFor_chars: "c \<in> set (suffixFor seed index) \<Longrightarrow> c \<in> set ''bcdfghjklmnpqrstvwxz245678''"
proof -
  have "take 26 suffix_alphabet = ''bcdfghjklmnpqrstvwxz245678''" by (simp add: suffix_alphabet_def)
  then show "c \<in> set (suffixFor seed index) \<Longrightarrow> c \<in> set ''bcdfghjklmnpqrstvwxz245678''"
    using suffix_loop_alphabet [of 5 "fnv32 (seed @ ''/'' @ show_int index)"] by (simp only: suffixFor_def) (erule subsetD)
qed

lemma length_sha_blocks: "length st = 8 \<Longrightarrow> length (sha_blocks n st bs) = 8"
proof (induction n arbitrary: st bs)
  case (Suc n)
  have "length (foldl sha_round st kws) = 8" if "length st = 8" for kws and st :: "32 word list"
    using that by (induction kws arbitrary: st) (auto simp: sha_round_def Let_def)
  then have "length (sha_block st b) = 8" for b using Suc.prems by (simp add: sha_block_def)
  then show ?case using Suc.IH by simp
qed simp

lemma length_sha256: "length (sha256 s) = 32"
proof -
  have "length (concat (map (\<lambda>w. big_endian 4 (unat w)) ws)) = 4 * length ws" for ws :: "32 word list"
    by (induction ws) (auto simp: big_endian_def)
  then show ?thesis by (simp add: sha256_def Let_def length_sha_blocks sha_H_def)
qed

lemma length_hex_bytes [simp]: "length (hex_bytes bs) = 2 * length bs"
  by (induction bs) (auto simp: hex_bytes_def hex_byte_def)

lemma length_stableUID: "length (stableUID seed) = 36"
  by (simp add: stableUID_def Let_def length_sha256)

end
