(* ===== verification/GoTime.thy ===== *)
theory GoTime
  imports Prelude
begin

text \<open>
  Times: a \<^verbatim>\<open>time.Time\<close> in UTC with whole seconds is the number of seconds since 1970-01-01, and
  \<^verbatim>\<open>Format\<close> with the layouts the honeypot uses is computed from the proleptic Gregorian calendar.
\<close>

definition civil_from_days :: "nat \<Rightarrow> nat \<times> nat \<times> nat" where
  "civil_from_days days =
     (let z = days + 719468; era = z div 146097; doe = z mod 146097;
          yoe = (doe - doe div 1460 + doe div 36524 - doe div 146096) div 365;
          doy = doe - (365 * yoe + yoe div 4 - yoe div 100);
          mp = (5 * doy + 2) div 153;
          d = doy - (153 * mp + 2) div 5 + 1;
          m = (if mp < 10 then mp + 3 else mp - 9);
          y = yoe + era * 400
      in (if m \<le> 2 then y + 1 else y, m, d))"

definition date_time :: "nat \<Rightarrow> string" where
  "date_time t =
     (let (y, m, d) = civil_from_days (t div 86400); sec = t mod 86400
      in pad_nat 4 y @ ''-'' @ pad_nat 2 m @ ''-'' @ pad_nat 2 d @ ''T'' @
         pad_nat 2 (sec div 3600) @ '':'' @ pad_nat 2 (sec div 60 mod 60) @ '':'' @ pad_nat 2 (sec mod 60))"

text \<open>\<^verbatim>\<open>Format(time.RFC3339)\<close> and \<^verbatim>\<open>Format("2006-01-02T15:04:05.000000Z07:00")\<close> in UTC.\<close>

definition rfc3339 :: "nat \<Rightarrow> string" where
  "rfc3339 t = date_time t @ ''Z''"

definition rfc3339_micro :: "nat \<Rightarrow> string" where
  "rfc3339_micro t = date_time t @ ''.000000Z''"

text \<open>\<^verbatim>\<open>Format(time.RFC3339Nano)\<close>: the fraction without trailing zeros.\<close>

definition rfc3339_nano :: "nat \<Rightarrow> nat \<Rightarrow> string" where
  "rfc3339_nano secs nanos =
     date_time secs @
     (let frac = rev (dropWhile (\<lambda>c. c = CHR ''0'') (rev (pad_nat 9 nanos)))
      in if frac = [] then [] else CHR ''.'' # frac) @ ''Z''"

end
