(* ===== verification/ModelConfig.thy ===== *)
theory ModelConfig
  imports Prelude
begin

text \<open>
  The configuration records (\<^verbatim>\<open>model/config.go\<close>) and the lists of credentials that the event log redacts
  (\<^verbatim>\<open>SensitiveValues\<close>). A Go map is an association list in the order the run iterates it, so what is proved
  for every list holds for every iteration order.
\<close>

section \<open>Records\<close>

record HTTPConfig =
  http_Host :: string
  http_Port :: string

record UDPConfig =
  udp_Host :: string
  udp_Port :: string

record TCPConfig =
  tcp_Host :: string
  tcp_Port :: string

record DockerConfig =
  docker_Host :: string
  docker_Port :: string

record AIConfig =
  ai_Host :: string
  ai_Port :: string
  ai_Token :: string

record KubeletConfig =
  kubelet_Host :: string
  kubelet_Port :: string
  kubelet_NodeName :: string
  kubelet_TLSEnabled :: "bool option"
  kubelet_TLSCertFile :: string
  kubelet_TLSKeyFile :: string

record K8SHoneytoken =
  ht_Name :: string
  ht_Namespace :: string
  ht_Type :: string
  ht_Data :: "(string \<times> string) list"

record K8SConfig =
  k8s_APIVersion :: string
  k8s_SchemaOffline :: bool
  k8s_IPBase :: string
  k8s_GenerateKubeSys :: bool
  k8s_GenerateRand :: bool
  k8s_Host :: string
  k8s_Port :: string
  k8s_TLSEnabled :: bool
  k8s_TLSCertFile :: string
  k8s_TLSKeyFile :: string
  k8s_Namespaces :: "string list"
  k8s_Honeytokens :: "K8SHoneytoken list"
  k8s_TokenValues :: "string list"
  k8s_TokenNames :: "string list"

record LogSinkConfig =
  sink_Type :: string
  sink_URL :: string
  sink_Path :: string
  sink_Index :: string
  sink_Source :: string
  sink_Sourcetype :: string
  sink_Token :: string
  sink_Username :: string
  sink_Password :: string
  sink_Headers :: "(string \<times> string) list"

record LoggingConfig =
  log_Format :: string
  log_IncludeUserAgent :: bool
  log_TrustedProxyCIDRs :: "string list"
  log_Sinks :: "LogSinkConfig list"

record Config =
  c_AI :: AIConfig
  c_Docker :: DockerConfig
  c_HTTP :: HTTPConfig
  c_UDP :: UDPConfig
  c_TCP :: TCPConfig
  c_Kubelet :: KubeletConfig
  c_K8S :: K8SConfig
  c_RunMode :: string
  c_Logging :: LoggingConfig

section \<open>Bounded lists of credentials\<close>

text \<open>The closure \<open>add\<close> of both methods: \<open>maxValues\<close> and \<open>maxBytes\<close> are its constants, the flag its result.\<close>

definition add_value :: "nat \<Rightarrow> nat \<Rightarrow> string \<Rightarrow> string list \<Rightarrow> bool \<times> string list" where
  "add_value maxValues maxBytes value vals =
     (if value = [] \<or> length vals \<ge> maxValues \<or> sum_list (map length vals) + length value > maxBytes
      then (False, vals) else (True, vals @ [value]))"

text \<open>\<^verbatim>\<open>(l LoggingConfig) SensitiveValues\<close>: the flag says that the method has returned.\<close>

fun add_headers :: "string list \<Rightarrow> string list \<Rightarrow> bool \<times> string list" where
  "add_headers [] vals = (False, vals)"
| "add_headers (h # hs) vals =
     (let (added, values1) = add_value 64 16384 h vals in if \<not> added then (True, values1) else add_headers hs values1)"

fun add_sinks :: "LogSinkConfig list \<Rightarrow> string list \<Rightarrow> string list" where
  "add_sinks [] vals = vals"
| "add_sinks (sink # sinks) vals =
     (let (token, values1) = add_value 64 16384 (sink_Token sink) vals
      in if \<not> token then values1
         else let (password, values2) = add_value 64 16384 (sink_Password sink) values1
           in if \<not> password then values2
              else let (returned, values3) = add_headers (map snd (sink_Headers sink)) values2
                in if returned then values3 else add_sinks sinks values3)"

definition LoggingConfig_SensitiveValues :: "LoggingConfig \<Rightarrow> string list" where
  "LoggingConfig_SensitiveValues l = add_sinks (log_Sinks l) []"

text \<open>\<^verbatim>\<open>(k K8SConfig) SensitiveValues\<close>: a value that does not fit is skipped, a full list returns.\<close>

fun add_tokens :: "string list \<Rightarrow> string list \<Rightarrow> bool \<times> string list" where
  "add_tokens [] vals = (False, vals)"
| "add_tokens (v # vs) vals =
     (let (added, values1) = add_value 320 16384 v vals
      in if \<not> added \<and> length values1 \<ge> 320 then (True, values1) else add_tokens vs values1)"

fun add_honeytokens :: "K8SHoneytoken list \<Rightarrow> string list \<Rightarrow> string list" where
  "add_honeytokens [] vals = vals"
| "add_honeytokens (h # hs) vals =
     (let (returned, values1) = add_tokens (map snd (ht_Data h)) vals in if returned then values1 else add_honeytokens hs values1)"

definition K8SConfig_SensitiveValues :: "K8SConfig \<Rightarrow> string list" where
  "K8SConfig_SensitiveValues k =
     (let (returned, vals) = add_tokens (k8s_TokenValues k) []
      in if returned then vals else add_honeytokens (k8s_Honeytokens k) vals)"

definition mergeSensitive :: "string list \<Rightarrow> string list \<Rightarrow> string list" where
  "mergeSensitive base extra =
     (if length base + length extra > 320
      then let keep = 320 - int (length base) in if keep > 0 then base @ take (nat keep) extra else base
      else base @ extra)"

definition Config_SensitiveValues :: "Config \<Rightarrow> string list" where
  "Config_SensitiveValues c =
     (let vals = K8SConfig_SensitiveValues (c_K8S c);
          values1 = (if ai_Token (c_AI c) \<noteq> [] then ai_Token (c_AI c) # vals else vals)
      in mergeSensitive values1 (LoggingConfig_SensitiveValues (c_Logging c)))"

section \<open>What a bounded list collects\<close>

text \<open>
  The contract of an adding step: it appends the value, or it refuses it and leaves the list, and it keeps the bounds.
  Collecting a list of vals with such a step keeps the bounds too, and loses nothing while they are not reached.
\<close>

locale bounded_add =
  fixes add :: "string \<Rightarrow> string list \<Rightarrow> bool \<times> string list"
    and maxValues :: nat and maxBytes :: nat
  assumes add_refused: "\<not> fst (add v vs) \<Longrightarrow> snd (add v vs) = vs"
    and add_accepted: "fst (add v vs) \<Longrightarrow> snd (add v vs) = vs @ [v]"
    and add_iff: "fst (add v vs) \<longleftrightarrow> v \<noteq> [] \<and> length vs < maxValues \<and> sum_list (map length vs) + length v \<le> maxBytes"
begin

definition fits :: "string list \<Rightarrow> bool" where
  "fits vs \<longleftrightarrow> length vs \<le> maxValues \<and> sum_list (map length vs) \<le> maxBytes \<and> [] \<notin> set vs"

lemma fits_add: "fits vs \<Longrightarrow> fits (snd (add v vs))"
  using add_refused [of v vs] add_accepted [of v vs] add_iff [of v vs] by (cases "fst (add v vs)") (auto simp: fits_def)

lemma add_all: "fits (vs @ [v]) \<Longrightarrow> add v vs = (True, vs @ [v])"
  using add_accepted [of v vs] add_iff [of v vs] by (cases "add v vs") (auto simp: fits_def)

lemma set_add: "set (snd (add v vs)) \<subseteq> insert v (set vs)"
  using add_refused [of v vs] add_accepted [of v vs] by (cases "fst (add v vs)") auto

end

interpretation sinks: bounded_add "add_value 64 16384" 64 16384
  by unfold_locales (auto simp: add_value_def split: if_splits)

interpretation tokens: bounded_add "add_value 320 16384" 320 16384
  by unfold_locales (auto simp: add_value_def split: if_splits)

definition nonempty :: "string list \<Rightarrow> string list" where
  "nonempty vs = filter (\<lambda>v. v \<noteq> []) vs"

lemma nonempty_simps [simp]: "nonempty [] = []" "nonempty (v # vs) = (if v = [] then nonempty vs else v # nonempty vs)"
  "nonempty (vs @ ws) = nonempty vs @ nonempty ws" "[] \<notin> set (nonempty vs)"
  by (simp_all add: nonempty_def)

lemma add_tokens_bounded:
  "tokens.fits vals \<Longrightarrow> tokens.fits (snd (add_tokens vs vals)) \<and> set (snd (add_tokens vs vals)) \<subseteq> set vals \<union> set vs"
proof (induction vs arbitrary: vals)
  case (Cons v vs)
  have "tokens.fits (snd (add_value 320 16384 v vals))" using Cons.prems by (rule tokens.fits_add)
  from Cons.IH [OF this] this tokens.set_add [of v vals] show ?case
    by (auto simp: Let_def split: prod.splits if_splits)
qed simp

lemma add_honeytokens_bounded:
  "tokens.fits vals \<Longrightarrow> tokens.fits (add_honeytokens hs vals) \<and>
     set (add_honeytokens hs vals) \<subseteq> set vals \<union> (\<Union>h \<in> set hs. snd ` set (ht_Data h))"
proof (induction hs arbitrary: vals)
  case (Cons h hs)
  obtain r vals1 where step: "add_tokens (map snd (ht_Data h)) vals = (r, vals1)" by fastforce
  from add_tokens_bounded [OF Cons.prems, of "map snd (ht_Data h)"] step
  have "tokens.fits vals1" "set vals1 \<subseteq> set vals \<union> snd ` set (ht_Data h)" by auto
  with Cons.IH [of vals1] show ?case by (auto simp: step)
qed simp

lemma fits_prefix: "tokens.fits (vs @ ws) \<Longrightarrow> tokens.fits vs"
  by (simp add: tokens.fits_def)

text \<open>As long as everything fits nothing is lost, and the loop returns early only when nothing can be left.\<close>

lemma add_tokens_all:
  "tokens.fits (vals @ nonempty vs @ rest) \<Longrightarrow>
   snd (add_tokens vs vals) = vals @ nonempty vs \<and> (fst (add_tokens vs vals) \<longrightarrow> rest = [])"
proof (induction vs arbitrary: vals)
  case (Cons v vs)
  show ?case
  proof (cases "v = []")
    case True
    then have "add_value 320 16384 v vals = (False, vals)" by (simp add: add_value_def)
    moreover have "320 \<le> length vals \<Longrightarrow> nonempty vs = [] \<and> rest = []"
    proof -
      assume "320 \<le> length vals"
      moreover have "length vals + (length (nonempty vs) + length rest) \<le> 320" using Cons.prems True by (simp add: tokens.fits_def)
      ultimately have "length (nonempty vs) = 0 \<and> length rest = 0" by linarith
      then show ?thesis by simp
    qed
    ultimately show ?thesis using Cons True by (auto simp: not_le)
  next
    case False
    then have "tokens.fits ((vals @ [v]) @ nonempty vs @ rest)" using Cons.prems by simp
    then show ?thesis
      using Cons.IH [of "vals @ [v]"] tokens.add_all [OF fits_prefix, of vals v "nonempty vs @ rest"] False by simp
  qed
qed simp

lemma add_honeytokens_all:
  "tokens.fits (vals @ nonempty (concat (map (\<lambda>h. map snd (ht_Data h)) hs))) \<Longrightarrow>
   add_honeytokens hs vals = vals @ nonempty (concat (map (\<lambda>h. map snd (ht_Data h)) hs))"
proof (induction hs arbitrary: vals)
  case (Cons h hs)
  have "tokens.fits (vals @ nonempty (map snd (ht_Data h)) @ nonempty (concat (map (\<lambda>h. map snd (ht_Data h)) hs)))"
    using Cons.prems by simp
  from add_tokens_all [OF this] this Cons.IH show ?case
    by (auto simp: Let_def split: prod.splits)
qed simp

definition configured_tokens :: "K8SConfig \<Rightarrow> string list" where
  "configured_tokens k = k8s_TokenValues k @ concat (map (\<lambda>h. map snd (ht_Data h)) (k8s_Honeytokens k))"

lemma K8S_values_complete:
  assumes "length (nonempty (configured_tokens k)) \<le> 320" "sum_list (map length (nonempty (configured_tokens k))) \<le> 16384"
  shows "K8SConfig_SensitiveValues k = nonempty (configured_tokens k)"
proof -
  let ?hs = "k8s_Honeytokens k" and ?ts = "k8s_TokenValues k"
  have fits: "tokens.fits ([] @ nonempty ?ts @ nonempty (concat (map (\<lambda>h. map snd (ht_Data h)) ?hs)))"
    using assms by (simp add: tokens.fits_def configured_tokens_def)
  then show ?thesis
    using add_tokens_all [OF fits] add_honeytokens_all [of "nonempty ?ts" ?hs]
    by (auto simp: K8SConfig_SensitiveValues_def configured_tokens_def Let_def split: prod.splits)
qed

text \<open>
  The Kubernetes credentials handed to the log redactor are bounded, at most 320 vals and 16 KiB, each of them
  configured and non-empty; and as long as the configured ones fit these bounds, every one of them is handed over.
\<close>

lemma K8S_redaction_bounded_and_complete:
  "let vals = K8SConfig_SensitiveValues k; configured = nonempty (configured_tokens k)
   in length vals \<le> 320 \<and> sum_list (map length vals) \<le> 16384 \<and> set vals \<subseteq> set configured \<and>
      (length configured \<le> 320 \<and> sum_list (map length configured) \<le> 16384 \<longrightarrow> vals = configured)"
proof -
  let ?vals = "K8SConfig_SensitiveValues k" and ?hs = "k8s_Honeytokens k" and ?ts = "k8s_TokenValues k"
  have start: "tokens.fits []" by (simp add: tokens.fits_def)
  have "tokens.fits ?vals \<and> set ?vals \<subseteq> set (configured_tokens k)"
    using add_tokens_bounded [OF start, of ?ts] add_honeytokens_bounded [of "snd (add_tokens ?ts [])" ?hs]
    by (auto simp: K8SConfig_SensitiveValues_def configured_tokens_def Let_def split: prod.splits)
  then have bounded: "length ?vals \<le> 320 \<and> sum_list (map length ?vals) \<le> 16384 \<and> set ?vals \<subseteq> set (nonempty (configured_tokens k))"
    by (auto simp: tokens.fits_def nonempty_def)
  from K8S_values_complete [of k] have "?vals = nonempty (configured_tokens k)"
    if "length (nonempty (configured_tokens k)) \<le> 320" "sum_list (map length (nonempty (configured_tokens k))) \<le> 16384" using that by simp
  with bounded show ?thesis by (simp add: Let_def)
qed

text \<open>
  A log sink without a token ends the collection: when the first sink has no token, no sink's password,
  header or token is handed to the redactor, however many of them are configured.
\<close>

lemma sink_without_token_hides_credentials:
  "LoggingConfig_SensitiveValues (l\<lparr>log_Sinks := sink\<lparr>sink_Token := []\<rparr> # sinks\<rparr>) = []"
  by (simp add: LoggingConfig_SensitiveValues_def add_value_def)

definition demo_k8s :: K8SConfig where
  "demo_k8s =
     \<lparr>k8s_APIVersion = ''v1.37'', k8s_SchemaOffline = True, k8s_IPBase = ''10.42.0.0'', k8s_GenerateKubeSys = False, k8s_GenerateRand = False,
      k8s_Host = ''0.0.0.0'', k8s_Port = ''8000'', k8s_TLSEnabled = False, k8s_TLSCertFile = [], k8s_TLSKeyFile = [],
      k8s_Namespaces = [''prod''],
      k8s_Honeytokens = [\<lparr>ht_Name = ''db'', ht_Namespace = ''prod'', ht_Type = [], ht_Data = [(''password'', ''hunter2''), (''user'', [])]\<rparr>],
      k8s_TokenValues = [''tok''], k8s_TokenNames = []\<rparr>"

lemma K8S_redaction_bounded_and_complete_example: "K8SConfig_SensitiveValues demo_k8s = [''tok'', ''hunter2'']"
  using K8S_redaction_bounded_and_complete [of demo_k8s] by (simp add: Let_def configured_tokens_def demo_k8s_def)

end
