(* ===== verification/Shipper.thy ===== *)
theory Shipper
  imports ModelConfig "HOL-Library.Word"
begin

text \<open>
  The asynchronous delivery of events to remote log sinks (\<^verbatim>\<open>batchShipper\<close> of \<^verbatim>\<open>logger/sink.go\<close>): a bounded queue
  that any number of handlers fill, one goroutine that batches and sends, and \<^verbatim>\<open>Close\<close>. The goroutines are
  a step relation whose steps are the atomic actions of the code, so the proofs cover every interleaving.

  The state records, beside the fields of the struct, the calls of \<open>send\<close> and their results, and the
  payloads the queue accepted; no step reads them.
\<close>

section \<open>State\<close>

record Event =
  e_Timestamp :: string
  e_EventID :: string
  e_Sensor :: string
  e_SessionID :: string
  e_Action :: string
  e_Outcome :: string
  e_Profile :: string
  e_Target :: string
  e_RemoteAddr :: string
  e_ClientAddr :: string
  e_Method :: string
  e_Path :: string
  e_StatusCode :: int
  e_BytesReceived :: int
  e_BytesSent :: int
  e_UserAgent :: string
  e_Detail :: string

record sinkPayload =
  sp_event :: Event
  sp_json :: string

abbreviation sinkQueueSize :: nat where "sinkQueueSize \<equiv> 1024"
abbreviation sinkBatchEvents :: nat where "sinkBatchEvents \<equiv> 64"
abbreviation sinkBatchBytes :: nat where "sinkBatchBytes \<equiv> 262144"

text \<open>Where the goroutine \<^verbatim>\<open>run\<close> is: in its select loop, in the final drain, or returned.\<close>

datatype phase = Looping | Draining | Exited

record batchShipper =
  queue :: "sinkPayload list"
  done_closed :: bool
  closed :: bool
  dropped :: "64 word"
  batch :: "sinkPayload list"
  batchBytes :: nat
  run_phase :: phase
  sends :: "(sinkPayload list \<times> bool list) list" \<comment> \<open>each delivered batch with the results of its attempts\<close>
  accepted :: "sinkPayload list"

definition newBatchShipper :: batchShipper where
  "newBatchShipper =
     \<lparr>queue = [], done_closed = False, closed = False, dropped = 0, batch = [], batchBytes = 0, run_phase = Looping,
      sends = [], accepted = []\<rparr>"

section \<open>Operations\<close>

text \<open>\<^verbatim>\<open>Emit\<close> is two actions: it reads \<open>closed\<close>, and later offers the payload to the queue.\<close>

definition emit_check :: "batchShipper \<Rightarrow> bool \<times> batchShipper" where
  "emit_check s = (if closed s then (False, s\<lparr>dropped := dropped s + 1\<rparr>) else (True, s))"

definition emit_offer :: "sinkPayload \<Rightarrow> batchShipper \<Rightarrow> batchShipper" where
  "emit_offer p s =
     (if length (queue s) < sinkQueueSize then s\<lparr>queue := queue s @ [p], accepted := accepted s @ [p]\<rparr>
      else s\<lparr>dropped := dropped s + 1\<rparr>)"

definition Emit :: "sinkPayload \<Rightarrow> batchShipper \<Rightarrow> batchShipper" where
  "Emit p s = (let (taken, s1) = emit_check s in if taken then emit_offer p s1 else s1)"

text \<open>\<^verbatim>\<open>Close\<close> up to its wait is two actions too: the compare-and-swap of \<open>closed\<close>, and closing \<open>done\<close> by the caller that won it.\<close>

definition close_swap :: "batchShipper \<Rightarrow> bool \<times> batchShipper" where
  "close_swap s = (if closed s then (False, s) else (True, s\<lparr>closed := True\<rparr>))"

definition close_done :: "batchShipper \<Rightarrow> batchShipper" where
  "close_done s = s\<lparr>done_closed := True\<rparr>"

definition Close :: "batchShipper \<Rightarrow> batchShipper" where
  "Close s = (let (won, s1) = close_swap s in if won then close_done s1 else s1)"

text \<open>\<^verbatim>\<open>deliver\<close>: at most two attempts; \<open>ok1\<close> and \<open>ok2\<close> are what \<open>send\<close> answers if it is called.\<close>

definition deliver :: "bool \<Rightarrow> bool \<Rightarrow> sinkPayload list \<Rightarrow> batchShipper \<Rightarrow> batchShipper" where
  "deliver ok1 ok2 b s =
     (if b = [] then s
      else if ok1 then s\<lparr>sends := sends s @ [(b, [True])]\<rparr>
      else if ok2 then s\<lparr>sends := sends s @ [(b, [False, True])]\<rparr>
      else s\<lparr>sends := sends s @ [(b, [False, False])], dropped := dropped s + of_nat (length b)\<rparr>)"

definition flush :: "bool \<Rightarrow> bool \<Rightarrow> batchShipper \<Rightarrow> batchShipper" where
  "flush ok1 ok2 s = (deliver ok1 ok2 (batch s) s)\<lparr>batch := [], batchBytes := 0\<rparr>"

text \<open>The cases of the select loop and of the drain loop.\<close>

definition take_payload :: "bool \<Rightarrow> bool \<Rightarrow> batchShipper \<Rightarrow> batchShipper" where
  "take_payload ok1 ok2 s =
     (case queue s of
        [] \<Rightarrow> s
      | p # q \<Rightarrow>
          (let s1 = s\<lparr>queue := q, batch := batch s @ [p], batchBytes := batchBytes s + length (sp_json p)\<rparr>
           in if length (batch s1) \<ge> sinkBatchEvents \<or> batchBytes s1 \<ge> sinkBatchBytes then flush ok1 ok2 s1 else s1))"

definition drain_payload :: "batchShipper \<Rightarrow> batchShipper" where
  "drain_payload s = (case queue s of [] \<Rightarrow> s | p # q \<Rightarrow> s\<lparr>queue := q, batch := batch s @ [p]\<rparr>)"

text \<open>The final drain as the loop it is: take everything that is queued, flush, return.\<close>

function drain :: "bool \<Rightarrow> bool \<Rightarrow> batchShipper \<Rightarrow> batchShipper" where
  "drain ok1 ok2 s = (if queue s = [] then (flush ok1 ok2 s)\<lparr>run_phase := Exited\<rparr> else drain ok1 ok2 (drain_payload s))"
  by pat_completeness auto
termination
  by (relation "measure (\<lambda>(_, _, s). length (queue s))") (auto simp: drain_payload_def split: list.splits)

declare drain.simps [simp del]

text \<open>
  The system: the shipper, the payloads of the handlers that have read \<open>closed\<close> as false and not yet offered,
  and the number of events emitted so far.
\<close>

type_synonym ship_state = "batchShipper \<times> sinkPayload list \<times> nat"

inductive ship_step :: "ship_state \<Rightarrow> ship_state \<Rightarrow> bool" where
  emit_accepted: "emit_check s = (True, s') \<Longrightarrow> ship_step (s, ps, n) (s', p # ps, Suc n)"
| emit_refused: "emit_check s = (False, s') \<Longrightarrow> ship_step (s, ps, n) (s', ps, Suc n)"
| offer: "p \<in> set ps \<Longrightarrow> ship_step (s, ps, n) (emit_offer p s, remove1 p ps, n)"
| swap: "ship_step (s, ps, n) (snd (close_swap s), ps, n)"
| close: "closed s \<Longrightarrow> ship_step (s, ps, n) (close_done s, ps, n)"
| take: "run_phase s = Looping \<Longrightarrow> queue s \<noteq> [] \<Longrightarrow> ship_step (s, ps, n) (take_payload ok1 ok2 s, ps, n)"
| tick: "run_phase s = Looping \<Longrightarrow> ship_step (s, ps, n) (flush ok1 ok2 s, ps, n)"
| stop: "run_phase s = Looping \<Longrightarrow> done_closed s \<Longrightarrow> ship_step (s, ps, n) (s\<lparr>run_phase := Draining\<rparr>, ps, n)"
| drain_take: "run_phase s = Draining \<Longrightarrow> queue s \<noteq> [] \<Longrightarrow> ship_step (s, ps, n) (drain_payload s, ps, n)"
| drain_end: "run_phase s = Draining \<Longrightarrow> queue s = [] \<Longrightarrow> ship_step (s, ps, n) ((flush ok1 ok2 s)\<lparr>run_phase := Exited\<rparr>, ps, n)"

inductive_cases ship_stepE: "ship_step st st'"

section \<open>Nothing is reordered, duplicated or forgotten\<close>

definition sent_ok :: "batchShipper \<Rightarrow> sinkPayload list" where
  "sent_ok s = concat (map fst (filter (\<lambda>(b, rs). last rs) (sends s)))"

definition sent_failed :: "batchShipper \<Rightarrow> sinkPayload list" where
  "sent_failed s = concat (map fst (filter (\<lambda>(b, rs). \<not> last rs) (sends s)))"

definition fifo_ok :: "batchShipper \<Rightarrow> bool" where
  "fifo_ok s \<longleftrightarrow> accepted s = concat (map fst (sends s)) @ batch s @ queue s"

definition count_ok :: "ship_state \<Rightarrow> bool" where
  "count_ok = (\<lambda>(s, ps, n). (of_nat n :: 64 word) =
     of_nat (length (sent_ok s)) + dropped s + of_nat (length (batch s) + length (queue s) + length ps))"

definition bounds_ok :: "batchShipper \<Rightarrow> bool" where
  "bounds_ok s \<longleftrightarrow> length (queue s) \<le> sinkQueueSize \<and> (done_closed s \<longrightarrow> closed s) \<and>
     (run_phase s = Looping \<longrightarrow> length (batch s) < sinkBatchEvents \<and> batchBytes s < sinkBatchBytes \<and>
        batchBytes s = sum_list (map (length \<circ> sp_json) (batch s))) \<and>
     (run_phase s \<noteq> Looping \<longrightarrow> done_closed s) \<and> (run_phase s = Exited \<longrightarrow> batch s = [])"

definition ship_ok :: "ship_state \<Rightarrow> bool" where
  "ship_ok st \<longleftrightarrow> fifo_ok (fst st) \<and> count_ok st \<and> bounds_ok (fst st)"

named_theorems ship_defs \<open>the operations of the shipper\<close>

lemmas [ship_defs] = emit_check_def emit_offer_def close_swap_def close_done_def deliver_def flush_def take_payload_def drain_payload_def

lemma fifo_ok_step: "ship_step st st' \<Longrightarrow> fifo_ok (fst st) \<Longrightarrow> fifo_ok (fst st')"
  by (induction rule: ship_step.induct) (auto simp: fifo_ok_def ship_defs Let_def split: if_splits list.splits)

lemma bounds_ok_step: "ship_step st st' \<Longrightarrow> bounds_ok (fst st) \<Longrightarrow> bounds_ok (fst st')"
  by (induction rule: ship_step.induct) (auto simp: bounds_ok_def ship_defs Let_def split: if_splits list.splits)

lemma sent_ok_simps:
  "sent_ok (s\<lparr>queue := q\<rparr>) = sent_ok s" "sent_ok (s\<lparr>dropped := d\<rparr>) = sent_ok s" "sent_ok (s\<lparr>batch := b\<rparr>) = sent_ok s"
  "sent_ok (s\<lparr>batchBytes := m\<rparr>) = sent_ok s" "sent_ok (s\<lparr>run_phase := ph\<rparr>) = sent_ok s" "sent_ok (s\<lparr>closed := c\<rparr>) = sent_ok s"
  "sent_ok (s\<lparr>done_closed := c\<rparr>) = sent_ok s" "sent_ok (s\<lparr>accepted := a\<rparr>) = sent_ok s"
  "sent_ok (s\<lparr>sends := sends s @ [(b, rs)]\<rparr>) = sent_ok s @ (if last rs then b else [])"
  by (simp_all add: sent_ok_def)

lemma flush_count:
  "of_nat (length (sent_ok (flush ok1 ok2 s))) + dropped (flush ok1 ok2 s) =
   (of_nat (length (sent_ok s)) + dropped s + of_nat (length (batch s)) :: 64 word)"
  by (simp add: flush_def deliver_def sent_ok_simps)

lemma flush_frame:
  "batch (flush ok1 ok2 s) = []" "queue (flush ok1 ok2 s) = queue s" "accepted (flush ok1 ok2 s) = accepted s"
  "run_phase (flush ok1 ok2 s) = run_phase s" "closed (flush ok1 ok2 s) = closed s" "done_closed (flush ok1 ok2 s) = done_closed s"
  by (simp_all add: flush_def deliver_def)

lemma count_ok_flush: "count_ok (s, ps, n) \<Longrightarrow> count_ok (flush ok1 ok2 s, ps, n)"
  using flush_count [of ok1 ok2 s] by (simp add: count_ok_def flush_frame algebra_simps)

lemma count_ok_move: "queue s = p # q \<Longrightarrow> count_ok (s, ps, n) \<Longrightarrow> count_ok (s\<lparr>queue := q, batch := batch s @ [p], batchBytes := m\<rparr>, ps, n)"
  by (simp add: count_ok_def sent_ok_simps algebra_simps)

lemma count_ok_step: "ship_step st st' \<Longrightarrow> count_ok st \<Longrightarrow> count_ok st'"
proof (induction rule: ship_step.induct)
  case (take s ps n ok1 ok2)
  then show ?case
    using count_ok_move [of s _ _ ps n] count_ok_flush [of _ ps n ok1 ok2]
    by (auto simp: take_payload_def Let_def split: list.splits)
next
  case (tick s ps n ok1 ok2)
  then show ?case by (simp add: count_ok_flush)
next
  case (drain_take s ps n)
  then obtain p q where "queue s = p # q" by (cases "queue s") auto
  then show ?case using count_ok_move [of s p q ps n "batchBytes s"] drain_take by (simp add: drain_payload_def)
next
  case (drain_end s ps n ok1 ok2)
  then show ?case using count_ok_flush [of s ps n ok1 ok2] by (simp add: count_ok_def sent_ok_simps)
next
  case (offer p ps s n)
  then have "0 < length ps" by (cases ps) auto
  then have "of_nat (length ps) = (1 + of_nat (length (remove1 p ps)) :: 64 word)"
    using offer(1) by (simp add: length_remove1 flip: of_nat_Suc)
  with offer show ?case by (simp add: emit_offer_def count_ok_def sent_ok_simps algebra_simps)
qed (auto simp: count_ok_def ship_defs sent_ok_simps algebra_simps split: if_splits)

lemma ship_ok_init: "ship_ok (newBatchShipper, [], 0)"
  by (simp add: ship_ok_def fifo_ok_def count_ok_def bounds_ok_def newBatchShipper_def sent_ok_def)

lemma ship_ok_reachable: "ship_step\<^sup>*\<^sup>* (newBatchShipper, [], 0) st \<Longrightarrow> ship_ok st"
proof (induction rule: rtranclp_induct)
  case base
  show ?case by (rule ship_ok_init)
next
  case (step st st')
  then show ?case using fifo_ok_step bounds_ok_step count_ok_step by (simp add: ship_ok_def)
qed

text \<open>
  The shipper accounts for every event in every interleaving of emitting handlers, the delivery goroutine and closing:
  what the queue accepted has been sent batch by batch in that order, or waits in the batch or the queue, in order; the events emitted so far are those
  delivered, those counted as dropped and those still under way; and the queue never holds more than 1024 events.
\<close>

lemma shipper_accounts_for_every_event:
  assumes "ship_step\<^sup>*\<^sup>* (newBatchShipper, [], 0) (s, ps, n)"
  shows "accepted s = concat (map fst (sends s)) @ batch s @ queue s \<and>
         (of_nat n :: 64 word) = of_nat (length (sent_ok s)) + dropped s + of_nat (length (batch s) + length (queue s) + length ps) \<and>
         length (queue s) \<le> 1024 \<and> (run_phase s = Looping \<longrightarrow> length (batch s) < 64 \<and> sum_list (map (length \<circ> sp_json) (batch s)) < 256 * 1024)"
  using ship_ok_reachable [OF assms] by (auto simp: ship_ok_def fifo_ok_def count_ok_def bounds_ok_def)

section \<open>Closing\<close>

lemma drain_steps: "run_phase s = Draining \<Longrightarrow> ship_step\<^sup>*\<^sup>* (s, ps, n) (drain ok1 ok2 s, ps, n)"
proof (induction ok1 ok2 s rule: drain.induct)
  case (1 ok1 ok2 s)
  show ?case
  proof (cases "queue s = []")
    case True
    then show ?thesis using drain_end [OF "1.prems" True, of ps n ok1 ok2] by (subst drain.simps) auto
  next
    case False
    have "run_phase (drain_payload s) = Draining" using "1.prems" by (simp add: drain_payload_def split: list.splits)
    then have "ship_step\<^sup>*\<^sup>* (drain_payload s, ps, n) (drain ok1 ok2 (drain_payload s), ps, n)" using "1.IH" False by simp
    with drain_take [OF "1.prems" False, of ps n] show ?thesis using False by (subst drain.simps) auto
  qed
qed

lemma drain_result: "run_phase (drain ok1 ok2 s) = Exited \<and> queue (drain ok1 ok2 s) = [] \<and> batch (drain ok1 ok2 s) = []"
proof (induction ok1 ok2 s rule: drain.induct)
  case (1 ok1 ok2 s)
  then show ?case by (subst (1 2 3) drain.simps) (auto simp: flush_frame)
qed

text \<open>
  Closing terminates and loses nothing silently, provided no handler is in the middle of emitting: from any reachable state in which the delivery goroutine has seen
  the close, the final drain returns, with the queue and the batch empty, and every event ever emitted has been delivered or
  counted as dropped.
\<close>

lemma close_drains_and_accounts:
  assumes "ship_step\<^sup>*\<^sup>* (newBatchShipper, [], 0) (s, [], n)" "run_phase s = Draining"
  shows "ship_step\<^sup>*\<^sup>* (s, [], n) (drain ok1 ok2 s, [], n) \<and> run_phase (drain ok1 ok2 s) = Exited \<and>
         queue (drain ok1 ok2 s) = [] \<and> batch (drain ok1 ok2 s) = [] \<and>
         of_nat n = of_nat (length (sent_ok (drain ok1 ok2 s))) + dropped (drain ok1 ok2 s)"
proof -
  have run: "ship_step\<^sup>*\<^sup>* (s, [], n) (drain ok1 ok2 s, [], n)" by (rule drain_steps [OF assms(2)])
  have "ship_ok (drain ok1 ok2 s, [], n)" by (rule ship_ok_reachable [OF rtranclp_trans [OF assms(1) run]])
  then show ?thesis using run drain_result [of ok1 ok2 s] by (simp add: ship_ok_def count_ok_def)
qed

lemma exited_keeps_queue:
  assumes "ship_step\<^sup>*\<^sup>* (s, ps, n) (s', ps', n')" "run_phase s = Exited"
  shows "run_phase s' = Exited \<and> (\<exists>q. queue s' = queue s @ q) \<and> sends s' = sends s"
proof -
  have "run_phase (fst st') = Exited \<and> (\<exists>q. queue (fst st') = queue s @ q) \<and> sends (fst st') = sends s"
    if "ship_step\<^sup>*\<^sup>* (s, ps, n) st'" for st'
    using that
  proof (induction rule: rtranclp_induct)
    case base
    show ?case using assms(2) by simp
  next
    case (step st1 st2)
    from step(2,3) show ?case by (cases rule: ship_step.cases) (auto simp: ship_defs split: if_splits)
  qed
  from this [OF assms(1)] show ?thesis by simp
qed

text \<open>
  A handler that is emitting while the sink closes can lose its event without a trace: there is a run that ends with the delivery
  goroutine gone, the event in the queue and nothing counted as dropped, and in every continuation it stays
  there and nothing is ever sent.
\<close>

lemma emit_close_race_loses_event:
  "\<exists>s. ship_step\<^sup>*\<^sup>* (newBatchShipper, [], 0) (s, [], 1) \<and> run_phase s = Exited \<and> queue s = [p] \<and> dropped s = 0 \<and> sends s = [] \<and>
       {s'. \<exists>ps n. ship_step\<^sup>*\<^sup>* (s, [], 1) (s', ps, n)} \<subseteq> {s'. take 1 (queue s') = [p] \<and> sends s' = []}"
proof -
  let ?s0 = newBatchShipper
  let ?s1 = "?s0\<lparr>closed := True\<rparr>"
  let ?s2 = "?s1\<lparr>done_closed := True\<rparr>"
  let ?s3 = "?s2\<lparr>run_phase := Draining\<rparr>"
  let ?s4 = "?s3\<lparr>run_phase := Exited\<rparr>"
  let ?s5 = "emit_offer p ?s4"
  have 1: "ship_step (?s0, [], 0) (?s0, [p], Suc 0)" by (rule emit_accepted) (simp add: emit_check_def newBatchShipper_def)
  have 2: "ship_step (?s0, [p], Suc 0) (?s1, [p], Suc 0)"
    using swap [of ?s0 "[p]" "Suc 0"] by (simp add: close_swap_def newBatchShipper_def)
  have 3: "ship_step (?s1, [p], Suc 0) (?s2, [p], Suc 0)" using close [of ?s1 "[p]" "Suc 0"] by (simp add: close_done_def)
  have 4: "ship_step (?s2, [p], Suc 0) (?s3, [p], Suc 0)" by (rule stop) (simp_all add: newBatchShipper_def)
  have 5: "ship_step (?s3, [p], Suc 0) (?s4, [p], Suc 0)"
    using drain_end [of ?s3 "[p]" "Suc 0" True True] by (simp add: newBatchShipper_def flush_def deliver_def)
  have 6: "ship_step (?s4, [p], Suc 0) (?s5, [], Suc 0)" using offer [of p "[p]" ?s4 "Suc 0"] by simp
  note steps = converse_rtranclp_into_rtranclp [of ship_step]
  have run: "ship_step\<^sup>*\<^sup>* (?s0, [], 0) (?s5, [], Suc 0)"
    by (rule steps, rule 1, rule steps, rule 2, rule steps, rule 3, rule steps, rule 4, rule steps, rule 5, rule steps, rule 6, rule rtranclp.rtrancl_refl)
  have fields: "run_phase ?s5 = Exited" "queue ?s5 = [p]" "dropped ?s5 = 0" "sends ?s5 = []"
    by (simp_all add: emit_offer_def newBatchShipper_def)
  have "take 1 (queue s') = [p] \<and> sends s' = []" if "ship_step\<^sup>*\<^sup>* (?s5, [], 1) (s', ps, n)" for s' ps n
    using exited_keeps_queue [OF that fields(1)] fields by auto
  with run fields show ?thesis by (intro exI [of _ ?s5]) auto
qed

section \<open>Concrete runs\<close>

definition demo_event :: Event where
  "demo_event =
     \<lparr>e_Timestamp = [], e_EventID = ''1'', e_Sensor = ''http'', e_SessionID = [], e_Action = [], e_Outcome = [], e_Profile = [], e_Target = [],
      e_RemoteAddr = [], e_ClientAddr = [], e_Method = ''GET'', e_Path = [], e_StatusCode = 200, e_BytesReceived = 0, e_BytesSent = 0,
      e_UserAgent = [], e_Detail = []\<rparr>"

definition demo_payload :: sinkPayload where
  "demo_payload = \<lparr>sp_event = demo_event, sp_json = ''{}''\<rparr>"

definition demo_queued :: batchShipper where
  "demo_queued = Emit demo_payload newBatchShipper"

definition demo_draining :: batchShipper where
  "demo_draining = (Close demo_queued)\<lparr>run_phase := Draining\<rparr>"

lemma demo_queued_eval:
  "queue demo_queued = [demo_payload]" "batch demo_queued = []" "run_phase demo_queued = Looping" "dropped demo_queued = 0"
  "sends demo_queued = []" "closed demo_queued = False" "accepted demo_queued = [demo_payload]"
  by (simp_all add: demo_queued_def Emit_def emit_check_def emit_offer_def newBatchShipper_def)

lemma demo_queued_run: "ship_step\<^sup>*\<^sup>* (newBatchShipper, [], 0) (demo_queued, [], 1)"
proof -
  have 1: "ship_step (newBatchShipper, [], 0) (newBatchShipper, [demo_payload], Suc 0)"
    by (rule emit_accepted) (simp add: emit_check_def newBatchShipper_def)
  have 2: "ship_step (newBatchShipper, [demo_payload], Suc 0) (demo_queued, [], Suc 0)"
    using offer [of demo_payload "[demo_payload]" newBatchShipper "Suc 0"]
    by (simp add: demo_queued_def Emit_def emit_check_def newBatchShipper_def)
  show ?thesis
    using converse_rtranclp_into_rtranclp [of ship_step, OF 1] 2 by auto
qed

lemma shipper_accounts_for_every_event_example:
  "accepted demo_queued = [demo_payload] \<and> (1 :: 64 word) = of_nat (length (sent_ok demo_queued)) + dropped demo_queued + 1"
  using shipper_accounts_for_every_event [OF demo_queued_run] by (simp add: demo_queued_eval)

lemma demo_draining_run: "ship_step\<^sup>*\<^sup>* (newBatchShipper, [], 0) (demo_draining, [], 1)"
proof -
  let ?c = "demo_queued\<lparr>closed := True\<rparr>"
  have 1: "ship_step (demo_queued, [], 1) (?c, [], 1)"
    using swap [of demo_queued "[]" 1] by (simp add: close_swap_def demo_queued_eval)
  have 2: "ship_step (?c, [], 1) (close_done ?c, [], 1)" by (rule close) simp
  have "Close demo_queued = close_done ?c" by (simp add: Close_def close_swap_def demo_queued_eval)
  then have 3: "ship_step (close_done ?c, [], 1) (demo_draining, [], 1)"
    using stop [of "close_done ?c" "[]" 1] by (simp add: demo_draining_def close_done_def demo_queued_eval)
  show ?thesis
    using rtranclp.rtrancl_into_rtrancl [of ship_step, OF _ 3] rtranclp.rtrancl_into_rtrancl [of ship_step, OF _ 2]
      rtranclp.rtrancl_into_rtrancl [of ship_step, OF demo_queued_run 1] by blast
qed

lemma close_drains_and_accounts_example:
  "queue (drain True True demo_draining) = [] \<and> 1 = of_nat (length (sent_ok (drain True True demo_draining))) + dropped (drain True True demo_draining)"
  using close_drains_and_accounts [OF demo_draining_run, of True True] by (simp add: demo_draining_def)

end
