(* ===== verification/Docker.thy ===== *)
theory Docker
  imports Json Digest GoTime Shipper
begin

text \<open>
  The Docker sensor (\<^verbatim>\<open>honeypots/docker/docker.go\<close>): a simulated Docker Engine that keeps at most 128 containers with at most
  8 MiB of configurations, and at most 128 exec instances. Requests run under one mutex, so a run of the sensor is a sequence of
  requests.

  Parameters of a request are what it takes from outside the sensor: the bytes of the body and whether reading it failed, the 32
  random bytes, the clock and the query values \<^verbatim>\<open>net/url\<close> parsed. A Go map is an association list; where the code ranges over
  a map, in an order the language leaves open, the model goes through the list.
\<close>

abbreviation engineVersion :: string where "engineVersion \<equiv> ''26.1.4''"
abbreviation apiVersion :: string where "apiVersion \<equiv> ''1.45''"
abbreviation maxBody :: nat where "maxBody \<equiv> 65536"
abbreviation maxContainers :: nat where "maxContainers \<equiv> 128"
abbreviation maxStoreBytes :: int where "maxStoreBytes \<equiv> 8388608"
abbreviation maxExecs :: nat where "maxExecs \<equiv> 128"

section \<open>State\<close>

record hostConfig =
  hc_Privileged :: bool
  hc_Binds :: "string list option"
  hc_NetworkMode :: string

record containerConfig =
  cc_Image :: string
  cc_Cmd :: "string list option"
  cc_Env :: "string list option"
  cc_Labels :: "(string \<times> string) list option"
  cc_HostConfig :: hostConfig

record container =
  k_ID :: string
  k_Name :: string
  k_State :: string
  k_Created :: int
  k_Config :: containerConfig
  k_Size :: int

record sensor =
  containers :: "(string \<times> container) list"
  execs :: "(string \<times> string) list"
  sbytes :: int

definition zeroConfig :: containerConfig where
  "zeroConfig = \<lparr>cc_Image = [], cc_Cmd = None, cc_Env = None, cc_Labels = None,
     cc_HostConfig = \<lparr>hc_Privileged = False, hc_Binds = None, hc_NetworkMode = []\<rparr>\<rparr>"

definition repeat_str :: "nat \<Rightarrow> char \<Rightarrow> string" where
  "repeat_str n c = replicate n c"

definition NewHandler :: "int \<Rightarrow> sensor" where
  "NewHandler now =
     \<lparr>containers = [(repeat_str 64 (CHR ''a''),
        \<lparr>k_ID = repeat_str 64 (CHR ''a''), k_Name = ''web'', k_State = ''running'', k_Created = now - 3600,
         k_Config = zeroConfig\<lparr>cc_Image := ''alpine:3.20'', cc_Cmd := Some [''sleep'', ''3600'']\<rparr>, k_Size = 0\<rparr>)],
      execs = [], sbytes = 0\<rparr>"

text \<open>\<^verbatim>\<open>^[a-zA-Z0-9][a-zA-Z0-9_.-]{0,63}$\<close>\<close>

definition name_first :: "char \<Rightarrow> bool" where
  "name_first c \<longleftrightarrow> is_digit c \<or> CHR ''A'' \<le> c \<and> c \<le> CHR ''Z'' \<or> CHR ''a'' \<le> c \<and> c \<le> CHR ''z''"

definition name_char :: "char \<Rightarrow> bool" where
  "name_char c \<longleftrightarrow> name_first c \<or> c = CHR ''_'' \<or> c = CHR ''.'' \<or> c = CHR ''-''"

definition namePattern :: "string \<Rightarrow> bool" where
  "namePattern s \<longleftrightarrow> (case s of [] \<Rightarrow> False | c # cs \<Rightarrow> name_first c \<and> length cs \<le> 63 \<and> list_all name_char cs)"

section \<open>Decoding a container configuration\<close>

text \<open>
  \<^verbatim>\<open>json.Unmarshal\<close> into the structs of the sensor (\<^const>\<open>decode_struct\<close>). \<^verbatim>\<open>null\<close> clears a slice or map. The elements a repeated list left
  behind its shortened end are not followed.
\<close>

fun decode_elements :: "json list \<Rightarrow> string list \<Rightarrow> string list option" where
  "decode_elements [] old = Some []"
| "decode_elements (j # js) old =
     (case decode_string j (case old of [] \<Rightarrow> [] | x # _ \<Rightarrow> x) of
        None \<Rightarrow> None
      | Some s \<Rightarrow> map_option (Cons s) (decode_elements js (tl old)))"

definition decode_strings :: "json \<Rightarrow> string list option \<Rightarrow> string list option option" where
  "decode_strings j old =
     (case j of
        JNull \<Rightarrow> Some None
      | JArr js \<Rightarrow> map_option Some (decode_elements js (case old of None \<Rightarrow> [] | Some l \<Rightarrow> l))
      | _ \<Rightarrow> None)"

fun decode_entries :: "(string \<times> json) list \<Rightarrow> (string \<times> string) list \<Rightarrow> (string \<times> string) list option" where
  "decode_entries [] m = Some m"
| "decode_entries ((k, j) # ms) m =
     (case decode_string j [] of None \<Rightarrow> None | Some s \<Rightarrow> decode_entries ms (AList.update k s m))"

definition decode_labels :: "json \<Rightarrow> (string \<times> string) list option \<Rightarrow> (string \<times> string) list option option" where
  "decode_labels j old =
     (case j of
        JNull \<Rightarrow> Some None
      | JObj ms \<Rightarrow> map_option Some (decode_entries ms (case old of None \<Rightarrow> [] | Some m \<Rightarrow> m))
      | _ \<Rightarrow> None)"

definition host_field :: "string \<Rightarrow> json \<Rightarrow> hostConfig \<Rightarrow> hostConfig option" where
  "host_field key j h =
     (if field_is key ''Privileged'' then map_option (\<lambda>b. h\<lparr>hc_Privileged := b\<rparr>) (decode_bool j (hc_Privileged h))
      else if field_is key ''Binds'' then map_option (\<lambda>l. h\<lparr>hc_Binds := l\<rparr>) (decode_strings j (hc_Binds h))
      else if field_is key ''NetworkMode'' then map_option (\<lambda>s. h\<lparr>hc_NetworkMode := s\<rparr>) (decode_string j (hc_NetworkMode h))
      else Some h)"

definition config_field :: "string \<Rightarrow> json \<Rightarrow> containerConfig \<Rightarrow> containerConfig option" where
  "config_field key j c =
     (if field_is key ''Image'' then map_option (\<lambda>s. c\<lparr>cc_Image := s\<rparr>) (decode_string j (cc_Image c))
      else if field_is key ''Cmd'' then map_option (\<lambda>l. c\<lparr>cc_Cmd := l\<rparr>) (decode_strings j (cc_Cmd c))
      else if field_is key ''Env'' then map_option (\<lambda>l. c\<lparr>cc_Env := l\<rparr>) (decode_strings j (cc_Env c))
      else if field_is key ''Labels'' then map_option (\<lambda>m. c\<lparr>cc_Labels := m\<rparr>) (decode_labels j (cc_Labels c))
      else if field_is key ''HostConfig'' then map_option (\<lambda>h. c\<lparr>cc_HostConfig := h\<rparr>) (decode_struct host_field j (cc_HostConfig c))
      else Some c)"

definition unmarshal_config :: "string \<Rightarrow> containerConfig option" where
  "unmarshal_config data = Option.bind (json_parse data) (\<lambda>j. decode_struct config_field j zeroConfig)"

section \<open>Replies\<close>

record reply =
  r_code :: int
  r_data :: string
  r_action :: string
  r_outcome :: string
  r_target :: string
  r_detail :: string

text \<open>Every value the sensor encodes is made of maps, slices, strings, numbers and booleans, on which \<^verbatim>\<open>json.Marshal\<close>
  does not fail.\<close>

definition textReply :: "int \<Rightarrow> string \<Rightarrow> reply" where
  "textReply code data = \<lparr>r_code = code, r_data = data, r_action = [], r_outcome = [], r_target = [], r_detail = []\<rparr>"

definition jsonReply :: "int \<Rightarrow> gval \<Rightarrow> reply" where
  "jsonReply code v = textReply code (marshal v)"

definition errorReply :: "int \<Rightarrow> string \<Rightarrow> reply" where
  "errorReply code message = jsonReply code (GStrMap [(''message'', message)])"

text \<open>A nil slice or map is encoded as \<^verbatim>\<open>null\<close>; a struct keeps the order of its fields.\<close>

definition strings_text :: "string list option \<Rightarrow> string" where
  "strings_text l = (case l of None \<Rightarrow> ''null'' | Some ss \<Rightarrow> marshal (GStrs ss))"

definition labels_val :: "(string \<times> string) list option \<Rightarrow> gval" where
  "labels_val l = (case l of None \<Rightarrow> GNil | Some m \<Rightarrow> GStrMap m)"

definition hostConfig_text :: "hostConfig \<Rightarrow> string" where
  "hostConfig_text h = struct_text [(''Privileged'', marshal (GBool (hc_Privileged h))), (''Binds'', strings_text (hc_Binds h)),
     (''NetworkMode'', json_quote (hc_NetworkMode h))]"

definition containerConfig_text :: "containerConfig \<Rightarrow> string" where
  "containerConfig_text c = struct_text [(''Image'', json_quote (cc_Image c)), (''Cmd'', strings_text (cc_Cmd c)),
     (''Env'', strings_text (cc_Env c)), (''Labels'', marshal (labels_val (cc_Labels c))),
     (''HostConfig'', hostConfig_text (cc_HostConfig c))]"

section \<open>Requests\<close>

record dockerRequest =
  dq_Method :: string
  dq_Path :: string
  dq_RawQuery :: string
  dq_query :: "(string \<times> string) list"
  dq_RemoteAddr :: string
  dq_body :: string
  dq_read_error :: bool
  dq_random :: "nat list option" \<comment> \<open>the 32 bytes of \<^verbatim>\<open>rand.Read\<close>\<close>
  dq_now :: nat
  dq_nanos :: nat

definition query_get :: "dockerRequest \<Rightarrow> string \<Rightarrow> string" where
  "query_get r key = (case map_of (dq_query r) key of Some v \<Rightarrow> v | None \<Rightarrow> [])"

definition query_true :: "dockerRequest \<Rightarrow> string \<Rightarrow> bool" where
  "query_true r key \<longleftrightarrow> query_get r key = ''1'' \<or> query_get r key = ''true''"

definition randomID :: "nat list option \<Rightarrow> string option" where
  "randomID bs = map_option hex_bytes bs"

definition running :: "container \<Rightarrow> bool" where
  "running c \<longleftrightarrow> k_State c = ''running''"

definition find :: "string \<Rightarrow> sensor \<Rightarrow> container option" where
  "find name s =
     (case map_of (containers s) name of
        Some c \<Rightarrow> Some c
      | None \<Rightarrow>
          (case filter (\<lambda>(i, c). k_Name c = name \<or> 12 \<le> length name \<and> has_prefix i name) (containers s) of
             [(_, c)] \<Rightarrow> Some c
           | _ \<Rightarrow> None))"

definition image_id :: string where
  "image_id = ''sha256:'' @ repeat_str 64 (CHR ''c'')"

definition version_val :: gval where
  "version_val = GMap [(''Version'', GStr engineVersion), (''ApiVersion'', GStr apiVersion), (''MinAPIVersion'', GStr ''1.24''),
     (''GitCommit'', GStr ''de5c9cf''), (''GoVersion'', GStr ''go1.21.9''), (''Os'', GStr ''linux''), (''Arch'', GStr ''amd64''),
     (''KernelVersion'', GStr ''6.8.0''), (''BuildTime'', GStr ''2024-06-05T11:29:20Z''),
     (''Components'', GList [GMap [(''Name'', GStr ''Engine''), (''Version'', GStr engineVersion),
        (''Details'', GStrMap [(''ApiVersion'', apiVersion), (''MinAPIVersion'', ''1.24''), (''Os'', ''linux''), (''Arch'', ''amd64'')])]])]"

definition info_val :: "dockerRequest \<Rightarrow> sensor \<Rightarrow> gval" where
  "info_val r s =
     (let total = int (length (containers s)); live = int (length (filter (\<lambda>(_, c). running c) (containers s)))
      in GMap [(''ID'', GStr (repeat_str 64 (CHR ''b''))), (''Name'', GStr ''worker-01''), (''ServerVersion'', GStr engineVersion),
        (''Containers'', GInt total), (''ContainersRunning'', GInt live), (''ContainersStopped'', GInt (total - live)),
        (''ContainersPaused'', GInt 0), (''Images'', GInt 1), (''Driver'', GStr ''overlay2''), (''DriverStatus'', GList []),
        (''Plugins'', GMap [(''Volume'', GStrs [''local'']), (''Network'', GStrs [''bridge'', ''host'', ''null'']), (''Log'', GStrs [''json-file''])]),
        (''NCPU'', GInt 4), (''MemTotal'', GInt (8 * 2 ^ 30)), (''DockerRootDir'', GStr ''/var/lib/docker''), (''OSType'', GStr ''linux''),
        (''Architecture'', GStr ''x86_64''), (''OperatingSystem'', GStr ''Ubuntu 22.04.4 LTS''), (''KernelVersion'', GStr ''6.8.0''),
        (''LoggingDriver'', GStr ''json-file''), (''CgroupDriver'', GStr ''systemd''), (''CgroupVersion'', GStr ''2''), (''DefaultRuntime'', GStr ''runc''),
        (''Runtimes'', GMap [(''runc'', GStrMap [(''path'', ''runc'')])]), (''Swarm'', GStrMap [(''LocalNodeState'', ''inactive'')]),
        (''SecurityOptions'', GStrs [''name=seccomp,profile=builtin'']), (''SystemTime'', GStr (rfc3339_nano (dq_now r) (dq_nanos r))),
        (''Warnings'', GStrs [])])"

definition list_item :: "container \<Rightarrow> gval" where
  "list_item c = GMap [(''Id'', GStr (k_ID c)), (''Names'', GStrs [''/'' @ k_Name c]), (''Image'', GStr (cc_Image (k_Config c))),
     (''ImageID'', GStr image_id),
     (''Command'', GStr (go_join '' '' (case cc_Cmd (k_Config c) of None \<Rightarrow> [] | Some l \<Rightarrow> l))), (''Created'', GInt (k_Created c)),
     (''State'', GStr (k_State c)), (''Status'', GStr (k_State c)), (''Ports'', GList []), (''Labels'', labels_val (cc_Labels (k_Config c))),
     (''Mounts'', GList []), (''NetworkSettings'', GMap [(''Networks'', GMap [])])]"

definition listed :: "dockerRequest \<Rightarrow> sensor \<Rightarrow> container list" where
  "listed r s = filter (\<lambda>c. running c \<or> query_true r ''all'') (map snd (containers s))"

definition images_val :: gval where
  "images_val = GList [GMap [(''Id'', GStr image_id), (''RepoTags'', GStrs [''alpine:3.20'']), (''RepoDigests'', GStrs []), (''Created'', GInt 1717586960),
     (''Size'', GInt 7800000), (''SharedSize'', GInt (- 1)), (''Containers'', GInt (- 1)), (''Labels'', GStrMap [])]]"

definition image_val :: gval where
  "image_val = GMap [(''Id'', GStr image_id), (''RepoTags'', GStrs [''alpine:3.20'']), (''Architecture'', GStr ''amd64''), (''Os'', GStr ''linux''),
     (''Size'', GInt 7800000), (''Config'', GMap [(''Cmd'', GStrs [''/bin/sh''])]), (''RootFS'', GMap [(''Type'', GStr ''layers''), (''Layers'', GStrs [])])]"

definition inspect_text :: "container \<Rightarrow> string" where
  "inspect_text c = json_object [(''Id'', json_quote (k_ID c)), (''Name'', json_quote (''/'' @ k_Name c)),
     (''Created'', json_quote (rfc3339 (nat (k_Created c)))),
     (''State'', marshal (GMap [(''Status'', GStr (k_State c)), (''Running'', GBool (running c)), (''Paused'', GBool False), (''Restarting'', GBool False),
        (''Dead'', GBool False), (''ExitCode'', GInt 0), (''Pid'', GInt 0)])),
     (''Config'', containerConfig_text (k_Config c)), (''HostConfig'', hostConfig_text (cc_HostConfig (k_Config c))),
     (''NetworkSettings'', marshal (GMap [(''Ports'', GMap []), (''Networks'', GMap [])])), (''Mounts'', marshal (GList []))]"

section \<open>The operations\<close>

definition bool_text :: "bool \<Rightarrow> string" where
  "bool_text b = (if b then ''true'' else ''false'')"

definition request_detail :: "hostConfig \<Rightarrow> string" where
  "request_detail h = ''privileged:'' @ bool_text (hc_Privileged h) @ '' host_mount_requested:'' @
     bool_text (hc_Binds h \<noteq> None \<and> hc_Binds h \<noteq> Some []) @ '' host_network_requested:'' @ bool_text (hc_NetworkMode h = ''host'')"

definition containerName :: "dockerRequest \<Rightarrow> string \<Rightarrow> string" where
  "containerName r ident = (if query_get r ''name'' = [] then ''container-'' @ take 12 ident else query_get r ''name'')"

definition createContainer :: "dockerRequest \<Rightarrow> containerConfig \<Rightarrow> int \<Rightarrow> sensor \<Rightarrow> reply \<times> sensor" where
  "createContainer r config bodySize s =
     (if cc_Image config = [] \<or> 256 < length (cc_Image config) then (errorReply 400 ''image is required and must be bounded'', s)
      else if maxContainers \<le> length (containers s) \<or> maxStoreBytes < sbytes s + bodySize
      then (errorReply 503 ''simulated container capacity reached'', s)
      else case randomID (dq_random r) of
          None \<Rightarrow> (errorReply 500 ''identifier unavailable'', s)
        | Some ident \<Rightarrow>
            (let name = containerName r ident
             in if \<not> namePattern name then (errorReply 400 ''invalid container name'', s)
                else if list_ex (\<lambda>(_, c). k_Name c = name) (containers s) then (errorReply 409 ''container name already in use'', s)
                else ((jsonReply 201 (GMap [(''Id'', GStr ident), (''Warnings'', GStrs [])]))
                        \<lparr>r_action := ''container.create'', r_target := ident, r_detail := request_detail (cc_HostConfig config)\<rparr>,
                      s\<lparr>containers := AList.update ident
                           \<lparr>k_ID = ident, k_Name = name, k_State = ''created'', k_Created = int (dq_now r), k_Config = config, k_Size = bodySize\<rparr>
                           (containers s),
                        sbytes := sbytes s + bodySize\<rparr>)))"

definition deleteContainer :: "dockerRequest \<Rightarrow> container \<Rightarrow> sensor \<Rightarrow> reply \<times> sensor" where
  "deleteContainer r c s =
     (if running c \<and> \<not> query_true r ''force'' then (errorReply 409 ''container is running'', s)
      else ((textReply 204 [])\<lparr>r_action := ''container.delete'', r_target := k_ID c\<rparr>,
            s\<lparr>containers := AList.delete (k_ID c) (containers s), sbytes := sbytes s - k_Size c,
              execs := filter (\<lambda>(_, owner). owner \<noteq> k_ID c) (execs s)\<rparr>))"

text \<open>\<^verbatim>\<open>c.State = state\<close> writes through the pointer the map holds.\<close>

definition changeState :: "string \<Rightarrow> container \<Rightarrow> sensor \<Rightarrow> reply \<times> sensor" where
  "changeState verb c s =
     (let state = (if verb = ''stop'' \<or> verb = ''kill'' then ''exited'' else ''running'');
          code = (if k_State c = state \<and> verb \<noteq> ''restart'' then 304 else 204)
      in ((textReply code [])\<lparr>r_action := ''container.'' @ verb, r_target := k_ID c\<rparr>,
          s\<lparr>containers := AList.update (k_ID c) (c\<lparr>k_State := state\<rparr>) (containers s)\<rparr>))"

definition createExec :: "dockerRequest \<Rightarrow> container \<Rightarrow> sensor \<Rightarrow> reply \<times> sensor" where
  "createExec r c s =
     (if \<not> running c then (errorReply 409 ''container is not running'', s)
      else if maxExecs \<le> length (execs s) then (errorReply 503 ''simulated exec capacity reached'', s)
      else case randomID (dq_random r) of
          None \<Rightarrow> (errorReply 500 ''identifier unavailable'', s)
        | Some ident \<Rightarrow>
            ((jsonReply 201 (GStrMap [(''Id'', ident)]))\<lparr>r_action := ''exec.create'', r_target := k_ID c\<rparr>,
             s\<lparr>execs := AList.update ident (k_ID c) (execs s)\<rparr>))"

definition unavailable :: reply where
  "unavailable = errorReply 404 ''endpoint unavailable''"

definition isVerb :: "string \<Rightarrow> bool" where
  "isVerb w \<longleftrightarrow> w = ''start'' \<or> w = ''stop'' \<or> w = ''restart'' \<or> w = ''kill''"

definition handleContainer :: "dockerRequest \<Rightarrow> string \<Rightarrow> sensor \<Rightarrow> reply \<times> sensor" where
  "handleContainer r path s =
     (let parts = go_split (CHR ''/'') (trim_prefix path ''/containers/''); verb = parts ! 1
      in case find (hd parts) s of
           None \<Rightarrow> (errorReply 404 ''no such container'', s)
         | Some c \<Rightarrow>
             if length parts = 1 \<and> dq_Method r = ''DELETE'' then deleteContainer r c s
             else if length parts = 2 then
               (if verb = ''json'' \<and> dq_Method r = ''GET'' then
                  ((textReply 200 (inspect_text c))\<lparr>r_action := ''container.inspect'', r_target := k_ID c\<rparr>, s)
                else if isVerb verb \<and> dq_Method r = ''POST'' then changeState verb c s
                else if verb = ''exec'' \<and> dq_Method r = ''POST'' then createExec r c s
                else (unavailable, s))
             else (unavailable, s))"

definition handleExec :: "dockerRequest \<Rightarrow> string \<Rightarrow> sensor \<Rightarrow> reply" where
  "handleExec r path s =
     (let parts = go_split (CHR ''/'') (trim_prefix path ''/exec/'')
      in if length parts \<noteq> 2 then unavailable
         else case map_of (execs s) (hd parts) of
             None \<Rightarrow> errorReply 404 ''no such exec instance''
           | Some owner \<Rightarrow>
               if parts ! 1 = ''start'' \<and> dq_Method r = ''POST'' then
                 (errorReply 501 ''streaming execution is unavailable'')\<lparr>r_action := ''exec.start'', r_outcome := ''refused'', r_target := owner\<rparr>
               else if parts ! 1 = ''json'' \<and> dq_Method r = ''GET'' then
                 (jsonReply 200 (GMap [(''ID'', GStr (hd parts)), (''ContainerID'', GStr owner), (''Running'', GBool False),
                    (''ExitCode'', GInt 126), (''Pid'', GInt 0)]))\<lparr>r_action := ''exec.inspect'', r_target := owner\<rparr>
               else unavailable)"

text \<open>The \<^verbatim>\<open>switch\<close> of \<^verbatim>\<open>handle\<close>, entered with the lock held and the body decoded.\<close>

definition dispatch :: "dockerRequest \<Rightarrow> string \<Rightarrow> containerConfig \<Rightarrow> int \<Rightarrow> sensor \<Rightarrow> reply \<times> sensor" where
  "dispatch r path config bodySize s =
     (let get = (dq_Method r = ''GET'')
      in if path = ''/_ping'' \<and> (get \<or> dq_Method r = ''HEAD'') then ((textReply 200 ''OK'')\<lparr>r_action := ''ping''\<rparr>, s)
         else if path = ''/version'' \<and> get then ((jsonReply 200 version_val)\<lparr>r_action := ''version''\<rparr>, s)
         else if path = ''/info'' \<and> get then ((jsonReply 200 (info_val r s))\<lparr>r_action := ''info''\<rparr>, s)
         else if path = ''/containers/json'' \<and> get
         then ((jsonReply 200 (GList (map list_item (listed r s))))\<lparr>r_action := ''container.list''\<rparr>, s)
         else if path = ''/images/json'' \<and> get then ((jsonReply 200 images_val)\<lparr>r_action := ''image.list''\<rparr>, s)
         else if has_prefix path ''/images/'' \<and> has_suffix path ''/json'' \<and> get
         then ((jsonReply 200 image_val)\<lparr>r_action := ''image.inspect''\<rparr>, s)
         else if path = ''/networks'' \<and> get then ((jsonReply 200 (GList []))\<lparr>r_action := ''network.list''\<rparr>, s)
         else if path = ''/volumes'' \<and> get
         then ((jsonReply 200 (GMap [(''Volumes'', GList []), (''Warnings'', GStrs [])]))\<lparr>r_action := ''volume.list''\<rparr>, s)
         else if path = ''/containers/create'' \<and> dq_Method r = ''POST'' then createContainer r config bodySize s
         else if has_prefix path ''/containers/'' then handleContainer r path s
         else if has_prefix path ''/exec/'' then (handleExec r path s, s)
         else (unavailable, s))"

text \<open>The path without its version prefix, \<open>None\<close> for a version outside 1.24 to 1.45.\<close>

definition versioned_path :: "string \<Rightarrow> string option" where
  "versioned_path path =
     (let parts = go_split (CHR ''/'') (trim_prefix path ''/'')
      in if has_prefix (hd parts) ''v1.'' then
           (case atoi (trim_prefix (hd parts) ''v1.'') of
              None \<Rightarrow> None
            | Some minor \<Rightarrow>
                if minor < 24 \<or> 45 < minor \<or> hd parts \<noteq> ''v1.'' @ show_int minor then None
                else Some (''/'' @ go_join ''/'' (tl parts)))
         else Some path)"

definition handle :: "dockerRequest \<Rightarrow> sensor \<Rightarrow> reply \<times> sensor" where
  "handle r s =
     (if 4096 < length (dq_Path r) \<or> 8192 < length (dq_RawQuery r) then (errorReply 414 ''request target too long'', s)
      else case versioned_path (dq_Path r) of
          None \<Rightarrow> (errorReply 400 ''unsupported client API version'', s)
        | Some path \<Rightarrow>
            if dq_Method r = ''POST'' \<and> (path = ''/containers/create'' \<or> has_suffix path ''/exec'') then
              (if dq_read_error r \<or> maxBody < length (dq_body r) then (errorReply 413 ''request body too large'', s)
               else case unmarshal_config (dq_body r) of
                   None \<Rightarrow> (errorReply 400 ''invalid JSON object'', s)
                 | Some config \<Rightarrow> dispatch r path config (int (length (dq_body r))) s)
            else dispatch r path zeroConfig 0 s)"

definition bytes_sent :: "dockerRequest \<Rightarrow> reply \<Rightarrow> nat" where
  "bytes_sent r rep = (if dq_Method r \<noteq> ''HEAD'' \<and> r_code rep \<noteq> 204 then length (r_data rep) else 0)"

definition content_type :: "reply \<Rightarrow> string" where
  "content_type rep = (if r_action rep = ''ping'' then ''text/plain; charset=utf-8'' else ''application/json'')"

text \<open>The event of a request; \<open>sent\<close> is what \<^verbatim>\<open>w.Write\<close> reports.\<close>

definition docker_event :: "dockerRequest \<Rightarrow> reply \<Rightarrow> int \<Rightarrow> Event" where
  "docker_event r rep sent =
     \<lparr>e_Timestamp = [], e_EventID = [], e_Sensor = ''docker'', e_SessionID = [], e_Action = r_action rep,
      e_Outcome = (if r_outcome rep \<noteq> [] then r_outcome rep else if 400 \<le> r_code rep then ''rejected'' else ''simulated''),
      e_Profile = ''docker/'' @ engineVersion, e_Target = r_target rep, e_RemoteAddr = dq_RemoteAddr r, e_ClientAddr = [],
      e_Method = dq_Method r, e_Path = dq_Path r, e_StatusCode = r_code rep, e_BytesReceived = 0, e_BytesSent = sent,
      e_UserAgent = [], e_Detail = r_detail rep\<rparr>"

definition ServeHTTP :: "dockerRequest \<Rightarrow> int \<Rightarrow> sensor \<Rightarrow> (reply \<times> Event) \<times> sensor" where
  "ServeHTTP r sent s = (let (rep, s') = handle r s in ((rep, docker_event r rep sent), s'))"

end
