(* ===== verification/DockerSpec.thy ===== *)
theory DockerSpec
  imports Docker
begin

text \<open>
  What the Docker sensor keeps true: its limits and the agreement of its tables through every sequence of requests, that a refused
  request changes nothing, what creation and deletion do, and that nothing of a request body reaches the log.
\<close>

section \<open>The invariant\<close>

abbreviation names :: "sensor \<Rightarrow> string list" where
  "names s \<equiv> map (\<lambda>(_, c). k_Name c) (containers s)"

abbreviation ids :: "sensor \<Rightarrow> string set" where
  "ids s \<equiv> fst ` set (containers s)"

definition state_names :: "string set" where
  "state_names = {''created'', ''running'', ''exited''}"

definition container_ok :: "string \<Rightarrow> container \<Rightarrow> bool" where
  "container_ok i c \<longleftrightarrow> k_ID c = i \<and> namePattern (k_Name c) \<and> k_State c \<in> state_names \<and> 0 \<le> k_Size c"

definition table_ok :: "sensor \<Rightarrow> bool" where
  "table_ok s \<longleftrightarrow> distinct (map fst (containers s)) \<and> (\<forall>(i, c) \<in> set (containers s). container_ok i c) \<and> distinct (names s)"

definition account_ok :: "sensor \<Rightarrow> bool" where
  "account_ok s \<longleftrightarrow> sbytes s = int (weight (\<lambda>c. nat (k_Size c)) (containers s)) \<and> sbytes s \<le> maxStoreBytes \<and>
     length (containers s) \<le> maxContainers"

definition execs_ok :: "sensor \<Rightarrow> bool" where
  "execs_ok s \<longleftrightarrow> distinct (map fst (execs s)) \<and> length (execs s) \<le> maxExecs \<and> snd ` set (execs s) \<subseteq> ids s"

definition docker_ok :: "sensor \<Rightarrow> bool" where
  "docker_ok s \<longleftrightarrow> table_ok s \<and> account_ok s \<and> execs_ok s"

text \<open>Random identifiers do not repeat.\<close>

definition fresh_random :: "dockerRequest \<Rightarrow> sensor \<Rightarrow> bool" where
  "fresh_random r s \<longleftrightarrow> (case randomID (dq_random r) of None \<Rightarrow> True | Some i \<Rightarrow> i \<notin> ids s \<and> i \<notin> fst ` set (execs s))"

inductive docker_reachable :: "sensor \<Rightarrow> bool" where
  start: "docker_reachable (NewHandler now)"
| request: "docker_reachable s \<Longrightarrow> fresh_random r s \<Longrightarrow> docker_reachable (snd (handle r s))"

lemma filter_single: "filter P xs = [x] \<Longrightarrow> x \<in> set xs"
  using filter_set [of P xs] by auto

lemma find_stored:
  assumes ok: "table_ok s" and found: "find name s = Some c"
  shows "map_of (containers s) (k_ID c) = Some c \<and> container_ok (k_ID c) c"
proof -
  obtain i where i: "(i, c) \<in> set (containers s)"
    using found by (auto simp: find_def dest: map_of_SomeD filter_single split: option.splits list.splits prod.splits)
  then have "container_ok i c" using ok by (auto simp: table_ok_def)
  moreover from this have "k_ID c = i" by (simp add: container_ok_def)
  ultimately show ?thesis using i ok by (simp add: table_ok_def)
qed

lemma map_update_same:
  "map_of m i = Some c \<Longrightarrow> f c' = f c \<Longrightarrow> map (\<lambda>(_, c). f c) (AList.update i c' m) = map (\<lambda>(_, c). f c) m"
  by (induction m) (auto split: if_splits)

lemma names_delete_distinct: "distinct (map (\<lambda>(_, c). f c) m) \<Longrightarrow> distinct (map (\<lambda>(_, c). f c) (AList.delete i m))"
  by (induction m) (auto simp: set_delete_alist)

lemma weight_same: "map_of m i = Some c \<Longrightarrow> f c' = f c \<Longrightarrow> weight f (AList.update i c' m) = weight f m"
  by (induction m) (auto split: if_splits)

lemma keys_update: "fst ` set (AList.update k v m) = insert k (fst ` set m)"
  by (induction m) auto

lemma keys_delete: "fst ` set (AList.delete k m) = fst ` set m - {k}"
  by (force simp: set_delete_alist)

section \<open>Every operation keeps it\<close>

lemma docker_ok_new [docker_inv]: "docker_ok (NewHandler now)"
  by (simp add: docker_ok_def table_ok_def account_ok_def execs_ok_def NewHandler_def container_ok_def state_names_def
      namePattern_def name_first_def name_char_def less_eq_char_def)

definition new_container :: "dockerRequest \<Rightarrow> containerConfig \<Rightarrow> int \<Rightarrow> string \<Rightarrow> container" where
  "new_container r config n ident = \<lparr>k_ID = ident, k_Name = containerName r ident, k_State = ''created'', k_Created = int (dq_now r),
     k_Config = config, k_Size = n\<rparr>"

lemma name_taken: "list_ex (\<lambda>(_, c). k_Name c = n) m \<longleftrightarrow> n \<in> set (map (\<lambda>(_, c). k_Name c) m)"
  by (induction m) auto

lemma createContainer_cases:
  assumes "createContainer r config n s = (rep, s')"
  obtains (refused) code message where "s' = s" "rep = errorReply code message" "400 \<le> code"
  | (ok) ident where "randomID (dq_random r) = Some ident" "namePattern (containerName r ident)" "containerName r ident \<notin> set (names s)"
      "length (containers s) < maxContainers" "sbytes s + n \<le> maxStoreBytes" "r_code rep = 201" "r_action rep = ''container.create''"
      "r_target rep = ident" "r_detail rep = request_detail (cc_HostConfig config)" "r_outcome rep = []"
      "s' = s\<lparr>containers := AList.update ident (new_container r config n ident) (containers s), sbytes := sbytes s + n\<rparr>"
proof -
  have refuse: "thesis" if "(errorReply code message, s) = (rep, s')" "400 \<le> code" for code message
    using that refused by auto
  show ?thesis
  proof (cases "randomID (dq_random r)")
    case None
    then show ?thesis using assms by (auto simp: createContainer_def split: if_splits intro: refuse)
  next
    case (Some ident)
    show ?thesis
    proof (cases "namePattern (containerName r ident) \<and> containerName r ident \<notin> set (names s) \<and> cc_Image config \<noteq> [] \<and>
        length (cc_Image config) \<le> 256 \<and> length (containers s) < maxContainers \<and> sbytes s + n \<le> maxStoreBytes")
      case True
      then show ?thesis
        using assms Some by (intro ok [of ident]) (auto simp: createContainer_def new_container_def jsonReply_def textReply_def Let_def name_taken simp del: set_map)
    next
      case False
      then show ?thesis
        using assms Some by (auto simp: createContainer_def Let_def not_le not_less name_taken simp del: set_map split: if_splits intro: refuse)
    qed
  qed
qed

lemma docker_ok_create [docker_inv]:
  assumes ok: "docker_ok s" and fresh: "fresh_random r s" and n: "0 \<le> n"
  shows "docker_ok (snd (createContainer r config n s))"
proof -
  obtain rep s' where run: "createContainer r config n s = (rep, s')" by (cases "createContainer r config n s")
  from run have "docker_ok s'"
  proof (cases rule: createContainer_cases)
    case (ok ident)
    have new: "ident \<notin> fst ` set (containers s)" using fresh ok(1) by (simp add: fresh_random_def)
    have "table_ok s'"
      using assms(1) ok(2,3,11) new n
      by (auto simp: docker_ok_def table_ok_def update_new container_ok_def state_names_def new_container_def)
    moreover have "account_ok s'"
      using assms(1) ok(4,5,11) new n by (simp add: docker_ok_def account_ok_def update_new weight_def new_container_def)
    moreover have "execs_ok s'" using assms(1) ok(11) by (auto simp: docker_ok_def execs_ok_def keys_update)
    ultimately show ?thesis by (simp add: docker_ok_def)
  qed (use ok in simp)
  then show ?thesis using run by simp
qed

lemma docker_ok_delete [docker_inv]:
  assumes ok: "docker_ok s" and c: "map_of (containers s) (k_ID c) = Some c" "container_ok (k_ID c) c"
  shows "docker_ok (snd (deleteContainer r c s))"
proof -
  let ?s = "s\<lparr>containers := AList.delete (k_ID c) (containers s), sbytes := sbytes s - k_Size c,
              execs := filter (\<lambda>(_, owner). owner \<noteq> k_ID c) (execs s)\<rparr>"
  have t: "table_ok s" and a: "account_ok s" and e: "execs_ok s" using ok by (auto simp: docker_ok_def)
  have "table_ok ?s"
    using t names_delete_distinct [of k_Name "containers s" "k_ID c"] by (auto simp: table_ok_def set_delete_alist)
  moreover have "account_ok ?s"
    using a t c weight_delete [of "containers s" "k_ID c" c "\<lambda>c. nat (k_Size c)"] weight_ge [of "containers s" "k_ID c" c "\<lambda>c. nat (k_Size c)"]
      length_delete_alist_le [of "k_ID c" "containers s"]
    by (auto simp: account_ok_def table_ok_def container_ok_def)
  moreover have "execs_ok ?s"
    using e by (auto simp: execs_ok_def keys_delete distinct_map inj_on_def intro: le_trans [OF length_filter_le])
  ultimately have "docker_ok ?s" by (simp add: docker_ok_def)
  then show ?thesis using ok by (simp add: deleteContainer_def)
qed

lemma docker_ok_state [docker_inv]:
  assumes ok: "docker_ok s" and c: "map_of (containers s) (k_ID c) = Some c" "container_ok (k_ID c) c"
  shows "docker_ok (snd (changeState verb c s))"
proof -
  define st where "st = (if verb = ''stop'' \<or> verb = ''kill'' then ''exited'' else ''running'')"
  let ?d = "c\<lparr>k_State := st\<rparr>"
  let ?s = "s\<lparr>containers := AList.update (k_ID c) ?d (containers s)\<rparr>"
  have t: "table_ok s" and a: "account_ok s" and e: "execs_ok s" using ok by (auto simp: docker_ok_def)
  have key: "k_ID c \<in> fst ` set (containers s)" using map_of_SomeD [OF c(1)] by force
  have "container_ok (k_ID c) ?d" using c(2) by (simp add: container_ok_def state_names_def st_def)
  then have "table_ok ?s"
    using t map_update_same [OF c(1), of k_Name ?d] by (auto simp: table_ok_def set_update_distinct)
  moreover have "account_ok ?s"
    using a key weight_same [OF c(1), of "\<lambda>c. nat (k_Size c)" ?d] by (simp add: account_ok_def length_update)
  moreover have "execs_ok ?s" using e by (auto simp: execs_ok_def keys_update)
  ultimately have "docker_ok ?s" by (simp add: docker_ok_def)
  then show ?thesis by (simp add: changeState_def st_def Let_def)
qed

lemma docker_ok_exec [docker_inv]:
  assumes "docker_ok s" "map_of (containers s) (k_ID c) = Some c"
  shows "docker_ok (snd (createExec r c s))"
proof -
  have "k_ID c \<in> ids s" using map_of_SomeD [OF assms(2)] by force
  then have "execs_ok (s\<lparr>execs := AList.update i (k_ID c) (execs s)\<rparr>)" if "length (execs s) < maxExecs" for i
    using assms(1) that set_update_distinct [of "execs s" i "k_ID c"]
    by (auto simp: docker_ok_def execs_ok_def length_update)
  then show ?thesis
    using assms(1) by (auto simp: createExec_def docker_ok_def table_ok_def account_ok_def not_le split: option.splits)
qed

lemma docker_ok_container [docker_inv]:
  assumes "docker_ok s"
  shows "docker_ok (snd (handleContainer r path s))"
proof -
  have "table_ok s" using assms by (simp add: docker_ok_def)
  from find_stored [OF this] show ?thesis
    using assms by (auto simp: handleContainer_def Let_def intro!: docker_inv split: option.splits)
qed

lemma docker_ok_handle: "docker_ok s \<Longrightarrow> fresh_random r s \<Longrightarrow> docker_ok (snd (handle r s))"
  by (auto simp: handle_def dispatch_def Let_def intro!: docker_inv split: option.splits)

lemma docker_reachable_ok: "docker_reachable s \<Longrightarrow> docker_ok s"
  by (induction rule: docker_reachable.induct) (auto intro: docker_ok_handle docker_ok_new)

section \<open>Limits and agreement of the tables\<close>

text \<open>
  C28. Through every sequence of requests, as long as random identifiers do not repeat, the sensor holds at most 128 containers and 128
  exec instances; its byte counter is the sum of the sizes of the stored configurations and stays within 8 MiB; identifiers and
  names of containers are unique; and every exec instance belongs to a stored container.
\<close>

theorem docker_stays_consistent:
  assumes "docker_reachable s"
  shows "length (containers s) \<le> maxContainers \<and> length (execs s) \<le> maxExecs
    \<and> sbytes s = (\<Sum>(i, c) \<leftarrow> containers s. k_Size c) \<and> 0 \<le> sbytes s \<and> sbytes s \<le> maxStoreBytes
    \<and> distinct (map fst (containers s)) \<and> distinct (names s)
    \<and> snd ` set (execs s) \<subseteq> fst ` set (containers s)"
proof -
  have ok: "docker_ok s" using assms by (rule docker_reachable_ok)
  have "(\<forall>(i, c) \<in> set m. 0 \<le> k_Size c) \<Longrightarrow> int (weight (\<lambda>c. nat (k_Size c)) m) = (\<Sum>(i, c) \<leftarrow> m. k_Size c)" for m
    by (induction m) auto
  moreover have "\<forall>(i, c) \<in> set (containers s). 0 \<le> k_Size c"
    using ok by (auto simp: docker_ok_def table_ok_def container_ok_def)
  ultimately have "sbytes s = (\<Sum>(i, c) \<leftarrow> containers s. k_Size c)" using ok by (simp add: docker_ok_def account_ok_def)
  moreover have "0 \<le> sbytes s" using ok by (simp add: docker_ok_def account_ok_def)
  ultimately show ?thesis using ok by (simp add: docker_ok_def account_ok_def execs_ok_def table_ok_def)
qed

definition demo_docker_request :: dockerRequest where
  "demo_docker_request = \<lparr>dq_Method = ''DELETE'', dq_Path = ''/containers/web'', dq_RawQuery = ''force=1'', dq_query = [(''force'', ''1'')],
     dq_RemoteAddr = ''198.51.100.7:40000'', dq_body = [], dq_read_error = False, dq_random = None, dq_now = 1700000000, dq_nanos = 0\<rparr>"

theorem docker_stays_consistent_witness:
  "length (containers (snd (handle demo_docker_request (NewHandler 1700000000)))) \<le> maxContainers
    \<and> distinct (names (snd (handle demo_docker_request (NewHandler 1700000000))))"
proof -
  have "docker_reachable (snd (handle demo_docker_request (NewHandler 1700000000)))"
    by (intro docker_reachable.intros) (simp add: fresh_random_def randomID_def demo_docker_request_def)
  from docker_stays_consistent [OF this] show ?thesis by simp
qed

section \<open>Refused requests\<close>

lemma createContainer_refused: "400 \<le> r_code (fst (createContainer r config n s)) \<Longrightarrow> snd (createContainer r config n s) = s"
proof -
  assume a: "400 \<le> r_code (fst (createContainer r config n s))"
  obtain rep s' where run: "createContainer r config n s = (rep, s')" by (cases "createContainer r config n s")
  from run show ?thesis by (cases rule: createContainer_cases) (use a run in simp_all)
qed

lemma reply_codes [simp]:
  "r_code (textReply code data) = code" "r_code (jsonReply code v) = code" "r_code (errorReply code message) = code"
  by (simp_all add: textReply_def jsonReply_def errorReply_def)

text \<open>
  A request the sensor answers with an error (a malformed path or version, an oversized or malformed body, an unknown container, a full
  table, a name in use, an endpoint it does not have) leaves its containers, exec instances and byte counter as they were.
\<close>

lemma docker_refused_is_noop:
  assumes "400 \<le> r_code (fst (handle r s))"
  shows "snd (handle r s) = s"
proof -
  have "400 \<le> r_code (fst (handleContainer r path s)) \<Longrightarrow> snd (handleContainer r path s) = s" for path
    by (auto simp: handleContainer_def deleteContainer_def changeState_def createExec_def Let_def split: option.splits if_splits)
  then have "400 \<le> r_code (fst (dispatch r path config n s)) \<Longrightarrow> snd (dispatch r path config n s) = s" for path config n
    using createContainer_refused [of r config n s] unfolding dispatch_def Let_def by (auto split: if_splits)
  then show ?thesis using assms by (auto simp: handle_def split: option.splits if_splits)
qed

lemma docker_refused_is_noop_example:
  "snd (handle (demo_docker_request\<lparr>dq_query := []\<rparr>) (NewHandler 0)) = NewHandler 0"
proof (rule docker_refused_is_noop)
  show "400 \<le> r_code (fst (handle (demo_docker_request\<lparr>dq_query := []\<rparr>) (NewHandler 0)))"
    by (simp add: handle_def demo_docker_request_def versioned_path_def Let_def has_prefix_def has_suffix_def trim_prefix_def dispatch_def handleContainer_def
        find_def NewHandler_def repeat_str_def deleteContainer_def running_def query_true_def query_get_def)
qed

section \<open>What reaches the log\<close>

definition docker_actions :: "string list" where
  "docker_actions = [[], ''ping'', ''version'', ''info'', ''container.list'', ''image.list'', ''image.inspect'', ''network.list'',
     ''volume.list'', ''container.create'', ''container.delete'', ''container.inspect'', ''container.start'', ''container.stop'', ''container.restart'',
     ''container.kill'', ''exec.create'', ''exec.start'', ''exec.inspect'']"

definition docker_detail :: "bool \<Rightarrow> bool \<Rightarrow> bool \<Rightarrow> string" where
  "docker_detail a b c = ''privileged:'' @ bool_text a @ '' host_mount_requested:'' @ bool_text b @ '' host_network_requested:'' @ bool_text c"

definition telemetry_ok :: "sensor \<Rightarrow> reply \<times> sensor \<Rightarrow> bool" where
  "telemetry_ok s out \<longleftrightarrow>
     r_action (fst out) \<in> set docker_actions \<and> r_outcome (fst out) \<in> {[], ''refused''} \<and>
     (r_detail (fst out) = [] \<or> (\<exists>a b c. r_detail (fst out) = docker_detail a b c)) \<and>
     (r_target (fst out) = [] \<or> r_target (fst out) \<in> ids s \<union> ids (snd out))"

named_theorems docker_log \<open>what each operation reports to the log\<close>

lemma reply_log [simp]:
  "r_action (textReply code data) = []" "r_outcome (textReply code data) = []" "r_detail (textReply code data) = []" "r_target (textReply code data) = []"
  "r_action (jsonReply code v) = []" "r_outcome (jsonReply code v) = []" "r_detail (jsonReply code v) = []" "r_target (jsonReply code v) = []"
  "r_action (errorReply code m) = []" "r_outcome (errorReply code m) = []" "r_detail (errorReply code m) = []" "r_target (errorReply code m) = []"
  by (simp_all add: textReply_def jsonReply_def errorReply_def)

lemma telemetry_error [docker_log]: "telemetry_ok s (errorReply code m, s)" "telemetry_ok s (unavailable, s)"
  by (simp_all add: telemetry_ok_def docker_actions_def unavailable_def)

lemma telemetry_create [docker_log]: "telemetry_ok s (createContainer r config n s)"
proof -
  obtain rep s' where run: "createContainer r config n s = (rep, s')" by (cases "createContainer r config n s")
  from run have "telemetry_ok s (rep, s')"
  proof (cases rule: createContainer_cases)
    case (refused code message)
    then show ?thesis using docker_log by simp
  next
    case (ok ident)
    have "\<exists>a b c. request_detail (cc_HostConfig config) = docker_detail a b c" unfolding request_detail_def docker_detail_def by blast
    then show ?thesis using ok(7-11) by (simp add: telemetry_ok_def docker_actions_def keys_update)
  qed
  then show ?thesis using run by simp
qed

lemma telemetry_container [docker_log]:
  assumes "table_ok s"
  shows "telemetry_ok s (handleContainer r path s)"
proof (cases "find (hd (go_split (CHR ''/'') (trim_prefix path ''/containers/''))) s")
  case None
  then show ?thesis using docker_log by (simp add: handleContainer_def Let_def)
next
  case (Some c)
  have "k_ID c \<in> ids s" using find_stored [OF assms Some] map_of_SomeD by force
  then have "telemetry_ok s (deleteContainer r c s)" "isVerb w \<Longrightarrow> telemetry_ok s (changeState w c s)" "telemetry_ok s (createExec r c s)"
    "telemetry_ok s ((textReply 200 (inspect_text c))\<lparr>r_action := ''container.inspect'', r_target := k_ID c\<rparr>, s)" for w
    using docker_log
    by (auto simp: deleteContainer_def changeState_def createExec_def isVerb_def telemetry_ok_def docker_actions_def Let_def split: option.splits)
  then show ?thesis using Some docker_log by (auto simp: handleContainer_def Let_def)
qed

lemma telemetry_exec [docker_log]:
  assumes "execs_ok s"
  shows "telemetry_ok s (handleExec r path s, s)"
proof -
  have "owner \<in> ids s" if "map_of (execs s) i = Some owner" for i owner
    using assms map_of_SomeD [OF that] unfolding execs_ok_def by force
  then show ?thesis
    using docker_log unfolding handleExec_def Let_def
    by (auto simp: telemetry_ok_def docker_actions_def unavailable_def split: option.splits)
qed

lemma telemetry_dispatch: "docker_ok s \<Longrightarrow> telemetry_ok s (dispatch r path config n s)"
proof -
  assume ok: "docker_ok s"
  have fixed: "telemetry_ok s (rep, s)" if "r_action rep \<in> set docker_actions" "r_outcome rep = []" "r_detail rep = []" "r_target rep = []" for rep
    using that by (simp add: telemetry_ok_def)
  have "telemetry_ok s (handleContainer r path s)" "telemetry_ok s (handleExec r path s, s)"
    using ok docker_log by (auto simp: docker_ok_def)
  then show ?thesis
    unfolding dispatch_def Let_def using telemetry_create telemetry_error
    by (simp add: fixed docker_actions_def)
qed

text \<open>
  Whatever a client sends, the event of its request names an action from a fixed list, its outcome is \<^verbatim>\<open>simulated\<close>,
  \<^verbatim>\<open>rejected\<close> or \<^verbatim>\<open>refused\<close>, its target is empty or the identifier of a container the sensor holds, and its detail is empty or
  three flags: nothing of the request body, such as environment variables, commands or images, reaches the log.
\<close>

lemma docker_log_payload_free:
  assumes "docker_reachable s" "ServeHTTP r sent s = ((rep, event), s')"
  shows "e_Action event \<in> set docker_actions \<and> e_Outcome event \<in> {''simulated'', ''rejected'', ''refused''}
    \<and> (e_Target event = [] \<or> e_Target event \<in> ids s \<union> ids s')
    \<and> (e_Detail event = [] \<or> (\<exists>a b c. e_Detail event = docker_detail a b c))"
proof -
  have "docker_ok s" using assms(1) by (rule docker_reachable_ok)
  then have "telemetry_ok s (handle r s)"
    using docker_log telemetry_dispatch by (auto simp: handle_def split: option.splits)
  moreover have e: "handle r s = (rep, s')" "event = docker_event r rep sent"
    using assms(2) by (auto simp: ServeHTTP_def split: prod.splits)
  moreover have "e_Outcome (docker_event r rep sent) \<in> {''simulated'', ''rejected''} \<union> {r_outcome rep} - {[]}" by (simp add: docker_event_def)
  ultimately show ?thesis unfolding telemetry_ok_def
    by (simp add: docker_event_def) (metis (no_types))
qed

lemma docker_log_payload_free_example:
  "e_Action (snd (fst (ServeHTTP demo_docker_request 0 (NewHandler 0)))) \<in> set docker_actions"
proof -
  obtain rep event s' where run: "ServeHTTP demo_docker_request 0 (NewHandler 0) = ((rep, event), s')"
    by (metis prod.exhaust)
  from docker_log_payload_free [OF docker_reachable.start this] run show ?thesis by simp
qed

section \<open>Creating and deleting\<close>

lemma handleContainer_not_create: "r_action (fst (handleContainer r path s)) \<noteq> ''container.create''"
  by (auto simp: handleContainer_def deleteContainer_def changeState_def createExec_def unavailable_def isVerb_def Let_def split: option.splits)

lemma handleExec_not_create: "r_action (handleExec r path s) \<noteq> ''container.create''"
  by (auto simp: handleExec_def unavailable_def Let_def split: option.splits)

lemma handle_create:
  assumes "r_action (fst (handle r s)) = ''container.create''"
  obtains config where "unmarshal_config (dq_body r) = Some config" "handle r s = createContainer r config (int (length (dq_body r))) s"
    "length (dq_body r) \<le> maxBody"
proof -
  have d: "dispatch r path config n s = createContainer r config n s \<and> path = ''/containers/create'' \<and> dq_Method r = ''POST''"
    if "r_action (fst (dispatch r path config n s)) = ''container.create''" for path config n
    using that handleContainer_not_create handleExec_not_create
    by (auto simp: dispatch_def Let_def unavailable_def split: if_splits)
  show ?thesis
    using assms that by (auto simp: handle_def split: option.splits if_splits dest!: d)
qed

lemma hex_bytes_plain: "CHR ''/'' \<notin> set (hex_bytes bs)"
proof -
  have "hex_digit d \<noteq> CHR ''/''" if "d < 16" for d
  proof
    assume "hex_digit d = CHR ''/''"
    then have "(of_char (hex_digit d) :: nat) = of_char (CHR ''/'')" by (rule arg_cong)
    with that show False by (simp add: hex_digit_def split: if_splits)
  qed
  then have "CHR ''/'' \<noteq> hex_digit (n mod 16)" for n by (metis mod_less_divisor zero_less_numeral)
  then show ?thesis by (auto simp: hex_bytes_def hex_byte_def)
qed

lemma container_path:
  assumes "CHR ''/'' \<notin> set ident"
  shows "versioned_path (''/containers/'' @ ident) = Some (''/containers/'' @ ident)"
    and "go_split (CHR ''/'') (trim_prefix (''/containers/'' @ ident) ''/containers/'') = [ident]"
proof -
  have "go_split (CHR ''/'') (''containers'' @ CHR ''/'' # ident) = ''containers'' # go_split (CHR ''/'') ident"
    by (subst go_split_append_sep) simp
  then show "versioned_path (''/containers/'' @ ident) = Some (''/containers/'' @ ident)"
    by (simp add: versioned_path_def trim_prefix_def has_prefix_def Let_def)
  show "go_split (CHR ''/'') (trim_prefix (''/containers/'' @ ident) ''/containers/'') = [ident]"
    unfolding trim_prefix_append using assms by (rule go_split_no_occ)
qed

lemma handle_delete:
  assumes "dq_Method d = ''DELETE''" "dq_Path d = ''/containers/'' @ ident" "length (dq_RawQuery d) \<le> 8192"
    and "CHR ''/'' \<notin> set ident" "length ident \<le> 4084" "find ident s = Some c"
  shows "handle d s = deleteContainer d c s"
proof -
  have "handle d s = dispatch d (''/containers/'' @ ident) zeroConfig 0 s"
    using assms(1-3,5) container_path(1) [OF assms(4)] by (simp add: handle_def)
  also have "\<dots> = handleContainer d (''/containers/'' @ ident) s"
    using assms(1) has_prefix_append [of "''/containers/''" ident] by (simp add: dispatch_def Let_def)
  also have "\<dots> = deleteContainer d c s"
    using assms(1,6) container_path(2) [OF assms(4)] by (simp add: handleContainer_def Let_def)
  finally show ?thesis .
qed

text \<open>
  A container that was just created is found under its identifier, in state \<^verbatim>\<open>created\<close> with the decoded configuration; no
  other container or exec instance changes; and deleting it by its identifier puts the sensor back to the state before, its
  share of the 8 MiB included.
\<close>

lemma create_then_delete:
  assumes s: "docker_reachable s" and fresh: "fresh_random r s" and rnd: "dq_random r = Some bs" "length bs = 32"
    and ok: "r_action (fst (handle r s)) = ''container.create''"
    and d: "dq_Method d = ''DELETE''" "dq_Path d = ''/containers/'' @ r_target (fst (handle r s))" "length (dq_RawQuery d) \<le> 8192"
  shows "\<exists>c. find (hex_bytes bs) (snd (handle r s)) = Some c \<and> k_State c = ''created'' \<and> unmarshal_config (dq_body r) = Some (k_Config c)
    \<and> k_Size c = int (length (dq_body r)) \<and> containers (snd (handle r s)) = containers s @ [(hex_bytes bs, c)] \<and> execs (snd (handle r s)) = execs s
    \<and> r_code (fst (handle d (snd (handle r s)))) = 204 \<and> snd (handle d (snd (handle r s))) = s"
proof -
  obtain config where c: "unmarshal_config (dq_body r) = Some config"
    "handle r s = createContainer r config (int (length (dq_body r))) s" using ok by (rule handle_create)
  obtain rep s1 where run: "createContainer r config (int (length (dq_body r))) s = (rep, s1)" by (metis prod.exhaust)
  let ?id = "hex_bytes bs" and ?c = "new_container r config (int (length (dq_body r))) (hex_bytes bs)"
  have ident: "randomID (dq_random r) = Some ?id" using rnd by (simp add: randomID_def)
  have new: "?id \<notin> fst ` set (containers s)" using fresh ident by (simp add: fresh_random_def)
  have "r_target rep = ?id \<and> s1 = s\<lparr>containers := containers s @ [(?id, ?c)], sbytes := sbytes s + int (length (dq_body r))\<rparr>"
    using run
  proof (cases rule: createContainer_cases)
    case refused
    then show ?thesis using ok c(2) run by simp
  next
    case (ok i)
    then show ?thesis using ident new by (simp add: update_new)
  qed
  then have s1: "r_target rep = ?id" "s1 = s\<lparr>containers := containers s @ [(?id, ?c)], sbytes := sbytes s + int (length (dq_body r))\<rparr>" by simp_all
  have "map_of (containers s1) ?id = Some ?c" using new s1 by (simp add: map_add_def map_of_eq_None_iff [symmetric])
  then have found: "find ?id s1 = Some ?c" by (simp add: find_def)
  have "handle d s1 = deleteContainer d ?c s1"
    using d c(2) run s1(1) rnd(2) found by (intro handle_delete) (simp_all add: hex_bytes_plain)
  moreover have "?id \<notin> snd ` set (execs s)"
    using docker_reachable_ok [OF s] new by (auto simp: docker_ok_def execs_ok_def)
  then have "filter (\<lambda>(_, owner). owner \<noteq> ?id) (execs s) = execs s" by (force intro!: filter_True)
  moreover have "AList.delete ?id (containers s @ [(?id, ?c)]) = containers s"
    using new by (simp add: AList.delete_eq) (force intro!: filter_True)
  ultimately have "handle d s1 = ((textReply 204 [])\<lparr>r_action := ''container.delete'', r_target := ?id\<rparr>, s)"
    using s1(2) by (simp add: deleteContainer_def new_container_def running_def)
  then show ?thesis using found s1 c run by (intro exI [of _ ?c]) (simp add: new_container_def)
qed

definition demo_body :: string where
  "demo_body = [CHR ''{'', CHR 0x22] @ ''Image'' @ [CHR 0x22, CHR '':'', CHR 0x22] @ ''nginx'' @ [CHR 0x22, CHR ''}'']"

definition demo_random :: "nat list" where
  "demo_random = replicate 32 0xD0"

definition demo_docker_create :: dockerRequest where
  "demo_docker_create = demo_docker_request\<lparr>dq_Method := ''POST'', dq_Path := ''/containers/create'', dq_RawQuery := [], dq_query := [],
     dq_body := demo_body, dq_random := Some demo_random\<rparr>"

lemma demo_parse: "json_parse demo_body = Some (JObj [(''Image'', JStr ''nginx'')])"
  by (simp add: json_parse_def demo_body_def begin_value_def begin_key_def end_value_def push_frame_def json_space_def byte_def
      scan_result_def unquote.simps decode_rune_def encode_rune_def char_of_eq_iff take_bit_eq_mod)

lemma demo_container_config: "unmarshal_config demo_body = Some (zeroConfig\<lparr>cc_Image := ''nginx''\<rparr>)"
  by (simp add: unmarshal_config_def demo_parse decode_struct_def config_field_def field_is_def decode_string_def)

lemma demo_ident: "hex_bytes demo_random = concat (replicate 32 ''d0'')"
proof -
  have "hex_byte 0xD0 = ''d0''" by (simp add: hex_byte_def hex_digit_def char_of_eq_iff take_bit_eq_mod)
  then show ?thesis by (simp add: hex_bytes_def demo_random_def replicate_eval)
qed

lemma demo_fresh: "fresh_random demo_docker_create (NewHandler 0)"
  by (simp add: fresh_random_def randomID_def demo_docker_create_def demo_ident NewHandler_def repeat_str_def replicate_eval)

lemma demo_created: "r_action (fst (handle demo_docker_create (NewHandler 0))) = ''container.create''"
    "r_target (fst (handle demo_docker_create (NewHandler 0))) = hex_bytes demo_random"
proof -
  have "handle demo_docker_create (NewHandler 0) = createContainer demo_docker_create (zeroConfig\<lparr>cc_Image := ''nginx''\<rparr>) (int (length demo_body)) (NewHandler 0)"
    by (simp add: handle_def demo_docker_create_def demo_docker_request_def versioned_path_def Let_def has_prefix_def has_suffix_def trim_prefix_def demo_container_config dispatch_def)
      (simp add: demo_body_def)
  moreover have "containerName demo_docker_create (hex_bytes demo_random) = ''container-d0d0d0d0d0d0''"
    by (simp add: containerName_def query_get_def demo_docker_create_def demo_ident replicate_eval)
  moreover have "namePattern ''container-d0d0d0d0d0d0''" by (simp add: namePattern_def name_first_def name_char_def less_eq_char_def is_digit_def)
  ultimately show "r_action (fst (handle demo_docker_create (NewHandler 0))) = ''container.create''"
    "r_target (fst (handle demo_docker_create (NewHandler 0))) = hex_bytes demo_random"
    by (simp_all add: createContainer_def zeroConfig_def NewHandler_def randomID_def demo_docker_create_def demo_body_def Let_def)
qed

definition demo_delete :: dockerRequest where
  "demo_delete = demo_docker_request\<lparr>dq_Path := ''/containers/'' @ hex_bytes demo_random, dq_RawQuery := [], dq_query := []\<rparr>"

lemma create_then_delete_example:
  "snd (handle demo_delete (snd (handle demo_docker_create (NewHandler 0)))) = NewHandler 0"
proof -
  have "dq_random demo_docker_create = Some demo_random" "length demo_random = 32" by (simp_all add: demo_docker_create_def demo_random_def)
  from create_then_delete [OF docker_reachable.start demo_fresh this demo_created(1), of demo_delete] show ?thesis
    using demo_created(2) by (auto simp: demo_delete_def demo_docker_request_def)
qed

end
