(* ===== verification/AiSensor.thy ===== *)
theory AiSensor
  imports Json GoTime Shipper
begin

text \<open>
  The AI sensor (\<^verbatim>\<open>honeypots/ai/ai.go\<close>, \<^verbatim>\<open>replies.go\<close>): synthetic Ollama, OpenAI and Anthropic gateways. A request passes a fixed
  sequence of guards (session limit, target length, cancellation, a semaphore of 32, authentication, encoding, body size, route,
  method), its body is decoded after a nesting check, and a canned text cut to the requested budget is returned as JSON, as
  newline-delimited JSON or as server-sent events.

  Parameters are what the sensor does not compute: headers, the body and how reading it ended, the clock, the results of writing
  each frame. A floating-point number is its decimal value \<open>m * 10 ^ e\<close>.
\<close>

abbreviation ai_maxBody :: nat where "ai_maxBody \<equiv> 65536"
abbreviation maxOutput :: nat where "maxOutput \<equiv> 32768"
abbreviation maxItems :: nat where "maxItems \<equiv> 128"
abbreviation maxDepth :: nat where "maxDepth \<equiv> 32"
abbreviation maxRequests :: nat where "maxRequests \<equiv> 128"
abbreviation workSlots :: nat where "workSlots \<equiv> 32"
abbreviation ollamaModel :: string where "ollamaModel \<equiv> ''llama3.2:latest''"
abbreviation openaiModel :: string where "openaiModel \<equiv> ''gpt-4o-mini''"
abbreviation anthropicModel :: string where "anthropicModel \<equiv> ''claude-3-5-sonnet-latest''"

section \<open>Replies\<close>

record result =
  a_code :: int
  a_frames :: "string list"
  a_contentType :: string
  a_outcome :: string
  a_detail :: string

definition jsonResult :: "int \<Rightarrow> gval \<Rightarrow> result" where
  "jsonResult code v = \<lparr>a_code = code, a_frames = [marshal v], a_contentType = ''application/json'', a_outcome = [], a_detail = []\<rparr>"

definition failure :: "string \<Rightarrow> int \<Rightarrow> string \<Rightarrow> result" where
  "failure profile code message =
     (let kind0 = ''invalid_request_error'';
          kind1 = (if code = 401 then ''authentication_error'' else kind0);
          kind2 = (if code = 404 then ''not_found_error'' else kind1);
          kind = (if code = 429 \<or> code = 503 then ''rate_limit_error'' else kind2);
          e = [(''type'', GStr kind), (''message'', GStr message)]
      in if profile = ''ollama'' then jsonResult code (GMap [(''error'', GStr message)])
         else if profile = ''anthropic'' then jsonResult code (GMap [(''type'', GStr ''error''), (''error'', GMap e)])
         else jsonResult code (GMap [(''error'', GMap (e @ [(''param'', GNil), (''code'', GNil)]))]))"

definition profileFor :: "string \<Rightarrow> string" where
  "profileFor path =
     (if path = ''/v1/messages'' \<or> path = ''/v1/messages/count_tokens'' then ''anthropic''
      else if has_prefix path ''/v1/'' then ''openai'' else ''ollama'')"

definition route :: "string \<Rightarrow> string \<times> string" where
  "route path =
     (if path = ''/'' then (''GET'', ''health'')
      else if path = ''/api/version'' then (''GET'', ''version'')
      else if path \<in> set [''/api/tags'', ''/api/ps'', ''/v1/models''] then (''GET'', ''models.list'')
      else if path = ''/api/show'' then (''POST'', ''models.inspect'')
      else if path \<in> set [''/api/chat'', ''/v1/chat/completions'', ''/v1/messages''] then (''POST'', ''inference.chat'')
      else if path = ''/api/generate'' then (''POST'', ''inference.generate'')
      else if path = ''/v1/responses'' then (''POST'', ''inference.responses'')
      else if path = ''/v1/messages/count_tokens'' then (''POST'', ''tokens.count'')
      else if path \<in> set [''/api/pull'', ''/api/push'', ''/api/create'', ''/api/copy''] then (''POST'', ''models.modify'')
      else if path = ''/api/delete'' then (''DELETE'', ''models.modify'')
      else ([], ''unknown''))"

definition ndjson :: "gobj list \<Rightarrow> result" where
  "ndjson objects = \<lparr>a_code = 200, a_frames = map (\<lambda>v. marshal (GMap v) @ [CHR 0x0A]) objects, a_contentType = ''application/x-ndjson'',
     a_outcome = [], a_detail = []\<rparr>"

definition sse_frame :: "gobj \<Rightarrow> string" where
  "sse_frame event =
     (case gget event ''type'' of GStr kind \<Rightarrow> ''event: '' @ kind @ [CHR 0x0A] | _ \<Rightarrow> []) @
     ''data: '' @ marshal (GMap event) @ [CHR 0x0A, CHR 0x0A]"

definition sse :: "gobj list \<Rightarrow> result" where
  "sse events = \<lparr>a_code = 200, a_frames = map sse_frame events, a_contentType = ''text/event-stream'', a_outcome = [], a_detail = []\<rparr>"

definition objects_val :: "gobj list \<Rightarrow> gval" where
  "objects_val os = GList (map GMap os)"

definition ollamaReply :: "string \<Rightarrow> string \<Rightarrow> bool \<Rightarrow> string \<Rightarrow> int \<Rightarrow> string \<Rightarrow> result" where
  "ollamaReply path name stream textValue tokens now =
     (let makePart = (\<lambda>content fin.
            [(''model'', GStr name), (''created_at'', GStr now), (''done'', GBool fin)] @
            (if path = ''/api/chat'' then [(''message'', GMap [(''role'', GStr ''assistant''), (''content'', GStr content)])]
             else [(''response'', GStr content)]) @
            (if fin then [(''done_reason'', GStr ''stop''), (''total_duration'', GInt 1000000), (''load_duration'', GInt 0),
               (''prompt_eval_count'', GInt 1), (''eval_count'', GInt tokens), (''eval_duration'', GInt 1000000)] else []))
      in if stream then ndjson [makePart textValue False, makePart [] True]
         else jsonResult 200 (GMap (makePart textValue True)))"

definition chatReply :: "string \<Rightarrow> string \<Rightarrow> bool \<Rightarrow> gobj \<Rightarrow> string \<Rightarrow> int \<Rightarrow> int \<Rightarrow> result" where
  "chatReply name ident stream req textValue tokens now =
     (let usage = GMap [(''prompt_tokens'', GInt 1), (''completion_tokens'', GInt tokens), (''total_tokens'', GInt (tokens + 1))];
          chunk = (\<lambda>delta finish. [(''id'', GStr ident), (''object'', GStr ''chat.completion.chunk''), (''created'', GInt now), (''model'', GStr name),
            (''choices'', objects_val [[(''index'', GInt 0), (''delta'', GMap delta), (''finish_reason'', finish), (''logprobs'', GNil)]])]);
          out = sse [chunk [(''role'', GStr ''assistant''), (''content'', GStr [])] GNil, chunk [(''content'', GStr textValue)] GNil,
            chunk [] (GStr ''stop'')];
          extra = (case gget req ''stream_options'' of
              GMap opts \<Rightarrow> if gget opts ''include_usage'' = GBool True
                then a_frames (sse [[(''id'', GStr ident), (''object'', GStr ''chat.completion.chunk''), (''created'', GInt now), (''model'', GStr name),
                  (''choices'', GList []), (''usage'', usage)]])
                else []
            | _ \<Rightarrow> [])
      in if \<not> stream then
           jsonResult 200 (GMap [(''id'', GStr ident), (''object'', GStr ''chat.completion''), (''created'', GInt now), (''model'', GStr name),
             (''choices'', objects_val [[(''index'', GInt 0), (''message'', GMap [(''role'', GStr ''assistant''), (''content'', GStr textValue)]),
               (''finish_reason'', GStr ''stop''), (''logprobs'', GNil)]]), (''usage'', usage)])
         else out\<lparr>a_frames := a_frames out @ extra @ [''data: [DONE]'' @ [CHR 0x0A, CHR 0x0A]]\<rparr>)"

definition anthropicReply :: "string \<Rightarrow> string \<Rightarrow> bool \<Rightarrow> string \<Rightarrow> int \<Rightarrow> result" where
  "anthropicReply name ident stream textValue tokens =
     (let message = (\<lambda>content reason output. [(''id'', GStr ident), (''type'', GStr ''message''), (''role'', GStr ''assistant''), (''model'', GStr name),
            (''content'', objects_val content), (''stop_reason'', reason), (''stop_sequence'', GNil),
            (''usage'', GMap [(''input_tokens'', GInt 1), (''output_tokens'', GInt output)])])
      in if \<not> stream then jsonResult 200 (GMap (message [[(''type'', GStr ''text''), (''text'', GStr textValue)]] (GStr ''end_turn'') tokens))
         else sse
           [[(''type'', GStr ''message_start''), (''message'', GMap (message [] GNil 0))],
            [(''type'', GStr ''content_block_start''), (''index'', GInt 0), (''content_block'', GMap [(''type'', GStr ''text''), (''text'', GStr [])])],
            [(''type'', GStr ''content_block_delta''), (''index'', GInt 0), (''delta'', GMap [(''type'', GStr ''text_delta''), (''text'', GStr textValue)])],
            [(''type'', GStr ''content_block_stop''), (''index'', GInt 0)],
            [(''type'', GStr ''message_delta''), (''delta'', GMap [(''stop_reason'', GStr ''end_turn''), (''stop_sequence'', GNil)]),
              (''usage'', GMap [(''output_tokens'', GInt tokens)])],
            [(''type'', GStr ''message_stop'')]])"

text \<open>The clock is read for every \<^verbatim>\<open>response(...)\<close>; the model reads it once per reply.\<close>

definition responsesReply :: "string \<Rightarrow> string \<Rightarrow> bool \<Rightarrow> string \<Rightarrow> int \<Rightarrow> int \<Rightarrow> result" where
  "responsesReply name ident stream textValue tokens now =
     (let itemID = ''msg_'' @ ident;
          part = (\<lambda>content. [(''type'', GStr ''output_text''), (''text'', GStr content), (''annotations'', GList []), (''logprobs'', GList [])]);
          item = [(''id'', GStr itemID), (''type'', GStr ''message''), (''status'', GStr ''completed''), (''role'', GStr ''assistant''),
            (''content'', objects_val [part textValue])];
          response = (\<lambda>status output. [(''id'', GStr ident), (''object'', GStr ''response''), (''created_at'', GInt now), (''status'', GStr status),
            (''model'', GStr name), (''output'', objects_val output), (''error'', GNil), (''incomplete_details'', GNil), (''parallel_tool_calls'', GBool False),
            (''tools'', GList []), (''tool_choice'', GStr ''none''), (''store'', GBool False),
            (''usage'', GMap [(''input_tokens'', GInt 1), (''output_tokens'', GInt tokens), (''total_tokens'', GInt (tokens + 1)),
              (''input_tokens_details'', GMap [(''cached_tokens'', GInt 0)]), (''output_tokens_details'', GMap [(''reasoning_tokens'', GInt 0)])])]);
          completed = response ''completed'' [item];
          at = [(''item_id'', GStr itemID), (''output_index'', GInt 0), (''content_index'', GInt 0)];
          events =
            [[(''type'', GStr ''response.created''), (''response'', GMap (response ''in_progress'' []))],
             [(''type'', GStr ''response.in_progress''), (''response'', GMap (response ''in_progress'' []))],
             [(''type'', GStr ''response.output_item.added''), (''output_index'', GInt 0),
               (''item'', GMap [(''id'', GStr itemID), (''type'', GStr ''message''), (''status'', GStr ''in_progress''), (''role'', GStr ''assistant''), (''content'', GList [])])],
             [(''type'', GStr ''response.content_part.added'')] @ at @ [(''part'', GMap (part []))],
             [(''type'', GStr ''response.output_text.delta'')] @ at @ [(''delta'', GStr textValue), (''logprobs'', GList [])],
             [(''type'', GStr ''response.output_text.done'')] @ at @ [(''text'', GStr textValue), (''logprobs'', GList [])],
             [(''type'', GStr ''response.content_part.done'')] @ at @ [(''part'', GMap (part textValue))],
             [(''type'', GStr ''response.output_item.done''), (''output_index'', GInt 0), (''item'', GMap item)],
             [(''type'', GStr ''response.completed''), (''response'', GMap completed)]]
      in if \<not> stream then jsonResult 200 (GMap completed)
         else sse (map (\<lambda>(i, event). event @ [(''sequence_number'', GInt (int i))]) (List.enumerate 0 events)))"

section \<open>The budget\<close>

definition float_less_int :: "int \<Rightarrow> int \<Rightarrow> int \<Rightarrow> bool" where
  "float_less_int m e k \<longleftrightarrow> (if 0 \<le> e then m * 10 ^ nat e < k else m < k * 10 ^ nat (- e))"

definition float_is_int :: "int \<Rightarrow> int \<Rightarrow> int \<Rightarrow> bool" where
  "float_is_int m e k \<longleftrightarrow> (if 0 \<le> e then m * 10 ^ nat e = k else m = k * 10 ^ nat (- e))"

abbreviation float_above :: "int \<Rightarrow> int \<Rightarrow> int \<Rightarrow> bool" where
  "float_above m e k \<equiv> \<not> float_less_int m e k \<and> \<not> float_is_int m e k"

definition chunks :: "string list" where
  "chunks = [''Hello'', ''!'', '' How'', '' can'', '' I'', '' help'', '' you'', '' today'', ''?'']"

text \<open>\<^verbatim>\<open>n < 1 || n > 32768 || n != float64(int(n))\<close> rejects.\<close>

definition positive_limit :: "gval \<Rightarrow> int option" where
  "positive_limit raw =
     (case raw of
        GFloat m e \<Rightarrow>
          (let n = float_to_int m e
           in if float_less_int m e 1 \<or> float_above m e 32768 \<or> \<not> float_is_int m e n then None else Some n)
      | _ \<Rightarrow> None)"

fun limit_budget :: "string list \<Rightarrow> gobj \<Rightarrow> int \<Rightarrow> int option" where
  "limit_budget [] req budget = Some budget"
| "limit_budget (key # keys) req budget =
     (if has_key req key then
        (case positive_limit (gget req key) of
           None \<Rightarrow> None
         | Some n \<Rightarrow> limit_budget keys req (if n < budget then n else budget))
      else limit_budget keys req budget)"

definition predict_budget :: "gobj \<Rightarrow> int \<Rightarrow> int option" where
  "predict_budget req budget =
     (case gget req ''options'' of
        GMap opts \<Rightarrow>
          if has_key opts ''num_predict'' then
            (case gget opts ''num_predict'' of
               GFloat m e \<Rightarrow>
                 (let n = float_to_int m e
                  in if float_above m e 32768 \<or> \<not> float_is_int m e n \<or> float_is_int m e 0 \<or> float_less_int m e (- 2) then None
                     else if float_above m e 0 \<and> n < budget then Some n else Some budget)
             | _ \<Rightarrow> None)
          else Some budget
      | _ \<Rightarrow> Some budget)"

definition limit_keys :: "string list" where
  "limit_keys = [''max_tokens'', ''max_completion_tokens'', ''max_output_tokens'']"

definition generatedText :: "gobj \<Rightarrow> (string \<times> int) option" where
  "generatedText req =
     (case limit_budget limit_keys req (int (length chunks)) of
        None \<Rightarrow> None
      | Some budget0 \<Rightarrow>
          (case predict_budget req budget0 of
             None \<Rightarrow> None
           | Some budget \<Rightarrow> Some (concat (take (nat budget) chunks), budget)))"

section \<open>Decoding a request\<close>

text \<open>The scan that bounds nesting: brackets outside string literals.\<close>

record depthScan =
  depth :: int
  quoted :: bool
  escaped :: bool

definition depth_char :: "char \<Rightarrow> depthScan \<Rightarrow> depthScan option" where
  "depth_char c d =
     (if quoted d then
        Some (if escaped d then d\<lparr>escaped := False\<rparr>
              else if c = CHR 0x5C then d\<lparr>escaped := True\<rparr>
              else if c = CHR 0x22 then d\<lparr>quoted := False\<rparr> else d)
      else if c = CHR 0x22 then Some (d\<lparr>quoted := True\<rparr>)
      else if c = CHR ''{'' \<or> c = CHR ''['' then
        (if int maxDepth < depth d + 1 then None else Some (d\<lparr>depth := depth d + 1\<rparr>))
      else if c = CHR ''}'' \<or> c = CHR '']'' then Some (d\<lparr>depth := depth d - 1\<rparr>)
      else Some d)"

fun depth_scan :: "string \<Rightarrow> depthScan \<Rightarrow> depthScan option" where
  "depth_scan [] d = Some d"
| "depth_scan (c # cs) d = (case depth_char c d of None \<Rightarrow> None | Some d' \<Rightarrow> depth_scan cs d')"

definition decode :: "string \<Rightarrow> gobj option" where
  "decode body =
     (case depth_scan body \<lparr>depth = 0, quoted = False, escaped = False\<rparr> of
        None \<Rightarrow> None
      | Some _ \<Rightarrow> (case unmarshal_object body of Some (Some req) \<Rightarrow> Some req | _ \<Rightarrow> None))"

text \<open>\<^verbatim>\<open>^[A-Za-z0-9][A-Za-z0-9._:/-]{0,127}$\<close>\<close>

definition model_first :: "char \<Rightarrow> bool" where
  "model_first c \<longleftrightarrow> is_digit c \<or> CHR ''A'' \<le> c \<and> c \<le> CHR ''Z'' \<or> CHR ''a'' \<le> c \<and> c \<le> CHR ''z''"

definition modelPattern :: "string \<Rightarrow> bool" where
  "modelPattern s \<longleftrightarrow> (case s of [] \<Rightarrow> False
     | c # cs \<Rightarrow> model_first c \<and> length cs \<le> 127 \<and> list_all (\<lambda>c. model_first c \<or> c \<in> set ''._:/-'') cs)"

definition selectedModel :: "gobj \<Rightarrow> string option" where
  "selectedModel req =
     (case gget req ''model'' of
        GStr name \<Rightarrow> if \<not> modelPattern name then None else Some (if name = ''llama3.2'' then ollamaModel else name)
      | _ \<Rightarrow> None)"

definition streamFlag :: "gobj \<Rightarrow> bool \<Rightarrow> bool option" where
  "streamFlag req defaultValue =
     (if \<not> has_key req ''stream'' then Some defaultValue
      else case gget req ''stream'' of GBool b \<Rightarrow> Some b | _ \<Rightarrow> None)"

definition is_object :: "gval \<Rightarrow> bool" where
  "is_object v = (case v of GMap _ \<Rightarrow> True | _ \<Rightarrow> False)"

definition itemCount :: "gobj \<Rightarrow> string \<Rightarrow> bool \<Rightarrow> nat option" where
  "itemCount req key required =
     (if \<not> has_key req key then (if required then None else Some 0)
      else case gget req key of
          GList items \<Rightarrow>
            if maxItems < length items \<or> required \<and> items = [] \<or> \<not> list_all is_object items then None else Some (length items)
        | _ \<Rightarrow> None)"

text \<open>\<^verbatim>\<open>raw.(map[string]any)\<close> without a check panics on any other value: \<open>None\<close>.\<close>

definition validMessage :: "gval \<Rightarrow> bool option" where
  "validMessage raw =
     (case raw of
        GMap msg \<Rightarrow>
          (let role = stringField msg ''role''
           in Some (role \<in> set [''user'', ''assistant'', ''system'', ''developer'', ''tool''] \<and>
                    (case gget msg ''content'' of
                       GStr _ \<Rightarrow> True
                     | GList content \<Rightarrow> length content \<le> maxItems \<and> list_all is_object content
                     | GNil \<Rightarrow> role = ''assistant''
                     | _ \<Rightarrow> False)))
      | _ \<Rightarrow> None)"

fun valid_messages :: "gval list \<Rightarrow> bool option" where
  "valid_messages [] = Some True"
| "valid_messages (raw # rest) =
     (case validMessage raw of None \<Rightarrow> None | Some ok \<Rightarrow> if ok then valid_messages rest else Some False)"

definition validMessages :: "gobj \<Rightarrow> bool option" where
  "validMessages req = valid_messages (objectList (gget req ''messages''))"

section \<open>Answering\<close>

record aiClock =
  ac_secs :: nat
  ac_nanos :: nat

definition unix_nano :: "aiClock \<Rightarrow> int" where
  "unix_nano clk = int (ac_secs clk) * 10 ^ 9 + int (ac_nanos clk)"

definition modelDetails :: gobj where
  "modelDetails = [(''parent_model'', GStr []), (''format'', GStr ''gguf''), (''family'', GStr ''llama''), (''families'', GStrs [''llama'']),
     (''parameter_size'', GStr ''3.2B''), (''quantization_level'', GStr ''Q4_K_M'')]"

definition discovery :: "string \<Rightarrow> result" where
  "discovery path =
     (if path = ''/'' then \<lparr>a_code = 200, a_frames = [''Ollama is running''], a_contentType = ''text/plain'', a_outcome = [], a_detail = []\<rparr>
      else if path = ''/api/version'' then jsonResult 200 (GMap [(''version'', GStr ''0.5.7'')])
      else if path = ''/api/tags'' \<or> path = ''/api/ps'' then
        jsonResult 200 (GMap [(''models'', objects_val [[(''name'', GStr ollamaModel), (''model'', GStr ollamaModel),
          (''modified_at'', GStr ''2025-01-01T00:00:00Z''), (''size'', GInt 2019393189), (''digest'', GStr (replicate 64 (CHR ''a''))),
          (''details'', GMap modelDetails)]])])
      else if path = ''/v1/models'' then
        jsonResult 200 (GMap [(''object'', GStr ''list''),
          (''data'', objects_val (map (\<lambda>name. [(''id'', GStr name), (''object'', GStr ''model''), (''created'', GInt 1735689600), (''owned_by'', GStr ''local'')])
            [ollamaModel, openaiModel, anthropicModel]))])
      else failure ''openai'' 404 ''endpoint unavailable'')"

definition show_reply :: result where
  "show_reply = jsonResult 200 (GMap [(''details'', GMap modelDetails),
     (''model_info'', GMap [(''general.architecture'', GStr ''llama''), (''llama.context_length'', GInt 8192)]),
     (''capabilities'', GStrs [''completion'']), (''parameters'', GStr ''temperature 0.7'')])"

definition takes_messages :: "string \<Rightarrow> bool" where
  "takes_messages path \<longleftrightarrow> path = ''/api/chat'' \<or> path = ''/v1/chat/completions'' \<or> has_prefix path ''/v1/messages''"

text \<open>The checks of each endpoint's own fields, in the order of the code: the first that fails is the message returned.\<close>

definition input_error :: "gobj \<Rightarrow> string option" where
  "input_error req =
     (case gget req ''input'' of
        GStr _ \<Rightarrow> None
      | GList input \<Rightarrow> if input = [] \<or> maxItems < length input \<or> \<not> list_all is_object input then Some ''invalid input'' else None
      | _ \<Rightarrow> Some ''input is required'')"

definition responses_error :: "gobj \<Rightarrow> string option" where
  "responses_error req =
     (case input_error req of
        Some message \<Rightarrow> Some message
      | None \<Rightarrow>
          if gget req ''previous_response_id'' \<noteq> GNil \<or> gget req ''conversation'' \<noteq> GNil then Some ''stored conversations unavailable''
          else if gget req ''background'' = GBool True then Some ''background responses unavailable''
          else None)"

definition fields_error :: "string \<Rightarrow> gobj \<Rightarrow> string option" where
  "fields_error path req =
     (if path = ''/api/generate'' \<and> has_key req ''prompt'' \<and> as_string (gget req ''prompt'') = None then Some ''invalid prompt''
      else if path = ''/v1/responses'' \<and> responses_error req \<noteq> None then responses_error req
      else if path = ''/v1/messages'' \<and> positive_limit (gget req ''max_tokens'') = None then Some ''invalid max_tokens''
      else if path = ''/v1/chat/completions'' \<and> has_key req ''n'' \<and>
              \<not> (case gget req ''n'' of GFloat m e \<Rightarrow> float_is_int m e 1 | _ \<Rightarrow> False)
      then Some ''only one choice supported''
      else None)"

definition request_text :: "nat \<Rightarrow> nat \<Rightarrow> bool \<Rightarrow> string" where
  "request_text messages tools stream =
     ''messages:'' @ show_nat messages @ '' tools:'' @ show_nat tools @ '' streaming:'' @ (if stream then ''true'' else ''false'')"

definition answer :: "aiClock \<Rightarrow> string \<Rightarrow> string \<Rightarrow> string \<Rightarrow> string \<Rightarrow> bool \<Rightarrow> gobj \<Rightarrow> string \<Rightarrow> int \<Rightarrow> result" where
  "answer clk path profile name ident stream req textValue tokens =
     (if path = ''/api/chat'' \<or> path = ''/api/generate''
      then ollamaReply path name stream textValue tokens (rfc3339_nano (ac_secs clk) (ac_nanos clk))
      else if path = ''/v1/chat/completions'' then chatReply name (''chatcmpl-'' @ ident) stream req textValue tokens (int (ac_secs clk))
      else if path = ''/v1/responses'' then responsesReply name (''resp_'' @ ident) stream textValue tokens (int (ac_secs clk))
      else if path = ''/v1/messages'' then anthropicReply name (''msg_'' @ ident) stream textValue tokens
      else if path = ''/v1/messages/count_tokens'' then jsonResult 200 (GMap [(''input_tokens'', GInt 1)])
      else failure profile 404 ''endpoint unavailable'')"

text \<open>\<open>None\<close> is a panic; the counter \<^verbatim>\<open>ids\<close> is a 64-bit word.\<close>

definition finish_reply :: "aiClock \<Rightarrow> string \<Rightarrow> string \<Rightarrow> string \<Rightarrow> gobj \<Rightarrow> nat \<Rightarrow> nat \<Rightarrow> bool \<Rightarrow> 64 word \<Rightarrow> result \<times> 64 word" where
  "finish_reply clk path profile name req messages tools stream ids =
     (case fields_error path req of
        Some message \<Rightarrow> (failure profile 400 message, ids)
      | None \<Rightarrow>
          (case generatedText req of
             None \<Rightarrow> (failure profile 400 ''invalid output limit'', ids)
           | Some (textValue, tokens) \<Rightarrow>
               (let ident = show_int (unix_nano clk) @ ''-'' @ show_nat (unat (ids + 1))
                in ((answer clk path profile name ident stream req textValue tokens)\<lparr>a_detail := request_text messages tools stream\<rparr>, ids + 1))))"

text \<open>The messages are looked at only where the endpoint takes them; the unchecked assertion of \<^verbatim>\<open>validMessages\<close> runs after
  \<^verbatim>\<open>itemCount\<close> succeeded.\<close>

definition checked_messages :: "string \<Rightarrow> gobj \<Rightarrow> nat option option" where
  "checked_messages path req =
     (if \<not> takes_messages path then Some (Some 0)
      else case itemCount req ''messages'' True of
          None \<Rightarrow> Some None
        | Some n \<Rightarrow> map_option (\<lambda>ok. if ok then Some n else None) (validMessages req))"

definition inference :: "aiClock \<Rightarrow> string \<Rightarrow> string \<Rightarrow> string \<Rightarrow> gobj \<Rightarrow> 64 word \<Rightarrow> (result \<times> 64 word) option" where
  "inference clk path profile name req ids =
     (case streamFlag req (has_prefix path ''/api/'') of
        None \<Rightarrow> Some (failure profile 400 ''stream must be boolean'', ids)
      | Some stream \<Rightarrow>
          (case itemCount req ''tools'' False of
             None \<Rightarrow> Some (failure profile 400 ''invalid tools'', ids)
           | Some tools \<Rightarrow>
               map_option (\<lambda>counted. case counted of
                   None \<Rightarrow> (failure profile 400 ''invalid messages'', ids)
                 | Some messages \<Rightarrow> finish_reply clk path profile name req messages tools stream ids)
                 (checked_messages path req)))"

definition respond :: "aiClock \<Rightarrow> string \<Rightarrow> string \<Rightarrow> gobj \<Rightarrow> 64 word \<Rightarrow> (result \<times> 64 word) option" where
  "respond clk path profile req ids =
     (case selectedModel req of
        None \<Rightarrow> Some (failure profile 400 ''model is required'', ids)
      | Some name \<Rightarrow>
          if name \<noteq> ollamaModel \<and> name \<noteq> openaiModel \<and> name \<noteq> anthropicModel then Some (failure profile 404 ''model unavailable'', ids)
          else if path = ''/api/show'' then Some (show_reply, ids)
          else inference clk path profile name req ids)"

section \<open>Serving a request\<close>

record aiRequest =
  aq_Method :: string
  aq_Path :: string
  aq_RawQuery :: string
  aq_RemoteAddr :: string
  aq_headers :: "(string \<times> string) list"
  aq_body :: string
  aq_read_error :: bool \<comment> \<open>the client stopped sending\<close>
  aq_cancelled :: bool
  aq_clock :: aiClock

record session =
  ss_id :: string
  ss_requests :: nat
  ss_expired :: bool \<comment> \<open>more than two minutes since it was opened\<close>

record aiSensor =
  ai_token :: string
  ai_work :: nat \<comment> \<open>length of the channel \<^verbatim>\<open>work\<close>\<close>
  ai_ids :: "64 word"

definition ai_NewHandler :: "string \<Rightarrow> aiSensor" where
  "ai_NewHandler token = \<lparr>ai_token = token, ai_work = 0, ai_ids = 0\<rparr>"

definition new_session :: "aiSensor \<Rightarrow> session \<times> aiSensor" where
  "new_session s = (\<lparr>ss_id = ''ai-'' @ show_nat (unat (ai_ids s + 1)), ss_requests = 0, ss_expired = False\<rparr>, s\<lparr>ai_ids := ai_ids s + 1\<rparr>)"

definition header_get :: "aiRequest \<Rightarrow> string \<Rightarrow> string" where
  "header_get r key = (case map_of (aq_headers r) key of Some v \<Rightarrow> v | None \<Rightarrow> [])"

definition logMethod :: "string \<Rightarrow> string" where
  "logMethod m = (if m \<in> set [''GET'', ''HEAD'', ''POST'', ''DELETE'', ''PUT'', ''PATCH'', ''OPTIONS''] then m else ''OTHER'')"

definition logPath :: "string \<Rightarrow> string" where
  "logPath path = (if fst (route path) = [] then ''/unknown'' else path)"

text \<open>The session's count after this request, and the guards before the semaphore.\<close>

definition count_request :: "session \<Rightarrow> session" where
  "count_request ss = ss\<lparr>ss_requests := ss_requests ss + 1\<rparr>"

definition admission_error :: "session option \<Rightarrow> aiRequest \<Rightarrow> result option" where
  "admission_error ss r =
     (let profile = profileFor (aq_Path r)
      in if (case ss of Some c \<Rightarrow> maxRequests < ss_requests c \<or> ss_expired c | None \<Rightarrow> False)
         then Some (failure profile 429 ''session limit exceeded'')
         else if 4096 < length (aq_Path r) \<or> 8192 < length (aq_RawQuery r) then Some (failure profile 414 ''request target too long'')
         else if aq_cancelled r then Some (failure profile 408 ''request cancelled'')
         else None)"

definition provided_token :: "aiRequest \<Rightarrow> string" where
  "provided_token r =
     (if profileFor (aq_Path r) = ''anthropic'' then header_get r ''x-api-key''
      else if has_prefix (header_get r ''Authorization'') ''Bearer '' then trim_prefix (header_get r ''Authorization'') ''Bearer '' else [])"

text \<open>The bytes read before the body ended, failed or passed its limit.\<close>

definition body_read :: "aiRequest \<Rightarrow> nat" where
  "body_read r = min ai_maxBody (length (aq_body r))"

text \<open>What runs while the semaphore is held: the result, the bytes received and the counter.\<close>

definition serve_work :: "aiRequest \<Rightarrow> aiSensor \<Rightarrow> ((result \<times> nat) \<times> 64 word) option" where
  "serve_work r s =
     (let path = aq_Path r; profile = profileFor path; (expected, action) = route path;
          encoding = header_get r ''Content-Encoding''; stop = (\<lambda>res n. Some ((res, n), ai_ids s))
      in if ai_token s \<noteq> [] \<and> provided_token r \<noteq> ai_token s then stop (failure profile 401 ''invalid authentication'') 0
         else if encoding \<noteq> [] \<and> encoding \<noteq> ''identity'' then stop (failure profile 415 ''compressed requests are unsupported'') 0
         else if ai_maxBody < length (aq_body r) then stop (failure profile 413 ''invalid or oversized body'') (body_read r)
         else if aq_read_error r then stop (failure profile 400 ''invalid or oversized body'') (body_read r)
         else if expected = [] then stop (failure profile 404 ''endpoint unavailable'') (body_read r)
         else if aq_Method r \<noteq> expected \<and> \<not> (expected = ''GET'' \<and> aq_Method r = ''HEAD'')
         then stop (failure profile 405 ''method not allowed'') (body_read r)
         else if expected = ''GET'' then stop (discovery path) (body_read r)
         else case decode (aq_body r) of
             None \<Rightarrow> stop (failure profile 400 ''invalid request object'') (body_read r)
           | Some req \<Rightarrow>
               if action = ''models.modify''
               then stop ((failure profile 501 ''model management unavailable'')\<lparr>a_outcome := ''refused''\<rparr>) (body_read r)
               else map_option (\<lambda>(res, ids). ((res, body_read r), ids)) (respond (aq_clock r) path profile req (ai_ids s)))"

text \<open>The part of the handler up to its return, with the semaphore taken and given back: a request that finds all 32 slots
  taken is answered at once.\<close>

definition serve_result :: "session option \<Rightarrow> aiRequest \<Rightarrow> aiSensor \<Rightarrow> ((result \<times> nat) \<times> 64 word) option" where
  "serve_result ss r s =
     (case admission_error ss r of
        Some res \<Rightarrow> Some ((res, 0), ai_ids s)
      | None \<Rightarrow>
          if workSlots \<le> ai_work s then Some ((failure (profileFor (aq_Path r)) 503 ''sensor capacity exceeded'', 0), ai_ids s)
          else serve_work r s)"

section \<open>The deferred part\<close>

record frameIO =
  fi_cancelled :: bool
  fi_written :: nat
  fi_failed :: bool
  fi_flush_failed :: bool

text \<open>One entry per frame, \<open>[]\<close> once none is left; the number of bytes written and whether the loop was broken off.\<close>

fun write_frames :: "bool \<Rightarrow> string list \<Rightarrow> frameIO list \<Rightarrow> nat \<times> bool" where
  "write_frames flushing (frame # frames) (io # ios) =
     (if fi_cancelled io then (0, True)
      else let n = min (fi_written io) (length frame)
           in if fi_failed io then (n, True)
              else if flushing \<and> fi_flush_failed io then (n, True)
              else let (m, broken) = write_frames flushing frames ios in (n + m, broken))"
| "write_frames flushing frames ios = (0, False)"

definition streams :: "result \<Rightarrow> bool" where
  "streams res \<longleftrightarrow> contains_str (a_contentType res) ''stream'' \<or> a_contentType res = ''application/x-ndjson''"

definition output_size :: "result \<Rightarrow> nat" where
  "output_size res = sum_list (map length (a_frames res))"

definition base_outcome :: "result \<Rightarrow> string" where
  "base_outcome res = (if a_outcome res \<noteq> [] then a_outcome res else if 400 \<le> a_code res then ''rejected'' else ''simulated'')"

definition bounded_result :: "string \<Rightarrow> result \<Rightarrow> result \<times> string" where
  "bounded_result profile res =
     (if maxOutput < output_size res then (failure profile 500 ''response unavailable'', ''rejected'') else (res, base_outcome res))"

definition ai_event :: "aiRequest \<Rightarrow> string \<Rightarrow> result \<Rightarrow> nat \<Rightarrow> frameIO list \<Rightarrow> Event" where
  "ai_event r sessionID res0 received ios =
     (let profile = profileFor (aq_Path r);
          (res, outcome0) = bounded_result profile res0;
          (sent, broken) = (if aq_Method r = ''HEAD'' then (0, False) else write_frames (streams res) (a_frames res) ios)
      in \<lparr>e_Timestamp = [], e_EventID = [], e_Sensor = ''ai'', e_SessionID = sessionID, e_Action = snd (route (aq_Path r)),
          e_Outcome = (if broken then ''interrupted'' else outcome0), e_Profile = profile, e_Target = [], e_RemoteAddr = aq_RemoteAddr r,
          e_ClientAddr = [], e_Method = logMethod (aq_Method r), e_Path = logPath (aq_Path r), e_StatusCode = a_code res,
          e_BytesReceived = int received, e_BytesSent = int sent, e_UserAgent = [], e_Detail = a_detail res\<rparr>)"

definition ai_ServeHTTP :: "session option \<Rightarrow> aiRequest \<Rightarrow> frameIO list \<Rightarrow> aiSensor \<Rightarrow> (Event \<times> aiSensor) option" where
  "ai_ServeHTTP ss r ios s =
     (let counted = map_option count_request ss;
          sessionID = (case ss of Some c \<Rightarrow> ss_id c | None \<Rightarrow> [])
      in map_option (\<lambda>((res, received), ids). (ai_event r sessionID res received ios, s\<lparr>ai_ids := ids\<rparr>)) (serve_result counted r s))"

end
