(* ===== verification/Redaction.thy ===== *)
theory Redaction
  imports Shipper Digest Utf8
begin

text \<open>
  The privacy filter of the event log (\<^verbatim>\<open>logger/logger.go\<close>): the redactor built from the configured credentials and
  their encodings, the sanitizers for methods, paths and free text, and the part of \<^verbatim>\<open>write\<close> that filters an
  event. Strings are byte strings; where the code ranges over runes, UTF-8 is decoded as Go does.
\<close>

section \<open>\<^verbatim>\<open>net/url\<close>\<close>

definition unhex :: "char \<Rightarrow> nat option" where
  "unhex c =
     (let n = byte c
      in if 48 \<le> n \<and> n \<le> 57 then Some (n - 48) else if 97 \<le> n \<and> n \<le> 102 then Some (n - 87)
         else if 65 \<le> n \<and> n \<le> 70 then Some (n - 55) else None)"

text \<open>\<^verbatim>\<open>url.PathUnescape\<close>; \<open>None\<close> is its error.\<close>

fun path_unescape :: "string \<Rightarrow> string option" where
  "path_unescape [] = Some []"
| "path_unescape (c # cs) =
     (if c = CHR ''%'' then
        (case cs of
           h # l # rest \<Rightarrow>
             (case (unhex h, unhex l) of
                (Some a, Some b) \<Rightarrow> map_option (\<lambda>out. char_of (16 * a + b) # out) (path_unescape rest)
              | _ \<Rightarrow> None)
         | _ \<Rightarrow> None)
      else map_option (\<lambda>out. c # out) (path_unescape cs))"

definition alnum :: "char \<Rightarrow> bool" where
  "alnum c \<longleftrightarrow> (let n = byte c in 48 \<le> n \<and> n \<le> 57 \<or> 65 \<le> n \<and> n \<le> 90 \<or> 97 \<le> n \<and> n \<le> 122)"

definition upper_hex :: "nat \<Rightarrow> char" where
  "upper_hex d = (if d < 10 then char_of (48 + d) else char_of (55 + d))"

definition percent :: "char \<Rightarrow> string" where
  "percent c = [CHR ''%'', upper_hex (byte c div 16), upper_hex (byte c mod 16)]"

definition query_escape :: "string \<Rightarrow> string" where
  "query_escape s =
     concat (map (\<lambda>c. if c = CHR '' '' then ''+'' else if alnum c \<or> c \<in> set ''-_.~'' then [c] else percent c) s)"

definition path_escape :: "string \<Rightarrow> string" where
  "path_escape s = concat (map (\<lambda>c. if alnum c \<or> c \<in> set ''-_.~$&+:=@'' then [c] else percent c) s)"

section \<open>The redactor\<close>

definition redacted :: string where "redacted = ''[redacted]''"

text \<open>
  \<^verbatim>\<open>strings.Replacer\<close> with every pattern replaced by the same text: from left to right, without overlap, at each place the
  first pattern that matches.
\<close>

fun replace_all :: "string list \<Rightarrow> string \<Rightarrow> string" where
  "replace_all vs [] = []"
| "replace_all vs (c # cs) =
     (case find (has_prefix (c # cs)) vs of
        None \<Rightarrow> c # replace_all vs cs
      | Some v \<Rightarrow> redacted @ replace_all vs (drop (length v - 1) cs))"

definition url_alphabet :: "string \<Rightarrow> string" where
  "url_alphabet = map (\<lambda>c. if c = CHR ''+'' then CHR ''-'' else if c = CHR 0x2F then CHR ''_'' else c)"

definition no_padding :: "string \<Rightarrow> string" where
  "no_padding = takeWhile (\<lambda>c. c \<noteq> CHR ''='')"

definition encodings :: "string \<Rightarrow> string list" where
  "encodings value =
     (let std = base64_encode value
      in [value, std, no_padding std, url_alphabet std, no_padding (url_alphabet std), query_escape value, path_escape value])"

text \<open>The inner loop over the encodings of one value; the map of variants is a list without repetitions.\<close>

fun add_variants :: "string list \<Rightarrow> string list \<times> nat \<Rightarrow> string list \<times> nat" where
  "add_variants [] vb = vb"
| "add_variants (v # vs) (variants, variantBytes) =
     (if v = [] \<or> v \<in> set variants then add_variants vs (variants, variantBytes)
      else if variantBytes + length v > 262144 then (variants, variantBytes)
      else add_variants vs (variants @ [v], variantBytes + length v))"

fun collect_variants :: "(nat \<times> string) list \<Rightarrow> nat \<Rightarrow> string list \<times> nat \<Rightarrow> string list" where
  "collect_variants [] sourceBytes vb = fst vb"
| "collect_variants ((index, value) # rest) sourceBytes vb =
     (if index \<ge> 320 \<or> value = [] \<or> length value > 16384 \<or> sourceBytes + length value > 16384
      then collect_variants rest sourceBytes vb
      else collect_variants rest (sourceBytes + length value) (add_variants (encodings value) vb))"

text \<open>\<open>None\<close> is the nil replacer. Patterns of equal length never match at the same place, so their order does not matter.\<close>

definition newSensitiveValueReplacer :: "string list \<Rightarrow> string list option" where
  "newSensitiveValueReplacer secrets =
     (let variants = collect_variants (enumerate 0 secrets) 0 ([], 0)
      in if variants = [] then None else Some (rev (sort_key length variants)))"

definition replaceSensitive :: "string list option \<Rightarrow> string \<Rightarrow> string" where
  "replaceSensitive redactor value =
     (case redactor of None \<Rightarrow> value | Some vs \<Rightarrow> if value = [] then value else replace_all vs value)"

section \<open>Sanitizers\<close>

definition boundedText :: "string \<Rightarrow> nat \<Rightarrow> string" where
  "boundedText value limit =
     trim_space (concat (map (\<lambda>r. if r \<ge> 0x20 \<and> r \<noteq> 0x7f then encode_rune r else '' '') (runes (take limit value))))"

text \<open>
  \<^verbatim>\<open>strings.ToLower\<close> as far as a comparison with ASCII text can tell: ASCII letters, and the two other code points whose
  lower case is ASCII, U+212A (k) and U+0130 (i); every other rune stays outside ASCII.
\<close>

fun lower_text :: "string \<Rightarrow> string" where
  "lower_text [] = []"
| "lower_text (c # cs) =
     (if has_prefix (c # cs) [CHR 0xE2, CHR 0x84, CHR 0xAA] then CHR ''k'' # lower_text (drop 2 cs)
      else if has_prefix (c # cs) [CHR 0xC4, CHR 0xB0] then CHR ''i'' # lower_text (drop 1 cs)
      else lower_char c # lower_text cs)"

definition hasCredentialMarker :: "string \<Rightarrow> bool" where
  "hasCredentialMarker value \<longleftrightarrow>
     list_ex (contains_str (lower_text value))
       [''bearer '', ''token='', ''access_token'', ''api_key'', ''apikey='', ''secret='', ''password='']"

definition sensitiveLabel :: "string \<Rightarrow> bool" where
  "sensitiveLabel value \<longleftrightarrow>
     lower_text (filter (\<lambda>c. c \<notin> set ''-_.'') value) \<in>
       set [''token'', ''tokens'', ''accesstoken'', ''refreshtoken'', ''idtoken'', ''secret'', ''secrets'', ''clientsecret'', ''password'', ''passwd'',
            ''authorization'', ''auth'', ''apikey'', ''key'', ''credential'', ''credentials'', ''cookie'', ''cookies'', ''bearer'']"

text \<open>\<^verbatim>\<open>strings.FieldsFunc\<close> for a set of ASCII separators.\<close>

fun fields_at :: "string \<Rightarrow> string \<Rightarrow> string list" where
  "fields_at seps [] = [[]]"
| "fields_at seps (c # cs) =
     (if c \<in> set seps then [] # fields_at seps cs else case fields_at seps cs of w # ws \<Rightarrow> (c # w) # ws | [] \<Rightarrow> [[c]])"

definition fields_func :: "string \<Rightarrow> string \<Rightarrow> string list" where
  "fields_func seps s = filter (\<lambda>w. w \<noteq> []) (fields_at seps s)"

definition containsSensitiveLabel :: "string \<Rightarrow> bool" where
  "containsSensitiveLabel value \<longleftrightarrow> list_ex sensitiveLabel (fields_func ''-_.:?&=;'' (lower_text value))"

definition looksLikeSecret :: "string \<Rightarrow> bool" where
  "looksLikeSecret value \<longleftrightarrow>
     \<not> length value < 12 \<and>
     (let rs = runes value;
          hasLower = list_ex (\<lambda>r. 97 \<le> r \<and> r \<le> 122) rs; hasUpper = list_ex (\<lambda>r. 65 \<le> r \<and> r \<le> 90) rs;
          hasDigit = list_ex (\<lambda>r. 48 \<le> r \<and> r \<le> 57) rs; unique = length (remdups rs)
      in (hasDigit \<and> (hasLower \<or> hasUpper) \<and> unique \<ge> 6) \<or> (length value \<ge> 20 \<and> hasLower \<and> hasUpper \<and> unique \<ge> 10))"

text \<open>The decoding loop of \<^verbatim>\<open>sanitizePathWithReplacer\<close> from round \<open>i\<close>; \<open>None\<close> means the empty result.\<close>

function decode_path :: "nat \<Rightarrow> string \<Rightarrow> string option" where
  "decode_path i path =
     (if i \<ge> 8 then Some path
      else case path_unescape path of
             None \<Rightarrow> (if i = 0 then None else Some path)
           | Some decoded \<Rightarrow>
               (if decoded = path then Some path
                else if length decoded > 8192 then None
                else if i = 7 \<and> (case path_unescape decoded of Some again \<Rightarrow> again \<noteq> decoded | None \<Rightarrow> False) then None
                else decode_path (i + 1) decoded))"
  by pat_completeness auto
termination
  by (relation "measure (\<lambda>(i, _). 8 - i)") auto

declare decode_path.simps [simp del]

fun redact_parts :: "bool \<Rightarrow> string list \<Rightarrow> string list" where
  "redact_parts redactNext [] = []"
| "redact_parts redactNext (part # parts) =
     (if redactNext \<and> part \<noteq> [] then redacted # redact_parts False parts
      else if sensitiveLabel part then part # redact_parts True parts
      else if containsSensitiveLabel part then redacted # redact_parts redactNext parts
      else if looksLikeSecret part then redacted # redact_parts redactNext parts
      else part # redact_parts redactNext parts)"

definition sanitizePathWithReplacer :: "string \<Rightarrow> string list option \<Rightarrow> string" where
  "sanitizePathWithReplacer path redactor =
     (if path = [] \<or> length path > 8192 then []
      else case decode_path 0 path of
             None \<Rightarrow> []
           | Some decoded \<Rightarrow>
               boundedText (go_join ''/'' (redact_parts False (go_split (CHR 0x2F) (replaceSensitive redactor decoded)))) 2048)"

text \<open>The loop shared by \<^verbatim>\<open>sanitizeMethod\<close> and \<^verbatim>\<open>sanitizeUserAgent\<close>: \<open>k\<close> rounds are left, \<open>result\<close> is what a clean value gives.\<close>

fun scan_text :: "string list option \<Rightarrow> string \<Rightarrow> nat \<Rightarrow> string \<Rightarrow> string" where
  "scan_text redactor result k candidate =
     (if hasCredentialMarker candidate then []
      else if replaceSensitive redactor candidate \<noteq> candidate then redacted
      else case path_unescape candidate of
             None \<Rightarrow> []
           | Some decoded \<Rightarrow>
               (if decoded = candidate then result
                else case k of 0 \<Rightarrow> [] | Suc k' \<Rightarrow> scan_text redactor result k' decoded))"

declare scan_text.simps [simp del]

definition sanitizeMethod :: "string \<Rightarrow> string list option \<Rightarrow> string" where
  "sanitizeMethod value redactor =
     (if length value > 65536 then [] else scan_text redactor (boundedText value 32) 8 value)"

definition sanitizeUserAgent :: "string \<Rightarrow> string list option \<Rightarrow> string" where
  "sanitizeUserAgent value redactor =
     (if length value > 65536 then [] else scan_text redactor (boundedText value 512) 8 value)"

definition validSensor :: "string \<Rightarrow> bool" where
  "validSensor sensor \<longleftrightarrow> sensor \<in> set [''http'', ''tcp'', ''udp'', ''kubernetes'', ''kubelet'', ''docker'', ''ai'']"

text \<open>
  The filtering part of \<^verbatim>\<open>write\<close>. The normalized timestamp, the event id (a fresh UUID when there is none) and the
  normalized client address are inputs; \<open>None\<close> means that the event is not written.
\<close>

definition sanitize_event :: "string list option \<Rightarrow> bool \<Rightarrow> string \<Rightarrow> string \<Rightarrow> string \<Rightarrow> Event \<Rightarrow> Event option" where
  "sanitize_event redactor includeUserAgent timestamp eventID clientAddr e =
     (if \<not> validSensor (e_Sensor e) then None
      else Some (e\<lparr>e_Timestamp := timestamp, e_EventID := (if e_EventID e = [] then eventID else e_EventID e),
        e_RemoteAddr := boundedText (e_RemoteAddr e) 256, e_ClientAddr := clientAddr,
        e_Method := sanitizeMethod (e_Method e) redactor, e_Path := sanitizePathWithReplacer (e_Path e) redactor,
        e_SessionID := sanitizeUserAgent (e_SessionID e) redactor, e_Action := sanitizeUserAgent (e_Action e) redactor,
        e_Outcome := sanitizeUserAgent (e_Outcome e) redactor, e_Profile := sanitizeUserAgent (e_Profile e) redactor,
        e_Target := sanitizeUserAgent (e_Target e) redactor, e_Detail := sanitizeUserAgent (e_Detail e) redactor,
        e_UserAgent := (if includeUserAgent then sanitizeUserAgent (e_UserAgent e) redactor else []),
        e_StatusCode := max 0 (e_StatusCode e), e_BytesReceived := max 0 (e_BytesReceived e), e_BytesSent := max 0 (e_BytesSent e)\<rparr>))"

section \<open>Configured credentials do not get through\<close>

definition occurs :: "string \<Rightarrow> string \<Rightarrow> bool" where
  "occurs v s \<longleftrightarrow> (\<exists>a b. s = a @ v @ b)"

lemma occurs_Cons: "occurs v (c # cs) \<longleftrightarrow> has_prefix (c # cs) v \<or> occurs v cs"
  by (auto simp: occurs_def has_prefix_conv Cons_eq_append_conv)

text \<open>A replacement that changes nothing means that no pattern occurs, since it would have put a bracket there.\<close>

lemma replace_all_fixed:
  assumes "\<And>v. v \<in> set vs \<Longrightarrow> v \<noteq> [] \<and> hd v \<noteq> CHR ''[''" "replace_all vs s = s" "v \<in> set vs"
  shows "\<not> occurs v s"
  using assms(2)
proof (induction s)
  case Nil
  then show ?case using assms(1) [OF assms(3)] by (simp add: occurs_def)
next
  case (Cons c cs)
  show ?case
  proof (cases "find (has_prefix (c # cs)) vs")
    case None
    then have "\<not> has_prefix (c # cs) v" using assms(3) by (auto simp: find_None_iff)
    then show ?thesis using Cons None by (simp add: occurs_Cons)
  next
    case (Some w)
    then have w: "w \<in> set vs" "has_prefix (c # cs) w" by (auto simp: find_Some_iff)
    then have "c = hd w" using assms(1) [OF w(1)] by (auto simp: has_prefix_conv neq_Nil_conv)
    with Cons.prems Some assms(1) [OF w(1)] show ?thesis by (simp add: redacted_def)
  qed
qed

fun unescape_times :: "nat \<Rightarrow> string \<Rightarrow> string option" where
  "unescape_times 0 s = Some s"
| "unescape_times (Suc k) s = Option.bind (path_unescape s) (unescape_times k)"

lemma unescape_fixed: "path_unescape s = Some s \<Longrightarrow> unescape_times k s = Some s"
  by (induction k) auto

lemma scan_text_hides:
  assumes "\<And>v. v \<in> set vs \<Longrightarrow> v \<noteq> [] \<and> hd v \<noteq> CHR ''[''" "v \<in> set vs"
  shows "unescape_times k s = Some c \<Longrightarrow> occurs v c \<Longrightarrow> k \<le> d \<Longrightarrow> scan_text (Some vs) result d s \<in> {[], redacted}"
proof (induction k arbitrary: s d)
  case 0
  then have "replaceSensitive (Some vs) s \<noteq> s"
    using replace_all_fixed [OF assms(1) _ assms(2), of s] assms by (cases s) (auto simp: replaceSensitive_def occurs_def)
  then show ?case by (subst scan_text.simps) simp
next
  case (Suc k)
  from Suc.prems(1) obtain t where t: "path_unescape s = Some t" "unescape_times k t = Some c" by (auto simp: bind_eq_Some_conv)
  obtain d' where d: "d = Suc d'" "k \<le> d'" using Suc.prems(3) by (cases d) auto
  show ?case
  proof (cases "t = s")
    case True
    then show ?thesis using Suc.IH [of s d] Suc.prems t d by simp
  next
    case False
    then show ?thesis using Suc.IH [OF t(2) Suc.prems(2) d(2)] t d by (subst scan_text.simps) simp
  qed
qed

lemma length_percent: "length (percent c) = 3"
  by (simp add: percent_def)

lemma length_concat_map_le: "(\<And>c. length (f c) \<le> k) \<Longrightarrow> length (concat (map f s)) \<le> k * length s"
  by (induction s) (auto simp: algebra_simps intro: add_mono)

lemma length_escapes: "length (query_escape s) \<le> 3 * length s" "length (path_escape s) \<le> 3 * length s"
  unfolding query_escape_def path_escape_def by (rule length_concat_map_le; simp add: length_percent)+

lemma length_base64: "3 * length (base64_encode s) \<le> 4 * length s + 8"
  unfolding length_base64_encode base64_len_def by linarith

lemma length_encodings: "3 * sum_list (map length (encodings s)) \<le> 37 * length s + 32"
proof -
  have "length (no_padding t) \<le> length t" for t by (simp add: no_padding_def length_takeWhile_le)
  note pad = this [of "base64_encode s"] this [of "url_alphabet (base64_encode s)"]
  have "length (url_alphabet t) = length t" for t by (simp add: url_alphabet_def)
  then show ?thesis
    using pad length_base64 [of s] length_escapes [of s] by (simp add: encodings_def Let_def)
qed

lemma add_variants_all:
  "snd vb + sum_list (map length vs) \<le> 262144 \<Longrightarrow>
   set (fst (add_variants vs vb)) = set (fst vb) \<union> (set vs - {[]}) \<and> snd (add_variants vs vb) \<le> snd vb + sum_list (map length vs)"
proof (induction vs arbitrary: vb)
  case (Cons v vs)
  obtain variants n where vb: "vb = (variants, n)" by fastforce
  show ?case
  proof (cases "v = [] \<or> v \<in> set variants")
    case True
    then show ?thesis using Cons.IH [of vb] Cons.prems by (auto simp: vb)
  next
    case False
    then show ?thesis using Cons.IH [of "(variants @ [v], n + length v)"] Cons.prems by (auto simp: vb)
  qed
qed simp

lemma add_variants_grow: "set (fst vb) \<subseteq> set (fst (add_variants vs vb)) \<and> set (fst (add_variants vs vb)) \<subseteq> set (fst vb) \<union> set vs"
proof (induction vs arbitrary: vb)
  case (Cons v vs)
  show ?case using Cons.IH [of "(fst vb @ [v], snd vb + length v)"] Cons.IH [of vb] by (cases vb) auto
qed simp

lemma collect_variants_grow: "set (fst vb) \<subseteq> set (collect_variants ivs src vb)"
proof (induction ivs src vb rule: collect_variants.induct)
  case (2 index v rest src vb)
  then show ?case using add_variants_grow [of vb "encodings v"] by auto
qed simp

lemma collect_variants_from:
  "w \<in> set (collect_variants ivs src vb) \<Longrightarrow> w \<in> set (fst vb) \<or> (\<exists>(i, s) \<in> set ivs. s \<noteq> [] \<and> w \<in> set (encodings s))"
proof (induction ivs src vb rule: collect_variants.induct)
  case (2 index v rest src vb)
  then show ?case using add_variants_grow [of vb "encodings v"] by (auto split: if_splits)
qed simp

text \<open>Within the bounds on the configured credentials no encoding is left out, whatever follows them in the list.\<close>

lemma collect_variants_prefix:
  assumes "length secrets + i \<le> 320" "src + sum_list (map length secrets) \<le> 16384" "3 * snd vb \<le> 37 * src + 32 * i"
    "secret \<in> set secrets" "secret \<noteq> []" "v \<in> set (encodings secret)" "v \<noteq> []"
  shows "v \<in> set (collect_variants (enumerate i (secrets @ later)) src vb)"
  using assms
proof (induction secrets arbitrary: i src vb)
  case (Cons s secrets)
  show ?case
  proof (cases "s = []")
    case True
    have "v \<in> set (collect_variants (enumerate (Suc i) (secrets @ later)) src vb)"
      by (rule Cons.IH) (use Cons.prems True in auto)
    with True show ?thesis by simp
  next
    case False
    let ?vb = "add_variants (encodings s) vb"
    have fit: "snd vb + sum_list (map length (encodings s)) \<le> 262144"
      using length_encodings [of s] Cons.prems by simp
    note vb = add_variants_all [OF fit]
    have eq: "collect_variants (enumerate i ((s # secrets) @ later)) src vb = collect_variants (enumerate (Suc i) (secrets @ later)) (src + length s) ?vb"
      using False Cons.prems by simp
    show ?thesis
    proof (cases "secret = s")
      case True
      then show ?thesis unfolding eq using vb Cons.prems(6,7) collect_variants_grow [of ?vb] by blast
    next
      case other: False
      show ?thesis
        unfolding eq by (rule Cons.IH) (use Cons.prems vb length_encodings [of s] other in auto)
    qed
  qed
qed simp

lemma b64_char_plain: "n < 64 \<Longrightarrow> b64_char n \<notin> {CHR ''['', CHR ''=''}"
proof -
  have "set b64_alphabet \<inter> {CHR ''['', CHR ''=''} = {}" by (simp add: b64_alphabet_def)
  moreover assume "n < 64"
  then have "b64_alphabet ! n \<in> set b64_alphabet" by (intro nth_mem) (simp add: b64_alphabet_def)
  ultimately show ?thesis by (metis b64_char_def disjoint_iff)
qed

lemma hd_base64: "s \<noteq> [] \<Longrightarrow> \<exists>c rest. base64_encode s = c # rest \<and> c \<notin> {CHR ''['', CHR ''=''}"
proof -
  assume "s \<noteq> []"
  then obtain a t where s: "s = a # t" by (cases s) auto
  have "of_char a < (256 :: nat)" using mod_less_divisor [of 256 "of_char a :: nat"] by (simp only: of_char_mod_256)
  then have "of_char a div 4 < (64 :: nat)" by (simp add: div_less_iff_less_mult)
  note c = b64_char_plain [OF this]
  have "\<exists>rest. b64_groups (of_char a # u) = b64_char (of_char a div 4) # rest" for u
    by (cases u rule: remdups_adj.cases) auto
  from this [of "map of_char t"] obtain rest where "base64_encode s = b64_char (of_char a div 4) # rest"
    by (auto simp: s base64_encode_def)
  then show ?thesis using c by blast
qed

lemma encodings_plain:
  assumes "s \<noteq> []" "hd s \<noteq> CHR ''[''" "v \<in> set (encodings s)"
  shows "v \<noteq> [] \<and> hd v \<noteq> CHR ''[''"
proof -
  obtain c rest where b: "base64_encode s = c # rest" "c \<notin> {CHR ''['', CHR ''=''}" using hd_base64 [OF assms(1)] by blast
  obtain x t where s: "s = x # t" using assms(1) by (cases s) auto
  have "query_escape s \<noteq> [] \<and> hd (query_escape s) \<noteq> CHR ''[''" "path_escape s \<noteq> [] \<and> hd (path_escape s) \<noteq> CHR ''[''"
    using assms(2) by (auto simp: s query_escape_def path_escape_def percent_def)
  moreover have "no_padding (base64_encode s) \<noteq> [] \<and> hd (no_padding (base64_encode s)) \<noteq> CHR ''[''"
    "url_alphabet (base64_encode s) \<noteq> [] \<and> hd (url_alphabet (base64_encode s)) \<noteq> CHR ''[''"
    "no_padding (url_alphabet (base64_encode s)) \<noteq> [] \<and> hd (no_padding (url_alphabet (base64_encode s))) \<noteq> CHR ''[''"
    using b by (auto simp: no_padding_def url_alphabet_def)
  ultimately show ?thesis using assms b by (auto simp: encodings_def Let_def)
qed

lemma redactor_hides:
  assumes "length secrets \<le> 320" "sum_list (map length secrets) \<le> 16384"
    "\<forall>s \<in> set (secrets @ later). s = [] \<or> hd s \<noteq> CHR ''[''"
    "secret \<in> set secrets" "secret \<noteq> []" "v \<in> set (encodings secret)"
    "unescape_times k field = Some plain" "k \<le> 8" "occurs v plain"
  shows "sanitizeUserAgent field (newSensitiveValueReplacer (secrets @ later)) \<in> {[], redacted} \<and>
         sanitizeMethod field (newSensitiveValueReplacer (secrets @ later)) \<in> {[], redacted}"
proof -
  let ?vs = "collect_variants (enumerate 0 (secrets @ later)) 0 ([], 0)"
  have "v \<noteq> []" using assms(3-6) encodings_plain [OF assms(5) _ assms(6)] by auto
  then have v: "v \<in> set ?vs"
    using collect_variants_prefix [of secrets 0 0 "([], 0)" secret v later] assms by simp
  then have "newSensitiveValueReplacer (secrets @ later) = Some (rev (sort_key length ?vs))"
    by (auto simp: newSensitiveValueReplacer_def Let_def)
  moreover have "w \<noteq> [] \<and> hd w \<noteq> CHR ''[''" if "w \<in> set (rev (sort_key length ?vs))" for w
  proof -
    from that collect_variants_from [of w "enumerate 0 (secrets @ later)" 0 "([], 0)"]
    obtain i s where "(i, s) \<in> set (enumerate 0 (secrets @ later))" "s \<noteq> []" "w \<in> set (encodings s)" by auto
    moreover from this(1) have "s \<in> set (map snd (enumerate 0 (secrets @ later)))" unfolding set_map by (rule image_eqI [rotated]) simp
    then have "s \<in> set (secrets @ later)" by (simp only: map_snd_enumerate)
    ultimately show ?thesis using assms(3) encodings_plain [of s w] by blast
  qed
  ultimately have "scan_text (newSensitiveValueReplacer (secrets @ later)) r 8 field \<in> {[], redacted}" for r
    using scan_text_hides [of "rev (sort_key length ?vs)" v k field plain 8 r] v assms(7-9) by auto
  then show ?thesis by (simp add: sanitizeUserAgent_def sanitizeMethod_def redacted_def)
qed

text \<open>
  A configured credential never reaches the log through the fields that carry free text: when a field, possibly
  percent-encoded up to eight times, contains a configured value verbatim, in one of its base64 forms or URL-escaped, the logged field is
  empty or the redaction mark. (Up to 320 values and 16 KiB of them; values that start with a bracket are
  excluded, since the mark starts with one.)
\<close>

lemma configured_credentials_redacted:
  assumes "length secrets \<le> 320" "sum_list (map length secrets) \<le> 16384"
    "\<forall>s \<in> set secrets. s = [] \<or> hd s \<noteq> CHR ''[''"
    "secret \<in> set secrets" "secret \<noteq> []" "v \<in> set (encodings secret)"
    "unescape_times k field = Some plain" "k \<le> 8" "occurs v plain"
  shows "sanitizeUserAgent field (newSensitiveValueReplacer secrets) \<in> {[], ''[redacted]''} \<and>
         sanitizeMethod field (newSensitiveValueReplacer secrets) \<in> {[], ''[redacted]''}"
  using redactor_hides [of secrets "[]" secret v k field plain] assms by (simp add: redacted_def)

text \<open>
  The bound is on all values together and in order: a first value that fills it leaves the others out of the redactor.
\<close>

lemma long_value_displaces: "length t = 16384 \<Longrightarrow> newSensitiveValueReplacer (t # secrets) = newSensitiveValueReplacer [t]"
proof -
  assume t: "length t = 16384"
  have "collect_variants ivs 16384 vb = fst vb" for ivs vb by (induction ivs) auto
  moreover have "t \<noteq> []" using t by auto
  ultimately show ?thesis using t by (simp add: newSensitiveValueReplacer_def)
qed

lemma configured_credentials_redacted_example:
  "sanitizeUserAgent ''x hunter%32'' (newSensitiveValueReplacer [''hunter2'']) \<in> {[], ''[redacted]''}"
proof -
  have "unescape_times 1 ''x hunter%32'' = Some ''x hunter2''" by (simp add: unhex_def byte_def char_of_eq_iff take_bit_eq_mod)
  moreover have "occurs ''hunter2'' ''x hunter2''" unfolding occurs_def by (intro exI [of _ "''x ''"] exI [of _ "[]"]) simp
  ultimately show ?thesis
    using configured_credentials_redacted [of "[''hunter2'']" "''hunter2''" "''hunter2''" 1 "''x hunter%32''" "''x hunter2''"]
    by (simp add: encodings_def Let_def)
qed

section \<open>Paths\<close>

definition harmless :: "string \<Rightarrow> bool" where
  "harmless part \<longleftrightarrow> \<not> containsSensitiveLabel part \<and> \<not> looksLikeSecret part"

lemma redacted_plain: "redacted \<noteq> []"
  by (simp add: redacted_def)

lemma redact_parts_safe: "list_all (\<lambda>part. part = redacted \<or> sensitiveLabel part \<or> harmless part) (redact_parts b parts)"
  by (induction b parts rule: redact_parts.induct) (auto simp: harmless_def)

lemma redact_parts_length: "length (redact_parts b parts) = length parts"
  by (induction b parts rule: redact_parts.induct) auto

text \<open>While a label waits, the next part that is not empty is replaced.\<close>

lemma redact_parts_pending:
  "redact_parts True parts = takeWhile (\<lambda>p. p = []) parts @
     (case dropWhile (\<lambda>p. p = []) parts of [] \<Rightarrow> [] | p # rest \<Rightarrow> redacted # redact_parts False rest)"
proof (induction parts)
  case (Cons p parts)
  have "\<not> sensitiveLabel []" "\<not> containsSensitiveLabel []" "\<not> looksLikeSecret []"
    by (simp_all add: sensitiveLabel_def containsSensitiveLabel_def fields_func_def looksLikeSecret_def)
  then show ?case using Cons by simp
qed simp


end
