(* ===== verification/NetAddr.thy ===== *)
theory NetAddr
  imports Prelude
begin

text \<open>
  Addresses and prefixes as the packages \<^verbatim>\<open>net\<close> and \<^verbatim>\<open>net/netip\<close> read and print them, for the configuration
  loader and the event log. An IPv4 address is its 32-bit number, an IPv6 address its 128-bit number and its zone.
\<close>

datatype Addr = V4 nat | V6 nat string

section \<open>Reading\<close>

definition octet :: "string \<Rightarrow> nat option" where
  "octet part =
     (case parse_digits part of
        None \<Rightarrow> None
      | Some n \<Rightarrow> if n > 255 \<or> (length part > 1 \<and> hd part = CHR ''0'') then None else Some n)"

definition parseIPv4 :: "string \<Rightarrow> nat option" where
  "parseIPv4 s =
     (case map octet (go_split (CHR ''.'') s) of
        [Some a, Some b, Some c, Some d] \<Rightarrow> Some (((a * 256 + b) * 256 + c) * 256 + d)
      | _ \<Rightarrow> None)"

definition hex_val :: "char \<Rightarrow> nat option" where
  "hex_val c =
     (let n = of_char c
      in if 48 \<le> n \<and> n \<le> 57 then Some (n - 48) else if 97 \<le> n \<and> n \<le> 102 then Some (n - 87)
         else if 65 \<le> n \<and> n \<le> 70 then Some (n - 55) else None)"

definition hex_num :: "string \<Rightarrow> nat" where
  "hex_num = foldl (\<lambda>n c. 16 * n + the (hex_val c)) 0"

abbreviation is_hex :: "char \<Rightarrow> bool" where "is_hex c \<equiv> hex_val c \<noteq> None"

text \<open>
  The loop over the groups of an IPv6 address: the groups read so far, where the double colon was, and the text that is left.
\<close>

function parse_groups :: "nat list \<Rightarrow> nat option \<Rightarrow> string \<Rightarrow> (nat list \<times> nat option) option" where
  "parse_groups groups ellipsis s =
     (if length groups \<ge> 8 then (if s = [] then Some (groups, ellipsis) else None)
      else
        let ds = takeWhile is_hex s; rest = dropWhile is_hex s; groups1 = groups @ [hex_num ds]
        in if ds = [] \<or> length ds > 4 then None
           else case rest of
                  [] \<Rightarrow> Some (groups1, ellipsis)
                | c # cs \<Rightarrow>
                    (if c = CHR ''.''
                     then if (ellipsis = None \<and> length groups \<noteq> 6) \<or> length groups + 2 > 8 then None
                          else map_option (\<lambda>v. (groups @ [v div 65536, v mod 65536], ellipsis)) (parseIPv4 s)
                     else if c \<noteq> CHR '':'' \<or> cs = [] then None
                     else if hd cs \<noteq> CHR '':'' then parse_groups groups1 ellipsis cs
                     else if ellipsis \<noteq> None then None
                     else if tl cs = [] then Some (groups1, Some (length groups1))
                     else parse_groups groups1 (Some (length groups1)) (tl cs)))"
  by pat_completeness auto
termination
  by (relation "measure (\<lambda>(groups, _, _). 8 - length groups)") auto

declare parse_groups.simps [simp del]

definition expand :: "nat list \<times> nat option \<Rightarrow> nat list option" where
  "expand ge =
     (case ge of (groups, ellipsis) \<Rightarrow>
        if length groups < 8
        then map_option (\<lambda>e. take e groups @ replicate (8 - length groups) 0 @ drop e groups) ellipsis
        else if ellipsis \<noteq> None then None else Some groups)"

definition groups_num :: "nat list \<Rightarrow> nat" where
  "groups_num = foldl (\<lambda>n g. 65536 * n + g) 0"

definition parseIPv6 :: "string \<Rightarrow> Addr option" where
  "parseIPv6 inp =
     (let (s, zone, zoned) = (case cut_at ''%'' inp of Some (a, b) \<Rightarrow> (a, b, True) | None \<Rightarrow> (inp, [], False))
      in if zoned \<and> zone = [] then None
         else if has_prefix s ''::''
         then if drop 2 s = [] then Some (V6 0 zone)
              else map_option (\<lambda>gs. V6 (groups_num gs) zone) (Option.bind (parse_groups [] (Some 0) (drop 2 s)) expand)
         else map_option (\<lambda>gs. V6 (groups_num gs) zone) (Option.bind (parse_groups [] None s) expand))"

definition ParseAddr :: "string \<Rightarrow> Addr option" where
  "ParseAddr s =
     (case find (\<lambda>c. c \<in> set ''.:%'') s of
        None \<Rightarrow> None
      | Some c \<Rightarrow> if c = CHR ''.'' then map_option V4 (parseIPv4 s) else if c = CHR '':'' then parseIPv6 s else None)"

fun zone_of :: "Addr \<Rightarrow> string" where
  "zone_of (V4 n) = []" | "zone_of (V6 n z) = z"

fun bit_len :: "Addr \<Rightarrow> nat" where
  "bit_len (V4 n) = 32" | "bit_len (V6 n z) = 128"

fun addr_num :: "Addr \<Rightarrow> nat" where
  "addr_num (V4 n) = n" | "addr_num (V6 n z) = n"

fun is4in6 :: "Addr \<Rightarrow> bool" where
  "is4in6 (V4 n) \<longleftrightarrow> False" | "is4in6 (V6 n z) \<longleftrightarrow> n div 2 ^ 32 = 0xFFFF"

definition unmap :: "Addr \<Rightarrow> Addr" where
  "unmap a = (if is4in6 a then V4 (addr_num a mod 2 ^ 32) else a)"

text \<open>\<^verbatim>\<open>net.ParseIP\<close> gives the 16 bytes, here their number, of an address without zone.\<close>

definition ParseIP :: "string \<Rightarrow> nat option" where
  "ParseIP s =
     (case ParseAddr s of
        Some (V4 n) \<Rightarrow> Some (0xFFFF * 2 ^ 32 + n)
      | Some (V6 n z) \<Rightarrow> if z = [] then Some n else None
      | None \<Rightarrow> None)"

definition To4 :: "nat \<Rightarrow> nat option" where
  "To4 ip = (if ip div 2 ^ 32 = 0xFFFF then Some (ip mod 2 ^ 32) else None)"

definition private4 :: "nat \<Rightarrow> bool" where
  "private4 n \<longleftrightarrow> n div 2 ^ 24 = 10 \<or> n div 2 ^ 20 = 172 * 16 + 1 \<or> n div 2 ^ 16 = 192 * 256 + 168"

section \<open>Prefixes\<close>

type_synonym prefix = "Addr \<times> nat"

definition cut_last :: "char \<Rightarrow> string \<Rightarrow> (string \<times> string) option" where
  "cut_last c s =
     (case dropWhile (\<lambda>x. x \<noteq> c) (rev s) of
        [] \<Rightarrow> None
      | _ # before \<Rightarrow> Some (rev before, rev (takeWhile (\<lambda>x. x \<noteq> c) (rev s))))"

definition ParsePrefix :: "string \<Rightarrow> prefix option" where
  "ParsePrefix s =
     (case cut_last (CHR 0x2F) s of
        None \<Rightarrow> None
      | Some (text, bitsStr) \<Rightarrow>
          (case ParseAddr text of
             None \<Rightarrow> None
           | Some ip \<Rightarrow>
               (if zone_of ip \<noteq> [] \<or> (length bitsStr > 1 \<and> hd bitsStr \<notin> set ''123456789'') then None
                else case atoi bitsStr of
                       None \<Rightarrow> None
                     | Some bits \<Rightarrow> if bits < 0 \<or> bits > int (bit_len ip) then None else Some (ip, nat bits))))"

definition masked :: "prefix \<Rightarrow> prefix" where
  "masked p =
     (case p of
        (V4 n, bits) \<Rightarrow> (V4 (n div 2 ^ (32 - bits) * 2 ^ (32 - bits)), bits)
      | (V6 n z, bits) \<Rightarrow> (V6 (n div 2 ^ (128 - bits) * 2 ^ (128 - bits)) z, bits))"

definition prefix_contains :: "prefix \<Rightarrow> Addr \<Rightarrow> bool" where
  "prefix_contains p a \<longleftrightarrow>
     zone_of a = [] \<and> bit_len (fst p) = bit_len a \<and>
     addr_num a div 2 ^ (bit_len a - snd p) = addr_num (fst p) div 2 ^ (bit_len a - snd p)"

text \<open>\<^verbatim>\<open>net.ParseCIDR\<close> as far as its error goes.\<close>

definition ParseCIDR_ok :: "string \<Rightarrow> bool" where
  "ParseCIDR_ok s =
     (case cut_at [CHR 0x2F] s of
        None \<Rightarrow> False
      | Some (text, bitsStr) \<Rightarrow>
          (case (ParseAddr text, parse_digits bitsStr) of
             (Some ip, Some n) \<Rightarrow> zone_of ip = [] \<and> n \<le> bit_len ip
           | _ \<Rightarrow> False))"

text \<open>\<^verbatim>\<open>net.SplitHostPort\<close>: the host, or \<open>None\<close> for its errors.\<close>

definition split_host :: "string \<Rightarrow> string option" where
  "split_host hostport =
     (case cut_last (CHR '':'') hostport of
        None \<Rightarrow> None
      | Some (before, port) \<Rightarrow>
          (if hd hostport = CHR ''[''
           then case cut_at '']'' hostport of
                  None \<Rightarrow> None
                | Some (front, back) \<Rightarrow>
                    (if front @ '']'' = before \<and> CHR ''['' \<notin> set (drop 1 hostport) \<and> CHR '']'' \<notin> set back
                     then Some (drop 1 front) else None)
           else if CHR '':'' \<in> set before \<or> CHR ''['' \<in> set hostport \<or> CHR '']'' \<in> set hostport then None
           else Some before))"

section \<open>Printing\<close>

definition show_ip4 :: "nat \<Rightarrow> string" where
  "show_ip4 n =
     go_join ''.'' (map show_nat [n div 2 ^ 24 mod 256, n div 2 ^ 16 mod 256, n div 2 ^ 8 mod 256, n mod 256])"

definition low_hex :: "nat \<Rightarrow> char" where
  "low_hex d = (if d < 10 then char_of (48 + d) else char_of (87 + d))"

fun show_hex :: "nat \<Rightarrow> string" where
  "show_hex n = (if n < 16 then [low_hex n] else show_hex (n div 16) @ [low_hex (n mod 16)])"

declare show_hex.simps [simp del]

definition num_groups :: "nat \<Rightarrow> nat list" where
  "num_groups n = map (\<lambda>i. n div 65536 ^ (7 - i) mod 65536) [0..<8]"

text \<open>The first longest run of at least two zero groups, with its length.\<close>

definition zero_run :: "nat list \<Rightarrow> nat \<times> nat" where
  "zero_run gs =
     foldl (\<lambda>(start, len) i. let k = length (takeWhile (\<lambda>g. g = 0) (drop i gs)) in if k \<ge> 2 \<and> k > len then (i, k) else (start, len))
       (255, 0) [0..<8]"

definition show_ip6 :: "nat \<Rightarrow> string" where
  "show_ip6 n =
     (let gs = num_groups n; (start, len) = zero_run gs; groups = map show_hex gs
      in if len = 0 then go_join '':'' groups
         else go_join '':'' (take start groups) @ ''::'' @ go_join '':'' (drop (start + len) groups))"

fun addr_string :: "Addr \<Rightarrow> string" where
  "addr_string (V4 n) = show_ip4 n"
| "addr_string (V6 n z) =
     (let body = (if is4in6 (V6 n z) then ''::ffff:'' @ show_ip4 (n mod 2 ^ 32) else show_ip6 n)
      in if z = [] then body else body @ ''%'' @ z)"

section \<open>Masking and reading back\<close>

lemma div_mult_div [simp]: "0 < (k :: nat) \<Longrightarrow> (n div k * k) div k = n div k"
  by simp

lemma contains_masked [simp]: "prefix_contains (masked p) a \<longleftrightarrow> prefix_contains p a"
  by (cases p; cases "fst p"; cases a) (auto simp: masked_def prefix_contains_def)

lemma hd_show_nat: "n \<noteq> 0 \<Longrightarrow> hd (show_nat n) \<noteq> CHR ''0''"
proof (induction n rule: show_nat.induct)
  case (1 n)
  show ?case
  proof (cases "n < 10")
    case True
    have "digit_char n \<noteq> CHR ''0''"
    proof
      assume "digit_char n = CHR ''0''"
      then have "of_char (digit_char n) = (48 :: nat)" by simp
      then show False using True 1(2) by simp
    qed
    then show ?thesis using True by (subst show_nat.simps) simp
  next
    case False
    then have "n div 10 \<noteq> 0" by (simp add: div_eq_0_iff)
    with 1(1) False show ?thesis by (subst show_nat.simps) simp
  qed
qed

lemma octet_show_nat [simp]: "n < 256 \<Longrightarrow> octet (show_nat n) = Some n"
proof (cases "n = 0")
  case True
  have "parse_digits (show_nat 0) = Some 0" by (rule parse_digits_show_nat)
  then show ?thesis using True by (simp add: octet_def)
next
  case False
  moreover assume "n < 256"
  ultimately show ?thesis using hd_show_nat [of n] by (simp add: octet_def)
qed

lemma show_nat_no_dot: "CHR ''.'' \<notin> set (show_nat n)"
  using show_nat_digits [of n] by (auto simp: list_all_iff is_digit_def)

lemma split4:
  assumes "n < 2 ^ 32"
  shows "((n div 2 ^ 24 mod 256 * 256 + n div 2 ^ 16 mod 256) * 256 + n div 2 ^ 8 mod 256) * 256 + n mod 256 = (n :: nat)"
proof -
  have parts: "n div 2 ^ 16 = n div 2 ^ 8 div 256" "n div 2 ^ 24 = n div 2 ^ 8 div 256 div 256"
    by (simp_all add: div_mult2_eq [symmetric])
  have "n div 2 ^ 24 < 256" using assms by (simp add: div_less_iff_less_mult)
  then have "n div 2 ^ 24 mod 256 = n div 2 ^ 24" by simp
  moreover have "n div 2 ^ 8 * 256 + n mod 256 = n" using div_mult_mod_eq [of n 256] by simp
  ultimately show ?thesis unfolding parts by (simp only: div_mult_mod_eq)
qed

lemma parseIPv4_show [simp]:
  assumes "n < 2 ^ 32"
  shows "parseIPv4 (show_ip4 n) = Some n"
proof -
  let ?os = "[n div 2 ^ 24 mod 256, n div 2 ^ 16 mod 256, n div 2 ^ 8 mod 256, n mod 256]"
  have "go_split (CHR ''.'') (show_ip4 n) = map show_nat ?os"
    unfolding show_ip4_def by (intro go_split_join) (auto simp: show_nat_no_dot)
  moreover have "map octet (map show_nat ?os) = map Some ?os" by (simp del: One_nat_def)
  ultimately show ?thesis using split4 [OF assms] by (simp only: parseIPv4_def list.map list.case option.case)
qed

lemma find_first: "P c \<Longrightarrow> list_all (\<lambda>x. \<not> P x) as \<Longrightarrow> find P (as @ c # bs) = Some c"
  by (induction as) auto

lemma ParseAddr_show_ip4: "n < 2 ^ 32 \<Longrightarrow> ParseAddr (show_ip4 n) = Some (V4 n)"
proof -
  assume n: "n < 2 ^ 32"
  obtain rest where "show_ip4 n = show_nat (n div 2 ^ 24 mod 256) @ CHR ''.'' # rest" by (simp add: show_ip4_def)
  moreover have "list_all (\<lambda>c. c \<notin> set ''.:%'') (show_nat k)" for k
    using show_nat_digits [of k] by (auto simp: list_all_iff is_digit_def)
  ultimately have "find (\<lambda>c. c \<in> set ''.:%'') (show_ip4 n) = Some (CHR ''.'')" by (simp add: find_first)
  then show ?thesis using n by (simp add: ParseAddr_def)
qed

subsection \<open>IPv6\<close>

lemma hex_val_low_hex [simp]: "d < 16 \<Longrightarrow> hex_val (low_hex d) = Some d"
  by (auto simp: hex_val_def low_hex_def Let_def)

lemma show_hex_nonempty [simp]: "show_hex n \<noteq> []"
  by (subst show_hex.simps) simp

lemma show_hex_hex: "list_all is_hex (show_hex n)"
proof (induction n rule: show_hex.induct)
  case (1 n)
  then show ?case by (subst show_hex.simps) (simp del: not_None_eq)
qed

lemma hex_num_snoc [simp]: "hex_num (s @ [c]) = 16 * hex_num s + the (hex_val c)"
  by (simp add: hex_num_def)

lemma hex_num_show_hex [simp]: "hex_num (show_hex n) = n"
proof (induction n rule: show_hex.induct)
  case (1 n)
  show ?case
  proof (cases "n < 16")
    case True
    then show ?thesis using hex_num_snoc [of "[]"] by (subst show_hex.simps) (simp add: hex_num_def)
  next
    case False
    with "1.IH" show ?thesis by (subst show_hex.simps) simp
  qed
qed

lemma show_hex_length: "n < 16 ^ k \<Longrightarrow> 0 < k \<Longrightarrow> length (show_hex n) \<le> k"
proof (induction k arbitrary: n)
  case (Suc k)
  show ?case
  proof (cases "n < 16")
    case True
    then show ?thesis by (subst show_hex.simps) simp
  next
    case False
    then have "0 < k" using Suc.prems by (cases k) auto
    moreover have "n div 16 < 16 ^ k" using Suc.prems by (simp add: div_less_iff_less_mult mult.commute)
    ultimately show ?thesis using Suc.IH [of "n div 16"] False by (subst show_hex.simps) simp
  qed
qed simp

lemma show_hex_not: "c \<in> set (show_hex n) \<Longrightarrow> c \<notin> set ''.:%''"
  using show_hex_hex [of n] by (auto simp: list_all_iff hex_val_def Let_def)

lemma hex_span:
  "\<not> is_hex c \<Longrightarrow> takeWhile is_hex (show_hex n @ c # t) = show_hex n"
  "\<not> is_hex c \<Longrightarrow> dropWhile is_hex (show_hex n @ c # t) = c # t"
  "takeWhile is_hex (show_hex n) = show_hex n" "dropWhile is_hex (show_hex n) = []"
  using show_hex_hex [of n] by (auto simp: list_all_iff takeWhile_append dropWhile_append)

lemma colon_not_hex: "\<not> is_hex (CHR '':'')"
  by (simp add: hex_val_def)

lemma hd_hex: "\<exists>c u. show_hex m @ t = c # u \<and> c \<noteq> CHR '':''"
  using show_hex_not [of "hd (show_hex m)" m] by (cases "show_hex m") auto

text \<open>The steps of the loop over printed groups.\<close>

lemma parse_groups_steps:
  assumes "n < 65536" "length gs < 8"
  shows "parse_groups gs e (show_hex n) = Some (gs @ [n], e)"
    and "parse_groups gs e (show_hex n @ CHR '':'' # show_hex m @ t) = parse_groups (gs @ [n]) e (show_hex m @ t)"
    and "parse_groups gs None (show_hex n @ ''::'') = Some (gs @ [n], Some (Suc (length gs)))"
    and "parse_groups gs None (show_hex n @ ''::'' @ show_hex m @ t) = parse_groups (gs @ [n]) (Some (Suc (length gs))) (show_hex m @ t)"
proof -
  have short: "\<not> length (show_hex n) > 4" using show_hex_length [of n 4] assms(1) by simp
  obtain c u where cu: "show_hex m @ t = c # u" "c \<noteq> CHR '':''" using hd_hex by blast
  note step = parse_groups.simps [of gs] and span = hex_span(1,2) [of "CHR '':''"] colon_not_hex
  show "parse_groups gs e (show_hex n) = Some (gs @ [n], e)"
    using assms(2) short by (subst step) (simp add: hex_span del: not_None_eq)
  show "parse_groups gs e (show_hex n @ CHR '':'' # show_hex m @ t) = parse_groups (gs @ [n]) e (show_hex m @ t)"
    using assms(2) short cu by (subst step) (simp add: span del: not_None_eq)
  show "parse_groups gs None (show_hex n @ ''::'') = Some (gs @ [n], Some (Suc (length gs)))"
    using assms(2) short by (subst step) (simp add: span del: not_None_eq)
  show "parse_groups gs None (show_hex n @ ''::'' @ show_hex m @ t) = parse_groups (gs @ [n]) (Some (Suc (length gs))) (show_hex m @ t)"
    using assms(2) short cu by (subst step) (simp add: span del: not_None_eq)
qed

lemma join_Cons: "ws \<noteq> [] \<Longrightarrow> go_join sep (w # ws) = w @ sep @ go_join sep ws"
  by (cases ws) auto

lemma join_hex_Cons: "hs \<noteq> [] \<Longrightarrow> \<exists>m t. go_join '':'' (map show_hex hs) @ u = show_hex m @ t"
  by (cases hs rule: remdups_adj.cases) auto

lemma parse_groups_join:
  "hs \<noteq> [] \<Longrightarrow> list_all (\<lambda>h. h < 65536) hs \<Longrightarrow> length gs + length hs \<le> 8 \<Longrightarrow>
   parse_groups gs e (go_join '':'' (map show_hex hs)) = Some (gs @ hs, e)"
proof (induction hs arbitrary: gs)
  case (Cons h hs)
  show ?case
  proof (cases "hs = []")
    case True
    then show ?thesis using Cons.prems parse_groups_steps(1) [of h gs e] by simp
  next
    case False
    then obtain m t where mt: "go_join '':'' (map show_hex hs) = show_hex m @ t" using join_hex_Cons [of hs "[]"] by auto
    then show ?thesis
      using Cons.IH [of "gs @ [h]"] Cons.prems False parse_groups_steps(2) [of h gs e m t] by (simp add: join_Cons)
  qed
qed simp

lemma parse_groups_ellipsis:
  "as \<noteq> [] \<Longrightarrow> list_all (\<lambda>h. h < 65536) (as @ bs) \<Longrightarrow> length gs + length as + length bs < 8 \<Longrightarrow>
   parse_groups gs None (go_join '':'' (map show_hex as) @ ''::'' @ go_join '':'' (map show_hex bs)) =
     Some (gs @ as @ bs, Some (length gs + length as))"
proof (induction as arbitrary: gs)
  case (Cons h as)
  show ?case
  proof (cases "as = []")
    case True
    show ?thesis
    proof (cases "bs = []")
      case True
      with \<open>as = []\<close> show ?thesis using Cons.prems parse_groups_steps(3) [of h gs] by simp
    next
      case False
      then obtain m t where "go_join '':'' (map show_hex bs) = show_hex m @ t" using join_hex_Cons [of bs "[]"] by auto
      with False \<open>as = []\<close> show ?thesis
        using Cons.prems parse_groups_steps(4) [of h gs m t] parse_groups_join [of bs "gs @ [h]" "Some (Suc (length gs))"] by simp
    qed
  next
    case False
    let ?u = "''::'' @ go_join '':'' (map show_hex bs)"
    obtain m t where "go_join '':'' (map show_hex as) @ ?u = show_hex m @ t" using join_hex_Cons [OF False, of ?u] by auto
    then show ?thesis
      using Cons.IH [of "gs @ [h]"] Cons.prems False parse_groups_steps(2) [of h gs None m t] by (simp add: join_Cons)
  qed
qed simp

lemma zero_run_sound:
  assumes "zero_run gs = (start, len)" "len \<noteq> 0"
  shows "2 \<le> len \<and> start + len \<le> length gs \<and> take len (drop start gs) = replicate len 0"
proof -
  let ?good = "\<lambda>(start, len). len = 0 \<or> 2 \<le> len \<and> start + len \<le> length gs \<and> take len (drop start gs) = replicate len 0"
  let ?step = "\<lambda>(start, len) i. let k = length (takeWhile (\<lambda>g. g = 0) (drop i gs)) in if k \<ge> 2 \<and> k > len then (i, k) else (start, len)"
  have run: "?good (i, k)" if "k = length (takeWhile (\<lambda>g. g = 0) (drop i gs))" "2 \<le> k" for i k
  proof -
    have "take k (drop i gs) = takeWhile (\<lambda>g. g = 0) (drop i gs)" by (simp add: that(1) takeWhile_eq_take [symmetric])
    also have "\<dots> = replicate k 0" using that(1) by (metis (mono_tags, lifting) map_replicate_const map_idI set_takeWhileD)
    finally have "take k (drop i gs) = replicate k 0" .
    moreover have "k \<le> length (drop i gs)" using that(1) length_takeWhile_le [of "\<lambda>g. g = 0" "drop i gs"] by simp
    ultimately show ?thesis using that(2) by auto
  qed
  have "?good (foldl ?step acc is)" if "?good acc" for acc "is"
    using that
  proof (induction "is" arbitrary: acc)
    case (Cons i "is")
    have "?good (?step acc i)" using Cons.prems run [of _ i] by (cases acc) (simp add: Let_def)
    from Cons.IH [OF this] show ?case by simp
  qed simp
  from this [of "(255, 0)" "[0..<8]"] have "?good (zero_run gs)" unfolding zero_run_def by simp
  then show ?thesis using assms by simp
qed

lemma zero_run_split:
  assumes "zero_run gs = (start, len)" "len \<noteq> 0"
  shows "gs = take start gs @ replicate len 0 @ drop (start + len) gs"
  using zero_run_sound [OF assms] by (metis append_take_drop_id drop_drop add.commute)

lemma groups_num_map:
  "groups_num (map (\<lambda>i. n div 65536 ^ (k - i) mod 65536) [0..<Suc k]) = n mod 65536 ^ Suc k"
proof (induction k arbitrary: n)
  case 0
  show ?case by (simp add: groups_num_def)
next
  case (Suc k)
  have "map (\<lambda>i. n div 65536 ^ (Suc k - i) mod 65536) [0..<Suc k] = map (\<lambda>i. n div 65536 div 65536 ^ (k - i) mod 65536) [0..<Suc k]"
    by (auto simp: Suc_diff_le div_mult2_eq [symmetric])
  then have "groups_num (map (\<lambda>i. n div 65536 ^ (Suc k - i) mod 65536) [0..<Suc (Suc k)]) =
      65536 * groups_num (map (\<lambda>i. n div 65536 div 65536 ^ (k - i) mod 65536) [0..<Suc k]) + n mod 65536"
    by (simp only: upt_Suc_append [of 0 "Suc k"] map_append foldl_append groups_num_def) simp
  also have "\<dots> = n mod 65536 ^ Suc (Suc k)" unfolding Suc.IH by (simp add: mod_mult2_eq [symmetric])
  finally show ?case .
qed

lemma groups_num_num_groups: "n < 2 ^ 128 \<Longrightarrow> groups_num (num_groups n) = n"
proof -
  assume "n < 2 ^ 128"
  moreover have "[0..<8] = [0..<Suc 7]" by simp
  ultimately show ?thesis unfolding num_groups_def using groups_num_map [of n 7] by (simp del: upt_Suc)
qed

lemma num_groups_bounds: "length (num_groups n) = 8" "list_all (\<lambda>g. g < 65536) (num_groups n)"
  by (simp_all add: num_groups_def list_all_iff)

lemma cut_at_absent: "c \<notin> set s \<Longrightarrow> cut_at [c] s = None"
  by (induction s) (auto simp: has_prefix_def)

lemma set_join_hex: "set (go_join '':'' (map show_hex hs)) \<subseteq> insert (CHR '':'') (\<Union>h \<in> set hs. set (show_hex h))"
  by (induction hs rule: induct_list012) auto

lemma show_ip6_cases:
  obtains (plain) "show_ip6 n = go_join '':'' (map show_hex (num_groups n))"
  | (compressed) as bs l where "num_groups n = as @ replicate l 0 @ bs" "2 \<le> l"
      "show_ip6 n = go_join '':'' (map show_hex as) @ ''::'' @ go_join '':'' (map show_hex bs)"
proof -
  obtain start len where run: "zero_run (num_groups n) = (start, len)" by fastforce
  show thesis
  proof (cases "len = 0")
    case True
    then show thesis using run plain by (simp add: show_ip6_def Let_def)
  next
    case False
    have "show_ip6 n = go_join '':'' (map show_hex (take start (num_groups n))) @ ''::'' @
        go_join '':'' (map show_hex (drop (start + len) (num_groups n)))"
      using run False by (simp add: show_ip6_def take_map drop_map Let_def)
    moreover have "2 \<le> len" using zero_run_sound [OF run False] by simp
    ultimately show thesis using compressed [OF zero_run_split [OF run False]] by blast
  qed
qed

lemma join_hex_chars: "c \<in> set (go_join '':'' (map show_hex hs)) \<Longrightarrow> c = CHR '':'' \<or> c \<notin> set ''.:%''"
  using set_join_hex [of hs] show_hex_not by blast

lemma show_ip6_chars: "c \<in> set (show_ip6 n) \<Longrightarrow> c = CHR '':'' \<or> c \<notin> set ''.:%''"
proof (cases n rule: show_ip6_cases)
  case plain
  moreover assume "c \<in> set (show_ip6 n)"
  ultimately show ?thesis using join_hex_chars [of c "num_groups n"] by simp
next
  case (compressed as bs l)
  moreover assume "c \<in> set (show_ip6 n)"
  ultimately have "c = CHR '':'' \<or> c \<in> set (go_join '':'' (map show_hex as)) \<or> c \<in> set (go_join '':'' (map show_hex bs))" by auto
  then show ?thesis using join_hex_chars [of c as] join_hex_chars [of c bs] by blast
qed

lemma not_colons: "s = show_hex m @ t \<Longrightarrow> \<not> has_prefix s ''::''"
  using hd_hex [of m t] by (auto simp: has_prefix_conv)

text \<open>What is read from a printed address: the groups, and where the zeros were left out.\<close>

lemma parse_groups_show_ip6:
  assumes "n < 2 ^ 128"
  shows "Option.bind (if has_prefix (show_ip6 n) ''::'' then parse_groups [] (Some 0) (drop 2 (show_ip6 n)) else parse_groups [] None (show_ip6 n)) expand
           = Some (num_groups n) \<or> show_ip6 n = ''::'' \<and> n = 0"
proof (cases n rule: show_ip6_cases)
  case plain
  let ?gs = "num_groups n"
  have gs: "?gs \<noteq> []" using num_groups_bounds(1) [of n] by auto
  obtain m t where mt: "show_ip6 n = show_hex m @ t" using join_hex_Cons [OF gs, of "[]"] plain by auto
  then have "\<not> has_prefix (show_ip6 n) ''::''" by (rule not_colons)
  moreover have "parse_groups [] None (show_ip6 n) = Some (?gs, None)"
    unfolding plain using parse_groups_join [OF gs num_groups_bounds(2), of "[]" None] num_groups_bounds(1) [of n] by simp
  ultimately show ?thesis using num_groups_bounds(1) [of n] by (simp add: expand_def)
next
  case (compressed as bs l)
  have len: "length as + l + length bs = 8" using num_groups_bounds(1) [of n] compressed(1) by simp
  have small: "list_all (\<lambda>h. h < 65536) (as @ bs)" using num_groups_bounds(2) [of n] compressed(1) by simp
  have expand: "expand (as @ bs, Some (length as)) = Some (num_groups n)"
    using compressed(1,2) len by (simp add: expand_def)
  show ?thesis
  proof (cases "as = []")
    case False
    then obtain m t where "show_ip6 n = show_hex m @ t" using join_hex_Cons [OF False] compressed(3) by metis
    then have "\<not> has_prefix (show_ip6 n) ''::''" by (rule not_colons)
    moreover have "parse_groups [] None (show_ip6 n) = Some (as @ bs, Some (length as))"
      unfolding compressed(3) using parse_groups_ellipsis [OF False small, of "[]"] len compressed(2) by simp
    ultimately show ?thesis using expand by simp
  next
    case True
    then have shape: "show_ip6 n = ''::'' @ go_join '':'' (map show_hex bs)" using compressed(3) by simp
    show ?thesis
    proof (cases "bs = []")
      case True
      then have "num_groups n = replicate l 0" using compressed(1) \<open>as = []\<close> by simp
      moreover have "groups_num (replicate k 0) = 0" for k by (induction k) (simp_all add: groups_num_def)
      ultimately have "n = 0" using groups_num_num_groups [OF assms] by simp
      then show ?thesis using shape True by simp
    next
      case False
      have "parse_groups [] (Some 0) (drop 2 (show_ip6 n)) = Some (bs, Some 0)"
        using parse_groups_join [OF False, of "[]" "Some 0"] small len shape by simp
      then show ?thesis using expand True shape by (simp add: has_prefix_def)
    qed
  qed
qed

lemma parseIPv6_show_ip6: "n < 2 ^ 128 \<Longrightarrow> parseIPv6 (show_ip6 n) = Some (V6 n [])"
proof -
  assume n: "n < 2 ^ 128"
  have "CHR ''%'' \<notin> set (show_ip6 n)" using show_ip6_chars [of "CHR ''%''" n] by auto
  note cut = cut_at_absent [OF this] and num = groups_num_num_groups [OF n]
  from parse_groups_show_ip6 [OF n] show ?thesis
  proof
    assume parsed: "Option.bind (if has_prefix (show_ip6 n) ''::'' then parse_groups [] (Some 0) (drop 2 (show_ip6 n)) else parse_groups [] None (show_ip6 n)) expand
      = Some (num_groups n)"
    have "drop 2 (show_ip6 n) = [] \<Longrightarrow> has_prefix (show_ip6 n) ''::'' \<Longrightarrow> False"
      using parsed parse_groups.simps [of "[]" "Some 0" "[]"] by simp
    then show ?thesis using parsed by (auto simp: parseIPv6_def cut num split: if_splits)
  next
    assume zero: "show_ip6 n = ''::'' \<and> n = 0"
    moreover have "parseIPv6 ''::'' = Some (V6 0 [])" using cut zero by (simp add: parseIPv6_def has_prefix_def)
    ultimately show ?thesis by metis
  qed
qed

lemma ParseAddr_show_ip6: "n < 2 ^ 128 \<Longrightarrow> ParseAddr (show_ip6 n) = Some (V6 n [])"
proof -
  assume n: "n < 2 ^ 128"
  have "CHR '':'' \<in> set (show_ip6 n)"
  proof (cases n rule: show_ip6_cases)
    case plain
    obtain g h gs where "num_groups n = g # h # gs" using num_groups_bounds(1) [of n] by (cases "num_groups n" rule: remdups_adj.cases) auto
    then show ?thesis using plain by (simp add: join_Cons)
  qed simp
  then obtain as bs where "show_ip6 n = as @ CHR '':'' # bs" "CHR '':'' \<notin> set as" by (metis split_list_first)
  moreover from this have "list_all (\<lambda>c. c \<notin> set ''.:%'') as"
    using show_ip6_chars [of _ n] by (fastforce simp: list_all_iff)
  ultimately have "find (\<lambda>c. c \<in> set ''.:%'') (show_ip6 n) = Some (CHR '':'')" by (simp add: find_first)
  then show ?thesis using parseIPv6_show_ip6 [OF n] by (simp add: ParseAddr_def)
qed

text \<open>Addresses as \<^verbatim>\<open>netip\<close> keeps them after unmapping: in range, without zone, not IPv4 in IPv6.\<close>

fun plain_addr :: "Addr \<Rightarrow> bool" where
  "plain_addr (V4 n) \<longleftrightarrow> n < 2 ^ 32"
| "plain_addr (V6 n z) \<longleftrightarrow> n < 2 ^ 128 \<and> z = [] \<and> \<not> is4in6 (V6 n z)"

lemma ParseAddr_addr_string: "plain_addr a \<Longrightarrow> ParseAddr (addr_string a) = Some a"
  by (cases a) (simp_all add: ParseAddr_show_ip4 ParseAddr_show_ip6)

section \<open>What is read is in range\<close>

lemma octet_bound: "octet s = Some n \<Longrightarrow> n \<le> 255"
  by (auto simp: octet_def split: option.splits if_splits)

lemma parseIPv4_bound: "parseIPv4 s = Some v \<Longrightarrow> v < 2 ^ 32"
proof -
  assume "parseIPv4 s = Some v"
  then obtain a b c d where os: "map octet (go_split (CHR ''.'') s) = [Some a, Some b, Some c, Some d]" "v = ((a * 256 + b) * 256 + c) * 256 + d"
    by (auto simp: parseIPv4_def split: list.splits option.splits)
  from os(1) have "a \<le> 255 \<and> b \<le> 255 \<and> c \<le> 255 \<and> d \<le> 255" using octet_bound by (auto simp: map_eq_Cons_conv)
  with os(2) show ?thesis by simp
qed

lemma hex_val_bound: "hex_val c = Some d \<Longrightarrow> d < 16"
  by (auto simp: hex_val_def Let_def split: if_splits)

lemma hex_num_bound: "list_all is_hex s \<Longrightarrow> hex_num s < 16 ^ length s"
proof (induction s rule: rev_induct)
  case (snoc c s)
  then obtain d where "hex_val c = Some d" "d < 16" using hex_val_bound by auto
  with snoc show ?case by simp
qed (simp add: hex_num_def)

lemma groups_num_bound: "list_all (\<lambda>g. g < 65536) gs \<Longrightarrow> groups_num gs < 65536 ^ length gs"
proof (induction gs rule: rev_induct)
  case (snoc g gs)
  then have "65536 * groups_num gs + g < 65536 * 65536 ^ length gs" by simp
  then show ?case by (simp add: groups_num_def)
qed (simp add: groups_num_def)

lemma parse_groups_bound:
  "parse_groups gs e s = Some (gs', e') \<Longrightarrow> length gs \<le> 8 \<Longrightarrow> list_all (\<lambda>g. g < 65536) gs \<Longrightarrow>
   length gs' \<le> 8 \<and> list_all (\<lambda>g. g < 65536) gs'"
proof (induction gs e s rule: parse_groups.induct)
  case (1 gs e s)
  let ?ds = "takeWhile is_hex s" and ?rest = "dropWhile is_hex s"
  show ?case
  proof (cases "8 \<le> length gs")
    case True
    then show ?thesis using 1(3-5) by (subst (asm) parse_groups.simps) (auto split: if_splits)
  next
    case False
    note unfolded = 1(3) [unfolded parse_groups.simps [of gs e s] Let_def if_not_P [OF False]]
    have ok: "\<not> (?ds = [] \<or> length ?ds > 4)" using unfolded by (metis option.distinct(1))
    have "hex_num ?ds < 16 ^ length ?ds" by (intro hex_num_bound) (auto simp: list_all_iff dest: set_takeWhileD)
    also have "\<dots> \<le> 16 ^ 4" using ok by (intro power_increasing) auto
    finally have group: "hex_num ?ds < 65536" by simp
    have v4: "v div 65536 < 65536" if "parseIPv4 s = Some v" for v
      using parseIPv4_bound [OF that] by (simp add: div_less_iff_less_mult)
    have grown: "length (gs @ [hex_num ?ds]) \<le> 8" "list_all (\<lambda>g. g < 65536) (gs @ [hex_num ?ds])"
      using False group 1(5) by auto
    note case_eq = unfolded [unfolded if_not_P [OF ok]]
    show ?thesis
    proof (cases ?rest)
      case Nil
      with case_eq grown show ?thesis by (simp del: not_None_eq)
    next
      case (Cons c cs)
      note case_eq = case_eq [unfolded Cons list.case]
      consider "c = CHR ''.''" | "c \<noteq> CHR ''.''" "\<not> (c \<noteq> CHR '':'' \<or> cs = [])"
        using case_eq by (auto split: if_splits)
      then show ?thesis
      proof cases
        case 1
        then show ?thesis using case_eq False v4 \<open>list_all _ gs\<close> by (auto simp del: not_None_eq split: if_splits)
      next
        case 2
        note ih = 1(1,2) [OF False refl refl refl ok Cons 2]
        show ?thesis
          using case_eq ih grown 2 by (auto simp del: not_None_eq split: if_splits)
      qed
    qed
  qed
qed

lemma expand_bound:
  assumes "expand (gs, e) = Some hs" "length gs \<le> 8" "list_all (\<lambda>g. g < 65536) gs"
  shows "groups_num hs < 2 ^ 128"
proof -
  have "length hs = 8 \<and> list_all (\<lambda>g. g < 65536) hs"
    using assms by (auto simp: expand_def list_all_iff split: if_splits) (meson in_set_takeD in_set_dropD)+
  then show ?thesis using groups_num_bound [of hs] by simp
qed

lemma parseIPv6_bound: "parseIPv6 s = Some a \<Longrightarrow> \<exists>n z. a = V6 n z \<and> n < 2 ^ 128"
  using parse_groups_bound [of "[]"] expand_bound
  by (fastforce simp: parseIPv6_def Let_def bind_eq_Some_conv split: option.splits if_splits)

lemma ParseAddr_plain: "ParseAddr s = Some a \<Longrightarrow> zone_of a = [] \<Longrightarrow> plain_addr (unmap a)"
  using parseIPv6_bound [of s a] parseIPv4_bound [of s]
  by (auto simp: ParseAddr_def unmap_def split: option.splits if_splits)

end
