(* ===== verification/EventLogger.thy ===== *)
theory EventLogger
  imports Redaction NetAddr GoValue
begin

text \<open>
  The event log (\<^verbatim>\<open>logger/logger.go\<close>) and its local file sink: rendering an event as one JSON or text line, writing it and
  fanning it out to the sinks, and the client address taken from \<^verbatim>\<open>X-Forwarded-For\<close>. The clock, the parser of
  timestamps, the generator of event ids and the Unicode table of printable runes are inputs, collected in \<open>logEnv\<close>.
\<close>

section \<open>Client addresses\<close>

fun parseTrustedProxyCIDRs :: "string list \<Rightarrow> prefix list" where
  "parseTrustedProxyCIDRs [] = []"
| "parseTrustedProxyCIDRs (value # rest) =
     (case ParsePrefix (trim_space value) of
        None \<Rightarrow> parseTrustedProxyCIDRs rest
      | Some (addr, bits) \<Rightarrow>
          (if zone_of addr \<noteq> [] then parseTrustedProxyCIDRs rest
           else if is4in6 addr
           then if bits < 96 then parseTrustedProxyCIDRs rest else masked (unmap addr, bits - 96) # parseTrustedProxyCIDRs rest
           else masked (addr, bits) # parseTrustedProxyCIDRs rest))"

definition isTrustedProxy :: "Addr \<Rightarrow> prefix list \<Rightarrow> bool" where
  "isTrustedProxy addr trusted = list_ex (\<lambda>prefix. prefix_contains prefix addr) trusted"

definition parse_plain :: "string \<Rightarrow> Addr option" where
  "parse_plain s = (case ParseAddr s of None \<Rightarrow> None | Some addr \<Rightarrow> if zone_of addr \<noteq> [] then None else Some (unmap addr))"

definition parseRemoteIP :: "string \<Rightarrow> Addr option" where
  "parseRemoteIP remoteAddr = parse_plain (case split_host remoteAddr of None \<Rightarrow> remoteAddr | Some host \<Rightarrow> host)"

text \<open>The loops over the header values and their fields; \<open>None\<close> is the return of the empty string.\<close>

fun hop_fields :: "string list \<Rightarrow> Addr list \<Rightarrow> Addr list option" where
  "hop_fields [] hops = Some hops"
| "hop_fields (field # rest) hops =
     (if trim_space field = [] \<or> length hops \<ge> 32 then None
      else case parse_plain (trim_space field) of None \<Rightarrow> None | Some addr \<Rightarrow> hop_fields rest (hops @ [addr]))"

fun hop_values :: "string list \<Rightarrow> nat \<Rightarrow> Addr list \<Rightarrow> Addr list option" where
  "hop_values [] totalBytes hops = Some hops"
| "hop_values (value # rest) totalBytes hops =
     (if totalBytes + length value > 4096 then None
      else case hop_fields (go_split (CHR '','') value) hops of
             None \<Rightarrow> None
           | Some hops1 \<Rightarrow> hop_values rest (totalBytes + length value) hops1)"

definition clientAddrFromXFF :: "string \<Rightarrow> string list \<Rightarrow> prefix list \<Rightarrow> string" where
  "clientAddrFromXFF remoteAddr forwardedValues trusted =
     (if trusted = [] \<or> forwardedValues = [] then []
      else case parseRemoteIP remoteAddr of
             None \<Rightarrow> []
           | Some peer \<Rightarrow>
               (if \<not> isTrustedProxy peer trusted then []
                else case hop_values forwardedValues 0 [] of
                       None \<Rightarrow> []
                     | Some hops \<Rightarrow>
                         (case find (\<lambda>hop. \<not> isTrustedProxy hop trusted) (rev hops) of
                            None \<Rightarrow> []
                          | Some hop \<Rightarrow> addr_string hop)))"

definition normalizeIPString :: "string \<Rightarrow> string" where
  "normalizeIPString value =
     (if value = [] then [] else case parse_plain value of None \<Rightarrow> [] | Some addr \<Rightarrow> addr_string addr)"

section \<open>Rendering\<close>

text \<open>\<^verbatim>\<open>strconv.AppendQuote\<close>; \<open>uni\<close> says which runes beyond ASCII are printable.\<close>

definition low_hexes :: "nat \<Rightarrow> nat \<Rightarrow> string" where
  "low_hexes k n = map (\<lambda>i. low_hex (n div 16 ^ (k - 1 - i) mod 16)) [0..<k]"

definition is_print :: "(nat \<Rightarrow> bool) \<Rightarrow> nat \<Rightarrow> bool" where
  "is_print uni r \<longleftrightarrow> (if r < 0x80 then 32 \<le> r \<and> r < 127 else uni r)"

definition quote_rune :: "(nat \<Rightarrow> bool) \<Rightarrow> nat \<Rightarrow> string" where
  "quote_rune uni r =
     (if r = 0x22 \<or> r = 0x5C then [CHR 0x5C, char_of r]
      else if is_print uni r then encode_rune r
      else case find (\<lambda>(code, c). code = r) [(7, CHR ''a''), (8, CHR ''b''), (12, CHR ''f''), (10, CHR ''n''), (13, CHR ''r''), (9, CHR ''t''), (11, CHR ''v'')] of
             Some (code, c) \<Rightarrow> [CHR 0x5C, c]
           | None \<Rightarrow>
               (if r < 32 \<or> r = 127 then [CHR 0x5C, CHR ''x''] @ low_hexes 2 r
                else if r < 0x10000 then [CHR 0x5C, CHR ''u''] @ low_hexes 4 r
                else [CHR 0x5C, CHR ''U''] @ low_hexes 8 r))"

function quote_body :: "(nat \<Rightarrow> bool) \<Rightarrow> string \<Rightarrow> string" where
  "quote_body uni s =
     (if s = [] then []
      else let (r, width) = decode_rune s
        in (if width = 1 \<and> r = 0xFFFD then [CHR 0x5C, CHR ''x''] @ low_hexes 2 (byte (hd s)) else quote_rune uni r)
           @ quote_body uni (drop width s))"
  by pat_completeness auto
termination
proof (relation "measure (length \<circ> snd)", goal_cases)
  case (2 uni s p r width)
  then have "1 \<le> width" using decode_rune_width [of s] by (metis snd_conv)
  with 2 show ?case by (cases s) auto
qed simp

declare quote_body.simps [simp del]

definition go_quote :: "(nat \<Rightarrow> bool) \<Rightarrow> string \<Rightarrow> string" where
  "go_quote uni s = CHR 0x22 # quote_body uni s @ [CHR 0x22]"

definition appendTextKey :: "string \<Rightarrow> string \<Rightarrow> string" where
  "appendTextKey line key = (if line \<noteq> [] then line @ '' '' else line) @ key @ ''=''"

definition appendTextString :: "(nat \<Rightarrow> bool) \<Rightarrow> string \<Rightarrow> string \<Rightarrow> bool \<Rightarrow> string \<Rightarrow> string" where
  "appendTextString uni key value optional line =
     (if optional \<and> value = [] then line else appendTextKey line key @ go_quote uni value)"

definition appendTextInt :: "string \<Rightarrow> int \<Rightarrow> bool \<Rightarrow> string \<Rightarrow> string" where
  "appendTextInt key value optional line = (if optional \<and> value = 0 then line else appendTextKey line key @ show_int value)"

definition marshalText :: "(nat \<Rightarrow> bool) \<Rightarrow> Event \<Rightarrow> string" where
  "marshalText uni event =
     fold (\<lambda>append line. append line)
       [appendTextString uni ''timestamp'' (e_Timestamp event) False,
        appendTextString uni ''event_id'' (e_EventID event) False,
        appendTextString uni ''sensor'' (e_Sensor event) False,
        appendTextString uni ''session_id'' (e_SessionID event) True,
        appendTextString uni ''action'' (e_Action event) True,
        appendTextString uni ''outcome'' (e_Outcome event) True,
        appendTextString uni ''profile'' (e_Profile event) True,
        appendTextString uni ''target'' (e_Target event) True,
        appendTextString uni ''remote_addr'' (e_RemoteAddr event) False,
        appendTextString uni ''client_addr'' (e_ClientAddr event) True,
        appendTextString uni ''method'' (e_Method event) True,
        appendTextString uni ''path'' (e_Path event) True,
        appendTextInt ''status_code'' (e_StatusCode event) True,
        appendTextInt ''bytes_received'' (e_BytesReceived event) True,
        appendTextInt ''bytes_sent'' (e_BytesSent event) True,
        appendTextString uni ''user_agent'' (e_UserAgent event) True,
        appendTextString uni ''detail'' (e_Detail event) True] []"

text \<open>\<^verbatim>\<open>json.Marshal\<close> of an event: the fields of the struct in order, the optional ones left out when empty.\<close>

definition json_string_field :: "string \<Rightarrow> string \<Rightarrow> bool \<Rightarrow> string list" where
  "json_string_field key value optional = (if optional \<and> value = [] then [] else [json_quote key @ '':'' @ json_quote value])"

definition json_int_field :: "string \<Rightarrow> int \<Rightarrow> string list" where
  "json_int_field key value = (if value = 0 then [] else [json_quote key @ '':'' @ show_int value])"

definition marshalEvent :: "Event \<Rightarrow> string" where
  "marshalEvent event =
     ''{'' @ go_join '',''
       (json_string_field ''timestamp'' (e_Timestamp event) False @ json_string_field ''event_id'' (e_EventID event) False
        @ json_string_field ''sensor'' (e_Sensor event) False @ json_string_field ''session_id'' (e_SessionID event) True
        @ json_string_field ''action'' (e_Action event) True @ json_string_field ''outcome'' (e_Outcome event) True
        @ json_string_field ''profile'' (e_Profile event) True @ json_string_field ''target'' (e_Target event) True
        @ json_string_field ''remote_addr'' (e_RemoteAddr event) False @ json_string_field ''client_addr'' (e_ClientAddr event) True
        @ json_string_field ''method'' (e_Method event) True @ json_string_field ''path'' (e_Path event) True
        @ json_int_field ''status_code'' (e_StatusCode event) @ json_int_field ''bytes_received'' (e_BytesReceived event)
        @ json_int_field ''bytes_sent'' (e_BytesSent event) @ json_string_field ''user_agent'' (e_UserAgent event) True
        @ json_string_field ''detail'' (e_Detail event) True) @ ''}''"

section \<open>Sinks and writing\<close>

text \<open>A file sink: what is in the file, how many more bytes the disk takes, and whether it is closed. Write errors are ignored by the code.\<close>

record fileSink =
  fs_content :: string
  fs_room :: nat
  fs_closed :: bool

definition fileSink_Emit :: "string \<Rightarrow> fileSink \<Rightarrow> fileSink" where
  "fileSink_Emit json s =
     (if fs_closed s then s
      else let line = json @ [CHR 0x0A]
        in s\<lparr>fs_content := fs_content s @ take (fs_room s) line, fs_room := fs_room s - length line\<rparr>)"

definition fileSink_Close :: "fileSink \<Rightarrow> fileSink" where
  "fileSink_Close s = s\<lparr>fs_closed := True\<rparr>"

datatype Sink = FileSink fileSink | ShipperSink batchShipper

fun emit_to :: "Event \<Rightarrow> string \<Rightarrow> Sink \<Rightarrow> Sink" where
  "emit_to event json (FileSink s) = FileSink (fileSink_Emit json s)"
| "emit_to event json (ShipperSink s) = ShipperSink (Emit \<lparr>sp_event = event, sp_json = json\<rparr> s)"

record EventLogger =
  el_out :: string \<comment> \<open>what the writer has taken so far\<close>
  el_format :: string
  el_includeUserAgent :: bool
  el_trustedProxyCIDRs :: "prefix list"
  el_sensitiveValues :: "string list option"
  el_sinks :: "Sink list"

record logEnv =
  le_now :: string
  le_parse :: "string \<Rightarrow> string option" \<comment> \<open>a timestamp, reparsed and printed in UTC\<close>
  le_uuid :: string
  le_print :: "nat \<Rightarrow> bool"
  le_lower :: "nat \<Rightarrow> nat"

definition NewEventLoggerWithConfig :: "logEnv \<Rightarrow> LoggingConfig \<Rightarrow> string list \<Rightarrow> EventLogger" where
  "NewEventLoggerWithConfig env config sensitiveValues =
     \<lparr>el_out = [], el_format = (if toLower (le_lower env) (trim_space (log_Format config)) = ''text'' then ''text'' else ''json''),
      el_includeUserAgent = log_IncludeUserAgent config, el_trustedProxyCIDRs = parseTrustedProxyCIDRs (log_TrustedProxyCIDRs config),
      el_sensitiveValues = newSensitiveValueReplacer sensitiveValues, el_sinks = []\<rparr>"

definition AttachSinks :: "Sink list \<Rightarrow> EventLogger \<Rightarrow> EventLogger" where
  "AttachSinks sinks l = l\<lparr>el_sinks := el_sinks l @ sinks\<rparr>"

text \<open>
  The loop that hands a line to the writer. The results of the calls of \<^verbatim>\<open>Write\<close> are listed in advance, each with the number of bytes taken (at most
  those offered, as \<^verbatim>\<open>io.Writer\<close> demands) and whether it failed; after them the writer takes everything.
\<close>

fun write_line :: "(nat \<times> bool) list \<Rightarrow> string \<Rightarrow> string \<times> bool" where
  "write_line results [] = ([], True)"
| "write_line [] line = (line, True)"
| "write_line ((n, failed) # results) line =
     (if failed \<or> n = 0 then (take n line, False)
      else let (out, complete) = write_line results (drop n line) in (take n line @ out, complete))"

definition logger_write :: "logEnv \<Rightarrow> (nat \<times> bool) list \<Rightarrow> Event \<Rightarrow> string \<Rightarrow> EventLogger \<Rightarrow> EventLogger" where
  "logger_write env results event trustedClientAddr l =
     (case sanitize_event (el_sensitiveValues l) (el_includeUserAgent l)
             (case le_parse env (e_Timestamp event) of Some t \<Rightarrow> t | None \<Rightarrow> le_now env) (le_uuid env)
             (normalizeIPString trustedClientAddr) event of
        None \<Rightarrow> l
      | Some e \<Rightarrow>
          (let json = marshalEvent e;
               line = (if el_format l = ''text'' then marshalText (le_print env) e else json) @ [CHR 0x0A];
               (out, complete) = write_line results line;
               l1 = l\<lparr>el_out := el_out l @ out\<rparr>
           in if complete then l1\<lparr>el_sinks := map (emit_to e json) (el_sinks l)\<rparr> else l1))"

section \<open>Requests\<close>

text \<open>
  The record \<^verbatim>\<open>HTTPMiddleware\<close> writes once a request is answered; the status and size of the response and the number of body
  bytes come from the web framework. A raw query is never part of it.
\<close>

definition middleware_event :: "string \<Rightarrow> bool \<Rightarrow> string \<Rightarrow> string \<Rightarrow> string \<Rightarrow> string \<Rightarrow> int \<Rightarrow> int \<Rightarrow> int \<Rightarrow> Event" where
  "middleware_event sensor includeUserAgent remoteAddr reqMethod urlPath agent status responseBytes bytesReceived =
     \<lparr>e_Timestamp = [], e_EventID = [], e_Sensor = (if validSensor sensor then sensor else ''http''), e_SessionID = [], e_Action = [],
      e_Outcome = [], e_Profile = [], e_Target = [], e_RemoteAddr = remoteAddr, e_ClientAddr = [], e_Method = reqMethod, e_Path = urlPath,
      e_StatusCode = (if status = 0 then 200 else status), e_BytesReceived = bytesReceived, e_BytesSent = responseBytes,
      e_UserAgent = (if includeUserAgent then agent else []), e_Detail = []\<rparr>"

definition middleware_log :: "logEnv \<Rightarrow> (nat \<times> bool) list \<Rightarrow> string \<Rightarrow> string \<Rightarrow> string \<Rightarrow> string \<Rightarrow> string list \<Rightarrow> string \<Rightarrow> int \<Rightarrow> int \<Rightarrow> int \<Rightarrow>
    EventLogger \<Rightarrow> EventLogger" where
  "middleware_log env results sensor remoteAddr reqMethod urlPath forwarded agent status responseBytes bytesReceived l =
     logger_write env results
       (middleware_event sensor (el_includeUserAgent l) remoteAddr reqMethod urlPath agent status responseBytes bytesReceived)
       (clientAddrFromXFF remoteAddr forwarded (el_trustedProxyCIDRs l)) l"

section \<open>One line per event\<close>

abbreviation nl :: char where "nl \<equiv> CHR 0x0A"

named_theorems one_line \<open>texts without a line break\<close>

lemma low_hex_line [one_line]: "nl \<notin> set (low_hexes k n)"
proof -
  have "hex_val (low_hex (m mod 16)) = Some (m mod 16)" for m by simp
  moreover have "hex_val nl = None" by (simp add: hex_val_def)
  ultimately have "low_hex (m mod 16) \<noteq> nl" for m by (metis option.distinct(1))
  then show ?thesis by (auto simp: low_hexes_def) metis
qed

lemma quote_rune_line: "r < 0x140000 \<Longrightarrow> nl \<notin> set (quote_rune uni r)"
proof -
  assume "r < 0x140000"
  then have "nl \<in> set (encode_rune r) \<Longrightarrow> r = 10" using encode_rune_ascii [of nl r] by (simp add: byte_def)
  then have "is_print uni r \<Longrightarrow> nl \<notin> set (encode_rune r)" by (auto simp: is_print_def)
  moreover have "nl \<noteq> char_of (34 :: nat)" "nl \<noteq> char_of (92 :: nat)"
    using char_of_eq_iff [of "34 :: nat" nl] char_of_eq_iff [of "92 :: nat" nl] by (auto simp: take_bit_eq_mod)
  ultimately show ?thesis by (auto simp: quote_rune_def low_hex_line split: if_splits)
qed

lemma quote_body_line: "nl \<notin> set (quote_body uni s)"
proof (induction uni s rule: quote_body.induct)
  case (1 uni s)
  obtain r width where rw: "decode_rune s = (r, width)" by fastforce
  show ?case
  proof (cases "s = []")
    case False
    then have "r < 0x140000" using decode_rune_less [OF False] rw by simp
    with 1 [OF False rw [symmetric] refl] show ?thesis
      using rw False by (subst quote_body.simps) (simp add: quote_rune_line low_hex_line)
  qed (simp add: quote_body.simps)
qed

lemma go_quote_line [one_line]: "nl \<notin> set (go_quote uni s)"
  using quote_body_line by (simp add: go_quote_def)

lemma show_nat_line: "nl \<notin> set (show_nat n)"
  using show_nat_digits [of n] by (auto simp: list_all_iff is_digit_def)

lemma show_int_line [one_line]: "nl \<notin> set (show_int i)"
  by (simp add: show_int_def show_nat_line)

lemma hex_digit_line: "nl \<notin> set (unicode_escape n)"
proof -
  have "hex_digit d \<noteq> nl" if "d < 16" for d
    using that by (auto simp: hex_digit_def char_of_eq_iff take_bit_eq_mod)
  then show ?thesis by (auto simp: unicode_escape_def) (metis mod_less_divisor zero_less_numeral)+
qed

lemma escape_char_line: "nl \<notin> set (escape_char c)"
  by (simp add: escape_char_def hex_digit_line)

lemma json_quote_line [one_line]: "nl \<notin> set (json_quote s)"
proof -
  have "nl \<notin> set (escape_string s)"
    by (induction s rule: escape_string.induct) (simp_all add: escape_char_line hex_digit_line)
  then show ?thesis by (simp add: json_quote_def)
qed

lemma join_line [one_line]: "nl \<notin> set sep \<Longrightarrow> list_all (\<lambda>w. nl \<notin> set w) ws \<Longrightarrow> nl \<notin> set (go_join sep ws)"
  by (induction sep ws rule: go_join.induct) auto

lemma append_line [one_line]:
  "nl \<notin> set line \<Longrightarrow> nl \<notin> set key \<Longrightarrow> nl \<notin> set (appendTextString uni key value optional line)"
  "nl \<notin> set line \<Longrightarrow> nl \<notin> set key \<Longrightarrow> nl \<notin> set (appendTextInt key n optional line)"
  by (simp_all add: appendTextString_def appendTextInt_def appendTextKey_def go_quote_line show_int_line)

lemma marshalText_line: "nl \<notin> set (marshalText uni e)"
  unfolding marshalText_def fold_simps comp_def id_def by (intro one_line) simp_all

lemma json_field_line: "list_all (\<lambda>w. nl \<notin> set w) (json_string_field key value optional)" "list_all (\<lambda>w. nl \<notin> set w) (json_int_field key n)"
  if "nl \<notin> set key"
  by (simp_all add: json_string_field_def json_int_field_def json_quote_line show_int_line)

lemma marshalEvent_line: "nl \<notin> set (marshalEvent e)"
proof -
  have "nl \<notin> set (go_join '','' (json_string_field ''timestamp'' (e_Timestamp e) False @ rest))" if "list_all (\<lambda>w. nl \<notin> set w) rest" for rest
    using that by (intro join_line) (simp_all add: json_field_line)
  then show ?thesis by (simp add: marshalEvent_def json_field_line)
qed

lemma write_line_prefix: "\<exists>k. fst (write_line results line) = take k line"
proof (induction results line rule: write_line.induct)
  case (3 n failed results c cs)
  show ?case
  proof (cases "failed \<or> n = 0")
    case False
    from 3 [OF False] obtain k where "fst (write_line results (drop n (c # cs))) = take k (drop n (c # cs))" by blast
    then have "fst (write_line ((n, failed) # results) (c # cs)) = take (n + k) (c # cs)"
      using False by (simp add: case_prod_beta' take_add)
    then show ?thesis by blast
  qed auto
next
  case (2 c cs)
  show ?case by (rule exI [of _ "length (c # cs)"]) simp
qed simp


section \<open>The logged client address\<close>

lemma parse_plain_plain: "parse_plain s = Some a \<Longrightarrow> plain_addr a"
  by (auto simp: parse_plain_def split: option.splits if_splits intro: ParseAddr_plain)

lemma plain_addr_zone: "plain_addr a \<Longrightarrow> zone_of a = [] \<and> unmap a = a"
  by (cases a) (simp_all add: unmap_def)

lemma normalizeIPString_addr_string: "plain_addr a \<Longrightarrow> normalizeIPString (addr_string a) = addr_string a"
  using ParseAddr_addr_string [of a] plain_addr_zone [of a] by (simp add: normalizeIPString_def parse_plain_def)

lemma hop_fields_result:
  "hop_fields fs hops = Some hs \<Longrightarrow> map Some hs = map Some hops @ map (parse_plain \<circ> trim_space) fs"
  by (induction fs hops rule: hop_fields.induct) (auto split: if_splits option.splits)

lemma hop_values_result:
  "hop_values vals n hops = Some hs \<Longrightarrow>
   map Some hs = map Some hops @ map (parse_plain \<circ> trim_space) (concat (map (go_split (CHR '','')) vals))"
proof (induction vals n hops rule: hop_values.induct)
  case (2 v rest n hops)
  then show ?case using hop_fields_result by (fastforce split: if_splits option.splits)
qed simp

lemma find_last:
  assumes "\<not> P h" "list_all P (rev bs)"
  shows "find (\<lambda>x. \<not> P x) (rev (as @ h # bs)) = Some h"
  using find_first [of "\<lambda>x. \<not> P x" h "rev bs" "rev as"] assms by simp


lemma demo_hop: "parse_plain ''6.6.6.6'' = Some (V4 101058054)" "parse_plain ''203.0.113.9'' = Some (V4 3405803785)"
  "parse_plain ''10.0.0.2'' = Some (V4 167772162)"
proof -
  have "parse_plain (show_ip4 n) = Some (V4 n)" if "n < 2 ^ 32" for n
    using ParseAddr_show_ip4 [OF that] by (simp add: parse_plain_def unmap_def)
  from this [of 101058054] this [of 3405803785] this [of 167772162]
  show "parse_plain ''6.6.6.6'' = Some (V4 101058054)" "parse_plain ''203.0.113.9'' = Some (V4 3405803785)"
    "parse_plain ''10.0.0.2'' = Some (V4 167772162)"
    by (simp_all add: show_ip4_def)
qed


section \<open>Closing the log\<close>

text \<open>
  The logger and one remote sink under the logger's lock: \<^verbatim>\<open>write\<close> holds it while it emits, and \<^verbatim>\<open>Close\<close> takes the sinks out under it before it
  closes them. The flag says that the sink is still attached, the rest is the state of \<open>Shipper\<close>; the delivery
  goroutine runs at any time.
\<close>

type_synonym logger_state = "bool \<times> ship_state"

inductive logger_step :: "logger_state \<Rightarrow> logger_state \<Rightarrow> bool" where
  write_begin: "emit_check s = (True, s') \<Longrightarrow> logger_step (True, s, [], n) (True, s', [p], Suc n)"
| write_dropped: "emit_check s = (False, s') \<Longrightarrow> logger_step (True, s, [], n) (True, s', [], Suc n)"
| write_end: "logger_step (att, s, [p], n) (att, emit_offer p s, [], n)"
| detach: "logger_step (True, s, [], n) (False, s, [], n)"
| close_begin: "logger_step (False, s, ps, n) (False, snd (close_swap s), ps, n)"
| close_signal: "closed s \<Longrightarrow> logger_step (False, s, ps, n) (False, close_done s, ps, n)"
| run_take: "run_phase s = Looping \<Longrightarrow> queue s \<noteq> [] \<Longrightarrow> logger_step (att, s, ps, n) (att, take_payload ok1 ok2 s, ps, n)"
| run_tick: "run_phase s = Looping \<Longrightarrow> logger_step (att, s, ps, n) (att, flush ok1 ok2 s, ps, n)"
| run_stop: "run_phase s = Looping \<Longrightarrow> done_closed s \<Longrightarrow> logger_step (att, s, ps, n) (att, s\<lparr>run_phase := Draining\<rparr>, ps, n)"
| run_drain: "run_phase s = Draining \<Longrightarrow> queue s \<noteq> [] \<Longrightarrow> logger_step (att, s, ps, n) (att, drain_payload s, ps, n)"
| run_exit: "run_phase s = Draining \<Longrightarrow> queue s = [] \<Longrightarrow> logger_step (att, s, ps, n) (att, (flush ok1 ok2 s)\<lparr>run_phase := Exited\<rparr>, ps, n)"

lemma logger_step_ship: "logger_step st st' \<Longrightarrow> ship_step\<^sup>*\<^sup>* (snd st) (snd st')"
proof (induction rule: logger_step.induct)
  case (write_end att s p n)
  then show ?case using offer [of p "[p]" s n] by auto
qed (auto intro: ship_step.intros)

definition lock_ok :: "logger_state \<Rightarrow> bool" where
  "lock_ok = (\<lambda>(att, s, ps, n). (closed s \<or> \<not> att \<longrightarrow> \<not> att \<and> ps = []) \<and> (run_phase s = Exited \<longrightarrow> queue s = []))"

lemma lock_ok_step: "logger_step st st' \<Longrightarrow> lock_ok st \<Longrightarrow> bounds_ok (fst (snd st)) \<Longrightarrow> lock_ok st'"
  by (induction rule: logger_step.induct) (auto simp: lock_ok_def bounds_ok_def ship_defs Let_def flush_frame split: if_splits list.splits)

lemma logger_reachable:
  assumes "logger_step\<^sup>*\<^sup>* (True, newBatchShipper, [], 0) st"
  shows "ship_ok (snd st) \<and> lock_ok st"
proof -
  have "ship_step\<^sup>*\<^sup>* (newBatchShipper, [], 0) (snd st) \<and> lock_ok st"
    using assms
  proof (induction rule: rtranclp_induct)
    case base
    show ?case by (simp add: lock_ok_def newBatchShipper_def)
  next
    case (step st st')
    then have "bounds_ok (fst (snd st))" using ship_ok_reachable by (simp add: ship_ok_def)
    with step show ?case using lock_ok_step logger_step_ship by (meson rtranclp_trans)
  qed
  then show ?thesis using ship_ok_reachable by blast
qed

text \<open>From any state closing can complete: finish the write, detach, close, let the goroutine drain.\<close>

lemma logger_drains: "run_phase s = Draining \<Longrightarrow> logger_step\<^sup>*\<^sup>* (att, s, ps, n) (att, drain ok1 ok2 s, ps, n)"
proof (induction ok1 ok2 s rule: drain.induct)
  case (1 ok1 ok2 s)
  show ?case
  proof (cases "queue s = []")
    case True
    then show ?thesis using run_exit [OF "1.prems" True, of att ps n ok1 ok2] by (subst drain.simps) auto
  next
    case False
    have "run_phase (drain_payload s) = Draining" using "1.prems" by (simp add: drain_payload_def split: list.splits)
    then have "logger_step\<^sup>*\<^sup>* (att, drain_payload s, ps, n) (att, drain ok1 ok2 (drain_payload s), ps, n)" using "1.IH" False by simp
    with run_drain [OF "1.prems" False, of att ps n] show ?thesis using False by (subst drain.simps) auto
  qed
qed

lemma logger_can_close:
  assumes "run_phase s = Exited \<longrightarrow> ps = []" "length ps \<le> 1" "\<not> att \<longrightarrow> ps = []"
  shows "\<exists>s'. logger_step\<^sup>*\<^sup>* (att, s, ps, n) (False, s', [], n) \<and> run_phase s' = Exited"
proof -
  obtain s1 where written: "logger_step\<^sup>*\<^sup>* (att, s, ps, n) (att, s1, [], n)"
  proof (cases ps)
    case Nil
    then show thesis using that by blast
  next
    case (Cons p qs)
    then have "logger_step\<^sup>*\<^sup>* (att, s, ps, n) (att, emit_offer p s, [], n)" using assms(2) write_end [of att s p n] by auto
    then show thesis by (rule that)
  qed
  then have s1: "logger_step\<^sup>*\<^sup>* (att, s, ps, n) (False, s1, [], n)"
    by (cases att) (auto intro: rtranclp.rtrancl_into_rtrancl detach)
  let ?s2 = "snd (close_swap s1)" let ?s3 = "close_done ?s2"
  have "closed ?s2" by (simp add: close_swap_def)
  then have s3: "logger_step\<^sup>*\<^sup>* (False, s1, [], n) (False, ?s3, [], n)"
    using close_begin [of s1 "[]" n] close_signal [of ?s2 "[]" n] by auto
  show ?thesis
  proof (cases "run_phase ?s3")
    case Exited
    then show ?thesis using s1 s3 by (meson rtranclp_trans)
  next
    case Draining
    then have "logger_step\<^sup>*\<^sup>* (False, ?s3, [], n) (False, drain True True ?s3, [], n)" by (rule logger_drains)
    then show ?thesis using s1 s3 drain_result by (meson rtranclp_trans)
  next
    case Looping
    let ?s4 = "?s3\<lparr>run_phase := Draining\<rparr>"
    have "logger_step (False, ?s3, [], n) (False, ?s4, [], n)" using Looping by (intro run_stop) (simp_all add: close_done_def)
    moreover have "logger_step\<^sup>*\<^sup>* (False, ?s4, [], n) (False, drain True True ?s4, [], n)" by (rule logger_drains) simp
    ultimately show ?thesis using s1 s3 drain_result by (meson rtranclp.rtrancl_into_rtrancl rtranclp_trans)
  qed
qed

lemma one_writer: "logger_step\<^sup>*\<^sup>* (True, newBatchShipper, [], 0) (att, s, ps, n) \<Longrightarrow> length ps \<le> 1"
proof -
  have "length (fst (snd (snd st))) \<le> 1" if "logger_step\<^sup>*\<^sup>* (True, newBatchShipper, [], 0) st" for st
    using that
  proof (induction rule: rtranclp_induct)
    case (step st st')
    from step(2,3) show ?case by (cases rule: logger_step.cases) auto
  qed simp
  from this [of "(att, s, ps, n)"] show "logger_step\<^sup>*\<^sup>* (True, newBatchShipper, [], 0) (att, s, ps, n) \<Longrightarrow> length ps \<le> 1" by simp
qed

text \<open>
  C8. Closing the log never loses an event silently, and it always can complete: from every reachable state of writers, closers and the delivery goroutine there
  is a run to a closed log; and whenever the goroutine has returned, nothing is left in the queue or the batch and every event written has been
  delivered or counted as dropped. The lock is needed for this: without it an event can be lost (\<open>emit_close_race_loses_event\<close>).
\<close>

theorem logger_close_accounts:
  assumes "logger_step\<^sup>*\<^sup>* (True, newBatchShipper, [], 0) (att, s, ps, n)"
  shows "(\<exists>s'. logger_step\<^sup>*\<^sup>* (att, s, ps, n) (False, s', [], n) \<and> run_phase s' = Exited) \<and>
         (run_phase s = Exited \<longrightarrow> ps = [] \<and> queue s = [] \<and> batch s = [] \<and> of_nat n = of_nat (length (sent_ok s)) + dropped s)"
proof -
  note inv = logger_reachable [OF assms]
  then have exited: "run_phase s = Exited \<longrightarrow> closed s \<and> batch s = []" by (auto simp: ship_ok_def bounds_ok_def)
  have "\<exists>s'. logger_step\<^sup>*\<^sup>* (att, s, ps, n) (False, s', [], n) \<and> run_phase s' = Exited"
    by (rule logger_can_close) (use inv exited one_writer [OF assms] in \<open>auto simp: lock_ok_def\<close>)
  moreover have "run_phase s = Exited \<Longrightarrow> ps = [] \<and> queue s = [] \<and> batch s = [] \<and> of_nat n = of_nat (length (sent_ok s)) + dropped s"
    using inv exited by (auto simp: lock_ok_def ship_ok_def count_ok_def)
  ultimately show ?thesis by blast
qed

definition demo_closed :: batchShipper where
  "demo_closed = drain True True ((close_done (snd (close_swap demo_queued)))\<lparr>run_phase := Draining\<rparr>)"

theorem logger_close_accounts_witness:
  "queue demo_closed = [] \<and> 1 = of_nat (length (sent_ok demo_closed)) + dropped demo_closed"
proof -
  let ?s1 = "snd (close_swap demo_queued)" let ?s2 = "close_done ?s1"
  let ?s3 = "?s2\<lparr>run_phase := Draining\<rparr>"
  have "logger_step\<^sup>*\<^sup>* (True, newBatchShipper, [], 0) (True, newBatchShipper, [demo_payload], Suc 0)"
    by (rule r_into_rtranclp, rule write_begin) (simp add: emit_check_def newBatchShipper_def)
  then have "logger_step\<^sup>*\<^sup>* (True, newBatchShipper, [], 0) (True, demo_queued, [], Suc 0)"
    using write_end [of True newBatchShipper demo_payload "Suc 0"]
    by (simp add: demo_queued_def Emit_def emit_check_def newBatchShipper_def rtranclp.rtrancl_into_rtrancl)
  then have "logger_step\<^sup>*\<^sup>* (True, newBatchShipper, [], 0) (False, demo_queued, [], Suc 0)"
    by (rule rtranclp.rtrancl_into_rtrancl) (rule detach)
  then have "logger_step\<^sup>*\<^sup>* (True, newBatchShipper, [], 0) (False, ?s1, [], Suc 0)"
    by (rule rtranclp.rtrancl_into_rtrancl) (rule close_begin)
  then have "logger_step\<^sup>*\<^sup>* (True, newBatchShipper, [], 0) (False, ?s2, [], Suc 0)"
    by (rule rtranclp.rtrancl_into_rtrancl) (rule close_signal, simp add: close_swap_def)
  then have "logger_step\<^sup>*\<^sup>* (True, newBatchShipper, [], 0) (False, ?s3, [], Suc 0)"
    by (rule rtranclp.rtrancl_into_rtrancl) (rule run_stop, simp_all add: close_done_def close_swap_def demo_queued_eval)
  then have "logger_step\<^sup>*\<^sup>* (True, newBatchShipper, [], 0) (False, demo_closed, [], Suc 0)"
    unfolding demo_closed_def by (rule rtranclp_trans) (rule logger_drains, simp)
  from logger_close_accounts [OF this] show ?thesis using drain_result [of True True ?s3] by (simp add: demo_closed_def)
qed

end
