(* ===== verification/AiSpec.thy ===== *)
theory AiSpec
  imports AiSensor EventLogger
begin

text \<open>
  What the AI sensor promises: its nesting check is exactly a bound on the depth of the decoded value, a handler never panics, the text
  it returns stays within the requested budget and the output limit, every stream is framed so that its events can be told apart, and
  nothing a client sends reaches the log beyond constants and counts.
\<close>

section \<open>The nesting check bounds the decoded value\<close>

definition list_max :: "nat list \<Rightarrow> nat" where
  "list_max xs = foldr max xs 0"

lemma list_max_simps [simp]: "list_max [] = 0" "list_max (x # xs) = max x (list_max xs)"
  by (simp_all add: list_max_def)

lemma list_max_append [simp]: "list_max (xs @ ys) = max (list_max xs) (list_max ys)"
  by (induction xs) auto

lemma list_max_rev [simp]: "list_max (rev xs) = list_max xs"
  by (induction xs) (auto simp: max.commute)

fun jdepth :: "json \<Rightarrow> nat" where
  "jdepth (JArr vs) = Suc (list_max (map jdepth vs))"
| "jdepth (JObj ms) = Suc (list_max (map (\<lambda>kv. jdepth (snd kv)) ms))"
| "jdepth _ = 0"

fun frame_depth :: "frame \<Rightarrow> nat" where
  "frame_depth (FKey ms) = list_max (map (\<lambda>kv. jdepth (snd kv)) ms)"
| "frame_depth (FVal ms k) = list_max (map (\<lambda>kv. jdepth (snd kv)) ms)"
| "frame_depth (FArr vs) = list_max (map jdepth vs)"

text \<open>The depth of everything read so far: of the values in the open containers and of the value just completed.\<close>

fun stack_reach :: "frame list \<Rightarrow> nat" where
  "stack_reach [] = 0"
| "stack_reach (f # st) = max (stack_reach st) (Suc (length st + frame_depth f))"

fun mode_reach :: "mode \<Rightarrow> nat \<Rightarrow> nat" where
  "mode_reach (MEnd v) n = n + jdepth v"
| "mode_reach m n = 0"

definition reach :: "scan \<Rightarrow> nat" where
  "reach s = max (stack_reach (snd s)) (mode_reach (fst s) (length (snd s)))"

abbreviation bracket :: "char \<Rightarrow> bool" where
  "bracket c \<equiv> c = CHR 0x22 \<or> c = CHR ''{'' \<or> c = CHR ''['' \<or> c = CHR ''}'' \<or> c = CHR '']''"

text \<open>Only literals are read word by word, and the containers that can still be empty are.\<close>

fun mode_ok :: "scan \<Rightarrow> bool" where
  "mode_ok (MWord w v, st) = (jdepth v = 0 \<and> list_all (\<lambda>c. \<not> bracket c) w)"
| "mode_ok (MBeginOrEmpty, st) = (\<exists>rest. st = FArr [] # rest)"
| "mode_ok (MKeyOrEmpty, st) = (\<exists>rest. st = FKey [] # rest)"
| "mode_ok _ = True"

lemma stack_reach_length: "length st \<le> stack_reach st"
  by (cases st) auto

lemma end_value_reach:
  assumes "end_value v c st = Some s'"
  shows "mode_ok s' \<and> reach s' = max (stack_reach st) (length st + jdepth v)"
  using assms stack_reach_length [of "tl st"]
  by (auto simp: end_value_def reach_def rev_map [symmetric] split: if_splits list.splits frame.splits json.splits)

lemma begin_value_reach:
  assumes "begin_value c m st = Some s'" "mode_ok (m, st)" "m = MBegin \<or> m = MBeginOrEmpty"
  shows "mode_ok s' \<and> reach s' = max (stack_reach st) (length (snd s'))"
  using assms stack_reach_length [of st]
  by (auto simp: begin_value_def push_frame_def reach_def split: if_splits)

lemma scan_char_reach:
  assumes "scan_char c s = Some s'" "mode_ok s"
  shows "mode_ok s' \<and> reach s' = max (reach s) (length (snd s'))"
proof -
  obtain m st where s: "s = (m, st)" by (cases s)
  have end1: "mode_ok s' \<and> reach s' = max (max (stack_reach st) (length st + jdepth v)) (length (snd s'))" if "end_value v c st = Some s'" for v
  proof -
    have "length (snd s') \<le> length st"
      using that by (auto simp: end_value_def split: if_splits list.splits frame.splits json.splits)
    then show ?thesis using end_value_reach [OF that] by auto
  qed
  show ?thesis
  proof (cases m)
    case MBegin
    then show ?thesis using assms s begin_value_reach [of c MBegin st s'] stack_reach_length [of st] by (auto simp: reach_def)
  next
    case MBeginOrEmpty
    then show ?thesis using assms s begin_value_reach [of c MBeginOrEmpty st s'] stack_reach_length [of "tl st"]
      by (auto simp: reach_def split: if_splits list.splits)
  next
    case MKeyOrEmpty
    then show ?thesis using assms s stack_reach_length [of "tl st"] by (auto simp: reach_def begin_key_def split: if_splits list.splits)
  next
    case MKey
    then show ?thesis using assms s stack_reach_length [of st] by (auto simp: reach_def begin_key_def split: if_splits)
  next
    case (MStr acc)
    then show ?thesis using assms s stack_reach_length [of st] by (auto simp: reach_def split: if_splits)
  next
    case (MEsc acc)
    then show ?thesis using assms s stack_reach_length [of st] by (auto simp: reach_def split: if_splits)
  next
    case (MEscU n acc)
    then show ?thesis using assms s stack_reach_length [of st] by (auto simp: reach_def split: if_splits)
  next
    case (MWord w v)
    then show ?thesis using assms s stack_reach_length [of st] by (auto simp: reach_def split: if_splits list.splits)
  next
    case (MNum q acc)
    then show ?thesis using assms s end1 [of "JNum (rev acc)"] stack_reach_length [of st] by (auto simp: reach_def split: if_splits option.splits)
  next
    case (MEnd v)
    then show ?thesis using assms s end1 [of v] by (auto simp: reach_def)
  qed
qed

fun in_string :: "mode \<Rightarrow> bool" where
  "in_string (MStr acc) = True"
| "in_string (MEsc acc) = True"
| "in_string (MEscU n acc) = True"
| "in_string _ = False"

definition depth_sim :: "scan \<Rightarrow> depthScan \<Rightarrow> bool" where
  "depth_sim s d \<longleftrightarrow> depth d = int (length (snd s)) \<and> quoted d = in_string (fst s) \<and> escaped d = (\<exists>acc. fst s = MEsc acc)"


lemma depth_sim_outside:
  assumes "depth_sim (m, st) d" "\<not> in_string m" "length st \<le> maxDepth"
  shows "\<not> bracket c \<Longrightarrow> \<not> in_string m' \<Longrightarrow> length st' = length st \<Longrightarrow> \<exists>d'. depth_char c d = Some d' \<and> depth_sim (m', st') d'"
    and "\<exists>d'. depth_char (CHR 0x22) d = Some d' \<and> depth_sim (MStr acc, st) d'"
    and "\<not> in_string m' \<Longrightarrow> c = CHR ''}'' \<or> c = CHR '']'' \<Longrightarrow> st = f # st' \<Longrightarrow> \<exists>d'. depth_char c d = Some d' \<and> depth_sim (m', st') d'"
    and "\<not> in_string m' \<Longrightarrow> c = CHR ''{'' \<or> c = CHR ''['' \<Longrightarrow>
      (if length st < maxDepth then \<exists>d'. depth_char c d = Some d' \<and> depth_sim (m', f # st) d' else depth_char c d = None)"
  using assms by (auto simp: depth_sim_def depth_char_def)

definition depth_agrees :: "char \<Rightarrow> depthScan \<Rightarrow> scan \<Rightarrow> bool" where
  "depth_agrees c d s' \<longleftrightarrow>
     (if length (snd s') \<le> maxDepth then \<exists>d'. depth_char c d = Some d' \<and> depth_sim s' d' else depth_char c d = None)"

lemma end_value_agrees:
  assumes "end_value v c st = Some s'" "depth_sim (m, st) d" "\<not> in_string m" "length st \<le> maxDepth"
  shows "depth_agrees c d s'"
proof -
  note sim = depth_sim_outside [OF assms(2,3,4)]
  show ?thesis
    using assms(1,4) sim(1) [of c] sim(3) [of _ c]
    by (auto simp: end_value_def depth_agrees_def json_space_def split: if_splits list.splits frame.splits json.splits)
qed

lemma begin_value_agrees:
  assumes "begin_value c m' st = Some s'" "\<not> in_string m'" "depth_sim (m, st) d" "\<not> in_string m" "length st \<le> maxDepth"
  shows "depth_agrees c d s'"
proof -
  note sim = depth_sim_outside [OF assms(3,4,5)]
  have "is_digit c \<Longrightarrow> \<not> bracket c" by (auto simp: is_digit_def)
  then show ?thesis
    using assms(1,2,5) sim(1) [of c _ st] sim(2) sim(4) [of _ c] unfolding begin_value_def push_frame_def depth_agrees_def
    by (auto simp: json_space_def split: if_splits)
qed

lemma scan_char_agrees:
  assumes "scan_char c s = Some s'" "mode_ok s" "depth_sim s d" "length (snd s) \<le> maxDepth"
  shows "depth_agrees c d s'"
proof -
  obtain m st where s: "s = (m, st)" by (cases s)
  have sim: "depth_sim (m, st) d" and len: "length st \<le> maxDepth" using assms s by auto
  note out = depth_sim_outside [OF sim _ len]
  show ?thesis
  proof (cases m)
    case MBegin
    then show ?thesis using assms(1) s begin_value_agrees [of c MBegin st s' m d] sim len by simp
  next
    case MBeginOrEmpty
    then show ?thesis using assms(1,2) s begin_value_agrees [of c MBeginOrEmpty st s' m d] sim len out(3) [of _ c]
      by (auto simp: depth_agrees_def split: if_splits)
  next
    case MKeyOrEmpty
    then show ?thesis using assms(1,2) s len out(1) [of c MKeyOrEmpty st] out(2) out(3) [of _ c]
      by (auto simp: depth_agrees_def begin_key_def json_space_def split: if_splits)
  next
    case MKey
    then show ?thesis using assms(1) s len out(1) [of c MKey st] out(2)
      by (auto simp: depth_agrees_def begin_key_def json_space_def split: if_splits)
  next
    case (MStr acc)
    then show ?thesis using assms(1) s sim len by (auto simp: depth_agrees_def depth_sim_def depth_char_def split: if_splits)
  next
    case (MEsc acc)
    then show ?thesis using assms(1) s sim len by (auto simp: depth_agrees_def depth_sim_def depth_char_def split: if_splits)
  next
    case (MEscU n acc)
    moreover have "is_hex_char c \<Longrightarrow> c \<noteq> CHR 0x22 \<and> c \<noteq> CHR 0x5C" by (auto simp: is_hex_char_def hex_value_def less_eq_char_def)
    ultimately show ?thesis using assms(1) s sim len by (auto simp: depth_agrees_def depth_sim_def depth_char_def split: if_splits)
  next
    case (MWord w v)
    obtain x xs where w: "w = x # xs" using assms(1) s MWord by (cases w) simp_all
    let ?m = "if xs = [] then MEnd v else MWord xs v"
    have "s' = (?m, st)" "c = x" using assms(1) unfolding s MWord w by (simp_all split: if_splits)
    moreover have "\<not> bracket x" using assms(2) unfolding s MWord w by simp
    moreover have "\<not> in_string ?m" "\<not> in_string m" using MWord by simp_all
    ultimately show ?thesis using out(1) [of c ?m st] len unfolding depth_agrees_def by (simp only: snd_conv if_True simp_thms)
  next
    case (MNum q acc)
    have "bracket c \<Longrightarrow> num_next q c = None"
      by (elim disjE; cases q) (simp_all add: num_next_def is_digit_def)
    then have go_on: "num_next q c = Some q' \<Longrightarrow> \<exists>d'. depth_char c d = Some d' \<and> depth_sim (MNum q' (c # acc), st) d'" for q'
      using out(1) [of c "MNum q' (c # acc)" st] MNum by fastforce
    show ?thesis using MNum assms(1) s end_value_agrees [of "JNum (rev acc)" c st s' m d] sim len go_on
      by (auto simp: depth_agrees_def split: option.splits if_splits)
  next
    case (MEnd v)
    then show ?thesis using assms(1) s end_value_agrees [of v c st s' m d] sim len by simp
  qed
qed

lemma scan_all_reach: "scan_all cs s = Some s' \<Longrightarrow> mode_ok s \<Longrightarrow> reach s \<le> reach s'"
proof (induction cs arbitrary: s)
  case (Cons c cs)
  then obtain t where t: "scan_char c s = Some t" "scan_all cs t = Some s'" by (auto split: option.splits)
  then show ?case using Cons.IH [of t] scan_char_reach [OF t(1) Cons.prems(2)] by simp
qed simp

lemma depth_scan_reach:
  "scan_all cs s = Some s' \<Longrightarrow> mode_ok s \<Longrightarrow> depth_sim s d \<Longrightarrow> reach s \<le> maxDepth \<Longrightarrow> depth_scan cs d \<noteq> None \<longleftrightarrow> reach s' \<le> maxDepth"
proof (induction cs arbitrary: s d)
  case (Cons c cs)
  then obtain t where t: "scan_char c s = Some t" "scan_all cs t = Some s'" by (auto split: option.splits)
  note r = scan_char_reach [OF t(1) Cons.prems(2)]
  have "length (snd s) \<le> maxDepth" using Cons.prems(4) stack_reach_length [of "snd s"] by (simp add: reach_def)
  then have agree: "depth_agrees c d t" using scan_char_agrees [OF t(1) Cons.prems(2,3)] by simp
  show ?case
  proof (cases "length (snd t) \<le> maxDepth")
    case True
    then obtain d' where "depth_char c d = Some d'" "depth_sim t d'" using agree by (auto simp: depth_agrees_def)
    then show ?thesis using Cons.IH [OF t(2), of d'] r True Cons.prems(4) by simp
  next
    case False
    then have "\<not> reach s' \<le> maxDepth" using r scan_all_reach [OF t(2)] by simp
    moreover have "depth_char c d = None" using False agree by (simp add: depth_agrees_def)
    ultimately show ?thesis by simp
  qed
qed simp

lemma scan_result_reach:
  "scan_result s = Some v \<Longrightarrow> mode_ok s \<Longrightarrow> reach s = jdepth v"
  by (auto simp: scan_result_def reach_def split: prod.splits mode.splits list.splits if_splits)

lemma depth_scan_iff:
  assumes "json_parse body = Some j"
  shows "depth_scan body \<lparr>depth = 0, quoted = False, escaped = False\<rparr> \<noteq> None \<longleftrightarrow> jdepth j \<le> maxDepth"
proof -
  obtain s where s: "scan_all body (MBegin, []) = Some s" "scan_result s = Some j"
    using assms by (auto simp: json_parse_def bind_eq_Some_conv)
  have run: "scan_all cs t = Some t' \<Longrightarrow> mode_ok t \<Longrightarrow> mode_ok t'" for cs t t'
    by (induction cs arbitrary: t) (auto dest!: scan_char_reach split: option.splits)
  have "reach s = jdepth j" using s run [OF s(1)] by (intro scan_result_reach) auto
  moreover have "depth_sim (MBegin, []) \<lparr>depth = 0, quoted = False, escaped = False\<rparr>" by (simp add: depth_sim_def)
  ultimately show ?thesis using depth_scan_reach [OF s(1)] by (simp add: reach_def)
qed

text \<open>
  C29. The scan for brackets that guards the decoder is exactly a bound of 32 on the nesting of the request: a body is accepted if and
  only if it is valid JSON for an object of depth at most 32, whatever brackets, quotes and escapes its strings contain.
\<close>

theorem decode_is_bounded_parse:
  "decode body =
     (case json_parse body of
        None \<Rightarrow> None
      | Some j \<Rightarrow> if jdepth j \<le> maxDepth then (case to_any j of Some (GMap req) \<Rightarrow> Some req | _ \<Rightarrow> None) else None)"
proof (cases "json_parse body")
  case None
  then show ?thesis by (simp add: decode_def unmarshal_object_def unmarshal_any_def split: option.splits)
next
  case (Some j)
  then show ?thesis using depth_scan_iff [OF Some]
    by (auto simp: decode_def unmarshal_object_def unmarshal_any_def split: option.splits gval.splits)
qed
section \<open>The budget\<close>

lemma positive_limit_range:
  assumes "positive_limit raw = Some n"
  shows "1 \<le> n \<and> n \<le> 32768"
proof -
  obtain m e where raw: "raw = GFloat m e" using assms by (auto simp: positive_limit_def split: gval.splits)
  then have n: "\<not> float_less_int m e 1" "float_less_int m e 32768 \<or> float_is_int m e 32768" "float_is_int m e n"
    using assms by (auto simp: positive_limit_def Let_def split: if_splits)
  show ?thesis
  proof (cases "0 \<le> e")
    case True
    then show ?thesis using n by (auto simp: float_less_int_def float_is_int_def)
  next
    case False
    have p: "(0 :: int) < 10 ^ nat (- e)" by simp
    have "m = n * 10 ^ nat (- e)" "\<not> m < 1 * 10 ^ nat (- e)" "m \<le> 32768 * 10 ^ nat (- e)"
      using n False by (auto simp: float_less_int_def float_is_int_def)
    then show ?thesis using p by (metis mult_le_cancel_right not_le less_asym mult_1)
  qed
qed

lemma limit_budget_bound:
  assumes "limit_budget keys req b = Some b'" "1 \<le> b"
  shows "1 \<le> b' \<and> b' \<le> b \<and> (\<forall>key \<in> set keys. has_key req key \<longrightarrow> (\<exists>n. positive_limit (gget req key) = Some n \<and> b' \<le> n))
    \<and> (b' = b \<or> (\<exists>key \<in> set keys. has_key req key \<and> positive_limit (gget req key) = Some b'))"
  using assms
proof (induction keys arbitrary: b)
  case (Cons key keys)
  show ?case
  proof (cases "has_key req key")
    case True
    then obtain n where n: "positive_limit (gget req key) = Some n" "limit_budget keys req (if n < b then n else b) = Some b'"
      using Cons.prems(1) by (auto split: option.splits)
    moreover have "1 \<le> (if n < b then n else b)" using positive_limit_range [OF n(1)] Cons.prems(2) by simp
    ultimately show ?thesis using Cons.IH [of "if n < b then n else b"] True by (auto split: if_splits)
  next
    case False
    then show ?thesis using Cons by auto
  qed
qed auto

lemma predict_budget_bound:
  assumes "predict_budget req b = Some b'" "1 \<le> b"
  shows "1 \<le> b' \<and> b' \<le> b \<and>
    (\<forall>opts m e. gget req ''options'' = GMap opts \<longrightarrow> gget opts ''num_predict'' = GFloat m e \<longrightarrow> float_above m e 0 \<longrightarrow> b' \<le> float_to_int m e)"
proof -
  have pos: "1 \<le> k" if "float_is_int m e k" "float_above m e 0" for m e k
    using that by (cases "0 \<le> e") (auto simp: float_is_int_def float_less_int_def not_less mult_less_0_iff zero_le_mult_iff)
  have key: "has_key opts ''num_predict''" if "gget opts ''num_predict'' = GFloat m e" for opts m e
    using that by (auto simp: gget_def has_key_def split: option.splits)
  show ?thesis
    using assms unfolding predict_budget_def
    by (auto simp: Let_def split: gval.splits if_splits dest: pos key)
qed
text \<open>
  C30. The generated text is the first \<open>tokens\<close> chunks of the canned answer, never empty and never more than the nine there are, and no
  limit the client sets on the length of the answer is exceeded: neither the three positive limits nor Ollama's \<^verbatim>\<open>num_predict\<close>. A
  limit that is no integer of the accepted range is refused.
\<close>

theorem generated_text_within_budget:
  assumes "generatedText req = Some (textValue, tokens)"
  shows "textValue = concat (take (nat tokens) chunks) \<and> 1 \<le> tokens \<and> tokens \<le> int (length chunks)
    \<and> (\<forall>key \<in> set limit_keys. has_key req key \<longrightarrow> (\<exists>n. positive_limit (gget req key) = Some n \<and> tokens \<le> n))
    \<and> (\<forall>opts m e. gget req ''options'' = GMap opts \<longrightarrow> gget opts ''num_predict'' = GFloat m e \<longrightarrow> float_above m e 0 \<longrightarrow>
         tokens \<le> float_to_int m e)"
proof -
  obtain b where b: "limit_budget limit_keys req (int (length chunks)) = Some b" "predict_budget req b = Some tokens"
    "textValue = concat (take (nat tokens) chunks)"
    using assms by (auto simp: generatedText_def split: option.splits)
  have "1 \<le> int (length chunks)" by (simp add: chunks_def)
  note l = limit_budget_bound [OF b(1) this]
  then have "1 \<le> b" by blast
  note p = predict_budget_bound [OF b(2) this]
  show ?thesis using b(3) l p by (meson order_trans)
qed

theorem generated_text_within_budget_witness:
  "generatedText [(''max_tokens'', GFloat 2 0)] = Some (''Hello!'', 2) \<and> (2 :: int) \<le> int (length chunks)"
proof -
  have g: "generatedText [(''max_tokens'', GFloat 2 0)] = Some (''Hello!'', 2)"
    by (simp add: generatedText_def limit_keys_def has_key_def gget_def positive_limit_def float_to_int_def float_trunc_def float_less_int_def
        float_is_int_def predict_budget_def chunks_def Let_def)
  show ?thesis using g generated_text_within_budget [OF g] by simp
qed

section \<open>No panic\<close>

lemma valid_messages_total: "list_all is_object items \<Longrightarrow> valid_messages items \<noteq> None"
  by (induction items) (auto simp: is_object_def validMessage_def Let_def split: gval.splits)

lemma itemCount_objects:
  assumes "itemCount req key required = Some n"
  shows "list_all is_object (objectList (gget req key)) \<and> n \<le> maxItems"
  using assms
  by (cases "gget req key")
    (auto simp: itemCount_def objectList_def has_key_def gget_def split: if_splits option.splits)

lemma validMessages_total: "itemCount req ''messages'' True = Some n \<Longrightarrow> validMessages req \<noteq> None"
  unfolding validMessages_def by (intro valid_messages_total) (simp add: itemCount_objects)

definition answer_ok :: "result \<Rightarrow> bool" where
  "answer_ok res \<longleftrightarrow> a_outcome res \<in> {[], ''refused''} \<and>
     (a_detail res = [] \<or> (\<exists>messages tools stream. messages \<le> maxItems \<and> tools \<le> maxItems \<and> a_detail res = request_text messages tools stream))"

named_theorems ai_log \<open>outcome and detail of each reply\<close>

lemma failure_log [ai_log]: "a_outcome (failure profile code message) = []" "a_detail (failure profile code message) = []"
  by (simp_all add: failure_def jsonResult_def Let_def)

lemma replies_log [ai_log]:
  "a_outcome (jsonResult code v) = []" "a_detail (jsonResult code v) = []" "a_outcome (sse events) = []" "a_outcome (ndjson objects) = []"
  "a_outcome (discovery path) = []" "a_detail (discovery path) = []"
  by (simp_all add: jsonResult_def sse_def ndjson_def discovery_def failure_log)

lemma answer_log [ai_log]: "a_outcome (answer clk path profile name ident stream req textValue tokens) = []"
  by (simp add: answer_def ollamaReply_def chatReply_def responsesReply_def anthropicReply_def ai_log Let_def)

lemma finish_reply_ok: "messages \<le> maxItems \<Longrightarrow> tools \<le> maxItems \<Longrightarrow> answer_ok (fst (finish_reply clk path profile name req messages tools stream ids))"
  by (auto simp: finish_reply_def answer_ok_def ai_log Let_def split: option.split prod.split)

lemma failure_ok: "answer_ok (failure profile code message)"
  by (simp add: answer_ok_def ai_log)

lemma checked_messages_total: "\<exists>counted. checked_messages path req = Some counted \<and> (\<forall>n. counted = Some n \<longrightarrow> n \<le> maxItems)"
proof (cases "takes_messages path")
  case True
  show ?thesis
  proof (cases "itemCount req ''messages'' True")
    case (Some n)
    then obtain ok where "validMessages req = Some ok" using validMessages_total [OF Some] by blast
    then show ?thesis using True Some itemCount_objects [OF Some] by (simp add: checked_messages_def)
  qed (use True in \<open>simp add: checked_messages_def\<close>)
qed (simp add: checked_messages_def)

lemma inference_ok: "\<exists>out. inference clk path profile name req ids = Some out \<and> answer_ok (fst out)"
proof -
  obtain counted where "checked_messages path req = Some counted" "\<And>n. counted = Some n \<Longrightarrow> n \<le> maxItems"
    using checked_messages_total by blast
  then show ?thesis
    using itemCount_objects [of req "''tools''" False] finish_reply_ok failure_ok unfolding inference_def
    by (cases "streamFlag req (has_prefix path ''/api/'')"; cases "itemCount req ''tools'' False"; cases counted) simp_all
qed

lemma respond_answers: "\<exists>out. respond clk path profile req ids = Some out \<and> answer_ok (fst out)"
proof -
  have "answer_ok show_reply" by (simp add: show_reply_def answer_ok_def ai_log)
  then show ?thesis using inference_ok failure_ok by (auto simp: respond_def split: option.split)
qed

section \<open>What reaches the log\<close>

definition ai_methods :: "string list" where
  "ai_methods = [''GET'', ''HEAD'', ''POST'', ''DELETE'', ''PUT'', ''PATCH'', ''OPTIONS'', ''OTHER'']"

definition ai_paths :: "string list" where
  "ai_paths = [''/'', ''/api/version'', ''/api/tags'', ''/api/ps'', ''/v1/models'', ''/api/show'', ''/api/chat'', ''/v1/chat/completions'', ''/v1/messages'',
     ''/api/generate'', ''/v1/responses'', ''/v1/messages/count_tokens'', ''/api/pull'', ''/api/push'', ''/api/create'', ''/api/copy'', ''/api/delete'', ''/unknown'']"

definition ai_actions :: "string list" where
  "ai_actions = [''health'', ''version'', ''models.list'', ''models.inspect'', ''inference.chat'', ''inference.generate'', ''inference.responses'',
     ''tokens.count'', ''models.modify'', ''unknown'']"

lemma route_known: "logPath path \<in> set ai_paths \<and> snd (route path) \<in> set ai_actions"
  by (simp add: logPath_def route_def ai_paths_def ai_actions_def)

lemma logMethod_known: "logMethod m \<in> set ai_methods"
  by (simp add: logMethod_def ai_methods_def)

lemma serve_work_ok: "\<exists>res received ids. serve_work r s = Some ((res, received), ids) \<and> answer_ok res"
proof -
  obtain expected action where route: "route (aq_Path r) = (expected, action)" by (cases "route (aq_Path r)")
  have "answer_ok (failure profile code message)" "answer_ok (discovery path)" "answer_ok ((failure profile code message)\<lparr>a_outcome := ''refused''\<rparr>)"
    for profile code message path by (simp_all add: answer_ok_def ai_log)
  moreover have "\<exists>res received ids. map_option (\<lambda>(res, ids). ((res, body_read r), ids))
      (respond (aq_clock r) (aq_Path r) (profileFor (aq_Path r)) req (ai_ids s)) = Some ((res, received), ids) \<and> answer_ok res" for req
    using respond_answers [of "aq_clock r" "aq_Path r" "profileFor (aq_Path r)" req "ai_ids s"] by auto
  ultimately show ?thesis
    unfolding serve_work_def Let_def route prod.case by (simp split: option.split)
qed

lemma serve_result_ok: "\<exists>res received ids. serve_result ss r s = Some ((res, received), ids) \<and> answer_ok res"
proof -
  have "answer_ok (failure profile code message)" for profile code message by (simp add: answer_ok_def ai_log)
  moreover have "admission_error ss r = Some res \<Longrightarrow> answer_ok res" for res
    by (auto simp: admission_error_def answer_ok_def ai_log Let_def split: if_splits)
  ultimately show ?thesis using serve_work_ok [of r s] by (auto simp: serve_result_def split: option.split)
qed

lemma bounded_result_ok:
  assumes "answer_ok res" "bounded_result profile res = (res', outcome)"
  shows "answer_ok res' \<and> outcome \<in> {''simulated'', ''rejected'', ''refused''} \<and> output_size res' \<le> maxOutput \<or> res' = failure profile 500 ''response unavailable''
    \<and> outcome = ''rejected''"
  using assms by (auto simp: bounded_result_def base_outcome_def answer_ok_def split: if_splits)

text \<open>
  The handler never panics, and whatever a client sends (paths, methods, headers, tokens, prompts, model and tool names) the event of its
  request holds only constants and counts: a method of a fixed list or \<^verbatim>\<open>OTHER\<close>, a known route or \<^verbatim>\<open>/unknown\<close>, its action, one of three
  profiles, one of four outcomes, and a detail that is empty or two counts of at most 128 and a flag.
\<close>

lemma ai_log_constants:
  "\<exists>event s'. ai_ServeHTTP ss r ios s = Some (event, s') \<and> e_Method event \<in> set ai_methods \<and> e_Path event \<in> set ai_paths
    \<and> e_Action event \<in> set ai_actions \<and> e_Profile event \<in> {''anthropic'', ''openai'', ''ollama''}
    \<and> e_Outcome event \<in> {''simulated'', ''rejected'', ''refused'', ''interrupted''}
    \<and> (e_Detail event = [] \<or> (\<exists>messages tools stream. messages \<le> maxItems \<and> tools \<le> maxItems \<and> e_Detail event = request_text messages tools stream))
    \<and> e_Target event = [] \<and> e_UserAgent event = [] \<and> e_SessionID event = (case ss of Some c \<Rightarrow> ss_id c | None \<Rightarrow> [])"
proof -
  obtain res received ids where run: "serve_result (map_option count_request ss) r s = Some ((res, received), ids)" "answer_ok res"
    using serve_result_ok by blast
  obtain res' outcome where b: "bounded_result (profileFor (aq_Path r)) res = (res', outcome)" by (metis prod.exhaust)
  have fine: "outcome \<in> {''simulated'', ''rejected'', ''refused''}" "a_detail res' = [] \<or> (\<exists>messages tools stream. messages \<le> maxItems \<and> tools \<le> maxItems
      \<and> a_detail res' = request_text messages tools stream)"
    using bounded_result_ok [OF run(2) b] by (auto simp: answer_ok_def failure_log)
  obtain sent broken where w: "(if aq_Method r = ''HEAD'' then (0, False) else write_frames (streams res') (a_frames res') ios) = (sent, broken)"
    by (metis prod.exhaust)
  let ?e = "ai_event r (case ss of Some c \<Rightarrow> ss_id c | None \<Rightarrow> []) res received ios"
  have serve: "ai_ServeHTTP ss r ios s = Some (?e, s\<lparr>ai_ids := ids\<rparr>)" using run(1) by (simp add: ai_ServeHTTP_def Let_def)
  have "e_Method ?e = logMethod (aq_Method r)" "e_Path ?e = logPath (aq_Path r)" "e_Action ?e = snd (route (aq_Path r))"
    "e_Profile ?e = profileFor (aq_Path r)" "e_Outcome ?e = (if broken then ''interrupted'' else outcome)" "e_Detail ?e = a_detail res'"
    "e_Target ?e = []" "e_UserAgent ?e = []" "e_SessionID ?e = (case ss of Some c \<Rightarrow> ss_id c | None \<Rightarrow> [])"
    unfolding ai_event_def Let_def b prod.case w by simp_all
  moreover have "profileFor (aq_Path r) \<in> {''anthropic'', ''openai'', ''ollama''}" by (simp add: profileFor_def)
  moreover have "(if broken then ''interrupted'' else outcome) \<in> {''simulated'', ''rejected'', ''refused'', ''interrupted''}" using fine(1) by auto
  ultimately show ?thesis
    using serve route_known [of "aq_Path r"] logMethod_known [of "aq_Method r"] fine(2) by (intro exI conjI) (assumption | simp)+
qed
section \<open>Event streams\<close>

lemma pad_nat_line: "nl \<notin> set (pad_nat w n)"
  using show_nat_line [of n] by (auto simp: pad_nat_def)

lemma number_text_line: "nl \<notin> set (number_text m e)"
proof -
  have sub: "nl \<notin> set (take k (show_nat a))" "nl \<notin> set (drop k (show_nat a))" "nl \<notin> set (tl (show_nat a))" "hd (show_nat a) \<noteq> nl" for k a
    using show_nat_line [of a] hd_in_set [OF show_nat_nonempty, of a] in_set_takeD in_set_dropD list.set_sel(2) [OF show_nat_nonempty]
    by metis+
  then have fixed: "nl \<notin> set (fixed_text a x)" for a x using show_nat_line [of a] by (auto simp: fixed_text_def Let_def)
  have exp: "nl \<notin> set (exp_text w a x)" for w a x
    using sub(3,4) [of a] pad_nat_line by (auto simp: exp_text_def Let_def)
  show ?thesis unfolding number_text_def using fixed exp show_int_line by (auto simp: Let_def split: prod.split)
qed

lemma marshal_line: "nl \<notin> set (marshal v)"
proof (induction v)
  case (GList vs)
  then have "nl \<notin> set (go_join '','' (map marshal vs))" by (intro join_line) (simp_all add: list_all_iff)
  then show ?case by simp
next
  case (GStrs ss)
  have "nl \<notin> set (go_join '','' (map json_quote ss))" by (intro join_line) (simp_all add: list_all_iff json_quote_line)
  then show ?case by simp
next
  case (GMap m)
  then have "nl \<notin> set (go_join '','' (map (\<lambda>(k, v). json_quote k @ '':'' @ marshal v) (sort_key fst m)))"
    by (intro join_line) (auto simp: list_all_iff json_quote_line)
  then show ?case unfolding marshal.simps json_object_map by simp
next
  case (GStrMap m)
  have "nl \<notin> set (go_join '','' (map (\<lambda>(k, v). json_quote k @ '':'' @ json_quote v) (sort_key fst m)))"
    by (intro join_line) (auto simp: list_all_iff json_quote_line)
  then show ?case unfolding marshal.simps json_object_map by simp
qed (simp_all add: number_text_line json_quote_line)

text \<open>How a client reads a stream: a blank line ends an event, \<^verbatim>\<open>event: \<close> names it, \<^verbatim>\<open>data: \<close> carries its data; an event
  without data is no event.\<close>

fun read_events :: "string list \<Rightarrow> string option \<Rightarrow> string list \<Rightarrow> (string option \<times> string list) list" where
  "read_events [] kind data = []"
| "read_events (line # lines) kind data =
     (if line = [] then (if data = [] then [] else [(kind, data)]) @ read_events lines None []
      else if has_prefix line ''event: '' then read_events lines (Some (trim_prefix line ''event: '')) data
      else if has_prefix line ''data: '' then read_events lines kind (data @ [trim_prefix line ''data: ''])
      else read_events lines kind data)"

definition event_kind :: "gobj \<Rightarrow> string option" where
  "event_kind event = as_string (gget event ''type'')"

lemma read_data_line: "read_events ((''data: '' @ t) # [] # lines) kind [] = (kind, [t]) # read_events lines None []"
  using has_prefix_append [of "''data: ''" t] trim_prefix_append [of "''data: ''" t] by (simp add: has_prefix_def [of _ "''event: ''"])

lemma read_event_line: "read_events ((''event: '' @ k) # lines) kind data = read_events lines (Some k) data"
  using has_prefix_append [of "''event: ''" k] trim_prefix_append [of "''event: ''" k] by simp

lemma split_line: "nl \<notin> set a \<Longrightarrow> go_split nl (a @ nl # b) = a # go_split nl b"
  by (simp add: go_split_append_sep go_split_no_occ)

lemma read_frame:
  assumes "list_all (\<lambda>k. nl \<notin> set k) (case event_kind event of Some k \<Rightarrow> [k] | None \<Rightarrow> [])"
  shows "read_events (go_split nl (sse_frame event @ rest)) None [] = (event_kind event, [marshal (GMap event)]) # read_events (go_split nl rest) None []"
proof -
  let ?j = "marshal (GMap event)"
  have data: "go_split nl ((''data: '' @ ?j) @ nl # [] @ nl # rest) = (''data: '' @ ?j) # [] # go_split nl rest"
    using marshal_line [of "GMap event"] by (subst split_line, simp)+ simp
  show ?thesis
  proof (cases "event_kind event")
    case None
    then have "sse_frame event @ rest = (''data: '' @ ?j) @ nl # [] @ nl # rest"
      by (simp add: sse_frame_def event_kind_def as_string_def split: gval.splits)
    then show ?thesis using None data read_data_line by metis
  next
    case (Some k)
    then have f: "sse_frame event @ rest = (''event: '' @ k) @ nl # ((''data: '' @ ?j) @ nl # [] @ nl # rest)"
      by (simp add: sse_frame_def event_kind_def as_string_def split: gval.splits)
    have k: "nl \<notin> set (''event: '' @ k)" using assms Some by simp
    have "go_split nl (sse_frame event @ rest) = (''event: '' @ k) # (''data: '' @ ?j) # [] # go_split nl rest"
      unfolding f split_line [OF k] data by (rule refl)
    then show ?thesis using Some read_event_line read_data_line by metis
  qed
qed

text \<open>
  A client that reads a server-sent-event stream of the sensor line by line gets back exactly the events that were sent, in order, each
  with its name and its complete JSON text, whatever text the events carry.
\<close>

lemma stream_framed:
  assumes "list_all (\<lambda>event. nl \<notin> set (case event_kind event of Some k \<Rightarrow> k | None \<Rightarrow> [])) events"
  shows "read_events (go_split nl (concat (a_frames (sse events)))) None [] = map (\<lambda>event. (event_kind event, [marshal (GMap event)])) events"
  using assms
proof (induction events)
  case Nil
  show ?case by (simp add: sse_def)
next
  case (Cons event events)
  have "list_all (\<lambda>k. nl \<notin> set k) (case event_kind event of Some k \<Rightarrow> [k] | None \<Rightarrow> [])"
    using Cons.prems by (simp split: option.splits)
  from read_frame [OF this, of "concat (a_frames (sse events))"] Cons show ?case by (simp add: sse_def)
qed

lemma stream_framed_example:
  "read_events (go_split nl (concat (a_frames (sse [[(''type'', GStr ''message_stop'')], [(''x'', GStr [nl])]])))) None []
    = [(Some ''message_stop'', [marshal (GMap [(''type'', GStr ''message_stop'')])]), (None, [marshal (GMap [(''x'', GStr [nl])])])]"
proof -
  have k: "event_kind [(''type'', GStr ''message_stop'')] = Some ''message_stop''" "event_kind [(''x'', GStr [nl])] = None"
    by (simp_all add: event_kind_def gget_def as_string_def)
  then show ?thesis using stream_framed [of "[[(''type'', GStr ''message_stop'')], [(''x'', GStr [nl])]]"] by simp
qed

section \<open>Capacity\<close>

text \<open>
  The requests a sensor works on at once. A connection opens a session; \<open>arrive\<close> runs a request up to the \<^verbatim>\<open>select\<close> on the semaphore, where it is
  answered at once (\<open>refused\<close>) or goes on holding a slot; \<open>leave\<close> is the deferred receive. \<open>handled\<close> counts the requests of each session
  that got past the session limit.
\<close>

record aiServer =
  sv_sensor :: aiSensor
  sv_active :: nat
  sv_sessions :: "(nat \<times> session) list"
  sv_handled :: "nat \<Rightarrow> nat"

inductive ai_step :: "aiServer \<Rightarrow> aiServer \<Rightarrow> bool" where
  connect: "new_session (sv_sensor v) = (ss, s') \<Longrightarrow> k \<notin> fst ` set (sv_sessions v) \<Longrightarrow>
    ai_step v (v\<lparr>sv_sensor := s', sv_sessions := (k, ss) # sv_sessions v\<rparr>)"
| refused: "map_of (sv_sessions v) k = Some ss \<Longrightarrow> admission_error (Some (count_request ss)) r \<noteq> None \<or> workSlots \<le> ai_work (sv_sensor v) \<Longrightarrow>
    handled = (if maxRequests < ss_requests (count_request ss) then sv_handled v else (sv_handled v)(k := sv_handled v k + 1)) \<Longrightarrow>
    ai_step v (v\<lparr>sv_sessions := AList.update k (count_request ss) (sv_sessions v), sv_handled := handled\<rparr>)"
| arrive: "map_of (sv_sessions v) k = Some ss \<Longrightarrow> admission_error (Some (count_request ss)) r = None \<Longrightarrow> ai_work (sv_sensor v) < workSlots \<Longrightarrow>
    ai_step v (v\<lparr>sv_sensor := (sv_sensor v)\<lparr>ai_work := ai_work (sv_sensor v) + 1\<rparr>, sv_active := sv_active v + 1,
      sv_sessions := AList.update k (count_request ss) (sv_sessions v), sv_handled := (sv_handled v)(k := sv_handled v k + 1)\<rparr>)"
| leave: "0 < sv_active v \<Longrightarrow> 0 < ai_work (sv_sensor v) \<Longrightarrow>
    ai_step v (v\<lparr>sv_sensor := (sv_sensor v)\<lparr>ai_work := ai_work (sv_sensor v) - 1, ai_ids := ids\<rparr>, sv_active := sv_active v - 1\<rparr>)"

definition handled_ok :: "(nat \<Rightarrow> session option) \<Rightarrow> (nat \<Rightarrow> nat) \<Rightarrow> bool" where
  "handled_ok sessions handled \<longleftrightarrow> (\<forall>k. handled k = (case sessions k of Some ss \<Rightarrow> min maxRequests (ss_requests ss) | None \<Rightarrow> 0))"

definition server_ok :: "aiServer \<Rightarrow> bool" where
  "server_ok v \<longleftrightarrow> ai_work (sv_sensor v) = sv_active v \<and> sv_active v \<le> workSlots \<and> handled_ok (map_of (sv_sessions v)) (sv_handled v)"

lemma handled_ok_update:
  "handled_ok sessions handled \<Longrightarrow> n = min maxRequests (ss_requests ss) \<Longrightarrow> handled_ok (sessions(k \<mapsto> ss)) (handled(k := n))"
  by (simp add: handled_ok_def)

lemma handled_ok_at: "handled_ok sessions handled \<Longrightarrow> sessions k = Some ss \<Longrightarrow> handled k = min maxRequests (ss_requests ss)"
  by (simp add: handled_ok_def)

lemma admitted_count: "admission_error (Some ss) r = None \<Longrightarrow> ss_requests ss \<le> maxRequests"
  by (auto simp: admission_error_def Let_def split: if_splits)

lemma server_ok_step: "ai_step v v' \<Longrightarrow> server_ok v \<Longrightarrow> server_ok v'"
proof (induction rule: ai_step.induct)
  case (connect v ss s' k)
  have "sv_handled v k = 0" using connect by (simp add: server_ok_def handled_ok_def map_of_eq_None_iff [symmetric])
  then show ?case
    using connect handled_ok_update [of "map_of (sv_sessions v)" "sv_handled v" 0 ss k] fun_upd_triv [of "sv_handled v" k]
    by (auto simp: server_ok_def new_session_def)
next
  case (refused v k ss r handled)
  have h: "handled_ok (map_of (sv_sessions v)) (sv_handled v)" using refused.prems by (simp add: server_ok_def)
  have "handled = (sv_handled v)(k := min maxRequests (ss_requests (count_request ss)))"
    using handled_ok_at [OF h refused(1)] unfolding refused(3) by (auto simp: count_request_def)
  then show ?case using refused.prems handled_ok_update [OF h refl] by (simp add: server_ok_def)
next
  case (arrive v k ss r)
  have h: "handled_ok (map_of (sv_sessions v)) (sv_handled v)" using arrive.prems by (simp add: server_ok_def)
  have "sv_handled v k + 1 = min maxRequests (ss_requests (count_request ss))"
    using handled_ok_at [OF h arrive(1)] admitted_count [OF arrive(2)] by (simp add: count_request_def)
  then show ?case using arrive.prems arrive.hyps(3) handled_ok_update [OF h, of _ "count_request ss" k] by (simp add: server_ok_def)
next
  case (leave v ids)
  then show ?case by (auto simp: server_ok_def)
qed

definition new_server :: "string \<Rightarrow> aiServer" where
  "new_server token = \<lparr>sv_sensor = ai_NewHandler token, sv_active = 0, sv_sessions = [], sv_handled = (\<lambda>_. 0)\<rparr>"

lemma server_ok_reachable: "ai_step\<^sup>*\<^sup>* (new_server token) v \<Longrightarrow> server_ok v"
proof (induction rule: rtranclp_induct)
  case base
  show ?case by (simp add: new_server_def ai_NewHandler_def server_ok_def handled_ok_def)
next
  case (step v v')
  then show ?case by (blast intro: server_ok_step)
qed

text \<open>
  C31. However connections and requests interleave, the sensor works on at most 32 requests at a time, the semaphore counts exactly
  the requests at work, and no session gets more than 128 requests past its limit, however many it sends.
\<close>

theorem ai_capacity_bounded:
  assumes "ai_step\<^sup>*\<^sup>* (new_server token) v"
  shows "ai_work (sv_sensor v) = sv_active v \<and> sv_active v \<le> workSlots \<and> (\<forall>k. sv_handled v k \<le> maxRequests)"
  using server_ok_reachable [OF assms] by (auto simp: server_ok_def handled_ok_def split: option.split)

theorem ai_capacity_bounded_witness:
  "\<exists>v. ai_step\<^sup>*\<^sup>* (new_server []) v \<and> sv_sessions v \<noteq> [] \<and> sv_active v \<le> workSlots"
proof -
  obtain ss s' where n: "new_session (sv_sensor (new_server [])) = (ss, s')" by (metis prod.exhaust)
  have "ai_step (new_server []) ((new_server [])\<lparr>sv_sensor := s', sv_sessions := [(0, ss)]\<rparr>)"
    using ai_step.connect [OF n, of 0] by (simp add: new_server_def)
  then have run: "ai_step\<^sup>*\<^sup>* (new_server []) ((new_server [])\<lparr>sv_sensor := s', sv_sessions := [(0, ss)]\<rparr>)" by simp
  from ai_capacity_bounded [OF run] run show ?thesis by (intro exI [of _ "(new_server [])\<lparr>sv_sensor := s', sv_sessions := [(0, ss)]\<rparr>"]) simp
qed

section \<open>Authentication\<close>

text \<open>With a token configured, a request that does not present it is refused whatever its path, method and body are.\<close>

lemma ai_requires_token:
  assumes "ai_token s \<noteq> []" "provided_token r \<noteq> ai_token s" "serve_result ss r s = Some ((res, received), ids)"
  shows "400 \<le> a_code res \<and> received = 0 \<and> ids = ai_ids s"
proof -
  have code: "a_code (failure profile code message) = code" for profile code message by (simp add: failure_def jsonResult_def Let_def)
  have "serve_work r s = Some ((failure (profileFor (aq_Path r)) 401 ''invalid authentication'', 0), ai_ids s)"
    using assms(1,2) by (simp add: serve_work_def Let_def split: prod.split)
  then show ?thesis using assms(3)
    by (auto simp: serve_result_def admission_error_def code Let_def split: option.splits if_splits)
qed

end
