(* ===== verification/Catalog.thy ===== *)
theory Catalog
  imports ObjectStore Digest GoTime
begin

text \<open>
  The API surface of the simulated server (\<^verbatim>\<open>handler/api.go\<close>, \<^verbatim>\<open>handler/schema.go\<close>): the resource catalogue, its
  adjustment to the simulated Kubernetes minor version, the schema profile of a version, and the discovery
  documents that kubectl reads. The catalogue is a Go map; here it is the list of its entries in source order.
\<close>

record apiResource =
  r_Name :: string
  r_Singular :: string
  r_Kind :: string
  r_Namespaced :: bool
  r_Verbs :: "string list"
  r_ShortNames :: "string list"
  r_Categories :: "string list"
  r_Group :: string
  r_Version :: string

definition resource :: "string \<Rightarrow> string \<Rightarrow> bool \<Rightarrow> string \<Rightarrow> apiResource" where
  "resource name kind namespaced shortName =
     \<lparr>r_Name = name, r_Singular = to_lower kind, r_Kind = kind, r_Namespaced = namespaced,
      r_Verbs = [''create'', ''delete'', ''deletecollection'', ''get'', ''list'', ''patch'', ''update'', ''watch''],
      r_ShortNames = (if shortName \<noteq> [] then [shortName] else []),
      r_Categories = [], r_Group = [], r_Version = []\<rparr>"

definition createOnlyResource :: "string \<Rightarrow> string \<Rightarrow> bool \<Rightarrow> apiResource" where
  "createOnlyResource name kind namespaced = (resource name kind namespaced [])\<lparr>r_Verbs := [''create'']\<rparr>"

definition readOnlyResource :: "string \<Rightarrow> string \<Rightarrow> bool \<Rightarrow> apiResource" where
  "readOnlyResource name kind namespaced = (resource name kind namespaced [])\<lparr>r_Verbs := [''get'', ''list'']\<rparr>"

definition apiCatalog :: "(groupVersion \<times> apiResource list) list" where
  "apiCatalog =
     [(\<lparr>Group = '''', Version = ''v1''\<rparr>,
       [readOnlyResource ''componentstatuses'' ''ComponentStatus'' False,
        resource ''configmaps'' ''ConfigMap'' True ''cm'',
        resource ''endpoints'' ''Endpoints'' True ''ep'',
        resource ''events'' ''Event'' True ''ev'',
        resource ''namespaces'' ''Namespace'' False ''ns'',
        resource ''nodes'' ''Node'' False ''no'',
        resource ''limitranges'' ''LimitRange'' True ''limits'',
        resource ''persistentvolumeclaims'' ''PersistentVolumeClaim'' True ''pvc'',
        resource ''persistentvolumes'' ''PersistentVolume'' False ''pv'',
        resource ''podtemplates'' ''PodTemplate'' True '''',
        resource ''pods'' ''Pod'' True ''po'',
        resource ''resourcequotas'' ''ResourceQuota'' True ''quota'',
        resource ''replicationcontrollers'' ''ReplicationController'' True ''rc'',
        resource ''secrets'' ''Secret'' True ''secret'',
        resource ''serviceaccounts'' ''ServiceAccount'' True ''sa'',
        resource ''services'' ''Service'' True ''svc'']),
      (\<lparr>Group = ''admissionregistration.k8s.io'', Version = ''v1''\<rparr>,
       [resource ''mutatingwebhookconfigurations'' ''MutatingWebhookConfiguration'' False '''',
        resource ''validatingadmissionpolicies'' ''ValidatingAdmissionPolicy'' False '''',
        resource ''validatingadmissionpolicybindings'' ''ValidatingAdmissionPolicyBinding'' False '''',
        resource ''validatingwebhookconfigurations'' ''ValidatingWebhookConfiguration'' False '''']),
      (\<lparr>Group = ''apiextensions.k8s.io'', Version = ''v1''\<rparr>,
       [resource ''customresourcedefinitions'' ''CustomResourceDefinition'' False ''crd'']),
      (\<lparr>Group = ''apiregistration.k8s.io'', Version = ''v1''\<rparr>,
       [resource ''apiservices'' ''APIService'' False ''apiservice'']),
      (\<lparr>Group = ''apps'', Version = ''v1''\<rparr>,
       [resource ''daemonsets'' ''DaemonSet'' True ''ds'',
        resource ''deployments'' ''Deployment'' True ''deploy'',
        resource ''replicasets'' ''ReplicaSet'' True ''rs'',
        resource ''statefulsets'' ''StatefulSet'' True ''sts'']),
      (\<lparr>Group = ''autoscaling'', Version = ''v2''\<rparr>,
       [resource ''horizontalpodautoscalers'' ''HorizontalPodAutoscaler'' True ''hpa'']),
      (\<lparr>Group = ''autoscaling'', Version = ''v1''\<rparr>,
       [resource ''horizontalpodautoscalers'' ''HorizontalPodAutoscaler'' True ''hpa'']),
      (\<lparr>Group = ''authorization.k8s.io'', Version = ''v1''\<rparr>,
       [createOnlyResource ''localsubjectaccessreviews'' ''LocalSubjectAccessReview'' True,
        createOnlyResource ''selfsubjectaccessreviews'' ''SelfSubjectAccessReview'' False,
        createOnlyResource ''selfsubjectrulesreviews'' ''SelfSubjectRulesReview'' False,
        createOnlyResource ''subjectaccessreviews'' ''SubjectAccessReview'' False]),
      (\<lparr>Group = ''batch'', Version = ''v1''\<rparr>,
       [resource ''cronjobs'' ''CronJob'' True ''cj'',
        resource ''jobs'' ''Job'' True ''job'']),
      (\<lparr>Group = ''certificates.k8s.io'', Version = ''v1''\<rparr>,
       [resource ''certificatesigningrequests'' ''CertificateSigningRequest'' False ''csr'']),
      (\<lparr>Group = ''coordination.k8s.io'', Version = ''v1''\<rparr>,
       [resource ''leases'' ''Lease'' True ''lease'']),
      (\<lparr>Group = ''discovery.k8s.io'', Version = ''v1''\<rparr>,
       [resource ''endpointslices'' ''EndpointSlice'' True ''eps'']),
      (\<lparr>Group = ''events.k8s.io'', Version = ''v1''\<rparr>,
       [resource ''events'' ''Event'' True ''ev'']),
      (\<lparr>Group = ''metrics.k8s.io'', Version = ''v1beta1''\<rparr>,
       [readOnlyResource ''nodes'' ''NodeMetrics'' False,
        readOnlyResource ''pods'' ''PodMetrics'' True]),
      (\<lparr>Group = ''networking.k8s.io'', Version = ''v1''\<rparr>,
       [resource ''ingressclasses'' ''IngressClass'' False ''ingclass'',
        resource ''ingresses'' ''Ingress'' True ''ing'',
        resource ''networkpolicies'' ''NetworkPolicy'' True ''netpol'']),
      (\<lparr>Group = ''policy'', Version = ''v1''\<rparr>,
       [resource ''poddisruptionbudgets'' ''PodDisruptionBudget'' True ''pdb'']),
      (\<lparr>Group = ''rbac.authorization.k8s.io'', Version = ''v1''\<rparr>,
       [resource ''clusterrolebindings'' ''ClusterRoleBinding'' False ''crb'',
        resource ''clusterroles'' ''ClusterRole'' False ''role'',
        resource ''rolebindings'' ''RoleBinding'' True ''rb'',
        resource ''roles'' ''Role'' True ''role'']),
      (\<lparr>Group = ''storage.k8s.io'', Version = ''v1''\<rparr>,
       [resource ''csidrivers'' ''CSIDriver'' False ''csidriver'',
        resource ''storageclasses'' ''StorageClass'' False ''sc''])]"

definition metricsGroupVersion :: groupVersion where
  "metricsGroupVersion = \<lparr>Group = ''metrics.k8s.io'', Version = ''v1beta1''\<rparr>"

definition authorizationGroupVersion :: groupVersion where
  "authorizationGroupVersion = \<lparr>Group = ''authorization.k8s.io'', Version = ''v1''\<rparr>"

definition apiVersionFor :: "groupVersion \<Rightarrow> string" where
  "apiVersionFor gv = (if Group gv = [] then Version gv else Group gv @ [CHR 0x2F] @ Version gv)"

definition sKind :: "groupVersion \<Rightarrow> string \<Rightarrow> string option" where
  "sKind gv resourceName =
     map_option r_Kind (find (\<lambda>r. r_Name r = resourceName)
       (case map_of apiCatalog gv of Some rs \<Rightarrow> rs | None \<Rightarrow> []))"

section \<open>Resources of a minor version\<close>

type_synonym resourceTable = "(groupVersion \<times> (string \<times> apiResource) list) list"

definition table_items :: "resourceTable \<Rightarrow> groupVersion \<Rightarrow> (string \<times> apiResource) list" where
  "table_items resources gv = (case map_of resources gv of Some items \<Rightarrow> items | None \<Rightarrow> [])"

definition copyResource :: "groupVersion \<Rightarrow> groupVersion \<Rightarrow> string \<Rightarrow> resourceTable \<Rightarrow> resourceTable" where
  "copyResource source destination name resources =
     (case map_of (table_items resources source) name of
        None \<Rightarrow> resources
      | Some item \<Rightarrow> AList.update destination (AList.update name item (table_items resources destination)) resources)"

definition moveResource :: "groupVersion \<Rightarrow> groupVersion \<Rightarrow> string \<Rightarrow> resourceTable \<Rightarrow> resourceTable" where
  "moveResource source destination name resources =
     (let r1 = copyResource source destination name resources
      in case map_of r1 source of
           None \<Rightarrow> r1
         | Some items \<Rightarrow> AList.update source (AList.delete name items) r1)"

definition gv' :: "string \<Rightarrow> string \<Rightarrow> groupVersion" where
  "gv' g v = \<lparr>Group = g, Version = v\<rparr>"

definition resourcesForMinor :: "resourceTable \<Rightarrow> int \<Rightarrow> resourceTable" where
  "resourcesForMinor current minor =
     (let r0 = current;
          r1 = (if minor < 21 then
                  moveResource (gv' ''policy'' ''v1'') (gv' ''policy'' ''v1beta1'') ''poddisruptionbudgets''
                    (moveResource (gv' ''discovery.k8s.io'' ''v1'') (gv' ''discovery.k8s.io'' ''v1beta1'') ''endpointslices''
                      (moveResource (gv' ''batch'' ''v1'') (gv' ''batch'' ''v1beta1'') ''cronjobs'' r0))
                else r0);
          r2 = (if minor \<ge> 21 \<and> minor < 25 then
                  copyResource (gv' ''policy'' ''v1'') (gv' ''policy'' ''v1beta1'') ''poddisruptionbudgets''
                    (copyResource (gv' ''discovery.k8s.io'' ''v1'') (gv' ''discovery.k8s.io'' ''v1beta1'') ''endpointslices''
                      (copyResource (gv' ''batch'' ''v1'') (gv' ''batch'' ''v1beta1'') ''cronjobs'' r1))
                else r1);
          r3 = (if minor < 23 then
                  moveResource (gv' ''autoscaling'' ''v2'') (gv' ''autoscaling'' ''v2beta2'') ''horizontalpodautoscalers'' r2
                else if minor < 26 then
                  copyResource (gv' ''autoscaling'' ''v2'') (gv' ''autoscaling'' ''v2beta2'') ''horizontalpodautoscalers'' r2
                else r2)
      in [(gv, items) \<leftarrow> r3. length items \<noteq> 0])"

text \<open>The catalogue indexed by name, as \<^verbatim>\<open>NewAPIContext\<close> does before adjusting it, and the categories after.\<close>

definition catalogByName :: resourceTable where
  "catalogByName = map (\<lambda>(gv, rs). (gv, map (\<lambda>item. (r_Name item, item)) rs)) apiCatalog"

definition allCategory :: "groupVersion \<Rightarrow> string \<Rightarrow> resourceTable \<Rightarrow> resourceTable" where
  "allCategory gv name resources =
     (case map_of resources gv of
        None \<Rightarrow> resources
      | Some items \<Rightarrow>
          (case map_of items name of
             None \<Rightarrow> resources
           | Some entry \<Rightarrow> AList.update gv (AList.update name (entry\<lparr>r_Categories := [''all'']\<rparr>) items) resources))"

definition apiResources :: "int \<Rightarrow> resourceTable" where
  "apiResources minor =
     fold (\<lambda>(gv, name) r. allCategory gv name r)
       [(gv' [] ''v1'', ''pods''), (gv' [] ''v1'', ''services''),
        (gv' ''apps'' ''v1'', ''daemonsets''), (gv' ''apps'' ''v1'', ''deployments''),
        (gv' ''apps'' ''v1'', ''replicasets''), (gv' ''apps'' ''v1'', ''statefulsets''),
        (gv' ''batch'' ''v1'', ''cronjobs''), (gv' ''batch'' ''v1'', ''jobs'')]
       (resourcesForMinor catalogByName minor)"

section \<open>Versions\<close>

definition parseKubernetesVersion :: "string \<Rightarrow> int option" where
  "parseKubernetesVersion value =
     (if \<not> has_prefix value ''v1.'' then None
      else case atoi (trim_prefix value ''v1.'') of
             None \<Rightarrow> None
           | Some minor \<Rightarrow> if minor < 0 then None else Some minor)"

record SchemaProfile =
  sp_Version :: string
  sp_Release :: string
  sp_SchemaURL :: string
  sp_EmbeddedPath :: string

definition SchemaProfileForVersion :: "string \<Rightarrow> SchemaProfile option" where
  "SchemaProfileForVersion version =
     (let v0 = trim_space version;
          v1 = (if v0 = [] then ''v1.37'' else v0);
          v2 = (if has_prefix v1 ''1.'' then ''v'' @ v1 else v1)
      in case parseKubernetesVersion v2 of
           None \<Rightarrow> None
         | Some minor \<Rightarrow>
             (if minor < 19 \<or> minor > 37 \<or> v2 \<noteq> ''v1.'' @ show_int minor then None
              else let release = v2 @ ''.0''
                in Some \<lparr>sp_Version = v2, sp_Release = release,
                         sp_SchemaURL = ''https://raw.githubusercontent.com/kubernetes/kubernetes/'' @ release @ ''/api/openapi-spec/swagger.json'',
                         sp_EmbeddedPath = ''embedded/openapi/'' @ v2 @ ''_openapi.json.gz''\<rparr>))"

section \<open>Discovery\<close>

text \<open>The loop of \<^verbatim>\<open>preferredAPIVersion\<close>; an empty slice would panic (\<open>None\<close>).\<close>

fun prefer_loop :: "string \<Rightarrow> int \<Rightarrow> string list \<Rightarrow> string" where
  "prefer_loop preferred preferredMajor [] = preferred"
| "prefer_loop preferred preferredMajor (version # rest) =
     (if \<not> has_prefix version ''v'' then prefer_loop preferred preferredMajor rest
      else case atoi (trim_prefix version ''v'') of
             None \<Rightarrow> prefer_loop preferred preferredMajor rest
           | Some major \<Rightarrow>
               (if major > preferredMajor then prefer_loop version major rest
                else prefer_loop preferred preferredMajor rest))"

definition preferredAPIVersion :: "string list \<Rightarrow> string option" where
  "preferredAPIVersion versions = (if versions = [] then None else Some (prefer_loop (last versions) (- 1) versions))"

fun compact_loop :: "string \<Rightarrow> string list \<Rightarrow> string list" where
  "compact_loop prev [] = []"
| "compact_loop prev (value # rest) =
     (if value \<noteq> prev then value # compact_loop value rest else compact_loop prev rest)"

definition compactStrings :: "string list \<Rightarrow> string list" where
  "compactStrings values = (case values of [] \<Rightarrow> [] | v # vs \<Rightarrow> v # compact_loop v vs)"

definition rootDiscovery :: "resourceTable \<Rightarrow> bool \<Rightarrow> bool \<Rightarrow> string list" where
  "rootDiscovery resources hasV2 hasV3 =
     compactStrings (sort (
       [''/api'', ''/api/v1'', ''/apis'', ''/version'', ''/healthz'', ''/livez'', ''/readyz''] @
       concat (map (\<lambda>(gv, items). if Group gv \<noteq> []
         then [''/apis/'' @ Group gv, ''/apis/'' @ Group gv @ [CHR 0x2F] @ Version gv] else []) resources) @
       (if hasV2 then [''/openapi/v2''] else []) @ (if hasV3 then [''/openapi/v3''] else [])))"

definition groupVersions :: "resourceTable \<Rightarrow> string \<Rightarrow> string list" where
  "groupVersions resources g = sort [Version gv. (gv, items) \<leftarrow> resources, Group gv = g]"

definition groupEntry :: "resourceTable \<Rightarrow> string \<Rightarrow> gobj" where
  "groupEntry resources name =
     (let versions = groupVersions resources name;
          preferred = (case preferredAPIVersion versions of Some v \<Rightarrow> v | None \<Rightarrow> [])
      in [(''name'', GStr name),
          (''versions'', GList (map (\<lambda>version. GStrMap [(''groupVersion'', name @ [CHR 0x2F] @ version), (''version'', version)]) versions)),
          (''preferredVersion'', GStrMap [(''groupVersion'', name @ [CHR 0x2F] @ preferred), (''version'', preferred)])])"

definition groupNames :: "resourceTable \<Rightarrow> string list" where
  "groupNames resources = sort (remdups [Group gv. (gv, items) \<leftarrow> resources, Group gv \<noteq> []])"

definition apiGroupList :: "resourceTable \<Rightarrow> gobj" where
  "apiGroupList resources =
     [(''kind'', GStr ''APIGroupList''), (''apiVersion'', GStr ''v1''),
      (''groups'', GList (map (\<lambda>name. GMap (groupEntry resources name)) (groupNames resources)))]"

text \<open>\<^verbatim>\<open>serveGroup\<close>: \<open>None\<close> is the 404.\<close>

definition serveGroup :: "resourceTable \<Rightarrow> string \<Rightarrow> gobj option" where
  "serveGroup resources grp =
     (if length (groupVersions resources grp) = 0 then None
      else Some ([(''kind'', GStr ''APIGroup''), (''apiVersion'', GStr ''v1'')] @ groupEntry resources grp))"

text \<open>\<^verbatim>\<open>sub\<close> and \<^verbatim>\<open>autoscaling\<close>, the closures of \<^verbatim>\<open>subresourcesFor\<close>.\<close>

definition subresource :: "apiResource \<Rightarrow> string \<Rightarrow> string \<Rightarrow> string list \<Rightarrow> apiResource" where
  "subresource r name kind verbs =
     \<lparr>r_Name = r_Name r @ [CHR 0x2F] @ name, r_Singular = [], r_Kind = kind, r_Namespaced = r_Namespaced r,
      r_Verbs = verbs, r_ShortNames = [], r_Categories = [], r_Group = [], r_Version = []\<rparr>"

definition scaleSubresource :: "apiResource \<Rightarrow> apiResource" where
  "scaleSubresource r =
     (subresource r ''scale'' ''Scale'' [''get'', ''patch'', ''update''])\<lparr>r_Group := ''autoscaling'', r_Version := ''v1''\<rparr>"

definition subresourcesFor :: "apiResource \<Rightarrow> apiResource list" where
  "subresourcesFor r =
     (let n = r_Name r; gpu = [''get'', ''patch'', ''update'']; cdgu = [''create'', ''delete'', ''get'', ''update'']
      in if n = ''pods'' then
           [subresource r ''attach'' ''Pod'' [''create'', ''get''], subresource r ''ephemeralcontainers'' ''Pod'' gpu,
            subresource r ''eviction'' ''Eviction'' [''create''], subresource r ''exec'' ''Pod'' [''create'', ''get''],
            subresource r ''log'' ''Pod'' [''get''],
            subresource r ''portforward'' ''Pod'' [''create'', ''get''], subresource r ''proxy'' ''Pod'' cdgu,
            subresource r ''status'' ''Pod'' gpu]
         else if n = ''services'' then [subresource r ''proxy'' ''Service'' cdgu, subresource r ''status'' ''Service'' gpu]
         else if n = ''serviceaccounts'' then
           [(subresource r ''token'' ''TokenRequest'' [''create''])
              \<lparr>r_Group := ''authentication.k8s.io'', r_Version := ''v1'', r_Namespaced := True\<rparr>,
            subresource r ''status'' (r_Kind r) gpu]
         else if n \<in> set [''deployments'', ''statefulsets'', ''replicasets'', ''replicationcontrollers'']
           then [scaleSubresource r, subresource r ''status'' (r_Kind r) gpu]
         else if n = ''daemonsets'' then [subresource r ''status'' (r_Kind r) gpu]
         else if n = ''nodes'' then [subresource r ''proxy'' ''Node'' cdgu, subresource r ''status'' ''Node'' gpu]
         else if n = ''namespaces'' then [subresource r ''finalize'' ''Namespace'' [''update''], subresource r ''status'' ''Namespace'' gpu]
         else if n \<in> set [''configmaps'', ''secrets'', ''persistentvolumeclaims'', ''cronjobs'',
             ''jobs'', ''horizontalpodautoscalers'', ''ingresses'', ''networkpolicies'', ''poddisruptionbudgets'',
             ''customresourcedefinitions'', ''apiservices'', ''certificatesigningrequests'', ''clusterroles'', ''clusterrolebindings'',
             ''mutatingwebhookconfigurations'', ''validatingwebhookconfigurations'', ''storageclasses'', ''csidrivers'',
             ''roles'', ''rolebindings'', ''leases'', ''events'', ''endpointslices'', ''endpoints'']
           then [subresource r ''status'' (r_Kind r) gpu]
         else [])"

text \<open>\<^verbatim>\<open>resourceList\<close>: the group-version name and the advertised resources, by name.\<close>

definition resourceList :: "resourceTable \<Rightarrow> groupVersion \<Rightarrow> string \<times> apiResource list" where
  "resourceList resources gv =
     (apiVersionFor gv,
      sort_key r_Name (concat (map (\<lambda>(name, r). r # subresourcesFor r) (table_items resources gv))))"

definition versionInfo :: "string \<Rightarrow> nat \<Rightarrow> (string \<times> string) list" where
  "versionInfo version started =
     [(''major'', ''1''), (''minor'', trim_prefix version ''v1.''),
      (''gitVersion'', version @ ''.0''), (''gitCommit'', hex_bytes (take 20 (sha256 (''helix-honeypot/'' @ version)))),
      (''gitTreeState'', ''clean''), (''buildDate'', rfc3339 started),
      (''goVersion'', ''go1.24.4''), (''compiler'', ''gc''), (''platform'', ''linux/amd64'')]"

definition digestByte :: "string \<Rightarrow> nat" where
  "digestByte key = sha256 key ! 0"

section \<open>Facts about the catalogue\<close>

lemma gv'_simps [simp]: "Group (gv' g v) = g" "Version (gv' g v) = v"
  by (simp_all add: gv'_def)

text \<open>What a table serves under a group-version and a name.\<close>

definition serves :: "resourceTable \<Rightarrow> groupVersion \<Rightarrow> string \<Rightarrow> apiResource option" where
  "serves resources gv name = map_of (table_items resources gv) name"

lemma serves_copy:
  "serves (copyResource src dst n t) gv m =
     (if gv = dst \<and> m = n \<and> serves t src n \<noteq> None then serves t src n else serves t gv m)"
  by (auto simp: serves_def copyResource_def table_items_def split: option.splits)

lemma serves_move:
  assumes "src \<noteq> dst"
  shows "serves (moveResource src dst n t) gv m =
     (if gv = dst \<and> m = n \<and> serves t src n \<noteq> None then serves t src n
      else if gv = src \<and> m = n then None else serves t gv m)"
proof -
  have "serves (moveResource src dst n t) gv m =
      (if gv = src \<and> m = n then None else serves (copyResource src dst n t) gv m)"
    by (auto simp: serves_def moveResource_def table_items_def Let_def split: option.splits)
  then show ?thesis using assms by (auto simp: serves_copy)
qed

lemma distinct_copy [simp]: "distinct (map fst t) \<Longrightarrow> distinct (map fst (copyResource src dst n t))"
  by (auto simp: copyResource_def split: option.splits)

lemma distinct_move [simp]: "distinct (map fst t) \<Longrightarrow> distinct (map fst (moveResource src dst n t))"
  by (auto simp: moveResource_def Let_def split: option.splits)

lemma serves_nonempty:
  assumes "distinct (map fst t)"
  shows "serves [(gv, items) \<leftarrow> t. length items \<noteq> 0] gv m = serves t gv m"
proof -
  have "map_of [(gv, items) \<leftarrow> t. length items \<noteq> 0] gv =
      (case map_of t gv of None \<Rightarrow> None | Some items \<Rightarrow> if items = [] then None else Some items)"
    using assms by (induction t) (auto split: option.splits simp: map_of_eq_None_iff rev_image_eqI)
  then show ?thesis by (auto simp: serves_def table_items_def split: option.splits)
qed

lemma gv'_neq [simp]: "gv' g v = gv' h w \<longleftrightarrow> g = h \<and> v = w"
  by (simp add: gv'_def)

lemma gv_eta: "gv' (Group gv) (Version gv) = gv"
  by (cases gv) (simp add: gv'_def)

text \<open>One table keeps what another serves: same group, same name, same description, perhaps another version.\<close>

definition keeps :: "resourceTable \<Rightarrow> resourceTable \<Rightarrow> bool" where
  "keeps t t' \<longleftrightarrow> (\<forall>gv m r. serves t gv m = Some r \<longrightarrow> (\<exists>gv2. Group gv2 = Group gv \<and> serves t' gv2 m = Some r))"

lemma keeps_refl [intro]: "keeps t t"
  by (auto simp: keeps_def)

lemma keeps_trans [trans]: "keeps t1 t2 \<Longrightarrow> keeps t2 t3 \<Longrightarrow> keeps t1 t3"
  unfolding keeps_def by metis

lemma keeps_copy: "serves t dst n = None \<Longrightarrow> Group src = Group dst \<Longrightarrow> keeps t (copyResource src dst n t)"
  unfolding keeps_def serves_copy by (metis option.discI)

lemma keeps_move:
  assumes "serves t dst n = None" "Group src = Group dst" "src \<noteq> dst"
  shows "keeps t (moveResource src dst n t)"
  unfolding keeps_def serves_move [OF assms(3)] using assms by (metis option.discI)

lemma keeps_nonempty:
  assumes "distinct (map fst t)"
  shows "keeps t [(gv, items) \<leftarrow> t. length items \<noteq> 0]"
  unfolding keeps_def serves_nonempty [OF assms] by blast

definition no_beta :: "resourceTable \<Rightarrow> bool" where
  "no_beta t \<longleftrightarrow>
     serves t (gv' ''batch'' ''v1beta1'') ''cronjobs'' = None \<and>
     serves t (gv' ''discovery.k8s.io'' ''v1beta1'') ''endpointslices'' = None \<and>
     serves t (gv' ''policy'' ''v1beta1'') ''poddisruptionbudgets'' = None \<and>
     serves t (gv' ''autoscaling'' ''v2beta2'') ''horizontalpodautoscalers'' = None"

lemma keeps_minor:
  assumes "distinct (map fst t)" "no_beta t"
  shows "keeps t (resourcesForMinor t minor)"
proof -
  let ?mv = "\<lambda>g w n. moveResource (gv' g ''v1'') (gv' g w) n" and ?cp = "\<lambda>g w n. copyResource (gv' g ''v1'') (gv' g w) n"
  note b = assms(2) [unfolded no_beta_def]
  have m1: "keeps t (?mv ''policy'' ''v1beta1'' ''poddisruptionbudgets''
      (?mv ''discovery.k8s.io'' ''v1beta1'' ''endpointslices'' (?mv ''batch'' ''v1beta1'' ''cronjobs'' t)))"
    by (rule keeps_trans [OF keeps_trans [OF keeps_move keeps_move] keeps_move]) (simp_all add: b serves_move)
  have c1: "keeps t (?cp ''policy'' ''v1beta1'' ''poddisruptionbudgets''
      (?cp ''discovery.k8s.io'' ''v1beta1'' ''endpointslices'' (?cp ''batch'' ''v1beta1'' ''cronjobs'' t)))"
    by (rule keeps_trans [OF keeps_trans [OF keeps_copy keeps_copy] keeps_copy]) (simp_all add: b serves_copy)
  define r2 where "r2 = (if minor < 21 then ?mv ''policy'' ''v1beta1'' ''poddisruptionbudgets''
      (?mv ''discovery.k8s.io'' ''v1beta1'' ''endpointslices'' (?mv ''batch'' ''v1beta1'' ''cronjobs'' t))
    else if minor < 25 then ?cp ''policy'' ''v1beta1'' ''poddisruptionbudgets''
      (?cp ''discovery.k8s.io'' ''v1beta1'' ''endpointslices'' (?cp ''batch'' ''v1beta1'' ''cronjobs'' t)) else t)"
  have r2: "keeps t r2" "serves r2 (gv' ''autoscaling'' ''v2beta2'') ''horizontalpodautoscalers'' = None" "distinct (map fst r2)"
    using m1 c1 keeps_refl assms(1) by (simp_all add: r2_def b serves_move serves_copy)
  define r3 where "r3 = (if minor < 23
      then moveResource (gv' ''autoscaling'' ''v2'') (gv' ''autoscaling'' ''v2beta2'') ''horizontalpodautoscalers'' r2
      else if minor < 26 then copyResource (gv' ''autoscaling'' ''v2'') (gv' ''autoscaling'' ''v2beta2'') ''horizontalpodautoscalers'' r2
      else r2)"
  have r3: "keeps r2 r3" "distinct (map fst r3)"
    using r2(2,3) keeps_refl [of r2] by (simp_all add: r3_def keeps_move keeps_copy)
  have "resourcesForMinor t minor = [(gv, items) \<leftarrow> r3. length items \<noteq> 0]"
    by (simp add: resourcesForMinor_def Let_def r2_def r3_def)
  then have "keeps r3 (resourcesForMinor t minor)" using keeps_nonempty [OF r3(2)] by simp
  with r2(1) r3(1) show ?thesis by (blast intro: keeps_trans)
qed

lemma catalog_lookup: "table_items catalogByName gv =
    (case map_of apiCatalog gv of None \<Rightarrow> [] | Some rs \<Rightarrow> map (\<lambda>item. (r_Name item, item)) rs)"
  by (simp add: table_items_def catalogByName_def map_of_map split: option.splits)

lemma catalog_keys: "distinct (map fst catalogByName)"
  by (simp add: catalogByName_def apiCatalog_def)

lemma catalog_no_beta: "no_beta catalogByName"
  by (simp add: no_beta_def serves_def catalog_lookup apiCatalog_def gv'_def)

text \<open>
  Adjusting the catalogue to a minor version never loses a resource: whatever group, name and
  description the catalogue has is still served, under some version of the same group, and no group-version
  is advertised with nothing in it.
\<close>

lemma catalog_kept_for_minor:
  assumes "serves catalogByName gv name = Some r"
  shows "(\<exists>v. serves (resourcesForMinor catalogByName minor) (gv' (Group gv) v) name = Some r) \<and>
         list_all (\<lambda>(gv, items). items \<noteq> []) (resourcesForMinor catalogByName minor)"
proof -
  from keeps_minor [OF catalog_keys catalog_no_beta] assms obtain gv2
    where "Group gv2 = Group gv" "serves (resourcesForMinor catalogByName minor) gv2 name = Some r"
    unfolding keeps_def by metis
  then have "serves (resourcesForMinor catalogByName minor) (gv' (Group gv) (Version gv2)) name = Some r"
    by (metis gv_eta)
  moreover have "list_all (\<lambda>(gv, items). items \<noteq> []) (resourcesForMinor catalogByName minor)"
    unfolding list_all_iff resourcesForMinor_def Let_def by auto
  ultimately show ?thesis by blast
qed

lemma catalog_kept_for_minor_example:
  "\<exists>v. serves (resourcesForMinor catalogByName 20) (gv' ''batch'' v) ''cronjobs'' = Some (resource ''cronjobs'' ''CronJob'' True ''cj'')"
proof -
  have "serves catalogByName (gv' ''batch'' ''v1'') ''cronjobs'' = Some (resource ''cronjobs'' ''CronJob'' True ''cj'')"
    by (simp add: serves_def catalog_lookup apiCatalog_def gv'_def resource_def)
  from catalog_kept_for_minor [OF this, of 20] show ?thesis by simp
qed

text \<open>
  The simulated server serves CronJob, EndpointSlice and PodDisruptionBudget under their stable version
  from 1.21 and under v1beta1 until 1.24, and HorizontalPodAutoscaler under autoscaling/v2 from 1.23 and
  under v2beta2 until 1.25, as the upstream releases did.
\<close>

lemma beta_versions_by_minor:
  "(serves (resourcesForMinor catalogByName minor) (gv' ''batch'' ''v1'') ''cronjobs'' \<noteq> None) = (minor \<ge> 21) \<and>
   (serves (resourcesForMinor catalogByName minor) (gv' ''batch'' ''v1beta1'') ''cronjobs'' \<noteq> None) = (minor < 25) \<and>
   (serves (resourcesForMinor catalogByName minor) (gv' ''discovery.k8s.io'' ''v1'') ''endpointslices'' \<noteq> None) = (minor \<ge> 21) \<and>
   (serves (resourcesForMinor catalogByName minor) (gv' ''discovery.k8s.io'' ''v1beta1'') ''endpointslices'' \<noteq> None) = (minor < 25) \<and>
   (serves (resourcesForMinor catalogByName minor) (gv' ''policy'' ''v1'') ''poddisruptionbudgets'' \<noteq> None) = (minor \<ge> 21) \<and>
   (serves (resourcesForMinor catalogByName minor) (gv' ''policy'' ''v1beta1'') ''poddisruptionbudgets'' \<noteq> None) = (minor < 25) \<and>
   (serves (resourcesForMinor catalogByName minor) (gv' ''autoscaling'' ''v2'') ''horizontalpodautoscalers'' \<noteq> None) = (minor \<ge> 23) \<and>
   (serves (resourcesForMinor catalogByName minor) (gv' ''autoscaling'' ''v2beta2'') ''horizontalpodautoscalers'' \<noteq> None) = (minor < 26)"
proof -
  have look: "serves catalogByName (gv' ''batch'' ''v1'') ''cronjobs'' \<noteq> None"
    "serves catalogByName (gv' ''discovery.k8s.io'' ''v1'') ''endpointslices'' \<noteq> None"
    "serves catalogByName (gv' ''policy'' ''v1'') ''poddisruptionbudgets'' \<noteq> None"
    "serves catalogByName (gv' ''autoscaling'' ''v2'') ''horizontalpodautoscalers'' \<noteq> None"
    by (simp_all add: serves_def catalog_lookup apiCatalog_def gv'_def resource_def)
  note b = catalog_no_beta [unfolded no_beta_def]
  have nonempty: "serves (resourcesForMinor catalogByName minor) gv m =
      serves (let r1 = (if minor < 21 then
                  moveResource (gv' ''policy'' ''v1'') (gv' ''policy'' ''v1beta1'') ''poddisruptionbudgets''
                    (moveResource (gv' ''discovery.k8s.io'' ''v1'') (gv' ''discovery.k8s.io'' ''v1beta1'') ''endpointslices''
                      (moveResource (gv' ''batch'' ''v1'') (gv' ''batch'' ''v1beta1'') ''cronjobs'' catalogByName))
                else if minor < 25 then
                  copyResource (gv' ''policy'' ''v1'') (gv' ''policy'' ''v1beta1'') ''poddisruptionbudgets''
                    (copyResource (gv' ''discovery.k8s.io'' ''v1'') (gv' ''discovery.k8s.io'' ''v1beta1'') ''endpointslices''
                      (copyResource (gv' ''batch'' ''v1'') (gv' ''batch'' ''v1beta1'') ''cronjobs'' catalogByName))
                else catalogByName)
        in if minor < 23 then
             moveResource (gv' ''autoscaling'' ''v2'') (gv' ''autoscaling'' ''v2beta2'') ''horizontalpodautoscalers'' r1
           else if minor < 26 then
             copyResource (gv' ''autoscaling'' ''v2'') (gv' ''autoscaling'' ''v2beta2'') ''horizontalpodautoscalers'' r1
           else r1) gv m" for gv m
    unfolding resourcesForMinor_def Let_def by (subst serves_nonempty) (simp_all add: catalog_keys)
  show ?thesis
    unfolding nonempty Let_def
    by (intro conjI; cases "minor < 21"; cases "minor < 25"; cases "minor < 23"; cases "minor < 26")
      (simp_all add: serves_move serves_copy look b)
qed

section \<open>Facts about versions\<close>

lemma parseKubernetesVersion_show:
  "0 \<le> minor \<Longrightarrow> minor < 2 ^ 63 \<Longrightarrow> parseKubernetesVersion (''v1.'' @ show_int minor) = Some minor"
  by (simp add: parseKubernetesVersion_def has_prefix_def trim_prefix_def atoi_show_int)

lemma show_int_plain: "c \<in> set (show_int i) \<Longrightarrow> plain_char c"
proof -
  have "plain_char c" if "c \<in> set (show_nat n)" for n
    using show_nat_digits [of n] that by (fastforce simp: list_all_iff plain_char_def is_digit_def)
  then show "c \<in> set (show_int i) \<Longrightarrow> plain_char c"
    by (auto simp: show_int_def plain_char_def split: if_splits)
qed

definition profile_of :: "string \<Rightarrow> SchemaProfile" where
  "profile_of v =
     \<lparr>sp_Version = v, sp_Release = v @ ''.0'',
      sp_SchemaURL = ''https://raw.githubusercontent.com/kubernetes/kubernetes/'' @ (v @ ''.0'') @ ''/api/openapi-spec/swagger.json'',
      sp_EmbeddedPath = ''embedded/openapi/'' @ v @ ''_openapi.json.gz''\<rparr>"

lemma sp_Version_profile_of [simp]: "sp_Version (profile_of v) = v"
  by (simp add: profile_of_def)

lemma SchemaProfileForVersion_alt:
  "SchemaProfileForVersion version =
     (let v1 = (if trim_space version = [] then ''v1.37'' else trim_space version);
          v2 = (if has_prefix v1 ''1.'' then ''v'' @ v1 else v1)
      in case parseKubernetesVersion v2 of
           None \<Rightarrow> None
         | Some minor \<Rightarrow> if minor < 19 \<or> minor > 37 \<or> v2 \<noteq> ''v1.'' @ show_int minor then None else Some (profile_of v2))"
  unfolding SchemaProfileForVersion_def profile_of_def Let_def ..

lemma SchemaProfile_SomeD:
  assumes "SchemaProfileForVersion v = Some p"
  shows "\<exists>minor. 19 \<le> minor \<and> minor \<le> 37 \<and> p = profile_of (''v1.'' @ show_int minor)"
proof -
  define v1 where "v1 = (if trim_space v = [] then ''v1.37'' else trim_space v)"
  define v2 where "v2 = (if has_prefix v1 ''1.'' then ''v'' @ v1 else v1)"
  have eq: "(case parseKubernetesVersion v2 of None \<Rightarrow> None
     | Some minor \<Rightarrow> if minor < 19 \<or> minor > 37 \<or> v2 \<noteq> ''v1.'' @ show_int minor then None else Some (profile_of v2)) = Some p"
    using assms by (simp only: SchemaProfileForVersion_alt Let_def v1_def v2_def)
  have "\<exists>m. \<not> P m \<and> q = r" if "(case x of None \<Rightarrow> None | Some m \<Rightarrow> if P m then None else Some r) = Some q"
    for x :: "int option" and P and q r :: SchemaProfile
    using that by (cases x) (auto split: if_splits)
  from this [OF eq] have "\<exists>minor. \<not> (minor < 19 \<or> minor > 37 \<or> v2 \<noteq> ''v1.'' @ show_int minor) \<and> p = profile_of v2" .
  then show ?thesis by (metis not_less)
qed

lemma profile_of_minor:
  assumes "19 \<le> minor" "minor \<le> 37"
  shows "SchemaProfileForVersion (''v1.'' @ show_int minor) = Some (profile_of (''v1.'' @ show_int minor))"
proof -
  have trim: "trim_space (''v1.'' @ show_int minor) = ''v1.'' @ show_int minor"
    by (intro trim_space_plain ballI) (auto simp: plain_char_def dest: show_int_plain [unfolded plain_char_def])
  have parse: "parseKubernetesVersion (''v1.'' @ show_int minor) = Some minor"
    using assms by (intro parseKubernetesVersion_show) auto
  have pre: "\<not> has_prefix (''v1.'' @ show_int minor) ''1.''"
    by (simp add: has_prefix_def)
  show ?thesis
    using assms parse pre unfolding SchemaProfileForVersion_alt Let_def trim by simp
qed

text \<open>
  A version string selects a schema profile exactly when it denotes a minor from 1.19 to 1.37: the
  profile's own version is the canonical spelling of that minor and selects the same profile again, so the
  schema URL is always one of nineteen fixed ones.
\<close>

lemma schema_profiles:
  "(\<forall>v p. SchemaProfileForVersion v = Some p \<longrightarrow>
      (\<exists>minor. 19 \<le> minor \<and> minor \<le> 37 \<and> sp_Version p = ''v1.'' @ show_int minor) \<and>
      SchemaProfileForVersion (sp_Version p) = Some p) \<and>
   (\<forall>minor. 19 \<le> minor \<longrightarrow> minor \<le> 37 \<longrightarrow> SchemaProfileForVersion (''v1.'' @ show_int minor) \<noteq> None)"
  using SchemaProfile_SomeD profile_of_minor by fastforce

lemma schema_profiles_example:
  "SchemaProfileForVersion ''v1.30'' = Some (profile_of ''v1.30'') \<and> SchemaProfileForVersion (sp_Version (profile_of ''v1.30'')) = Some (profile_of ''v1.30'')"
proof -
  have "SchemaProfileForVersion (''v1.'' @ show_int 30) \<noteq> None" using schema_profiles by simp
  moreover have "SchemaProfileForVersion (''v1.'' @ show_int 30) = Some (profile_of (''v1.'' @ show_int 30))"
    by (rule profile_of_minor) simp_all
  moreover have "''v1.'' @ show_int 30 = ''v1.30''" by (simp add: show_int_def)
  ultimately show ?thesis by simp
qed

text \<open>A group's preferred version: the loop keeps a version of the list, and the best major seen so far.\<close>

definition ga_major :: "string \<Rightarrow> int option" where
  "ga_major version = (if has_prefix version ''v'' then atoi (trim_prefix version ''v'') else None)"

lemma prefer_loop_spec:
  assumes "best = - 1 \<or> ga_major pref = Some best"
  shows "(prefer_loop pref best vs = pref \<or> prefer_loop pref best vs \<in> set vs) \<and>
         (\<forall>v \<in> set vs. \<forall>m. ga_major v = Some m \<longrightarrow> 0 \<le> m \<longrightarrow>
            (\<exists>m'. ga_major (prefer_loop pref best vs) = Some m' \<and> m \<le> m')) \<and>
         (0 \<le> best \<longrightarrow> (\<exists>m'. ga_major (prefer_loop pref best vs) = Some m' \<and> best \<le> m'))"
  using assms
proof (induction vs arbitrary: pref best)
  case (Cons v vs)
  have step: "prefer_loop pref best (v # vs) =
      (case ga_major v of None \<Rightarrow> prefer_loop pref best vs
       | Some m \<Rightarrow> if m > best then prefer_loop v m vs else prefer_loop pref best vs)"
    by (simp add: ga_major_def split: option.splits)
  show ?case
  proof (cases "\<exists>m. ga_major v = Some m \<and> m > best")
    case True
    then obtain m where m: "ga_major v = Some m" "m > best" by blast
    with Cons.prems have "- 1 \<le> best \<or> best < 0" by auto
    from Cons.IH [of m v] m step show ?thesis by (auto intro: order_trans less_imp_le)
  next
    case False
    then have "prefer_loop pref best (v # vs) = prefer_loop pref best vs"
      unfolding step by (auto split: option.split)
    with Cons.IH [OF Cons.prems] False show ?thesis by (auto intro: order_trans)
  qed
qed auto

text \<open>
  The preferred version of a group is one of its versions, and whenever the group has a stable version
  the preferred one is stable with the highest number: a beta is never preferred over a stable version.
\<close>

lemma preferredAPIVersion_best:
  assumes "preferredAPIVersion versions = Some best"
  shows "best \<in> set versions \<and>
         (\<forall>v \<in> set versions. \<forall>m. ga_major v = Some m \<longrightarrow> 0 \<le> m \<longrightarrow> (\<exists>m'. ga_major best = Some m' \<and> m \<le> m'))"
proof -
  have ne: "versions \<noteq> []" and best: "best = prefer_loop (last versions) (- 1) versions"
    using assms by (auto simp: preferredAPIVersion_def split: if_splits)
  show ?thesis using prefer_loop_spec [of "- 1" "last versions" versions] ne by (auto simp: best)
qed

lemma preferredAPIVersion_best_example:
  "preferredAPIVersion [''v1'', ''v2'', ''v2beta2''] = Some ''v2'' \<and> ''v2'' \<in> set [''v1'', ''v2'', ''v2beta2'']"
proof -
  have "preferredAPIVersion [''v1'', ''v2'', ''v2beta2''] = Some ''v2''"
    by (simp add: preferredAPIVersion_def has_prefix_def trim_prefix_def atoi_def parse_digits_def is_digit_def
        digits_val_def digit_val_def)
  from preferredAPIVersion_best [OF this] this show ?thesis by simp
qed

end
