(* ===== verification/Addresses.thy ===== *)
theory Addresses
  imports Prelude
begin

text \<open>
  The addresses the simulated cluster hands out (\<^verbatim>\<open>handler/state.go\<close>), derived from the configured base
  address; a base that is not a dotted quad falls back to 10.42.0.0.
\<close>

fun address_loop :: "string list \<Rightarrow> int list option" where
  "address_loop [] = Some []"
| "address_loop (part # parts) =
     (case atoi part of
        None \<Rightarrow> None
      | Some value \<Rightarrow> if value < 0 \<or> value > 255 then None else map_option ((#) value) (address_loop parts))"

definition addressParts :: "string \<Rightarrow> int list" where
  "addressParts base =
     (let parts = go_split (CHR ''.'') base
      in if length parts \<noteq> 4 then [10, 42, 0, 0]
         else case address_loop parts of None \<Rightarrow> [10, 42, 0, 0] | Some address \<Rightarrow> address)"

definition dotted :: "int \<Rightarrow> int \<Rightarrow> int \<Rightarrow> int \<Rightarrow> string" where
  "dotted a b c d = show_int a @ ''.'' @ show_int b @ ''.'' @ show_int c @ ''.'' @ show_int d"

definition nodeAddress :: "string \<Rightarrow> int \<Rightarrow> string" where
  "nodeAddress base offset =
     (let parts = addressParts base in dotted (parts ! 0) (parts ! 1) (parts ! 2) offset)"

definition podAddress :: "string \<Rightarrow> int \<Rightarrow> int \<Rightarrow> string" where
  "podAddress base subnetOffset hostOffset =
     (let parts = addressParts base; thirdOctet = (parts ! 2 + subnetOffset) mod 256
      in dotted (parts ! 0) (parts ! 1) thirdOctet hostOffset)"

definition podCIDR :: "string \<Rightarrow> int \<Rightarrow> string" where
  "podCIDR base subnetOffset = podAddress base (subnetOffset + 1) 0 @ ''/24''"

definition serviceAddress :: "string \<Rightarrow> int \<Rightarrow> string" where
  "serviceAddress base hostOffset = nodeAddress base hostOffset"

section \<open>Facts\<close>

lemma address_loop_range:
  "address_loop parts = Some vs \<Longrightarrow> length vs = length parts \<and> (\<forall>v \<in> set vs. 0 \<le> v \<and> v \<le> 255)"
  by (induction parts arbitrary: vs) (auto split: option.splits if_splits)

lemma addressParts_range: "length (addressParts base) = 4 \<and> (\<forall>v \<in> set (addressParts base). 0 \<le> v \<and> v \<le> 255)"
  by (auto simp: addressParts_def Let_def split: option.splits dest: address_loop_range)

lemma show_int_no_dot: "0 \<le> i \<Longrightarrow> CHR ''.'' \<notin> set (show_int i)"
  using show_nat_digits [of "nat i"] by (auto simp: show_int_def list_all_iff is_digit_def)

lemma addressParts_dotted:
  assumes "0 \<le> a" "a \<le> 255" "0 \<le> b" "b \<le> 255" "0 \<le> c" "c \<le> 255" "0 \<le> d" "d \<le> 255"
  shows "addressParts (dotted a b c d) = [a, b, c, d]"
proof -
  have "dotted a b c d = go_join ''.'' (map show_int [a, b, c, d])" by (simp add: dotted_def)
  then have "go_split (CHR ''.'') (dotted a b c d) = map show_int [a, b, c, d]"
    using assms by (simp only:) (intro go_split_join, auto simp: show_int_no_dot)
  then show ?thesis using assms by (simp add: addressParts_def Let_def atoi_show_int)
qed

text \<open>
  Every address the simulated cluster hands out is a dotted quad that parses back to its octets, for
  any configured base and any host number up to 255 (the pod subnet wraps instead of overflowing).
\<close>

lemma addresses_wellformed:
  assumes "0 \<le> host" "host \<le> 255"
  shows "addressParts (nodeAddress base host) = take 3 (addressParts base) @ [host] \<and>
         addressParts (podAddress base subnet host) =
           take 2 (addressParts base) @ [(addressParts base ! 2 + subnet) mod 256, host]"
proof -
  obtain a b c d where parts: "addressParts base = [a, b, c, d]" "0 \<le> a" "a \<le> 255" "0 \<le> b" "b \<le> 255" "0 \<le> c" "c \<le> 255"
    using addressParts_range [of base] by (auto simp: eval_nat_numeral length_Suc_conv)
  have "0 \<le> (c + subnet) mod 256" "(c + subnet) mod 256 \<le> 255"
    using pos_mod_bound [of 256 "c + subnet"] by simp_all
  with parts assms show ?thesis
    by (simp add: nodeAddress_def podAddress_def Let_def addressParts_dotted eval_nat_numeral)
qed

lemma addresses_wellformed_example:
  "addressParts (nodeAddress ''10.20.30.0'' 11) = [10, 20, 30, 11]"
proof -
  have "addressParts ''10.20.30.0'' = [10, 20, 30, 0]"
    using addressParts_dotted [of 10 20 30 0] by (simp add: dotted_def show_int_def)
  with addresses_wellformed [of 11 "''10.20.30.0''" 0] show ?thesis by (simp add: eval_nat_numeral)
qed

end
