(* ===== verification/Controller.thy ===== *)
theory Controller
  imports Catalog Addresses
begin

text \<open>
  Controller emulation (\<^verbatim>\<open>handler/controller.go\<close>): when a workload is created, updated or scaled, the
  server materialises the ReplicaSets, Pods, Events, Endpoints and EndpointSlices that a cluster's
  controllers would, and deletes the owned objects with it. Every function takes the store and returns it.

  The immutable part of the \<^verbatim>\<open>API\<close> struct and the clock are the environment \<open>apiEnv\<close>; the clock is read once per
  request. Iterations over Go maps run in the order of the list that represents the map. A run-time panic
  keeps the state reached and is reported by a flag.
\<close>

section \<open>Environment\<close>

record apiEnv =
  ae_resources :: resourceTable
  ae_ipBase :: string
  ae_version :: string
  ae_clock :: nat \<comment> \<open>nanoseconds since 1970\<close>

definition now_text :: "apiEnv \<Rightarrow> string" where
  "now_text a = rfc3339 (ae_clock a div 1000000000)"

definition mk_key :: "string \<Rightarrow> string \<Rightarrow> string \<Rightarrow> string \<Rightarrow> string \<Rightarrow> objectKey" where
  "mk_key g v r ns n = \<lparr>k_group = g, k_version = v, k_resource = r, k_namespace = ns, k_name = n\<rparr>"

definition put_store :: "objectKey \<Rightarrow> gobj \<Rightarrow> string \<Rightarrow> objectStore \<Rightarrow> objectStore" where
  "put_store key object ev s = snd (snd (put key object ev s))"

definition delete_store :: "objectKey \<Rightarrow> objectStore \<Rightarrow> objectStore" where
  "delete_store key s = snd (delete key s)"

definition list_items :: "string \<Rightarrow> string \<Rightarrow> string \<Rightarrow> string \<Rightarrow> objectStore \<Rightarrow> gobj list option" where
  "list_items g v ns res s =
     map_option fst (listPage (gv' g v) ns res [] [] 0 maxListPageItems s)"

abbreviation maxControllerPods :: int where "maxControllerPods \<equiv> 64"

definition isWorkloadKind :: "string \<Rightarrow> bool" where
  "isWorkloadKind kind \<longleftrightarrow> kind \<in> set [''Deployment'', ''ReplicaSet'', ''StatefulSet'', ''DaemonSet'', ''Job'']"

text \<open>
  \<^verbatim>\<open>workloadPodNames\<close>. \<^verbatim>\<open>make([]string, 0, replicas)\<close> panics when the capacity is negative or its 16-byte
  headers exceed the address space (\<open>2 ^ 48\<close> bytes): \<open>None\<close>.
\<close>

definition workloadPodNames :: "string \<Rightarrow> string \<Rightarrow> int \<Rightarrow> int \<Rightarrow> string list option" where
  "workloadPodNames kind name replicas nodeCount =
     (if replicas < 0 \<or> 16 * replicas > 2 ^ 48 then None
      else Some (
        if kind = ''StatefulSet'' then map (\<lambda>i. name @ ''-'' @ show_int (int i)) [0..<nat replicas]
        else if kind = ''DaemonSet'' then map (\<lambda>i. name @ ''-'' @ suffixFor name (int i)) [0..<nat (min nodeCount replicas)]
        else if kind = ''Deployment'' \<or> kind = ''ReplicaSet'' then
          (let rs = suffixFor (name @ ''-rs'') 0
           in map (\<lambda>i. name @ ''-'' @ rs @ ''-'' @ suffixFor name (int i + 1)) [0..<nat replicas])
        else if kind = ''Job'' then [name @ ''-'' @ suffixFor name 0]
        else []))"

section \<open>Nodes\<close>

definition nodeCount :: "objectStore \<Rightarrow> int" where
  "nodeCount s =
     (case listPage (gv' [] ''v1'') [] ''nodes'' [] [] 0 8 s of
        None \<Rightarrow> 1
      | Some (nodes, tot, _) \<Rightarrow> if tot = 0 then 1 else tot)"

definition nodeName :: "int \<Rightarrow> objectStore \<Rightarrow> string" where
  "nodeName ordinal s =
     (case listPage (gv' [] ''v1'') [] ''nodes'' [] [] 0 8 s of
        None \<Rightarrow> ''worker-01''
      | Some (nodes, tot, _) \<Rightarrow>
          if tot = 0 then ''worker-01''
          else stringField (objectMap (gget (nodes ! nat (ordinal mod int (length nodes))) ''metadata'')) ''name'')"

section \<open>Object construction\<close>

definition ownerRef :: "gobj \<Rightarrow> string \<Rightarrow> string \<Rightarrow> string \<Rightarrow> gobj" where
  "ownerRef object kind name apiVersion =
     [(''apiVersion'', GStr apiVersion), (''kind'', GStr kind), (''name'', GStr name),
      (''uid'', gget (objectMap (gget object ''metadata'')) ''uid''),
      (''controller'', GBool True), (''blockOwnerDeletion'', GBool True)]"

definition mergeLabels :: "gval \<Rightarrow> string \<Rightarrow> string \<Rightarrow> gobj" where
  "mergeLabels templateLabels kind templateHashSeed =
     (let labels = objectMap templateLabels
      in if kind = ''Deployment'' \<or> kind = ''ReplicaSet'' then gset ''pod-template-hash'' (GStr templateHashSeed) labels
         else labels)"

text \<open>\<^verbatim>\<open>for key, value := range defaults { if _, ok := m[key]; !ok { m[key] = value } }\<close>\<close>

definition with_defaults :: "(string \<times> gval) list \<Rightarrow> gobj \<Rightarrow> gobj" where
  "with_defaults defaults m = fold (\<lambda>(k, v) m. if has_key m k then m else gset k v m) defaults m"

definition podSpecDefaults :: "(string \<times> gval) list" where
  "podSpecDefaults =
     [(''securityContext'', GMap []), (''dnsPolicy'', GStr ''ClusterFirst''), (''schedulerName'', GStr ''default-scheduler''),
      (''terminationGracePeriodSeconds'', GInt 30), (''enableServiceLinks'', GBool True),
      (''preemptionPolicy'', GStr ''PreemptLowerPriority''), (''priority'', GInt 0)]"

definition containerDefaults :: "(string \<times> gval) list" where
  "containerDefaults =
     [(''resources'', GMap []), (''terminationMessagePath'', GStr ''/dev/termination-log''),
      (''terminationMessagePolicy'', GStr ''File''), (''imagePullPolicy'', GStr ''IfNotPresent'')]"

text \<open>The containers of the list are updated in place; an entry that is not a map is left alone.\<close>

definition applyPodSpecDefaults :: "gobj \<Rightarrow> gobj" where
  "applyPodSpecDefaults spec =
     (let spec1 = with_defaults podSpecDefaults spec
      in case gget spec1 ''containers'' of
           GList entries \<Rightarrow>
             gset ''containers''
               (GList (map (\<lambda>entry. case entry of GMap m \<Rightarrow> GMap (with_defaults containerDefaults m) | _ \<Rightarrow> entry) entries)) spec1
         | _ \<Rightarrow> spec1)"

definition podContainerNames :: "gobj \<Rightarrow> string list" where
  "podContainerNames pod =
     (let spec = objectMap (gget pod ''spec'')
      in concat (map (\<lambda>key.
           concat (map (\<lambda>item. case as_string (gget (objectMap item) ''name'') of
                                 Some n \<Rightarrow> if n \<noteq> [] then [n] else []
                               | None \<Rightarrow> []) (objectList (gget spec key))))
           [''initContainers'', ''containers'']))"

definition imageForContainer :: "gobj \<Rightarrow> string \<Rightarrow> string" where
  "imageForContainer spec name =
     (case find (\<lambda>entry. stringField (objectMap entry) ''name'' = name) (objectList (gget spec ''containers'')) of
        Some entry \<Rightarrow> stringField (objectMap entry) ''image''
      | None \<Rightarrow> [])"

definition containerStatus :: "string \<Rightarrow> string \<Rightarrow> string \<Rightarrow> gval" where
  "containerStatus now name img =
     GMap [(''name'', GStr name), (''ready'', GBool True), (''restartCount'', GInt 0),
           (''state'', GMap [(''running'', GMap [(''startedAt'', GStr now)])]),
           (''started'', GBool True), (''image'', GStr img),
           (''imageID'', GStr (''containerd://'' @ replicate 64 (CHR ''a''))),
           (''containerID'', GStr (''containerd://'' @ replicate 64 (CHR ''b'')))]"

definition readyConditions :: "string \<Rightarrow> gval" where
  "readyConditions now =
     GList [GMap [(''type'', GStr ''Ready''), (''status'', GStr ''True''), (''lastTransitionTime'', GStr now)],
            GMap [(''type'', GStr ''PodScheduled''), (''status'', GStr ''True''), (''lastTransitionTime'', GStr now)]]"

definition controllerPod ::
  "apiEnv \<Rightarrow> string \<Rightarrow> string \<Rightarrow> string \<Rightarrow> string \<Rightarrow> gobj \<Rightarrow> gobj \<Rightarrow> int \<Rightarrow> string \<Rightarrow> objectStore \<Rightarrow> gobj"
where
  "controllerPod a kind namespace workloadName podName owner workload ordinal hashSeed s =
     (let now = now_text a;
          template = objectMap (gget (objectMap (gget workload ''spec'')) ''template'');
          spec0 = cloneObject (objectMap (gget template ''spec''));
          spec1 = (if length spec0 = 0
                   then [(''containers'', GList [GMap [(''name'', GStr workloadName), (''image'', GStr ''busybox'')]])]
                   else spec0);
          spec2 = gset ''nodeName'' (GStr (nodeName ordinal s)) spec1;
          spec3 = gset ''restartPolicy'' (GStr (if kind = ''Job'' then ''Never'' else ''Always'')) spec2;
          spec = applyPodSpecDefaults spec3;
          templateMeta = objectMap (gget template ''metadata'');
          labels0 = mergeLabels (gget templateMeta ''labels'') kind hashSeed;
          jobUID = stableUID (''job/'' @ namespace @ [CHR 0x2F] @ workloadName);
          labels = (if kind = ''Job'' then
              gset ''batch.kubernetes.io/controller-uid'' (GStr jobUID)
                (gset ''controller-uid'' (GStr jobUID)
                  (gset ''batch.kubernetes.io/job-name'' (GStr workloadName)
                    (gset ''job-name'' (GStr workloadName) labels0)))
            else labels0);
          meta = [(''name'', GStr podName), (''namespace'', GStr namespace),
                  (''uid'', GStr (stableUID (''pod/'' @ namespace @ [CHR 0x2F] @ podName))),
                  (''creationTimestamp'', GStr now), (''ownerReferences'', GList [GMap owner]), (''labels'', GMap labels)];
          podIP = serviceAddress (ae_ipBase a) (100 + ordinal);
          statuses = map (\<lambda>name. containerStatus now name (imageForContainer spec name))
                       (podContainerNames [(''spec'', GMap spec)])
      in [(''apiVersion'', GStr ''v1''), (''kind'', GStr ''Pod''), (''metadata'', GMap meta), (''spec'', GMap spec),
          (''status'', GMap [(''phase'', GStr ''Running''), (''podIP'', GStr podIP),
             (''podIPs'', GList [GMap [(''ip'', GStr podIP)]]), (''hostIP'', GStr (serviceAddress (ae_ipBase a) 10)),
             (''startTime'', GStr now), (''qosClass'', GStr ''BestEffort''), (''containerStatuses'', GList statuses),
             (''conditions'', readyConditions now)])])"

section \<open>Events\<close>

definition emitEvent ::
  "apiEnv \<Rightarrow> string \<Rightarrow> gval \<Rightarrow> string \<Rightarrow> string \<Rightarrow> string \<Rightarrow> string \<Rightarrow> string \<Rightarrow> string \<Rightarrow> objectStore \<Rightarrow> objectStore"
where
  "emitEvent a namespace involvedUID involvedKind involvedAPIVersion involvedName reason message source s =
     (let now = now_text a;
          eventName = involvedName @ ''.'' @ show_hex (unat (fnv32 (involvedName @ reason @ now)));
          event = [(''apiVersion'', GStr ''v1''), (''kind'', GStr ''Event''),
             (''metadata'', GMap [(''name'', GStr eventName), (''namespace'', GStr namespace),
                (''uid'', GStr (stableUID (''event/'' @ namespace @ [CHR 0x2F] @ eventName))), (''creationTimestamp'', GStr now)]),
             (''involvedObject'', GMap [(''kind'', GStr involvedKind), (''namespace'', GStr namespace), (''name'', GStr involvedName),
                (''uid'', involvedUID), (''apiVersion'', GStr involvedAPIVersion), (''resourceVersion'', GStr [])]),
             (''reason'', GStr reason), (''message'', GStr message), (''type'', GStr ''Normal''),
             (''source'', GMap [(''component'', GStr source)]),
             (''firstTimestamp'', GStr now), (''lastTimestamp'', GStr now), (''count'', GInt 1),
             (''reportingComponent'', GStr source), (''reportingInstance'', GStr (nodeName 0 s))]
      in put_store (mk_key [] ''v1'' ''events'' namespace eventName) event ''ADDED'' s)"

definition emitPodLifecycleEvents :: "apiEnv \<Rightarrow> string \<Rightarrow> gobj \<Rightarrow> objectStore \<Rightarrow> objectStore" where
  "emitPodLifecycleEvents a namespace pod s =
     (let meta = objectMap (gget pod ''metadata'');
          name = stringField meta ''name''; uid = gget meta ''uid'';
          node = stringField (objectMap (gget pod ''spec'')) ''nodeName'';
          image = (case objectList (gget (objectMap (gget pod ''spec'')) ''containers'') of
                     [] \<Rightarrow> ''image''
                   | entry # _ \<Rightarrow> stringField (objectMap entry) ''image'');
          emit = (\<lambda>reason message source. emitEvent a namespace uid ''Pod'' ''v1'' name reason message source);
          s1 = emit ''Scheduled'' (''Successfully assigned '' @ namespace @ [CHR 0x2F] @ name @ '' to '' @ node) ''default-scheduler'' s;
          s2 = emit ''Pulled'' (''Container image '' @ go_quote image @ '' already present on machine'') ''kubelet'' s1;
          s3 = emit ''Created'' (''Created container '' @ name) ''kubelet'' s2
      in emit ''Started'' (''Started container '' @ name) ''kubelet'' s3)"

definition eventController :: "string \<Rightarrow> string" where
  "eventController kind =
     (case map_of [(''StatefulSet'', ''statefulset-controller''), (''DaemonSet'', ''daemonset-controller''),
                   (''ReplicaSet'', ''replicaset-controller''), (''Job'', ''job-controller'')] kind of
        Some c \<Rightarrow> c | None \<Rightarrow> [])"

text \<open>The flag says that the call panicked; the count of pod names is not capped here.\<close>

definition emitWorkloadEvents :: "apiEnv \<Rightarrow> string \<Rightarrow> string \<Rightarrow> string \<Rightarrow> gobj \<Rightarrow> objectStore \<Rightarrow> bool \<times> objectStore" where
  "emitWorkloadEvents a kind namespace workloadName object s =
     (let uid = gget (objectMap (gget object ''metadata'')) ''uid''; controller = eventController kind
      in if controller = [] then (False, s)
         else case workloadPodNames kind workloadName (intField (objectMap (gget object ''spec'')) ''replicas'') (nodeCount s) of
                None \<Rightarrow> (True, s)
              | Some names \<Rightarrow>
                  (False, fold (\<lambda>podName. emitEvent a namespace uid kind [] workloadName ''SuccessfulCreate''
                                  (''Created pod: '' @ podName) controller) names s))"

section \<open>Ownership\<close>

text \<open>The names of the pods of a namespace that have an owner of the given name (a set of keys, in list order).\<close>

definition owned_by :: "string \<Rightarrow> gobj \<Rightarrow> bool" where
  "owned_by ownerName object \<longleftrightarrow>
     list_ex (\<lambda>ref. stringField (objectMap ref) ''name'' = ownerName)
       (objectList (gget (objectMap (gget object ''metadata'')) ''ownerReferences''))"

definition meta_name :: "gobj \<Rightarrow> string" where
  "meta_name object = stringField (objectMap (gget object ''metadata'')) ''name''"

definition ownedPodNames :: "string \<Rightarrow> string \<Rightarrow> objectStore \<Rightarrow> string list" where
  "ownedPodNames namespace ownerName s =
     (case list_items [] ''v1'' namespace ''pods'' s of
        None \<Rightarrow> []
      | Some pods \<Rightarrow> remdups (map meta_name [pod \<leftarrow> pods. owned_by ownerName pod]))"

text \<open>An item is listed once per matching reference, as the nested loops do.\<close>

definition deploymentReplicaSets :: "string \<Rightarrow> string \<Rightarrow> objectStore \<Rightarrow> gobj list" where
  "deploymentReplicaSets namespace deployName s =
     (case list_items ''apps'' ''v1'' namespace ''replicasets'' s of
        None \<Rightarrow> []
      | Some items \<Rightarrow>
          concat (map (\<lambda>item. concat (map (\<lambda>ref. if stringField (objectMap ref) ''name'' = deployName then [item] else [])
            (objectList (gget (objectMap (gget item ''metadata'')) ''ownerReferences'')))) items))"

definition nextDeploymentRevision :: "string \<Rightarrow> string \<Rightarrow> objectStore \<Rightarrow> int" where
  "nextDeploymentRevision namespace deployName s = int (length (deploymentReplicaSets namespace deployName s)) + 1"

definition pod_key :: "string \<Rightarrow> string \<Rightarrow> objectKey" where
  "pod_key namespace podName = mk_key [] ''v1'' ''pods'' namespace podName"

definition delete_pods :: "string \<Rightarrow> string list \<Rightarrow> objectStore \<Rightarrow> objectStore" where
  "delete_pods namespace podNames = fold (\<lambda>podName. delete_store (pod_key namespace podName)) podNames"

definition reapOwnedPods :: "string \<Rightarrow> string \<Rightarrow> objectStore \<Rightarrow> objectStore" where
  "reapOwnedPods namespace workloadName s =
     (let s1 = delete_pods namespace (ownedPodNames namespace workloadName s) s
      in fold (\<lambda>rs s.
           let rsName = meta_name rs;
               s2 = delete_pods namespace (ownedPodNames namespace rsName s) s
           in delete_store (mk_key ''apps'' ''v1'' ''replicasets'' namespace rsName) s2)
         (deploymentReplicaSets namespace workloadName s1) s1)"

section \<open>Reconciliation\<close>

definition syncDeploymentStatus :: "string \<Rightarrow> string \<Rightarrow> int \<Rightarrow> objectStore \<Rightarrow> objectStore" where
  "syncDeploymentStatus namespace name desired s =
     (let key = mk_key ''apps'' ''v1'' ''deployments'' namespace name
      in case get s key of
           None \<Rightarrow> s
         | Some deployment \<Rightarrow>
             (let status = gset ''availableReplicas'' (GInt desired) (gset ''readyReplicas'' (GInt desired)
                    (gset ''updatedReplicas'' (GInt desired) (gset ''replicas'' (GInt desired)
                      (objectMap (gget deployment ''status'')))))
              in put_store key (gset ''status'' (GMap status) deployment) ''MODIFIED'' s))"

text \<open>The pods of a workload that are missing are created, each announced by its lifecycle events.\<close>

definition create_pod :: "apiEnv \<Rightarrow> string \<Rightarrow> string \<Rightarrow> gobj \<Rightarrow> objectStore \<Rightarrow> objectStore" where
  "create_pod a namespace podName pod s =
     (let (err, pod1, s1) = put (pod_key namespace podName) pod ''ADDED'' s
      in if err = None then emitPodLifecycleEvents a namespace pod1 s1 else s1)"

definition scaled_rs :: "int \<Rightarrow> gobj \<Rightarrow> gobj" where
  "scaled_rs desired rs =
     (let rsSpec = gset ''replicas'' (GInt desired) (objectMap (gget rs ''spec''));
          rsStatus = gset ''availableReplicas'' (GInt desired) (gset ''readyReplicas'' (GInt desired)
            (gset ''replicas'' (GInt desired) (objectMap (gget rs ''status''))))
      in gset ''status'' (GMap rsStatus) (gset ''spec'' (GMap rsSpec) rs))"

definition newReplicaSet :: "apiEnv \<Rightarrow> string \<Rightarrow> string \<Rightarrow> string \<Rightarrow> gobj \<Rightarrow> int \<Rightarrow> int \<Rightarrow> gobj" where
  "newReplicaSet a namespace name rsName deployment desired revision =
     (let spec = objectMap (gget deployment ''spec'')
      in [(''apiVersion'', GStr ''apps/v1''), (''kind'', GStr ''ReplicaSet''),
          (''metadata'', GMap [(''name'', GStr rsName), (''namespace'', GStr namespace),
             (''uid'', GStr (stableUID (''replicaset/'' @ namespace @ [CHR 0x2F] @ rsName))),
             (''creationTimestamp'', GStr (now_text a)),
             (''ownerReferences'', GList [GMap (ownerRef deployment ''Deployment'' name ''apps/v1'')]),
             (''labels'', GMap (mergeLabels (gget (objectMap (gget (objectMap (gget spec ''template'')) ''metadata'')) ''labels'')
                ''Deployment'' (templateHash deployment))),
             (''annotations'', GMap
                [(''deployment.kubernetes.io/desired-replicas'', GStr (show_int desired)),
                 (''deployment.kubernetes.io/max-replicas'', GStr (show_int (desired + desired div 4))),
                 (''deployment.kubernetes.io/revision'', GStr (show_int revision))])]),
          (''spec'', GMap [(''replicas'', GInt desired), (''selector'', gget spec ''selector''), (''template'', gget spec ''template'')]),
          (''status'', GMap [(''replicas'', GInt desired), (''readyReplicas'', GInt desired), (''availableReplicas'', GInt desired),
             (''fullyLabeledReplicas'', GInt desired), (''observedGeneration'', GInt 1)])])"

text \<open>
  The first half of \<^verbatim>\<open>materializeDeployment\<close>: the ReplicaSet of the current template exists with the desired
  size. \<open>None\<close> is the early return after a refused \<^verbatim>\<open>put\<close>.
\<close>

definition ensureReplicaSet :: "apiEnv \<Rightarrow> string \<Rightarrow> string \<Rightarrow> gobj \<Rightarrow> int \<Rightarrow> objectStore \<Rightarrow> gobj option \<times> objectStore" where
  "ensureReplicaSet a namespace name deployment desired s =
     (let rsName = name @ ''-'' @ templateHash deployment;
          rsKey = mk_key ''apps'' ''v1'' ''replicasets'' namespace rsName
      in case get s rsKey of
           None \<Rightarrow>
             (let revision = nextDeploymentRevision namespace name s;
                  (err, rs, s1) = put rsKey (newReplicaSet a namespace name rsName deployment desired revision) ''ADDED'' s
              in if err \<noteq> None then (None, s1)
                 else let s2 = emitEvent a namespace (gget (objectMap (gget deployment ''metadata'')) ''uid'') ''Deployment'' ''apps/v1'' name
                                 ''ScalingReplicaSet'' (''Scaled up replica set '' @ rsName @ '' to '' @ show_int desired) ''deployment-controller'' s1;
                          s3 = emitEvent a namespace (GStr (stableUID (''replicaset/'' @ namespace @ [CHR 0x2F] @ rsName))) ''ReplicaSet'' ''apps/v1'' rsName
                                 ''SuccessfulCreate'' (''Created pod: '' @ rsName @ ''-'' @ suffixFor rsName 0) ''replicaset-controller'' s2
                   in (Some rs, s3))
         | Some rs \<Rightarrow>
             (if intField (objectMap (gget rs ''spec'')) ''replicas'' \<noteq> desired
              then let (err, rs1, s1) = put rsKey (scaled_rs desired rs) ''MODIFIED'' s in (Some rs1, s1)
              else (Some rs, s)))"

text \<open>The last part: older ReplicaSets of the Deployment are scaled to zero and lose their pods.\<close>

definition retireReplicaSet :: "string \<Rightarrow> string \<Rightarrow> gobj \<Rightarrow> objectStore \<Rightarrow> objectStore" where
  "retireReplicaSet namespace rsName oldRS s =
     (let oldName = meta_name oldRS
      in if oldName = rsName then s
         else let s1 = (if intField (objectMap (gget oldRS ''spec'')) ''replicas'' \<noteq> 0
                        then put_store (mk_key ''apps'' ''v1'' ''replicasets'' namespace oldName) (scaled_rs 0 oldRS) ''MODIFIED'' s
                        else s)
           in delete_pods namespace (ownedPodNames namespace oldName s1) s1)"

definition materializeDeployment :: "apiEnv \<Rightarrow> string \<Rightarrow> string \<Rightarrow> gobj \<Rightarrow> objectStore \<Rightarrow> objectStore" where
  "materializeDeployment a namespace name deployment s =
     (let desired0 = intField (objectMap (gget deployment ''spec'')) ''replicas'';
          desired = (if desired0 > maxControllerPods then maxControllerPods else desired0)
      in if desired < 0 then s
         else let rsName = name @ ''-'' @ templateHash deployment;
                  (ors, s1) = ensureReplicaSet a namespace name deployment desired s
           in case ors of
                None \<Rightarrow> s1
              | Some rs \<Rightarrow>
                  (let podNames = map (\<lambda>i. rsName @ ''-'' @ suffixFor rsName (int i)) [0..<nat desired];
                       existing = ownedPodNames namespace rsName s1;
                       s2 = delete_pods namespace [podName \<leftarrow> existing. podName \<notin> set podNames] s1;
                       owner = ownerRef rs ''ReplicaSet'' rsName ''apps/v1'';
                       s3 = fold (\<lambda>(i, podName) s.
                              if podName \<in> set existing then s
                              else create_pod a namespace podName
                                     (controllerPod a ''Deployment'' namespace rsName podName owner deployment (int i) (templateHash deployment) s) s)
                            (enumerate 0 podNames) s2;
                       s4 = fold (retireReplicaSet namespace rsName) (deploymentReplicaSets namespace name s3) s3
                   in syncDeploymentStatus namespace name desired s4))"

definition materializePods :: "apiEnv \<Rightarrow> groupVersion \<Rightarrow> string \<Rightarrow> string \<Rightarrow> gobj \<Rightarrow> objectStore \<Rightarrow> bool \<times> objectStore" where
  "materializePods a gv namespace workloadName object s =
     (let kind = stringField object ''kind''
      in if kind = ''Deployment'' then (False, materializeDeployment a namespace workloadName object s)
         else
           let desired0 = (if kind = ''DaemonSet'' then nodeCount s else if kind = ''Job'' then 1
                           else intField (objectMap (gget object ''spec'')) ''replicas'');
               desired = (if desired0 > maxControllerPods then maxControllerPods else desired0)
           in if desired < 0 then (False, s)
              else case workloadPodNames kind workloadName desired (nodeCount s) of
                     None \<Rightarrow> (True, s)
                   | Some podNames \<Rightarrow>
                       (let owner = ownerRef object kind workloadName (apiVersionFor gv);
                            existing = ownedPodNames namespace workloadName s;
                            s1 = delete_pods namespace [podName \<leftarrow> existing. podName \<notin> set podNames] s
                        in case workloadPodNames kind workloadName desired (nodeCount s1) of
                             None \<Rightarrow> (True, s1)
                           | Some podNames1 \<Rightarrow>
                               emitWorkloadEvents a kind namespace workloadName object
                                 (fold (\<lambda>(i, podName) s.
                                    if podName \<in> set existing then s
                                    else create_pod a namespace podName
                                           (controllerPod a kind namespace workloadName podName owner object (int i) (templateHash object) s) s)
                                  (enumerate 0 podNames1) s1)))"

section \<open>Endpoints\<close>

definition selector_matches :: "gobj \<Rightarrow> gobj \<Rightarrow> bool" where
  "selector_matches selector labels =
     list_all (\<lambda>(key, value). go_sprint (gget labels key) = go_sprint value) selector"

definition endpointAddressesOf :: "string \<Rightarrow> gobj \<Rightarrow> gobj list \<Rightarrow> gval list" where
  "endpointAddressesOf namespace selector pods =
     concat (map (\<lambda>pod.
       let podMeta = objectMap (gget pod ''metadata'');
           ip = stringField (objectMap (gget pod ''status'')) ''podIP''
       in if \<not> selector_matches selector (objectMap (gget podMeta ''labels'')) \<or> ip = [] then []
          else [GMap [(''ip'', GStr ip),
                  (''targetRef'', GMap [(''kind'', GStr ''Pod''), (''namespace'', GStr namespace),
                     (''name'', GStr (stringField podMeta ''name'')), (''uid'', gget podMeta ''uid'')])]]) pods)"

definition put_or_add :: "objectKey \<Rightarrow> gobj \<Rightarrow> objectStore \<Rightarrow> objectStore" where
  "put_or_add key object s = put_store key object (if get s key \<noteq> None then ''MODIFIED'' else ''ADDED'') s"

definition endpointSlice :: "string \<Rightarrow> string \<Rightarrow> gobj \<Rightarrow> gval list \<Rightarrow> gval list \<Rightarrow> gobj" where
  "endpointSlice namespace serviceName serviceMeta addresses ports =
     (let sliceName = serviceName @ ''-'' @ suffixFor serviceName 0;
          sliceEndpoints = map (\<lambda>entry. let address = objectMap entry in
            GMap [(''addresses'', GList [gget address ''ip'']),
                  (''conditions'', GMap [(''ready'', GBool True), (''serving'', GBool True), (''terminating'', GBool False)]),
                  (''targetRef'', gget address ''targetRef'')]) addresses;
          slicePorts = map (\<lambda>entry. let port = objectMap entry in
            GMap [(''name'', if gget port ''name'' = GNil then GStr [] else gget port ''name''),
                  (''port'', gget port ''port''), (''protocol'', gget port ''protocol'')]) ports
      in [(''apiVersion'', GStr ''discovery.k8s.io/v1''), (''kind'', GStr ''EndpointSlice''), (''addressType'', GStr ''IPv4''),
          (''metadata'', GMap [(''name'', GStr sliceName), (''namespace'', GStr namespace),
             (''uid'', GStr (stableUID (''endpointslice/'' @ namespace @ [CHR 0x2F] @ sliceName))),
             (''creationTimestamp'', gget serviceMeta ''creationTimestamp''),
             (''labels'', GMap [(''kubernetes.io/service-name'', GStr serviceName),
                (''endpointslice.kubernetes.io/managed-by'', GStr ''endpointslice-controller.k8s.io'')]),
             (''ownerReferences'', GList [GMap [(''apiVersion'', GStr ''v1''), (''kind'', GStr ''Service''), (''name'', GStr serviceName),
                (''uid'', gget serviceMeta ''uid''), (''controller'', GBool True), (''blockOwnerDeletion'', GBool True)]])]),
          (''endpoints'', GList sliceEndpoints), (''ports'', GList slicePorts)])"

definition syncEndpointSlice :: "string \<Rightarrow> string \<Rightarrow> gobj \<Rightarrow> gval list \<Rightarrow> gval list \<Rightarrow> objectStore \<Rightarrow> objectStore" where
  "syncEndpointSlice namespace serviceName serviceMeta addresses ports s =
     put_or_add (mk_key ''discovery.k8s.io'' ''v1'' ''endpointslices'' namespace (serviceName @ ''-'' @ suffixFor serviceName 0))
       (endpointSlice namespace serviceName serviceMeta addresses ports) s"

definition syncService :: "string \<Rightarrow> gobj list \<Rightarrow> gobj \<Rightarrow> objectStore \<Rightarrow> objectStore" where
  "syncService namespace pods service s =
     (let serviceMeta = objectMap (gget service ''metadata'');
          serviceName = stringField serviceMeta ''name'';
          spec = objectMap (gget service ''spec'');
          selector = objectMap (gget spec ''selector'')
      in if length selector = 0 then s
         else let addresses = endpointAddressesOf namespace selector pods;
                  ports = map (\<lambda>entry. let port = objectMap entry in
                    GMap [(''name'', gget port ''name''), (''port'', gget port ''port''), (''protocol'', GStr ''TCP'')])
                    (objectList (gget spec ''ports''));
                  subsets = (if length addresses > 0
                             then [GMap [(''addresses'', GList addresses), (''ports'', GList ports)]] else []);
                  endpoints = [(''apiVersion'', GStr ''v1''), (''kind'', GStr ''Endpoints''),
                    (''metadata'', GMap [(''name'', GStr serviceName), (''namespace'', GStr namespace),
                       (''uid'', GStr (stableUID (''endpoints/'' @ namespace @ [CHR 0x2F] @ serviceName))),
                       (''creationTimestamp'', gget serviceMeta ''creationTimestamp''),
                       (''labels'', GMap [(''kubernetes.io/service-name'', GStr serviceName)])]),
                    (''subsets'', GList subsets)]
           in syncEndpointSlice namespace serviceName serviceMeta addresses ports
                (put_or_add (mk_key [] ''v1'' ''endpoints'' namespace serviceName) endpoints s))"

definition syncEndpointsForNamespace :: "string \<Rightarrow> objectStore \<Rightarrow> objectStore" where
  "syncEndpointsForNamespace namespace s =
     (case list_items [] ''v1'' namespace ''services'' s of
        None \<Rightarrow> s
      | Some services \<Rightarrow>
          (case list_items [] ''v1'' namespace ''pods'' s of
             None \<Rightarrow> s
           | Some pods \<Rightarrow> fold (syncService namespace pods) services s))"

section \<open>Respawning\<close>

definition controllingOwner :: "gobj \<Rightarrow> gobj" where
  "controllingOwner pod =
     (case find (\<lambda>ref. as_bool (gget (objectMap ref) ''controller'') = Some True)
             (objectList (gget (objectMap (gget pod ''metadata'')) ''ownerReferences'')) of
        Some ref \<Rightarrow> objectMap ref
      | None \<Rightarrow> [])"

definition respawnReplicaSetPod :: "apiEnv \<Rightarrow> groupVersion \<Rightarrow> string \<Rightarrow> string \<Rightarrow> objectStore \<Rightarrow> bool \<times> objectStore" where
  "respawnReplicaSetPod a gv namespace ownerName s =
     (case get s (mk_key ''apps'' ''v1'' ''replicasets'' namespace ownerName) of
        None \<Rightarrow> (False, s)
      | Some rs \<Rightarrow>
          (let deployments = concat (map (\<lambda>ref. let owner = objectMap ref in
                 if stringField owner ''kind'' = ''Deployment''
                 then (case get s (mk_key ''apps'' ''v1'' ''deployments'' namespace (stringField owner ''name'')) of
                         Some deployment \<Rightarrow> [(stringField owner ''name'', deployment)]
                       | None \<Rightarrow> [])
                 else []) (objectList (gget (objectMap (gget rs ''metadata'')) ''ownerReferences'')))
           in case deployments of
                (deployName, deployment) # _ \<Rightarrow> (False, materializeDeployment a namespace deployName deployment s)
              | [] \<Rightarrow> if isWorkloadKind ''ReplicaSet'' then materializePods a gv namespace ownerName rs s else (False, s)))"

definition respawnDeletedPod :: "apiEnv \<Rightarrow> string \<Rightarrow> gobj option \<Rightarrow> objectStore \<Rightarrow> bool \<times> objectStore" where
  "respawnDeletedPod a namespace opod s =
     (case opod of
        None \<Rightarrow> (False, s)
      | Some pod \<Rightarrow>
          (let owner = controllingOwner pod;
               ownerKind = stringField owner ''kind''; ownerName = stringField owner ''name'';
               gv = (case cut_at [CHR 0x2F] (stringField owner ''apiVersion'') of
                       Some (g, v) \<Rightarrow> gv' g v
                     | None \<Rightarrow> gv' [] (stringField owner ''apiVersion''))
           in if ownerName = [] then (False, s)
              else if ownerKind = ''ReplicaSet'' then respawnReplicaSetPod a gv namespace ownerName s
              else if \<not> isWorkloadKind ownerKind then (False, s)
              else case find (\<lambda>(resourceName, description). r_Kind description = ownerKind) (table_items (ae_resources a) gv) of
                     None \<Rightarrow> (False, s)
                   | Some (resourceName, description) \<Rightarrow>
                       (case get s (mk_key (Group gv) (Version gv) resourceName namespace ownerName) of
                          None \<Rightarrow> (False, s)
                        | Some workload \<Rightarrow> materializePods a gv namespace ownerName workload s)))"

section \<open>Reconciliation only writes through the store\<close>

text \<open>
  Whatever a controller does to the store is a sequence of \<^verbatim>\<open>put\<close>, \<^verbatim>\<open>delete\<close> and \<^verbatim>\<open>nextName\<close> calls, so
  every invariant of the store survives it. \<open>ctrl_writes\<close> collects this for each function.
\<close>

inductive write_step :: "objectStore \<Rightarrow> objectStore \<Rightarrow> bool" where
  write_put: "write_step s (snd (snd (put key object ev s)))"
| write_delete: "write_step s (snd (delete key s))"
| write_name: "write_step s (snd (nextName prefix s))"

abbreviation writes :: "objectStore \<Rightarrow> objectStore \<Rightarrow> bool" where
  "writes \<equiv> write_step\<^sup>*\<^sup>*"

lemma write_store_step: "write_step s s' \<Longrightarrow> store_step (s, ws) (s', ws)"
  by (induction rule: write_step.induct) (auto intro: store_step.intros)

lemma writes_store_steps: "writes s s' \<Longrightarrow> store_step\<^sup>*\<^sup>* (s, ws) (s', ws)"
  by (induction rule: rtranclp_induct) (auto intro: rtranclp.rtrancl_into_rtrancl write_store_step)

lemma writes_system_ok: "writes s s' \<Longrightarrow> system_ok (s, ws) \<Longrightarrow> system_ok (s', ws)"
proof (induction rule: rtranclp_induct)
  case (step y z)
  then show ?case using system_ok_step [OF write_store_step] by blast
qed

lemma writes_trans [trans]: "writes s t \<Longrightarrow> writes t u \<Longrightarrow> writes s u"
  by (rule rtranclp_trans)

named_theorems ctrl_writes \<open>the store after an operation is reached by writes\<close>

lemma writes_refl [ctrl_writes]: "writes s s"
  by simp

lemma writes_put: "put key object ev t = (err, object', t') \<Longrightarrow> writes s t \<Longrightarrow> writes s t'"
  using write_put [of t key object ev] by (auto intro: rtranclp.rtrancl_into_rtrancl)

lemma writes_put_store [ctrl_writes]: "writes s t \<Longrightarrow> writes s (put_store key object ev t)"
  unfolding put_store_def by (erule rtranclp.rtrancl_into_rtrancl) (rule write_put)

lemma writes_delete_store [ctrl_writes]: "writes s t \<Longrightarrow> writes s (delete_store key t)"
  unfolding delete_store_def by (erule rtranclp.rtrancl_into_rtrancl) (rule write_delete)

lemma writes_fold [ctrl_writes]:
  "writes s t \<Longrightarrow> (\<And>x u. writes s u \<Longrightarrow> writes s (f x u)) \<Longrightarrow> writes s (fold f xs t)"
  by (induction xs arbitrary: t) auto

lemma writes_if [ctrl_writes]: "writes s x \<Longrightarrow> writes s y \<Longrightarrow> writes s (if P then x else y)"
  by simp

lemma writes_case_option [ctrl_writes]:
  "writes s x \<Longrightarrow> (\<And>v. writes s (f v)) \<Longrightarrow> writes s (case opt of None \<Rightarrow> x | Some v \<Rightarrow> f v)"
  by (cases opt) auto

lemma writes_snd_if [ctrl_writes]: "writes s (snd x) \<Longrightarrow> writes s (snd y) \<Longrightarrow> writes s (snd (if P then x else y))"
  by simp

lemma writes_snd_option [ctrl_writes]:
  "writes s (snd x) \<Longrightarrow> (\<And>v. writes s (snd (f v))) \<Longrightarrow> writes s (snd (case opt of None \<Rightarrow> x | Some v \<Rightarrow> f v))"
  by (cases opt) auto

lemma writes_snd_Pair [ctrl_writes]: "writes s t \<Longrightarrow> writes s (snd (x, t))"
  by simp

lemma writes_case_put [ctrl_writes]:
  "writes s t \<Longrightarrow> (\<And>err o' t'. writes s t' \<Longrightarrow> writes s (f err o' t')) \<Longrightarrow>
   writes s (case put key object ev t of (err, o', t') \<Rightarrow> f err o' t')"
  using writes_put [of key object ev t] by (auto split: prod.splits)

lemma writes_snd_put [ctrl_writes]:
  "writes s t \<Longrightarrow> (\<And>err o' t'. writes s t' \<Longrightarrow> writes s (snd (f err o' t'))) \<Longrightarrow>
   writes s (snd (case put key object ev t of (err, o', t') \<Rightarrow> f err o' t'))"
  using writes_put [of key object ev t] by (auto split: prod.splits)

lemma writes_emitEvent [ctrl_writes]: "writes s t \<Longrightarrow> writes s (emitEvent a ns uid k av n r m src t)"
  unfolding emitEvent_def Let_def by (rule ctrl_writes)

lemma writes_emitPodLifecycleEvents [ctrl_writes]: "writes s t \<Longrightarrow> writes s (emitPodLifecycleEvents a ns pod t)"
  unfolding emitPodLifecycleEvents_def Let_def by (intro ctrl_writes)

lemma writes_emitWorkloadEvents [ctrl_writes]: "writes s t \<Longrightarrow> writes s (snd (emitWorkloadEvents a kind ns n object t))"
  unfolding emitWorkloadEvents_def Let_def by (intro ctrl_writes)

lemma writes_delete_pods [ctrl_writes]: "writes s t \<Longrightarrow> writes s (delete_pods ns names t)"
  unfolding delete_pods_def by (intro ctrl_writes)

lemma writes_reapOwnedPods [ctrl_writes]: "writes s t \<Longrightarrow> writes s (reapOwnedPods ns n t)"
  unfolding reapOwnedPods_def Let_def by (intro ctrl_writes)

lemma writes_syncDeploymentStatus [ctrl_writes]: "writes s t \<Longrightarrow> writes s (syncDeploymentStatus ns n d t)"
  unfolding syncDeploymentStatus_def Let_def by (intro ctrl_writes)

lemma writes_create_pod [ctrl_writes]: "writes s t \<Longrightarrow> writes s (create_pod a ns n pod t)"
  unfolding create_pod_def Let_def by (intro ctrl_writes)

lemma writes_ensureReplicaSet [ctrl_writes]: "writes s t \<Longrightarrow> writes s (snd (ensureReplicaSet a ns n d k t))"
  unfolding ensureReplicaSet_def Let_def by (intro ctrl_writes)

lemma writes_retireReplicaSet [ctrl_writes]: "writes s t \<Longrightarrow> writes s (retireReplicaSet ns n rs t)"
  unfolding retireReplicaSet_def Let_def by (intro ctrl_writes)

lemma writes_case_ensure [ctrl_writes]:
  "writes s t \<Longrightarrow> (\<And>rs t'. writes s t' \<Longrightarrow> writes s (f rs t')) \<Longrightarrow>
   writes s (case ensureReplicaSet a ns n d k t of (rs, t') \<Rightarrow> f rs t')"
  using writes_ensureReplicaSet [of s t a ns n d k] by (auto split: prod.splits)

lemma writes_case_app [ctrl_writes]: "(\<And>i p. writes s (g i p u)) \<Longrightarrow> writes s ((case x of (i, p) \<Rightarrow> g i p) u)"
  by (cases x) auto

lemma writes_materializeDeployment [ctrl_writes]: "writes s t \<Longrightarrow> writes s (materializeDeployment a ns n d t)"
  unfolding materializeDeployment_def Let_def by (intro ctrl_writes)

lemma writes_materializePods [ctrl_writes]: "writes s t \<Longrightarrow> writes s (snd (materializePods a gv ns n object t))"
  unfolding materializePods_def Let_def by (intro ctrl_writes)

lemma writes_put_or_add [ctrl_writes]: "writes s t \<Longrightarrow> writes s (put_or_add key object t)"
  unfolding put_or_add_def by (intro ctrl_writes)

lemma writes_syncEndpointSlice [ctrl_writes]: "writes s t \<Longrightarrow> writes s (syncEndpointSlice ns n m ads ps t)"
  unfolding syncEndpointSlice_def by (intro ctrl_writes)

lemma writes_syncService [ctrl_writes]: "writes s t \<Longrightarrow> writes s (syncService ns pods service t)"
  unfolding syncService_def Let_def by (intro ctrl_writes)

lemma writes_syncEndpoints [ctrl_writes]: "writes s t \<Longrightarrow> writes s (syncEndpointsForNamespace ns t)"
  unfolding syncEndpointsForNamespace_def by (intro ctrl_writes)

lemma writes_snd_list [ctrl_writes]:
  "writes s (snd x) \<Longrightarrow> (\<And>v vs. writes s (snd (f v vs))) \<Longrightarrow> writes s (snd (case l of [] \<Rightarrow> x | v # vs \<Rightarrow> f v vs))"
  by (cases l) auto

lemma writes_snd_prod [ctrl_writes]: "(\<And>x y. writes s (snd (f x y))) \<Longrightarrow> writes s (snd (case p of (x, y) \<Rightarrow> f x y))"
  by (cases p) auto

lemma writes_respawnReplicaSetPod [ctrl_writes]: "writes s t \<Longrightarrow> writes s (snd (respawnReplicaSetPod a gv ns n t))"
  unfolding respawnReplicaSetPod_def Let_def by (intro ctrl_writes)

lemma writes_respawnDeletedPod [ctrl_writes]: "writes s t \<Longrightarrow> writes s (snd (respawnDeletedPod a ns opod t))"
  unfolding respawnDeletedPod_def Let_def by (intro ctrl_writes)

section \<open>Reconciliation stays in its namespace\<close>

named_theorems ctrl_frame \<open>an object outside the namespace reads as before\<close>

definition unchanged :: "objectKey \<Rightarrow> objectStore \<Rightarrow> objectStore \<Rightarrow> bool" where
  "unchanged k s t \<longleftrightarrow> get t k = get s k"

lemma unchanged_refl [ctrl_frame]: "unchanged k s s"
  by (simp add: unchanged_def)

lemma unchanged_put: "key \<noteq> k \<Longrightarrow> unchanged k s t \<Longrightarrow> unchanged k s (snd (snd (put key object ev t)))"
  by (cases rule: put_cases [of key object ev t]) (simp_all add: unchanged_def get_put_state)

lemma mk_key_neq: "k_namespace k \<noteq> ns \<Longrightarrow> mk_key g v r ns n \<noteq> k"
  by (auto simp: mk_key_def)

lemma unchanged_put_store [ctrl_frame]:
  "k_namespace k \<noteq> ns \<Longrightarrow> unchanged k s t \<Longrightarrow> unchanged k s (put_store (mk_key g v r ns n) object ev t)"
  unfolding put_store_def by (intro unchanged_put mk_key_neq)

lemma unchanged_delete_store [ctrl_frame]:
  "k_namespace k \<noteq> ns \<Longrightarrow> unchanged k s t \<Longrightarrow> unchanged k s (delete_store (mk_key g v r ns n) t)"
  by (auto simp: delete_store_def unchanged_def get_delete mk_key_def)

lemma unchanged_fold [ctrl_frame]:
  "unchanged k s t \<Longrightarrow> (\<And>x u. unchanged k s u \<Longrightarrow> unchanged k s (f x u)) \<Longrightarrow> unchanged k s (fold f xs t)"
  by (induction xs arbitrary: t) auto

lemma unchanged_if [ctrl_frame]: "unchanged k s x \<Longrightarrow> unchanged k s y \<Longrightarrow> unchanged k s (if P then x else y)"
  by simp

lemma unchanged_option [ctrl_frame]:
  "unchanged k s x \<Longrightarrow> (\<And>v. unchanged k s (f v)) \<Longrightarrow> unchanged k s (case opt of None \<Rightarrow> x | Some v \<Rightarrow> f v)"
  by (cases opt) auto

lemma unchanged_snd_if [ctrl_frame]: "unchanged k s (snd x) \<Longrightarrow> unchanged k s (snd y) \<Longrightarrow> unchanged k s (snd (if P then x else y))"
  by simp

lemma unchanged_snd_option [ctrl_frame]:
  "unchanged k s (snd x) \<Longrightarrow> (\<And>v. unchanged k s (snd (f v))) \<Longrightarrow> unchanged k s (snd (case opt of None \<Rightarrow> x | Some v \<Rightarrow> f v))"
  by (cases opt) auto

lemma unchanged_snd_Pair [ctrl_frame]: "unchanged k s t \<Longrightarrow> unchanged k s (snd (x, t))"
  by simp

lemma unchanged_case_put [ctrl_frame]:
  "k_namespace k \<noteq> ns \<Longrightarrow> unchanged k s t \<Longrightarrow> (\<And>err o' t'. unchanged k s t' \<Longrightarrow> unchanged k s (f err o' t')) \<Longrightarrow>
   unchanged k s (case put (mk_key g v r ns n) object ev t of (err, o', t') \<Rightarrow> f err o' t')"
  using unchanged_put [OF mk_key_neq, of k ns s t g v r n object ev]
  by (cases "put (mk_key g v r ns n) object ev t") simp

lemma unchanged_snd_put [ctrl_frame]:
  "k_namespace k \<noteq> ns \<Longrightarrow> unchanged k s t \<Longrightarrow> (\<And>err o' t'. unchanged k s t' \<Longrightarrow> unchanged k s (snd (f err o' t'))) \<Longrightarrow>
   unchanged k s (snd (case put (mk_key g v r ns n) object ev t of (err, o', t') \<Rightarrow> f err o' t'))"
  using unchanged_put [OF mk_key_neq, of k ns s t g v r n object ev]
  by (cases "put (mk_key g v r ns n) object ev t") simp

lemma unchanged_case_app [ctrl_frame]: "(\<And>i p. unchanged k s (g i p u)) \<Longrightarrow> unchanged k s ((case x of (i, p) \<Rightarrow> g i p) u)"
  by (cases x) auto

lemma unchanged_emitEvent [ctrl_frame]:
  "k_namespace k \<noteq> ns \<Longrightarrow> unchanged k s t \<Longrightarrow> unchanged k s (emitEvent a ns uid kd av n r m src t)"
  unfolding emitEvent_def Let_def by (intro ctrl_frame)

lemma unchanged_lifecycle [ctrl_frame]:
  "k_namespace k \<noteq> ns \<Longrightarrow> unchanged k s t \<Longrightarrow> unchanged k s (emitPodLifecycleEvents a ns pod t)"
  unfolding emitPodLifecycleEvents_def Let_def by (intro ctrl_frame)

lemma unchanged_workloadEvents [ctrl_frame]:
  "k_namespace k \<noteq> ns \<Longrightarrow> unchanged k s t \<Longrightarrow> unchanged k s (snd (emitWorkloadEvents a kind ns n object t))"
  unfolding emitWorkloadEvents_def Let_def by (intro ctrl_frame)

lemma unchanged_delete_pods [ctrl_frame]: "k_namespace k \<noteq> ns \<Longrightarrow> unchanged k s t \<Longrightarrow> unchanged k s (delete_pods ns names t)"
  unfolding delete_pods_def pod_key_def by (intro ctrl_frame)

lemma unchanged_reap [ctrl_frame]: "k_namespace k \<noteq> ns \<Longrightarrow> unchanged k s t \<Longrightarrow> unchanged k s (reapOwnedPods ns n t)"
  unfolding reapOwnedPods_def Let_def by (intro ctrl_frame)

lemma unchanged_status [ctrl_frame]: "k_namespace k \<noteq> ns \<Longrightarrow> unchanged k s t \<Longrightarrow> unchanged k s (syncDeploymentStatus ns n d t)"
  unfolding syncDeploymentStatus_def Let_def by (intro ctrl_frame)

lemma unchanged_create_pod [ctrl_frame]: "k_namespace k \<noteq> ns \<Longrightarrow> unchanged k s t \<Longrightarrow> unchanged k s (create_pod a ns n pod t)"
  unfolding create_pod_def pod_key_def Let_def by (intro ctrl_frame)

lemma unchanged_ensure: "k_namespace k \<noteq> ns \<Longrightarrow> unchanged k s t \<Longrightarrow> unchanged k s (snd (ensureReplicaSet a ns n d c t))"
  unfolding ensureReplicaSet_def Let_def by (intro ctrl_frame)

lemma unchanged_case_ensure [ctrl_frame]:
  "k_namespace k \<noteq> ns \<Longrightarrow> unchanged k s t \<Longrightarrow> (\<And>rs t'. unchanged k s t' \<Longrightarrow> unchanged k s (f rs t')) \<Longrightarrow>
   unchanged k s (case ensureReplicaSet a ns n d c t of (rs, t') \<Rightarrow> f rs t')"
  using unchanged_ensure [of k ns s t a n d c] by (auto split: prod.splits)

lemma unchanged_retire [ctrl_frame]: "k_namespace k \<noteq> ns \<Longrightarrow> unchanged k s t \<Longrightarrow> unchanged k s (retireReplicaSet ns n rs t)"
  unfolding retireReplicaSet_def Let_def by (intro ctrl_frame)

lemma unchanged_materializeDeployment [ctrl_frame]:
  "k_namespace k \<noteq> ns \<Longrightarrow> unchanged k s t \<Longrightarrow> unchanged k s (materializeDeployment a ns n d t)"
  unfolding materializeDeployment_def Let_def by (intro ctrl_frame)

lemma unchanged_materializePods [ctrl_frame]:
  "k_namespace k \<noteq> ns \<Longrightarrow> unchanged k s t \<Longrightarrow> unchanged k s (snd (materializePods a gv ns n object t))"
  unfolding materializePods_def Let_def by (intro ctrl_frame)

lemma unchanged_endpoints [ctrl_frame]: "k_namespace k \<noteq> ns \<Longrightarrow> unchanged k s t \<Longrightarrow> unchanged k s (syncEndpointsForNamespace ns t)"
  unfolding syncEndpointsForNamespace_def syncService_def syncEndpointSlice_def put_or_add_def Let_def by (intro ctrl_frame)

text \<open>
  C23. Reconciling, cascading a deletion and refreshing endpoints in one namespace never changes an object
  of another namespace or a cluster-scoped object (whose namespace is empty), whatever the workload says.
\<close>

theorem reconciliation_isolated:
  assumes "k_namespace k \<noteq> ns"
  shows "get (snd (materializePods a gv ns n object s)) k = get s k \<and>
         get (reapOwnedPods ns n s) k = get s k \<and>
         get (syncEndpointsForNamespace ns s) k = get s k"
  using assms ctrl_frame(1) [of k s]
    unchanged_materializePods [of k ns s s a gv n object] unchanged_reap [of k ns s s n] unchanged_endpoints [of k ns s s]
  by (simp add: unchanged_def)

theorem reconciliation_isolated_witness:
  "get (reapOwnedPods ''other'' ''web'' demo_store) (demo_key ''a'') = get demo_store (demo_key ''a'') \<and>
   get demo_store (demo_key ''a'') \<noteq> None"
  using reconciliation_isolated [of "demo_key ''a''" "''other''" undefined undefined "''web''" "[]" demo_store]
  by (simp add: get_def demo_store_eval)

section \<open>Cascading deletion\<close>

text \<open>Deletions never change what they leave.\<close>

definition shrinks :: "objectStore \<Rightarrow> objectStore \<Rightarrow> bool" where
  "shrinks s t \<longleftrightarrow> get t \<subseteq>\<^sub>m get s"

lemma shrinks_refl: "shrinks s s"
  by (simp add: shrinks_def)

lemma shrinks_delete: "shrinks s t \<Longrightarrow> shrinks s (delete_store key t)"
  by (auto simp: shrinks_def delete_store_def get_delete map_le_def)

lemma shrinks_fold: "shrinks s t \<Longrightarrow> (\<And>x u. shrinks s u \<Longrightarrow> shrinks s (f x u)) \<Longrightarrow> shrinks s (fold f xs t)"
  by (induction xs arbitrary: t) auto

lemma shrinks_delete_pods: "shrinks s t \<Longrightarrow> shrinks s (delete_pods ns names t)"
  unfolding delete_pods_def by (intro shrinks_fold shrinks_delete)

lemma delete_pods_gone: "n \<in> set names \<Longrightarrow> get (delete_pods ns names s) (pod_key ns n) = None"
proof (induction names arbitrary: s)
  case (Cons m names)
  have "shrinks (delete_store (pod_key ns m) s) (delete_pods ns names (delete_store (pod_key ns m) s))"
    by (rule shrinks_delete_pods) (rule shrinks_refl)
  then have "get (delete_pods ns names (delete_store (pod_key ns n) s)) (pod_key ns n) = None" if "m = n"
    using that by (auto simp: shrinks_def map_le_def dom_def delete_store_def get_delete)
  with Cons show ?case by (auto simp: delete_pods_def)
qed simp

lemma pages_complete:
  assumes "store_ok s" "listPage (gv' g v) ns res [] [] 0 l s = Some (items, tot, tot)"
    "get s (mk_key g v res ns n) = Some obj"
  shows "obj \<in> set items"
proof -
  let ?cs = "candidates (gv' g v) ns res [] [] s"
  have "items = map (cloneObject \<circ> snd) (take (length items) ?cs)" "length items = length ?cs"
    using listPage_SomeD [OF assms(2)] by simp_all
  then have items: "items = map (cloneObject \<circ> snd) ?cs" by simp
  have "(mk_key g v res ns n, obj) \<in> set (objects s)" "cloneObject obj = obj"
    using assms(1,3) by (auto simp: get_def store_ok_def list_all_iff dest!: map_of_SomeD)
  then have "(mk_key g v res ns n, obj) \<in> set ?cs"
    by (auto simp: set_candidates key_matches_def mk_key_def)
  with \<open>cloneObject obj = obj\<close> show ?thesis unfolding items by force
qed

text \<open>
  Deleting a workload cascades: when the pods of the namespace fit in one list page, no pod that names the
  workload as an owner is left afterwards. (Pods are stored under the name in their metadata.)
\<close>

lemma reapOwnedPods_complete:
  assumes "store_ok s"
    and page: "listPage (gv' [] ''v1'') ns ''pods'' [] [] 0 maxListPageItems s = Some (pods, tot, tot)"
    and named: "\<And>m p. get s (pod_key ns m) = Some p \<Longrightarrow> meta_name p = m"
    and left: "get (reapOwnedPods ns w s) (pod_key ns m) = Some pod"
  shows "\<not> owned_by w pod"
proof
  assume owned: "owned_by w pod"
  let ?s1 = "delete_pods ns (ownedPodNames ns w s) s"
  have "shrinks s ?s1" by (rule shrinks_delete_pods) (rule shrinks_refl)
  moreover have "shrinks ?s1 (reapOwnedPods ns w s)"
    unfolding reapOwnedPods_def Let_def by (intro shrinks_fold shrinks_delete shrinks_delete_pods shrinks_refl)
  ultimately have still: "get s (pod_key ns m) = Some pod" "get ?s1 (pod_key ns m) = Some pod"
    using left by (auto simp: shrinks_def map_le_def dom_def)
  have "pod \<in> set pods" using pages_complete [OF assms(1) page] still(1) by (simp add: pod_key_def)
  with owned named [OF still(1)] have "m \<in> set (ownedPodNames ns w s)"
    using page by (auto simp: ownedPodNames_def list_items_def)
  with delete_pods_gone [of m "ownedPodNames ns w s" ns s] still(2) show False by simp
qed

section \<open>Events\<close>

lemma put_exists_refused: "map_of (objects s) key \<noteq> None \<Longrightarrow> snd (snd (put key object ''ADDED'' s)) = s"
  using put_refused [of key object "''ADDED''" s] by (auto simp: put_accepts_def)

definition event_key :: "apiEnv \<Rightarrow> string \<Rightarrow> string \<Rightarrow> string \<Rightarrow> objectKey" where
  "event_key a ns n reason =
     mk_key [] ''v1'' ''events'' ns (n @ ''.'' @ show_hex (unat (fnv32 (n @ reason @ now_text a))))"

lemma emitEvent_again: "map_of (objects s) (event_key a ns n reason) \<noteq> None \<Longrightarrow> emitEvent a ns uid kd av n reason m src s = s"
  unfolding emitEvent_def Let_def put_store_def event_key_def by (rule put_exists_refused)

text \<open>
  Events of one workload with one reason in one second share a name, so only the first is stored: after
  the first SuccessfulCreate event has been stored, reporting further pods of the same workload in the same second
  changes nothing.
\<close>

lemma successful_create_events_collapse:
  assumes "map_of (objects s) (event_key a ns w ''SuccessfulCreate'') \<noteq> None"
  shows "snd (emitWorkloadEvents a kind ns w object s) = s"
proof -
  have "fold (\<lambda>podName. emitEvent a ns uid kind [] w ''SuccessfulCreate'' (''Created pod: '' @ podName) c) names s = s" for uid c names
    by (induction names) (simp_all add: emitEvent_again [OF assms])
  then show ?thesis by (simp add: emitWorkloadEvents_def Let_def split: option.splits)
qed

section \<open>Sizes\<close>

lemma nodeCount_pos: "1 \<le> nodeCount s"
  by (auto simp: nodeCount_def Suc_le_eq split: option.splits dest!: listPage_SomeD(3))

text \<open>
  A DaemonSet or Job whose manifest carries a negative replica count crashes the handler: its pods are
  created first and the panic comes from reporting them, with the count taken uncapped from the manifest.
\<close>

lemma negative_replicas_panic:
  assumes "stringField object ''kind'' = ''DaemonSet'' \<or> stringField object ''kind'' = ''Job''"
    and "intField (objectMap (gget object ''spec'')) ''replicas'' < 0"
  shows "fst (materializePods a gv ns w object s)"
proof -
  let ?kind = "stringField object ''kind''"
  have ev: "eventController ?kind \<noteq> []" using assms(1) by (auto simp: eventController_def)
  have "workloadPodNames ?kind w (intField (objectMap (gget object ''spec'')) ''replicas'') c = None" for c
    using assms(2) by (simp add: workloadPodNames_def)
  then have panic: "fst (emitWorkloadEvents a ?kind ns w object t)" for t
    using ev by (simp add: emitWorkloadEvents_def Let_def)
  have names: "workloadPodNames ?kind w d c \<noteq> None" if "0 \<le> d" "d \<le> 64" for d c
    using that by (simp add: workloadPodNames_def)
  have split: "fst (case x of None \<Rightarrow> (True, u) | Some v \<Rightarrow> f v)" if "\<And>v. fst (f v)" for x :: "string list option" and u :: objectStore and f
    using that by (cases x) auto
  show ?thesis
    unfolding materializePods_def Let_def using assms(1) nodeCount_pos [of s]
    by (elim disjE) (auto intro!: split panic simp: not_less)
qed

section \<open>Concrete runs\<close>

definition owned_pod :: gobj where
  "owned_pod = [(''kind'', GStr ''Pod''), (''metadata'', GMap [(''name'', GStr ''p''),
     (''ownerReferences'', GList [GMap [(''name'', GStr ''web'')]])])]"

definition demo_pods :: objectStore where
  "demo_pods = snd (snd (put (pod_key ''default'' ''p'') owned_pod ''ADDED''
     (snd (snd (put (pod_key ''default'' ''a'') demo_pod ''ADDED'' (newObjectStore 0))))))"

lemma demo_pods_eval:
  "demo_pods =
     \<lparr>objects =
        [(pod_key ''default'' ''a'', [(''kind'', GStr ''Pod''), (''metadata'', GMap [(''name'', GStr ''a''), (''resourceVersion'', GStr ''1001'')])]),
         (pod_key ''default'' ''p'', [(''kind'', GStr ''Pod''), (''metadata'', GMap [(''name'', GStr ''p''),
             (''ownerReferences'', GList [GMap [(''name'', GStr ''web'')]]), (''resourceVersion'', GStr ''1002'')])])],
      watchers = [], nextWatcher = 0, resourceRev = 1002, storedBytes = 161, generatedNames = 0, startedAt = 0,
      chans = [], chan_panic = False\<rparr>"
  by (simp add: demo_pods_def owned_pod_def store_eval pod_key_def mk_key_def)

lemma demo_pods_ok: "store_ok demo_pods"
  unfolding demo_pods_def by (intro store_inv)

lemma reapOwnedPods_complete_example:
  "\<exists>pod. get (reapOwnedPods ''default'' ''web'' demo_pods) (pod_key ''default'' ''a'') = Some pod \<and> \<not> owned_by ''web'' pod"
proof -
  have page: "\<exists>pods. listPage (gv' [] ''v1'') ''default'' ''pods'' [] [] 0 maxListPageItems demo_pods = Some (pods, 2, 2)"
    by (simp add: listPage_def candidates_def demo_pods_eval key_matches_def Let_def marshal_eval pod_key_def mk_key_def gv'_def)
  then obtain pods where pods: "listPage (gv' [] ''v1'') ''default'' ''pods'' [] [] 0 maxListPageItems demo_pods = Some (pods, 2, 2)" ..
  have named: "meta_name p = m" if "get demo_pods (pod_key ''default'' m) = Some p" for m p
    using that by (auto simp: get_def demo_pods_eval pod_key_def mk_key_def meta_name_def stringField_def as_string_def
        cloneObject_def gget_def split: if_splits)
  have "\<exists>pod. get (reapOwnedPods ''default'' ''web'' demo_pods) (pod_key ''default'' ''a'') = Some pod"
    by (simp add: reapOwnedPods_def ownedPodNames_def deploymentReplicaSets_def list_items_def listPage_def candidates_def demo_pods_eval
        key_matches_def Let_def marshal_eval pod_key_def mk_key_def gv'_def owned_by_def gget_def objectMap_def objectList_def stringField_def
        as_string_def delete_pods_def delete_store_def delete_def publishLocked_def meta_name_def cloneObject_def get_def)
  then obtain pod where "get (reapOwnedPods ''default'' ''web'' demo_pods) (pod_key ''default'' ''a'') = Some pod" ..
  with reapOwnedPods_complete [OF demo_pods_ok pods named this] show ?thesis by blast
qed

definition demo_env :: apiEnv where
  "demo_env = \<lparr>ae_resources = [], ae_ipBase = ''10.42.0.0'', ae_version = ''v1.30'', ae_clock = 0\<rparr>"

lemma successful_create_events_collapse_example:
  "\<exists>s. map_of (objects s) (event_key demo_env ''default'' ''web'' ''SuccessfulCreate'') \<noteq> None \<and>
       snd (emitWorkloadEvents demo_env ''StatefulSet'' ''default'' ''web'' [] s) = s"
proof -
  let ?s = "(newObjectStore 0)\<lparr>objects := [(event_key demo_env ''default'' ''web'' ''SuccessfulCreate'', [])]\<rparr>"
  have "map_of (objects ?s) (event_key demo_env ''default'' ''web'' ''SuccessfulCreate'') \<noteq> None" by simp
  with successful_create_events_collapse [OF this] show ?thesis by blast
qed

lemma negative_replicas_panic_example:
  "fst (materializePods demo_env (gv' ''batch'' ''v1'') ''default'' ''job''
     [(''kind'', GStr ''Job''), (''spec'', GMap [(''replicas'', GInt (- 1))])] (newObjectStore 0))"
  by (rule negative_replicas_panic) (simp_all add: stringField_def as_string_def gget_def intField_def wrap_int64_def)

end
