(* ===== verification/Patch.thy ===== *)
theory Patch
  imports GoValue
begin

text \<open>
  PATCH bodies (\<^verbatim>\<open>handler/api.go\<close>): the merge of a partial object into a stored one (\<^verbatim>\<open>mergeObject\<close>) and
  JSON Patch (\<^verbatim>\<open>applyJSONPatch\<close> with its pointer helpers).

  JSON Patch mutates the document in place and a \<^verbatim>\<open>copy\<close> or \<^verbatim>\<open>move\<close> stores a reference to an existing map, so the
  document lives in a heap of maps there: a value is a reference to a map, a slice or a scalar. Slices are
  only ever rebuilt, never written in place, so they are values.
\<close>

section \<open>Merge\<close>

function mergeObject :: "gobj \<Rightarrow> gobj \<Rightarrow> gobj" where
  "mergeObject destination [] = destination"
| "mergeObject destination ((key, value) # patch) =
     mergeObject
       (case value of
          GNil \<Rightarrow> AList.delete key destination
        | GMap nested \<Rightarrow>
            (case gget destination key of
               GMap existing \<Rightarrow> gset key (GMap (mergeObject existing nested)) destination
             | _ \<Rightarrow> gset key value destination)
        | _ \<Rightarrow> gset key value destination) patch"
  by pat_completeness auto

termination
  by (relation "measure (\<lambda>(d, p). size_list (size_prod (\<lambda>_. 0) size) p)") auto

text \<open>What one key of the patch does to the value under it.\<close>

definition merge_value :: "gval option \<Rightarrow> gval option \<Rightarrow> gval option" where
  "merge_value old new =
     (case new of
        None \<Rightarrow> old
      | Some GNil \<Rightarrow> None
      | Some (GMap nested) \<Rightarrow>
          (case old of Some (GMap existing) \<Rightarrow> Some (GMap (mergeObject existing nested)) | _ \<Rightarrow> Some (GMap nested))
      | Some v \<Rightarrow> Some v)"

lemma map_of_merge_head:
  "map_of (case value of
          GNil \<Rightarrow> AList.delete key destination
        | GMap nested \<Rightarrow>
            (case gget destination key of
               GMap existing \<Rightarrow> gset key (GMap (mergeObject existing nested)) destination
             | _ \<Rightarrow> gset key value destination)
        | _ \<Rightarrow> gset key value destination) k =
   (if k = key then merge_value (map_of destination key) (Some value) else map_of destination k)"
  by (auto simp: merge_value_def gget_def split: gval.splits option.splits)

lemma map_of_mergeObject:
  "distinct (map fst patch) \<Longrightarrow> map_of (mergeObject destination patch) k = merge_value (map_of destination k) (map_of patch k)"
proof (induction patch arbitrary: destination)
  case Nil
  then show ?case by (simp add: merge_value_def)
next
  case (Cons kv patch)
  obtain key v where kv: "kv = (key, v)" by fastforce
  show ?case
  proof (cases "k = key")
    case True
    with Cons.prems kv have "map_of patch k = None" by (auto simp: map_of_eq_None_iff)
    then show ?thesis
      using Cons True unfolding kv by (simp only: mergeObject.simps list.map distinct.simps fst_conv)
        (simp add: map_of_merge_head merge_value_def)
  next
    case False
    then show ?thesis
      using Cons unfolding kv by (simp only: mergeObject.simps list.map distinct.simps fst_conv) (simp add: map_of_merge_head)
  qed
qed

lemma distinct_mergeObject: "distinct (map fst destination) \<Longrightarrow> distinct (map fst (mergeObject destination patch))"
  by (induction destination patch rule: mergeObject.induct) (auto split: gval.splits)

text \<open>
  A merge patch acts on each key by itself: a missing key keeps the stored value, a null removes it, an
  object is merged into a stored object, anything else replaces the value. Hence the result does not depend on the
  (random) order in which Go iterates over the patch.
\<close>

lemma mergeObject_pointwise:
  assumes "distinct (map fst patch)"
  shows "map_of (mergeObject destination patch) k = merge_value (map_of destination k) (map_of patch k) \<and>
         (\<forall>patch'. distinct (map fst patch') \<and> set patch' = set patch \<longrightarrow>
            map_of (mergeObject destination patch') = map_of (mergeObject destination patch))"
proof -
  have "map_of (mergeObject destination patch') = map_of (mergeObject destination patch)"
    if "distinct (map fst patch')" "set patch' = set patch" for patch'
    using that assms map_of_inject_set [OF assms that(1)] by (auto simp: map_of_mergeObject fun_eq_iff)
  with map_of_mergeObject [OF assms] show ?thesis by blast
qed

lemma mergeObject_pointwise_example:
  "map_of (mergeObject [(''a'', GMap [(''x'', GInt 1)]), (''b'', GInt 2)] [(''a'', GMap [(''y'', GInt 3)]), (''b'', GNil)]) ''a'' =
     Some (GMap [(''x'', GInt 1), (''y'', GInt 3)])"
  using mergeObject_pointwise [of "[(''a'', GMap [(''y'', GInt 3)]), (''b'', GNil)]" "[(''a'', GMap [(''x'', GInt 1)]), (''b'', GInt 2)]" "''a''"]
  by (simp add: merge_value_def)

section \<open>Pointers\<close>

text \<open>\<^verbatim>\<open>strings.ReplaceAll(s, "~1", "/")\<close> for a two-byte pattern.\<close>

fun replace2 :: "char \<Rightarrow> char \<Rightarrow> char \<Rightarrow> string \<Rightarrow> string" where
  "replace2 a b c (x # y # rest) =
     (if x = a \<and> y = b then c # replace2 a b c rest else x # replace2 a b c (y # rest))"
| "replace2 a b c s = s"

definition patchPointer :: "string \<Rightarrow> string list" where
  "patchPointer path =
     (if path = [] then []
      else map (\<lambda>segment. replace2 (CHR ''~'') (CHR ''0'') (CHR ''~'') (replace2 (CHR ''~'') (CHR ''1'') (CHR 0x2F) segment))
             (go_split (CHR 0x2F) (trim_prefix path [CHR 0x2F])))"

definition escape_segment :: "string \<Rightarrow> string" where
  "escape_segment s =
     concat (map (\<lambda>c. if c = CHR ''~'' then ''~0'' else if c = CHR 0x2F then ''~1'' else [c]) s)"

definition print_pointer :: "string list \<Rightarrow> string" where
  "print_pointer segments = concat (map (\<lambda>s. CHR 0x2F # escape_segment s) segments)"

lemma replace2_skip [simp]: "x \<noteq> a \<Longrightarrow> replace2 a b c (x # xs) = x # replace2 a b c xs"
  by (cases xs) auto

lemma unescape_slash:
  "replace2 (CHR ''~'') (CHR ''1'') (CHR 0x2F) (escape_segment s) =
   concat (map (\<lambda>c. if c = CHR ''~'' then ''~0'' else [c]) s)"
  by (induction s) (auto simp: escape_segment_def)

lemma unescape_tilde:
  "replace2 (CHR ''~'') (CHR ''0'') (CHR ''~'') (concat (map (\<lambda>c. if c = CHR ''~'' then ''~0'' else [c]) s)) = s"
  by (induction s) auto

lemma escape_no_slash: "CHR 0x2F \<notin> set (escape_segment s)"
  by (induction s) (auto simp: escape_segment_def)

text \<open>
  Every list of keys is addressable: escaping the segments of a JSON pointer and parsing the pointer gives
  the segments back, with tildes and slashes in any combination.
\<close>

lemma patchPointer_print:
  assumes "segments \<noteq> []"
  shows "patchPointer (print_pointer segments) = segments"
proof -
  have "print_pointer segments = CHR 0x2F # go_join [CHR 0x2F] (map escape_segment segments)"
    using assms by (induction segments rule: induct_list012) (auto simp: print_pointer_def)
  moreover have "go_split (CHR 0x2F) (go_join [CHR 0x2F] (map escape_segment segments)) = map escape_segment segments"
    using assms escape_no_slash by (intro go_split_join) auto
  ultimately show ?thesis
    by (simp add: patchPointer_def trim_prefix_def has_prefix_def comp_def unescape_slash unescape_tilde)
qed

lemma patchPointer_print_example: "patchPointer (print_pointer [''metadata'', ''a/b~1'']) = [''metadata'', ''a/b~1'']"
  by (rule patchPointer_print) simp

section \<open>Documents in a heap of maps\<close>

datatype hval = HScal gval | HRef nat | HList "hval list"

type_synonym heap = "(string \<times> hval) list list"

text \<open>A decoded document is a tree: every map gets its own cell.\<close>

fun load :: "gval \<Rightarrow> heap \<Rightarrow> hval \<times> heap"
  and load_fields :: "(string \<times> gval) list \<Rightarrow> heap \<Rightarrow> (string \<times> hval) list \<times> heap"
  and load_items :: "gval list \<Rightarrow> heap \<Rightarrow> hval list \<times> heap" where
  "load (GMap m) h = (let (fs, h1) = load_fields m h in (HRef (length h1), h1 @ [fs]))"
| "load (GList vs) h = (let (xs, h1) = load_items vs h in (HList xs, h1))"
| "load v h = (HScal v, h)"
| "load_fields [] h = ([], h)"
| "load_fields ((k, v) # m) h = (let (x, h1) = load v h; (fs, h2) = load_fields m h1 in ((k, x) # fs, h2))"
| "load_items [] h = ([], h)"
| "load_items (v # vs) h = (let (x, h1) = load v h; (xs, h2) = load_items vs h1 in (x # xs, h2))"

text \<open>
  Encoding a document follows references; a cycle makes \<^verbatim>\<open>json.Marshal\<close> fail (\<open>None\<close>). An acyclic document is
  left after at most as many references as there are cells.
\<close>

fun those_fields :: "(string \<times> gval option) list \<Rightarrow> (string \<times> gval) list option" where
  "those_fields [] = Some []"
| "those_fields ((k, v) # m) = (case v of None \<Rightarrow> None | Some x \<Rightarrow> map_option ((#) (k, x)) (those_fields m))"

fun unload :: "nat \<Rightarrow> heap \<Rightarrow> hval \<Rightarrow> gval option" where
  "unload n h (HScal v) = Some v"
| "unload n h (HList xs) = map_option GList (those (map (unload n h) xs))"
| "unload 0 h (HRef a) = None"
| "unload (Suc n) h (HRef a) = map_option GMap (those_fields (map (\<lambda>(k, x). (k, unload n h x)) (h ! a)))"

definition document_of :: "heap \<Rightarrow> nat \<Rightarrow> gobj option" where
  "document_of h root = map_option objectMap (unload (Suc (length h)) h (HRef root))"

definition patchValuesEqual :: "heap \<Rightarrow> hval \<Rightarrow> hval \<Rightarrow> bool" where
  "patchValuesEqual h a b =
     (case unload (Suc (length h)) h a of
        None \<Rightarrow> False
      | Some left \<Rightarrow> (case unload (Suc (length h)) h b of None \<Rightarrow> False | Some right \<Rightarrow> marshal left = marshal right))"

fun resolve_walk :: "heap \<Rightarrow> hval \<Rightarrow> string list \<Rightarrow> hval option" where
  "resolve_walk h current [] = None"
| "resolve_walk h (HRef a) [leaf] = map_of (h ! a) leaf"
| "resolve_walk h (HRef a) (segment # segments) =
     (case map_of (h ! a) segment of None \<Rightarrow> None | Some nxt \<Rightarrow> resolve_walk h nxt segments)"
| "resolve_walk h current segments = None"

definition resolvePatchTarget :: "heap \<Rightarrow> nat \<Rightarrow> string \<Rightarrow> hval option" where
  "resolvePatchTarget h root path = resolve_walk h (HRef root) (patchPointer path)"

definition notAddressable :: string where "notAddressable = ''patch path is not addressable''"

text \<open>A missing key on the way is created as an empty map.\<close>

definition patchDescend :: "hval \<Rightarrow> string \<Rightarrow> heap \<Rightarrow> string + (hval \<times> heap)" where
  "patchDescend current segment h =
     (case current of
        HRef a \<Rightarrow>
          (case map_of (h ! a) segment of
             None \<Rightarrow> Inr (HRef (length h), h[a := AList.update segment (HRef (length h)) (h ! a)] @ [[]])
           | Some nxt \<Rightarrow> Inr (nxt, h))
      | _ \<Rightarrow> Inl notAddressable)"

fun patch_walk :: "hval \<Rightarrow> string list \<Rightarrow> heap \<Rightarrow> string + (hval \<times> heap)" where
  "patch_walk current [] h = Inr (current, h)"
| "patch_walk current (segment # segments) h =
     (case patchDescend current segment h of
        Inl e \<Rightarrow> Inl e
      | Inr (nxt, h1) \<Rightarrow> patch_walk nxt segments h1)"

fun patchContainer :: "heap \<Rightarrow> hval \<Rightarrow> string list \<Rightarrow> string + nat" where
  "patchContainer h (HRef a) [] = Inr a"
| "patchContainer h (HRef a) [leaf] = Inr a"
| "patchContainer h (HRef a) (segment # segments) =
     (case map_of (h ! a) segment of
        None \<Rightarrow> Inl notAddressable
      | Some nxt \<Rightarrow> patchContainer h nxt segments)"
| "patchContainer h current segments = Inl notAddressable"

definition patchWrite :: "nat \<Rightarrow> string \<Rightarrow> hval \<Rightarrow> bool \<Rightarrow> heap \<Rightarrow> string + heap" where
  "patchWrite root path v remove h =
     (let segments = patchPointer path
      in if length segments = 0 then Inl ''document root cannot be modified''
         else case patch_walk (HRef root) (butlast segments) h of
                Inl e \<Rightarrow> Inl e
              | Inr (current, h1) \<Rightarrow>
                  (let leaf = last segments
                   in case current of
                        HRef a \<Rightarrow>
                          (if remove then Inr (h1[a := AList.delete leaf (h1 ! a)])
                           else Inr (h1[a := AList.update leaf v (h1 ! a)]))
                      | HList parent \<Rightarrow>
                          (if length segments < 2 then Inl ''document root cannot be modified''
                           else
                             let bound = int (length parent) - (if remove then 1 else 0);
                                 bad = Inl (''array index '' @ go_quote leaf @ '' is out of range'')
                             in case atoi leaf of
                                  None \<Rightarrow> bad
                                | Some index \<Rightarrow>
                                    (if index < 0 \<or> index > bound then bad
                                     else let i = nat index;
                                              result = take i parent @ (if remove then [] else [v]) @ drop (i + (if remove then 1 else 0)) parent
                                       in case patchContainer h1 (HRef root) (butlast segments) of
                                            Inl e \<Rightarrow> Inl e
                                          | Inr container \<Rightarrow>
                                              Inr (h1[container := AList.update (last (butlast segments)) (HList result) (h1 ! container)])))
                      | HScal _ \<Rightarrow> Inl notAddressable))"

definition validPatchOperation :: "string \<Rightarrow> bool" where
  "validPatchOperation op \<longleftrightarrow> op \<in> set [''add'', ''remove'', ''replace'', ''move'', ''copy'', ''test'']"

definition with_index :: "nat \<Rightarrow> string + 'a \<Rightarrow> string + 'a" where
  "with_index i r = (case r of Inl e \<Rightarrow> Inl (''operation '' @ show_nat i @ '': '' @ e) | Inr h \<Rightarrow> Inr h)"

text \<open>One turn of the loop of \<^verbatim>\<open>applyJSONPatch\<close>.\<close>

definition apply_operation :: "nat \<Rightarrow> nat \<Rightarrow> gobj \<Rightarrow> heap \<Rightarrow> string + heap" where
  "apply_operation root i operation h =
     (let op = stringField operation ''op''; target = stringField operation ''path''
      in if op = ''test'' then
           (let (expected, h1) = load (gget operation ''value'') h
            in case resolvePatchTarget h1 root target of
                 None \<Rightarrow> Inl (''test operation '' @ show_nat i @ '' failed'')
               | Some current \<Rightarrow>
                   if patchValuesEqual h1 current expected then Inr h
                   else Inl (''test operation '' @ show_nat i @ '' failed''))
         else if op = ''move'' \<or> op = ''copy'' then
           (case resolvePatchTarget h root (stringField operation ''from'') of
              None \<Rightarrow> Inl (''operation '' @ show_nat i @ '' references a missing path'')
            | Some current \<Rightarrow>
                (case (if op = ''move'' then with_index i (patchWrite root (stringField operation ''from'') (HScal GNil) True h)
                       else Inr h) of
                   Inl e \<Rightarrow> Inl e
                 | Inr h1 \<Rightarrow> with_index i (patchWrite root target current False h1)))
         else if op = ''add'' \<or> op = ''replace'' then
           (let (v, h1) = load (gget operation ''value'') h
            in with_index i (patchWrite root target v False h1))
         else if op = ''remove'' then with_index i (patchWrite root target (HScal GNil) True h)
         else Inr h)"

fun apply_operations :: "nat \<Rightarrow> nat \<Rightarrow> gobj list \<Rightarrow> heap \<Rightarrow> string + heap" where
  "apply_operations root i [] h = Inr h"
| "apply_operations root i (operation # operations) h =
     (case apply_operation root i operation h of
        Inl e \<Rightarrow> Inl e
      | Inr h1 \<Rightarrow> apply_operations root (i + 1) operations h1)"

text \<open>The document after the patch; \<open>None\<close> when a copy made it cyclic, so that it cannot be encoded.\<close>

definition applyJSONPatch :: "gobj \<Rightarrow> gobj list \<Rightarrow> string + gobj option" where
  "applyJSONPatch document operations =
     (case load (GMap document) [] of
        (HRef root, h) \<Rightarrow>
          (case apply_operations root 0 operations h of
             Inl e \<Rightarrow> Inl e
           | Inr h1 \<Rightarrow> Inr (document_of h1 root))
      | _ \<Rightarrow> Inl notAddressable)"

text \<open>\<^verbatim>\<open>decodeJSONPatch\<close> after the body has been decoded into a list of objects.\<close>

definition checkJSONPatch :: "gobj list \<Rightarrow> string + gobj list" where
  "checkJSONPatch operations =
     (if length operations = 0 then Inl ''request body must be a JSON patch array''
      else if list_all (\<lambda>operation.
                validPatchOperation (stringField operation ''op'') \<and> has_prefix (stringField operation ''path'') [CHR 0x2F]) operations
      then Inr operations else Inl ''invalid JSON patch operation'')"

section \<open>What JSON Patch does\<close>

definition op_value :: "string \<Rightarrow> string \<Rightarrow> gval \<Rightarrow> gobj" where
  "op_value op path v = [(''op'', GStr op), (''path'', GStr path), (''value'', v)]"

definition op_copy :: "string \<Rightarrow> string \<Rightarrow> gobj" where
  "op_copy src path = [(''op'', GStr ''copy''), (''from'', GStr src), (''path'', GStr path)]"

lemmas patch_eval = applyJSONPatch_def apply_operation_def patchWrite_def patchPointer_def resolvePatchTarget_def patchDescend_def
  document_of_def with_index_def op_value_def op_copy_def stringField_def as_string_def gget_def trim_prefix_def has_prefix_def Let_def
  atoi_def parse_digits_def is_digit_def digits_val_def digit_val_def objectMap_def


end
