(* ===== verification/Handlers.thy ===== *)
theory Handlers
  imports Controller Patch
begin

text \<open>
  The request handlers of the simulated API server that change its state (\<^verbatim>\<open>handler/api.go\<close>): object
  validation, create, update, patch, delete, deletecollection, the scale and eviction subresources and the
  routing that leads to them. A handler maps the request and the store to a response, the audit events it
  emits and the store.

  Decoding a body (JSON, YAML or Kubernetes protobuf) is an input: the request carries the result of
  \<^verbatim>\<open>decodeObject\<close> and of the JSON-array decoding in \<^verbatim>\<open>decodeJSONPatch\<close>, so the theorems hold for every decoder.
\<close>

section \<open>Requests and responses\<close>

datatype bodyError =
    errRequestTooLarge
  | errUnsupportedMediaType
  | badBody string

record request =
  rq_method :: string
  rq_path :: string
  rq_remote :: string
  rq_media :: string
  rq_query :: "(string \<times> string) list"
  rq_object :: "bodyError + gobj" \<comment> \<open>\<^verbatim>\<open>decodeObject\<close>\<close>
  rq_operations :: "bodyError + gobj list" \<comment> \<open>the decoded body of \<^verbatim>\<open>decodeJSONPatch\<close>\<close>

datatype response =
    Reply int gobj
  | Panicked

record mutation =
  m_RemoteAddr :: string
  m_Method :: string
  m_Path :: string
  m_Action :: string
  m_Target :: string

type_synonym outcome = "response \<times> mutation list \<times> objectStore"

definition queryParam :: "request \<Rightarrow> string \<Rightarrow> string" where
  "queryParam rq key = (case map_of (rq_query rq) key of Some v \<Rightarrow> v | None \<Rightarrow> [])"

definition status :: "int \<Rightarrow> string \<Rightarrow> string \<Rightarrow> string \<Rightarrow> response" where
  "status code reason message name =
     Reply code ([(''apiVersion'', GStr ''v1''), (''kind'', GStr ''Status''), (''status'', GStr ''Failure''),
        (''message'', GStr message), (''reason'', GStr reason), (''code'', GInt code)]
        @ (if name \<noteq> [] then [(''details'', GStrMap [(''name'', name)])] else []))"

definition notFound :: "request \<Rightarrow> response" where
  "notFound rq = status 404 ''NotFound'' (''the requested API path '' @ go_quote (rq_path rq) @ '' was not found'') []"

definition bodyError_response :: "bodyError \<Rightarrow> string \<Rightarrow> response" where
  "bodyError_response err name =
     (case err of
        errRequestTooLarge \<Rightarrow> status 413 ''RequestEntityTooLarge'' ''request body exceeds the 64 KiB limit'' name
      | errUnsupportedMediaType \<Rightarrow> status 415 ''UnsupportedMediaType'' ''the body must be encoded as JSON'' name
      | badBody message \<Rightarrow> status 400 ''BadRequest'' message name)"

definition capacityError :: response where
  "capacityError = status 429 ''TooManyRequests'' ''etcdserver: too many requests'' []"

definition emitMutation :: "request \<Rightarrow> string \<Rightarrow> gobj \<Rightarrow> mutation" where
  "emitMutation rq operation object =
     \<lparr>m_RemoteAddr = rq_remote rq, m_Method = rq_method rq, m_Path = rq_path rq, m_Action = ''object.'' @ operation,
      m_Target = stringField object ''kind'' @ [CHR 0x2F] @ stringField (objectMap (gget object ''metadata'')) ''name''\<rparr>"

definition object_not_found :: "string \<Rightarrow> string \<Rightarrow> response" where
  "object_not_found what name = status 404 ''NotFound'' (what @ '' '' @ go_quote name @ '' not found'') name"

section \<open>Validation\<close>

definition extraFields :: "string \<Rightarrow> string list" where
  "extraFields kind =
     (if kind = ''Secret'' then [''data'', ''stringData'', ''type'', ''immutable'']
      else if kind = ''ConfigMap'' then [''data'', ''binaryData'', ''immutable'']
      else if kind = ''Role'' \<or> kind = ''ClusterRole'' then [''rules'']
      else if kind = ''RoleBinding'' \<or> kind = ''ClusterRoleBinding'' then [''subjects'', ''roleRef'']
      else if kind = ''StorageClass'' then [''provisioner'', ''parameters'', ''reclaimPolicy'', ''allowVolumeExpansion'', ''mountOptions'', ''volumeBindingMode'', ''allowedTopologies'']
      else if kind = ''Event'' then [''type'', ''reason'', ''message'', ''source'', ''involvedObject'', ''action'', ''reportingComponent'', ''reportingInstance'', ''series'', ''regarding'', ''related'', ''deprecatedSource'', ''deprecatedFirstTimestamp'', ''deprecatedLastTimestamp'', ''deprecatedCount'', ''firstTimestamp'', ''lastTimestamp'', ''count'', ''source'']
      else if kind = ''Endpoints'' then [''subsets'']
      else if kind = ''ServiceAccount'' then [''secrets'', ''imagePullSecrets'', ''automountServiceAccountToken'']
      else if kind = ''EndpointSlice'' then [''addressType'', ''endpoints'', ''ports'']
      else [])"

definition allowedFields :: "string \<Rightarrow> string list" where
  "allowedFields kind = [''apiVersion'', ''kind'', ''metadata'', ''spec'', ''status''] @ extraFields kind"

definition allowedMetadata :: "string list" where
  "allowedMetadata =
     [''name'', ''generateName'', ''namespace'', ''labels'', ''annotations'', ''uid'', ''resourceVersion'', ''creationTimestamp'',
      ''deletionTimestamp'', ''deletionGracePeriodSeconds'', ''ownerReferences'', ''finalizers'', ''managedFields'']"

text \<open>A chain of checks: the first failing one gives the error.\<close>

fun first_error :: "string option list \<Rightarrow> string option" where
  "first_error [] = None"
| "first_error (e # es) = (case e of Some m \<Rightarrow> Some m | None \<Rightarrow> first_error es)"

definition check_name_field :: "gobj \<Rightarrow> string \<Rightarrow> string option" where
  "check_name_field metadata key =
     (if \<not> has_key metadata key then None
      else case as_string (gget metadata key) of
             None \<Rightarrow> Some (''metadata.'' @ key @ '' must be a string'')
           | Some text \<Rightarrow>
               (if key = ''name'' \<and> text \<noteq> [] \<and> \<not> validObjectName text
                then Some (''metadata.'' @ key @ '' must be a valid DNS subdomain'')
                else if key = ''generateName'' \<and> text \<noteq> [] \<and> \<not> validObjectName (trim_suffix text ''-'')
                then Some (''metadata.'' @ key @ '' must be a valid DNS subdomain prefix'')
                else if key = ''namespace'' \<and> text \<noteq> [] \<and> \<not> validNamespaceName text
                then Some ''metadata.namespace must be a valid DNS label''
                else None))"

definition check_string_map :: "gobj \<Rightarrow> string \<Rightarrow> string option" where
  "check_string_map metadata key =
     (if \<not> has_key metadata key then None
      else case gget metadata key of
             GMap values \<Rightarrow>
               (if list_all (\<lambda>(k, v). as_string v \<noteq> None) values then None
                else Some (''metadata.'' @ key @ '' values must be strings''))
           | _ \<Rightarrow> Some (''metadata.'' @ key @ '' must be an object of string values''))"

definition check_metadata :: "gobj \<Rightarrow> string option" where
  "check_metadata object =
     (if \<not> has_key object ''metadata'' then None
      else case gget object ''metadata'' of
             GMap metadata \<Rightarrow>
               first_error
                 (map (\<lambda>(key, v). if key \<in> set allowedMetadata then None
                                   else Some (''metadata field '' @ go_quote key @ '' is not supported'')) metadata
                  @ map (check_name_field metadata) [''name'', ''generateName'', ''namespace'']
                  @ map (check_string_map metadata) [''labels'', ''annotations''])
           | _ \<Rightarrow> Some ''metadata must be an object'')"

definition check_field_equals :: "gobj \<Rightarrow> string \<Rightarrow> string \<Rightarrow> string option" where
  "check_field_equals object key expected =
     (if has_key object key \<and> as_string (gget object key) \<noteq> Some expected
      then Some (key @ '' must be '' @ go_quote expected) else None)"

definition validateObjectShape :: "gobj \<Rightarrow> groupVersion \<Rightarrow> apiResource \<Rightarrow> bool \<Rightarrow> string option" where
  "validateObjectShape object gv description partial =
     first_error
       ([check_field_equals object ''kind'' (r_Kind description),
         check_field_equals object ''apiVersion'' (apiVersionFor gv)]
        @ map (\<lambda>(key, v). if key \<in> set (allowedFields (r_Kind description)) then None
                          else Some (''field '' @ go_quote key @ '' is not supported for '' @ r_Kind description)) object
        @ map (\<lambda>key. if has_key object key \<and> (case gget object key of GMap _ \<Rightarrow> False | _ \<Rightarrow> True)
                      then Some (key @ '' must be an object'') else None) [''spec'', ''status'']
        @ [check_metadata object,
           if \<not> partial \<and> \<not> has_key object ''metadata'' then Some ''metadata is required'' else None])"

section \<open>Defaults and synthetic status\<close>

definition desiredReplicas :: "gobj \<Rightarrow> gval" where
  "desiredReplicas object =
     (let replicas = gget (objectMap (gget object ''spec'')) ''replicas'' in if replicas \<noteq> GNil then replicas else GInt 1)"

definition workloadDefaults :: "string \<Rightarrow> (string \<times> gval) list" where
  "workloadDefaults kind =
     (if kind = ''Deployment'' then
        [(''strategy'', GMap [(''type'', GStr ''RollingUpdate''),
            (''rollingUpdate'', GMap [(''maxUnavailable'', GStr ''25%''), (''maxSurge'', GStr ''25%'')])]),
         (''revisionHistoryLimit'', GInt 10), (''progressDeadlineSeconds'', GInt 600)]
      else if kind = ''StatefulSet'' then
        [(''updateStrategy'', GMap [(''type'', GStr ''RollingUpdate'')]), (''podManagementPolicy'', GStr ''OrderedReady''),
         (''revisionHistoryLimit'', GInt 10)]
      else if kind = ''DaemonSet'' then
        [(''updateStrategy'', GMap [(''type'', GStr ''RollingUpdate''),
            (''rollingUpdate'', GMap [(''maxUnavailable'', GInt 1), (''maxSurge'', GInt 0)])]),
         (''revisionHistoryLimit'', GInt 10)]
      else [])"

definition applyWorkloadDefaults :: "string \<Rightarrow> gobj \<Rightarrow> gobj" where
  "applyWorkloadDefaults kind spec =
     (let spec1 = with_defaults (workloadDefaults kind) spec;
          template = objectMap (gget spec1 ''template'')
      in case gget template ''spec'' of
           GMap podSpec \<Rightarrow> gset ''template'' (GMap (gset ''spec'' (GMap (applyPodSpecDefaults podSpec)) template)) spec1
         | _ \<Rightarrow> spec1)"

definition condition :: "string \<Rightarrow> string \<Rightarrow> string \<Rightarrow> gval" where
  "condition ty reason now =
     GMap [(''type'', GStr ty), (''status'', GStr ''True''), (''reason'', GStr reason),
           (''lastUpdateTime'', GStr now), (''lastTransitionTime'', GStr now)]"

definition syntheticStatus :: "apiEnv \<Rightarrow> string \<Rightarrow> gobj \<Rightarrow> gobj option" where
  "syntheticStatus a kind object =
     (let now = now_text a; replicas = desiredReplicas object
      in if kind = ''Deployment'' then
           Some [(''replicas'', replicas), (''updatedReplicas'', replicas), (''readyReplicas'', replicas),
                 (''availableReplicas'', replicas), (''observedGeneration'', GInt 1),
                 (''conditions'', GList [condition ''Available'' ''MinimumReplicasAvailable'' now,
                    condition ''Progressing'' ''NewReplicaSetAvailable'' now])]
         else if kind = ''ReplicaSet'' \<or> kind = ''ReplicationController'' then
           Some [(''replicas'', replicas), (''readyReplicas'', replicas), (''availableReplicas'', replicas), (''observedGeneration'', GInt 1)]
         else if kind = ''StatefulSet'' then
           Some [(''replicas'', replicas), (''readyReplicas'', replicas), (''currentReplicas'', replicas), (''updatedReplicas'', replicas),
                 (''observedGeneration'', GInt 1)]
         else if kind = ''DaemonSet'' then
           Some [(''desiredNumberScheduled'', GInt 3), (''currentNumberScheduled'', GInt 3), (''numberReady'', GInt 3),
                 (''numberAvailable'', GInt 3), (''updatedNumberScheduled'', GInt 3), (''observedGeneration'', GInt 1)]
         else if kind = ''Pod'' then
           Some [(''phase'', GStr ''Running''), (''qosClass'', GStr ''BestEffort''),
                 (''containerStatuses'', GList (map (\<lambda>entry. let container = objectMap entry in
                    containerStatus now (stringField container ''name'') (stringField container ''image''))
                    (objectList (gget (objectMap (gget object ''spec'')) ''containers'')))),
                 (''startTime'', GStr now), (''conditions'', readyConditions now)]
         else if kind = ''Job'' then Some [(''active'', GInt 1), (''startTime'', GStr now)]
         else if kind = ''HorizontalPodAutoscaler'' then
           Some [(''currentReplicas'', GInt 1), (''desiredReplicas'', GInt 2),
                 (''currentMetrics'', GList [GMap [(''type'', GStr ''Resource''), (''resource'', GMap [(''name'', GStr ''cpu''),
                    (''current'', GMap [(''averageUtilization'', GInt 42), (''averageValue'', GStr ''42m'')])])]]),
                 (''lastScaleTime'', GStr now), (''observedGeneration'', GInt 1),
                 (''conditions'', GList [GMap [(''type'', GStr ''AbleToScale''), (''status'', GStr ''True''),
                    (''reason'', GStr ''ReadyForNewScale''), (''lastTransitionTime'', GStr now)]])]
         else if kind = ''Ingress'' then
           Some [(''loadBalancer'', GMap [(''ingress'', GList [GMap [(''ip'', GStr ''10.0.0.50'')]])])]
         else None)"

definition ephemeralStatus :: "string \<Rightarrow> gobj \<Rightarrow> gval" where
  "ephemeralStatus now container =
     GMap [(''name'', GStr (stringField container ''name'')), (''ready'', GBool False), (''restartCount'', GInt 0),
           (''state'', GMap [(''running'', GMap [(''startedAt'', GStr now)])]), (''started'', GBool True),
           (''image'', GStr (stringField container ''image'')),
           (''imageID'', GStr (''containerd://'' @ replicate 64 (CHR ''c''))),
           (''containerID'', GStr (''containerd://'' @ replicate 64 (CHR ''d'')))]"

definition syncEphemeralContainerStatus :: "apiEnv \<Rightarrow> gobj \<Rightarrow> gobj" where
  "syncEphemeralContainerStatus a pod =
     (let containers = objectList (gget (objectMap (gget pod ''spec'')) ''ephemeralContainers'')
      in if length containers = 0 then pod
         else let status = objectMap (gget pod ''status'');
                  statuses = objectList (gget status ''ephemeralContainerStatuses'');
                  existing = map (\<lambda>entry. stringField (objectMap entry) ''name'') statuses;
                  added = concat (map (\<lambda>entry. let container = objectMap entry; name = stringField container ''name'' in
                            if name = [] \<or> name \<in> set existing then [] else [ephemeralStatus (now_text a) container]) containers)
           in gset ''status'' (GMap (gset ''ephemeralContainerStatuses'' (GList (statuses @ added)) status)) pod)"

section \<open>Create\<close>

definition create_pod_defaults :: "apiEnv \<Rightarrow> string \<Rightarrow> string \<Rightarrow> gobj \<Rightarrow> objectStore \<Rightarrow> gobj" where
  "create_pod_defaults a namespace name object s =
     (let spec0 = applyPodSpecDefaults (objectMap (gget object ''spec''));
          spec = (if stringField spec0 ''nodeName'' = []
                  then gset ''nodeName'' (GStr (nodeName (int (digestByte (namespace @ [CHR 0x2F] @ name)) mod nodeCount s) s)) spec0
                  else spec0);
          object1 = gset ''spec'' (GMap spec) object;
          status = objectMap (gget object1 ''status'')
      in if stringField status ''phase'' = ''Running'' then
           (let hostIP = serviceAddress (ae_ipBase a) 10;
                podIP = (if as_bool (gget spec ''hostNetwork'') = Some True then hostIP
                         else serviceAddress (ae_ipBase a) (100 + int (digestByte name) mod 100))
            in gset ''status'' (GMap (gset ''hostIP'' (GStr hostIP) (gset ''podIPs'' (GList [GMap [(''ip'', GStr podIP)]])
                 (gset ''podIP'' (GStr podIP) status)))) object1)
         else object1)"

definition create_job_defaults :: "gobj \<Rightarrow> gobj" where
  "create_job_defaults object =
     (let spec = with_defaults [(''completions'', GInt 1), (''parallelism'', GInt 1), (''backoffLimit'', GInt 6),
                   (''suspend'', GBool False), (''completionMode'', GStr ''NonIndexed'')] (objectMap (gget object ''spec''));
          template = objectMap (gget spec ''template'');
          spec1 = (case gget template ''spec'' of
                     GMap podSpec \<Rightarrow>
                       gset ''template'' (GMap (gset ''spec''
                         (GMap (gset ''restartPolicy'' (GStr ''Never'') (applyPodSpecDefaults podSpec))) template)) spec
                   | _ \<Rightarrow> spec)
      in gset ''spec'' (GMap spec1) object)"

definition create_service_defaults :: "apiEnv \<Rightarrow> string \<Rightarrow> string \<Rightarrow> gobj \<Rightarrow> gobj" where
  "create_service_defaults a namespace name object =
     (let spec = with_defaults [(''sessionAffinity'', GStr ''None''), (''ipFamilyPolicy'', GStr ''SingleStack''),
                   (''internalTrafficPolicy'', GStr ''Cluster''), (''externalTrafficPolicy'', GStr ''Cluster''), (''type'', GStr ''ClusterIP'')]
                   (objectMap (gget object ''spec''));
          clusterIP = GStr (serviceAddress (ae_ipBase a) (40 + int (digestByte (namespace @ [CHR 0x2F] @ name)) mod 40));
          spec1 = (if stringField spec ''clusterIP'' = []
                   then gset ''ipFamilies'' (GList [GStr ''IPv4'']) (gset ''clusterIPs'' (GList [clusterIP]) (gset ''clusterIP'' clusterIP spec))
                   else spec)
      in gset ''spec'' (GMap spec1) object)"

definition create_defaults :: "apiEnv \<Rightarrow> string \<Rightarrow> string \<Rightarrow> string \<Rightarrow> gobj \<Rightarrow> objectStore \<Rightarrow> gobj" where
  "create_defaults a kind namespace name object s =
     (let object1 = (if has_key object ''status'' then object
                     else case syntheticStatus a kind object of Some st \<Rightarrow> gset ''status'' (GMap st) object | None \<Rightarrow> object)
      in if kind = ''Pod'' then create_pod_defaults a namespace name object1 s
         else if kind = ''Job'' then create_job_defaults object1
         else if kind = ''Deployment'' \<or> kind = ''StatefulSet'' \<or> kind = ''DaemonSet''
         then gset ''spec'' (GMap (applyWorkloadDefaults kind (objectMap (gget object1 ''spec'')))) object1
         else if kind = ''Service'' then create_service_defaults a namespace name object1
         else object1)"

text \<open>\<^verbatim>\<open>seedNamespaceObjects\<close> of \<^verbatim>\<open>state.go\<close>.\<close>

definition seedNamespaceObjects :: "apiEnv \<Rightarrow> string \<Rightarrow> string \<Rightarrow> objectStore \<Rightarrow> objectStore" where
  "seedNamespaceObjects a rootCAPEM namespace s =
     (let now = now_text a;
          s1 = put_store (mk_key [] ''v1'' ''serviceaccounts'' namespace ''default'')
                 [(''apiVersion'', GStr ''v1''), (''kind'', GStr ''ServiceAccount''),
                  (''metadata'', GMap [(''name'', GStr ''default''), (''namespace'', GStr namespace), (''creationTimestamp'', GStr now),
                     (''uid'', GStr (stableUID (''serviceaccount/'' @ namespace @ ''/default'')))])] ''ADDED'' s
      in put_store (mk_key [] ''v1'' ''configmaps'' namespace ''kube-root-ca.crt'')
           [(''apiVersion'', GStr ''v1''), (''kind'', GStr ''ConfigMap''),
            (''metadata'', GMap [(''name'', GStr ''kube-root-ca.crt''), (''namespace'', GStr namespace), (''creationTimestamp'', GStr now),
               (''uid'', GStr (stableUID (''configmap/'' @ namespace @ ''/kube-root-ca.crt'')))]),
            (''data'', GMap [(''ca.crt'', GStr rootCAPEM)])] ''ADDED'' s1)"

text \<open>What the controllers do after a successful create; the flag is a panic.\<close>

definition after_create :: "apiEnv \<Rightarrow> string \<Rightarrow> groupVersion \<Rightarrow> string \<Rightarrow> string \<Rightarrow> apiResource \<Rightarrow> gobj \<Rightarrow> objectStore \<Rightarrow> bool \<times> objectStore" where
  "after_create a rootCAPEM gv namespace name description object s =
     (let kind = r_Kind description
      in if isWorkloadKind kind \<and> r_Namespaced description then
           (let (panicked, s1) = materializePods a gv namespace name object s
            in if panicked then (True, s1) else (False, syncEndpointsForNamespace namespace s1))
         else if kind = ''Service'' then (False, syncEndpointsForNamespace namespace s)
         else if kind = ''Namespace'' then (False, seedNamespaceObjects a rootCAPEM name s)
         else (False, s))"

definition resourceNameNeedsNamespace :: "string \<Rightarrow> bool" where
  "resourceNameNeedsNamespace name \<longleftrightarrow> name \<noteq> ''namespaces''"

definition stamp_identity :: "apiEnv \<Rightarrow> groupVersion \<Rightarrow> apiResource \<Rightarrow> string \<Rightarrow> string \<Rightarrow> gobj \<Rightarrow> gobj \<Rightarrow> gobj" where
  "stamp_identity a gv description namespace name metadata object =
     (let uid = stableUID (apiVersionFor gv @ [CHR 0x2F] @ namespace @ [CHR 0x2F] @ r_Name description @ [CHR 0x2F] @ name @
                           [CHR 0x2F] @ show_nat (ae_clock a));
          metadata1 = gset ''creationTimestamp'' (GStr (now_text a)) (gset ''uid'' (GStr uid) (gset ''name'' (GStr name) metadata))
      in gset ''metadata'' (GMap metadata1) (gset ''kind'' (GStr (r_Kind description)) (gset ''apiVersion'' (GStr (apiVersionFor gv)) object)))"

text \<open>The tail of \<^verbatim>\<open>create\<close>, once the name is known.\<close>

definition create_named ::
  "apiEnv \<Rightarrow> string \<Rightarrow> request \<Rightarrow> groupVersion \<Rightarrow> string \<Rightarrow> apiResource \<Rightarrow> string \<Rightarrow> gobj \<Rightarrow> gobj \<Rightarrow> objectStore \<Rightarrow> outcome"
where
  "create_named a rootCAPEM rq gv namespace description name metadata object s =
     (let object1 = create_defaults a (r_Kind description) namespace name
                      (stamp_identity a gv description namespace name metadata object) s
      in case put (mk_key (Group gv) (Version gv) (r_Name description) namespace name) object1 ''ADDED'' s of
           (err, object2, s1) \<Rightarrow>
             (case err of
                Some errObjectAlreadyExists \<Rightarrow>
                  (status 409 ''AlreadyExists'' (to_lower (r_Kind description) @ '' '' @ go_quote name @ '' already exists'') name, [], s1)
              | Some _ \<Rightarrow> (capacityError, [], s1)
              | None \<Rightarrow>
                  (let (panicked, s2) = after_create a rootCAPEM gv namespace name description object2 s1
                   in if panicked then (Panicked, [], s2)
                      else (Reply 201 object2, [emitMutation rq ''create'' object2], s2))))"

definition create :: "apiEnv \<Rightarrow> string \<Rightarrow> request \<Rightarrow> groupVersion \<Rightarrow> string \<Rightarrow> apiResource \<Rightarrow> objectStore \<Rightarrow> outcome" where
  "create a rootCAPEM rq gv namespace0 description s =
     (if r_Namespaced description \<and> namespace0 = []
      then (status 400 ''BadRequest'' ''namespaced resources must be created through a namespace path'' [], [], s)
      else case rq_object rq of
        Inl e \<Rightarrow> (bodyError_response e [], [], s)
      | Inr object \<Rightarrow>
          (case validateObjectShape object gv description False of
             Some message \<Rightarrow> (status 422 ''Invalid'' message [], [], s)
           | None \<Rightarrow>
               (let metadata0 = objectMap (gget object ''metadata'');
                    name = stringField metadata0 ''name'';
                    got = stringField metadata0 ''namespace''
                in if namespace0 \<noteq> [] \<and> got \<noteq> [] \<and> got \<noteq> namespace0
                   then (status 400 ''BadRequest'' ''metadata.namespace must match the request namespace'' name, [], s)
                   else if namespace0 = [] \<and> r_Namespaced description \<and> resourceNameNeedsNamespace (r_Name description) \<and> got = []
                   then (status 400 ''BadRequest'' ''metadata.namespace is required for this resource'' name, [], s)
                   else
                     let metadata = (if namespace0 \<noteq> [] then gset ''namespace'' (GStr namespace0) metadata0 else metadata0);
                         namespace = (if namespace0 \<noteq> [] then namespace0
                                      else if r_Namespaced description \<and> resourceNameNeedsNamespace (r_Name description) then got else [])
                     in if r_Name description \<noteq> ''namespaces'' \<and> r_Namespaced description \<and> \<not> namespaceExists namespace s
                        then (status 404 ''NotFound'' (''namespaces '' @ go_quote namespace @ '' not found'') namespace, [], s)
                        else if name \<noteq> [] then create_named a rootCAPEM rq gv namespace description name metadata object s
                        else if stringField metadata ''generateName'' = []
                        then (status 422 ''Invalid'' ''metadata.name or metadata.generateName is required'' [], [], s)
                        else case nextName (stringField metadata ''generateName'') s of
                               (Inl errGeneratedNameCapacity, s1) \<Rightarrow>
                                 (status 422 ''Invalid'' ''simulated API generated-name capacity reached'' [], [], s1)
                             | (Inl _, s1) \<Rightarrow>
                                 (status 422 ''Invalid'' ''metadata.generateName cannot produce a valid object name'' [], [], s1)
                             | (Inr generated, s1) \<Rightarrow>
                                 create_named a rootCAPEM rq gv namespace description generated metadata object s1)))"

section \<open>Update, patch, delete\<close>

definition materialize_if_workload ::
  "apiEnv \<Rightarrow> groupVersion \<Rightarrow> string \<Rightarrow> string \<Rightarrow> apiResource \<Rightarrow> gobj \<Rightarrow> objectStore \<Rightarrow> bool \<times> objectStore"
where
  "materialize_if_workload a gv namespace name description object s =
     (if isWorkloadKind (r_Kind description) then materializePods a gv namespace name object s else (False, s))"

definition refresh_status :: "apiEnv \<Rightarrow> apiResource \<Rightarrow> gobj \<Rightarrow> gobj" where
  "refresh_status a description object =
     (if isWorkloadKind (r_Kind description)
      then gset ''status'' (case syntheticStatus a (r_Kind description) object of Some st \<Rightarrow> GMap st | None \<Rightarrow> GNil) object
      else object)"

text \<open>The common tail of \<^verbatim>\<open>update\<close> and \<^verbatim>\<open>patch\<close>: store, reconcile, report.\<close>

definition store_modified ::
  "apiEnv \<Rightarrow> request \<Rightarrow> string \<Rightarrow> groupVersion \<Rightarrow> string \<Rightarrow> string \<Rightarrow> string \<Rightarrow> apiResource \<Rightarrow> gobj \<Rightarrow> objectStore \<Rightarrow> outcome"
where
  "store_modified a rq operation gv namespace resourceName name description object s =
     (case put (mk_key (Group gv) (Version gv) resourceName namespace name) object ''MODIFIED'' s of
        (err, object1, s1) \<Rightarrow>
          (if err \<noteq> None then (capacityError, [], s1)
           else let (panicked, s2) = materialize_if_workload a gv namespace name description object1 s1
             in if panicked then (Panicked, [], s2)
                else (Reply 200 object1, [emitMutation rq operation object1], s2)))"

definition update :: "apiEnv \<Rightarrow> request \<Rightarrow> groupVersion \<Rightarrow> string \<Rightarrow> string \<Rightarrow> string \<Rightarrow> apiResource \<Rightarrow> objectStore \<Rightarrow> outcome" where
  "update a rq gv namespace resourceName name description s =
     (case rq_object rq of
        Inl e \<Rightarrow> (bodyError_response e name, [], s)
      | Inr object \<Rightarrow>
          (case validateObjectShape object gv description False of
             Some message \<Rightarrow> (status 422 ''Invalid'' message name, [], s)
           | None \<Rightarrow>
               (let metadata0 = objectMap (gget object ''metadata'');
                    requestedName = stringField metadata0 ''name'';
                    requestedNamespace = stringField metadata0 ''namespace''
                in if requestedName = [] then (status 422 ''Invalid'' ''metadata.name is required for update'' name, [], s)
                   else if requestedName \<noteq> name then (status 400 ''BadRequest'' ''metadata.name must match the request path'' name, [], s)
                   else if namespace \<noteq> [] \<and> requestedNamespace \<noteq> [] \<and> requestedNamespace \<noteq> namespace
                   then (status 400 ''BadRequest'' ''metadata.namespace must match the request namespace'' name, [], s)
                   else
                     let metadata = (if namespace \<noteq> [] then gset ''namespace'' (GStr namespace) metadata0 else metadata0)
                     in case get s (mk_key (Group gv) (Version gv) resourceName namespace name) of
                          None \<Rightarrow> (object_not_found (to_lower (r_Kind description)) name, [], s)
                        | Some previous \<Rightarrow>
                            (let previousMetadata = objectMap (gget previous ''metadata'');
                                 metadata1 = gset ''creationTimestamp'' (gget previousMetadata ''creationTimestamp'')
                                   (gset ''uid'' (gget previousMetadata ''uid'') (gset ''name'' (GStr name) metadata));
                                 object1 = gset ''metadata'' (GMap metadata1) (gset ''kind'' (GStr (r_Kind description))
                                   (gset ''apiVersion'' (GStr (apiVersionFor gv)) object))
                             in store_modified a rq ''update'' gv namespace resourceName name description
                                  (refresh_status a description object1) s))))"

text \<open>
  The patched object: an error response, or the object (\<open>None\<close> when a copy made it cyclic and it cannot be encoded).
  Sharing made by a copy is followed within the patch; the fields the handler itself sets afterwards are set
  on the resulting tree.
\<close>

definition patched :: "request \<Rightarrow> groupVersion \<Rightarrow> string \<Rightarrow> apiResource \<Rightarrow> gobj \<Rightarrow> response + gobj option" where
  "patched rq gv name description current =
     (if rq_media rq = ''application/json-patch+json'' then
        (case rq_operations rq of
           Inl e \<Rightarrow> Inl (bodyError_response e name)
         | Inr operations0 \<Rightarrow>
             (case checkJSONPatch operations0 of
                Inl message \<Rightarrow> Inl (bodyError_response (badBody message) name)
              | Inr operations \<Rightarrow>
                  (case applyJSONPatch current operations of
                     Inl message \<Rightarrow> Inl (status 422 ''Invalid'' message name)
                   | Inr document \<Rightarrow> Inr document)))
      else
        (case rq_object rq of
           Inl e \<Rightarrow> Inl (bodyError_response e name)
         | Inr patch \<Rightarrow>
             (case validateObjectShape patch gv description True of
                Some message \<Rightarrow> Inl (status 422 ''Invalid'' message name)
              | None \<Rightarrow> Inr (Some (mergeObject current patch)))))"

definition patch :: "apiEnv \<Rightarrow> request \<Rightarrow> groupVersion \<Rightarrow> string \<Rightarrow> string \<Rightarrow> string \<Rightarrow> apiResource \<Rightarrow> objectStore \<Rightarrow> outcome" where
  "patch a rq gv namespace resourceName name description s =
     (case get s (mk_key (Group gv) (Version gv) resourceName namespace name) of
        None \<Rightarrow> (object_not_found (to_lower (r_Kind description)) name, [], s)
      | Some current \<Rightarrow>
          (case patched rq gv name description current of
             Inl response \<Rightarrow> (response, [], s)
           | Inr None \<Rightarrow> (capacityError, [], s)
           | Inr (Some document) \<Rightarrow>
               (let metadata = gset ''name'' (GStr name) (objectMap (gget document ''metadata''));
                    object1 = gset ''metadata'' (GMap metadata) (gset ''kind'' (GStr (r_Kind description))
                      (gset ''apiVersion'' (GStr (apiVersionFor gv)) document));
                    object2 = (if r_Kind description = ''Pod'' then syncEphemeralContainerStatus a object1 else object1)
                in store_modified a rq ''patch'' gv namespace resourceName name description (refresh_status a description object2) s)))"

definition success_status :: "gval \<Rightarrow> response" where
  "success_status details =
     Reply 200 [(''apiVersion'', GStr ''v1''), (''kind'', GStr ''Status''), (''status'', GStr ''Success''), (''code'', GInt 200),
                (''details'', details)]"

text \<open>\<^verbatim>\<open>(a *API) delete\<close>\<close>

definition delete_handler :: "apiEnv \<Rightarrow> request \<Rightarrow> groupVersion \<Rightarrow> string \<Rightarrow> string \<Rightarrow> string \<Rightarrow> apiResource \<Rightarrow> objectStore \<Rightarrow> outcome" where
  "delete_handler a rq gv namespace resourceName name description s =
     (let key = mk_key (Group gv) (Version gv) resourceName namespace name;
          victim = get s key;
          ((_, found), s1) = delete key s
      in if \<not> found then (object_not_found (to_lower (r_Kind description)) name, [], s1)
         else let s2 = (if isWorkloadKind (r_Kind description) \<and> r_Namespaced description then reapOwnedPods namespace name s1 else s1);
                  (panicked, s3) = (if r_Kind description = ''Pod'' then respawnDeletedPod a namespace victim s2 else (False, s2))
           in if panicked then (Panicked, [], s3)
              else (success_status (GStrMap [(''name'', name), (''kind'', to_lower (r_Kind description))]),
                    (case victim of Some v \<Rightarrow> [emitMutation rq ''delete'' v] | None \<Rightarrow> []), s3))"

text \<open>\<open>slot\<close> says whether a list slot was free.\<close>

definition deleteCollection :: "request \<Rightarrow> bool \<Rightarrow> groupVersion \<Rightarrow> string \<Rightarrow> apiResource \<Rightarrow> objectStore \<Rightarrow> outcome" where
  "deleteCollection rq slot gv namespace description s =
     (if \<not> slot then (capacityError, [], s)
      else if \<not> snd (parseSelector (queryParam rq ''labelSelector''))
      then (status 400 ''BadRequest'' ''labelSelector is invalid'' [], [], s)
      else if \<not> validFieldSelector (queryParam rq ''fieldSelector'')
      then (status 400 ''BadRequest'' ''fieldSelector is invalid'' [], [], s)
      else let (deleted, s1) = deleteMatching gv namespace (r_Name description) (queryParam rq ''labelSelector'') (queryParam rq ''fieldSelector'') s
        in (success_status (GMap [(''group'', GStr (Group gv)), (''kind'', GStr (to_lower (r_Kind description))),
              (''causes'', GList []), (''deleted'', GInt (int deleted))]), [], s1))"

section \<open>Subresources\<close>

definition scaleOf :: "gobj \<Rightarrow> gobj" where
  "scaleOf object =
     (let metadata = objectMap (gget object ''metadata''); replicas = gget (objectMap (gget object ''spec'')) ''replicas''
      in [(''apiVersion'', GStr ''autoscaling/v1''), (''kind'', GStr ''Scale''),
          (''metadata'', GMap [(''name'', gget metadata ''name''), (''namespace'', gget metadata ''namespace''), (''uid'', gget metadata ''uid''),
             (''resourceVersion'', gget metadata ''resourceVersion''), (''creationTimestamp'', gget metadata ''creationTimestamp'')]),
          (''spec'', GMap [(''replicas'', replicas)]), (''status'', GMap [(''replicas'', replicas)])])"

definition scaled :: "gval \<Rightarrow> gobj \<Rightarrow> gobj" where
  "scaled replicas object =
     (let object1 = gset ''spec'' (GMap (gset ''replicas'' replicas (objectMap (gget object ''spec'')))) object
      in case gget object1 ''status'' of
           GMap st \<Rightarrow> gset ''status'' (GMap (gset ''updatedReplicas'' replicas (gset ''availableReplicas'' replicas
                        (gset ''readyReplicas'' replicas (gset ''replicas'' replicas st))))) object1
         | _ \<Rightarrow> object1)"

definition serveScale :: "apiEnv \<Rightarrow> request \<Rightarrow> groupVersion \<Rightarrow> string \<Rightarrow> string \<Rightarrow> string \<Rightarrow> objectStore \<Rightarrow> outcome" where
  "serveScale a rq gv namespace resourceName name s =
     (let key = mk_key (Group gv) (Version gv) resourceName namespace name
      in case get s key of
           None \<Rightarrow> (object_not_found (trim_suffix resourceName ''s'') name, [], s)
         | Some object \<Rightarrow>
             (if rq_method rq = ''GET'' then (Reply 200 (scaleOf object), [], s)
              else if rq_method rq \<noteq> ''PUT'' \<and> rq_method rq \<noteq> ''PATCH''
              then (status 405 ''MethodNotAllowed'' ''only GET, PUT, and PATCH are supported for scale'' name, [], s)
              else case rq_object rq of
                     Inl e \<Rightarrow> (bodyError_response e name, [], s)
                   | Inr body \<Rightarrow>
                       (let newSpec = objectMap (gget body ''spec'')
                        in if \<not> has_key newSpec ''replicas'' then (Reply 200 (scaleOf object), [], s)
                           else case put key (scaled (gget newSpec ''replicas'') object) ''MODIFIED'' s of
                                  (err, object1, s1) \<Rightarrow>
                                    (if err \<noteq> None then (capacityError, [], s1)
                                     else case map_of (table_items (ae_resources a) gv) resourceName of
                                            None \<Rightarrow> (Reply 200 (scaleOf object1), [], s1)
                                          | Some description \<Rightarrow>
                                              (let (panicked, s2) = materialize_if_workload a gv namespace name description object1 s1
                                               in (if panicked then Panicked else Reply 200 (scaleOf object1), [], s2))))))"

definition serveEviction :: "request \<Rightarrow> string \<Rightarrow> string \<Rightarrow> objectStore \<Rightarrow> outcome" where
  "serveEviction rq namespace name s =
     (if rq_method rq \<noteq> ''POST''
      then (status 405 ''MethodNotAllowed'' ''only POST is supported for evictions'' name, [], s)
      else let ((_, found), s1) = delete (mk_key [] ''v1'' ''pods'' namespace name) s
        in if \<not> found then (object_not_found ''pods'' name, [], s1)
           else (Reply 201 [(''apiVersion'', GStr ''policy/v1''), (''kind'', GStr ''Eviction''),
                   (''metadata'', GMap [(''name'', GStr name), (''namespace'', GStr namespace)])], [], s1))"

section \<open>Routing\<close>

text \<open>
  Requests that only read state (listing, watching, logs, tokens, metrics, access reviews, tables) are routed
  to \<open>ReadOnly\<close>; theory \<open>Reading\<close> answers them.
\<close>

datatype action =
    Answer response
  | ReadOnly
  | Create string apiResource
  | Update string string string apiResource
  | PatchObject string string string apiResource
  | Delete string string string apiResource
  | DeleteCollection string apiResource
  | Scale string string string
  | Evict string string

definition missing_resource :: response where
  "missing_resource = status 404 ''NotFound'' ''the server could not find the requested resource'' []"

definition core_v1 :: groupVersion where "core_v1 = gv' [] ''v1''"

definition serveSubresource :: "apiEnv \<Rightarrow> request \<Rightarrow> groupVersion \<Rightarrow> string \<Rightarrow> string \<Rightarrow> string \<Rightarrow> string \<Rightarrow> action" where
  "serveSubresource a rq gv namespace resourceName name sub =
     (let description = map_of (table_items (ae_resources a) gv) resourceName
      in if name = [] then Answer missing_resource
         else if sub = ''eviction'' \<and> gv = core_v1 \<and> resourceName = ''pods'' then Evict namespace name
         else if sub = ''scale'' \<and> gv = gv' ''apps'' ''v1'' \<and> resourceName \<in> set [''deployments'', ''statefulsets'', ''replicasets'']
         then Scale namespace resourceName name
         else if sub = ''token'' \<and> gv = core_v1 \<and> resourceName = ''serviceaccounts'' then ReadOnly
         else if gv \<noteq> core_v1 then Answer missing_resource
         else if sub = ''ephemeralcontainers'' \<and> resourceName = ''pods'' then
           (case (rq_method rq = ''PATCH'', description) of
              (True, Some d) \<Rightarrow> PatchObject namespace resourceName name d
            | _ \<Rightarrow> ReadOnly)
         else if sub = ''log'' \<and> resourceName = ''pods'' then ReadOnly
         else if sub \<in> set [''exec'', ''attach'', ''portforward''] \<and> resourceName = ''pods''
         then Answer (status 400 ''BadRequest'' ''Upgrade request required'' name)
         else if sub = ''proxy'' \<and> resourceName \<in> set [''pods'', ''services'', ''nodes'']
         then Answer (status 400 ''BadRequest'' ''Upgrade request required'' name)
         else if sub = ''status'' then
           (if rq_method rq = ''GET'' then ReadOnly
            else case description of
                   Some d \<Rightarrow>
                     (if rq_method rq = ''PATCH'' then PatchObject namespace resourceName name d
                      else if rq_method rq = ''PUT'' then Update namespace resourceName name d
                      else Answer missing_resource)
                 | None \<Rightarrow> Answer missing_resource)
         else Answer missing_resource)"

text \<open>The method switch at the end of \<^verbatim>\<open>serveResourcePath\<close>.\<close>

definition route_method :: "request \<Rightarrow> string \<Rightarrow> string \<Rightarrow> string \<Rightarrow> apiResource \<Rightarrow> action" where
  "route_method rq namespace resourceName name description =
     (let m = rq_method rq; refuse = (\<lambda>message. Answer (status 405 ''MethodNotAllowed'' message []))
      in if m = ''GET'' then ReadOnly
         else if m = ''POST'' then
           (if name \<noteq> [] then refuse ''POST is supported only on resource collections'' else Create namespace description)
         else if m = ''PUT'' then
           (if name = [] then refuse ''PUT requires a resource name'' else Update namespace resourceName name description)
         else if m = ''PATCH'' then
           (if name = [] then refuse ''PATCH requires a resource name'' else PatchObject namespace resourceName name description)
         else if m = ''DELETE'' then
           (if name = [] then DeleteCollection namespace description else Delete namespace resourceName name description)
         else refuse ''method is not supported for this resource'')"

definition serveResourcePath :: "apiEnv \<Rightarrow> request \<Rightarrow> groupVersion \<Rightarrow> string list \<Rightarrow> action" where
  "serveResourcePath a rq gv parts =
     (if parts = [] then Answer (notFound rq)
      else
        let nested = length parts \<ge> 3 \<and> parts ! 0 = ''namespaces'';
            namespace = (if nested then parts ! 1 else []);
            rest = (if nested then drop 2 parts else parts);
            resourceName = rest ! 0;
            name = (if length rest > 1 then rest ! 1 else [])
        in if length rest > 2 then serveSubresource a rq gv namespace resourceName name (rest ! 2)
           else case map_of (table_items (ae_resources a) gv) resourceName of
                  None \<Rightarrow> Answer (notFound rq)
                | Some description \<Rightarrow>
                    (if \<not> r_Namespaced description \<and> namespace \<noteq> []
                     then Answer (status 404 ''NotFound'' ''the requested resource is not namespaced'' [])
                     else if r_Namespaced description \<and> namespace = [] \<and> name \<noteq> []
                     then Answer (status 404 ''NotFound'' ''named namespaced resources require a namespace in the request path'' name)
                     else if gv = metricsGroupVersion \<or> gv = authorizationGroupVersion then ReadOnly
                     else if queryParam rq ''watch'' = ''true'' \<or> queryParam rq ''watch'' = ''1'' then
                       (if name \<noteq> [] \<or> rq_method rq \<noteq> ''GET''
                        then Answer (status 400 ''BadRequest'' ''watch is supported only on resource collections'' [])
                        else ReadOnly)
                     else route_method rq namespace resourceName name description))"

text \<open>Running the routed action; a read-only one is answered elsewhere (\<open>None\<close>).\<close>

definition perform :: "apiEnv \<Rightarrow> string \<Rightarrow> bool \<Rightarrow> request \<Rightarrow> groupVersion \<Rightarrow> action \<Rightarrow> objectStore \<Rightarrow> response option \<times> mutation list \<times> objectStore" where
  "perform a rootCAPEM slot rq gv act s =
     (let some = (\<lambda>(r, ms, t). (Some r, ms, t))
      in case act of
           Answer r \<Rightarrow> (Some r, [], s)
         | ReadOnly \<Rightarrow> (None, [], s)
         | Create ns d \<Rightarrow> some (create a rootCAPEM rq gv ns d s)
         | Update ns res n d \<Rightarrow> some (update a rq gv ns res n d s)
         | PatchObject ns res n d \<Rightarrow> some (patch a rq gv ns res n d s)
         | Delete ns res n d \<Rightarrow> some (delete_handler a rq gv ns res n d s)
         | DeleteCollection ns d \<Rightarrow> some (deleteCollection rq slot gv ns d s)
         | Scale ns res n \<Rightarrow> some (serveScale a rq gv ns res n s)
         | Evict ns n \<Rightarrow> some (serveEviction rq ns n s))"

section \<open>Every handler only writes through the store\<close>

lemma ss_if [ctrl_writes]: "writes s (snd (snd x)) \<Longrightarrow> writes s (snd (snd y)) \<Longrightarrow> writes s (snd (snd (if P then x else y)))"
  by simp

lemma ss_option [ctrl_writes]:
  "writes s (snd (snd x)) \<Longrightarrow> (\<And>v. writes s (snd (snd (f v)))) \<Longrightarrow> writes s (snd (snd (case opt of None \<Rightarrow> x | Some v \<Rightarrow> f v)))"
  by (cases opt) auto

lemma ss_sum [ctrl_writes]:
  "(\<And>e. writes s (snd (snd (f e)))) \<Longrightarrow> (\<And>v. writes s (snd (snd (g v)))) \<Longrightarrow> writes s (snd (snd (case r of Inl e \<Rightarrow> f e | Inr v \<Rightarrow> g v)))"
  by (cases r) auto

lemma ss_Pair [ctrl_writes]: "writes s t \<Longrightarrow> writes s (snd (snd (r, ms, t)))"
  by simp

lemma ss_error [ctrl_writes]:
  "writes s (snd (snd x)) \<Longrightarrow> writes s (snd (snd y)) \<Longrightarrow>
   writes s (snd (snd (case e of errStoreCapacity \<Rightarrow> x | errObjectAlreadyExists \<Rightarrow> y | errGeneratedNameCapacity \<Rightarrow> x | errInvalidGeneratedName \<Rightarrow> x)))"
  by (cases e) auto

lemma ss_put [ctrl_writes]:
  "writes s t \<Longrightarrow> (\<And>err o' t'. writes s t' \<Longrightarrow> writes s (snd (snd (f err o' t')))) \<Longrightarrow>
   writes s (snd (snd (case put key object ev t of (err, o', t') \<Rightarrow> f err o' t')))"
  using writes_put [of key object ev t] by (cases "put key object ev t") auto

lemma ss_flagged:
  "writes s (snd p) \<Longrightarrow> (\<And>b t'. writes s t' \<Longrightarrow> writes s (snd (snd (f b t')))) \<Longrightarrow>
   writes s (snd (snd (case p of (b, t') \<Rightarrow> f b t')))"
  by (cases p) auto

lemma writes_flagged:
  "writes s (snd p) \<Longrightarrow> (\<And>b t'. writes s t' \<Longrightarrow> writes s (snd (f b t'))) \<Longrightarrow> writes s (snd (case p of (b, t') \<Rightarrow> f b t'))"
  by (cases p) auto

lemma writes_delete: "writes s t \<Longrightarrow> writes s (snd (delete key t))"
  by (erule rtranclp.rtrancl_into_rtrancl) (rule write_delete)

lemma ss_case_app: "(\<And>v b. writes s (snd (snd (f v b u)))) \<Longrightarrow> writes s (snd (snd ((case x of (v, b) \<Rightarrow> f v b) u)))"
  by (cases x) auto

lemma writes_seedNamespaceObjects [ctrl_writes]: "writes s t \<Longrightarrow> writes s (seedNamespaceObjects a pem ns t)"
  unfolding seedNamespaceObjects_def Let_def by (intro ctrl_writes)

lemma writes_after_create [ctrl_writes]: "writes s t \<Longrightarrow> writes s (snd (after_create a pem gv ns n d object t))"
  unfolding after_create_def Let_def by (intro ctrl_writes writes_flagged)

lemma writes_create_named [ctrl_writes]: "writes s t \<Longrightarrow> writes s (snd (snd (create_named a pem rq gv ns d n md object t)))"
  unfolding create_named_def Let_def by (intro ctrl_writes ss_flagged)

lemma writes_nextName: "writes s t \<Longrightarrow> writes s (snd (nextName prefix t))"
  by (erule rtranclp.rtrancl_into_rtrancl) (rule write_name)

lemma ss_nextName [ctrl_writes]:
  assumes "writes s t" "\<And>v t'. writes s t' \<Longrightarrow> writes s (snd (snd (g v t')))"
    "\<And>t'. writes s t' \<Longrightarrow> writes s (snd (snd (f t')))" "\<And>t'. writes s t' \<Longrightarrow> writes s (snd (snd (f2 t')))"
  shows "writes s (snd (snd (case nextName prefix t of
      (Inl errStoreCapacity, t') \<Rightarrow> f2 t' | (Inl errObjectAlreadyExists, t') \<Rightarrow> f2 t' | (Inl errGeneratedNameCapacity, t') \<Rightarrow> f t'
    | (Inl errInvalidGeneratedName, t') \<Rightarrow> f2 t' | (Inr v, t') \<Rightarrow> g v t')))"
  using assms(2-4) writes_nextName [OF assms(1), of prefix]
  by (cases "nextName prefix t") (auto split: sum.splits storeError.splits)

lemma writes_create [ctrl_writes]: "writes s t \<Longrightarrow> writes s (snd (snd (create a pem rq gv ns d t)))"
  unfolding create_def Let_def by (intro ctrl_writes)

lemma writes_materialize_if [ctrl_writes]: "writes s t \<Longrightarrow> writes s (snd (materialize_if_workload a gv ns n d object t))"
  unfolding materialize_if_workload_def by (intro ctrl_writes)

lemma writes_store_modified [ctrl_writes]: "writes s t \<Longrightarrow> writes s (snd (snd (store_modified a rq op gv ns res n d object t)))"
  unfolding store_modified_def Let_def by (intro ctrl_writes ss_flagged)

lemma writes_update [ctrl_writes]: "writes s t \<Longrightarrow> writes s (snd (snd (update a rq gv ns res n d t)))"
  unfolding update_def Let_def by (intro ctrl_writes)

lemma writes_patch [ctrl_writes]: "writes s t \<Longrightarrow> writes s (snd (snd (patch a rq gv ns res n d t)))"
  unfolding patch_def Let_def by (intro ctrl_writes)

lemma writes_delete_handler [ctrl_writes]: "writes s t \<Longrightarrow> writes s (snd (snd (delete_handler a rq gv ns res n d t)))"
  unfolding delete_handler_def Let_def by (intro ctrl_writes ss_flagged ss_case_app writes_delete)

lemma writes_delete_keys: "writes s t \<Longrightarrow> writes s (snd (delete_keys keys t))"
proof (induction keys arbitrary: t)
  case (Cons key keys)
  from Cons.IH [OF writes_delete [OF Cons.prems, of key]] show ?case by (auto simp: Let_def split: prod.splits)
qed simp

lemma writes_deleteCollection [ctrl_writes]: "writes s t \<Longrightarrow> writes s (snd (snd (deleteCollection rq slot gv ns d t)))"
  unfolding deleteCollection_def Let_def deleteMatching_def by (intro ctrl_writes ss_flagged writes_delete_keys)

lemma writes_serveScale [ctrl_writes]: "writes s t \<Longrightarrow> writes s (snd (snd (serveScale a rq gv ns res n t)))"
  unfolding serveScale_def Let_def by (intro ctrl_writes ss_flagged)

lemma writes_serveEviction [ctrl_writes]: "writes s t \<Longrightarrow> writes s (snd (snd (serveEviction rq ns n t)))"
  unfolding serveEviction_def Let_def by (intro ctrl_writes ss_flagged ss_case_app writes_delete)

lemma writes_perform: "writes s (snd (snd (perform a pem slot rq gv act s)))"
proof -
  have some: "snd (snd (case x of (r, ms, t) \<Rightarrow> (Some r, ms, t))) = snd (snd x)" for x :: outcome
    by (cases x) auto
  show ?thesis
    unfolding perform_def Let_def by (cases act) (simp_all only: action.case some, (intro ctrl_writes)+)
qed

section \<open>Refused requests change nothing\<close>

named_theorems quiet_intros \<open>a refused request leaves the objects alone and reports nothing\<close>

definition same_objects :: "objectStore \<Rightarrow> objectStore \<Rightarrow> bool" where
  "same_objects s t \<longleftrightarrow> objects t = objects s \<and> storedBytes t = storedBytes s \<and> resourceRev t = resourceRev s \<and>
     watchers t = watchers s \<and> chans t = chans s"

definition quiet :: "objectStore \<Rightarrow> outcome \<Rightarrow> bool" where
  "quiet s out \<longleftrightarrow>
     (case out of (r, ms, t) \<Rightarrow> (case r of Reply c b \<Rightarrow> c \<ge> 400 \<longrightarrow> ms = [] \<and> same_objects s t | Panicked \<Rightarrow> True))"

lemma same_objects_refl [quiet_intros]: "same_objects s s"
  by (simp add: same_objects_def)

lemma quiet_refused [quiet_intros]: "same_objects s t \<Longrightarrow> quiet s (r, [], t)"
  by (auto simp: quiet_def split: response.splits)

lemma quiet_ok [quiet_intros]: "quiet s (Reply 200 b, ms, t)" "quiet s (Reply 201 b, ms, t)" "quiet s (Panicked, ms, t)"
  "quiet s (success_status dt, ms, t)"
  by (simp_all add: quiet_def success_status_def)

lemma quiet_if [quiet_intros]: "(P \<Longrightarrow> quiet s x) \<Longrightarrow> (\<not> P \<Longrightarrow> quiet s y) \<Longrightarrow> quiet s (if P then x else y)"
  by simp

lemma quiet_option [quiet_intros]: "quiet s x \<Longrightarrow> (\<And>v. quiet s (f v)) \<Longrightarrow> quiet s (case opt of None \<Rightarrow> x | Some v \<Rightarrow> f v)"
  by (cases opt) auto

lemma quiet_sum [quiet_intros]: "(\<And>e. quiet s (f e)) \<Longrightarrow> (\<And>v. quiet s (g v)) \<Longrightarrow> quiet s (case r of Inl e \<Rightarrow> f e | Inr v \<Rightarrow> g v)"
  by (cases r) auto

lemma quiet_case: "(\<And>b t. quiet s (f b t)) \<Longrightarrow> quiet s (case p of (b, t) \<Rightarrow> f b t)"
  by (cases p) auto

lemma quiet_put:
  "same_objects s t \<Longrightarrow> (\<And>e o'. quiet s (f (Some e) o' t)) \<Longrightarrow> (\<And>o' t'. quiet s (f None o' t')) \<Longrightarrow>
   quiet s (case put key object ev t of (err, o', t') \<Rightarrow> f err o' t')"
  by (cases rule: put_cases [of key object ev t]) auto

lemma quiet_create_named: "same_objects s t \<Longrightarrow> quiet s (create_named a pem rq gv ns d n md object t)"
  unfolding create_named_def Let_def
  by (rule quiet_put) (auto intro!: quiet_intros quiet_case split: storeError.splits)

lemma same_objects_nextName: "nextName prefix s = (r, t) \<Longrightarrow> same_objects s t"
  by (auto simp: nextName_def Let_def same_objects_def split: if_splits)

lemma quiet_create: "quiet s (create a pem rq gv ns d s)"
proof -
  have "quiet s (case nextName prefix s of
      (Inl errStoreCapacity, t') \<Rightarrow> (r2, [], t') | (Inl errObjectAlreadyExists, t') \<Rightarrow> (r2, [], t') | (Inl errGeneratedNameCapacity, t') \<Rightarrow> (r1, [], t')
    | (Inl errInvalidGeneratedName, t') \<Rightarrow> (r2, [], t') | (Inr v, t') \<Rightarrow> create_named a pem rq gv ns2 d v md object t')" for prefix r1 r2 ns2 md object
    by (cases "nextName prefix s") (auto split: sum.splits storeError.splits intro!: quiet_intros quiet_create_named dest: same_objects_nextName)
  then show ?thesis
    unfolding create_def Let_def by (intro quiet_intros quiet_create_named)
qed

lemma quiet_store_modified: "quiet s (store_modified a rq op gv ns res n d object s)"
  unfolding store_modified_def Let_def by (rule quiet_put) (auto intro!: quiet_intros quiet_case)

lemma quiet_update: "quiet s (update a rq gv ns res n d s)"
  unfolding update_def Let_def by (intro quiet_intros quiet_store_modified)

lemma quiet_patch: "quiet s (patch a rq gv ns res n d s)"
  unfolding patch_def Let_def by (intro quiet_intros quiet_store_modified)

lemma quiet_delete_case:
  assumes "\<And>v t. quiet s (f (v, True) t)" "quiet s (f ([], False) s)"
  shows "quiet s (case delete key s of (vb, t) \<Rightarrow> f vb t)"
  using assms by (auto simp: delete_def split: option.splits)

lemma quiet_delete: "quiet s (delete_handler a rq gv ns res n d s)"
  unfolding delete_handler_def Let_def by (rule quiet_delete_case) (auto intro!: quiet_intros quiet_case)

lemma quiet_eviction: "quiet s (serveEviction rq ns n s)"
  unfolding serveEviction_def Let_def
  by (intro quiet_if quiet_delete_case) (auto intro!: quiet_intros)

lemma quiet_deleteCollection: "quiet s (deleteCollection rq slot gv ns d s)"
  unfolding deleteCollection_def Let_def by (intro quiet_intros quiet_case)

lemma quiet_flag_scale: "quiet s (case p of (b, t') \<Rightarrow> (if b then Panicked else Reply 200 x, [], t'))"
  by (cases p) (auto simp: quiet_def)

lemma quiet_scale: "quiet s (serveScale a rq gv ns res n s)"
  unfolding serveScale_def Let_def
  by (intro quiet_intros quiet_put) (auto intro!: quiet_intros quiet_flag_scale)

lemmas handlers_quiet = quiet_create quiet_update quiet_patch quiet_delete quiet_deleteCollection quiet_scale quiet_eviction

lemma quiet_perform: "perform a pem slot rq gv act s = (Some r, y) \<Longrightarrow> quiet s (r, y)"
  unfolding perform_def Let_def split_def fst_conv snd_conv prod.collapse
  by (cases act) (auto intro!: quiet_refused same_objects_refl simp: handlers_quiet)

end
