(* ===== verification/Seed.thy ===== *)
theory Seed
  imports Handlers ModelConfig
begin

text \<open>
  The objects the simulated cluster starts with (\<^verbatim>\<open>seed\<close> of \<^verbatim>\<open>handler/state.go\<close>): namespaces, nodes and leases, the
  API server's own Service, the optional system and sample workloads, the configured honeytokens and the
  furniture of a long-running cluster. Seeding is a list of objects that are stored in order until the
  budget of 512 is used up.

  \<^verbatim>\<open>range apiCatalog\<close> visits the group versions in an order Go does not fix: that order is the argument \<open>gvs\<close>.
\<close>

section \<open>Parts\<close>

abbreviation maxSeedObjects :: nat where "maxSeedObjects \<equiv> 512"
abbreviation maxSeedNamespaces :: nat where "maxSeedNamespaces \<equiv> 128"
abbreviation maxSeedSecrets :: nat where "maxSeedSecrets \<equiv> 128"
abbreviation maxLegacySeedTokens :: nat where "maxLegacySeedTokens \<equiv> 128"
abbreviation maxSecretDataKeys :: nat where "maxSecretDataKeys \<equiv> 512"

definition rootCAPEM :: string where
  "rootCAPEM = go_join [CHR 0x0A]
     [''-----BEGIN CERTIFICATE-----'',
      ''MIIDBTCCAe2gAwIBAgIIRg9i3sQzLw4wDQYJKoZIhvcNAQELBQAwFTETMBEGA1UE'',
      ''AxMKa3ViZXJuZXRlczAeFw0yNjA5MjQxMjUxMDdaFw0zNjA5MjIxMjUxMDdaMBUx'',
      ''EzARBgNVBAMTCmt1YmVybmV0ZXMwggEiMA0GCSqGSIb3DQEBAQUAA4IBDwAwggEK'',
      ''AoIBAQDczvdV7kY+GxXMJgX0hC8z3mJzNbxqSxP4uKqJjZ0dYkL4WQ1fK0mHv7nG'',
      ''k7Hj9hZ9Kp2WvQpZJ8q7x0h0p9uF3kY6gZqJ0z2m7YvB0cH9k4wQ4uK1y9z2H8v'',
      ''n0Xb7Q0mD2gP1vY4z5iH8gN7kX0wM3tL9cF1bV6xK8jH2dP5sA4fG9nQ0wE7rT3'',
      ''yU6iO1pA8sD4fG7hJ0kL2zX5cV8bN1mQ4wR7tY3uI6oP9aS2dF5gH8jK1lZ4xC7'',
      ''vB0nM3qW6eR9tY2uI5oP8aS1dF4gH7jK0lZ3xC6vB9nM2qW5eR8tY1uI4oP7aS0'',
      ''dF3gH6jK9lZ2xC5vB8nM1qW4eR7tY0uI3oP6aS9dF2gH5jK8lZ1xC4vB7nM0qW'',
      ''AgMBAAGjRjBEMA4GA1UdDwEB/wQEAwICpDAPBgNVHRMBAf8EBTADAQH/MB0GA1Ud'',
      ''DgQWBBQ0bW9ja2VkLWNhLWZvci10ZXN0MA0GCSqGSIb3DQEBCwUAA4IBAQCqK3z8'',
      ''pV7jQ0dY2mF8hN5sK1xW9rT4uI6oP3aS7dG0fJ4kL9zX2cV5bN8mQ1wR4tY7uI0'',
      ''-----END CERTIFICATE-----'']"

fun encode_entries :: "nat \<Rightarrow> (string \<times> string) list \<Rightarrow> (string \<times> string) list option" where
  "encode_entries encodedBytes [] = Some []"
| "encode_entries encodedBytes ((key, v) # rest) =
     (if \<not> validSecretDataKey key \<or> length v > maxStoredObjectBytes then None
      else let valueBytes = base64_len (length v)
        in if encodedBytes + length key + valueBytes > maxStoredObjectBytes then None
           else map_option (\<lambda>out. (key, base64_encode v) # out) (encode_entries (encodedBytes + length key + valueBytes) rest))"

definition encodeSecretData :: "(string \<times> string) list \<Rightarrow> (string \<times> string) list option" where
  "encodeSecretData data = (if length data > maxSecretDataKeys then None else encode_entries 0 data)"

definition podObject :: "string \<Rightarrow> string \<Rightarrow> string \<Rightarrow> string \<Rightarrow> string \<Rightarrow> string \<Rightarrow> string \<Rightarrow> string \<Rightarrow> string \<Rightarrow> gobj" where
  "podObject now name namespace img ip node labelKey labelValue hostIP =
     [(''metadata'', GMap [(''name'', GStr name), (''namespace'', GStr namespace), (''labels'', GStrMap [(labelKey, labelValue)])]),
      (''spec'', GMap [(''nodeName'', GStr node),
         (''containers'', GList [GMap [(''name'', GStr ''main''), (''image'', GStr img), (''imagePullPolicy'', GStr ''IfNotPresent'')]])]),
      (''status'', GMap [(''phase'', GStr ''Running''), (''podIP'', GStr ip), (''hostIP'', GStr hostIP),
         (''conditions'', GList [GMap [(''type'', GStr ''Ready''), (''status'', GStr ''True''), (''reason'', GStr ''PodReady'')]]),
         (''containerStatuses'', GList [GMap [(''name'', GStr ''main''), (''ready'', GBool True), (''restartCount'', GInt 0), (''image'', GStr img),
            (''imageID'', GStr ''containerd://sha256:0000000000000000''),
            (''state'', GMap [(''running'', GMap [(''startedAt'', GStr now)])])]])]),
      (''apiVersion'', GStr ''v1''), (''kind'', GStr ''Pod'')]"

section \<open>Storing one object\<close>

record seedItem =
  si_gv :: groupVersion
  si_resource :: string
  si_namespace :: string
  si_name :: string
  si_object :: gobj

definition item :: "string \<Rightarrow> string \<Rightarrow> string \<Rightarrow> string \<Rightarrow> string \<Rightarrow> gobj \<Rightarrow> seedItem" where
  "item g v res ns n object = \<lparr>si_gv = gv' g v, si_resource = res, si_namespace = ns, si_name = n, si_object = object\<rparr>"

text \<open>\<^verbatim>\<open>(s *objectStore) seed\<close>\<close>

definition seed_object :: "string \<Rightarrow> seedItem \<Rightarrow> gobj" where
  "seed_object started i =
     (let object = si_object i; gv = si_gv i; namespace = si_namespace i;
          m0 = gset ''name'' (GStr (si_name i)) (objectMap (gget object ''metadata''));
          m1 = (if namespace \<noteq> [] then gset ''namespace'' (GStr namespace) m0 else m0);
          m2 = gset ''uid'' (GStr (stableUID (apiVersionFor gv @ ''/'' @ namespace @ ''/'' @ si_resource i @ ''/'' @ si_name i))) m1;
          m3 = (if has_key m2 ''creationTimestamp'' then m2 else gset ''creationTimestamp'' (GStr started) m2);
          o1 = gset ''apiVersion'' (GStr (apiVersionFor gv)) object;
          o2 = (case sKind gv (si_resource i) of Some kind \<Rightarrow> gset ''kind'' (GStr kind) o1 | None \<Rightarrow> o1)
      in gset ''metadata'' (GMap m3) o2)"

definition item_key :: "seedItem \<Rightarrow> objectKey" where
  "item_key i = mk_key (Group (si_gv i)) (Version (si_gv i)) (si_resource i) (si_namespace i) (si_name i)"

definition store_seed :: "seedItem \<Rightarrow> objectStore \<Rightarrow> bool \<times> objectStore" where
  "store_seed i s =
     (case put (item_key i) (seed_object (rfc3339 (startedAt s)) i) ''ADDED'' s of (err, _, s1) \<Rightarrow> (err = None, s1))"

text \<open>The closure \<open>seed\<close> with its counter.\<close>

definition seed_one :: "seedItem \<Rightarrow> nat \<times> objectStore \<Rightarrow> nat \<times> objectStore" where
  "seed_one i ns =
     (case ns of (seededObjects, s) \<Rightarrow>
        if seededObjects \<ge> maxSeedObjects then (seededObjects, s)
        else let (stored, s1) = store_seed i s in (if stored then seededObjects + 1 else seededObjects, s1))"

section \<open>Namespaces\<close>

definition addNamespace :: "string \<Rightarrow> string list \<Rightarrow> string list" where
  "addNamespace namespace order =
     (if length order \<ge> maxSeedNamespaces \<or> \<not> validNamespaceName namespace \<or> namespace \<in> set order then order
      else order @ [namespace])"

definition honeytoken_namespace :: "K8SHoneytoken \<Rightarrow> string" where
  "honeytoken_namespace h = (let ns = trim_space (ht_Namespace h) in if ns = [] then ''default'' else ns)"

definition namespaceOrder :: "K8SConfig \<Rightarrow> string list" where
  "namespaceOrder k =
     fold addNamespace
       ([''default'', ''kube-system'', ''kube-public'', ''kube-node-lease'']
        @ map honeytoken_namespace (filter (\<lambda>h. validObjectName (ht_Name h)) (take maxSeedSecrets (k8s_Honeytokens k)))
        @ map trim_space (take maxSeedObjects (k8s_Namespaces k))) []"

definition namespace_item :: "string \<Rightarrow> seedItem" where
  "namespace_item namespace =
     item [] ''v1'' ''namespaces'' [] namespace
       [(''metadata'', GMap [(''labels'', GStrMap [(''kubernetes.io/metadata.name'', namespace)])]),
        (''status'', GMap [(''phase'', GStr ''Active'')])]"

section \<open>The rest of the cluster\<close>

definition node_items :: "string \<Rightarrow> string \<Rightarrow> nat \<Rightarrow> string \<Rightarrow> nat \<Rightarrow> string \<Rightarrow> seedItem list" where
  "node_items version ipBase started name i role =
     (let stamp = rfc3339 started; version0 = version @ ''.0''
      in [item [] ''v1'' ''nodes'' [] name
            [(''metadata'', GMap [(''labels'', GStrMap [(''kubernetes.io/hostname'', name), (''node-role.kubernetes.io/'' @ role, [])])]),
             (''spec'', GMap [(''podCIDR'', GStr (podCIDR ipBase (int i))), (''taints'', GList [])]),
             (''status'', GMap
               [(''capacity'', GStrMap [(''cpu'', ''4''), (''memory'', ''16Gi''), (''pods'', ''110'')]),
                (''allocatable'', GStrMap [(''cpu'', ''3900m''), (''memory'', ''15Gi''), (''pods'', ''110'')]),
                (''addresses'', GList [GStrMap [(''type'', ''InternalIP''), (''address'', nodeAddress ipBase (10 + int i))],
                   GMap [(''type'', GStr ''Hostname''), (''address'', GStr name)]]),
                (''nodeInfo'', GStrMap [(''containerRuntimeVersion'', ''containerd://2.1.0''), (''kubeletVersion'', version0),
                   (''kubeProxyVersion'', version0), (''operatingSystem'', ''linux''), (''architecture'', ''amd64''),
                   (''osImage'', ''Linux''), (''kernelVersion'', ''6.8.0'')]),
                (''conditions'', GList [GMap [(''type'', GStr ''Ready''), (''status'', GStr ''True''), (''reason'', GStr ''KubeletReady''),
                   (''lastHeartbeatTime'', GStr stamp), (''lastTransitionTime'', GStr stamp)]])])],
          item ''coordination.k8s.io'' ''v1'' ''leases'' ''kube-node-lease'' name
            [(''spec'', GMap [(''holderIdentity'', GStr name), (''leaseDurationSeconds'', GInt 40),
                (''renewTime'', GStr (rfc3339_micro started)), (''acquireTime'', GStr (rfc3339_micro started)),
                (''leaseTransitions'', GInt 0)])]])"

definition apiserver_items :: "string \<Rightarrow> seedItem list" where
  "apiserver_items ipBase =
     [item [] ''v1'' ''services'' ''default'' ''kubernetes''
        [(''spec'', GMap [(''clusterIP'', GStr (serviceAddress ipBase 20)),
           (''ports'', GList [GMap [(''name'', GStr ''https''), (''port'', GInt 443), (''protocol'', GStr ''TCP''), (''targetPort'', GInt 6443)]]),
           (''type'', GStr ''ClusterIP'')])],
      item [] ''v1'' ''endpoints'' ''default'' ''kubernetes''
        [(''subsets'', GList [GMap
           [(''addresses'', GList [GMap [(''ip'', GStr (nodeAddress ipBase 10))]]),
            (''ports'', GList [GMap [(''name'', GStr ''https''), (''port'', GInt 6443), (''protocol'', GStr ''TCP'')]])]])]]"

definition system_items :: "string \<Rightarrow> string \<Rightarrow> seedItem list" where
  "system_items now ipBase =
     map (\<lambda>(i, name, img). item [] ''v1'' ''pods'' ''kube-system'' name
            (podObject now name ''kube-system'' img (podAddress ipBase 2 (30 + int i)) ''worker-01'' ''k8s-app'' ''system'' (nodeAddress ipBase 11)))
       (enumerate 0
         [(''coredns-6d8b4f6b7f-k7m2p'', ''registry.k8s.io/coredns/coredns:v1.14.7''),
          (''kube-proxy-2k9jv'', ''registry.k8s.io/kube-proxy:v1.37.0''),
          (''metrics-server-7db5f8d5b9-5c2tx'', ''registry.k8s.io/metrics-server/metrics-server:v0.9.0'')])
     @ [item [] ''v1'' ''services'' ''kube-system'' ''kube-dns''
          [(''spec'', GMap [(''clusterIP'', GStr (serviceAddress ipBase 21)),
             (''ports'', GList [GMap [(''name'', GStr ''dns''), (''port'', GInt 53), (''protocol'', GStr ''UDP'')],
                               GMap [(''name'', GStr ''dns-tcp''), (''port'', GInt 53), (''protocol'', GStr ''TCP'')]]),
             (''selector'', GStrMap [(''k8s-app'', ''system'')]), (''type'', GStr ''ClusterIP'')]),
           (''status'', GMap [(''loadBalancer'', GMap [])])]]"

definition sample_items :: "string \<Rightarrow> string \<Rightarrow> seedItem list" where
  "sample_items now ipBase =
     map (\<lambda>(i, name, img). item [] ''v1'' ''pods'' ''default'' name
            (podObject now name ''default'' img (podAddress ipBase 2 (40 + int i)) ''worker-01'' ''app'' (hd (go_split (CHR ''-'') name)) (nodeAddress ipBase 11)))
       (enumerate 0
         [(''api-6d7949c6d7-vzd8q'', ''registry.k8s.io/pause:3.10''), (''web-7f5cb9d59c-hk6qn'', ''nginx:1.30.5''), (''redis-0'', ''redis:7.4'')])
     @ [item ''apps'' ''v1'' ''deployments'' ''default'' ''web''
          [(''spec'', GMap [(''replicas'', GInt 1), (''selector'', GMap [(''matchLabels'', GStrMap [(''app'', ''web'')])]),
             (''template'', GMap [(''metadata'', GMap [(''labels'', GStrMap [(''app'', ''web'')])]),
                (''spec'', GMap [(''containers'', GList [GMap [(''name'', GStr ''web''), (''image'', GStr ''nginx:1.30.5''),
                   (''ports'', GList [GMap [(''containerPort'', GInt 80)]])]])])])]),
           (''status'', GMap [(''availableReplicas'', GInt 1), (''readyReplicas'', GInt 1), (''replicas'', GInt 1), (''updatedReplicas'', GInt 1)])]]"

definition honeytoken_items :: "string list \<Rightarrow> K8SHoneytoken \<Rightarrow> seedItem list" where
  "honeytoken_items order h =
     (let namespace = honeytoken_namespace h;
          secretType0 = trim_space (ht_Type h);
          secretType = (if secretType0 = [] then ''Opaque'' else secretType0)
      in if \<not> validObjectName (ht_Name h) \<or> \<not> validNamespaceName namespace \<or> namespace \<notin> set order then []
         else case encodeSecretData (ht_Data h) of
                None \<Rightarrow> []
              | Some data \<Rightarrow>
                  (if length secretType > 256 then []
                   else [item [] ''v1'' ''secrets'' namespace (ht_Name h) [(''type'', GStr secretType), (''data'', GStrMap data)]]))"

definition legacy_item :: "string list \<Rightarrow> nat \<times> string \<Rightarrow> seedItem list" where
  "legacy_item names it =
     (case it of (i, token) \<Rightarrow>
        if length token > 4096 then []
        else let name = (if i < length names \<and> trim_space (names ! i) \<noteq> [] then names ! i else ''decoy-credential-'' @ pad_nat 2 (i + 1))
          in [item [] ''v1'' ''secrets'' ''default'' name
                [(''type'', GStr ''Opaque''), (''data'', GStrMap [(''token'', base64_encode token)])]])"

definition namespace_furniture :: "string \<Rightarrow> seedItem list" where
  "namespace_furniture namespace =
     [item [] ''v1'' ''serviceaccounts'' namespace ''default'' [],
      item [] ''v1'' ''configmaps'' namespace ''kube-root-ca.crt'' [(''data'', GStrMap [(''ca.crt'', rootCAPEM)])]]"

definition apiservice_item :: "string \<Rightarrow> groupVersion \<Rightarrow> seedItem" where
  "apiservice_item stamp gv =
     item ''apiregistration.k8s.io'' ''v1'' ''apiservices'' [] (if Group gv = [] then Version gv else Version gv @ ''.'' @ Group gv)
       [(''spec'', GMap ([(''group'', GStr (Group gv)), (''version'', GStr (Version gv)), (''groupPriorityMinimum'', GInt 1000), (''versionPriority'', GInt 15)]
           @ (if Group gv = ''metrics.k8s.io''
              then [(''service'', GMap [(''name'', GStr ''metrics-server''), (''namespace'', GStr ''kube-system''), (''port'', GInt 443)])] else []))),
        (''status'', GMap [(''conditions'', GList [GMap [(''type'', GStr ''Available''), (''status'', GStr ''True''), (''reason'', GStr ''Passed''),
           (''lastTransitionTime'', GStr stamp)]])])]"

definition webhook_item :: seedItem where
  "webhook_item =
     item ''admissionregistration.k8s.io'' ''v1'' ''validatingwebhookconfigurations'' [] ''cert-manager-webhook''
       [(''webhooks'', GList [GMap
          [(''name'', GStr ''webhook.cert-manager.io''), (''admissionReviewVersions'', GStrs [''v1'']), (''sideEffects'', GStr ''None''),
           (''failurePolicy'', GStr ''Fail''),
           (''clientConfig'', GMap [(''service'', GMap [(''name'', GStr ''cert-manager-webhook''), (''namespace'', GStr ''cert-manager''), (''path'', GStr ''/validate'')])]),
           (''rules'', GList [GMap [(''apiGroups'', GStrs [''cert-manager.io'']), (''apiVersions'', GStrs [''v1'']),
              (''operations'', GStrs [''CREATE'', ''UPDATE'']), (''resources'', GStrs [''*/*''])]])]])]"

definition crd_item :: "string \<Rightarrow> string \<times> string \<times> string \<times> string \<Rightarrow> seedItem" where
  "crd_item stamp crd =
     (case crd of (name, grp, plural, kind) \<Rightarrow>
        item ''apiextensions.k8s.io'' ''v1'' ''customresourcedefinitions'' [] name
          [(''spec'', GMap [(''group'', GStr grp),
             (''names'', GMap [(''plural'', GStr plural), (''singular'', GStr (to_lower kind)), (''kind'', GStr kind), (''listKind'', GStr (kind @ ''List''))]),
             (''scope'', GStr ''Namespaced''),
             (''versions'', GList [GMap [(''name'', GStr ''v1''), (''served'', GBool True), (''storage'', GBool True),
                (''schema'', GMap [(''openAPIV3Schema'', GMap [(''type'', GStr ''object''), (''x-kubernetes-preserve-unknown-fields'', GBool True)])])]])]),
           (''status'', GMap [(''acceptedNames'', GMap [(''plural'', GStr plural), (''kind'', GStr kind)]),
             (''conditions'', GList [GMap [(''type'', GStr ''Established''), (''status'', GStr ''True''), (''reason'', GStr ''InitialNamesAccepted''),
                (''lastTransitionTime'', GStr stamp)]])])])"

definition role_item :: "string \<Rightarrow> seedItem" where
  "role_item role = item ''rbac.authorization.k8s.io'' ''v1'' ''clusterroles'' [] role [(''rules'', GList [])]"

definition binding_item :: "string \<Rightarrow> seedItem" where
  "binding_item binding =
     item ''rbac.authorization.k8s.io'' ''v1'' ''clusterrolebindings'' [] binding
       [(''roleRef'', GStrMap [(''apiGroup'', ''rbac.authorization.k8s.io''), (''kind'', ''ClusterRole''), (''name'', binding)]),
        (''subjects'', GList [])]"

definition furniture_items :: "string \<Rightarrow> groupVersion list \<Rightarrow> seedItem list" where
  "furniture_items stamp gvs =
     map (apiservice_item stamp) gvs @ [webhook_item]
     @ map (crd_item stamp)
         [(''prometheusrules.monitoring.coreos.com'', ''monitoring.coreos.com'', ''prometheusrules'', ''PrometheusRule''),
          (''certificates.cert-manager.io'', ''cert-manager.io'', ''certificates'', ''Certificate''),
          (''ingressroutes.traefik.io'', ''traefik.io'', ''ingressroutes'', ''IngressRoute'')]
     @ map role_item
         [''cluster-admin'', ''admin'', ''edit'', ''view'', ''system:aggregate-to-admin'', ''system:aggregate-to-edit'', ''system:aggregate-to-view'',
          ''system:basic-user'', ''system:discovery'', ''system:public-info-viewer'', ''system:auth-delegator'', ''system:kube-controller-manager'',
          ''system:kube-scheduler'', ''system:controller:attachdetach-controller'', ''system:controller:deployment-controller'',
          ''system:kube-dns'', ''system:kube-proxy'', ''system:node'', ''system:node-proxier'', ''system:metrics-server'']
     @ map binding_item
         [''cluster-admin'', ''system:basic-user'', ''system:discovery'', ''system:public-info-viewer'', ''system:kube-controller-manager'',
          ''system:kube-scheduler'', ''system:metrics-server'']"

text \<open>\<open>version\<close> is the API's version and \<open>now\<close> the clock.\<close>

definition seed_items :: "string \<Rightarrow> string \<Rightarrow> nat \<Rightarrow> groupVersion list \<Rightarrow> K8SConfig \<Rightarrow> seedItem list" where
  "seed_items version now started gvs k =
     (let order = namespaceOrder k; ipBase = k8s_IPBase k
      in map namespace_item order
         @ concat (map (\<lambda>(i, name, role). node_items version ipBase started name i role)
             (enumerate 0 [(''control-plane-01'', ''control-plane''), (''worker-01'', ''worker''), (''worker-02'', ''worker'')]))
         @ apiserver_items ipBase
         @ (if k8s_GenerateKubeSys k then system_items now ipBase else [])
         @ (if k8s_GenerateRand k then sample_items now ipBase else [])
         @ concat (map (honeytoken_items order) (take maxSeedSecrets (k8s_Honeytokens k)))
         @ concat (map (legacy_item (k8s_TokenNames k)) (enumerate 0 (take maxLegacySeedTokens (k8s_TokenValues k))))
         @ concat (map namespace_furniture order)
         @ furniture_items (rfc3339 started) gvs)"

definition seed :: "string \<Rightarrow> string \<Rightarrow> groupVersion list \<Rightarrow> K8SConfig \<Rightarrow> objectStore \<Rightarrow> objectStore" where
  "seed version now gvs k s = snd (fold seed_one (seed_items version now (startedAt s) gvs k) (0, s))"

end
