(* ===== verification/Kubelet.thy ===== *)
theory Kubelet
  imports Seed EventLogger
begin

text \<open>
  The kubelet sensor (\<^verbatim>\<open>honeypots/kubelet/kubelet.go\<close>): a read-only kubelet API over a fixed list of four pods. Its handlers
  are functions of the configuration, the start time, the query and the path below a wildcard route; which handler a path reaches is
  decided by the web framework from the table of routes. A response is a status and a text or a JSON value.
\<close>

datatype body = NoBody | TextBody string | HtmlBody string | JsonBody gval

record nodeView =
  nv_nodeName :: string
  nv_ipBase :: string
  nv_startedAt :: nat

definition started :: "nodeView \<Rightarrow> string" where
  "started n = rfc3339 (nv_startedAt n)"

definition podIP :: "nodeView \<Rightarrow> int \<Rightarrow> string" where
  "podIP n offset =
     (let base0 = trim_space (nv_ipBase n); base = (if base0 = [] then ''10.42.0.0'' else base0); parts = go_split (CHR ''.'') base
      in if length parts \<noteq> 4 then ''10.42.0.9''
         else parts ! 0 @ ''.'' @ parts ! 1 @ ''.2.'' @ show_int offset)"

definition uidFor :: "string \<Rightarrow> string" where
  "uidFor key =
     (let hexed = hex_bytes (take 16 (sha256 key))
      in take 8 hexed @ ''-'' @ take 4 (drop 8 hexed) @ ''-'' @ take 4 (drop 12 hexed) @ ''-'' @ take 4 (drop 16 hexed) @ ''-'' @ take 12 (drop 20 hexed))"

definition pod :: "nodeView \<Rightarrow> string \<Rightarrow> string \<Rightarrow> string \<Rightarrow> string \<Rightarrow> int \<Rightarrow> gobj" where
  "pod n name namespace img node ipOffset =
     (let ip = podIP n ipOffset; uid = uidFor (''kubelet/'' @ namespace @ ''/'' @ name)
      in [(''kind'', GStr ''Pod''), (''apiVersion'', GStr ''v1''),
          (''metadata'', GMap [(''name'', GStr name), (''namespace'', GStr namespace), (''uid'', GStr uid), (''creationTimestamp'', GStr (started n))]),
          (''spec'', GMap [(''nodeName'', GStr node), (''containers'', GList [GMap [(''name'', GStr name), (''image'', GStr img)]])]),
          (''status'', GMap [(''phase'', GStr ''Running''), (''podIP'', GStr ip), (''podIPs'', GList [GMap [(''ip'', GStr ip)]]), (''hostIP'', GStr (podIP n 10)),
             (''containerStatuses'', GList [GMap [(''name'', GStr name), (''ready'', GBool True),
                (''state'', GMap [(''running'', GMap [(''startedAt'', GStr (started n))])])]])])])"

definition nodePods :: "nodeView \<Rightarrow> gobj list" where
  "nodePods n =
     (let node = nv_nodeName n
      in [pod n ''kube-proxy-2k9jv'' ''kube-system'' ''registry.k8s.io/kube-proxy:v1.37.0'' node 30,
          pod n ''metrics-server-7db5f8d5b9-5c2tx'' ''kube-system'' ''registry.k8s.io/metrics-server/metrics-server:v0.9.0'' node 31,
          pod n ''web-7f5cb9d59c-hk6qn'' ''default'' ''nginx:1.30.5'' node 40,
          pod n ''redis-0'' ''default'' ''redis:7.4'' node 41])"

definition pod_meta :: "gobj \<Rightarrow> gobj" where
  "pod_meta p = objectMap (gget p ''metadata'')"

definition podExists :: "nodeView \<Rightarrow> string \<Rightarrow> string \<Rightarrow> bool" where
  "podExists n namespace name \<longleftrightarrow>
     list_ex (\<lambda>p. gget (pod_meta p) ''namespace'' = GStr namespace \<and> gget (pod_meta p) ''name'' = GStr name) (nodePods n)"

section \<open>Handlers\<close>

definition line :: "string \<Rightarrow> string" where
  "line s = s @ [CHR 0x0A]"

definition healthz :: "string \<Rightarrow> int \<times> body" where
  "healthz verbose =
     (200, TextBody (if verbose \<noteq> [] then line ''[+]ping ok'' @ line ''[+]log ok'' @ line ''[+]syncloop ok'' @ line ''healthz check passed'' else ''ok''))"

definition pods :: "nodeView \<Rightarrow> int \<times> body" where
  "pods n = (200, JsonBody (GMap [(''kind'', GStr ''PodList''), (''apiVersion'', GStr ''v1''), (''metadata'', GMap []),
     (''items'', GList (map GMap (nodePods n)))]))"

definition kubelet_metrics :: "(nat \<Rightarrow> bool) \<Rightarrow> nodeView \<Rightarrow> int \<times> body" where
  "kubelet_metrics uni n =
     (let count = show_nat (length (nodePods n))
      in (200, TextBody (
        line ''# HELP kubelet_running_pods Number of pods currently running'' @ line ''# TYPE kubelet_running_pods gauge'' @
        line (''kubelet_running_pods '' @ count) @
        line ''# HELP kubelet_running_containers Number of containers currently running'' @ line ''# TYPE kubelet_running_containers gauge'' @
        line (''kubelet_running_containers '' @ count) @
        line (''# HELP kubelet_node_name The node'' @ [CHR 0x27] @ ''s name'') @ line ''# TYPE kubelet_node_name gauge'' @
        line (''kubelet_node_name{node_name='' @ EventLogger.go_quote uni (nv_nodeName n) @ ''} 1''))))"

definition cadvisorMetrics :: "(nat \<Rightarrow> bool) \<Rightarrow> nodeView \<Rightarrow> int \<times> body" where
  "cadvisorMetrics uni n =
     (200, TextBody (
        line ''# HELP container_cpu_usage_seconds_total Cumulative cpu time consumed'' @ line ''# TYPE container_cpu_usage_seconds_total counter'' @
        concat (map (\<lambda>(i, p).
          line (''container_cpu_usage_seconds_total{namespace='' @ EventLogger.go_quote uni (stringField (pod_meta p) ''namespace'') @
            '',pod='' @ EventLogger.go_quote uni (stringField (pod_meta p) ''name'') @ '',container='' @ EventLogger.go_quote uni ''main'' @ ''} '' @
            show_nat (40 + i * 17) @ ''.37'')) (enumerate 0 (nodePods n)))))"

definition statsSummary :: "nodeView \<Rightarrow> int \<times> body" where
  "statsSummary n =
     (let node = [(''nodeName'', GStr (nv_nodeName n)), (''systemContainers'', GList []), (''startTime'', GStr (started n)),
            (''cpu'', GMap [(''usageNanoCores'', GInt 184000000), (''usageCoreNanoSeconds'', GInt 12840000000000)]),
            (''memory'', GMap [(''workingSetBytes'', GInt 1834000000), (''availableBytes'', GInt 14400000000)]),
            (''fs'', GMap [(''capacityBytes'', GInt 250000000000), (''usedBytes'', GInt 38400000000), (''availableBytes'', GInt 211600000000)]),
            (''runtime'', GMap [(''imageFs'', GMap [(''capacityBytes'', GInt 250000000000), (''usedBytes'', GInt 12300000000)])])];
          podStats = map (\<lambda>(i, p). GMap
            [(''podRef'', GMap [(''name'', gget (pod_meta p) ''name''), (''namespace'', gget (pod_meta p) ''namespace''), (''uid'', gget (pod_meta p) ''uid'')]),
             (''startTime'', GStr (started n)), (''cpu'', GMap [(''usageNanoCores'', GInt (12000000 + int i * 3700000))]),
             (''memory'', GMap [(''workingSetBytes'', GInt (84000000 + int i * 19000000))])]) (enumerate 0 (nodePods n))
      in (200, JsonBody (GMap [(''node'', GMap node), (''pods'', GList podStats)])))"

definition configz :: "int \<times> body" where
  "configz = (200, JsonBody (GMap [(''kubeletconfig'', GMap
     [(''kind'', GStr ''KubeletConfiguration''), (''apiVersion'', GStr ''kubelet.config.k8s.io/v1beta1''), (''address'', GStr ''0.0.0.0''), (''port'', GInt 10250),
      (''readOnlyPort'', GInt 0),
      (''authentication'', GMap [(''anonymous'', GMap [(''enabled'', GBool True)]), (''webhook'', GMap [(''enabled'', GBool False)])]),
      (''authorization'', GMap [(''mode'', GStr ''AlwaysAllow'')]), (''clusterDomain'', GStr ''cluster.local''), (''clusterDNS'', GStrs [''10.43.0.10'']),
      (''cgroupDriver'', GStr ''systemd''), (''containerRuntimeEndpoint'', GStr ''unix:///run/containerd/containerd.sock'')])]))"

definition logIndex :: "(nat \<Rightarrow> bool) \<Rightarrow> int \<times> body" where
  "logIndex uni = (200, HtmlBody (
     line ''<html>'' @ line ''<head><title>/var/log/</title></head>'' @ line ''<body>'' @ ''<h1>/var/log/</h1><pre>'' @
     concat (map (\<lambda>entry. line (''<a href='' @ EventLogger.go_quote uni entry @ ''>'' @ entry @ ''</a>''))
       [''containers/'', ''pods/'', ''kubelet.log'', ''syslog'', ''auth.log'', ''kern.log'']) @
     line ''</pre>'' @ line ''</body>'' @ line ''</html>''))"

definition containerLogs :: "(nat \<Rightarrow> bool) \<Rightarrow> nodeView \<Rightarrow> string \<Rightarrow> int \<times> body" where
  "containerLogs uni n wildcard =
     (let parts = go_split (CHR ''/'') (trim_prefix wildcard ''/'')
      in if length parts \<noteq> 3 then (404, NoBody)
         else if \<not> podExists n (parts ! 0) (parts ! 1) then
           (404, TextBody (line (''pod '' @ EventLogger.go_quote uni (parts ! 1) @ '' does not exist in namespace '' @ EventLogger.go_quote uni (parts ! 0))))
         else (200, TextBody (
           line (started n @ '' I0923 12:04:01.033102       1 main.go:42] service started'') @
           line (started n @ '' I0923 12:04:01.211588       1 server.go:119] listening on :8080'') @
           line (started n @ '' I0923 12:04:11.904211       1 server.go:201] handled request status=200''))))"

definition streamingRefused :: "int \<times> body" where
  "streamingRefused = (400, TextBody (line ''Bad Request'' @ line [] @ line ''unable to upgrade streaming request''))"

text \<open>The table of routes in the order of registration; \<open>None\<close> is any method. The last one is the fallback.\<close>

definition kubelet_routes :: "(nat \<Rightarrow> bool) \<Rightarrow> nodeView \<Rightarrow> (string option \<times> string \<times> (string \<Rightarrow> string \<Rightarrow> int \<times> body)) list" where
  "kubelet_routes uni n =
     [(Some ''GET'', ''/healthz'', \<lambda>verbose wildcard. healthz verbose), (Some ''GET'', ''/pods'', \<lambda>_ _. pods n), (Some ''GET'', ''/runningpods'', \<lambda>_ _. pods n),
      (Some ''GET'', ''/metrics'', \<lambda>_ _. kubelet_metrics uni n), (Some ''GET'', ''/metrics/cadvisor'', \<lambda>_ _. cadvisorMetrics uni n),
      (Some ''GET'', ''/stats/summary'', \<lambda>_ _. statsSummary n), (Some ''GET'', ''/configz'', \<lambda>_ _. configz), (Some ''GET'', ''/logs/'', \<lambda>_ _. logIndex uni),
      (Some ''GET'', ''/containerLogs/*'', \<lambda>verbose wildcard. containerLogs uni n wildcard)]
     @ map (\<lambda>path. (None, path, \<lambda>_ _. streamingRefused)) [''/exec/*'', ''/attach/*'', ''/portforward/*'', ''/run/*'', ''/cri/*'']
     @ [(None, ''/*'', \<lambda>_ _. (404, NoBody))]"

text \<open>The error handler of the router.\<close>

definition error_status :: "int \<Rightarrow> int" where
  "error_status code = (if code < 400 \<or> 599 < code then 500 else code)"

section \<open>Properties\<close>

lemma nodePods_meta:
  "map (\<lambda>p. (gget (pod_meta p) ''namespace'', gget (pod_meta p) ''name'')) (nodePods n) =
    [(GStr ''kube-system'', GStr ''kube-proxy-2k9jv''), (GStr ''kube-system'', GStr ''metrics-server-7db5f8d5b9-5c2tx''),
     (GStr ''default'', GStr ''web-7f5cb9d59c-hk6qn''), (GStr ''default'', GStr ''redis-0'')]"
  by (simp add: nodePods_def pod_def pod_meta_def gget_def Let_def)

text \<open>The last octet tells the addresses of the two views apart.\<close>

lemma podIP_last: "last (podIP n 30) \<in> {CHR ''0'', CHR ''9''}" "last (podIP n 31) \<in> {CHR ''1'', CHR ''9''}" "last (podIP n 40) \<in> {CHR ''0'', CHR ''9''}"
    "last (podIP n 41) \<in> {CHR ''1'', CHR ''9''}" "last (podIP n 10) \<in> {CHR ''0'', CHR ''9''}"
  by (simp_all add: podIP_def Let_def show_int_def)

lemma podAddress_last: "last (podAddress base s 31) = CHR ''1''" "last (podAddress base s 32) = CHR ''2''" "last (podAddress base s 41) = CHR ''1''"
    "last (podAddress base s 42) = CHR ''2''" "last (nodeAddress base 11) = CHR ''1''"
  by (simp_all add: podAddress_def nodeAddress_def dotted_def Let_def show_int_def)

definition pod_status :: "gobj \<Rightarrow> string \<Rightarrow> string" where
  "pod_status p key = stringField (objectMap (gget p ''status'')) key"

definition container_names :: "gobj \<Rightarrow> gval list" where
  "container_names p = map (\<lambda>c. gget (objectMap c) ''name'') (objectList (gget (objectMap (gget p ''spec'')) ''containers''))"

definition seeded_pod :: "string \<Rightarrow> string \<Rightarrow> string \<Rightarrow> string \<Rightarrow> gobj option" where
  "seeded_pod now base namespace name =
     map_option si_object (List.find (\<lambda>it. si_resource it = ''pods'' \<and> si_namespace it = namespace \<and> si_name it = name)
       (system_items now base @ sample_items now base))"

lemma system_pods:
  "seeded_pod now base ''kube-system'' ''kube-proxy-2k9jv'' =
     Some (podObject now ''kube-proxy-2k9jv'' ''kube-system'' ''registry.k8s.io/kube-proxy:v1.37.0'' (podAddress base 2 31) ''worker-01'' ''k8s-app'' ''system''
       (nodeAddress base 11))"
  "seeded_pod now base ''kube-system'' ''metrics-server-7db5f8d5b9-5c2tx'' =
     Some (podObject now ''metrics-server-7db5f8d5b9-5c2tx'' ''kube-system'' ''registry.k8s.io/metrics-server/metrics-server:v0.9.0'' (podAddress base 2 32)
       ''worker-01'' ''k8s-app'' ''system'' (nodeAddress base 11))"
  by (simp_all add: seeded_pod_def system_items_def item_def)

lemma sample_pods:
  "seeded_pod now base ''default'' ''web-7f5cb9d59c-hk6qn'' =
     Some (podObject now ''web-7f5cb9d59c-hk6qn'' ''default'' ''nginx:1.30.5'' (podAddress base 2 41) ''worker-01'' ''app'' ''web'' (nodeAddress base 11))"
  "seeded_pod now base ''default'' ''redis-0'' =
     Some (podObject now ''redis-0'' ''default'' ''redis:7.4'' (podAddress base 2 42) ''worker-01'' ''app'' ''redis'' (nodeAddress base 11))"
  by (simp_all add: seeded_pod_def system_items_def sample_items_def item_def)

lemma pod_fields:
  "stringField (pod_meta (pod n name namespace img node off)) ''namespace'' = namespace"
  "stringField (pod_meta (pod n name namespace img node off)) ''name'' = name"
  "pod_status (pod n name namespace img node off) ''podIP'' = podIP n off" "pod_status (pod n name namespace img node off) ''hostIP'' = podIP n 10"
  "container_names (pod n name namespace img node off) = [GStr name]"
  by (simp_all add: pod_def pod_meta_def pod_status_def container_names_def stringField_def gget_def as_string_def objectList_def Let_def)

lemma podObject_fields:
  "pod_status (podObject now name namespace img ip node lk lv host) ''podIP'' = ip"
  "pod_status (podObject now name namespace img ip node lk lv host) ''hostIP'' = host"
  "container_names (podObject now name namespace img ip node lk lv host) = [GStr ''main'']"
  by (simp_all add: podObject_def pod_status_def container_names_def stringField_def gget_def as_string_def objectList_def)

lemma addresses_differ:
  "podIP n 30 \<noteq> podAddress base s 31" "podIP n 31 \<noteq> podAddress base s 32" "podIP n 40 \<noteq> podAddress base s 41" "podIP n 41 \<noteq> podAddress base s 42"
  "podIP n 10 \<noteq> nodeAddress base 11"
  using podIP_last [of n] podAddress_last(1-4) [of base s] podAddress_last(5) [of base] by auto


text \<open>Log text is served for exactly the pods that the pod list names.\<close>

lemma containerLogs_listed:
  assumes "go_split (CHR ''/'') (trim_prefix wildcard ''/'') = [namespace, name, container]"
  shows "fst (containerLogs uni n wildcard) = (if podExists n namespace name then 200 else 404)"
    and "podExists n namespace name \<longleftrightarrow> (namespace, name) \<in> {(''kube-system'', ''kube-proxy-2k9jv''), (''kube-system'', ''metrics-server-7db5f8d5b9-5c2tx''),
      (''default'', ''web-7f5cb9d59c-hk6qn''), (''default'', ''redis-0'')}"
proof -
  show "fst (containerLogs uni n wildcard) = (if podExists n namespace name then 200 else 404)"
    using assms by (simp add: containerLogs_def Let_def)
  have "podExists n namespace name \<longleftrightarrow>
      (GStr namespace, GStr name) \<in> set (map (\<lambda>p. (gget (pod_meta p) ''namespace'', gget (pod_meta p) ''name'')) (nodePods n))"
    unfolding podExists_def list_ex_iff set_map image_iff by (metis prod.inject)
  then show "podExists n namespace name \<longleftrightarrow> (namespace, name) \<in> {(''kube-system'', ''kube-proxy-2k9jv''), (''kube-system'', ''metrics-server-7db5f8d5b9-5c2tx''),
      (''default'', ''web-7f5cb9d59c-hk6qn''), (''default'', ''redis-0'')}"
    unfolding nodePods_meta by simp
qed

end
