(* ===== verification/ProtoWire.thy ===== *)
theory ProtoWire
  imports Handlers Json
begin

text \<open>
  Reading Kubernetes objects in the protobuf encoding (\<^verbatim>\<open>decodeProtobufObject\<close> and the functions below it in
  \<^verbatim>\<open>handler/api.go\<close>). The primitive readers of the wire format belong to \<^verbatim>\<open>google.golang.org/protobuf\<close> and are the
  parameter \<open>lib\<close>: each returns a negative count for malformed input, otherwise the bytes it consumed.
\<close>

record wireLib =
  ConsumeTag :: "string \<Rightarrow> int \<times> int \<times> int"
  ConsumeBytes :: "string \<Rightarrow> string \<times> int"
  ConsumeVarint :: "string \<Rightarrow> int \<times> int"
  ConsumeFieldValue :: "int \<Rightarrow> int \<Rightarrow> string \<Rightarrow> int"

abbreviation VarintType :: int where "VarintType \<equiv> 0"
abbreviation BytesType :: int where "BytesType \<equiv> 2"

section \<open>Messages as fields\<close>

type_synonym bytes_fields = "(int \<times> string list) list"
type_synonym varint_fields = "(int \<times> int) list"

definition field_values :: "bytes_fields \<Rightarrow> int \<Rightarrow> string list" where
  "field_values fs number = (case map_of fs number of Some vs \<Rightarrow> vs | None \<Rightarrow> [])"

definition varint_value :: "varint_fields \<Rightarrow> int \<Rightarrow> int" where
  "varint_value fs number = (case map_of fs number of Some v \<Rightarrow> v | None \<Rightarrow> 0)"

text \<open>The loops over the bytes of a message. Every turn consumes at least the byte of a tag, so the length of the message
  bounds the number of turns.\<close>

fun bytes_loop :: "wireLib \<Rightarrow> nat \<Rightarrow> string \<Rightarrow> bytes_fields \<Rightarrow> bytes_fields option" where
  "bytes_loop lib n [] fs = Some fs"
| "bytes_loop lib 0 (c # cs) fs = None"
| "bytes_loop lib (Suc n) (c # cs) fs =
     (let (number, wireType, consumed) = ConsumeTag lib (c # cs); data1 = drop (nat consumed) (c # cs)
      in if consumed < 0 then None
         else if wireType = BytesType then
           (let (v, len) = ConsumeBytes lib data1
            in if len < 0 then None
               else bytes_loop lib n (drop (nat len) data1) (AList.update number (field_values fs number @ [v]) fs))
         else (let skip = ConsumeFieldValue lib number wireType data1
               in if skip < 0 then None else bytes_loop lib n (drop (nat skip) data1) fs))"

definition protoBytesFields :: "wireLib \<Rightarrow> string \<Rightarrow> bytes_fields option" where
  "protoBytesFields lib data = bytes_loop lib (length data) data []"

fun varint_loop :: "wireLib \<Rightarrow> nat \<Rightarrow> string \<Rightarrow> varint_fields \<Rightarrow> varint_fields option" where
  "varint_loop lib n [] fs = Some fs"
| "varint_loop lib 0 (c # cs) fs = None"
| "varint_loop lib (Suc n) (c # cs) fs =
     (let (number, wireType, consumed) = ConsumeTag lib (c # cs); data1 = drop (nat consumed) (c # cs)
      in if consumed < 0 then None
         else if wireType = VarintType then
           (let (v, len) = ConsumeVarint lib data1
            in if len < 0 then None else varint_loop lib n (drop (nat len) data1) (AList.update number v fs))
         else (let skip = ConsumeFieldValue lib number wireType data1
               in if skip < 0 then None else varint_loop lib n (drop (nat skip) data1) fs))"

definition protoVarintFields :: "wireLib \<Rightarrow> string \<Rightarrow> varint_fields option" where
  "protoVarintFields lib data = varint_loop lib (length data) data []"

text \<open>\<^verbatim>\<open>varints, _ := protoVarintFields(...)\<close>: a nil map on error.\<close>

definition varints_or_nil :: "wireLib \<Rightarrow> string \<Rightarrow> varint_fields" where
  "varints_or_nil lib data = (case protoVarintFields lib data of Some fs \<Rightarrow> fs | None \<Rightarrow> [])"

definition protoNested :: "wireLib \<Rightarrow> bytes_fields \<Rightarrow> int \<Rightarrow> bytes_fields option" where
  "protoNested lib fs number = (case field_values fs number of [] \<Rightarrow> None | v # _ \<Rightarrow> protoBytesFields lib v)"

definition protoString :: "bytes_fields \<Rightarrow> int \<Rightarrow> string" where
  "protoString fs number = (case field_values fs number of [] \<Rightarrow> [] | v # _ \<Rightarrow> v)"

definition stringMapValues :: "(string \<times> string) list \<Rightarrow> gval" where
  "stringMapValues m = GMap (map (\<lambda>(k, v). (k, GStr v)) m)"

definition protoStringMap :: "wireLib \<Rightarrow> bytes_fields \<Rightarrow> int \<Rightarrow> (string \<times> string) list" where
  "protoStringMap lib fs number =
     fold (\<lambda>entry out. case protoBytesFields lib entry of
         None \<Rightarrow> out
       | Some pair \<Rightarrow> AList.update (protoString pair 1) (protoString pair 2) out) (field_values fs number) []"

definition protoBytesMap :: "wireLib \<Rightarrow> bytes_fields \<Rightarrow> int \<Rightarrow> (string \<times> string) list" where
  "protoBytesMap lib fs number =
     fold (\<lambda>entry out. case protoBytesFields lib entry of
         None \<Rightarrow> out
       | Some pair \<Rightarrow> AList.update (protoString pair 1)
           (case field_values pair 2 of [] \<Rightarrow> [] | v # _ \<Rightarrow> base64_encode v) out) (field_values fs number) []"

definition protoStringList :: "string list \<Rightarrow> gval list" where
  "protoStringList vs = map GStr vs"

text \<open>\<^verbatim>\<open>if v := ...; v != "" { m[key] = v }\<close>, and the same for a list or map that is not empty.\<close>

definition set_string :: "string \<Rightarrow> string \<Rightarrow> gobj \<Rightarrow> gobj" where
  "set_string key v m = (if v = [] then m else gset key (GStr v) m)"

definition set_gvals :: "string \<Rightarrow> gval list \<Rightarrow> gobj \<Rightarrow> gobj" where
  "set_gvals key vs m = (if vs = [] then m else gset key (GList vs) m)"

definition set_map :: "string \<Rightarrow> gval \<Rightarrow> (string \<times> 'a) list \<Rightarrow> gobj \<Rightarrow> gobj" where
  "set_map key v entries m = (if entries = [] then m else gset key v m)"

text \<open>A loop that skips malformed entries.\<close>

definition each_entry :: "wireLib \<Rightarrow> (string \<Rightarrow> bytes_fields \<Rightarrow> gobj) \<Rightarrow> string list \<Rightarrow> gval list" where
  "each_entry lib f entries =
     concat (map (\<lambda>b. case protoBytesFields lib b of None \<Rightarrow> [] | Some entry \<Rightarrow> [GMap (f b entry)]) entries)"

section \<open>Typed messages\<close>

definition service_target :: "wireLib \<Rightarrow> string \<Rightarrow> gobj \<Rightarrow> gobj" where
  "service_target lib b port =
     (case protoBytesFields lib b of
        None \<Rightarrow> port
      | Some target \<Rightarrow>
          (let varints = varints_or_nil lib b
           in if varint_value varints 1 = 1 then set_string ''targetPort'' (protoString target 3) port
              else case map_of varints 2 of Some number \<Rightarrow> gset ''targetPort'' (GInt number) port | None \<Rightarrow> port))"

definition protoServicePorts :: "wireLib \<Rightarrow> string list \<Rightarrow> gval list" where
  "protoServicePorts lib entries =
     each_entry lib (\<lambda>b entry.
       (let port0 = set_string ''protocol'' (protoString entry 2) (set_string ''name'' (protoString entry 1) []);
            port1 = (case map_of (varints_or_nil lib b) 3 of Some number \<Rightarrow> gset ''port'' (GInt number) port0 | None \<Rightarrow> port0)
        in case field_values entry 4 of [] \<Rightarrow> port1 | t # _ \<Rightarrow> service_target lib t port1)) entries"

definition protoContainerPorts :: "wireLib \<Rightarrow> string list \<Rightarrow> gval list" where
  "protoContainerPorts lib entries =
     each_entry lib (\<lambda>b entry.
       (let varints = varints_or_nil lib b;
            port0 = set_string ''name'' (protoString entry 1) [(''containerPort'', GInt (varint_value varints 3))];
            port1 = gset ''protocol'' (GStr (if protoString entry 4 = [] then ''TCP'' else protoString entry 4)) port0;
            port2 = (if 0 < varint_value varints 2 then gset ''hostPort'' (GInt (varint_value varints 2)) port1 else port1)
        in set_string ''hostIP'' (protoString entry 5) port2)) entries"

definition protoEnvVars :: "wireLib \<Rightarrow> string list \<Rightarrow> gval list" where
  "protoEnvVars lib entries =
     each_entry lib (\<lambda>b entry. set_string ''value'' (protoString entry 2) [(''name'', GStr (protoString entry 1))]) entries"

definition protoVolumeMounts :: "wireLib \<Rightarrow> string list \<Rightarrow> gval list" where
  "protoVolumeMounts lib entries =
     each_entry lib (\<lambda>b entry.
       (let mount0 = [(''name'', GStr (protoString entry 1)), (''mountPath'', GStr (protoString entry 3))];
            mount1 = (if varint_value (varints_or_nil lib b) 2 = 1 then gset ''readOnly'' (GBool True) mount0 else mount0)
        in set_string ''subPath'' (protoString entry 4) mount1)) entries"

definition volume_source :: "wireLib \<Rightarrow> string \<Rightarrow> string \<Rightarrow> string \<Rightarrow> gobj \<Rightarrow> gobj" where
  "volume_source lib key inner b volume =
     (case protoBytesFields lib b of None \<Rightarrow> volume | Some src \<Rightarrow> gset key (GMap [(inner, GStr (protoString src 1))]) volume)"

definition protoVolumes :: "wireLib \<Rightarrow> string list \<Rightarrow> gval list" where
  "protoVolumes lib entries =
     each_entry lib (\<lambda>b entry.
       (let volume = [(''name'', GStr (protoString entry 1))]
        in case field_values entry 7 of v # _ \<Rightarrow> volume_source lib ''secret'' ''secretName'' v volume | [] \<Rightarrow>
           case field_values entry 20 of v # _ \<Rightarrow> volume_source lib ''configMap'' ''name'' v volume | [] \<Rightarrow>
           case field_values entry 11 of v # _ \<Rightarrow> volume_source lib ''persistentVolumeClaim'' ''claimName'' v volume | [] \<Rightarrow>
           case field_values entry 3 of v # _ \<Rightarrow> gset ''emptyDir'' (GMap []) volume | [] \<Rightarrow>
           case field_values entry 2 of v # _ \<Rightarrow> volume_source lib ''hostPath'' ''path'' v volume | [] \<Rightarrow>
           case field_values entry 27 of v # _ \<Rightarrow> gset ''projected'' (GMap [(''sources'', GList [])]) volume | [] \<Rightarrow> volume)) entries"

definition proto_container :: "wireLib \<Rightarrow> string \<Rightarrow> bytes_fields \<Rightarrow> gobj" where
  "proto_container lib b c =
     set_gvals ''volumeMounts'' (protoVolumeMounts lib (field_values c 9))
     (set_gvals ''env'' (protoEnvVars lib (field_values c 7))
     (set_gvals ''ports'' (protoContainerPorts lib (field_values c 6))
     (set_gvals ''args'' (protoStringList (field_values c 4))
     (set_gvals ''command'' (protoStringList (field_values c 3))
       [(''name'', GStr (protoString c 1)), (''image'', GStr (protoString c 2))]))))"

definition protoPodSpec :: "wireLib \<Rightarrow> string \<Rightarrow> gobj" where
  "protoPodSpec lib b =
     (case protoBytesFields lib b of
        None \<Rightarrow> []
      | Some spec \<Rightarrow>
          set_string ''serviceAccountName'' (protoString spec 8)
          (set_string ''restartPolicy'' (protoString spec 3)
          (set_string ''nodeName'' (protoString spec 10)
          (set_gvals ''volumes'' (protoVolumes lib (field_values spec 1))
          (set_gvals ''containers'' (each_entry lib (proto_container lib) (field_values spec 20 @ field_values spec 2)) [])))))"

section \<open>Objects\<close>

definition proto_metadata :: "wireLib \<Rightarrow> bytes_fields \<Rightarrow> gobj" where
  "proto_metadata lib raw =
     (case protoNested lib raw 1 of
        None \<Rightarrow> []
      | Some meta \<Rightarrow>
          (let labels = protoStringMap lib meta 11; annotations = protoStringMap lib meta 12
           in set_map ''annotations'' (stringMapValues annotations) annotations
              (set_map ''labels'' (stringMapValues labels) labels
              (set_string ''namespace'' (protoString meta 3)
              (set_string ''generateName'' (protoString meta 2)
              (set_string ''name'' (protoString meta 1) []))))))"

definition proto_secret :: "wireLib \<Rightarrow> bytes_fields \<Rightarrow> gobj \<Rightarrow> gobj" where
  "proto_secret lib raw object =
     (let data = protoBytesMap lib raw 2; stringData = protoStringMap lib raw 4
      in set_map ''stringData'' (GStrMap stringData) stringData
         (set_string ''type'' (protoString raw 3) (set_map ''data'' (GStrMap data) data object)))"

definition proto_configmap :: "wireLib \<Rightarrow> varint_fields \<Rightarrow> bytes_fields \<Rightarrow> gobj \<Rightarrow> gobj" where
  "proto_configmap lib rawVarints raw object =
     (let immutable = varint_value rawVarints 2; data = protoStringMap lib raw 3; binaryData = protoBytesMap lib raw 4;
          object1 = (if immutable \<noteq> 0 then gset ''immutable'' (GBool (immutable = 1)) object else object)
      in set_map ''binaryData'' (GStrMap binaryData) binaryData (set_map ''data'' (GStrMap data) data object1))"

definition proto_service :: "wireLib \<Rightarrow> string \<Rightarrow> gobj" where
  "proto_service lib b =
     (case protoBytesFields lib b of
        None \<Rightarrow> []
      | Some specFields \<Rightarrow>
          (let selector = protoStringMap lib specFields 2
           in set_string ''type'' (protoString specFields 4)
              (set_map ''selector'' (stringMapValues selector) selector
              (set_gvals ''ports'' (protoServicePorts lib (field_values specFields 1)) []))))"

definition proto_selector :: "wireLib \<Rightarrow> bytes_fields \<Rightarrow> gobj \<Rightarrow> gobj" where
  "proto_selector lib specFields spec =
     (case field_values specFields 2 of
        [] \<Rightarrow> spec
      | b # _ \<Rightarrow>
          (case protoBytesFields lib b of
             None \<Rightarrow> spec
           | Some selector \<Rightarrow>
               (let matchLabels = protoStringMap lib selector 1
                in set_map ''selector'' (GMap [(''matchLabels'', stringMapValues matchLabels)]) matchLabels spec)))"

definition proto_template :: "wireLib \<Rightarrow> bytes_fields \<Rightarrow> gobj \<Rightarrow> gobj" where
  "proto_template lib specFields spec =
     (case field_values specFields 3 of
        [] \<Rightarrow> spec
      | b # _ \<Rightarrow>
          (case protoBytesFields lib b of
             None \<Rightarrow> spec
           | Some template \<Rightarrow>
               (case field_values template 2 of
                  [] \<Rightarrow> spec
                | p # _ \<Rightarrow> (let podSpec = protoPodSpec lib p in set_map ''template'' (GMap [(''spec'', GMap podSpec)]) podSpec spec))))"

definition proto_workload :: "wireLib \<Rightarrow> string \<Rightarrow> gobj" where
  "proto_workload lib b =
     (let spec0 = (case map_of (varints_or_nil lib b) 1 of Some replicas \<Rightarrow> [(''replicas'', GInt replicas)] | None \<Rightarrow> [])
      in case protoBytesFields lib b of
           None \<Rightarrow> spec0
         | Some specFields \<Rightarrow> proto_template lib specFields (proto_selector lib specFields spec0))"

definition proto_spec :: "(string \<Rightarrow> gobj) \<Rightarrow> bytes_fields \<Rightarrow> gobj \<Rightarrow> gobj" where
  "proto_spec f raw object =
     (case field_values raw 2 of [] \<Rightarrow> object | b # _ \<Rightarrow> (let spec = f b in set_map ''spec'' (GMap spec) spec object))"

definition proto_scale :: "wireLib \<Rightarrow> string \<Rightarrow> gobj" where
  "proto_scale lib b = (case map_of (varints_or_nil lib b) 1 of Some replicas \<Rightarrow> [(''replicas'', GInt replicas)] | None \<Rightarrow> [])"

definition proto_payload :: "wireLib \<Rightarrow> string \<Rightarrow> bytes_fields \<Rightarrow> gobj \<Rightarrow> gobj" where
  "proto_payload lib b raw object =
     (let kind = gget object ''kind''
      in if kind = GStr ''Secret'' then proto_secret lib raw object
         else if kind = GStr ''ConfigMap'' then proto_configmap lib (varints_or_nil lib b) raw object
         else if kind = GStr ''Pod'' then proto_spec (protoPodSpec lib) raw object
         else if kind = GStr ''Scale'' then proto_spec (proto_scale lib) raw object
         else if kind = GStr ''Service'' then proto_spec (proto_service lib) raw object
         else if kind \<in> set (map GStr [''Deployment'', ''ReplicaSet'', ''StatefulSet'', ''ReplicationController'']) then proto_spec (proto_workload lib) raw object
         else object)"

abbreviation k8s_magic :: string where "k8s_magic \<equiv> ''k8s'' @ [CHR 0x00]"

definition decodeProtobufObject :: "wireLib \<Rightarrow> string \<Rightarrow> string + gobj" where
  "decodeProtobufObject lib data =
     (if \<not> has_prefix data k8s_magic then Inl ''request body is not a supported Kubernetes object encoding''
      else case protoBytesFields lib (drop 4 data) of
          None \<Rightarrow> Inl ''request body is not a valid protobuf object''
        | Some envelope \<Rightarrow>
            (let object = (case protoNested lib envelope 1 of
                    None \<Rightarrow> []
                  | Some typeMeta \<Rightarrow> [(''apiVersion'', GStr (protoString typeMeta 1)), (''kind'', GStr (protoString typeMeta 2))])
             in case field_values envelope 2 of
                  [] \<Rightarrow> Inr object
                | b # _ \<Rightarrow>
                    (case protoBytesFields lib b of
                       None \<Rightarrow> Inl ''request body is not a valid protobuf object''
                     | Some raw \<Rightarrow> Inr (proto_payload lib b raw (gset ''metadata'' (GMap (proto_metadata lib raw)) object)))))"

section \<open>Request bodies\<close>

datatype readOutcome = ReadOk | ReadTooLarge | ReadFailed

record requestBody =
  rb_nil :: bool
  rb_data :: string
  rb_outcome :: readOutcome
  rb_contentType :: string

abbreviation maxRequestBody :: nat where "maxRequestBody \<equiv> 65536"

text \<open>\<^verbatim>\<open>decodeBody\<close>: at most 64 KiB; the reader stops one byte beyond.\<close>

definition decodeBody :: "requestBody \<Rightarrow> bodyError + string" where
  "decodeBody b =
     (let data = take (maxRequestBody + 1) (rb_data b)
      in if rb_nil b then Inl (badBody ''request body is required'')
         else case rb_outcome b of
             ReadTooLarge \<Rightarrow> Inl errRequestTooLarge
           | ReadFailed \<Rightarrow> Inl (badBody ''unable to read request body'')
           | ReadOk \<Rightarrow>
               if data = [] then Inl (badBody ''request body is required'')
               else if maxRequestBody < length data then Inl errRequestTooLarge
               else Inr data)"

text \<open>\<open>uni\<close> is \<^verbatim>\<open>unicode.ToLower\<close> beyond ASCII.\<close>

definition requestMediaType :: "(nat \<Rightarrow> nat) \<Rightarrow> requestBody \<Rightarrow> string" where
  "requestMediaType uni b = toLower uni (trim_space (takeWhile (\<lambda>c. c \<noteq> CHR '';'') (rb_contentType b)))"

text \<open>\<^verbatim>\<open>yaml.Unmarshal\<close> into a map belongs to \<^verbatim>\<open>gopkg.in/yaml.v3\<close>: the parameter \<open>yaml\<close>, \<open>Some None\<close> for a document that leaves
  the map \<^verbatim>\<open>nil\<close>.\<close>

definition decodeObject :: "wireLib \<Rightarrow> (string \<Rightarrow> gobj option option) \<Rightarrow> (nat \<Rightarrow> nat) \<Rightarrow> requestBody \<Rightarrow> bodyError + gobj" where
  "decodeObject lib yaml uni b =
     (case decodeBody b of
        Inl err \<Rightarrow> Inl err
      | Inr data \<Rightarrow>
          (let media = requestMediaType uni b;
               checked = (\<lambda>decoded message. case decoded of
                   None \<Rightarrow> Inl (badBody message)
                 | Some None \<Rightarrow> Inl (badBody ''request body must be a JSON object'')
                 | Some (Some object) \<Rightarrow> Inr object)
           in if media = ''application/vnd.kubernetes.protobuf'' then
                (case decodeProtobufObject lib data of Inl message \<Rightarrow> Inl (badBody message) | Inr object \<Rightarrow> Inr object)
              else if media \<in> set [''application/yaml'', ''application/x-yaml'', ''application/apply-patch+yaml'', ''text/yaml'']
              then checked (yaml data) ''request body must be a YAML object''
              else checked (unmarshal_object data) ''request body must be a JSON object''))"

text \<open>A JSON array of objects; a \<^verbatim>\<open>null\<close> element is a \<^verbatim>\<open>nil\<close> map.\<close>

fun as_objects :: "gval list \<Rightarrow> gobj list option" where
  "as_objects [] = Some []"
| "as_objects (v # vs) =
     (case v of
        GMap m \<Rightarrow> map_option (Cons m) (as_objects vs)
      | GNil \<Rightarrow> map_option (Cons []) (as_objects vs)
      | _ \<Rightarrow> None)"

definition unmarshal_objects :: "string \<Rightarrow> gobj list option" where
  "unmarshal_objects data =
     (case unmarshal_any data of
        Some (GList vs) \<Rightarrow> as_objects vs
      | Some GNil \<Rightarrow> Some []
      | _ \<Rightarrow> None)"

definition decodeJSONPatch :: "requestBody \<Rightarrow> bodyError + gobj list" where
  "decodeJSONPatch b =
     (case decodeBody b of
        Inl err \<Rightarrow> Inl err
      | Inr data \<Rightarrow>
          (case unmarshal_objects data of
             None \<Rightarrow> Inl (badBody ''request body must be a JSON patch array'')
           | Some operations \<Rightarrow>
               (case checkJSONPatch operations of Inl message \<Rightarrow> Inl (badBody message) | Inr ops \<Rightarrow> Inr ops)))"

end
