(* ===== verification/ProtoSpec.thy ===== *)
theory ProtoSpec
  imports ProtoWire
begin

text \<open>
  The protobuf decoder against the wire format. The laws the code relies on are a locale: what the library's readers return on the
  text of a tag, of a length-delimited value and of a varint. From them, the fields of a message are read back, and a Secret that
  a client encodes arrives with its name, labels and data. The locale is interpreted by the documented encoding.
\<close>

section \<open>Messages\<close>

datatype wire_field = WBytes nat string | WVarint nat nat

locale wire_format =
  fixes lib :: wireLib
    and put_varint :: "nat \<Rightarrow> string"
  assumes put_nonempty: "put_varint n \<noteq> []"
    and consume_tag: "0 < number \<Longrightarrow> number < 2 ^ 29 \<Longrightarrow> wt = 0 \<or> wt = 2 \<Longrightarrow>
      ConsumeTag lib (put_varint (8 * number + wt) @ rest) = (int number, int wt, int (length (put_varint (8 * number + wt))))"
    and consume_bytes: "length v < 2 ^ 63 \<Longrightarrow>
      ConsumeBytes lib (put_varint (length v) @ v @ rest) = (v, int (length (put_varint (length v)) + length v))"
    and consume_varint: "n < 2 ^ 64 \<Longrightarrow> ConsumeVarint lib (put_varint n @ rest) = (int n, int (length (put_varint n)))"
    and skip_varint: "n < 2 ^ 64 \<Longrightarrow> ConsumeFieldValue lib fieldNumber 0 (put_varint n @ rest) = int (length (put_varint n))"
    and skip_bytes: "length v < 2 ^ 63 \<Longrightarrow>
      ConsumeFieldValue lib fieldNumber 2 (put_varint (length v) @ v @ rest) = int (length (put_varint (length v)) + length v)"

fun put_field :: "(nat \<Rightarrow> string) \<Rightarrow> wire_field \<Rightarrow> string" where
  "put_field pv (WBytes number v) = pv (8 * number + 2) @ pv (length v) @ v"
| "put_field pv (WVarint number n) = pv (8 * number + 0) @ pv n"

definition put_message :: "(nat \<Rightarrow> string) \<Rightarrow> wire_field list \<Rightarrow> string" where
  "put_message pv fs = concat (map (put_field pv) fs)"

fun field_ok :: "wire_field \<Rightarrow> bool" where
  "field_ok (WBytes number v) = (0 < number \<and> number < 2 ^ 29 \<and> length v < 2 ^ 63)"
| "field_ok (WVarint number n) = (0 < number \<and> number < 2 ^ 29 \<and> n < 2 ^ 64)"

fun add_bytes :: "wire_field \<Rightarrow> bytes_fields \<Rightarrow> bytes_fields" where
  "add_bytes (WBytes number v) fs = AList.update (int number) (field_values fs (int number) @ [v]) fs"
| "add_bytes (WVarint number n) fs = fs"

fun add_varint :: "wire_field \<Rightarrow> varint_fields \<Rightarrow> varint_fields" where
  "add_varint (WBytes number v) fs = fs"
| "add_varint (WVarint number n) fs = AList.update (int number) (int n) fs"

definition bytes_of :: "wire_field list \<Rightarrow> int \<Rightarrow> string list" where
  "bytes_of fs k = concat (map (\<lambda>f. case f of WBytes number v \<Rightarrow> if int number = k then [v] else [] | WVarint number n \<Rightarrow> []) fs)"

lemma field_values_fold: "field_values (fold add_bytes fs acc) k = field_values acc k @ bytes_of fs k"
proof (induction fs arbitrary: acc)
  case (Cons f fs)
  then show ?case by (cases f) (auto simp: bytes_of_def field_values_def)
qed (simp add: bytes_of_def)

lemma field_values_message [simp]: "field_values (fold add_bytes fs []) k = bytes_of fs k"
  using field_values_fold [of fs "[]" k] by (simp add: field_values_def [of "[]"])

lemma bytes_of_simps [simp]:
  "bytes_of [] k = []" "bytes_of (WBytes number v # fs) k = (if int number = k then [v] else []) @ bytes_of fs k"
  "bytes_of (WVarint number n # fs) k = bytes_of fs k" "bytes_of (fs @ gs) k = bytes_of fs k @ bytes_of gs k"
  by (simp_all add: bytes_of_def)

lemma bytes_of_map [simp]: "bytes_of (map (\<lambda>x. WBytes number (f x)) xs) k = (if int number = k then map f xs else [])"
  by (induction xs) (auto simp: bytes_of_def)

text \<open>The encoding of a map entry, of an object's metadata and of the envelope around an object.\<close>

definition put_entry :: "(nat \<Rightarrow> string) \<Rightarrow> string \<times> string \<Rightarrow> string" where
  "put_entry pv kv = put_message pv [WBytes 1 (fst kv), WBytes 2 (snd kv)]"

definition metadata_fields :: "(nat \<Rightarrow> string) \<Rightarrow> string \<Rightarrow> string \<Rightarrow> (string \<times> string) list \<Rightarrow> wire_field list" where
  "metadata_fields pv name namespace labels =
     [WBytes 1 name, WBytes 3 namespace] @ map (\<lambda>kv. WBytes 11 (put_entry pv kv)) labels"

definition encode_object :: "(nat \<Rightarrow> string) \<Rightarrow> string \<Rightarrow> string \<Rightarrow> wire_field list \<Rightarrow> string" where
  "encode_object pv apiVersion kind fs =
     k8s_magic @ put_message pv [WBytes 1 (put_message pv [WBytes 1 apiVersion, WBytes 2 kind]), WBytes 2 (put_message pv fs)]"

definition secret_fields :: "(nat \<Rightarrow> string) \<Rightarrow> string \<Rightarrow> string \<Rightarrow> (string \<times> string) list \<Rightarrow> (string \<times> string) list \<Rightarrow> string \<Rightarrow> wire_field list" where
  "secret_fields pv name namespace labels data secretType =
     [WBytes 1 (put_message pv (metadata_fields pv name namespace labels))]
     @ map (\<lambda>kv. WBytes 2 (put_entry pv kv)) data @ [WBytes 3 secretType]"

lemma field_within: "WBytes number v \<in> set fs \<Longrightarrow> length v \<le> length (put_message pv fs)"
  by (induction fs) (auto simp: put_message_def)

lemma fields_ok:
  assumes "length (put_message pv fs) \<le> 65536" "list_all (\<lambda>f. case f of WBytes number v \<Rightarrow> 0 < number \<and> number < 2 ^ 29 | WVarint number n \<Rightarrow> False) fs"
  shows "list_all field_ok fs"
  unfolding list_all_iff
proof
  fix f assume f: "f \<in> set fs"
  have shape: "case f of WBytes number v \<Rightarrow> 0 < number \<and> number < 2 ^ 29 | WVarint number n \<Rightarrow> False"
    using assms(2) f by (simp add: list_all_iff)
  show "field_ok f"
  proof (cases f)
    case (WBytes number v)
    then show ?thesis using shape assms(1) field_within [of number v fs pv] f by simp
  qed (use shape in simp)
qed

named_theorems proto_fields \<open>the fields of an object built key by key\<close>

lemma set_fields [proto_fields]:
  "gget (set_string key v m) k = (if k = key \<and> v \<noteq> [] then GStr v else gget m k)"
  "gget (set_map key x es m) k = (if k = key \<and> es \<noteq> [] then x else gget m k)"
  "stringField (set_string key v m) k = (if k = key \<and> v \<noteq> [] then v else stringField m k)"
  "stringField (set_map key x es m) k = (if k = key \<and> es \<noteq> [] then (case as_string x of Some s \<Rightarrow> s | None \<Rightarrow> []) else stringField m k)"
  "stringField (gset key x m) k = (if k = key then (case as_string x of Some s \<Rightarrow> s | None \<Rightarrow> []) else stringField m k)"
  "stringField [] k = []"
  by (auto simp: set_string_def set_map_def stringField_def as_string_def)

text \<open>A ConfigMap as Kubernetes numbers its fields: metadata 1, data 2, binaryData 3, immutable 4.\<close>

definition configmap_fields :: "(nat \<Rightarrow> string) \<Rightarrow> string \<Rightarrow> string \<Rightarrow> (string \<times> string) list \<Rightarrow> wire_field list" where
  "configmap_fields pv name namespace data =
     [WBytes 1 (put_message pv (metadata_fields pv name namespace []))] @ map (\<lambda>kv. WBytes 2 (put_entry pv kv)) data"

lemma update_fold_distinct:
  "distinct (map fst (acc @ kvs)) \<Longrightarrow> fold (\<lambda>kv out. AList.update (fst kv) (g (snd kv)) out) kvs acc = acc @ map (\<lambda>kv. (fst kv, g (snd kv))) kvs"
proof (induction kvs arbitrary: acc)
  case (Cons kv kvs)
  have "AList.update (fst kv) (g (snd kv)) acc = acc @ [(fst kv, g (snd kv))]" using Cons.prems by (intro update_new) auto
  then show ?case using Cons.IH [of "acc @ [(fst kv, g (snd kv))]"] Cons.prems by simp
qed simp

context wire_format
begin

lemma put_field_nonempty: "put_field put_varint f \<noteq> []"
  by (cases f) (simp_all add: put_nonempty)

lemma bytes_step:
  assumes "field_ok f"
  shows "bytes_loop lib (Suc n) (put_field put_varint f @ rest) acc = bytes_loop lib n rest (add_bytes f acc)"
proof -
  obtain c cs where c: "put_field put_varint f @ rest = c # cs" using put_field_nonempty by (cases "put_field put_varint f") auto
  show ?thesis
  proof (cases f)
    case (WBytes number v)
    let ?t = "put_varint (8 * number + 2)" and ?l = "put_varint (length v)"
    have "ConsumeTag lib (c # cs) = (int number, 2, int (length ?t))"
      using consume_tag [of number 2 "?l @ v @ rest"] assms WBytes c by simp
    moreover have "drop (length ?t) (c # cs) = ?l @ v @ rest" using WBytes c [symmetric] by simp
    ultimately show ?thesis unfolding c using consume_bytes [of v rest] assms WBytes by (simp add: Let_def)
  next
    case (WVarint number m)
    let ?t = "put_varint (8 * number + 0)"
    have "ConsumeTag lib (c # cs) = (int number, 0, int (length ?t))"
      using consume_tag [of number 0 "put_varint m @ rest"] assms WVarint c by simp
    moreover have "drop (length ?t) (c # cs) = put_varint m @ rest" using WVarint c [symmetric] by simp
    ultimately show ?thesis unfolding c using skip_varint [of m "int number" rest] assms WVarint by (simp add: Let_def)
  qed
qed

lemma varint_step:
  assumes "field_ok f"
  shows "varint_loop lib (Suc n) (put_field put_varint f @ rest) acc = varint_loop lib n rest (add_varint f acc)"
proof -
  obtain c cs where c: "put_field put_varint f @ rest = c # cs" using put_field_nonempty by (cases "put_field put_varint f") auto
  show ?thesis
  proof (cases f)
    case (WBytes number v)
    let ?t = "put_varint (8 * number + 2)" and ?l = "put_varint (length v)"
    have "ConsumeTag lib (c # cs) = (int number, 2, int (length ?t))"
      using consume_tag [of number 2 "?l @ v @ rest"] assms WBytes c by simp
    moreover have "drop (length ?t) (c # cs) = ?l @ v @ rest" using WBytes c [symmetric] by simp
    ultimately show ?thesis unfolding c using skip_bytes [of v "int number" rest] assms WBytes by (simp add: Let_def)
  next
    case (WVarint number m)
    let ?t = "put_varint (8 * number + 0)"
    have "ConsumeTag lib (c # cs) = (int number, 0, int (length ?t))"
      using consume_tag [of number 0 "put_varint m @ rest"] assms WVarint c by simp
    moreover have "drop (length ?t) (c # cs) = put_varint m @ rest" using WVarint c [symmetric] by simp
    ultimately show ?thesis unfolding c using consume_varint [of m rest] assms WVarint by (simp add: Let_def)
  qed
qed

lemma message_length: "length fs \<le> length (put_message put_varint fs)"
proof (induction fs)
  case (Cons f fs)
  have "Suc 0 \<le> length (put_field put_varint f)" using put_field_nonempty [of f] by (cases "put_field put_varint f") simp_all
  with Cons show ?case unfolding put_message_def by simp
qed simp

lemma bytes_loop_message: "list_all field_ok fs \<Longrightarrow> length fs \<le> n \<Longrightarrow> bytes_loop lib n (put_message put_varint fs) acc = Some (fold add_bytes fs acc)"
proof (induction fs arbitrary: n acc)
  case (Cons f fs)
  then obtain k where n: "n = Suc k" by (cases n) auto
  have "bytes_loop lib (Suc k) (put_field put_varint f @ put_message put_varint fs) acc = bytes_loop lib k (put_message put_varint fs) (add_bytes f acc)"
    using Cons.prems by (intro bytes_step) simp
  then show ?case using Cons n by (simp add: put_message_def)
qed (simp add: put_message_def)

lemma varint_loop_message: "list_all field_ok fs \<Longrightarrow> length fs \<le> n \<Longrightarrow> varint_loop lib n (put_message put_varint fs) acc = Some (fold add_varint fs acc)"
proof (induction fs arbitrary: n acc)
  case (Cons f fs)
  then obtain k where n: "n = Suc k" by (cases n) auto
  have "varint_loop lib (Suc k) (put_field put_varint f @ put_message put_varint fs) acc = varint_loop lib k (put_message put_varint fs) (add_varint f acc)"
    using Cons.prems by (intro varint_step) simp
  then show ?case using Cons n by (simp add: put_message_def)
qed (simp add: put_message_def)

text \<open>A well-formed message is read completely, never cut short by the bound on the loops.\<close>

lemma protoBytesFields_message: "list_all field_ok fs \<Longrightarrow> protoBytesFields lib (put_message put_varint fs) = Some (fold add_bytes fs [])"
  using message_length by (simp add: protoBytesFields_def bytes_loop_message)

lemma protoVarintFields_message: "list_all field_ok fs \<Longrightarrow> protoVarintFields lib (put_message put_varint fs) = Some (fold add_varint fs [])"
  using message_length by (simp add: protoVarintFields_def varint_loop_message)

lemma entry_read:
  assumes "length (fst kv) < 2 ^ 63" "length (snd kv) < 2 ^ 63"
  shows "protoBytesFields lib (put_entry put_varint kv) = Some (fold add_bytes [WBytes 1 (fst kv), WBytes 2 (snd kv)] [])"
  unfolding put_entry_def using assms by (intro protoBytesFields_message) simp

lemma string_map_read:
  assumes "field_values fs k = map (put_entry put_varint) kvs" "distinct (map fst kvs)"
    and "\<And>kv. kv \<in> set kvs \<Longrightarrow> length (fst kv) < 2 ^ 63 \<and> length (snd kv) < 2 ^ 63"
  shows "protoStringMap lib fs k = kvs" and "protoBytesMap lib fs k = map (\<lambda>kv. (fst kv, base64_encode (snd kv))) kvs"
proof -
  have "fold (\<lambda>entry out. case protoBytesFields lib entry of None \<Rightarrow> out
       | Some pair \<Rightarrow> AList.update (protoString pair 1) (protoString pair 2) out) (map (put_entry put_varint) kvs) [] =
     fold (\<lambda>kv out. AList.update (fst kv) (snd kv) out) kvs []"
    unfolding fold_map by (intro fold_cong refl) (use assms(3) in \<open>simp add: entry_read protoString_def field_values_def\<close>)
  then show "protoStringMap lib fs k = kvs"
    using assms(1,2) update_fold_distinct [of "[]" kvs "\<lambda>v. v"] by (simp add: protoStringMap_def)
  have "fold (\<lambda>entry out. case protoBytesFields lib entry of None \<Rightarrow> out
       | Some pair \<Rightarrow> AList.update (protoString pair 1) (case field_values pair 2 of [] \<Rightarrow> [] | v # _ \<Rightarrow> base64_encode v) out)
       (map (put_entry put_varint) kvs) [] =
     fold (\<lambda>kv out. AList.update (fst kv) (base64_encode (snd kv)) out) kvs []"
    unfolding fold_map by (intro fold_cong refl) (use assms(3) in \<open>simp add: entry_read protoString_def field_values_def\<close>)
  then show "protoBytesMap lib fs k = map (\<lambda>kv. (fst kv, base64_encode (snd kv))) kvs"
    using assms(1,2) update_fold_distinct [of "[]" kvs base64_encode] by (simp add: protoBytesMap_def)
qed

lemma metadata_read:
  assumes "length (put_message put_varint (metadata_fields put_varint name namespace labels)) \<le> 65536" "distinct (map fst labels)"
  shows "protoBytesFields lib (put_message put_varint (metadata_fields put_varint name namespace labels)) =
      Some (fold add_bytes (metadata_fields put_varint name namespace labels) [])"
    and "protoStringMap lib (fold add_bytes (metadata_fields put_varint name namespace labels) []) 11 = labels"
proof -
  show "protoBytesFields lib (put_message put_varint (metadata_fields put_varint name namespace labels)) =
      Some (fold add_bytes (metadata_fields put_varint name namespace labels) [])"
    using fields_ok [OF assms(1)] by (intro protoBytesFields_message) (simp add: metadata_fields_def list_all_iff)
  have "length (fst kv) < 2 ^ 63 \<and> length (snd kv) < 2 ^ 63" if "kv \<in> set labels" for kv
  proof -
    have "length (put_entry put_varint kv) \<le> 65536"
      using field_within [of 11 "put_entry put_varint kv" "metadata_fields put_varint name namespace labels" put_varint] that assms(1)
      by (simp add: metadata_fields_def)
    then show ?thesis
      using field_within [of 1 "fst kv" "[WBytes 1 (fst kv), WBytes 2 (snd kv)]" put_varint]
        field_within [of 2 "snd kv" "[WBytes 1 (fst kv), WBytes 2 (snd kv)]" put_varint]
      by (simp add: put_entry_def)
  qed
  moreover have "field_values (fold add_bytes (metadata_fields put_varint name namespace labels) []) 11 = map (put_entry put_varint) labels"
    unfolding field_values_message by (simp add: metadata_fields_def)
  ultimately show "protoStringMap lib (fold add_bytes (metadata_fields put_varint name namespace labels) []) 11 = labels"
    using assms(2) by (intro string_map_read)
qed

lemma envelope_read:
  assumes "length (encode_object put_varint apiVersion kind fs) \<le> 65536" "list_all field_ok fs"
  shows "decodeProtobufObject lib (encode_object put_varint apiVersion kind fs) =
    Inr (proto_payload lib (put_message put_varint fs) (fold add_bytes fs [])
      (gset ''metadata'' (GMap (proto_metadata lib (fold add_bytes fs []))) [(''apiVersion'', GStr apiVersion), (''kind'', GStr kind)]))"
proof -
  let ?t = "[WBytes 1 apiVersion, WBytes 2 kind]" and ?m = "put_message put_varint fs"
  let ?e = "[WBytes 1 (put_message put_varint ?t), WBytes 2 ?m]"
  have len: "length (put_message put_varint ?e) \<le> 65536" using assms(1) by (simp add: encode_object_def)
  have e: "list_all field_ok ?e" by (rule fields_ok [OF len]) simp
  have "length (put_message put_varint ?t) \<le> 65536"
    using len field_within [of 1 "put_message put_varint ?t" ?e put_varint] by simp
  then have t: "list_all field_ok ?t" by (intro fields_ok) simp_all
  have magic: "has_prefix (encode_object put_varint apiVersion kind fs) k8s_magic" "drop 4 (encode_object put_varint apiVersion kind fs) = put_message put_varint ?e"
    by (simp_all add: encode_object_def has_prefix_def)
  note read = protoBytesFields_message [OF e] protoBytesFields_message [OF t] protoBytesFields_message [OF assms(2)]
  have "protoNested lib (fold add_bytes ?e []) 1 = Some (fold add_bytes ?t [])"
    unfolding protoNested_def field_values_message using read(2) by simp
  moreover have "field_values (fold add_bytes ?e []) 2 = [?m]" unfolding field_values_message by simp
  moreover have "protoString (fold add_bytes ?t []) 1 = apiVersion" "protoString (fold add_bytes ?t []) 2 = kind"
    unfolding protoString_def field_values_message by simp_all
  ultimately show ?thesis
    unfolding decodeProtobufObject_def magic read(1) using magic(1) read(3) by (simp add: Let_def)
qed

lemma proto_metadata_read:
  assumes "field_values raw 1 = [put_message put_varint (metadata_fields put_varint name namespace labels)]"
    "length (put_message put_varint (metadata_fields put_varint name namespace labels)) \<le> 65536" "distinct (map fst labels)"
  shows "stringField (proto_metadata lib raw) ''name'' = name" "stringField (proto_metadata lib raw) ''namespace'' = namespace"
    "labels \<noteq> [] \<Longrightarrow> gget (proto_metadata lib raw) ''labels'' = stringMapValues labels"
proof -
  let ?f = "fold add_bytes (metadata_fields put_varint name namespace labels) []"
  have "protoNested lib raw 1 = Some ?f"
    unfolding protoNested_def assms(1) by (simp add: metadata_read(1) [OF assms(2,3)])
  moreover have "protoString ?f 1 = name" "protoString ?f 3 = namespace" "protoString ?f 2 = []"
    unfolding protoString_def field_values_message by (simp_all add: metadata_fields_def)
  ultimately have "proto_metadata lib raw =
      (let annotations = protoStringMap lib ?f 12
       in set_map ''annotations'' (stringMapValues annotations) annotations
          (set_map ''labels'' (stringMapValues labels) labels (set_string ''namespace'' namespace (set_string ''name'' name []))))"
    by (simp add: proto_metadata_def metadata_read(2) [OF assms(2,3)] Let_def) (simp add: set_string_def)
  then show "stringField (proto_metadata lib raw) ''name'' = name" "stringField (proto_metadata lib raw) ''namespace'' = namespace"
    "labels \<noteq> [] \<Longrightarrow> gget (proto_metadata lib raw) ''labels'' = stringMapValues labels"
    by (simp_all add: Let_def proto_fields)
qed

lemma secret_read:
  assumes len: "length (encode_object put_varint ''v1'' ''Secret'' (secret_fields put_varint name namespace labels data secretType)) \<le> 65536"
    and keys: "distinct (map fst labels)" "distinct (map fst data)" "data \<noteq> []"
  shows "\<exists>object. decodeProtobufObject lib (encode_object put_varint ''v1'' ''Secret'' (secret_fields put_varint name namespace labels data secretType)) = Inr object
    \<and> stringField object ''kind'' = ''Secret'' \<and> stringField object ''apiVersion'' = ''v1'' \<and> stringField object ''type'' = secretType
    \<and> gget object ''data'' = GStrMap (map (\<lambda>kv. (fst kv, base64_encode (snd kv))) data)
    \<and> stringField (objectMap (gget object ''metadata'')) ''name'' = name \<and> stringField (objectMap (gget object ''metadata'')) ''namespace'' = namespace
    \<and> (labels \<noteq> [] \<longrightarrow> gget (objectMap (gget object ''metadata'')) ''labels'' = stringMapValues labels)"
proof -
  let ?fs = "secret_fields put_varint name namespace labels data secretType"
  let ?raw = "fold add_bytes ?fs []" and ?meta = "put_message put_varint (metadata_fields put_varint name namespace labels)"
  have flen: "length (put_message put_varint ?fs) \<le> 65536"
    using len field_within [of 2 "put_message put_varint ?fs"
        "[WBytes 1 (put_message put_varint [WBytes 1 ''v1'', WBytes 2 ''Secret'']), WBytes 2 (put_message put_varint ?fs)]" put_varint]
    by (simp add: encode_object_def)
  have ok: "list_all field_ok ?fs" by (rule fields_ok [OF flen]) (simp add: secret_fields_def list_all_iff)
  have raw: "field_values ?raw 1 = [?meta]" "field_values ?raw 2 = map (put_entry put_varint) data" "field_values ?raw 3 = [secretType]" "field_values ?raw 4 = []"
    unfolding field_values_message by (simp_all add: secret_fields_def)
  have mlen: "length ?meta \<le> 65536" using field_within [of 1 ?meta ?fs put_varint] flen by (simp add: secret_fields_def)
  have small: "length (fst kv) < 2 ^ 63 \<and> length (snd kv) < 2 ^ 63" if "kv \<in> set data" for kv
  proof -
    have "length (put_entry put_varint kv) \<le> 65536"
      using field_within [of 2 "put_entry put_varint kv" ?fs put_varint] that flen by (simp add: secret_fields_def)
    then show ?thesis
      using field_within [of 1 "fst kv" "[WBytes 1 (fst kv), WBytes 2 (snd kv)]" put_varint]
        field_within [of 2 "snd kv" "[WBytes 1 (fst kv), WBytes 2 (snd kv)]" put_varint]
      by (simp add: put_entry_def)
  qed
  have data: "protoBytesMap lib ?raw 2 = map (\<lambda>kv. (fst kv, base64_encode (snd kv))) data"
    using raw(2) keys(2) small by (rule string_map_read(2))
  have rest: "protoStringMap lib ?raw 4 = []" "protoString ?raw 3 = secretType" using raw by (simp_all add: protoStringMap_def protoString_def)
  note meta = proto_metadata_read [OF raw(1) mlen keys(1)]
  define object0 where "object0 = gset ''metadata'' (GMap (proto_metadata lib ?raw)) [(''apiVersion'', GStr ''v1''), (''kind'', GStr ''Secret'')]"
  have object0: "gget object0 ''kind'' = GStr ''Secret''" "stringField object0 ''kind'' = ''Secret''" "stringField object0 ''apiVersion'' = ''v1''"
    "stringField object0 ''type'' = []" "gget object0 ''metadata'' = GMap (proto_metadata lib ?raw)"
    unfolding object0_def by (simp_all add: stringField_def gget_def as_string_def)
  define object where "object = set_map ''stringData'' (GStrMap []) ([] :: (string \<times> string) list) (set_string ''type'' secretType
    (set_map ''data'' (GStrMap (map (\<lambda>kv. (fst kv, base64_encode (snd kv))) data)) data object0))"
  have "proto_payload lib (put_message put_varint ?fs) ?raw object0 = object"
    unfolding proto_payload_def object0(1) object_def by (simp add: proto_secret_def data rest Let_def) (simp add: set_map_def)
  then have "decodeProtobufObject lib (encode_object put_varint ''v1'' ''Secret'' ?fs) = Inr object"
    using envelope_read [OF len ok] unfolding object0_def by simp
  moreover have "stringField object ''kind'' = ''Secret''" "stringField object ''apiVersion'' = ''v1''" "stringField object ''type'' = secretType"
    "gget object ''data'' = GStrMap (map (\<lambda>kv. (fst kv, base64_encode (snd kv))) data)" "objectMap (gget object ''metadata'') = proto_metadata lib ?raw"
    unfolding object_def using object0 keys(3) by (simp_all add: proto_fields)
  ultimately show ?thesis using meta by (intro exI [of _ object]) simp
qed

lemma configmap_read:
  assumes len: "length (encode_object put_varint ''v1'' ''ConfigMap'' (configmap_fields put_varint name namespace data)) \<le> 65536"
  shows "\<exists>object. decodeProtobufObject lib (encode_object put_varint ''v1'' ''ConfigMap'' (configmap_fields put_varint name namespace data)) = Inr object
    \<and> stringField object ''kind'' = ''ConfigMap'' \<and> stringField (objectMap (gget object ''metadata'')) ''name'' = name
    \<and> gget object ''data'' = GNil \<and> gget object ''binaryData'' = GNil"
proof -
  let ?fs = "configmap_fields put_varint name namespace data"
  let ?raw = "fold add_bytes ?fs []" and ?meta = "put_message put_varint (metadata_fields put_varint name namespace [])"
  have flen: "length (put_message put_varint ?fs) \<le> 65536"
    using len field_within [of 2 "put_message put_varint ?fs"
        "[WBytes 1 (put_message put_varint [WBytes 1 ''v1'', WBytes 2 ''ConfigMap'']), WBytes 2 (put_message put_varint ?fs)]" put_varint]
    by (simp add: encode_object_def)
  have ok: "list_all field_ok ?fs" by (rule fields_ok [OF flen]) (simp add: configmap_fields_def list_all_iff)
  have raw: "field_values ?raw 1 = [?meta]" "field_values ?raw 3 = []" "field_values ?raw 4 = []"
    unfolding field_values_message by (simp_all add: configmap_fields_def)
  have mlen: "length ?meta \<le> 65536" using field_within [of 1 ?meta ?fs put_varint] flen by (simp add: configmap_fields_def)
  have none: "protoStringMap lib ?raw 3 = []" "protoBytesMap lib ?raw 4 = []" using raw by (simp_all add: protoStringMap_def protoBytesMap_def)
  define object0 where "object0 = gset ''metadata'' (GMap (proto_metadata lib ?raw)) [(''apiVersion'', GStr ''v1''), (''kind'', GStr ''ConfigMap'')]"
  have object0: "gget object0 ''kind'' = GStr ''ConfigMap''" "stringField object0 ''kind'' = ''ConfigMap''" "gget object0 ''data'' = GNil"
    "gget object0 ''binaryData'' = GNil" "gget object0 ''metadata'' = GMap (proto_metadata lib ?raw)"
    unfolding object0_def by (simp_all add: stringField_def gget_def as_string_def)
  define object where "object = proto_payload lib (put_message put_varint ?fs) ?raw object0"
  have "decodeProtobufObject lib (encode_object put_varint ''v1'' ''ConfigMap'' ?fs) = Inr object"
    using envelope_read [OF len ok] unfolding object_def object0_def .
  moreover have "stringField object ''kind'' = ''ConfigMap''" "gget object ''data'' = GNil" "gget object ''binaryData'' = GNil"
    "gget object ''metadata'' = GMap (proto_metadata lib ?raw)"
    unfolding object_def proto_payload_def object0(1) using object0
    by (simp_all add: proto_configmap_def none Let_def proto_fields)
  ultimately show ?thesis using proto_metadata_read(1) [OF raw(1) mlen] by (intro exI [of _ object]) simp
qed

end

section \<open>The documented encoding\<close>

text \<open>
  Base-128 varints with the least significant group first, a tag that is a field number and a type, a length before its bytes. Groups,
  which Kubernetes does not use, count as malformed.
\<close>

fun put_varint :: "nat \<Rightarrow> string" where
  "put_varint n = (if n < 128 then [char_of n] else char_of (128 + n mod 128) # put_varint (n div 128))"

declare put_varint.simps [simp del]

fun get_varint :: "nat \<Rightarrow> string \<Rightarrow> (nat \<times> nat) option" where
  "get_varint (Suc k) (c # cs) =
     (if byte c < 128 then Some (byte c, 1) else map_option (\<lambda>(v, n). (byte c - 128 + 128 * v, n + 1)) (get_varint k cs))"
| "get_varint k s = None"

definition wire_varint :: "string \<Rightarrow> int \<times> int" where
  "wire_varint s = (case get_varint 10 s of Some (v, n) \<Rightarrow> if v < 2 ^ 64 then (int v, int n) else (0, - 1) | None \<Rightarrow> (0, - 1))"

definition wire_bytes :: "string \<Rightarrow> string \<times> int" where
  "wire_bytes s =
     (let (v, n) = wire_varint s; rest = drop (nat n) s
      in if n < 0 \<or> int (length rest) < v then ([], - 1) else (take (nat v) rest, n + v))"

definition wire_lib :: wireLib where
  "wire_lib = \<lparr>
     ConsumeTag = (\<lambda>s. let (v, n) = wire_varint s
       in if n < 0 \<or> v div 8 < 1 \<or> 2 ^ 29 \<le> v div 8 then (0, 0, - 1) else (v div 8, v mod 8, n)),
     ConsumeBytes = wire_bytes,
     ConsumeVarint = wire_varint,
     ConsumeFieldValue = (\<lambda>number wireType s.
       if wireType = 0 then snd (wire_varint s)
       else if wireType = 1 then (if length s < 8 then - 1 else 8)
       else if wireType = 2 then snd (wire_bytes s)
       else if wireType = 5 then (if length s < 4 then - 1 else 4)
       else - 1)\<rparr>"

lemma get_put_varint: "n < 128 ^ k \<Longrightarrow> 0 < k \<Longrightarrow> get_varint k (put_varint n @ rest) = Some (n, length (put_varint n))"
proof (induction n arbitrary: k rule: put_varint.induct)
  case (1 n)
  obtain j where k: "k = Suc j" using 1 by (cases k) auto
  show ?case
  proof (cases "n < 128")
    case True
    then show ?thesis using k by (simp add: put_varint.simps [of n] byte_def)
  next
    case False
    have j: "0 < j" "n div 128 < 128 ^ j" using False "1.prems" k by (auto simp: div_less_iff_less_mult intro: Nat.gr0I)
    have c: "byte (char_of (128 + n mod 128)) = 128 + n mod 128"
      using mod_less_divisor [of 128 n] by (simp add: byte_def)
    show ?thesis using "1.IH" [OF False j(2,1)] False k c by (simp add: put_varint.simps [of n])
  qed
qed

lemma wire_put_varint: "n < 2 ^ 64 \<Longrightarrow> wire_varint (put_varint n @ rest) = (int n, int (length (put_varint n)))"
  using get_put_varint [of n 10 rest] by (simp add: wire_varint_def)

lemma wire_put_bytes: "length v < 2 ^ 63 \<Longrightarrow> wire_bytes (put_varint (length v) @ v @ rest) = (v, int (length (put_varint (length v)) + length v))"
  using wire_put_varint [of "length v" "v @ rest"] by (simp add: wire_bytes_def)

lemma put_varint_nonempty: "put_varint n \<noteq> []"
  by (subst put_varint.simps) simp

interpretation wire: wire_format wire_lib put_varint
proof
  fix number wt :: nat and rest
  assume n: "0 < number" "number < 2 ^ 29" "wt = 0 \<or> wt = 2"
  have "wire_varint (put_varint (8 * number + wt) @ rest) = (int (8 * number + wt), int (length (put_varint (8 * number + wt))))"
    using n by (intro wire_put_varint) auto
  moreover have "int (8 * number + wt) div 8 = int number" "int (8 * number + wt) mod 8 = int wt" using n by auto
  ultimately show "ConsumeTag wire_lib (put_varint (8 * number + wt) @ rest) = (int number, int wt, int (length (put_varint (8 * number + wt))))"
    using n by (simp only: wire_lib_def wireLib.simps Let_def prod.case) simp
qed (simp_all add: wire_lib_def wire_put_varint wire_put_bytes put_varint_nonempty)

text \<open>
  C33. A Secret that a client sends in the protobuf encoding arrives complete: with its version and kind, name, namespace and labels, its type, and every
  entry of its data in base64, for any library that reads the wire format.
\<close>

theorem protobuf_secret_round_trip:
  assumes "wire_format lib pv"
    and "length (encode_object pv ''v1'' ''Secret'' (secret_fields pv name namespace labels data secretType)) \<le> 65536"
    and "distinct (map fst labels)" "distinct (map fst data)" "data \<noteq> []"
  shows "\<exists>object. decodeProtobufObject lib (encode_object pv ''v1'' ''Secret'' (secret_fields pv name namespace labels data secretType)) = Inr object
    \<and> stringField object ''kind'' = ''Secret'' \<and> stringField object ''apiVersion'' = ''v1'' \<and> stringField object ''type'' = secretType
    \<and> gget object ''data'' = GStrMap (map (\<lambda>kv. (fst kv, base64_encode (snd kv))) data)
    \<and> stringField (objectMap (gget object ''metadata'')) ''name'' = name \<and> stringField (objectMap (gget object ''metadata'')) ''namespace'' = namespace
    \<and> (labels \<noteq> [] \<longrightarrow> gget (objectMap (gget object ''metadata'')) ''labels'' = stringMapValues labels)"
  using assms by (rule wire_format.secret_read)

theorem protobuf_secret_round_trip_witness:
  "\<exists>object. decodeProtobufObject wire_lib (encode_object put_varint ''v1'' ''Secret'' (secret_fields put_varint ''s'' ''default'' [] [(''k'', ''v'')] ''Opaque'')) = Inr object
    \<and> gget object ''data'' = GStrMap [(''k'', base64_encode ''v'')]"
proof -
  have "length (encode_object put_varint ''v1'' ''Secret'' (secret_fields put_varint ''s'' ''default'' [] [(''k'', ''v'')] ''Opaque'')) \<le> 65536"
    by (simp add: encode_object_def secret_fields_def metadata_fields_def put_entry_def put_message_def put_varint.simps)
  from protobuf_secret_round_trip [OF wire.wire_format_axioms this] show ?thesis by auto
qed

text \<open>
  C34. A ConfigMap sent in the protobuf encoding is stored without its data: the decoder looks for the data under field 3 and for binary data under
  field 4, while Kubernetes encodes data as field 2 and binary data as field 3.
\<close>

theorem protobuf_configmap_loses_data:
  assumes "wire_format lib pv" "length (encode_object pv ''v1'' ''ConfigMap'' (configmap_fields pv name namespace data)) \<le> 65536"
  shows "\<exists>object. decodeProtobufObject lib (encode_object pv ''v1'' ''ConfigMap'' (configmap_fields pv name namespace data)) = Inr object
    \<and> stringField object ''kind'' = ''ConfigMap'' \<and> stringField (objectMap (gget object ''metadata'')) ''name'' = name
    \<and> gget object ''data'' = GNil \<and> gget object ''binaryData'' = GNil"
  using assms by (rule wire_format.configmap_read)

theorem protobuf_configmap_loses_data_witness:
  "\<exists>object. decodeProtobufObject wire_lib (encode_object put_varint ''v1'' ''ConfigMap'' (configmap_fields put_varint ''c'' ''default'' [(''k'', ''v'')])) = Inr object
    \<and> gget object ''data'' = GNil"
proof -
  have "length (encode_object put_varint ''v1'' ''ConfigMap'' (configmap_fields put_varint ''c'' ''default'' [(''k'', ''v'')])) \<le> 65536"
    by (simp add: encode_object_def configmap_fields_def metadata_fields_def put_entry_def put_message_def put_varint.simps)
  from protobuf_configmap_loses_data [OF wire.wire_format_axioms this] show ?thesis by blast
qed

end
