(* ===== verification/TimeText.thy ===== *)
theory TimeText
  imports GoTime GoValue
begin

text \<open>
  Reading a time: \<^verbatim>\<open>time.Parse(time.RFC3339, s)\<close> as the layout \<^verbatim>\<open>2006-01-02T15:04:05Z07:00\<close> makes it, with what Go accepts beyond the
  format (an hour of one digit, a fraction after a point or a comma, offsets up to 24:60), the difference of two times, which
  saturates at the range of a \<^verbatim>\<open>time.Duration\<close>, and the ages of \<^verbatim>\<open>handler/table.go\<close>. A time is a number of nanoseconds since 1970. A printed time is
  read back as it was (\<open>parse_rfc3339_print\<close>).
\<close>

section \<open>The calendar\<close>

definition leap_year :: "nat \<Rightarrow> bool" where
  "leap_year y \<longleftrightarrow> y mod 4 = 0 \<and> (y mod 100 \<noteq> 0 \<or> y mod 400 = 0)"

definition days_in :: "nat \<Rightarrow> nat \<Rightarrow> nat" where
  "days_in m y = (if m = 2 then if leap_year y then 29 else 28 else if m \<in> {4, 6, 9, 11} then 30 else 31)"

text \<open>Days since 1970-01-01; the year starts in March, so that the leap day is its last.\<close>

definition days_from_civil :: "nat \<Rightarrow> nat \<Rightarrow> nat \<Rightarrow> int" where
  "days_from_civil y m d =
     (let y' = int y - (if m \<le> 2 then 1 else 0); mp = (if m \<le> 2 then int m + 9 else int m - 3)
      in 365 * y' + y' div 4 - y' div 100 + y' div 400 + (153 * mp + 2) div 5 + int d - 1 - 719468)"

section \<open>Parsing\<close>

text \<open>\<^verbatim>\<open>getnum(s, true)\<close> and \<^verbatim>\<open>getnum(s, false)\<close>.\<close>

definition two_digits :: "string \<Rightarrow> (nat \<times> string) option" where
  "two_digits s = (case s of a # b # rest \<Rightarrow> if is_digit a \<and> is_digit b then Some (10 * digit_val a + digit_val b, rest) else None | _ \<Rightarrow> None)"

definition some_digits :: "string \<Rightarrow> (nat \<times> string) option" where
  "some_digits s =
     (case two_digits s of
        Some r \<Rightarrow> Some r
      | None \<Rightarrow> (case s of a # rest \<Rightarrow> if is_digit a then Some (digit_val a, rest) else None | [] \<Rightarrow> None))"

definition skip_char :: "char \<Rightarrow> string \<Rightarrow> string option" where
  "skip_char c s = (case s of x # rest \<Rightarrow> if x = c then Some rest else None | [] \<Rightarrow> None)"

definition year_digits :: "string \<Rightarrow> (nat \<times> string) option" where
  "year_digits s = (if 4 \<le> length s \<and> list_all is_digit (take 4 s) then Some (digits_val (take 4 s), drop 4 s) else None)"

text \<open>A fraction after the seconds: its first nine digits count.\<close>

definition fraction :: "string \<Rightarrow> nat \<times> string" where
  "fraction s =
     (case s of
        c # d # rest \<Rightarrow>
          (if (c = CHR ''.'' \<or> c = CHR '','') \<and> is_digit d then
             (let ds = takeWhile is_digit (d # rest); used = take 9 ds
              in (digits_val used * 10 ^ (9 - length used), dropWhile is_digit (d # rest)))
           else (0, s))
      | _ \<Rightarrow> (0, s))"

text \<open>The zone: \<^verbatim>\<open>Z\<close> or an offset; its value in seconds.\<close>

definition zone :: "string \<Rightarrow> (int \<times> string) option" where
  "zone s =
     (case s of
        [] \<Rightarrow> None
      | c # rest \<Rightarrow>
          (if c = CHR ''Z'' then Some (0, rest)
           else if length s < 6 \<or> s ! 3 \<noteq> CHR '':'' then None
           else case (two_digits (take 2 rest), two_digits (take 2 (drop 4 s))) of
               (Some (h, _), Some (m, _)) \<Rightarrow>
                 (let off = int ((h * 60 + m) * 60)
                  in if 24 < h \<or> 60 < m then None
                     else if c = CHR ''+'' then Some (off, drop 6 s)
                     else if c = CHR ''-'' then Some (- off, drop 6 s)
                     else None)
             | _ \<Rightarrow> None))"

definition check_range :: "nat \<Rightarrow> nat \<Rightarrow> (nat \<times> string) option \<Rightarrow> (nat \<times> string) option" where
  "check_range lo hi r = Option.bind r (\<lambda>(n, rest). if lo \<le> n \<and> n \<le> hi then Some (n, rest) else None)"

definition parse_clock :: "string \<Rightarrow> (nat \<times> nat \<times> string) option" where
  "parse_clock s =
     Option.bind (check_range 0 23 (some_digits s)) (\<lambda>(hh, s1).
     Option.bind (skip_char (CHR '':'') s1) (\<lambda>s2.
     Option.bind (check_range 0 59 (two_digits s2)) (\<lambda>(mm, s3).
     Option.bind (skip_char (CHR '':'') s3) (\<lambda>s4.
     Option.bind (check_range 0 59 (two_digits s4)) (\<lambda>(sec, s5).
     let (nanos, s6) = fraction s5 in Some (hh * 3600 + mm * 60 + sec, nanos, s6))))))"

definition parse_rfc3339 :: "string \<Rightarrow> int option" where
  "parse_rfc3339 s =
     Option.bind (year_digits s) (\<lambda>(y, s1).
     Option.bind (skip_char (CHR ''-'') s1) (\<lambda>s2.
     Option.bind (check_range 1 12 (two_digits s2)) (\<lambda>(m, s3).
     Option.bind (skip_char (CHR ''-'') s3) (\<lambda>s4.
     Option.bind (two_digits s4) (\<lambda>(d, s5).
     Option.bind (skip_char (CHR ''T'') s5) (\<lambda>s6.
     Option.bind (parse_clock s6) (\<lambda>(secs, nanos, s7).
     Option.bind (zone s7) (\<lambda>(off, s8).
       if s8 = [] \<and> 1 \<le> d \<and> d \<le> days_in m y
       then Some ((days_from_civil y m d * 86400 + int secs - off) * 1000000000 + int nanos) else None))))))))"

section \<open>Durations\<close>

abbreviation maxDuration :: int where "maxDuration \<equiv> 2 ^ 63 - 1"

text \<open>\<^verbatim>\<open>t.Sub(u)\<close>.\<close>

definition time_sub :: "int \<Rightarrow> int \<Rightarrow> int" where
  "time_sub t u = max (- (2 ^ 63)) (min maxDuration (t - u))"

abbreviation nanosecs :: "int \<Rightarrow> int" where "nanosecs s \<equiv> s * 1000000000"

text \<open>
  \<^verbatim>\<open>formatAge\<close>. The code goes through \<^verbatim>\<open>float64\<close> hours, which round up when the duration is within a few nanoseconds below a whole
  day more than half a year away; here the division is exact.
\<close>

definition formatAge :: "int \<Rightarrow> string" where
  "formatAge d0 =
     (let d = max 0 d0; hours = d div nanosecs 3600
      in if d < nanosecs 120 then show_int (d div nanosecs 1) @ ''s''
         else if d < nanosecs 7200 then show_int (d div nanosecs 60) @ ''m''
         else if d < nanosecs (48 * 3600) then show_int hours @ ''h''
         else if d < nanosecs (365 * 86400) then show_int (hours div 24) @ ''d''
         else let years = hours div 24 div 365; days = hours div 24 - years * 365
              in show_int years @ ''y'' @ show_int days @ ''d'')"

text \<open>\<^verbatim>\<open>shortAgo\<close>; \<open>now\<close> is the clock.\<close>

definition shortAgo :: "int \<Rightarrow> string \<Rightarrow> string" where
  "shortAgo now raw =
     (case parse_rfc3339 raw of None \<Rightarrow> ''<unknown>'' | Some t \<Rightarrow> formatAge (time_sub now t))"

definition objectAge :: "int \<Rightarrow> gobj \<Rightarrow> string" where
  "objectAge now meta = shortAgo now (stringField meta ''creationTimestamp'')"

section \<open>A printed time is read back\<close>

text \<open>The year of a day of the 400-year cycle: a day is given by its century, its leap period, its year there and its day in
  the year, and the formula of \<^const>\<open>civil_from_days\<close> recovers them.\<close>

definition cycle_year :: "nat \<Rightarrow> nat" where
  "cycle_year doe = (doe - doe div 1460 + doe div 36524 - doe div 146096) div 365"

definition year_start :: "nat \<Rightarrow> nat" where
  "year_start y = 365 * y + y div 4 - y div 100"

lemma year_start_parts: "a < 4 \<Longrightarrow> b < 25 \<Longrightarrow> c < 4 \<Longrightarrow> year_start (100 * a + 4 * b + c) = 36524 * a + 1461 * b + 365 * c"
proof -
  assume "a < 4" "b < 25" "c < 4"
  then have "(100 * a + 4 * b + c) div 4 = 25 * a + b" "(100 * a + 4 * b + c) div 100 = a" by linarith+
  then show ?thesis by (simp add: year_start_def)
qed

lemma cycle_year_parts:
  assumes "a < 4" "b < 25" "c < 4" "r \<le> 364 \<or> r = 365 \<and> c = 3 \<and> b < 24"
  shows "cycle_year (36524 * a + 1461 * b + 365 * c + r) = 100 * a + 4 * b + c"
proof -
  let ?doe = "36524 * a + 1461 * b + 365 * c + r"
  define k where "k = (24 * a + b + 365 * c + r) div 1460"
  have "?doe div 1460 = 25 * a + b + k" unfolding k_def by linarith
  moreover have "?doe div 36524 = a" "?doe div 146096 = 0" using assms by linarith+
  ultimately have n: "?doe - ?doe div 1460 + ?doe div 36524 - ?doe div 146096 = 36500 * a + 1460 * b + 365 * c + r - k" by linarith
  have "k \<le> r" "r - k \<le> 364" using assms unfolding k_def by linarith+
  then show ?thesis unfolding cycle_year_def n by linarith
qed

lemma day_parts:
  fixes doe :: nat
  assumes "doe < 146096"
  obtains a b c r where "a < 4" "b < 25" "c < 4" "r \<le> 364 \<or> r = 365 \<and> c = 3 \<and> b < 24" "doe = 36524 * a + 1461 * b + 365 * c + r"
proof -
  define a where "a = doe div 36524"
  define b where "b = (doe - 36524 * a) div 1461"
  define c where "c = min 3 ((doe - 36524 * a - 1461 * b) div 365)"
  define r where "r = doe - 36524 * a - 1461 * b - 365 * c"
  have a: "a < 4" "36524 * a \<le> doe" "doe - 36524 * a < 36524" using assms unfolding a_def by linarith+
  then have b: "b < 25" "1461 * b \<le> doe - 36524 * a" "doe - 36524 * a - 1461 * b < 1461" unfolding b_def by linarith+
  have c: "c < 4" "365 * c \<le> doe - 36524 * a - 1461 * b" "c < 3 \<longrightarrow> r \<le> 364" "r \<le> 365" using b(3) unfolding r_def c_def by linarith+
  have doe: "doe = 36524 * a + 1461 * b + 365 * c + r" using a b c unfolding r_def by linarith
  have "r = 365 \<Longrightarrow> b \<noteq> 24" using doe a(3) c by (cases "c = 3") auto
  then have "r \<le> 364 \<or> r = 365 \<and> c = 3 \<and> b < 24" using b(1) c(1,3,4) by (cases "r = 365") auto
  then show ?thesis using that a(1) b(1) c(1) doe by blast
qed

lemma cycle_year_bounds:
  assumes "doe < 146097"
  shows "cycle_year doe < 400 \<and> year_start (cycle_year doe) \<le> doe \<and> doe - year_start (cycle_year doe) < 366 \<and>
    (doe - year_start (cycle_year doe) = 365 \<longrightarrow> leap_year (cycle_year doe + 1))"
proof (cases "doe = 146096")
  case True
  then show ?thesis by (simp add: cycle_year_def year_start_def leap_year_def)
next
  case False
  then have "doe < 146096" using assms by simp
  then obtain a b c r where p: "a < 4" "b < 25" "c < 4" "r \<le> 364 \<or> r = 365 \<and> c = 3 \<and> b < 24" "doe = 36524 * a + 1461 * b + 365 * c + r"
    by (rule day_parts)
  have y: "cycle_year doe = 100 * a + 4 * b + c" "year_start (100 * a + 4 * b + c) = 36524 * a + 1461 * b + 365 * c"
    using p cycle_year_parts year_start_parts by auto
  have "leap_year (100 * a + 4 * b + 3 + 1)" if "b < 24"
  proof -
    have "100 * a + 4 * b + 3 + 1 = 4 * (25 * a + b + 1)" by simp
    then have "(100 * a + 4 * b + 3 + 1) mod 4 = 0" by (metis mod_mult_self1_is_0)
    moreover have "(100 * a + 4 * b + 3 + 1) mod 100 = 4 * b + 4"
      using that mod_mult_self2 [of "4 * b + 4" 100 a] by (simp add: ac_simps)
    ultimately show ?thesis unfolding leap_year_def by linarith
  qed
  then show ?thesis unfolding y using p by auto
qed

text \<open>Month and day from the day of the year.\<close>

lemma month_day:
  assumes "doy < 366" "mp = (5 * doy + 2) div 153" "d = doy - (153 * mp + 2) div 5 + 1" "m = (if mp < 10 then mp + 3 else mp - 9)"
  shows "mp < 12" "(153 * mp + 2) div 5 + d = Suc doy" "d \<le> days_in m (if doy = 365 then 4 else 1)" "mp < 10 \<longleftrightarrow> doy < 306"
proof -
  have b: "153 * mp \<le> 5 * doy + 2" "5 * doy + 2 < 153 * mp + 153" using assms(2) by linarith+
  then show "mp < 12" "mp < 10 \<longleftrightarrow> doy < 306" using assms(1) by linarith+
  then have "mp \<in> {0, 1, 2, 3, 4, 5, 6, 7, 8, 9, 10, 11}" by auto
  then have "(153 * mp + 2) div 5 + d = Suc doy \<and> d \<le> days_in m (if doy = 365 then 4 else 1)"
    using b assms(1) unfolding assms(3,4) by (elim insertE emptyE, simp_all add: days_in_def leap_year_def) linarith
  then show "(153 * mp + 2) div 5 + d = Suc doy" "d \<le> days_in m (if doy = 365 then 4 else 1)" by blast+
qed

lemma leap_year_cycle: "leap_year (y + 400 * n) = leap_year y"
proof -
  have "(y + 400 * n) mod 4 = y mod 4" "(y + 400 * n) mod 100 = y mod 100"
    using mod_mult_self1 [of y "100 * n" 4] mod_mult_self1 [of y "4 * n" 100] by (simp_all add: mult.commute)
  then show ?thesis by (simp add: leap_year_def)
qed

lemma cycle_days:
  assumes "yoe < 400"
  shows "365 * int (yoe + era * 400) + int (yoe + era * 400) div 4 - int (yoe + era * 400) div 100 + int (yoe + era * 400) div 400
    = int (era * 146097 + year_start yoe)"
proof -
  have "(yoe + era * 400) div 4 = yoe div 4 + 100 * era" "(yoe + era * 400) div 100 = yoe div 100 + 4 * era"
    "(yoe + era * 400) div 400 = era"
    using assms by simp_all
  then have "int (yoe + era * 400) div 4 = int (yoe div 4 + 100 * era)" "int (yoe + era * 400) div 100 = int (yoe div 100 + 4 * era)"
    "int (yoe + era * 400) div 400 = int era"
    by (metis of_nat_numeral zdiv_int)+
  moreover have "yoe div 100 \<le> 365 * yoe + yoe div 4" by simp
  ultimately show ?thesis by (simp add: year_start_def of_nat_diff algebra_simps)
qed

lemma civil_from_days_cycle:
  "civil_from_days n =
     (let era = (n + 719468) div 146097; doe = (n + 719468) mod 146097; yoe = cycle_year doe; doy = doe - year_start yoe;
          mp = (5 * doy + 2) div 153; d = doy - (153 * mp + 2) div 5 + 1; m = (if mp < 10 then mp + 3 else mp - 9); y = yoe + era * 400
      in (if m \<le> 2 then y + 1 else y, m, d))"
  by (simp only: civil_from_days_def cycle_year_def year_start_def Let_def)

lemma civil_round_trip:
  assumes "civil_from_days n = (y, m, d)"
  shows "days_from_civil y m d = int n" "1 \<le> m" "m \<le> 12" "1 \<le> d" "d \<le> days_in m y" "n < 2932897 \<Longrightarrow> y < 10000"
proof -
  define era doe where "era = (n + 719468) div 146097" and "doe = (n + 719468) mod 146097"
  define yoe where "yoe = cycle_year doe"
  define doy where "doy = doe - year_start yoe"
  define mp where "mp = (5 * doy + 2) div 153"
  have z: "n + 719468 = era * 146097 + doe" and doe: "doe < 146097" by (simp_all add: era_def doe_def)
  have year: "yoe < 400" "doe = year_start yoe + doy" "doy < 366" "doy = 365 \<longrightarrow> leap_year (yoe + 1)"
    using cycle_year_bounds [OF doe] by (simp_all add: yoe_def doy_def)
  have fields: "(if (if mp < 10 then mp + 3 else mp - 9) \<le> 2 then yoe + era * 400 + 1 else yoe + era * 400) = y"
      "(if mp < 10 then mp + 3 else mp - 9) = m" "doy - (153 * mp + 2) div 5 + 1 = d"
    using assms [unfolded civil_from_days_cycle Let_def, folded era_def doe_def, folded yoe_def, folded doy_def, folded mp_def]
    unfolding prod.inject by blast+
  have dates: "m = (if mp < 10 then mp + 3 else mp - 9)" "d = doy - (153 * mp + 2) div 5 + 1"
      "y = (if m \<le> 2 then yoe + era * 400 + 1 else yoe + era * 400)"
    using fields unfolding fields(2) by simp_all
  note month = month_day [OF year(3) mp_def dates(2,1)]
  show "1 \<le> m" "m \<le> 12" "1 \<le> d" using month(1) by (auto simp: dates)
  have march: "int y - (if m \<le> 2 then 1 else 0) = int (yoe + era * 400)" "(if m \<le> 2 then int m + 9 else int m - 3) = int mp"
    using month(1) by (auto simp: dates)
  have "(153 * int mp + 2) div 5 = int ((153 * mp + 2) div 5)" by (simp add: zdiv_int)
  then show "days_from_civil y m d = int n"
    unfolding days_from_civil_def Let_def march cycle_days [OF year(1)]
    using z year(2) month(2) by linarith
  have "m = 2 \<Longrightarrow> leap_year y = leap_year (yoe + 1)"
    using leap_year_cycle [of "yoe + 1" era] by (simp add: dates(3) ac_simps)
  then show "d \<le> days_in m y" using month(3) year(4) by (cases "m = 2") (auto simp: days_in_def leap_year_def split: if_splits)
  show "y < 10000" if "n < 2932897"
  proof -
    have "era < 24 \<or> era = 24 \<and> doe < 146037" using z that doe by linarith
    then show ?thesis
    proof
      assume e: "era = 24 \<and> doe < 146037"
      have "yoe = 399 \<Longrightarrow> 3 \<le> m" using e year(2) month(4) by (simp add: dates(1) year_start_def)
      then show ?thesis using e year(1) by (cases "yoe = 399") (simp_all add: dates(3))
    qed (use year(1) in \<open>simp add: dates(3)\<close>)
  qed
qed

lemma two_digits_pad: "n < 100 \<Longrightarrow> two_digits (pad_nat 2 n @ rest) = Some (n, rest)"
proof -
  assume n: "n < 100"
  then have "length (pad_nat 2 n) = 2" by (intro length_pad_nat) simp_all
  then obtain a b where ab: "pad_nat 2 n = [a, b]" by (auto simp: length_Suc_conv numeral_2_eq_2)
  have "digits_val [a, b] = n" "list_all is_digit [a, b]" using digits_val_pad_nat [of 2 n] pad_nat_digits [of 2 n] by (simp_all add: ab)
  then show ?thesis using ab digits_val_snoc [of "[a]" b] digits_val_snoc [of "[]" a] by (simp add: two_digits_def)
qed

lemma year_digits_pad: "n < 10000 \<Longrightarrow> year_digits (pad_nat 4 n @ rest) = Some (n, rest)"
  using length_pad_nat [of n 4] pad_nat_digits [of 4 n] by (simp add: year_digits_def)

lemma parse_clock_pad:
  assumes "hh < 24" "mm < 60" "ss < 60"
  shows "parse_clock (pad_nat 2 hh @ CHR '':'' # pad_nat 2 mm @ CHR '':'' # pad_nat 2 ss @ ''Z'') = Some (hh * 3600 + mm * 60 + ss, 0, ''Z'')"
  using assms by (simp add: parse_clock_def some_digits_def two_digits_pad check_range_def skip_char_def fraction_def)

text \<open>Every printed time up to the year 9999 is read back exactly.\<close>

lemma parse_rfc3339_print:
  assumes "t < 253402300800"
  shows "parse_rfc3339 (rfc3339 t) = Some (nanosecs (int t))"
proof -
  obtain y m d where civil: "civil_from_days (t div 86400) = (y, m, d)" by (metis prod.exhaust)
  have "t div 86400 < 2932897" using assms by (simp add: div_less_iff_less_mult)
  note c = civil_round_trip [OF civil]
  have bounds: "y < 10000" "m < 100" "d < 100"
    using c \<open>t div 86400 < 2932897\<close> by (auto simp: days_in_def split: if_splits)
  let ?sec = "t mod 86400"
  have clock: "?sec div 3600 < 24" "?sec div 60 mod 60 < 60" "?sec mod 60 < 60" by (simp_all add: div_less_iff_less_mult)
  have secs: "?sec div 3600 * 3600 + ?sec div 60 mod 60 * 60 + ?sec mod 60 = ?sec"
  proof -
    have "?sec div 3600 = ?sec div 60 div 60" by (simp add: div_mult2_eq [symmetric])
    then show ?thesis using div_mult_mod_eq [of ?sec 60] div_mult_mod_eq [of "?sec div 60" 60] by linarith
  qed
  note pc = parse_clock_pad [OF clock, unfolded secs]
  have "int (t div 86400) * 86400 + int ?sec = int t"
    by (metis div_mult_mod_eq of_nat_add of_nat_mult of_nat_numeral)
  then show ?thesis
    using c bounds pc
    by (simp add: parse_rfc3339_def rfc3339_def date_time_def civil Let_def year_digits_pad two_digits_pad skip_char_def check_range_def zone_def)
qed

end
