(* ===== verification/Tables.thy ===== *)
theory Tables
  imports Catalog TimeText Utf8
begin

text \<open>
  Tables (\<^verbatim>\<open>handler/table.go\<close>): what \<^verbatim>\<open>kubectl get\<close> prints. A client that asks for \<^verbatim>\<open>as=Table\<close> gets column definitions and one row of
  cells per object. \<open>tableSpec\<close> is the switch over the kinds, as a list of its cases: the kinds of a case, its columns, and the closure that makes the
  cells of an object. The clock is the argument \<open>now\<close>, \<^verbatim>\<open>unicode.ToLower\<close> beyond ASCII is \<open>uni\<close>, and a loop over a map follows the order of its list.
\<close>

record tableColumn =
  c_name :: string
  c_columnType :: string
  c_format :: string
  c_description :: string
  c_priority :: int

definition col :: "string \<Rightarrow> string \<Rightarrow> tableColumn" where
  "col name description =
     \<lparr>c_name = name, c_columnType = ''string'', c_format = [], c_description = description, c_priority = 0\<rparr>"

definition wideCol :: "string \<Rightarrow> string \<Rightarrow> tableColumn" where
  "wideCol name description = (col name description)\<lparr>c_priority := 1\<rparr>"

section \<open>Negotiation\<close>

text \<open>No letter outside ASCII has \<^verbatim>\<open>a\<close> or \<^verbatim>\<open>s\<close> as its lower case, so folding ASCII decides which parameter is \<^verbatim>\<open>as\<close>.\<close>

definition clause_params :: "string list \<Rightarrow> (string \<times> string) list" where
  "clause_params parts =
     fold (\<lambda>part params. case cut_at ''='' (trim_space part) of
        Some (key, v) \<Rightarrow> AList.update (to_lower key) v params
      | None \<Rightarrow> params) parts []"

definition requestsTable :: "string \<Rightarrow> bool" where
  "requestsTable accept =
     list_ex (\<lambda>clause. let parts = go_split (CHR '';'') clause
        in trim_space (hd parts) = ''application/json'' \<and> map_of (clause_params (tl parts)) ''as'' = Some ''Table'')
       (go_split (CHR '','') accept)"

section \<open>Cells\<close>

text \<open>Ready and total containers and the sum of the restarts.\<close>

definition podReadiness :: "gobj \<Rightarrow> int \<times> int \<times> int" where
  "podReadiness object =
     (let statuses = map objectMap (objectList (gget (objectMap (gget object ''status'')) ''containerStatuses''))
      in (int (length (filter (\<lambda>c. as_bool (gget c ''ready'') = Some True) statuses)),
          int (length (objectList (gget (objectMap (gget object ''spec'')) ''containers''))),
          fold (\<lambda>c n. wrap_int64 (n + intField c ''restartCount'')) statuses 0))"

definition podPhase :: "gobj \<Rightarrow> string" where
  "podPhase object = orDefault (stringField (objectMap (gget object ''status'')) ''phase'') ''Running''"

definition podTemplateContainers :: "gobj \<Rightarrow> string list \<times> string list" where
  "podTemplateContainers object =
     (let template = objectMap (gget (objectMap (gget object ''spec'')) ''template'');
          containers = map objectMap (objectList (gget (objectMap (gget template ''spec'')) ''containers''))
      in (map (\<lambda>c. stringField c ''name'') containers, map (\<lambda>c. stringField c ''image'') containers))"

definition port_text :: "gobj \<Rightarrow> string" where
  "port_text port =
     (let out = anyString (gget port ''port''); target = anyString (gget port ''targetPort''); protocol = stringField port ''protocol''
      in out @ (if target \<noteq> [] \<and> target \<noteq> out then ''/'' @ target else [])
             @ (if protocol \<noteq> [] \<and> protocol \<noteq> ''TCP'' then ''/'' @ protocol else []))"

definition servicePorts :: "gobj \<Rightarrow> string" where
  "servicePorts spec = go_join '','' (map (port_text \<circ> objectMap) (objectList (gget spec ''ports'')))"

definition matchLabelsString :: "gobj \<Rightarrow> string" where
  "matchLabelsString selector =
     (if selector = [] then ''<none>''
      else let labels0 = objectMap (gget selector ''matchLabels''); labels = (if labels0 = [] then selector else labels0)
           in go_join '','' (map (\<lambda>(key, v). key @ ''='' @ anyString v) labels))"

definition selectorString :: "gobj \<Rightarrow> string" where
  "selectorString spec = matchLabelsString (objectMap (gget spec ''selector''))"

definition endpointAddresses :: "gobj \<Rightarrow> string" where
  "endpointAddresses object =
     go_join '','' (filter (\<lambda>ip. ip \<noteq> []) (map (\<lambda>address. stringField (objectMap address) ''ip'')
       (concat (map (\<lambda>subset. objectList (gget (objectMap subset) ''addresses'')) (objectList (gget object ''subsets''))))))"

fun ready_of :: "gobj list \<Rightarrow> string" where
  "ready_of [] = ''Ready''"
| "ready_of (entry # rest) =
     (if stringField entry ''type'' = ''Ready'' then if stringField entry ''status'' = ''True'' then ''Ready'' else ''NotReady''
      else ready_of rest)"

definition nodeReady :: "gobj \<Rightarrow> string" where
  "nodeReady object = ready_of (map objectMap (objectList (gget (objectMap (gget object ''status'')) ''conditions'')))"

definition nodeRoles :: "gobj \<Rightarrow> string" where
  "nodeRoles meta =
     (let roles = [trim_prefix key ''node-role.kubernetes.io/''. (key, _) \<leftarrow> objectMap (gget meta ''labels''), has_prefix key ''node-role.kubernetes.io/'']
      in if roles = [] then ''<none>'' else go_join '','' roles)"

definition kubeletVersion :: "gobj \<Rightarrow> string" where
  "kubeletVersion object =
     orDefault (stringField (objectMap (gget (objectMap (gget object ''status'')) ''nodeInfo'')) ''kubeletVersion'') ''v1.37.0''"

definition jobDuration :: "int \<Rightarrow> gobj \<Rightarrow> string" where
  "jobDuration now status =
     (case Option.bind (as_string (gget status ''startTime'')) parse_rfc3339 of
        None \<Rightarrow> []
      | Some started \<Rightarrow>
          (let finish = (case Option.bind (as_string (gget status ''completionTime'')) parse_rfc3339 of None \<Rightarrow> now | Some t \<Rightarrow> t)
           in formatAge (time_sub finish started)))"

fun first_seen :: "int \<Rightarrow> gobj \<Rightarrow> string list \<Rightarrow> string" where
  "first_seen now object [] = ''<unknown>''"
| "first_seen now object (key # keys) =
     (if stringField object key \<noteq> [] then shortAgo now (stringField object key) else first_seen now object keys)"

definition eventLastSeen :: "int \<Rightarrow> gobj \<Rightarrow> string" where
  "eventLastSeen now object = first_seen now object [''lastTimestamp'', ''eventTime'', ''firstTimestamp'']"

section \<open>The kinds\<close>

type_synonym tableCase = "string list \<times> tableColumn list \<times> (gobj \<Rightarrow> gval list)"

abbreviation sub_map :: "gobj \<Rightarrow> string \<Rightarrow> gobj" where
  "sub_map object key \<equiv> objectMap (gget object key)"

abbreviation meta_name :: "gobj \<Rightarrow> gval" where
  "meta_name object \<equiv> gget (sub_map object ''metadata'') ''name''"

abbreviation age_cell :: "int \<Rightarrow> gobj \<Rightarrow> gval" where
  "age_cell now object \<equiv> GStr (objectAge now (sub_map object ''metadata''))"

abbreviation int_cell :: "gobj \<Rightarrow> string \<Rightarrow> gval" where
  "int_cell object key \<equiv> GInt (intField object key)"

definition ratio_cell :: "int \<Rightarrow> int \<Rightarrow> gval" where
  "ratio_cell a b = GStr (show_int a @ ''/'' @ show_int b)"

definition pair_cell :: "string \<Rightarrow> string \<Rightarrow> gval" where
  "pair_cell a b = GStr (a @ ''/'' @ b)"

definition pod_cells :: "int \<Rightarrow> gobj \<Rightarrow> gval list" where
  "pod_cells now object =
     (let (ready, total, restarts) = podReadiness object
      in [meta_name object, ratio_cell ready total, GStr (podPhase object), GInt restarts, age_cell now object,
          GStr (orDefault (stringField (sub_map object ''status'') ''podIP'') ''<none>''),
          GStr (orDefault (stringField (sub_map object ''spec'') ''nodeName'') ''<none>''), GStr ''<none>'', GStr ''<none>''])"

definition service_cells :: "int \<Rightarrow> gobj \<Rightarrow> gval list" where
  "service_cells now object =
     (let spec = sub_map object ''spec''; serviceType = orDefault (stringField spec ''type'') ''ClusterIP''
      in [meta_name object, GStr serviceType, gget spec ''clusterIP'',
          GStr (if serviceType = ''LoadBalancer'' then ''<pending>'' else ''<none>''), GStr (servicePorts spec), age_cell now object,
          GStr (selectorString spec)])"

definition deployment_cells :: "int \<Rightarrow> gobj \<Rightarrow> gval list" where
  "deployment_cells now object =
     (let spec = sub_map object ''spec''; status = sub_map object ''status''; (containers, images) = podTemplateContainers object
      in [meta_name object, ratio_cell (intField status ''readyReplicas'') (intField spec ''replicas''), int_cell status ''updatedReplicas'',
          int_cell status ''availableReplicas'', age_cell now object, GStr (go_join '','' containers), GStr (go_join '','' images),
          GStr (selectorString spec)])"

definition replica_cells :: "int \<Rightarrow> gobj \<Rightarrow> gval list" where
  "replica_cells now object =
     [meta_name object, int_cell (sub_map object ''spec'') ''replicas'', int_cell (sub_map object ''status'') ''replicas'',
      int_cell (sub_map object ''status'') ''readyReplicas'', age_cell now object]"

definition daemonset_cells :: "int \<Rightarrow> gobj \<Rightarrow> gval list" where
  "daemonset_cells now object =
     (let status = sub_map object ''status''
      in [meta_name object, int_cell status ''desiredNumberScheduled'', int_cell status ''currentNumberScheduled'', int_cell status ''numberReady'',
          int_cell status ''updatedNumberScheduled'', int_cell status ''numberAvailable'', GStr ''<none>'', age_cell now object])"

definition job_cells :: "int \<Rightarrow> gobj \<Rightarrow> gval list" where
  "job_cells now object =
     (let status = sub_map object ''status''
      in [meta_name object, ratio_cell (intField status ''succeeded'') (intField (sub_map object ''spec'') ''completions''),
          GStr (jobDuration now status), age_cell now object])"

definition cronjob_cells :: "int \<Rightarrow> gobj \<Rightarrow> gval list" where
  "cronjob_cells now object =
     (let spec = sub_map object ''spec''; status = sub_map object ''status''
      in [meta_name object, gget spec ''schedule'', GStr (if as_bool (gget spec ''suspend'') = Some True then ''True'' else ''False''),
          GInt (int (length (objectList (gget status ''active'')))),
          GStr (case as_string (gget status ''lastScheduleTime'') of Some scheduled \<Rightarrow> shortAgo now scheduled | None \<Rightarrow> ''<none>''),
          age_cell now object])"

definition workload_cases :: "int \<Rightarrow> tableCase list" where
  "workload_cases now =
     [([''Pod''], [col ''NAME'' ''Name'', col ''READY'' ''Ready containers'', col ''STATUS'' ''Status'', col ''RESTARTS'' ''Restarts'',
         col ''AGE'' ''Age'', wideCol ''IP'' ''Pod IP'', wideCol ''NODE'' ''Node'', wideCol ''NOMINATED NODE'' ''Nominated node'',
         wideCol ''READINESS GATES'' ''Readiness gates''], pod_cells now),
      ([''Service''], [col ''NAME'' ''Name'', col ''TYPE'' ''Service type'', col ''CLUSTER-IP'' ''Cluster IP'',
         col ''EXTERNAL-IP'' ''External IP'', col ''PORT(S)'' ''Ports'', col ''AGE'' ''Age'', wideCol ''SELECTOR'' ''Selector''], service_cells now),
      ([''Deployment''], [col ''NAME'' ''Name'', col ''READY'' ''Ready replicas'', col ''UP-TO-DATE'' ''Updated replicas'',
         col ''AVAILABLE'' ''Available replicas'', col ''AGE'' ''Age'', wideCol ''CONTAINERS'' ''Containers'', wideCol ''IMAGES'' ''Images'',
         wideCol ''SELECTOR'' ''Selector''], deployment_cells now),
      ([''ReplicaSet''], [col ''NAME'' ''Name'', col ''DESIRED'' ''Desired'', col ''CURRENT'' ''Current'', col ''READY'' ''Ready'', col ''AGE'' ''Age''],
         replica_cells now),
      ([''StatefulSet''], [col ''NAME'' ''Name'', col ''READY'' ''Ready replicas'', col ''AGE'' ''Age''],
         (\<lambda>object. [meta_name object,
            ratio_cell (intField (sub_map object ''status'') ''readyReplicas'') (intField (sub_map object ''spec'') ''replicas''), age_cell now object])),
      ([''DaemonSet''], [col ''NAME'' ''Name'', col ''DESIRED'' ''Desired'', col ''CURRENT'' ''Current'', col ''READY'' ''Ready'',
         col ''UP-TO-DATE'' ''Updated'', col ''AVAILABLE'' ''Available'', col ''NODE SELECTOR'' ''Node selector'', col ''AGE'' ''Age''], daemonset_cells now),
      ([''Job''], [col ''NAME'' ''Name'', col ''COMPLETIONS'' ''Completions'', col ''DURATION'' ''Duration'', col ''AGE'' ''Age''], job_cells now),
      ([''CronJob''], [col ''NAME'' ''Name'', col ''SCHEDULE'' ''Schedule'', col ''SUSPEND'' ''Suspended'', col ''ACTIVE'' ''Active jobs'',
         col ''LAST SCHEDULE'' ''Last scheduled'', col ''AGE'' ''Age''], cronjob_cells now),
      ([''ReplicationController''], [col ''NAME'' ''Name'', col ''DESIRED'' ''Desired'', col ''CURRENT'' ''Current'', col ''READY'' ''Ready'',
         col ''AGE'' ''Age''], replica_cells now)]"

text \<open>Columns that many kinds share.\<close>

definition named_aged :: "tableColumn list \<Rightarrow> tableColumn list" where
  "named_aged columns = col ''NAME'' ''Name'' # columns @ [col ''AGE'' ''Age'']"

definition created_case :: "string list \<Rightarrow> tableCase" where
  "created_case kinds = (kinds, [col ''NAME'' ''Name'', col ''CREATED AT'' ''Created''],
     (\<lambda>object. [meta_name object, gget (sub_map object ''metadata'') ''creationTimestamp'']))"

definition secret_cells :: "int \<Rightarrow> gobj \<Rightarrow> gval list" where
  "secret_cells now object =
     [meta_name object, GStr (orDefault (stringField object ''type'') ''Opaque''),
      GInt (int (length (sub_map object ''data'') + length (sub_map object ''stringData''))), age_cell now object]"

definition event_cells :: "(nat \<Rightarrow> nat) \<Rightarrow> int \<Rightarrow> gobj \<Rightarrow> gval list" where
  "event_cells uni now object =
     (let involved = sub_map object ''involvedObject''
      in [GStr (eventLastSeen now object), gget object ''type'', gget object ''reason'',
          pair_cell (toLower uni (stringField involved ''kind'')) (stringField involved ''name''), gget object ''message''])"

definition cluster_cases :: "(nat \<Rightarrow> nat) \<Rightarrow> int \<Rightarrow> tableCase list" where
  "cluster_cases uni now =
     [([''Node''], [col ''NAME'' ''Name'', col ''STATUS'' ''Status'', col ''ROLES'' ''Roles'', col ''AGE'' ''Age'', col ''VERSION'' ''Kubelet version''],
         (\<lambda>object. [meta_name object, GStr (nodeReady object), GStr (nodeRoles (sub_map object ''metadata'')), age_cell now object, GStr (kubeletVersion object)])),
      ([''Namespace''], named_aged [col ''STATUS'' ''Status''],
         (\<lambda>object. [meta_name object, GStr (orDefault (stringField (sub_map object ''status'') ''phase'') ''Active''), age_cell now object])),
      ([''Secret''], named_aged [col ''TYPE'' ''Type'', col ''DATA'' ''Keys''], secret_cells now),
      ([''ConfigMap''], named_aged [col ''DATA'' ''Keys''],
         (\<lambda>object. [meta_name object, GInt (int (length (sub_map object ''data''))), age_cell now object])),
      ([''ServiceAccount''], named_aged [col ''SECRETS'' ''Secret count''],
         (\<lambda>object. [meta_name object, GInt (int (length (objectList (gget object ''secrets'')))), age_cell now object])),
      ([''Event''], [col ''LAST SEEN'' ''Last seen'', col ''TYPE'' ''Type'', col ''REASON'' ''Reason'', col ''OBJECT'' ''Involved object'',
         col ''MESSAGE'' ''Message''], event_cells uni now)]"

definition claim_cells :: "int \<Rightarrow> gobj \<Rightarrow> gval list" where
  "claim_cells now object =
     (let spec = sub_map object ''spec''; status = sub_map object ''status''; capacity = stringField (sub_map status ''capacity'') ''storage''
      in [meta_name object, GStr (orDefault (stringField status ''phase'') ''Bound''), GStr (orDefault (stringField spec ''volumeName'') ''<none>''),
          GStr (orDefault capacity ''1Gi''), GStr ''RWO'', GStr (orDefault (stringField spec ''storageClassName'') ''standard''), age_cell now object])"

definition volume_cells :: "int \<Rightarrow> gobj \<Rightarrow> gval list" where
  "volume_cells now object =
     (let spec = sub_map object ''spec''; status = sub_map object ''status''; ref = sub_map spec ''claimRef'';
          claim = (if ref \<noteq> [] then pair_cell (stringField ref ''namespace'') (stringField ref ''name'') else GStr ''<none>'')
      in [meta_name object, GStr (orDefault (stringField (sub_map spec ''capacity'') ''storage'') ''1Gi''), GStr ''RWO'',
          GStr (orDefault (stringField spec ''persistentVolumeReclaimPolicy'') ''Retain''), GStr (orDefault (stringField status ''phase'') ''Available''),
          claim, GStr (orDefault (stringField spec ''storageClassName'') ''standard''), age_cell now object])"

definition ingress_cells :: "int \<Rightarrow> gobj \<Rightarrow> gval list" where
  "ingress_cells now object =
     (let spec = sub_map object ''spec'';
          hosts = filter (\<lambda>host. host \<noteq> []) (map (\<lambda>rule. stringField (objectMap rule) ''host'') (objectList (gget spec ''rules'')))
      in [meta_name object, GStr (orDefault (stringField spec ''ingressClassName'') ''nginx''), GStr (orDefault (go_join '','' hosts) ''*''),
          GStr [], GStr ''80'', age_cell now object])"

definition budget_cells :: "int \<Rightarrow> gobj \<Rightarrow> gval list" where
  "budget_cells now object =
     (let spec = sub_map object ''spec''
      in [meta_name object, GStr (orDefault (anyString (gget spec ''minAvailable'')) ''N/A''),
          GStr (orDefault (anyString (gget spec ''maxUnavailable'')) ''N/A''), int_cell (sub_map object ''status'') ''disruptionsAllowed'', age_cell now object])"

definition autoscaler_cells :: "(nat \<Rightarrow> nat) \<Rightarrow> int \<Rightarrow> gobj \<Rightarrow> gval list" where
  "autoscaler_cells uni now object =
     (let spec = sub_map object ''spec''; target = sub_map spec ''scaleTargetRef''
      in [meta_name object, pair_cell (toLower uni (stringField target ''kind'')) (stringField target ''name''), GStr ''<unknown>/50%'',
          int_cell spec ''minReplicas'', int_cell spec ''maxReplicas'', int_cell (sub_map object ''status'') ''currentReplicas'', age_cell now object])"

definition apiservice_cells :: "int \<Rightarrow> gobj \<Rightarrow> gval list" where
  "apiservice_cells now object =
     (let backend = sub_map (sub_map object ''spec'') ''service'';
          service = (if backend \<noteq> [] then pair_cell (stringField backend ''namespace'') (stringField backend ''name'') else GStr ''Local'');
          available = fold (\<lambda>c v. if stringField (objectMap c) ''type'' = ''Available'' then stringField (objectMap c) ''status'' else v)
            (objectList (gget (sub_map object ''status'') ''conditions'')) ''True''
      in [meta_name object, service, GStr (available @ '' (Local)''), age_cell now object])"

definition request_cells :: "int \<Rightarrow> gobj \<Rightarrow> gval list" where
  "request_cells now object =
     (let spec = sub_map object ''spec''
      in [meta_name object, age_cell now object, GStr (orDefault (stringField spec ''signerName'') ''kubernetes.io/kube-apiserver-client''),
          GStr (orDefault (stringField spec ''username'') ''system:node:worker-01''), GStr ''<none>'', GStr ''Approved''])"

definition policy_cases :: "(nat \<Rightarrow> nat) \<Rightarrow> int \<Rightarrow> tableCase list" where
  "policy_cases uni now =
     [([''PersistentVolumeClaim''], named_aged [col ''STATUS'' ''Status'', col ''VOLUME'' ''Bound volume'', col ''CAPACITY'' ''Capacity'',
         col ''ACCESS MODES'' ''Access modes'', col ''STORAGECLASS'' ''Storage class''], claim_cells now),
      ([''PersistentVolume''], named_aged [col ''CAPACITY'' ''Capacity'', col ''ACCESS MODES'' ''Access modes'', col ''RECLAIM POLICY'' ''Reclaim policy'',
         col ''STATUS'' ''Status'', col ''CLAIM'' ''Bound claim'', col ''STORAGECLASS'' ''Storage class''], volume_cells now),
      ([''Ingress''], named_aged [col ''CLASS'' ''Ingress class'', col ''HOSTS'' ''Hosts'', col ''ADDRESS'' ''Address'', col ''PORTS'' ''Ports''], ingress_cells now),
      ([''NetworkPolicy''], named_aged [col ''POD-SELECTOR'' ''Pod selector''],
         (\<lambda>object. [meta_name object, GStr (matchLabelsString (sub_map (sub_map object ''spec'') ''podSelector'')), age_cell now object])),
      ([''PodDisruptionBudget''], named_aged [col ''MIN AVAILABLE'' ''Min available'', col ''MAX UNAVAILABLE'' ''Max unavailable'',
         col ''ALLOWED DISRUPTIONS'' ''Allowed disruptions''], budget_cells now),
      ([''HorizontalPodAutoscaler''], named_aged [col ''REFERENCE'' ''Scale target'', col ''TARGETS'' ''Targets'', col ''MINPODS'' ''Min replicas'',
         col ''MAXPODS'' ''Max replicas'', col ''REPLICAS'' ''Current''], autoscaler_cells uni now)]"

definition extension_cases :: "int \<Rightarrow> tableCase list" where
  "extension_cases now =
     [created_case [''CustomResourceDefinition''],
      ([''APIService''], named_aged [col ''SERVICE'' ''Backend service'', col ''AVAILABLE'' ''Availability''], apiservice_cells now),
      ([''Lease''], named_aged [col ''HOLDER'' ''Holder''],
         (\<lambda>object. [meta_name object, GStr (orDefault (stringField (sub_map object ''spec'') ''holderIdentity'') ''<none>''), age_cell now object])),
      ([''CertificateSigningRequest''], [col ''NAME'' ''Name'', col ''AGE'' ''Age'', col ''SIGNERNAME'' ''Signer'', col ''REQUESTOR'' ''Requestor'',
         col ''REQUESTEDDURATION'' ''Duration'', col ''CONDITION'' ''Condition''], request_cells now),
      created_case [''StorageClass'', ''IngressClass'', ''CSIDriver'', ''ClusterRole'', ''ClusterRoleBinding'', ''MutatingWebhookConfiguration'',
         ''ValidatingWebhookConfiguration'', ''ValidatingAdmissionPolicy'', ''ValidatingAdmissionPolicyBinding'', ''ComponentStatus''],
      ([''Endpoints''], named_aged [col ''ENDPOINTS'' ''Addresses''], (\<lambda>object. [meta_name object, GStr (endpointAddresses object), age_cell now object])),
      ([''EndpointSlice''], named_aged [col ''ADDRESSTYPE'' ''Address type'', col ''PORTS'' ''Ports'', col ''ENDPOINTS'' ''Endpoints''],
         (\<lambda>object. [meta_name object, GStr (orDefault (stringField object ''addressType'') ''IPv4''), GStr ''443'',
            GInt (int (length (objectList (gget object ''endpoints'')))), age_cell now object])),
      created_case [''Role'', ''RoleBinding'']]"

definition default_case :: "int \<Rightarrow> tableColumn list \<times> (gobj \<Rightarrow> gval list)" where
  "default_case now = (named_aged [], (\<lambda>object. [meta_name object, age_cell now object]))"

text \<open>The cases of the switch name distinct kinds, so their order does not matter.\<close>

definition table_cases :: "(nat \<Rightarrow> nat) \<Rightarrow> int \<Rightarrow> tableCase list" where
  "table_cases uni now = workload_cases now @ cluster_cases uni now @ policy_cases uni now @ extension_cases now"

definition tableSpec :: "(nat \<Rightarrow> nat) \<Rightarrow> int \<Rightarrow> apiResource \<Rightarrow> tableColumn list \<times> (gobj \<Rightarrow> gval list)" where
  "tableSpec uni now description =
     (case filter (\<lambda>(kinds, _). r_Kind description \<in> set kinds) (table_cases uni now) of
        [] \<Rightarrow> default_case now
      | (_, spec) # _ \<Rightarrow> spec)"

definition column_definition :: "tableColumn \<Rightarrow> gval" where
  "column_definition column =
     GMap [(''name'', GStr (c_name column)), (''type'', GStr (c_columnType column)), (''format'', GStr (c_format column)),
       (''description'', GStr (c_description column)), (''priority'', GInt (c_priority column))]"

definition tableResponse :: "(nat \<Rightarrow> nat) \<Rightarrow> int \<Rightarrow> apiResource \<Rightarrow> gobj list \<Rightarrow> gobj" where
  "tableResponse uni now description items =
     (let (columns, rowCells) = tableSpec uni now description
      in [(''apiVersion'', GStr ''meta.k8s.io/v1''), (''kind'', GStr ''Table''),
          (''columnDefinitions'', GList (map column_definition columns)),
          (''rows'', GList (map (\<lambda>item. GMap [(''cells'', GList (rowCells item)), (''object'', GMap item)]) items))])"

section \<open>Rows fit their columns\<close>

lemmas cell_lists = pod_cells_def service_cells_def deployment_cells_def replica_cells_def daemonset_cells_def job_cells_def cronjob_cells_def
  secret_cells_def event_cells_def claim_cells_def volume_cells_def ingress_cells_def budget_cells_def autoscaler_cells_def apiservice_cells_def
  request_cells_def

text \<open>Every column has its cell, and the name and age columns have the name and the age of the object.\<close>

definition cell_fits :: "int \<Rightarrow> gobj \<Rightarrow> tableColumn \<Rightarrow> gval \<Rightarrow> bool" where
  "cell_fits now object column v \<longleftrightarrow>
     (c_name column = ''NAME'' \<longrightarrow> v = meta_name object) \<and> (c_name column = ''AGE'' \<longrightarrow> v = age_cell now object)"

definition row_fits :: "int \<Rightarrow> tableColumn list \<times> (gobj \<Rightarrow> gval list) \<Rightarrow> bool" where
  "row_fits now spec \<longleftrightarrow> (\<forall>object. list_all2 (cell_fits now object) (fst spec) (snd spec object))"

lemma col_name [simp]: "c_name (col n d) = n" "c_name (wideCol n d) = n"
  by (simp_all add: col_def wideCol_def)

lemmas fits_simps = row_fits_def cell_fits_def named_aged_def created_case_def cell_lists Let_def case_prod_beta

lemma workload_cases_fit: "list_all (\<lambda>c. row_fits now (snd c)) (workload_cases now)"
  by (simp add: workload_cases_def fits_simps)

lemma cluster_cases_fit: "list_all (\<lambda>c. row_fits now (snd c)) (cluster_cases uni now)"
  by (simp add: cluster_cases_def fits_simps)

lemma policy_cases_fit: "list_all (\<lambda>c. row_fits now (snd c)) (policy_cases uni now)"
  by (simp add: policy_cases_def fits_simps)

lemma extension_cases_fit: "list_all (\<lambda>c. row_fits now (snd c)) (extension_cases now)"
  by (simp add: extension_cases_def fits_simps)

lemma tableSpec_fits: "row_fits now (tableSpec uni now description)"
proof (cases "filter (\<lambda>(kinds, _). r_Kind description \<in> set kinds) (table_cases uni now)")
  case Nil
  then show ?thesis by (simp add: tableSpec_def default_case_def fits_simps)
next
  case (Cons x xs)
  then have "x \<in> set (table_cases uni now)" by (metis filter_is_subset list.set_intros(1) subsetD)
  moreover have "list_all (\<lambda>c. row_fits now (snd c)) (table_cases uni now)"
    by (simp add: table_cases_def workload_cases_fit cluster_cases_fit policy_cases_fit extension_cases_fit)
  ultimately have "row_fits now (snd x)" by (auto simp: list_all_iff)
  then show ?thesis using Cons by (cases x) (simp add: tableSpec_def)
qed

text \<open>
  C35. Every table is rectangular and its rows agree with its columns, for every kind and every object, however malformed: there is one row per object,
  each row carries its object and one cell per column definition, and the cells under NAME and AGE are the object's name and age.
\<close>

theorem table_rows_match_columns:
  "\<exists>columns rows. tableResponse uni now description items =
      [(''apiVersion'', GStr ''meta.k8s.io/v1''), (''kind'', GStr ''Table''), (''columnDefinitions'', GList (map column_definition columns)), (''rows'', GList rows)]
    \<and> list_all2 (\<lambda>item row. \<exists>cells. row = GMap [(''cells'', GList cells), (''object'', GMap item)]
        \<and> list_all2 (cell_fits now item) columns cells) items rows"
proof -
  obtain columns rowCells where spec: "tableSpec uni now description = (columns, rowCells)" by (metis prod.exhaust)
  have "list_all2 (cell_fits now item) columns (rowCells item)" for item
    using tableSpec_fits [of now uni description] by (simp add: spec row_fits_def)
  then show ?thesis by (intro exI conjI) (auto simp: tableResponse_def spec list_all2_conv_all_nth)
qed

text \<open>The age in a row is the age of the object, whatever its kind prints beside it.\<close>

lemma objectAge_stored:
  assumes "gget meta ''creationTimestamp'' = GStr (rfc3339 t)" "t < 253402300800"
  shows "objectAge now meta = formatAge (time_sub now (nanosecs (int t)))"
  using assms by (simp add: objectAge_def shortAgo_def stringField_def as_string_def parse_rfc3339_print)

text \<open>
  The age that a table prints for an object is its age: an object stamped with a creation time before the year 10000, as every
  creating handler stamps it, shows under AGE the time that has passed since then, in the units of \<^verbatim>\<open>formatAge\<close>, as long as the difference fits a duration.
\<close>

lemma age_column_true:
  assumes "tableSpec uni now description = (columns, rowCells)"
    and "gget (sub_map object ''metadata'') ''creationTimestamp'' = GStr (rfc3339 t)" "t < 253402300800"
    and "nanosecs (int t) \<le> now" "now - nanosecs (int t) \<le> maxDuration"
    and "(column, v) \<in> set (zip columns (rowCells object))" "c_name column = ''AGE''"
  shows "v = GStr (formatAge (now - nanosecs (int t)))"
proof -
  have "list_all2 (cell_fits now object) columns (rowCells object)"
    using tableSpec_fits [of now uni description] by (simp add: assms(1) row_fits_def)
  then have "cell_fits now object column v" using assms(6) by (auto simp: list_all2_iff)
  then have "v = age_cell now object" using assms(7) by (simp add: cell_fits_def)
  moreover have "time_sub now (nanosecs (int t)) = now - nanosecs (int t)" using assms(4,5) by (simp add: time_sub_def)
  ultimately show ?thesis by (simp add: objectAge_stored [OF assms(2,3)])
qed

definition demo_namespace :: gobj where
  "demo_namespace = [(''metadata'', GMap [(''name'', GStr ''shop''), (''creationTimestamp'', GStr (rfc3339 1700000000))])]"

lemma age_column_true_example:
  "snd (tableSpec id (nanosecs 1700000300) (resource ''namespaces'' ''Namespace'' False ''ns'')) demo_namespace ! 2 = GStr ''5m''"
proof -
  let ?spec = "tableSpec id (nanosecs 1700000300) (resource ''namespaces'' ''Namespace'' False ''ns'')"
  let ?columns = "named_aged [col ''STATUS'' ''Status'']"
  let ?cells = "\<lambda>object. [meta_name object, GStr (orDefault (stringField (sub_map object ''status'') ''phase'') ''Active''),
    age_cell (nanosecs 1700000300) object]"
  have spec: "?spec = (?columns, ?cells)"
    by (simp add: tableSpec_def table_cases_def workload_cases_def cluster_cases_def resource_def)
  have "(col ''AGE'' ''Age'', age_cell (nanosecs 1700000300) demo_namespace) \<in> set (zip ?columns (?cells demo_namespace))"
    by (simp add: named_aged_def)
  from age_column_true [OF spec _ _ _ _ this, of 1700000000]
  have "age_cell (nanosecs 1700000300) demo_namespace = GStr (formatAge (nanosecs 300))"
    by (simp add: demo_namespace_def gget_def objectMap_def)
  then show ?thesis unfolding spec by (simp add: formatAge_def show_int_def Let_def)
qed

end
