(* ===== verification/Base64Url.thy ===== *)
theory Base64Url
  imports Digest
begin

text \<open>
  \<^verbatim>\<open>base64.RawURLEncoding\<close> of Go's library: the URL-safe alphabet without padding. Decoding skips line breaks and ignores the bits left over
  in the last character, as Go does.
\<close>

definition url_alphabet :: string where
  "url_alphabet = ''ABCDEFGHIJKLMNOPQRSTUVWXYZabcdefghijklmnopqrstuvwxyz0123456789-_''"

definition url_char :: "nat \<Rightarrow> char" where
  "url_char n = url_alphabet ! n"

fun raw_groups :: "nat list \<Rightarrow> string" where
  "raw_groups [] = []"
| "raw_groups [a] = [url_char (a div 4), url_char (a mod 4 * 16)]"
| "raw_groups [a, b] = [url_char (a div 4), url_char (a mod 4 * 16 + b div 16), url_char (b mod 16 * 4)]"
| "raw_groups (a # b # c # rest) =
     [url_char (a div 4), url_char (a mod 4 * 16 + b div 16), url_char (b mod 16 * 4 + c div 64), url_char (c mod 64)] @ raw_groups rest"

definition rawurl_encode :: "string \<Rightarrow> string" where
  "rawurl_encode s = raw_groups (map of_char s)"

definition url_value :: "char \<Rightarrow> nat option" where
  "url_value c =
     (let n = of_char c
      in if 65 \<le> n \<and> n \<le> 90 then Some (n - 65) else if 97 \<le> n \<and> n \<le> 122 then Some (n - 71)
         else if 48 \<le> n \<and> n \<le> 57 then Some (n + 4) else if n = 45 then Some 62 else if n = 95 then Some 63 else None)"

fun raw_bytes :: "nat list \<Rightarrow> nat list option" where
  "raw_bytes [] = Some []"
| "raw_bytes [p] = None"
| "raw_bytes [p, q] = Some [p * 4 + q div 16]"
| "raw_bytes [p, q, r] = Some [p * 4 + q div 16, q mod 16 * 16 + r div 4]"
| "raw_bytes (p # q # r # t # rest) =
     map_option (\<lambda>bs. [p * 4 + q div 16, q mod 16 * 16 + r div 4, r mod 4 * 64 + t] @ bs) (raw_bytes rest)"

definition rawurl_decode :: "string \<Rightarrow> string option" where
  "rawurl_decode s =
     (let vs = map url_value (filter (\<lambda>c. c \<noteq> CHR 0x0A \<and> c \<noteq> CHR 0x0D) s)
      in if None \<in> set vs then None else map_option (map char_of) (raw_bytes (map the vs)))"

lemma url_value_char: "n < 64 \<Longrightarrow> url_value (url_char n) = Some n"
proof -
  assume n: "n < 64"
  have "list_all (\<lambda>n. url_value (url_alphabet ! n) = Some n) [0..<64]"
    by (simp add: url_value_def url_alphabet_def upt_rec)
  then show ?thesis using n by (simp add: list_all_iff url_char_def)
qed

lemma url_value_Some: "url_value c = Some n \<Longrightarrow> c \<noteq> CHR 0x0A \<and> c \<noteq> CHR 0x0D"
  by (auto simp: url_value_def)

lemma sextets:
  fixes a b :: nat
  assumes "a < 256" "b < 256"
  shows "a mod 4 * 16 + b div 16 < 64" "a mod 16 * 4 + b div 64 < 64"
  using assms by linarith+

lemma raw_groups_values:
  "list_all (\<lambda>a. a < 256) bs \<Longrightarrow>
   \<exists>vs. map url_value (raw_groups bs) = map Some vs \<and> raw_bytes vs = Some bs"
proof (induction bs rule: raw_groups.induct)
  case (2 a)
  then show ?case by (intro exI [of _ "[a div 4, a mod 4 * 16]"]) (simp add: url_value_char)
next
  case (3 a b)
  then have "a < 256" "b < 256" by simp_all
  then have "a div 4 < 64" "b div 16 < 16" by linarith+
  then have "a div 4 < 64" "b div 16 div 16 = 0" "b div 16 mod 16 * 16 + b mod 16 = b" using div_mult_mod_eq [of b 16] by simp_all
  then show ?case using 3
    by (intro exI [of _ "[a div 4, a mod 4 * 16 + b div 16, b mod 16 * 4]"]) (simp add: url_value_char sextets)
next
  case (4 a b c rest)
  then obtain vs where vs: "map url_value (raw_groups rest) = map Some vs" "raw_bytes vs = Some rest" by auto
  from 4 have "a < 256" "b < 256" "c < 256" by simp_all
  then have d: "a div 4 < 64" "b div 16 < 16" "c div 64 < 4" by linarith+
  then have "b div 16 mod 16 * 16 + b mod 16 = b" "c div 64 mod 4 * 64 + c mod 64 = c"
    using div_mult_mod_eq [of b 16] div_mult_mod_eq [of c 64] by simp_all
  then show ?case using 4 vs d
    by (intro exI [of _ "[a div 4, a mod 4 * 16 + b div 16, b mod 16 * 4 + c div 64, c mod 64] @ vs"]) (simp add: url_value_char sextets)
qed simp

lemma rawurl_values:
  obtains vs where "map url_value (rawurl_encode s) = map Some vs" "raw_bytes vs = Some (map of_char s)"
  using raw_groups_values [of "map of_char s"] by (auto simp: rawurl_encode_def list_all_iff)

lemma rawurl_char: "c \<in> set (rawurl_encode s) \<Longrightarrow> \<exists>n. url_value c = Some n"
proof -
  obtain vs where "map url_value (rawurl_encode s) = map Some vs" by (rule rawurl_values)
  then have "url_value ` set (rawurl_encode s) = Some ` set vs" by (metis list.set_map)
  then show "c \<in> set (rawurl_encode s) \<Longrightarrow> \<exists>n. url_value c = Some n" by blast
qed

lemma rawurl_round_trip [simp]: "rawurl_decode (rawurl_encode s) = Some s"
proof -
  obtain vs where vs: "map url_value (rawurl_encode s) = map Some vs" "raw_bytes vs = Some (map of_char s)" by (rule rawurl_values)
  have "filter (\<lambda>c. c \<noteq> CHR 0x0A \<and> c \<noteq> CHR 0x0D) (rawurl_encode s) = rawurl_encode s"
    using rawurl_char url_value_Some by (fastforce simp: filter_id_conv)
  then show ?thesis using vs by (simp add: rawurl_decode_def Let_def comp_def)
qed

lemma rawurl_encode_empty [simp]: "rawurl_encode s = [] \<longleftrightarrow> s = []"
  by (cases "map of_char s :: nat list" rule: raw_groups.cases) (auto simp: rawurl_encode_def)

end
