(* ===== verification/Paging.thy ===== *)
theory Paging
  imports Handlers Json Tables Base64Url
begin

text \<open>
  Listing a collection (\<^verbatim>\<open>list\<close>, \<^verbatim>\<open>parseContinue\<close>, \<^verbatim>\<open>makeContinueToken\<close> of \<^verbatim>\<open>handler/api.go\<close>): a page, and a \<^verbatim>\<open>continue\<close> token from which the
  next request takes up. The token is the JSON of a struct in URL-safe base64 and names the revision, a digest of the query and the offset. The handler reads the store
  twice, for the revision and for the page, so it has two stores as arguments; a client that follows the tokens of an unchanged store reads every match once.
\<close>

section \<open>Tokens\<close>

record continueValue =
  cv_Version :: string
  cv_Identity :: string
  cv_Offset :: int

definition decode_int :: "json \<Rightarrow> int \<Rightarrow> int option" where
  "decode_int j old = (case j of JNum lit \<Rightarrow> atoi lit | JNull \<Rightarrow> Some old | _ \<Rightarrow> None)"

definition continue_field :: "string \<Rightarrow> json \<Rightarrow> continueValue \<Rightarrow> continueValue option" where
  "continue_field key j v =
     (if field_is key ''resourceVersion'' then map_option (\<lambda>s. v\<lparr>cv_Version := s\<rparr>) (decode_string j (cv_Version v))
      else if field_is key ''identity'' then map_option (\<lambda>s. v\<lparr>cv_Identity := s\<rparr>) (decode_string j (cv_Identity v))
      else if field_is key ''offset'' then map_option (\<lambda>n. v\<lparr>cv_Offset := n\<rparr>) (decode_int j (cv_Offset v))
      else Some v)"

definition unmarshal_continue :: "string \<Rightarrow> continueValue option" where
  "unmarshal_continue data =
     Option.bind (json_parse data) (\<lambda>j. decode_struct continue_field j \<lparr>cv_Version = [], cv_Identity = [], cv_Offset = 0\<rparr>)"

definition parseContinue :: "string \<Rightarrow> string \<Rightarrow> string \<Rightarrow> string + int" where
  "parseContinue token version identity =
     (if token = [] then Inr 0
      else case rawurl_decode token of
          None \<Rightarrow> Inl ''continue token is invalid''
        | Some decoded \<Rightarrow>
            (case unmarshal_continue decoded of
               None \<Rightarrow> Inl ''continue token is invalid''
             | Some v \<Rightarrow>
                 if cv_Offset v < 0 then Inl ''continue token is invalid''
                 else if cv_Version v \<noteq> version \<or> cv_Identity v \<noteq> identity then Inl ''continue token is no longer valid''
                 else Inr (cv_Offset v)))"

definition makeContinueToken :: "string \<Rightarrow> int \<Rightarrow> string \<Rightarrow> string" where
  "makeContinueToken version offset identity =
     rawurl_encode (struct_text [(''resourceVersion'', json_quote version), (''identity'', json_quote identity), (''offset'', show_int offset)])"

section \<open>The handler\<close>

definition selectorIdentity :: "request \<Rightarrow> groupVersion \<Rightarrow> string \<Rightarrow> apiResource \<Rightarrow> string" where
  "selectorIdentity rq gv namespace description =
     hex_bytes (sha256 (go_join [CHR 0x00] [Group gv, Version gv, namespace, r_Name description, queryParam rq ''labelSelector'', queryParam rq ''fieldSelector'']))"

definition list_body :: "groupVersion \<Rightarrow> apiResource \<Rightarrow> string \<Rightarrow> string \<Rightarrow> int option \<Rightarrow> gobj list \<Rightarrow> gobj" where
  "list_body gv description version continueToken remaining items =
     [(''apiVersion'', GStr (apiVersionFor gv)), (''kind'', GStr (r_Kind description @ ''List'')),
      (''metadata'', GMap ([(''resourceVersion'', GStr version), (''continue'', GStr continueToken)] @
         (case remaining of Some n \<Rightarrow> [(''remainingItemCount'', GInt n)] | None \<Rightarrow> []))),
      (''items'', GList (map GMap items))]"

definition bad_request :: "string \<Rightarrow> response" where
  "bad_request message = status 400 ''BadRequest'' message []"

text \<open>\<open>s0\<close> is the store when the revision is read, \<open>s\<close> when the page is.\<close>

definition list_page :: "(nat \<Rightarrow> nat) \<Rightarrow> apiEnv \<Rightarrow> string \<Rightarrow> request \<Rightarrow> groupVersion \<Rightarrow> string \<Rightarrow> apiResource \<Rightarrow> int \<Rightarrow> int \<Rightarrow> string \<Rightarrow> objectStore \<Rightarrow> response" where
  "list_page uni a accept rq gv namespace description offset limit rv s =
     (let labels = fst (parseSelector (queryParam rq ''labelSelector'')); fieldReqs = fst (parseSelector (queryParam rq ''fieldSelector''));
          requested = queryParam rq ''resourceVersion''
      in case listPage gv namespace (r_Name description) labels fieldReqs offset limit s of
           None \<Rightarrow> bad_request ''continue token offset is invalid''
         | Some (items, tot, nextOffset) \<Rightarrow>
             if requested \<noteq> [] \<and> requested \<noteq> ''0'' \<and> requested \<noteq> rv
             then status 410 ''Expired'' ''The resourceVersion for the provided list is too old'' []
             else if requestsTable accept then Reply 200 (tableResponse uni (int (ae_clock a)) description items)
             else if nextOffset < tot
             then Reply 200 (list_body gv description rv (makeContinueToken rv nextOffset (selectorIdentity rq gv namespace description)) (Some (tot - nextOffset)) items)
             else Reply 200 (list_body gv description rv [] None items))"

definition list_handler :: "(nat \<Rightarrow> nat) \<Rightarrow> apiEnv \<Rightarrow> bool \<Rightarrow> string \<Rightarrow> request \<Rightarrow> groupVersion \<Rightarrow> string \<Rightarrow> apiResource \<Rightarrow> objectStore \<Rightarrow> objectStore \<Rightarrow> response" where
  "list_handler uni a slot accept rq gv namespace description s0 s =
     (if \<not> slot then capacityError
      else if \<not> validFieldSelector (queryParam rq ''fieldSelector'') then bad_request ''fieldSelector is invalid''
      else let rv = resourceVersion s0
           in case parseListLimit (queryParam rq ''limit'') of
                None \<Rightarrow> bad_request ''limit must be an integer from 0 to 1000''
              | Some limit \<Rightarrow>
                  (case parseContinue (queryParam rq ''continue'') rv (selectorIdentity rq gv namespace description) of
                     Inl message \<Rightarrow>
                       (if contains_str message ''no longer valid'' then status 410 ''Expired'' message [] else bad_request message)
                   | Inr offset \<Rightarrow> list_page uni a accept rq gv namespace description offset limit rv s))"

section \<open>A token is read back\<close>

lemma ascii_utf8: "list_all (\<lambda>c. byte c < 128) t \<Longrightarrow> utf8_ok t"
  by (induction t) (simp_all add: utf8_ok.simps decode_rune_def)

lemma digits_ascii: "list_all is_digit t \<Longrightarrow> list_all (\<lambda>c. byte c < 128) t"
  by (auto simp: list_all_iff is_digit_def byte_def)

lemma field_is_refl [simp]: "field_is key key"
  by (simp add: field_is_def)

lemma continue_fields:
  "\<not> field_is ''identity'' ''resourceVersion''" "\<not> field_is ''offset'' ''resourceVersion''" "\<not> field_is ''offset'' ''identity''"
  by (simp_all add: field_is_def runes.simps decode_rune_def byte_def)

lemma unmarshal_continue_token:
  assumes "utf8_ok version" "utf8_ok identity" "- (2 ^ 63) \<le> offset" "offset < 2 ^ 63"
  shows "unmarshal_continue (struct_text [(''resourceVersion'', json_quote version), (''identity'', json_quote identity), (''offset'', show_int offset)]) =
    Some \<lparr>cv_Version = version, cv_Identity = identity, cv_Offset = offset\<rparr>"
proof -
  let ?m = "[(''resourceVersion'', (json_quote version, JStr version)), (''identity'', (json_quote identity, JStr identity)), (''offset'', (show_int offset, JNum (show_int offset)))]"
  have key: "utf8_ok ''resourceVersion''" "utf8_ok ''identity''" "utf8_ok ''offset''" by (simp_all add: ascii_utf8 byte_def)
  have q: "scan_char (CHR 0x22) (MBegin, st) = Some (MStr [], st)" for st by (simp add: begin_value_def json_space_def)
  have "utf8_ok k \<and> (\<exists>s. scan_all (fst x) (MBegin, FVal acc k # []) = Some s \<and> value_read (snd x) (FVal acc k # []) s)"
    if "(k, x) \<in> set ?m" for k x acc
    using that key scan_json_quote [OF assms(1) q] scan_json_quote [OF assms(2) q] scan_show_int by (auto simp: value_read_def)
  from json_parse_struct [of ?m, OF _ this]
  have "json_parse (struct_text [(''resourceVersion'', json_quote version), (''identity'', json_quote identity), (''offset'', show_int offset)]) =
    Some (JObj [(''resourceVersion'', JStr version), (''identity'', JStr identity), (''offset'', JNum (show_int offset))])" by simp
  then show ?thesis
    using atoi_show_int [OF assms(3,4)] by (simp add: unmarshal_continue_def decode_struct_def continue_field_def continue_fields decode_string_def decode_int_def)
qed

text \<open>
  C36. A continue token gives back exactly what it was made from: at the same revision and for the same query it yields the offset, and at any other
  revision or for any other query it is refused as expired.
\<close>

theorem continue_token_round_trip:
  assumes "utf8_ok version" "utf8_ok identity" "0 \<le> offset" "offset < 2 ^ 63"
  shows "parseContinue (makeContinueToken version offset identity) version' identity' =
    (if version' = version \<and> identity' = identity then Inr offset else Inl ''continue token is no longer valid'')"
  using unmarshal_continue_token [OF assms(1,2) _ assms(4)] assms(3)
  by (simp add: parseContinue_def makeContinueToken_def) (simp add: struct_text_def)

theorem continue_token_round_trip_witness:
  "parseContinue (makeContinueToken ''1007'' 100 ''ab'') ''1007'' ''ab'' = Inr 100 \<and>
   parseContinue (makeContinueToken ''1007'' 100 ''ab'') ''1008'' ''ab'' = Inl ''continue token is no longer valid''"
proof -
  have "utf8_ok ''1007''" "utf8_ok ''ab''" by (simp_all add: ascii_utf8 byte_def)
  from continue_token_round_trip [OF this, of 100] show ?thesis by simp
qed

section \<open>Following the tokens\<close>

definition with_token :: "string \<Rightarrow> request \<Rightarrow> request" where
  "with_token token rq = rq\<lparr>rq_query := AList.update ''continue'' token (rq_query rq)\<rparr>"

definition next_token :: "gobj \<Rightarrow> string" where
  "next_token body = stringField (objectMap (gget body ''metadata'')) ''continue''"

definition page_items :: "gobj \<Rightarrow> gobj list" where
  "page_items body = map objectMap (objectList (gget body ''items''))"

text \<open>What a client collects that asks again with each token it gets, until a page has none.\<close>

inductive follows :: "(request \<Rightarrow> response) \<Rightarrow> request \<Rightarrow> string \<Rightarrow> gobj list \<Rightarrow> bool" for serve rq where
  last_page: "serve (with_token token rq) = Reply 200 body \<Longrightarrow> next_token body = [] \<Longrightarrow> follows serve rq token (page_items body)"
| next_page: "serve (with_token token rq) = Reply 200 body \<Longrightarrow> next_token body \<noteq> [] \<Longrightarrow> follows serve rq (next_token body) rest
    \<Longrightarrow> follows serve rq token (page_items body @ rest)"

inductive_cases followsE: "follows serve rq token ys"

lemma follows_unique: "follows serve rq token xs \<Longrightarrow> follows serve rq token ys \<Longrightarrow> xs = ys"
proof (induction arbitrary: ys rule: follows.induct)
  case (last_page token body)
  from last_page.prems show ?case by (rule followsE) (use last_page.hyps in simp_all)
next
  case (next_page token body rest)
  from next_page.prems show ?case
  proof (rule followsE)
    fix body' rest'
    assume "serve (with_token token rq) = Reply 200 body'" "follows serve rq (next_token body') rest'" "ys = page_items body' @ rest'"
    then show ?thesis using next_page.hyps(1) next_page.IH [of rest'] by simp
  qed (use next_page.hyps in simp)
qed

lemma queryParam_with_token: "queryParam (with_token token rq) key = (if key = ''continue'' then token else queryParam rq key)"
  by (simp add: queryParam_def with_token_def update_conv')

lemma next_token_body [simp]: "next_token (list_body gv d version token remaining items) = token"
  by (simp add: next_token_def list_body_def gget_def objectMap_def stringField_def as_string_def)

lemma page_items_body [simp]: "page_items (list_body gv d version token remaining items) = items"
  by (simp add: page_items_def list_body_def gget_def objectMap_def objectList_def comp_def)

lemma token_nonempty: "makeContinueToken version offset identity \<noteq> []"
  by (simp add: makeContinueToken_def struct_text_def)

lemma hex_ascii: "list_all (\<lambda>c. byte c < 128) (hex_bytes bs)"
  by (induction bs) (auto simp: hex_bytes_def hex_byte_def hex_digit_def byte_def)

definition list_matches :: "request \<Rightarrow> groupVersion \<Rightarrow> string \<Rightarrow> apiResource \<Rightarrow> objectStore \<Rightarrow> (objectKey \<times> gobj) list" where
  "list_matches rq gv namespace description s =
     candidates gv namespace (r_Name description) (fst (parseSelector (queryParam rq ''labelSelector''))) (fst (parseSelector (queryParam rq ''fieldSelector''))) s"

definition list_request_ok :: "request \<Rightarrow> string \<Rightarrow> objectStore \<Rightarrow> bool" where
  "list_request_ok rq accept s \<longleftrightarrow>
     validFieldSelector (queryParam rq ''fieldSelector'') \<and> parseListLimit (queryParam rq ''limit'') \<noteq> None \<and> \<not> requestsTable accept \<and>
     queryParam rq ''resourceVersion'' \<in> {[], ''0'', resourceVersion s}"

lemma list_handler_page:
  assumes "list_request_ok rq accept s" "parseListLimit (queryParam rq ''limit'') = Some limit"
    and "parseContinue token (resourceVersion s) (selectorIdentity rq gv ns d) = Inr offset"
    and "listPage gv ns (r_Name d) (fst (parseSelector (queryParam rq ''labelSelector''))) (fst (parseSelector (queryParam rq ''fieldSelector''))) offset limit s
      = Some (items, tot, nxt)"
  shows "list_handler uni a True accept (with_token token rq) gv ns d s s =
    Reply 200 (if nxt < tot
      then list_body gv d (resourceVersion s) (makeContinueToken (resourceVersion s) nxt (selectorIdentity rq gv ns d)) (Some (tot - nxt)) items
      else list_body gv d (resourceVersion s) [] None items)"
proof -
  have "selectorIdentity (with_token token rq) gv ns d = selectorIdentity rq gv ns d" by (simp add: selectorIdentity_def queryParam_with_token)
  then show ?thesis using assms by (auto simp: list_handler_def list_page_def list_request_ok_def queryParam_with_token Let_def)
qed

lemma follows_from:
  assumes ok: "list_request_ok rq accept s" "length (objects s) \<le> 4096" and "0 \<le> offset" "offset \<le> int (length (list_matches rq gv ns d s))"
    and "parseContinue token (resourceVersion s) (selectorIdentity rq gv ns d) = Inr offset"
  shows "follows (\<lambda>r. list_handler uni a True accept r gv ns d s s) rq token (map (cloneObject \<circ> snd) (drop (nat offset) (list_matches rq gv ns d s)))"
  using assms(3-)
proof (induction "nat (int (length (list_matches rq gv ns d s)) - offset)" arbitrary: offset token rule: less_induct)
  case less
  let ?cs = "list_matches rq gv ns d s" and ?rv = "resourceVersion s" and ?id = "selectorIdentity rq gv ns d"
  obtain limit where limit: "parseListLimit (queryParam rq ''limit'') = Some limit" using ok(1) by (auto simp: list_request_ok_def)
  obtain items tot nxt where page: "listPage gv ns (r_Name d) (fst (parseSelector (queryParam rq ''labelSelector'')))
      (fst (parseSelector (queryParam rq ''fieldSelector''))) offset limit s = Some (items, tot, nxt)"
    using less.prems by (auto simp: listPage_def Let_def list_matches_def)
  note facts = listPage_SomeD [OF page, folded list_matches_def] and prog = listPage_progress [OF page]
  note reply = list_handler_page [OF ok(1) limit less.prems(3) page]
  have nx: "nat nxt = nat offset + length items" using facts(1,4) by simp
  have rest: "map (cloneObject \<circ> snd) (drop (nat offset) ?cs) = items @ map (cloneObject \<circ> snd) (drop (nat nxt) ?cs)"
    using facts(7) unfolding nx add.commute [of "nat offset"] drop_drop [symmetric] by (metis append_take_drop_id map_append)
  show ?case
  proof (cases "nxt < tot")
    case True
    have "tot \<le> 4096" using facts(3) ok(2) by (simp add: list_matches_def candidates_def order_trans [OF length_filter_le])
    moreover have "utf8_ok ?rv" "utf8_ok ?id"
      by (simp_all add: resourceVersion_def selectorIdentity_def ascii_utf8 digits_ascii show_nat_digits hex_ascii)
    ultimately have parsed: "parseContinue (makeContinueToken ?rv nxt ?id) ?rv ?id = Inr nxt"
      using True facts(1,4) unmarshal_continue_token [of ?rv ?id nxt] token_nonempty [of ?rv nxt ?id]
      by (simp add: parseContinue_def makeContinueToken_def)
    have "follows (\<lambda>r. list_handler uni a True accept r gv ns d s s) rq (makeContinueToken ?rv nxt ?id) (map (cloneObject \<circ> snd) (drop (nat nxt) ?cs))"
      using True facts(1,3,4) prog parsed by (intro less.hyps) auto
    then show ?thesis unfolding rest
      using follows.next_page [where serve = "\<lambda>r. list_handler uni a True accept r gv ns d s s", OF reply] True token_nonempty by simp
  next
    case False
    then have "drop (nat nxt) ?cs = []" using facts(3) by simp
    then show ?thesis unfolding rest
      using follows.last_page [where serve = "\<lambda>r. list_handler uni a True accept r gv ns d s s", OF reply] False by simp
  qed
qed

text \<open>
  C13. A client that lists a collection and follows the continue tokens comes to an end and has then read every matching object exactly once, in the
  order of namespace and name, as the store holds it: for every limit and selector that the handler accepts, while the store does not change. No other sequence of items can result.
\<close>

theorem list_follows_tokens:
  assumes "store_ok s" "list_request_ok rq accept s"
  shows "\<exists>keys items. distinct keys \<and> sorted (map (\<lambda>key. (k_namespace key, k_name key)) keys) \<and>
    set keys = {key. key_matches gv ns (r_Name d) key \<and> (\<exists>object. get s key = Some object \<and>
      objectMatches object (fst (parseSelector (queryParam rq ''labelSelector''))) (fst (parseSelector (queryParam rq ''fieldSelector''))))} \<and>
    map Some items = map (get s) keys \<and>
    (\<forall>xs. follows (\<lambda>r. list_handler uni a True accept r gv ns d s s) rq [] xs \<longleftrightarrow> xs = items)"
proof -
  let ?ls = "fst (parseSelector (queryParam rq ''labelSelector''))" and ?fs = "fst (parseSelector (queryParam rq ''fieldSelector''))"
  let ?items = "map (cloneObject \<circ> snd) (list_matches rq gv ns d s)"
  have "length (objects s) \<le> 4096" using assms(1) by (simp add: store_ok_def)
  then have "follows (\<lambda>r. list_handler uni a True accept r gv ns d s s) rq [] ?items"
    using follows_from [OF assms(2), of 0 gv ns d "[]" uni a] by (simp add: parseContinue_def)
  then have "follows (\<lambda>r. list_handler uni a True accept r gv ns d s s) rq [] xs \<longleftrightarrow> xs = ?items" for xs using follows_unique by blast
  moreover have "all_pages gv ns (r_Name d) ?ls ?fs 0 s 0 = ?items" by (simp add: all_pages_drop list_matches_def)
  moreover obtain keys where "distinct keys" "sorted (map (\<lambda>key. (k_namespace key, k_name key)) keys)"
      "set keys = {key. key_matches gv ns (r_Name d) key \<and> (\<exists>object. get s key = Some object \<and> objectMatches object ?ls ?fs)}"
      "map Some (all_pages gv ns (r_Name d) ?ls ?fs 0 s 0) = map (get s) keys"
    using pages_enumerate_matches [OF assms(1)] by blast
  ultimately show ?thesis by (intro exI [of _ keys] exI [of _ ?items]) simp
qed

definition demo_list :: request where
  "demo_list = \<lparr>rq_method = ''GET'', rq_path = ''/api/v1/pods'', rq_remote = [], rq_media = [], rq_query = [(''limit'', ''1'')],
     rq_object = Inr [], rq_operations = Inr []\<rparr>"

theorem list_follows_tokens_witness:
  "\<exists>items. follows (\<lambda>r. list_handler id demo_env True [] r (gv' [] ''v1'') [] (resource ''pods'' ''Pod'' True ''po'') demo_store demo_store) demo_list [] items"
proof -
  have trim_empty: "trim_space [] = []" by (rule trim_space_plain) simp_all
  have "list_request_ok demo_list [] demo_store"
    by (simp add: list_request_ok_def demo_list_def queryParam_def validFieldSelector_def parseSelector_def trim_empty
        parseListLimit_def atoi_def parse_digits_def is_digit_def digits_val_def digit_val_def requestsTable_def clause_params_def)
  from list_follows_tokens [OF demo_ok(1) this] show ?thesis by blast
qed

section \<open>Tables have no next page\<close>

text \<open>
  C37. A client that asks for a table, as \<^verbatim>\<open>kubectl get\<close> does, cannot page: when matches are left after the page, the table still carries no metadata, so
  neither the continue token nor the number of remaining objects nor the revision reaches the client, which sees a complete list of at most 100 rows.
\<close>

theorem table_listing_is_cut:
  assumes "validFieldSelector (queryParam rq ''fieldSelector'')" "requestsTable accept"
    and "parseListLimit (queryParam rq ''limit'') = Some limit" "queryParam rq ''continue'' = []" "queryParam rq ''resourceVersion'' = []"
    and "listPage gv ns (r_Name d) (fst (parseSelector (queryParam rq ''labelSelector''))) (fst (parseSelector (queryParam rq ''fieldSelector''))) 0 limit s
      = Some (items, tot, nxt)" "nxt < tot"
  shows "\<exists>body. list_handler uni a True accept rq gv ns d s0 s = Reply 200 body \<and> gget body ''metadata'' = GNil \<and> next_token body = [] \<and>
    length (objectList (gget body ''rows'')) = length items \<and> length items \<le> 100 \<and> int (length items) < tot"
proof -
  have "list_handler uni a True accept rq gv ns d s0 s = Reply 200 (tableResponse uni (int (ae_clock a)) d items)"
    using assms by (simp add: list_handler_def list_page_def parseContinue_def Let_def)
  moreover have "gget (tableResponse uni now d items) ''metadata'' = GNil" "length (objectList (gget (tableResponse uni now d items) ''rows'')) = length items" for now
    by (simp_all add: tableResponse_def gget_def objectList_def case_prod_beta)
  ultimately show ?thesis
    using listPage_SomeD(4,5) [OF assms(6)] assms(7) by (simp add: next_token_def stringField_def gget_def as_string_def)
qed

theorem table_listing_is_cut_witness:
  "\<exists>body. list_handler id demo_env True ''application/json;as=Table'' demo_list (gv' [] ''v1'') [] (resource ''pods'' ''Pod'' True ''po'') demo_store demo_store = Reply 200 body \<and>
    next_token body = []"
proof -
  have empty: "trim_space [] = []" and media: "trim_space ''application/json'' = ''application/json''" "trim_space ''as=Table'' = ''as=Table''"
    by (rule trim_space_plain, simp add: plain_char_def)+
  have "requestsTable ''application/json;as=Table''"
    by (simp add: requestsTable_def clause_params_def media has_prefix_def to_lower_def lower_char_def)
  moreover have "parseSelector [] = ([], True)" "parseListLimit ''1'' = Some 1"
    by (simp_all add: parseSelector_def empty parseListLimit_def atoi_def parse_digits_def is_digit_def digits_val_def digit_val_def)
  moreover have "\<exists>items. listPage (gv' [] ''v1'') [] ''pods'' [] [] 0 1 demo_store = Some (items, 2, 1)"
    by (simp add: demo_store_eval listPage_def candidates_def key_matches_def gv'_def Let_def)
  then obtain items where "listPage (gv' [] ''v1'') [] ''pods'' [] [] 0 1 demo_store = Some (items, 2, 1)" by blast
  ultimately show ?thesis
    using table_listing_is_cut [of demo_list "''application/json;as=Table''" 1 "gv' [] ''v1''" "[]" "resource ''pods'' ''Pod'' True ''po''" demo_store items 2 1 id demo_env demo_store]
    by (auto simp: demo_list_def queryParam_def validFieldSelector_def resource_def)
qed

end
