(* ===== verification/Reading.thy ===== *)
theory Reading
  imports Paging
begin

text \<open>
  The requests of the API server that only read (\<^verbatim>\<open>handler/api.go\<close>): the watch stream, single objects and their subresources, pod logs, service account
  tokens, access reviews, resource metrics, and the routing of every path, from \<^verbatim>\<open>ServeHTTP\<close> and \<^verbatim>\<open>splitPath\<close> on, to the handlers of \<open>Handlers\<close> and of this theory. A channel with a
  free slot is an argument, as is whether the connection can be flushed; the clock is in \<open>apiEnv\<close>.
\<close>

datatype readReply =
    JsonReply response
  | TextReply int string \<comment> \<open>status and body of \<^verbatim>\<open>c.String\<close>\<close>

section \<open>Watch\<close>

text \<open>\<^verbatim>\<open>timeoutSeconds\<close>; \<open>None\<close> is the 400.\<close>

definition watch_seconds :: "string \<Rightarrow> int option" where
  "watch_seconds raw =
     (if raw = [] then Some 5
      else case atoi raw of
          None \<Rightarrow> None
        | Some parsed \<Rightarrow> if parsed < 0 then None else if 0 < parsed \<and> parsed < 5 then Some parsed else Some 5)"

text \<open>One line of the stream: \<^verbatim>\<open>json.NewEncoder(w).Encode(event)\<close>.\<close>

definition watch_frame :: "watchEvent \<Rightarrow> string" where
  "watch_frame event = struct_text [(''type'', json_quote (ev_Type event)), (''object'', marshal (GMap (ev_Object event)))] @ [CHR 0x0A]"

datatype watchStart =
    Refused response
  | Ended "string list" \<comment> \<open>the frames written before the handler returned\<close>
  | Streaming watcher "string list" int \<comment> \<open>the frames replayed and the seconds of the timer\<close>

definition replay :: "request \<Rightarrow> groupVersion \<Rightarrow> string \<Rightarrow> string \<Rightarrow> objectStore \<Rightarrow> watchEvent list" where
  "replay rq gv namespace res s =
     (if queryParam rq ''resourceVersion'' = [] \<or> queryParam rq ''resourceVersion'' = ''0'' then
        (case listPage gv namespace res (fst (parseSelector (queryParam rq ''labelSelector''))) (fst (parseSelector (queryParam rq ''fieldSelector''))) 0 maxListPageItems s of
           Some (items, _, _) \<Rightarrow> map (\<lambda>item. \<lparr>ev_Type = ''ADDED'', ev_Object = item\<rparr>) items
         | None \<Rightarrow> [])
      else [])"

text \<open>The handler up to its loop. The connection takes \<open>room\<close> frames before a write fails; the replay is read after the watch is registered.\<close>

definition watch_handler :: "bool \<Rightarrow> bool \<Rightarrow> nat \<Rightarrow> request \<Rightarrow> groupVersion \<Rightarrow> string \<Rightarrow> string \<Rightarrow> objectStore \<Rightarrow> watchStart \<times> objectStore" where
  "watch_handler slot canFlush room rq gv namespace res s =
     (if \<not> slot then (Refused capacityError, s)
      else if \<not> snd (parseSelector (queryParam rq ''labelSelector'')) then (Refused (bad_request ''labelSelector is invalid''), s)
      else if \<not> validFieldSelector (queryParam rq ''fieldSelector'') then (Refused (bad_request ''fieldSelector is invalid''), s)
      else case watch_seconds (queryParam rq ''timeoutSeconds'') of
          None \<Rightarrow> (Refused (bad_request ''timeoutSeconds must be a non-negative integer''), s)
        | Some seconds \<Rightarrow>
            (let (watcher, s1) = watch gv namespace res (fst (parseSelector (queryParam rq ''labelSelector''))) (fst (parseSelector (queryParam rq ''fieldSelector''))) s;
                 frames = map watch_frame (replay rq gv namespace res s1)
             in if \<not> canFlush then (Ended [], unwatch watcher s1)
                else if room < length frames then (Ended (take room frames), unwatch watcher s1)
                else (Streaming watcher frames seconds, s1)))"

text \<open>One turn of the loop: what the \<^verbatim>\<open>select\<close> chose, the frames written, whether the loop goes on, and the store. A channel that is not ready is not chosen (\<open>None\<close>).\<close>

datatype watchSignal = RequestDone | TimerFired | ChannelReady

definition watch_turn :: "watchSignal \<Rightarrow> bool \<Rightarrow> watcher \<Rightarrow> objectStore \<Rightarrow> (string list \<times> bool \<times> objectStore) option" where
  "watch_turn signal writable watcher s =
     (case signal of
        ChannelReady \<Rightarrow>
          (case recv_event watcher s of
             None \<Rightarrow> None
           | Some (None, s1) \<Rightarrow> Some ([], False, unwatch watcher s1)
           | Some (Some event, s1) \<Rightarrow>
               if writable then Some ([watch_frame event], True, s1) else Some ([], False, unwatch watcher s1))
      | _ \<Rightarrow> Some ([], False, unwatch watcher s))"

section \<open>Pod logs\<close>

definition podContainerImage :: "gobj \<Rightarrow> string \<Rightarrow> string" where
  "podContainerImage pod container =
     (case find (\<lambda>entry. stringField (objectMap entry) ''name'' = container) (objectList (gget (objectMap (gget pod ''spec'')) ''containers'')) of
        Some entry \<Rightarrow> stringField (objectMap entry) ''image''
      | None \<Rightarrow> [])"

definition quoted :: "string \<Rightarrow> string" where
  "quoted s = [CHR 0x22] @ s @ [CHR 0x22]"

definition syntheticPodLog :: "gobj \<Rightarrow> string \<Rightarrow> string list" where
  "syntheticPodLog pod container =
     (let img = podContainerImage pod container
      in if contains_str img ''coredns'' then
           [''.:53'', ''CoreDNS-1.11.3'', ''linux/amd64, go1.22.5'', ''[INFO] plugin/kubernetes: waiting for Kubernetes API'',
            ''[INFO] plugin/ready: Still waiting on: '' @ quoted ''kubernetes'',
            ''[INFO] plugin/reload: Running configuration SHA512 = 591cfbfcccc34f6c1bb255af4c3b1e31ba8e51be7a9f20d0d5a8d0b0e6a1a4f0'', ''CoreDNS-1.11.3'',
            ''[INFO] 127.0.0.1:47278 - 36888 '' @ quoted ''HINFO IN 5897144097345822150.7841117492784195755.'' @ '' udp 57 false 512 -'',
            ''[INFO] plugin/ready: Still waiting on: '' @ quoted ''kubernetes'']
         else if contains_str img ''kube-proxy'' then
           [''I0924 12:51:02.184634       1 server.go:677] '' @ quoted ''Watching pods'' @ '' podCIDR='' @ quoted [],
            ''I0924 12:51:02.189912       1 node.go:163] Successfully retrieved node IP'',
            ''I0924 12:51:02.190211       1 server_others.go:190] '' @ quoted ''Using iptables proxy'',
            ''I0924 12:51:02.209145       1 server.go:243] '' @ quoted ''Kube-proxy is running'' @ '' version='' @ quoted ''v1.37.0'',
            ''I0924 12:51:02.212988       1 conntrack.go:60] '' @ quoted ''Setting nf_conntrack_max'' @ '' nfConntrackMax=131072'',
            ''I0924 12:51:03.412008       1 proxier.go:802] '' @ quoted ''Syncing iptables rules'',
            ''I0924 12:51:03.460114       1 bounded_frequency_runner.go:296] sync-runner: ran, next possible in 0s'']
         else if contains_str img ''metrics-server'' then
           [''I0924 12:51:03.022145       1 serving.go:342] '' @ quoted ''Generated self-signed cert'',
            ''I0924 12:51:03.732210       1 handler.go:275] '' @ quoted ''Adding GroupVersion metrics.k8s.io v1beta1 to ResourceManager'',
            ''I0924 12:51:04.109331       1 secure_serving.go:213] Serving securely on [::]:4443'',
            ''I0924 12:51:04.117802       1 requestheader_controller.go:169] '' @ quoted ''Starting RequestHeaderAuthRequestController'',
            ''I0924 12:51:05.420076       1 scraper.go:149] '' @ quoted ''Scraping node'' @ '' node='' @ quoted ''control-plane-01'']
         else if contains_str img ''redis'' then
           [''1:C 24 Sep 2026 12:51:02.005 # oO0OoO0OoO0Oo Redis is starting oO0OoO0OoO0Oo'', ''1:C 24 Sep 2026 12:51:02.006 # Redis version=7.4.0, just started'',
            ''1:M 24 Sep 2026 12:51:02.031 * monotonic clock: POSIX clock_gettime'', ''1:M 24 Sep 2026 12:51:02.033 * Running mode=standalone, port=6379.'',
            ''1:M 24 Sep 2026 12:51:02.041 # Server initialized'', ''1:M 24 Sep 2026 12:51:02.043 * Ready to accept connections tcp'']
         else if contains_str img ''nginx'' then
           [''/docker-entrypoint.sh: Configuration complete; ready for start up'',
            ''2026/09/24 12:51:02 [notice] 1#1: using the '' @ quoted ''epoll'' @ '' event method'',
            ''2026/09/24 12:51:02 [notice] 1#1: nginx/1.30.5'', ''2026/09/24 12:51:02 [notice] 1#1: start worker processes'']
         else
           [''I0924 12:51:02.115512       1 main.go:46] '' @ quoted ''Starting'' @ '' component='' @ container,
            ''I0924 12:51:02.188240       1 main.go:88] '' @ quoted ''Connected to apiserver'',
            ''I0924 12:51:03.402178       1 server.go:140] '' @ quoted ''Listening'' @ '' address='' @ quoted '':8080'',
            ''I0924 12:51:04.221905       1 main.go:120] '' @ quoted ''Ready'' @ '' component='' @ container])"

text \<open>The lines of the answer: line \<open>i\<close> of those kept is given the time two seconds after the one before it; \<^verbatim>\<open>sinceSeconds\<close> drops the older ones.
  The product of seconds and \<^verbatim>\<open>time.Second\<close> wraps.\<close>

fun log_lines :: "request \<Rightarrow> int \<Rightarrow> nat \<Rightarrow> int \<Rightarrow> nat \<Rightarrow> string list \<Rightarrow> string" where
  "log_lines rq now started since i [] = []"
| "log_lines rq now started since i (line # rest) =
     (let at = started + 2 * i
      in (if 0 < since \<and> wrap_int64 (nanosecs since) < time_sub now (nanosecs (int at)) then []
          else (if queryParam rq ''timestamps'' = ''true'' then rfc3339 at @ '' '' else []) @ line @ [CHR 0x0A])
         @ log_lines rq now started since (Suc i) rest)"

definition tail_lines :: "string \<Rightarrow> string list \<Rightarrow> string list option" where
  "tail_lines raw ls =
     (if raw = [] then Some ls
      else case atoi raw of
          None \<Rightarrow> None
        | Some tail \<Rightarrow> if tail < 0 then None else if tail < int (length ls) then Some (drop (length ls - nat tail) ls) else Some ls)"

definition limit_bytes :: "string \<Rightarrow> string \<Rightarrow> string" where
  "limit_bytes raw output =
     (case atoi raw of Some limit \<Rightarrow> if raw \<noteq> [] \<and> 0 < limit \<and> limit < int (length output) then take (nat limit) output else output | None \<Rightarrow> output)"

definition since_seconds :: "string \<Rightarrow> int" where
  "since_seconds raw = (case atoi raw of Some n \<Rightarrow> if raw \<noteq> [] \<and> 0 < n then n else 0 | None \<Rightarrow> 0)"

definition servePodLog :: "apiEnv \<Rightarrow> request \<Rightarrow> string \<Rightarrow> string \<Rightarrow> objectStore \<Rightarrow> readReply" where
  "servePodLog a rq namespace name s =
     (case get s (mk_key [] ''v1'' ''pods'' namespace name) of
        None \<Rightarrow> JsonReply (object_not_found ''pods'' name)
      | Some pod \<Rightarrow>
          (let names = podContainerNames pod; containers = (if names = [] then [''main''] else names);
               requested0 = queryParam rq ''container''; requested = (if requested0 = [] then hd containers else requested0);
               refuse = (\<lambda>message. JsonReply (status 400 ''BadRequest'' message name))
           in if requested0 \<noteq> [] \<and> requested0 \<notin> set containers
              then refuse (''container '' @ go_quote requested @ '' is not valid for pod '' @ go_quote name)
              else if queryParam rq ''previous'' = ''true''
              then refuse (''previous terminated container '' @ go_quote requested @ '' in pod '' @ go_quote name @ '' not found'')
              else case tail_lines (queryParam rq ''tailLines'') (syntheticPodLog pod requested) of
                  None \<Rightarrow> refuse (''tailLines must be a positive integer: '' @ go_quote (queryParam rq ''tailLines''))
                | Some kept \<Rightarrow>
                    TextReply 200 (limit_bytes (queryParam rq ''limitBytes'')
                      (log_lines rq (int (ae_clock a)) (startedAt s) (since_seconds (queryParam rq ''sinceSeconds'')) 0 kept))))"

section \<open>Tokens, reviews and metrics\<close>

definition syntheticJWT :: "string \<Rightarrow> string \<Rightarrow> string" where
  "syntheticJWT namespace name =
     (let header = rawurl_encode (''{'' @ quoted ''alg'' @ '':'' @ quoted ''RS256'' @ '','' @ quoted ''kid'' @ '':'' @ quoted (suffixFor ''kid'' 0) @ ''}'');
          claims = rawurl_encode (''{'' @ quoted ''iss'' @ '':'' @ quoted ''https://kubernetes.default.svc.cluster.local'' @ '','' @
            quoted ''kubernetes.io/serviceaccount/namespace'' @ '':'' @ quoted namespace @ '','' @
            quoted ''kubernetes.io/serviceaccount/service-account.name'' @ '':'' @ quoted name @ '','' @
            quoted ''sub'' @ '':'' @ quoted (''system:serviceaccount:'' @ namespace @ '':'' @ name) @ ''}'');
          signature = rawurl_encode (stableUID (''sig/'' @ namespace @ ''/'' @ name))
      in header @ ''.'' @ claims @ ''.'' @ signature)"

definition method_refused :: "string \<Rightarrow> string \<Rightarrow> readReply" where
  "method_refused message name = JsonReply (status 405 ''MethodNotAllowed'' message name)"

definition serveTokenRequest :: "apiEnv \<Rightarrow> request \<Rightarrow> string \<Rightarrow> string \<Rightarrow> objectStore \<Rightarrow> readReply" where
  "serveTokenRequest a rq namespace name s =
     (if rq_method rq \<noteq> ''POST'' then method_refused ''only POST is supported for token requests'' name
      else if get s (mk_key [] ''v1'' ''serviceaccounts'' namespace name) = None then JsonReply (object_not_found ''serviceaccounts'' name)
      else JsonReply (Reply 201
        [(''apiVersion'', GStr ''authentication.k8s.io/v1''), (''kind'', GStr ''TokenRequest''),
         (''metadata'', GMap [(''name'', GStr name), (''namespace'', GStr namespace), (''creationTimestamp'', GStr (now_text a))]),
         (''status'', GMap [(''token'', GStr (syntheticJWT namespace name)), (''expirationTimestamp'', GStr (rfc3339 (ae_clock a div 1000000000 + 3600)))])]))"

definition serveAccessReview :: "apiEnv \<Rightarrow> request \<Rightarrow> apiResource \<Rightarrow> readReply" where
  "serveAccessReview a rq description =
     (if rq_method rq \<noteq> ''POST'' then method_refused ''only POST is supported for access reviews'' []
      else case rq_object rq of
          Inl err \<Rightarrow> JsonReply (bodyError_response err [])
        | Inr object \<Rightarrow> JsonReply (Reply 201
            [(''apiVersion'', GStr ''authorization.k8s.io/v1''), (''kind'', GStr (r_Kind description)),
             (''metadata'', GMap [(''creationTimestamp'', GStr (now_text a))]),
             (''spec'', if has_key object ''spec'' then gget object ''spec'' else GMap []),
             (''status'', if r_Name description = ''selfsubjectrulesreviews''
                then GMap [(''incomplete'', GBool False),
                  (''resourceRules'', GList [GMap [(''verbs'', GStrs [''*'']), (''apiGroups'', GStrs [''*'']), (''resources'', GStrs [''*''])]]),
                  (''nonResourceRules'', GList [GMap [(''verbs'', GStrs [''*'']), (''nonResourceURLs'', GStrs [''*''])]])]
                else GMap [(''allowed'', GBool True),
                  (''reason'', GStr (''RBAC: allowed by ClusterRoleBinding '' @ quoted ''system:discovery'' @ '' of ClusterRole '' @ quoted ''cluster-admin'' @
                    '' to Group '' @ quoted ''system:unauthenticated''))])]))"

definition syntheticUsage :: "string \<Rightarrow> string \<times> string" where
  "syntheticUsage key =
     (let digest = sha256 (''metrics.k8s.io/'' @ key)
      in (show_nat (15 + digest ! 0 mod 600) @ ''m'', show_nat (64 + digest ! 1 mod 1900) @ ''Mi''))"

definition usage_val :: "string \<Rightarrow> gval" where
  "usage_val key = (let (cpu, memory) = syntheticUsage key in GStrMap [(''cpu'', cpu), (''memory'', memory)])"

definition node_metrics :: "string \<Rightarrow> gobj \<Rightarrow> gobj" where
  "node_metrics timestamp node =
     (let nodeName = stringField (objectMap (gget node ''metadata'')) ''name''
      in [(''apiVersion'', GStr ''metrics.k8s.io/v1beta1''), (''kind'', GStr ''NodeMetrics''), (''metadata'', GMap [(''name'', GStr nodeName)]),
          (''timestamp'', GStr timestamp), (''window'', GStr ''30s''), (''usage'', usage_val nodeName)])"

definition pod_metrics :: "string \<Rightarrow> gobj \<Rightarrow> gobj" where
  "pod_metrics timestamp pod =
     (let metadata = objectMap (gget pod ''metadata''); podName = stringField metadata ''name''
      in [(''apiVersion'', GStr ''metrics.k8s.io/v1beta1''), (''kind'', GStr ''PodMetrics''),
          (''metadata'', GMap [(''name'', GStr podName), (''namespace'', gget metadata ''namespace'')]), (''timestamp'', GStr timestamp), (''window'', GStr ''30s''),
          (''containers'', GList (map (\<lambda>container. GMap [(''name'', GStr container), (''usage'', usage_val (podName @ ''/'' @ container))]) (podContainerNames pod)))])"

text \<open>A nil slice is encoded as \<^verbatim>\<open>null\<close>.\<close>

definition serveMetrics :: "apiEnv \<Rightarrow> request \<Rightarrow> apiResource \<Rightarrow> string \<Rightarrow> string \<Rightarrow> objectStore \<Rightarrow> readReply" where
  "serveMetrics a rq description namespace name s =
     (if rq_method rq \<noteq> ''GET'' then method_refused ''only GET is supported for metrics'' []
      else let nodes = r_Name description = ''nodes'' in
        case listPage (gv' [] ''v1'') (if nodes then [] else namespace) (if nodes then ''nodes'' else ''pods'') [] [] 0 maxListPageItems s of
          None \<Rightarrow> JsonReply (status 500 ''InternalError'' ''metrics are temporarily unavailable'' [])
        | Some (found, _, _) \<Rightarrow>
            (let wanted = filter (\<lambda>object. name = [] \<or> stringField (objectMap (gget object ''metadata'')) ''name'' = name) found;
                 items = map (if nodes then node_metrics (now_text a) else pod_metrics (now_text a)) wanted
             in if name \<noteq> [] then
                  (case items of [] \<Rightarrow> JsonReply (object_not_found (to_lower (r_Kind description)) name) | item # _ \<Rightarrow> JsonReply (Reply 200 item))
                else JsonReply (Reply 200
                  [(''apiVersion'', GStr ''metrics.k8s.io/v1beta1''), (''kind'', GStr (r_Kind description @ ''List'')), (''metadata'', GMap []),
                   (''items'', if items = [] then GNil else GList (map GMap items))])))"

section \<open>Routing of reads\<close>

text \<open>What \<^verbatim>\<open>serveResourcePath\<close> and \<^verbatim>\<open>serveSubresource\<close> do with the paths that \<^const>\<open>serveResourcePath\<close> leaves as \<^const>\<open>ReadOnly\<close>.\<close>

datatype readAction =
    Metrics apiResource string string
  | Review apiResource
  | OpenWatch string string
  | ListObjects string apiResource
  | GetObject string string string apiResource
  | SubObject string string string string \<comment> \<open>namespace, resource, name, what a 404 calls it\<close>
  | PodLog string string
  | TokenRequest string string

definition read_subresource :: "apiEnv \<Rightarrow> request \<Rightarrow> groupVersion \<Rightarrow> string \<Rightarrow> string \<Rightarrow> string \<Rightarrow> string \<Rightarrow> readAction option" where
  "read_subresource a rq gv namespace resourceName name sub =
     (if name = [] then None
      else if sub = ''token'' \<and> gv = core_v1 \<and> resourceName = ''serviceaccounts'' then Some (TokenRequest namespace name)
      else if gv \<noteq> core_v1 then None
      else if sub = ''ephemeralcontainers'' \<and> resourceName = ''pods'' then
        (if rq_method rq = ''PATCH'' \<and> map_of (table_items (ae_resources a) gv) resourceName \<noteq> None then None
         else Some (SubObject namespace resourceName name ''pods''))
      else if sub = ''log'' \<and> resourceName = ''pods'' then Some (PodLog namespace name)
      else if sub = ''status'' \<and> rq_method rq = ''GET'' then Some (SubObject namespace resourceName name (trim_suffix resourceName ''s''))
      else None)"

definition read_route :: "apiEnv \<Rightarrow> request \<Rightarrow> groupVersion \<Rightarrow> string list \<Rightarrow> readAction option" where
  "read_route a rq gv parts =
     (if parts = [] then None
      else
        let nested = length parts \<ge> 3 \<and> parts ! 0 = ''namespaces'';
            namespace = (if nested then parts ! 1 else []);
            rest = (if nested then drop 2 parts else parts);
            resourceName = rest ! 0;
            name = (if length rest > 1 then rest ! 1 else [])
        in if length rest > 2 then read_subresource a rq gv namespace resourceName name (rest ! 2)
           else case map_of (table_items (ae_resources a) gv) resourceName of
                  None \<Rightarrow> None
                | Some description \<Rightarrow>
                    (if \<not> r_Namespaced description \<and> namespace \<noteq> [] \<or> r_Namespaced description \<and> namespace = [] \<and> name \<noteq> [] then None
                     else if gv = metricsGroupVersion then Some (Metrics description namespace name)
                     else if gv = authorizationGroupVersion then Some (Review description)
                     else if queryParam rq ''watch'' = ''true'' \<or> queryParam rq ''watch'' = ''1'' then
                       (if name \<noteq> [] \<or> rq_method rq \<noteq> ''GET'' then None else Some (OpenWatch namespace resourceName))
                     else if rq_method rq \<noteq> ''GET'' then None
                     else if name = [] then Some (ListObjects namespace description)
                     else Some (GetObject namespace resourceName name description)))"

text \<open>The two views of the routing agree: a path is read exactly where no handler of \<open>Handlers\<close> takes it.\<close>

lemma read_subresource_iff: "read_subresource a rq gv ns res name sub \<noteq> None \<longleftrightarrow> serveSubresource a rq gv ns res name sub = ReadOnly"
  unfolding read_subresource_def serveSubresource_def Let_def by (auto split: option.splits bool.splits)

lemma read_route_iff: "read_route a rq gv parts \<noteq> None \<longleftrightarrow> serveResourcePath a rq gv parts = ReadOnly"
proof (cases "parts = []")
  case True
  then show ?thesis by (simp add: read_route_def serveResourcePath_def)
next
  case False
  define nested where "nested \<longleftrightarrow> length parts \<ge> 3 \<and> parts ! 0 = ''namespaces''"
  define ns where "ns = (if nested then parts ! 1 else [])"
  define rest where "rest = (if nested then drop 2 parts else parts)"
  define name where "name = (if length rest > 1 then rest ! 1 else [])"
  note defs = Let_def nested_def [symmetric] ns_def [symmetric] rest_def [symmetric] name_def [symmetric]
  show ?thesis
  proof (cases "length rest > 2")
    case True
    then show ?thesis using False read_subresource_iff by (simp only: read_route_def serveResourcePath_def defs if_False if_True simp_thms)
  next
    case short: False
    show ?thesis
    proof (cases "map_of (table_items (ae_resources a) gv) (rest ! 0)")
      case None
      then show ?thesis using False short by (simp add: read_route_def serveResourcePath_def defs)
    next
      case (Some d)
      then show ?thesis using False short
        by (simp only: read_route_def serveResourcePath_def defs if_False option.case) (simp add: route_method_def Let_def)
    qed
  qed
qed

text \<open>Running a read. \<open>slot\<close> is a free list slot; opening a watch is \<^const>\<open>watch_handler\<close> (\<open>None\<close>).\<close>

definition perform_read :: "(nat \<Rightarrow> nat) \<Rightarrow> apiEnv \<Rightarrow> bool \<Rightarrow> string \<Rightarrow> request \<Rightarrow> groupVersion \<Rightarrow> readAction \<Rightarrow> objectStore \<Rightarrow> objectStore \<Rightarrow> readReply option" where
  "perform_read uni a slot accept rq gv act s0 s =
     (case act of
        Metrics d ns name \<Rightarrow> Some (serveMetrics a rq d ns name s)
      | Review d \<Rightarrow> Some (serveAccessReview a rq d)
      | OpenWatch ns res \<Rightarrow> None
      | ListObjects ns d \<Rightarrow> Some (JsonReply (list_handler uni a slot accept rq gv ns d s0 s))
      | GetObject ns res name d \<Rightarrow>
          Some (JsonReply (case get s (mk_key (Group gv) (Version gv) res ns name) of
             None \<Rightarrow> object_not_found (to_lower (r_Kind d)) name
           | Some object \<Rightarrow> Reply 200 (if requestsTable accept then tableResponse uni (int (ae_clock a)) d [object] else object)))
      | SubObject ns res name what \<Rightarrow>
          Some (JsonReply (case get s (mk_key (Group gv) (Version gv) res ns name) of
             None \<Rightarrow> object_not_found what name
           | Some object \<Rightarrow> Reply 200 object))
      | PodLog ns name \<Rightarrow> Some (servePodLog a rq ns name s)
      | TokenRequest ns name \<Rightarrow> Some (serveTokenRequest a rq ns name s))"

section \<open>Paths\<close>

text \<open>\<^verbatim>\<open>path.Clean\<close>: the stack of segments, the last one first.\<close>

definition clean_step :: "bool \<Rightarrow> string \<Rightarrow> string list \<Rightarrow> string list" where
  "clean_step rooted seg stack =
     (if seg = [] \<or> seg = ''.'' then stack
      else if seg = ''..'' then (if stack \<noteq> [] \<and> hd stack \<noteq> ''..'' then tl stack else if rooted then stack else ''..'' # stack)
      else seg # stack)"

definition path_clean :: "string \<Rightarrow> string" where
  "path_clean raw =
     (if raw = [] then ''.''
      else let rooted = hd raw = CHR ''/''; out = go_join ''/'' (rev (fold (clean_step rooted) (go_split (CHR ''/'') raw) []))
           in if rooted then CHR ''/'' # out else if out = [] then ''.'' else out)"

definition trim_slashes :: "string \<Rightarrow> string" where
  "trim_slashes s = rev (dropWhile (\<lambda>c. c = CHR ''/'') (rev (dropWhile (\<lambda>c. c = CHR ''/'') s)))"

definition splitPath :: "string \<Rightarrow> string list" where
  "splitPath raw = (let clean = trim_slashes (path_clean raw) in if clean = ''.'' \<or> clean = [] then [] else go_split (CHR ''/'') clean)"

section \<open>The server\<close>

definition health_paths :: "string list" where
  "health_paths = [''/healthz'', ''/livez'', ''/readyz'', ''/healthz/etcd'', ''/healthz/poststarthook'', ''/healthz/log'', ''/livez/etcd'', ''/livez/poststarthook'',
     ''/readyz/etcd'', ''/readyz/poststarthook'', ''/readyz/informer-sync'', ''/readyz/verbose'', ''/healthz/verbose'', ''/livez/verbose'', ''/readyz/shutdown'']"

definition metric_line :: "string \<times> string \<times> string \<Rightarrow> string" where
  "metric_line = (\<lambda>(verb, res, code).
     ''apiserver_request_total{component='' @ quoted ''apiserver'' @ '',code='' @ quoted code @ '',dry_run='' @ quoted [] @ '',group='' @ quoted [] @ '',resource='' @ quoted res @
     '',scope='' @ quoted ''cluster'' @ '',subresource='' @ quoted [] @ '',verb='' @ quoted verb @ '',version='' @ quoted ''v1'' @ ''} '' @
     show_nat (1 + digestByte (verb @ res) mod 48) @ [CHR 0x0A])"

definition apiserverMetrics :: string where
  "apiserverMetrics =
     ''# HELP apiserver_request_total [STABLE] Counter of apiserver requests broken out for each verb, dry run value, group, version, resource, subresource, scope, component, and HTTP response code.'' @ [CHR 0x0A] @
     ''# TYPE apiserver_request_total counter'' @ [CHR 0x0A] @
     concat (map metric_line [(''GET'', ''namespaces'', ''200''), (''GET'', ''pods'', ''200''), (''LIST'', ''pods'', ''200''), (''GET'', ''secrets'', ''200''),
       (''WATCH'', ''pods'', ''200''), (''POST'', ''pods'', ''201''), (''GET'', ''nodes'', ''200''), (''GET'', ''secrets'', ''404'')]) @
     ''# HELP apiserver_request_duration_seconds [STABLE] Response latency distribution in seconds for each verb, dry run value, group, version, resource, subresource, scope, and component.'' @ [CHR 0x0A] @
     ''# TYPE apiserver_request_duration_seconds histogram'' @ [CHR 0x0A] @
     ''# HELP go_goroutines [STABLE] Number of goroutines that currently exist.'' @ [CHR 0x0A] @
     ''# TYPE go_goroutines gauge'' @ [CHR 0x0A] @ ''go_goroutines 213'' @ [CHR 0x0A] @
     ''# HELP etcd_request_duration_seconds [STABLE] Etcd request latencies in seconds for each operation and object type.'' @ [CHR 0x0A] @
     ''# TYPE etcd_request_duration_seconds histogram'' @ [CHR 0x0A]"

definition resource_val :: "apiResource \<Rightarrow> gval" where
  "resource_val r = GMap ([(''name'', GStr (r_Name r)), (''singularName'', GStr (r_Singular r)), (''kind'', GStr (r_Kind r)), (''namespaced'', GBool (r_Namespaced r)),
       (''verbs'', GStrs (r_Verbs r))] @
     (if r_ShortNames r \<noteq> [] then [(''shortNames'', GStrs (r_ShortNames r))] else []) @ (if r_Categories r \<noteq> [] then [(''categories'', GStrs (r_Categories r))] else []) @
     (if r_Group r \<noteq> [] then [(''group'', GStr (r_Group r))] else []) @ (if r_Version r \<noteq> [] then [(''version'', GStr (r_Version r))] else []))"

definition resource_list_reply :: "apiEnv \<Rightarrow> groupVersion \<Rightarrow> response" where
  "resource_list_reply a gv =
     (let (name, rs) = resourceList (ae_resources a) gv
      in Reply 200 [(''kind'', GStr ''APIResourceList''), (''apiVersion'', GStr ''v1''), (''groupVersion'', GStr name), (''resources'', GList (map resource_val rs))])"

definition serveGroupVersion :: "apiEnv \<Rightarrow> request \<Rightarrow> groupVersion \<Rightarrow> response" where
  "serveGroupVersion a rq gv = (if map_of (ae_resources a) gv = None then notFound rq else resource_list_reply a gv)"

text \<open>Where a request goes. \<open>v2\<close> and \<open>v3\<close> say whether OpenAPI documents are loaded.\<close>

datatype route =
    Fixed readReply
  | OpenAPIV2
  | OpenAPIV3Index
  | OpenAPIV3Doc "string list"
  | Resources groupVersion "string list"

definition server_address :: "apiEnv \<Rightarrow> string" where
  "server_address a = nodeAddress (ae_ipBase a) 10 @ '':443''"

definition fixed_route :: "apiEnv \<Rightarrow> nat \<Rightarrow> bool \<Rightarrow> bool \<Rightarrow> string \<Rightarrow> route option" where
  "fixed_route a started v2 v3 p =
     (let ok = (\<lambda>body. Some (Fixed (JsonReply (Reply 200 body))))
      in if p \<in> set health_paths then Some (Fixed (TextReply 200 ''ok''))
         else if p = ''/metrics'' then Some (Fixed (TextReply 200 apiserverMetrics))
         else if p = ''/version'' then ok (map (\<lambda>(k, v). (k, GStr v)) (versionInfo (ae_version a) started))
         else if p = ''/openapi/v2'' then Some OpenAPIV2
         else if p = ''/openapi/v3'' \<or> p = ''/openapi/v3/'' then Some OpenAPIV3Index
         else if p = ''/'' then ok [(''paths'', GStrs (rootDiscovery (ae_resources a) v2 v3))]
         else if p = ''/api'' then ok [(''kind'', GStr ''APIVersions''), (''apiVersion'', GStr ''v1''), (''versions'', GStrs [''v1'']),
           (''serverAddressByClientCIDRs'', GList [GStrMap [(''clientCIDR'', ''0.0.0.0/0''), (''serverAddress'', server_address a)]])]
         else if p = ''/api/v1'' then Some (Fixed (JsonReply (resource_list_reply a core_v1)))
         else if p = ''/apis'' then ok (apiGroupList (ae_resources a))
         else None)"

definition serve_group_reply :: "apiEnv \<Rightarrow> request \<Rightarrow> string \<Rightarrow> response" where
  "serve_group_reply a rq g = (case serveGroup (ae_resources a) g of Some body \<Rightarrow> Reply 200 body | None \<Rightarrow> notFound rq)"

definition api_ServeHTTP :: "apiEnv \<Rightarrow> nat \<Rightarrow> bool \<Rightarrow> bool \<Rightarrow> bool \<Rightarrow> request \<Rightarrow> route" where
  "api_ServeHTTP a started v2 v3 slot rq =
     (if \<not> slot then Fixed (JsonReply (status 429 ''TooManyRequests'' ''request has been rate limited'' []))
      else case fixed_route a started v2 v3 (rq_path rq) of
          Some r \<Rightarrow> r
        | None \<Rightarrow>
            (let parts = splitPath (rq_path rq); n = length parts; answer = (\<lambda>r. Fixed (JsonReply r))
             in if 3 \<le> n \<and> parts ! 0 = ''openapi'' \<and> parts ! 1 = ''v3'' then OpenAPIV3Doc (drop 2 parts)
                else if n = 2 \<and> parts ! 0 = ''apis'' then answer (serve_group_reply a rq (parts ! 1))
                else if n = 3 \<and> parts ! 0 = ''apis'' then answer (serveGroupVersion a rq (gv' (parts ! 1) (parts ! 2)))
                else if 2 \<le> n \<and> parts ! 0 = ''apis'' then Resources (gv' (parts ! 1) (parts ! 2)) (drop 3 parts)
                else if 2 \<le> n \<and> parts ! 0 = ''api'' then
                  (if parts ! 1 \<noteq> ''v1'' then answer (status 404 ''NotFound'' ''the requested core API version is not served'' [])
                   else if n = 2 then answer (resource_list_reply a core_v1)
                   else Resources core_v1 (drop 2 parts))
                else answer (notFound rq)))"

end
