(* ===== verification/OpenApi.thy ===== *)
theory OpenApi
  imports Reading Complex_Main
begin

text \<open>
  The OpenAPI documents of the API server (\<^verbatim>\<open>handler/schema.go\<close> and the OpenAPI handlers of \<^verbatim>\<open>handler/api.go\<close>): choosing and checking the schema at
  start, the negotiation of media types, encodings and entity tags, the single version 2 document, and the version 3 documents with their cache.

  Parameters: gzip (\<open>gz\<close>, \<open>gunzip\<close>; \<open>None\<close> is an error of the reader or writer), \<^verbatim>\<open>strconv.ParseFloat\<close> (\<open>pf\<close>; \<open>None\<close> is an error or not a
  number, which compares like one), \<^verbatim>\<open>unicode.ToLower\<close> beyond ASCII (\<open>uni\<close>), the HTTP client, the embedded files and the OpenAPI parser and encoder of the library \<^verbatim>\<open>gnostic\<close>.
\<close>

definition maxOpenAPIDocumentBytes :: nat where
  "maxOpenAPIDocumentBytes = 8388608"

definition upper_hex :: "string \<Rightarrow> string" where
  "upper_hex = map (\<lambda>c. if CHR ''a'' \<le> c \<and> c \<le> CHR ''f'' then char_of (byte c - 32) else c)"

definition etag :: "string \<Rightarrow> string" where
  "etag data = [CHR 0x22] @ upper_hex (hex_bytes (sha256 data)) @ [CHR 0x22]"

section \<open>Negotiation\<close>

text \<open>The parameters of one clause of \<^verbatim>\<open>Accept\<close> or \<^verbatim>\<open>Accept-Encoding\<close>; the last \<^verbatim>\<open>q=\<close> counts.\<close>

definition parameter_quality :: "(string \<Rightarrow> rat option) \<Rightarrow> string \<Rightarrow> rat \<Rightarrow> rat" where
  "parameter_quality pf parameter quality =
     (let p = trim_space parameter
      in if has_prefix p ''q='' then
           (case pf (trim_prefix p ''q='') of None \<Rightarrow> 0 | Some parsed \<Rightarrow> if parsed < 0 \<or> parsed > 1 then 0 else parsed)
         else quality)"

definition clause_quality :: "(string \<Rightarrow> rat option) \<Rightarrow> string list \<Rightarrow> rat" where
  "clause_quality pf parts = fold (parameter_quality pf) (tl parts) 1"

fun gzip_loop :: "(string \<Rightarrow> rat option) \<Rightarrow> (nat \<Rightarrow> nat) \<Rightarrow> rat \<Rightarrow> string list \<Rightarrow> bool" where
  "gzip_loop pf uni wildcardQuality [] = (wildcardQuality > 0)"
| "gzip_loop pf uni wildcardQuality (encoding # rest) =
     (let parts = go_split (CHR '';'') (trim_space encoding); name = toLower uni (trim_space (hd parts)); quality = clause_quality pf parts
      in if name = ''*'' then gzip_loop pf uni quality rest
         else if name = ''gzip'' then quality > 0
         else gzip_loop pf uni wildcardQuality rest)"

definition acceptsGzip :: "(string \<Rightarrow> rat option) \<Rightarrow> (nat \<Rightarrow> nat) \<Rightarrow> string \<Rightarrow> bool" where
  "acceptsGzip pf uni header = gzip_loop pf uni 0 (go_split (CHR '','') header)"

definition item_quality :: "(string \<Rightarrow> rat option) \<Rightarrow> (nat \<Rightarrow> nat) \<Rightarrow> string \<Rightarrow> string \<Rightarrow> rat \<Rightarrow> rat" where
  "item_quality pf uni wanted item quality =
     (let parts = go_split (CHR '';'') (trim_space item); mediaType = toLower uni (trim_space (hd parts)); itemQuality = clause_quality pf parts;
          fits = mediaType = wanted \<or> mediaType = ''*/*'' \<or> mediaType = ''application/*'' \<and> has_prefix wanted ''application/''
      in if fits \<and> itemQuality > quality then itemQuality else quality)"

definition mediaTypeQuality :: "(string \<Rightarrow> rat option) \<Rightarrow> (nat \<Rightarrow> nat) \<Rightarrow> string \<Rightarrow> string \<Rightarrow> rat" where
  "mediaTypeQuality pf uni header wanted =
     (if trim_space header = [] then 0 else fold (item_quality pf uni wanted) (go_split (CHR '','') header) 0)"

definition matchesETag :: "string \<Rightarrow> string \<Rightarrow> bool" where
  "matchesETag header expected \<longleftrightarrow>
     list_ex (\<lambda>candidate. trim_space candidate = ''*'' \<or> trim_space candidate = expected) (go_split (CHR '','') header)"

section \<open>The schema\<close>

text \<open>A stream: the bytes it delivers and whether it then ends without an error. \<^verbatim>\<open>readSchema\<close> reads one byte beyond the limit.\<close>

type_synonym stream = "string \<times> bool"

definition schemaTooLarge :: string where
  "schemaTooLarge = ''OpenAPI schema exceeds the 8388608-byte limit''"

definition readSchema :: "stream \<Rightarrow> string + string" where
  "readSchema r =
     (if length (fst r) > maxOpenAPIDocumentBytes then Inl schemaTooLarge
      else if snd r then Inr (fst r) else Inl ''unexpected EOF'')"

record httpReply =
  hr_StatusCode :: int
  hr_ContentLength :: int
  hr_Body :: stream

text \<open>\<open>fetch\<close> is the HTTP client: an error, or what the server answers to a GET of the URL. It follows no redirects.\<close>

definition downloadSchema :: "(string \<Rightarrow> string + httpReply) \<Rightarrow> SchemaProfile \<Rightarrow> string + string" where
  "downloadSchema fetch profile =
     (case fetch (sp_SchemaURL profile) of
        Inl err \<Rightarrow> Inl err
      | Inr r \<Rightarrow>
          if hr_StatusCode r \<noteq> 200 then Inl (''schema endpoint returned HTTP '' @ show_int (hr_StatusCode r))
          else if hr_ContentLength r > int maxOpenAPIDocumentBytes then Inl schemaTooLarge
          else readSchema (hr_Body r))"

text \<open>The header \<^verbatim>\<open>validateSchema\<close> decodes; of the maps it asks only whether they are empty. \<^verbatim>\<open>null\<close> clears a map.\<close>

record schemaHeader =
  sh_Swagger :: string
  sh_Paths :: "string list"
  sh_Definitions :: "string list"

definition decode_keys :: "json \<Rightarrow> string list \<Rightarrow> string list option" where
  "decode_keys j old = (case j of JObj ms \<Rightarrow> Some (fold List.insert (map fst ms) old) | JNull \<Rightarrow> Some [] | _ \<Rightarrow> None)"

definition header_field :: "string \<Rightarrow> json \<Rightarrow> schemaHeader \<Rightarrow> schemaHeader option" where
  "header_field key j h =
     (if field_is key ''swagger'' then map_option (\<lambda>s. h\<lparr>sh_Swagger := s\<rparr>) (decode_string j (sh_Swagger h))
      else if field_is key ''paths'' then map_option (\<lambda>ks. h\<lparr>sh_Paths := ks\<rparr>) (decode_keys j (sh_Paths h))
      else if field_is key ''definitions'' then map_option (\<lambda>ks. h\<lparr>sh_Definitions := ks\<rparr>) (decode_keys j (sh_Definitions h))
      else Some h)"

definition unmarshal_header :: "string \<Rightarrow> schemaHeader option" where
  "unmarshal_header data =
     Option.bind (json_parse data) (\<lambda>j. decode_struct header_field j \<lparr>sh_Swagger = [], sh_Paths = [], sh_Definitions = []\<rparr>)"

definition validateSchema :: "(string \<Rightarrow> 'doc option) \<Rightarrow> string \<Rightarrow> string + 'doc" where
  "validateSchema parseDocument data =
     (case unmarshal_header data of
        None \<Rightarrow> Inl ''expected an OpenAPI v2 document with paths and definitions''
      | Some h \<Rightarrow>
          if sh_Swagger h \<noteq> ''2.0'' \<or> sh_Paths h = [] \<or> sh_Definitions h = [] then Inl ''expected an OpenAPI v2 document with paths and definitions''
          else case parseDocument data of None \<Rightarrow> Inl ''invalid OpenAPI v2 document'' | Some document \<Rightarrow> Inr document)"

definition bundledSchema :: "(string \<Rightarrow> string option) \<Rightarrow> (string \<Rightarrow> stream option) \<Rightarrow> (string \<Rightarrow> 'doc option) \<Rightarrow> SchemaProfile \<Rightarrow> bool \<Rightarrow> string \<Rightarrow> string + string \<times> 'doc" where
  "bundledSchema files gzipReader parseDocument profile offline downloadErr =
     (case files (sp_EmbeddedPath profile) of
        None \<Rightarrow> Inl (if offline then ''no bundled OpenAPI schema for '' @ sp_Version profile @ ''; disable schema_offline to download '' @ sp_Release profile
                    else ''download OpenAPI schema for '' @ sp_Release profile @ '': '' @ downloadErr @ ''; no matching bundled schema is available'')
      | Some compressed \<Rightarrow>
          (case gzipReader compressed of
             None \<Rightarrow> Inl (''open bundled OpenAPI schema for '' @ sp_Version profile)
           | Some reader \<Rightarrow>
               (case readSchema reader of
                  Inl err \<Rightarrow> Inl (''read bundled OpenAPI schema for '' @ sp_Version profile @ '': '' @ err)
                | Inr data \<Rightarrow>
                    (case validateSchema parseDocument data of
                       Inl err \<Rightarrow> Inl (''validate bundled OpenAPI schema for '' @ sp_Version profile @ '': '' @ err)
                     | Inr document \<Rightarrow> Inr (data, document)))))"

text \<open>\<open>ctx1\<close> and \<open>ctx2\<close> are the error of the context before and after the download.\<close>

definition loadOpenAPISchema ::
  "string option \<Rightarrow> string option \<Rightarrow> (string \<Rightarrow> string + httpReply) \<Rightarrow> (string \<Rightarrow> string option) \<Rightarrow> (string \<Rightarrow> stream option) \<Rightarrow> (string \<Rightarrow> 'doc option) \<Rightarrow>
   SchemaProfile \<Rightarrow> bool \<Rightarrow> string + string \<times> 'doc" where
  "loadOpenAPISchema ctx1 ctx2 fetch files gzipReader parseDocument profile offline =
     (case ctx1 of
        Some err \<Rightarrow> Inl err
      | None \<Rightarrow>
          if offline then bundledSchema files gzipReader parseDocument profile True []
          else case (case downloadSchema fetch profile of
                       Inl err \<Rightarrow> Inl err
                     | Inr data \<Rightarrow> (case validateSchema parseDocument data of Inl err \<Rightarrow> Inl err | Inr document \<Rightarrow> Inr (data, document))) of
              Inr r \<Rightarrow> Inr r
            | Inl downloadErr \<Rightarrow>
                (case ctx2 of Some err \<Rightarrow> Inl err | None \<Rightarrow> bundledSchema files gzipReader parseDocument profile False downloadErr))"

section \<open>The documents of an API\<close>

text \<open>The OpenAPI fields of the struct \<^verbatim>\<open>API\<close>.\<close>

record openAPI =
  oa_V2JSON :: string
  oa_V2JSONGzip :: string
  oa_V2ProtoGzip :: string
  oa_ETags :: "(string \<times> string) list"
  oa_V3Schemas :: string
  oa_V3Known :: "string list"
  oa_V3Cache :: "(string \<times> string) list"

text \<open>\<^verbatim>\<open>bytes.ReplaceAll\<close> with a non-empty pattern.\<close>

function replace_text :: "string \<Rightarrow> string \<Rightarrow> string \<Rightarrow> string" where
  "replace_text old new [] = []"
| "replace_text old new (c # cs) =
     (if old \<noteq> [] \<and> has_prefix (c # cs) old then new @ replace_text old new (drop (length old) (c # cs)) else c # replace_text old new cs)"
  by pat_completeness auto
termination by (relation "measure (\<lambda>(old, new, s). length s)") auto

text \<open>An empty slice of schemas is \<^verbatim>\<open>nil\<close> here: the code only asks for its length.\<close>

definition openAPIV3Schemas :: "string \<Rightarrow> string \<times> string list" where
  "openAPIV3Schemas swaggerJSON =
     (case unmarshal_object swaggerJSON of
        Some (Some document) \<Rightarrow>
          (case map_of document ''definitions'' of
             Some (GMap definitions) \<Rightarrow>
               if definitions = [] then ([], [])
               else (replace_text ''#/definitions/'' ''#/components/schemas/'' (marshal (GMap definitions)), map fst definitions)
           | _ \<Rightarrow> ([], []))
      | _ \<Rightarrow> ([], []))"

text \<open>The part of \<^verbatim>\<open>NewAPIContext\<close> that fills these fields from the schema and its binary form.\<close>

definition load_documents :: "(string \<Rightarrow> string option) \<Rightarrow> string \<Rightarrow> string \<Rightarrow> string + openAPI" where
  "load_documents gz fixture binaryDoc =
     (case gz fixture of
        None \<Rightarrow> Inl ''compress OpenAPI JSON''
      | Some jsonGzip \<Rightarrow>
          (case gz binaryDoc of
             None \<Rightarrow> Inl ''compress OpenAPI protobuf''
           | Some protoGzip \<Rightarrow>
               (let (schemas, known) = openAPIV3Schemas fixture
                in Inr \<lparr>oa_V2JSON = fixture, oa_V2JSONGzip = jsonGzip, oa_V2ProtoGzip = protoGzip,
                        oa_ETags = [(''json'', etag fixture), (''json-gzip'', etag jsonGzip), (''protobuf'', etag binaryDoc), (''protobuf-gzip'', etag protoGzip)],
                        oa_V3Schemas = schemas, oa_V3Known = known, oa_V3Cache = []\<rparr>)))"

section \<open>Version 2\<close>

datatype openReply =
    OpenStatus response
  | NotModified "(string \<times> string) list" \<comment> \<open>a 304 with these headers\<close>
  | Document "(string \<times> string) list" string \<comment> \<open>a 200 with these headers and this body\<close>

definition protobufMediaType :: string where
  "protobufMediaType = ''application/com.github.proto-openapi.spec.v2.v1.0+protobuf''"

definition documentMissing :: openReply where
  "documentMissing = OpenStatus (status 404 ''NotFound'' ''the server could not find the requested resource'' [])"

definition documentUnavailable :: openReply where
  "documentUnavailable = OpenStatus (status 500 ''InternalError'' ''the OpenAPI document is temporarily unavailable'' [])"

definition v2_qualities :: "(string \<Rightarrow> rat option) \<Rightarrow> (nat \<Rightarrow> nat) \<Rightarrow> string \<Rightarrow> rat \<times> rat" where
  "v2_qualities pf uni header =
     (let accept = trim_space header;
          q = mediaTypeQuality pf uni accept protobufMediaType;
          deprecated = mediaTypeQuality pf uni accept ''application/com.github.proto-openapi.spec.v2@v1.0+protobuf''
      in (if deprecated > q then deprecated else q, if accept = [] then 1 else mediaTypeQuality pf uni accept ''application/json''))"

text \<open>The representation, its content type and its bytes; \<open>None\<close> when the stored protobuf cannot be unpacked within the limit.\<close>

definition v2_payload :: "(string \<Rightarrow> string option) \<Rightarrow> bool \<Rightarrow> bool \<Rightarrow> openAPI \<Rightarrow> (string \<times> string \<times> string) option" where
  "v2_payload gunzip protobuf encodingGzip oa =
     (if protobuf then
        (if encodingGzip then Some (''protobuf-gzip'', protobufMediaType, oa_V2ProtoGzip oa)
         else case gunzip (oa_V2ProtoGzip oa) of
             None \<Rightarrow> None
           | Some payload \<Rightarrow> if length payload > maxOpenAPIDocumentBytes then None else Some (''protobuf'', protobufMediaType, payload))
      else if encodingGzip then Some (''json-gzip'', ''application/json'', oa_V2JSONGzip oa)
      else Some (''json'', ''application/json'', oa_V2JSON oa))"

definition serveOpenAPIV2 ::
  "(string \<Rightarrow> string option) \<Rightarrow> (string \<Rightarrow> rat option) \<Rightarrow> (nat \<Rightarrow> nat) \<Rightarrow> bool \<Rightarrow> string \<Rightarrow> string \<Rightarrow> string \<Rightarrow> openAPI \<Rightarrow> openReply" where
  "serveOpenAPIV2 gunzip pf uni slot accept acceptEncoding ifNoneMatch oa =
     (if oa_V2JSON oa = [] then documentMissing
      else if \<not> slot then OpenStatus capacityError
      else
        let (protobufQuality, jsonQuality) = v2_qualities pf uni accept
        in if protobufQuality = 0 \<and> jsonQuality = 0
           then OpenStatus (status 406 ''NotAcceptable'' ''OpenAPI v2 supports application/json and protobuf responses'' [])
           else case v2_payload gunzip (protobufQuality > jsonQuality) (acceptsGzip pf uni acceptEncoding) oa of
               None \<Rightarrow> documentUnavailable
             | Some (form, contentType, payload) \<Rightarrow>
                 (let tag = (case map_of (oa_ETags oa) form of Some t \<Rightarrow> t | None \<Rightarrow> [])
                  in if matchesETag ifNoneMatch tag then NotModified [(''ETag'', tag)]
                     else Document ([(''ETag'', tag), (''Vary'', ''Accept, Accept-Encoding''), (''Cache-Control'', ''public, max-age=0, must-revalidate''),
                                     (''Content-Type'', contentType)] @
                                    (if has_suffix form ''-gzip'' then [(''Content-Encoding'', ''gzip'')] else [])) payload))"

section \<open>Version 3\<close>

definition v3_key :: "groupVersion \<Rightarrow> string" where
  "v3_key gv = (if Group gv \<noteq> [] then ''apis/'' @ Group gv @ ''/'' @ Version gv else ''api/'' @ Version gv)"

definition serveOpenAPIV3Index :: "resourceTable \<Rightarrow> bool \<Rightarrow> openAPI \<Rightarrow> openReply" where
  "serveOpenAPIV3Index resources slot oa =
     (if oa_V3Schemas oa = [] then documentMissing
      else if \<not> slot then OpenStatus capacityError
      else OpenStatus (Reply 200 [(''paths'', GMap (fold (\<lambda>gv. AList.update (v3_key gv) (GStrMap [(''serverRelativeURL'', ''/openapi/v3/'' @ v3_key gv)])) (map fst resources) []))]))"

definition openAPIV3SchemaName :: "groupVersion \<Rightarrow> string \<Rightarrow> string" where
  "openAPIV3SchemaName gv kind =
     (let tail = Version gv @ ''.'' @ kind
      in if Group gv = [] then ''io.k8s.api.core.'' @ tail
         else if Group gv = ''metrics.k8s.io'' then ''io.k8s.metrics.pkg.apis.metrics.'' @ tail
         else if Group gv = ''apiregistration.k8s.io'' then ''io.k8s.kube-aggregator.pkg.apis.apiregistration.'' @ tail
         else if Group gv = ''apiextensions.k8s.io'' then ''io.k8s.apiextensions-apiserver.pkg.apis.apiextensions.'' @ tail
         else ''io.k8s.api.'' @ Group gv @ ''.'' @ tail)"

definition openapi_op :: "groupVersion \<Rightarrow> string \<Rightarrow> string \<Rightarrow> string \<Rightarrow> gval" where
  "openapi_op gv action kind ref =
     GMap [(''x-kubernetes-action'', GStr action),
           (''x-kubernetes-group-version-kind'', GStrMap [(''group'', Group gv), (''version'', Version gv), (''kind'', kind)]),
           (''responses'', GMap [(''200'', GMap [(''description'', GStr ''OK''),
              (''content'', GMap [(''application/json'', GMap [(''schema'', GStrMap [(''$ref'', ''#/components/schemas/'' @ ref)])])])])])]"

definition collection_path :: "groupVersion \<Rightarrow> apiResource \<Rightarrow> string" where
  "collection_path gv description =
     (let base = (if Group gv \<noteq> [] then ''/apis/'' @ Group gv @ ''/'' @ Version gv else ''/api/v1'')
      in if r_Namespaced description then base @ ''/namespaces/{namespace}/'' @ r_Name description else base @ ''/'' @ r_Name description)"

definition resource_paths :: "string list \<Rightarrow> groupVersion \<Rightarrow> apiResource \<Rightarrow> gobj \<Rightarrow> gobj" where
  "resource_paths known gv description paths =
     (let schema = openAPIV3SchemaName gv (r_Kind description); kind = r_Kind description; collection = collection_path gv description
      in if schema \<notin> set known then paths
         else gset (collection @ ''/{name}'')
                (GMap [(''get'', openapi_op gv ''get'' kind schema), (''put'', openapi_op gv ''put'' kind schema), (''patch'', openapi_op gv ''patch'' kind schema),
                       (''delete'', openapi_op gv ''delete'' kind ''io.k8s.apimachinery.pkg.apis.meta.v1.Status'')])
                (gset collection
                   (GMap [(''get'', openapi_op gv ''list'' (kind @ ''List'') (schema @ ''List'')), (''post'', openapi_op gv ''post'' kind schema)]) paths))"

definition openAPIV3Paths :: "resourceTable \<Rightarrow> string list \<Rightarrow> groupVersion \<Rightarrow> gobj" where
  "openAPIV3Paths resources known gv = fold (resource_paths known gv) (map snd (table_items resources gv)) []"

text \<open>The text of a document: \<^verbatim>\<open>{"openapi":"3.0.0",...}\<close> put together from its parts.\<close>

definition v3_document :: "apiEnv \<Rightarrow> openAPI \<Rightarrow> groupVersion \<Rightarrow> string" where
  "v3_document a oa gv =
     (let q = (\<lambda>s. [CHR 0x22] @ s @ [CHR 0x22])
      in ''{'' @ q ''openapi'' @ '':'' @ q ''3.0.0'' @ '','' @ q ''info'' @ '':{'' @ q ''title'' @ '':'' @ q ''Kubernetes'' @ '','' @ q ''version'' @ '':'' @ q (ae_version a @ ''.0'') @ ''},'' @
         q ''paths'' @ '':'' @ marshal (GMap (openAPIV3Paths (ae_resources a) (oa_V3Known oa) gv)) @ '','' @ q ''components'' @ '':{'' @ q ''schemas'' @ '':'' @ oa_V3Schemas oa @ ''}}'')"

definition v3_segments :: "string list \<Rightarrow> groupVersion option" where
  "v3_segments segments =
     (if length segments = 2 \<and> segments ! 0 = ''api'' then Some (gv' [] (segments ! 1))
      else if length segments = 3 \<and> segments ! 0 = ''apis'' then Some (gv' (segments ! 1) (segments ! 2))
      else None)"

text \<open>The cached document, or the new one, which is kept while fewer than eight are.\<close>

definition v3_cached :: "(string \<Rightarrow> string option) \<Rightarrow> apiEnv \<Rightarrow> groupVersion \<Rightarrow> openAPI \<Rightarrow> string option \<times> openAPI" where
  "v3_cached gz a gv oa =
     (case map_of (oa_V3Cache oa) (apiVersionFor gv) of
        Some cached \<Rightarrow> (Some cached, oa)
      | None \<Rightarrow>
          (case gz (v3_document a oa gv) of
             None \<Rightarrow> (None, oa)
           | Some compressed \<Rightarrow>
               (Some compressed,
                if length (oa_V3Cache oa) < 8 then oa\<lparr>oa_V3Cache := AList.update (apiVersionFor gv) compressed (oa_V3Cache oa)\<rparr> else oa)))"

definition serveOpenAPIV3Doc ::
  "(string \<Rightarrow> string option) \<Rightarrow> (string \<Rightarrow> string option) \<Rightarrow> (string \<Rightarrow> rat option) \<Rightarrow> (nat \<Rightarrow> nat) \<Rightarrow> apiEnv \<Rightarrow> bool \<Rightarrow> request \<Rightarrow> string \<Rightarrow> string list \<Rightarrow>
   openAPI \<Rightarrow> openReply \<times> openAPI" where
  "serveOpenAPIV3Doc gz gunzip pf uni a slot rq acceptEncoding segments oa =
     (if oa_V3Schemas oa = [] then (documentMissing, oa)
      else case v3_segments segments of
          None \<Rightarrow> (OpenStatus (notFound rq), oa)
        | Some gv \<Rightarrow>
            if map_of (ae_resources a) gv = None then (OpenStatus (notFound rq), oa)
            else if \<not> slot then (OpenStatus capacityError, oa)
            else case v3_cached gz a gv oa of
                (None, oa1) \<Rightarrow> (documentUnavailable, oa1)
              | (Some cached, oa1) \<Rightarrow>
                  (if acceptsGzip pf uni acceptEncoding
                   then (Document [(''Content-Type'', ''application/json''), (''Content-Encoding'', ''gzip'')] cached, oa1)
                   else case gunzip cached of
                       None \<Rightarrow> (documentUnavailable, oa1)
                     | Some doc \<Rightarrow> (Document [(''Content-Type'', ''application/json'')] doc, oa1)))"

end
