(* ===== verification/WatchStream.thy ===== *)
theory WatchStream
  imports Reading
begin

text \<open>
  What a watch delivers. \<open>watch_run\<close> follows one watcher from its registration on through any interleaving with other requests, and keeps two ghost
  lists: the changes announced since then that match its scope and selectors, and the events that its handler has taken from the channel. The second is
  always a prefix of the first, and nothing is missing while the channel is open.
\<close>

section \<open>Publishing and one channel\<close>

lemma publish_one_cases:
  obtains (same) "publish_one key ev obj (i, v) s = s" | (panic) "publish_one key ev obj (i, v) s = s\<lparr>chan_panic := True\<rparr>"
  | (sent) b where "publish_one key ev obj (i, v) s = s\<lparr>chans := (chans s)[w_ch v := (chans s ! w_ch v)\<lparr>ch_buf := b\<rparr>]\<rparr>"
  | (dropped) "publish_one key ev obj (i, v) s = close_chan (w_ch v) (s\<lparr>watchers := AList.delete i (watchers s)\<rparr>)"
proof -
  have "publish_one key ev obj (i, v) s = s \<or> publish_one key ev obj (i, v) s = s\<lparr>chan_panic := True\<rparr> \<or>
      (\<exists>b. publish_one key ev obj (i, v) s = s\<lparr>chans := (chans s)[w_ch v := (chans s ! w_ch v)\<lparr>ch_buf := b\<rparr>]\<rparr>) \<or>
      publish_one key ev obj (i, v) s = close_chan (w_ch v) (s\<lparr>watchers := AList.delete i (watchers s)\<rparr>)"
    unfolding publish_one_def Let_def by auto
  then show ?thesis using same panic sent dropped by blast
qed

lemma close_chan_closed: "c < length (chans s) \<Longrightarrow> c = d \<or> ch_closed (chans s ! c) \<Longrightarrow> ch_closed (chans (close_chan d s) ! c)"
  by (cases "c = d") (auto simp: close_chan_def)

lemma publish_one_closed:
  assumes "ch_closed (chans s ! c)" "c < length (chans s)"
  shows "ch_closed (chans (publish_one key ev obj (i, v) s) ! c)"
  using assms by (cases rule: publish_one_cases [of key ev obj i v s]; cases "c = w_ch v") (simp_all add: close_chan_closed)

lemma publish_one_kept:
  assumes "(i, w) \<in> set (watchers s)" "w_ch w < length (chans s)" "j = i \<Longrightarrow> v = w"
  shows "(i, w) \<in> set (watchers (publish_one key ev obj (j, v) s)) \<or> ch_closed (chans (publish_one key ev obj (j, v) s) ! w_ch w)"
proof (cases rule: publish_one_cases [of key ev obj j v s])
  case dropped
  then show ?thesis using assms by (cases "j = i") (simp_all add: close_chan_closed store_simps set_delete_alist)
qed (use assms in simp_all)

lemma fold_publish_kept:
  assumes "(i, w) \<in> set (watchers s) \<or> ch_closed (chans s ! w_ch w)" "w_ch w < length (chans s)" "\<And>v. (i, v) \<in> set ws \<Longrightarrow> v = w"
  shows "(i, w) \<in> set (watchers (fold (publish_one key ev obj) ws s)) \<or> ch_closed (chans (fold (publish_one key ev obj) ws s) ! w_ch w)"
  using assms
proof (induction ws arbitrary: s)
  case (Cons iw ws)
  obtain j v where iw: "iw = (j, v)" by (cases iw)
  have "(i, w) \<in> set (watchers (publish_one key ev obj iw s)) \<or> ch_closed (chans (publish_one key ev obj iw s) ! w_ch w)"
    using Cons.prems(1)
  proof
    assume "(i, w) \<in> set (watchers s)"
    then show ?thesis unfolding iw using Cons.prems(2,3) iw by (intro publish_one_kept) auto
  qed (use publish_one_closed Cons.prems(2) iw in blast)
  then show ?case using Cons.prems by (simp add: Cons.IH store_simps)
qed simp

definition announced :: "watcher \<Rightarrow> objectKey \<Rightarrow> string \<Rightarrow> gobj \<Rightarrow> watchEvent list" where
  "announced w key ev object = (if watches w key (cloneObject object) then [\<lparr>ev_Type = ev, ev_Object = cloneObject object\<rparr>] else [])"

text \<open>What a publication does to the channel of one watcher: nothing, the event at the end of the buffer, or closing.\<close>

definition tracks :: "watcher \<Rightarrow> objectStore \<Rightarrow> watchEvent list \<Rightarrow> watchEvent list \<Rightarrow> bool" where
  "tracks w s pub del \<longleftrightarrow>
     w_ch w < length (chans s) \<and> (\<forall>(i, v) \<in> set (watchers s). v \<noteq> w \<longrightarrow> w_ch v \<noteq> w_ch w) \<and>
     (let ch = chans s ! w_ch w
      in (\<exists>rest. pub = del @ ch_buf ch @ rest) \<and> (\<not> ch_closed ch \<longrightarrow> (w_id w, w) \<in> set (watchers s) \<and> pub = del @ ch_buf ch))"

lemma tracks_publish:
  assumes ok: "chan_ok s" and t: "tracks w s pub del" and s1: "watchers s1 = watchers s" "chans s1 = chans s"
  shows "tracks w (publishLocked key ev (cloneObject obj) s1) (pub @ announced w key ev obj) del"
proof -
  let ?t = "publishLocked key ev (cloneObject obj) s1" and ?ch = "chans s ! w_ch w"
  have c: "w_ch w < length (chans s)" and others: "\<forall>(i, v) \<in> set (watchers s). v \<noteq> w \<longrightarrow> w_ch v \<noteq> w_ch w" using t by (simp_all add: tracks_def)
  have others': "\<forall>(i, v) \<in> set (watchers ?t). v \<noteq> w \<longrightarrow> w_ch v \<noteq> w_ch w"
    using others subsetD [OF publish_watchers_subset [of key ev "cloneObject obj" s1]] unfolding s1 by auto
  show ?thesis
  proof (cases "ch_closed ?ch")
    case True
    have "w_ch v \<noteq> w_ch w" if "(i, v) \<in> set (watchers s)" for i v
    proof (cases "v = w")
      case True
      then have "open_chan s (w_ch w)" using that ok by (auto simp: chan_ok_def)
      then show ?thesis using \<open>ch_closed ?ch\<close> by (simp add: open_chan_def)
    qed (use that others in auto)
    then have "w_ch w \<notin> (w_ch \<circ> snd) ` set (watchers s)" by (metis comp_apply imageE prod.collapse)
    then have "chans ?t ! w_ch w = ?ch" by (simp add: publishLocked_def s1 fold_publish_other_chan)
    then show ?thesis using t True others' c by (auto simp: tracks_def store_simps s1 Let_def)
  next
    case False
    then have reg: "(w_id w, w) \<in> set (watchers s)" and pub: "pub = del @ ch_buf ?ch" using t by (auto simp: tracks_def Let_def)
    have own: "chans ?t ! w_ch w = chans (publish_one key ev (cloneObject obj) (w_id w, w) s1) ! w_ch w"
      unfolding publishLocked_def using ok reg c
      by (subst fold_publish_own_chan) (auto simp: chan_ok_def distinct_map s1)
    have "v = w" if "(w_id w, v) \<in> set (watchers s)" for v
      using that reg ok by (meson chan_ok_def eq_key_imp_eq_value)
    then have kept: "(w_id w, w) \<in> set (watchers ?t) \<or> ch_closed (chans ?t ! w_ch w)"
      unfolding publishLocked_def using reg c s1 by (intro fold_publish_kept) auto
    have "chans ?t ! w_ch w = (if \<not> watches w key (cloneObject obj) then ?ch
        else if length (ch_buf ?ch) < watch_capacity then ?ch\<lparr>ch_buf := ch_buf ?ch @ [\<lparr>ev_Type = ev, ev_Object = cloneObject obj\<rparr>]\<rparr>
        else ?ch\<lparr>ch_closed := True\<rparr>)"
      unfolding own using c False s1 by (auto simp: publish_one_def watches_def Let_def close_chan_def)
    then show ?thesis using c others' kept pub False by (auto simp: tracks_def store_simps s1 Let_def announced_def)
  qed
qed

lemma tracks_put:
  assumes "chan_ok s" "tracks w s pub del" "put key object ev s = (None, object', s')"
  shows "tracks w s' (pub @ announced w key ev object') del"
proof -
  have "s' = put_state key object ev s" "object' = stamped object s"
    using assms(3) by (cases rule: put_cases [of key object ev s]; simp)+
  then show ?thesis using tracks_publish [OF assms(1,2)] by (simp add: put_state_def)
qed

lemma tracks_delete:
  assumes "chan_ok s" "tracks w s pub del" "delete key s = ((object, True), s')"
  shows "tracks w s' (pub @ announced w key ''DELETED'' object) del"
proof -
  obtain stored where "object = cloneObject stored"
      "s' = publishLocked key ''DELETED'' (cloneObject stored) (s\<lparr>objects := AList.delete key (objects s), storedBytes := storedBytes s - int (encodedLen stored), resourceRev := resourceRev s + 1\<rparr>)"
    using assms(3) by (auto simp: delete_def split: option.splits)
  moreover have "announced w key ''DELETED'' (cloneObject stored) = announced w key ''DELETED'' stored" for stored by (simp add: announced_def)
  ultimately show ?thesis using tracks_publish [OF assms(1,2)] by simp
qed

section \<open>A watcher among other requests\<close>

inductive watch_run :: "watcher \<Rightarrow> store_state \<Rightarrow> watchEvent list \<Rightarrow> watchEvent list \<Rightarrow> bool" for w where
  opened: "system_ok (s, ws) \<Longrightarrow> watch gv ns res ls fs s = (w, s') \<Longrightarrow> nextWatcher s \<noteq> - 1 \<Longrightarrow> watch_run w (s', w # ws) [] []"
| stored: "watch_run w (s, ws) pub del \<Longrightarrow> put key object ev s = (None, object', s') \<Longrightarrow> watch_run w (s', ws) (pub @ announced w key ev object') del"
| refused: "watch_run w (s, ws) pub del \<Longrightarrow> put key object ev s = (Some e, object', s') \<Longrightarrow> watch_run w (s', ws) pub del"
| removed: "watch_run w (s, ws) pub del \<Longrightarrow> delete key s = ((object, True), s') \<Longrightarrow> watch_run w (s', ws) (pub @ announced w key ''DELETED'' object) del"
| named: "watch_run w (s, ws) pub del \<Longrightarrow> watch_run w (snd (nextName prefix s), ws) pub del"
| other_opened: "watch_run w (s, ws) pub del \<Longrightarrow> watch gv ns res ls fs s = (v, s') \<Longrightarrow> nextWatcher s \<noteq> - 1 \<Longrightarrow> watch_run w (s', v # ws) pub del"
| other_received: "watch_run w (s, ws) pub del \<Longrightarrow> v \<in> set ws \<Longrightarrow> v \<noteq> w \<Longrightarrow> recv_event v s = Some (e, s') \<Longrightarrow> watch_run w (s', ws) pub del"
| other_closed: "watch_run w (s, ws) pub del \<Longrightarrow> v \<in> set ws \<Longrightarrow> v \<noteq> w \<Longrightarrow> watch_run w (unwatch v s, remove1 v ws) pub del"
| received: "watch_run w (s, ws) pub del \<Longrightarrow> recv_event w s = Some (Some e, s') \<Longrightarrow> watch_run w (s', ws) pub (del @ [e])"

definition run_ok :: "watcher \<Rightarrow> store_state \<Rightarrow> watchEvent list \<Rightarrow> watchEvent list \<Rightarrow> bool" where
  "run_ok w st pub del \<longleftrightarrow> system_ok st \<and> w \<in> set (snd st) \<and> tracks w (fst st) pub del \<and> (\<forall>v \<in> set (snd st). v \<noteq> w \<longrightarrow> w_ch v \<noteq> w_ch w)"

lemma set_update_subset: "set (AList.update k v m) \<subseteq> insert (k, v) (set m)"
  by (induction m) auto

lemma update_member: "(k, v) \<in> set (AList.update k v m)" "j \<noteq> k \<Longrightarrow> (j, u) \<in> set m \<Longrightarrow> (j, u) \<in> set (AList.update k v m)"
  by (induction m) auto

lemma tracks_cong:
  assumes "tracks w s pub del" "set (watchers s') \<subseteq> set (watchers s)" "(w_id w, w) \<in> set (watchers s) \<Longrightarrow> (w_id w, w) \<in> set (watchers s')"
    "length (chans s') = length (chans s)" "chans s' ! w_ch w = chans s ! w_ch w"
  shows "tracks w s' pub del"
proof -
  have "\<forall>(i, v) \<in> set (watchers s'). v \<noteq> w \<longrightarrow> w_ch v \<noteq> w_ch w" using assms(1,2) unfolding tracks_def by blast
  then show ?thesis using assms by (simp add: tracks_def Let_def)
qed

lemma run_ok_opened:
  assumes "system_ok (s, ws)" "watch gv ns res ls fs s = (w, s')" "nextWatcher s \<noteq> - 1"
  shows "run_ok w (s', w # ws) [] []"
proof -
  have w: "w_id w = nextWatcher s + 1" "w_ch w = length (chans s)"
    and s': "watchers s' = AList.update (nextWatcher s + 1) w (watchers s)" "chans s' = chans s @ [\<lparr>ch_buf = [], ch_closed = False\<rparr>]"
    using assms(2) by (auto simp: watch_def Let_def)
  have "w_ch v < length (chans s)" if "v \<in> set ws \<or> (i, v) \<in> set (watchers s)" for i v
    using that assms(1) by (auto simp: system_ok_def held_ok_def chan_ok_def open_chan_def)
  moreover have "(w_id w, w) \<in> set (watchers s')" unfolding s' w by (rule update_member)
  moreover have "\<forall>(i, v) \<in> set (watchers s'). v \<noteq> w \<longrightarrow> w_ch v \<noteq> w_ch w"
    using calculation(1) subsetD [OF set_update_subset [of "nextWatcher s + 1" w "watchers s"]] unfolding s' w by fastforce
  ultimately show ?thesis using system_ok_watch [OF assms] by (fastforce simp: run_ok_def tracks_def s' w)
qed

lemma run_ok_other_opened:
  assumes "run_ok w (s, ws) pub del" "watch gv ns res ls fs s = (v, s')" "nextWatcher s \<noteq> - 1"
  shows "run_ok w (s', v # ws) pub del"
proof -
  have v: "w_ch v = length (chans s)"
    and s': "watchers s' = AList.update (nextWatcher s + 1) v (watchers s)" "chans s' = chans s @ [\<lparr>ch_buf = [], ch_closed = False\<rparr>]"
    using assms(2) by (auto simp: watch_def Let_def)
  have ok: "system_ok (s, ws)" "w \<in> set ws" and t: "tracks w s pub del" and rest: "\<forall>u \<in> set ws. u \<noteq> w \<longrightarrow> w_ch u \<noteq> w_ch w"
    using assms(1) by (simp_all add: run_ok_def)
  have c: "w_ch w < length (chans s)" using t by (simp add: tracks_def)
  have "w_id w \<le> nextWatcher s" using ok by (auto simp: system_ok_def held_ok_def)
  then have "w_id w \<noteq> nextWatcher s + 1" using less_inc [OF assms(3)] by auto
  then have "(w_id w, w) \<in> set (watchers s) \<Longrightarrow> (w_id w, w) \<in> set (watchers s')" unfolding s' by (rule update_member)
  moreover have "\<forall>(i, u) \<in> set (watchers s'). u \<noteq> w \<longrightarrow> w_ch u \<noteq> w_ch w"
    using t c subsetD [OF set_update_subset [of "nextWatcher s + 1" v "watchers s"]] unfolding s' tracks_def by (fastforce simp: v)
  ultimately have "tracks w s' pub del" using t c by (auto simp: tracks_def s' nth_append Let_def)
  then show ?thesis using system_ok_watch [OF ok(1) assms(2,3)] ok rest c by (simp add: run_ok_def v)
qed

lemma run_ok_other_closed:
  assumes "run_ok w (s, ws) pub del" "v \<in> set ws" "v \<noteq> w"
  shows "run_ok w (unwatch v s, remove1 v ws) pub del"
proof -
  have ok: "system_ok (s, ws)" "w \<in> set ws" and t: "tracks w s pub del" and rest: "\<forall>u \<in> set ws. u \<noteq> w \<longrightarrow> w_ch u \<noteq> w_ch w"
    using assms(1) by (simp_all add: run_ok_def)
  have ne: "w_ch v \<noteq> w_ch w" "w_id v \<noteq> w_id w" using rest assms ok by (auto simp: system_ok_def held_ok_def distinct_map inj_on_def)
  have "tracks w (unwatch v s) pub del"
    using ne by (intro tracks_cong [OF t]) (auto simp: unwatch_def close_chan_def set_delete_alist)
  moreover have "w \<in> set (remove1 v ws)" using ok(2) assms(3) by simp
  moreover have "\<forall>u \<in> set (remove1 v ws). u \<noteq> w \<longrightarrow> w_ch u \<noteq> w_ch w" using rest by (auto dest: notin_set_remove1)
  ultimately show ?thesis using system_ok_unwatch [OF ok(1) assms(2)] by (simp add: run_ok_def)
qed

lemma run_ok_recv:
  assumes "run_ok w (s, ws) pub del" "v \<in> set ws" "v \<noteq> w" "recv_event v s = Some (e, s')"
  shows "run_ok w (s', ws) pub del"
proof -
  have ok: "system_ok (s, ws)" and t: "tracks w s pub del" and ne: "w_ch v \<noteq> w_ch w" using assms by (auto simp: run_ok_def)
  have "tracks w s' pub del"
    using assms(4) ne by (intro tracks_cong [OF t]) (auto simp: recv_event_def Let_def split: list.splits if_splits)
  then show ?thesis using assms(1) system_ok_recv [OF ok assms(2,4)] by (simp add: run_ok_def)
qed

lemma run_ok_received:
  assumes "run_ok w (s, ws) pub del" "recv_event w s = Some (Some e, s')"
  shows "run_ok w (s', ws) pub (del @ [e])"
proof -
  have ok: "system_ok (s, ws)" "w \<in> set ws" and t: "tracks w s pub del" using assms(1) by (simp_all add: run_ok_def)
  obtain es where es: "ch_buf (chans s ! w_ch w) = e # es" "s' = s\<lparr>chans := (chans s)[w_ch w := (chans s ! w_ch w)\<lparr>ch_buf := es\<rparr>]\<rparr>"
    using assms(2) by (auto simp: recv_event_def Let_def split: list.splits if_splits)
  have "tracks w s' pub (del @ [e])" using t es by (auto simp: tracks_def Let_def)
  then show ?thesis using assms system_ok_recv [OF ok assms(2)] by (simp add: run_ok_def)
qed

lemma run_ok_write:
  assumes "run_ok w (s, ws) pub del" "store_step (s, ws) (s', ws)" "tracks w s pub del \<Longrightarrow> chan_ok s \<Longrightarrow> tracks w s' pub' del"
  shows "run_ok w (s', ws) pub' del"
  using assms system_ok_step [OF assms(2)] by (simp add: run_ok_def system_ok_def)

lemma watch_run_ok: "watch_run w st pub del \<Longrightarrow> run_ok w st pub del"
proof (induction rule: watch_run.induct)
  case (opened s ws gv ns res ls fs s')
  then show ?case by (rule run_ok_opened)
next
  case (stored s ws pub del key object ev object' s')
  have "store_step (s, ws) (s', ws)" using store_step.step_put [of s ws key object ev] stored.hyps(2) by simp
  then show ?case using tracks_put [OF _ _ stored.hyps(2)] by (rule run_ok_write [OF stored.IH])
next
  case (refused s ws pub del key object ev e object' s')
  then have "s' = s" by (cases rule: put_cases [of key object ev s]) simp_all
  then show ?case using refused.IH by simp
next
  case (removed s ws pub del key object s')
  have "store_step (s, ws) (s', ws)" using store_step.step_delete [of s ws key] removed.hyps(2) by simp
  then show ?case using tracks_delete [OF _ _ removed.hyps(2)] by (rule run_ok_write [OF removed.IH])
next
  case (named s ws pub del prefix)
  have "watchers (snd (nextName prefix s)) = watchers s" "chans (snd (nextName prefix s)) = chans s" by (simp_all add: nextName_def Let_def)
  then show ?case using store_step.step_name [of s ws prefix] by (intro run_ok_write [OF named.IH]) (simp_all add: tracks_def)
next
  case (other_opened s ws pub del gv ns res ls fs v s')
  show ?case by (rule run_ok_other_opened [OF other_opened.IH other_opened.hyps(2,3)])
next
  case (other_received s ws pub del v e s')
  show ?case by (rule run_ok_recv [OF other_received.IH other_received.hyps(2-4)])
next
  case (other_closed s ws pub del v)
  show ?case by (rule run_ok_other_closed [OF other_closed.IH other_closed.hyps(2,3)])
next
  case (received s ws pub del e s')
  show ?case by (rule run_ok_received [OF received.IH received.hyps(2)])
qed

text \<open>
  C7. A watch stream has no gaps: whatever other requests do in between, the events a watch has delivered are the first of the matching changes since it was
  opened, in their order; while its channel is open it is registered, and delivered and buffered events together are all of them; when it could not keep up, its channel is
  closed, so the client learns that the stream ended instead of missing an event silently. At most four events are buffered.
\<close>

theorem watch_stream_gap_free:
  assumes "watch_run w (s, ws) pub del"
  shows "\<exists>rest. pub = del @ ch_buf (chans s ! w_ch w) @ rest \<and>
    (\<not> ch_closed (chans s ! w_ch w) \<longrightarrow> rest = [] \<and> map_of (watchers s) (w_id w) = Some w) \<and> length (ch_buf (chans s ! w_ch w)) \<le> 4"
proof -
  have ok: "chan_ok s" and t: "tracks w s pub del" using watch_run_ok [OF assms] by (simp_all add: run_ok_def system_ok_def)
  have "length (ch_buf (chans s ! w_ch w)) \<le> 4" using ok t by (auto simp: chan_ok_def tracks_def)
  moreover have "(w_id w, w) \<in> set (watchers s) \<Longrightarrow> map_of (watchers s) (w_id w) = Some w" using ok by (auto simp: chan_ok_def)
  ultimately show ?thesis using t by (auto simp: tracks_def Let_def)
qed

theorem watch_stream_gap_free_witness:
  "\<exists>object' rest. [\<lparr>ev_Type = ''ADDED'', ev_Object = cloneObject object'\<rparr>] =
     ch_buf (chans (snd (snd (put (demo_key ''a'') demo_pod ''ADDED'' demo_watched))) ! w_ch demo_watcher) @ rest"
proof -
  let ?p = "put (demo_key ''a'') demo_pod ''ADDED'' demo_watched"
  obtain err object' where put: "?p = (err, object', snd (snd ?p))" by (metis prod.collapse)
  have open_run: "watch_run demo_watcher (demo_watched, [demo_watcher]) [] []"
    using watch_run.opened [of "newObjectStore 0" "[]" "\<lparr>Group = [], Version = ''v1''\<rparr>"] system_ok_reachable [OF rtranclp.rtrancl_refl]
    by (simp add: demo_watched_def demo_watcher_def watch_def newObjectStore_def Let_def)
  have err: "err = None" using arg_cong [OF put, of fst] by (simp add: demo_watched_eval put_def Let_def gget_def objectMap_def marshal_eval)
  have "watches demo_watcher (demo_key ''a'') (cloneObject object')"
    by (simp add: demo_watcher_def watch_def Let_def newObjectStore_def watches_def)
  then have "announced demo_watcher (demo_key ''a'') ''ADDED'' object' = [\<lparr>ev_Type = ''ADDED'', ev_Object = cloneObject object'\<rparr>]"
    by (simp add: announced_def)
  then have "watch_run demo_watcher (snd (snd ?p), [demo_watcher]) [\<lparr>ev_Type = ''ADDED'', ev_Object = cloneObject object'\<rparr>] []"
    using watch_run.stored [OF open_run put [unfolded err]] by simp
  from watch_stream_gap_free [OF this] show ?thesis by auto
qed

end
