(* ===== verification/ReadingSpec.thy ===== *)
theory ReadingSpec
  imports WatchStream
begin

text \<open>
  Properties of the reading requests of \<open>Reading\<close>: paths are normal before they are routed, every resource path has exactly one handler, a watch begins with a bounded replay,
  a pod log respects its byte limit, and a service account token has the shape of a JWT.
\<close>

section \<open>Paths\<close>

definition plain_segment :: "string \<Rightarrow> bool" where
  "plain_segment seg \<longleftrightarrow> seg \<noteq> [] \<and> seg \<noteq> ''.'' \<and> seg \<noteq> ''..'' \<and> CHR ''/'' \<notin> set seg"

lemma clean_step_plain:
  "list_all plain_segment stack \<Longrightarrow> CHR ''/'' \<notin> set seg \<Longrightarrow> list_all plain_segment (clean_step True seg stack)"
  by (cases stack) (auto simp: clean_step_def plain_segment_def)

lemma fold_clean_plain:
  "list_all plain_segment stack \<Longrightarrow> list_all (\<lambda>seg. CHR ''/'' \<notin> set seg) segs \<Longrightarrow> list_all plain_segment (fold (clean_step True) segs stack)"
  by (induction segs arbitrary: stack) (simp_all add: clean_step_plain)

lemma clean_plain_segments: "list_all plain_segment segs \<Longrightarrow> fold (clean_step True) segs stack = rev segs @ stack"
  by (induction segs arbitrary: stack) (simp_all add: clean_step_def plain_segment_def)

lemma join_ends:
  assumes "list_all plain_segment segs" "segs \<noteq> []"
  shows "go_join ''/'' segs \<noteq> []" "hd (go_join ''/'' segs) \<noteq> CHR ''/''" "last (go_join ''/'' segs) \<noteq> CHR ''/''" "go_join ''/'' segs \<noteq> ''.''"
proof -
  have "go_join ''/'' segs \<noteq> [] \<and> hd (go_join ''/'' segs) \<noteq> CHR ''/'' \<and> last (go_join ''/'' segs) \<noteq> CHR ''/''"
    using assms
  proof (induction segs)
    case (Cons seg segs)
    have "seg \<noteq> []" "hd seg \<in> set seg" "last seg \<in> set seg" "CHR ''/'' \<notin> set seg" using Cons.prems by (auto simp: plain_segment_def)
    then have "hd seg \<noteq> CHR ''/''" "last seg \<noteq> CHR ''/''" by metis+
    then show ?case using Cons by (cases "segs = []") (auto simp: plain_segment_def go_join_Cons)
  qed simp
  then show "go_join ''/'' segs \<noteq> []" "hd (go_join ''/'' segs) \<noteq> CHR ''/''" "last (go_join ''/'' segs) \<noteq> CHR ''/''" by simp_all
  show "go_join ''/'' segs \<noteq> ''.''"
  proof
    assume dot: "go_join ''/'' segs = ''.''"
    have "go_split (CHR ''/'') (go_join ''/'' segs) = segs"
      using assms by (intro go_split_join) (auto simp: list_all_iff plain_segment_def)
    then have "segs = [''.'']" by (simp add: dot)
    then show False using assms(1) by (simp add: plain_segment_def)
  qed
qed

lemma trim_slashes_join: "list_all plain_segment segs \<Longrightarrow> trim_slashes (CHR ''/'' # go_join ''/'' segs) = go_join ''/'' segs"
proof (cases "segs = []")
  case False
  assume "list_all plain_segment segs"
  note e = join_ends [OF this False]
  have "dropWhile (\<lambda>c. c = CHR ''/'') (CHR ''/'' # go_join ''/'' segs) = go_join ''/'' segs" using e(1,2) by (cases "go_join ''/'' segs") simp_all
  moreover have "dropWhile (\<lambda>c. c = CHR ''/'') (rev (go_join ''/'' segs)) = rev (go_join ''/'' segs)"
    using e(1,3) by (cases "go_join ''/'' segs" rule: rev_cases) simp_all
  ultimately show ?thesis by (simp add: trim_slashes_def)
qed (simp add: trim_slashes_def)

lemma splitPath_rooted:
  assumes "hd raw = CHR ''/''" "raw \<noteq> []"
  shows "splitPath raw = rev (fold (clean_step True) (go_split (CHR ''/'') raw) [])"
proof -
  let ?segs = "rev (fold (clean_step True) (go_split (CHR ''/'') raw) [])"
  have p: "list_all plain_segment ?segs"
    using fold_clean_plain [of "[]" "go_split (CHR ''/'') raw"] go_split_no_sep by (fastforce simp: list_all_iff)
  have clean: "path_clean raw = CHR ''/'' # go_join ''/'' ?segs" using assms by (simp add: path_clean_def Let_def)
  show ?thesis
  proof (cases "?segs = []")
    case True
    then show ?thesis unfolding splitPath_def clean trim_slashes_join [OF p] Let_def by simp
  next
    case False
    moreover have "go_split (CHR ''/'') (go_join ''/'' ?segs) = ?segs"
      using False p by (intro go_split_join) (auto simp: list_all_iff plain_segment_def)
    ultimately show ?thesis unfolding splitPath_def clean trim_slashes_join [OF p] Let_def using join_ends [OF p] by simp
  qed
qed

lemma splitPath_join:
  assumes "list_all plain_segment segs"
  shows "splitPath (CHR ''/'' # go_join ''/'' segs) = segs"
proof (cases "segs = []")
  case False
  then have "go_split (CHR ''/'') (go_join ''/'' segs) = segs" using assms by (intro go_split_join) (auto simp: list_all_iff plain_segment_def)
  moreover have "go_split (CHR ''/'') (CHR ''/'' # go_join ''/'' segs) = [] # go_split (CHR ''/'') (go_join ''/'' segs)"
    using go_split_append_sep [of "CHR ''/''" "[]"] by simp
  ultimately show ?thesis
    using splitPath_rooted [of "CHR ''/'' # go_join ''/'' segs"] clean_plain_segments [OF assms, of "[]"] by (simp add: clean_step_def)
qed (simp add: splitPath_rooted clean_step_def)

text \<open>
  C38. No request path can walk out of or around the routing: whatever dots, double dots and slashes the path of a request holds, the segments that are routed are non-empty names,
  none of them a dot or a double dot or with a slash inside, and the path they spell is routed in the same way.
\<close>

theorem path_segments_normal:
  assumes "raw \<noteq> []" "hd raw = CHR ''/''"
  shows "list_all plain_segment (splitPath raw) \<and> splitPath (CHR ''/'' # go_join ''/'' (splitPath raw)) = splitPath raw"
proof -
  have p: "list_all plain_segment (splitPath raw)"
    unfolding splitPath_rooted [OF assms(2,1)]
    using fold_clean_plain [of "[]" "go_split (CHR ''/'') raw"] go_split_no_sep by (fastforce simp: list_all_iff)
  then show ?thesis by (simp add: splitPath_join)
qed

theorem path_segments_normal_witness:
  "splitPath ''/api/v1/../../apis//x/./y/'' = [''apis'', ''x'', ''y''] \<and> list_all plain_segment (splitPath ''/api/v1/../../apis//x/./y/'')"
proof -
  have "splitPath ''/api/v1/../../apis//x/./y/'' = [''apis'', ''x'', ''y'']"
    by (simp add: splitPath_def path_clean_def trim_slashes_def clean_step_def Let_def)
  with path_segments_normal [of "''/api/v1/../../apis//x/./y/''"] show ?thesis by simp
qed

section \<open>Watches\<close>

lemma watch_seconds_range: "watch_seconds raw = Some n \<Longrightarrow> 1 \<le> n \<and> n \<le> 5"
  by (auto simp: watch_seconds_def split: if_splits option.splits)

lemma candidates_cong: "objects s' = objects s \<Longrightarrow> candidates gv ns res ls fs s' = candidates gv ns res ls fs s"
  by (simp add: candidates_def)

lemma replay_prefix:
  "\<exists>n \<le> 100. replay rq gv ns res s = map (\<lambda>c. \<lparr>ev_Type = ''ADDED'', ev_Object = cloneObject (snd c)\<rparr>)
     (take n (candidates gv ns res (fst (parseSelector (queryParam rq ''labelSelector''))) (fst (parseSelector (queryParam rq ''fieldSelector''))) s))"
proof (cases "queryParam rq ''resourceVersion'' = [] \<or> queryParam rq ''resourceVersion'' = ''0''")
  case True
  let ?ls = "fst (parseSelector (queryParam rq ''labelSelector''))" and ?fs = "fst (parseSelector (queryParam rq ''fieldSelector''))"
  obtain items tot nxt where page: "listPage gv ns res ?ls ?fs 0 maxListPageItems s = Some (items, tot, nxt)"
    by (auto simp: listPage_def Let_def)
  have "replay rq gv ns res s = map (\<lambda>item. \<lparr>ev_Type = ''ADDED'', ev_Object = item\<rparr>) items" using True page by (simp add: replay_def)
  also have "\<dots> = map (\<lambda>c. \<lparr>ev_Type = ''ADDED'', ev_Object = cloneObject (snd c)\<rparr>) (take (length items) (candidates gv ns res ?ls ?fs s))"
    by (subst listPage_SomeD(7) [OF page]) simp
  finally show ?thesis using listPage_SomeD(5) [OF page] by blast
qed (auto simp: replay_def intro!: exI [of _ 0])

text \<open>
  A watch that starts streaming has a timer of one to five seconds and has replayed a prefix of the matching objects as ADDED events, one line each, at most 100 of them; the objects beyond the
  first page are not replayed, nothing in the stream tells so, and their existing state is never sent.
\<close>

lemma watch_replay_first_page:
  assumes "watch_handler slot canFlush room rq gv ns res s = (Streaming w frames seconds, s')"
  shows "1 \<le> seconds \<and> seconds \<le> 5 \<and> length frames \<le> 100 \<and> objects s' = objects s \<and>
    frames = map (\<lambda>c. watch_frame \<lparr>ev_Type = ''ADDED'', ev_Object = cloneObject (snd c)\<rparr>)
      (take (length frames) (candidates gv ns res (fst (parseSelector (queryParam rq ''labelSelector''))) (fst (parseSelector (queryParam rq ''fieldSelector''))) s))"
proof -
  let ?ls = "fst (parseSelector (queryParam rq ''labelSelector''))" and ?fs = "fst (parseSelector (queryParam rq ''fieldSelector''))"
  have sec: "watch_seconds (queryParam rq ''timeoutSeconds'') = Some seconds" and fr: "frames = map watch_frame (replay rq gv ns res s')"
    and s': "s' = snd (watch gv ns res ?ls ?fs s)"
    using assms by (auto simp: watch_handler_def Let_def split: if_splits option.splits prod.splits)
  have obs: "objects s' = objects s" unfolding s' by (simp add: watch_def Let_def)
  obtain n where n: "n \<le> 100" "replay rq gv ns res s' = map (\<lambda>c. \<lparr>ev_Type = ''ADDED'', ev_Object = cloneObject (snd c)\<rparr>) (take n (candidates gv ns res ?ls ?fs s))"
    using replay_prefix [of rq gv ns res s'] unfolding candidates_cong [OF obs] by blast
  then have "frames = map (\<lambda>c. watch_frame \<lparr>ev_Type = ''ADDED'', ev_Object = cloneObject (snd c)\<rparr>) (take n (candidates gv ns res ?ls ?fs s))" using fr by simp
  moreover from this have "length frames = min (length (candidates gv ns res ?ls ?fs s)) n" by simp
  ultimately show ?thesis using watch_seconds_range [OF sec] obs n(1) by (simp add: min_def split: if_splits)
qed

lemma watch_replay_first_page_example:
  "\<exists>w frames seconds s'. watch_handler True True 100 demo_list (gv' [] ''v1'') [] ''pods'' demo_store = (Streaming w frames seconds, s') \<and> length frames \<le> 100"
proof -
  have empty: "trim_space [] = []" by (rule trim_space_plain) simp
  have sel: "parseSelector [] = ([], True)" "validFieldSelector []" by (simp_all add: parseSelector_def validFieldSelector_def empty)
  obtain w s' where open_w: "watch (gv' [] ''v1'') [] ''pods'' [] [] demo_store = (w, s')" by (metis prod.exhaust)
  obtain n where "n \<le> 100" "length (replay demo_list (gv' [] ''v1'') [] ''pods'' s') \<le> n"
    using replay_prefix [of demo_list "gv' [] ''v1''" "[]" "''pods''" s'] by auto
  then have "watch_handler True True 100 demo_list (gv' [] ''v1'') [] ''pods'' demo_store =
      (Streaming w (map watch_frame (replay demo_list (gv' [] ''v1'') [] ''pods'' s')) 5, s')"
    by (simp add: watch_handler_def demo_list_def queryParam_def sel open_w watch_seconds_def)
  from watch_replay_first_page [OF this] this show ?thesis by blast
qed

text \<open>A connection that ends gives its registration back.\<close>

lemma watch_turn_releases:
  assumes "system_ok (s, ws)" "w \<in> set ws" "watch_turn signal writable w s = Some (frames, False, s')"
  shows "system_ok (s', remove1 w ws)" "map_of (watchers s') (w_id w) = None" "objects s' = objects s"
proof -
  obtain t where t: "s' = unwatch w t" "system_ok (t, ws)" "objects t = objects s"
  proof (cases "\<exists>e. recv_event w s = Some e \<and> s' = unwatch w (snd e)")
    case True
    then obtain e t where e: "recv_event w s = Some (e, t)" "s' = unwatch w t" by auto
    moreover have "objects t = objects s" using e(1) by (auto simp: recv_event_def Let_def split: list.splits if_splits)
    ultimately show ?thesis using that system_ok_recv [OF assms(1,2)] by blast
  next
    case False
    then have "s' = unwatch w s" using assms(3) by (auto simp: watch_turn_def split: watchSignal.splits option.splits if_splits)
    then show ?thesis using that assms(1) by blast
  qed
  show "system_ok (s', remove1 w ws)" unfolding t(1) by (rule system_ok_unwatch [OF t(2) assms(2)])
  show "map_of (watchers s') (w_id w) = None" unfolding t(1) by (auto simp: unwatch_def store_simps map_of_eq_None_iff set_delete_alist)
  show "objects s' = objects s" using t(3) unfolding t(1) by (simp add: unwatch_def store_simps)
qed

section \<open>Logs and tokens\<close>

text \<open>With a positive \<^verbatim>\<open>limitBytes\<close> a log has at most as many bytes.\<close>

lemma pod_log_limited:
  assumes "servePodLog a rq ns name s = TextReply code out" "atoi (queryParam rq ''limitBytes'') = Some n" "0 < n"
  shows "int (length out) \<le> n"
proof -
  obtain full where "out = limit_bytes (queryParam rq ''limitBytes'') full"
    using assms(1) by (auto simp: servePodLog_def Let_def split: option.splits if_splits)
  moreover have "queryParam rq ''limitBytes'' \<noteq> []" using assms(2) by (auto simp: atoi_def parse_digits_def)
  ultimately show ?thesis using assms(2,3) by (auto simp: limit_bytes_def split: if_splits)
qed

lemma rawurl_no_dot: "CHR ''.'' \<notin> set (rawurl_encode s)"
  using rawurl_char [of "CHR ''.''" s] by (auto simp: url_value_def)

text \<open>A service account token splits at its dots into three parts that decode, the last to the UID-shaped signature.\<close>

lemma jwt_parts:
  "\<exists>header claims. go_split (CHR ''.'') (syntheticJWT ns name) = map rawurl_encode [header, claims, stableUID (''sig/'' @ ns @ ''/'' @ name)]"
  using go_split_join [of "map rawurl_encode [h, c, stableUID (''sig/'' @ ns @ ''/'' @ name)]" "CHR ''.''" for h c] rawurl_no_dot
  by (simp add: syntheticJWT_def Let_def) blast

end
