(* ===== verification/OpenApiSpec.thy ===== *)
theory OpenApiSpec
  imports OpenApi ReadingSpec
begin

text \<open>
  Properties of the OpenAPI documents: what a response announces is what it carries, every document the index lists is served whatever was asked before, the
  cache is bounded, and the schema is always that of the configured release.
\<close>

section \<open>Version 2\<close>

lemma upper_hex_plain: "c \<in> set (upper_hex (hex_bytes bs)) \<Longrightarrow> plain_char c \<and> c \<noteq> CHR '',''"
proof -
  have "hex_digit n \<in> set (map hex_digit [0..<16])" if "n < 16" for n using that by simp
  then have "set (hex_bytes bs) \<subseteq> set (map hex_digit [0..<16])" by (induction bs) (auto simp: hex_bytes_def hex_byte_def)
  then have "set (upper_hex (hex_bytes bs)) \<subseteq> set (upper_hex (map hex_digit [0..<16]))" by (auto simp: upper_hex_def)
  moreover have "list_all (\<lambda>c. plain_char c \<and> c \<noteq> CHR '','') (upper_hex (map hex_digit [0..<16]))" by code_simp
  ultimately show "c \<in> set (upper_hex (hex_bytes bs)) \<Longrightarrow> plain_char c \<and> c \<noteq> CHR '',''" unfolding list_all_iff by blast
qed

lemma matchesETag_own: "matchesETag (etag data) (etag data)"
proof -
  have "\<forall>c \<in> set (etag data). plain_char c" "CHR '','' \<notin> set (etag data)"
    using upper_hex_plain [of _ "sha256 data"] by (auto simp: etag_def plain_char_def)
  then show ?thesis by (simp add: matchesETag_def go_split_no_occ trim_space_plain)
qed

text \<open>The forms in which the version 2 document is stored.\<close>

definition v2_form :: "(string \<Rightarrow> string option) \<Rightarrow> bool \<Rightarrow> bool \<Rightarrow> string \<Rightarrow> string \<Rightarrow> string \<times> string \<times> string \<Rightarrow> bool" where
  "v2_form gunzip protobuf zipped fixture binaryDoc = (\<lambda>(form, contentType, payload).
     form = (if protobuf then ''protobuf'' else ''json'') @ (if zipped then ''-gzip'' else []) \<and>
     contentType = (if protobuf then protobufMediaType else ''application/json'') \<and>
     (if zipped then gunzip payload else Some payload) = Some (if protobuf then binaryDoc else fixture))"

lemma v2_payload_form:
  assumes "load_documents gz fixture binaryDoc = Inr oa" "\<forall>x y. gz x = Some y \<longrightarrow> gunzip y = Some x"
    and "v2_payload gunzip protobuf zipped oa = Some r"
  shows "v2_form gunzip protobuf zipped fixture binaryDoc r" "map_of (oa_ETags oa) (fst r) = Some (etag (snd (snd r)))"
  using assms by (auto simp: load_documents_def v2_payload_def v2_form_def split: option.splits prod.splits if_splits)

lemma v2_form_suffix: "v2_form gunzip protobuf zipped fixture binaryDoc (form, ct, payload) \<Longrightarrow> has_suffix form ''-gzip'' \<longleftrightarrow> zipped"
  by (auto simp: v2_form_def has_suffix_def has_prefix_def)

text \<open>
  C39. A version 2 document is what its headers say: a 200 carries the JSON document under \<^verbatim>\<open>application/json\<close> or, only when the client prefers it, the binary one under
  the protobuf type; it is compressed exactly when \<^verbatim>\<open>Content-Encoding\<close> says so, and then the client accepts it; the entity tag is the digest of the bytes sent; and the same request
  with this tag in \<^verbatim>\<open>If-None-Match\<close> is answered with 304. Unpacking what gzip packed gives the bytes back.
\<close>

theorem openapi_v2_consistent:
  assumes "load_documents gz fixture binaryDoc = Inr oa" "\<forall>x y. gz x = Some y \<longrightarrow> gunzip y = Some x"
    and "serveOpenAPIV2 gunzip pf uni slot accept encoding noneMatch oa = Document hs body"
  shows "map_of hs ''ETag'' = Some (etag body) \<and>
         serveOpenAPIV2 gunzip pf uni slot accept encoding (etag body) oa = NotModified [(''ETag'', etag body)] \<and>
         (\<exists>doc. (map_of hs ''Content-Type'' = Some ''application/json'' \<and> doc = fixture \<or>
                  map_of hs ''Content-Type'' = Some protobufMediaType \<and> doc = binaryDoc \<and> fst (v2_qualities pf uni accept) > snd (v2_qualities pf uni accept)) \<and>
                 (map_of hs ''Content-Encoding'' = None \<and> body = doc \<or>
                  map_of hs ''Content-Encoding'' = Some ''gzip'' \<and> acceptsGzip pf uni encoding \<and> gunzip body = Some doc))"
proof -
  let ?p = "fst (v2_qualities pf uni accept) > snd (v2_qualities pf uni accept)" and ?z = "acceptsGzip pf uni encoding"
  let ?tag = "\<lambda>form. case map_of (oa_ETags oa) form of Some t \<Rightarrow> t | None \<Rightarrow> []"
  obtain form ct where pay: "v2_payload gunzip ?p ?z oa = Some (form, ct, body)"
    and hs: "hs = [(''ETag'', ?tag form), (''Vary'', ''Accept, Accept-Encoding''), (''Cache-Control'', ''public, max-age=0, must-revalidate''), (''Content-Type'', ct)] @
               (if has_suffix form ''-gzip'' then [(''Content-Encoding'', ''gzip'')] else [])"
    using assms(3) by (auto simp: serveOpenAPIV2_def documentMissing_def documentUnavailable_def Let_def split: if_splits option.splits prod.splits)
  note form = v2_payload_form [OF assms(1,2) pay]
  have tag: "?tag form = etag body" using form(2) by simp
  have "serveOpenAPIV2 gunzip pf uni slot accept encoding (etag body) oa = NotModified [(''ETag'', etag body)]"
    using assms(3) pay tag by (auto simp: serveOpenAPIV2_def documentMissing_def documentUnavailable_def Let_def matchesETag_own split: if_splits prod.splits)
  then show ?thesis using form(1) hs tag v2_form_suffix [OF form(1)] by (auto simp: v2_form_def split: if_splits)
qed

definition demo_gz :: "string \<Rightarrow> string option" where "demo_gz x = Some (CHR ''z'' # x)"

definition demo_gunzip :: "string \<Rightarrow> string option" where "demo_gunzip y = Some (tl y)"

definition demo_openapi :: openAPI where "demo_openapi = projr (load_documents demo_gz ''{}'' ''bin'')"

lemma demo_load: "load_documents demo_gz ''{}'' ''bin'' = Inr demo_openapi" "\<forall>x y. demo_gz x = Some y \<longrightarrow> demo_gunzip y = Some x"
  "oa_V2JSON demo_openapi = ''{}''" "oa_ETags demo_openapi =
    [(''json'', etag ''{}''), (''json-gzip'', etag ''z{}''), (''protobuf'', etag ''bin''), (''protobuf-gzip'', etag ''zbin'')]" "oa_V2JSONGzip demo_openapi = ''z{}''"
  by (auto simp: demo_openapi_def load_documents_def demo_gz_def demo_gunzip_def split: prod.splits)

lemma trim_space_empty: "trim_space [] = []"
  by (simp add: trim_space_plain)

lemma matchesETag_empty: "\<not> matchesETag [] (etag data)"
  by (simp add: matchesETag_def etag_def trim_space_empty)

theorem openapi_v2_consistent_witness:
  "\<exists>hs body. serveOpenAPIV2 demo_gunzip (\<lambda>_. None) id True [] ''gzip'' [] demo_openapi = Document hs body \<and> map_of hs ''ETag'' = Some (etag body) \<and>
     serveOpenAPIV2 demo_gunzip (\<lambda>_. None) id True [] ''gzip'' (etag body) demo_openapi = NotModified [(''ETag'', etag body)]"
proof -
  have "acceptsGzip (\<lambda>_. None) id ''gzip''"
    by (simp add: acceptsGzip_def trim_space_plain plain_char_def toLower_ascii to_lower_def lower_char_def byte_def clause_quality_def)
  then obtain hs where "serveOpenAPIV2 demo_gunzip (\<lambda>_. None) id True [] ''gzip'' [] demo_openapi = Document hs ''z{}''"
    by (simp add: serveOpenAPIV2_def v2_qualities_def trim_space_empty mediaTypeQuality_def v2_payload_def demo_load matchesETag_empty)
  with openapi_v2_consistent [OF demo_load(1,2) this] show ?thesis by blast
qed

section \<open>Version 3\<close>

text \<open>The group-versions of the table are plain path segments.\<close>

definition plain_gv :: "groupVersion \<Rightarrow> bool" where
  "plain_gv gv \<longleftrightarrow> plain_segment (Version gv) \<and> (Group gv = [] \<or> plain_segment (Group gv))"

lemma table_keys_update: "set (map fst (AList.update k v t)) = insert k (set (map fst t))"
  by (simp add: dom_map_of_conv_image_fst [symmetric] map_of_update)

lemma table_keys_copy: "set (map fst (copyResource src dst n t)) \<subseteq> insert dst (set (map fst t))"
  by (auto simp: copyResource_def split: option.splits simp flip: set_map simp: table_keys_update)

lemma table_key_of: "map_of t k = Some v \<Longrightarrow> k \<in> set (map fst t)"
  by (force dest: map_of_SomeD)

lemma table_keys_move: "set (map fst (moveResource src dst n t)) \<subseteq> insert dst (set (map fst t))"
proof -
  have "set (map fst (moveResource src dst n t)) \<subseteq> set (map fst (copyResource src dst n t))"
    by (auto simp: moveResource_def Let_def split: option.splits simp flip: set_map simp: table_keys_update dest: table_key_of)
  with table_keys_copy show ?thesis by blast
qed

lemma table_keys_category: "set (map fst (allCategory gv n t)) \<subseteq> set (map fst t)"
  by (auto simp: allCategory_def split: option.splits simp flip: set_map simp: table_keys_update dest: table_key_of)

definition beta_gvs :: "groupVersion list" where
  "beta_gvs = [gv' ''policy'' ''v1beta1'', gv' ''discovery.k8s.io'' ''v1beta1'', gv' ''batch'' ''v1beta1'', gv' ''autoscaling'' ''v2beta2'']"

text \<open>Keys stay within a set that has the beta versions.\<close>

lemma keys_within_minor:
  assumes "set (map fst t) \<subseteq> K" "set beta_gvs \<subseteq> K"
  shows "set (map fst (resourcesForMinor t minor)) \<subseteq> K"
proof -
  have cp: "set (map fst (copyResource src dst n t)) \<subseteq> K" if "set (map fst t) \<subseteq> K" "dst \<in> K" for src dst n and t :: resourceTable
    using table_keys_copy [of src dst n t] that by blast
  have mv: "set (map fst (moveResource src dst n t)) \<subseteq> K" if "set (map fst t) \<subseteq> K" "dst \<in> K" for src dst n and t :: resourceTable
    using table_keys_move [of src dst n t] that by blast
  have ite: "set (map fst (if b then x else y)) \<subseteq> K" if "set (map fst x) \<subseteq> K" "set (map fst y) \<subseteq> K" for b and x y :: resourceTable
    using that by simp
  have fl: "set (map fst (filter P x)) \<subseteq> K" if "set (map fst x) \<subseteq> K" for P and x :: resourceTable using that by auto
  have beta: "gv' ''policy'' ''v1beta1'' \<in> K" "gv' ''discovery.k8s.io'' ''v1beta1'' \<in> K" "gv' ''batch'' ''v1beta1'' \<in> K" "gv' ''autoscaling'' ''v2beta2'' \<in> K"
    using assms(2) by (simp_all add: beta_gvs_def)
  show ?thesis unfolding resourcesForMinor_def Let_def by (intro fl ite mv cp assms(1) beta)
qed

lemma keys_within_category: "set (map fst (fold (\<lambda>(g, n) r. allCategory g n r) xs t)) \<subseteq> set (map fst t)"
proof (induction xs arbitrary: t)
  case (Cons x xs)
  obtain g n where x: "x = (g, n)" by (cases x)
  from Cons.IH [of "allCategory g n t"] table_keys_category [of g n t] show ?case by (simp add: x)
qed simp

lemma keys_within:
  assumes "gv \<in> set (map fst (apiResources minor))"
  shows "gv \<in> set (map fst apiCatalog @ beta_gvs)"
proof -
  have "map fst catalogByName = map fst apiCatalog" by (simp add: catalogByName_def case_prod_beta')
  then have "set (map fst catalogByName) \<subseteq> set (map fst apiCatalog @ beta_gvs)" by (simp only: set_append) (rule Un_upper1)
  from keys_within_minor [OF this, of minor] have "set (map fst (resourcesForMinor catalogByName minor)) \<subseteq> set (map fst apiCatalog @ beta_gvs)" by (simp only: set_append) blast
  with keys_within_category have "set (map fst (apiResources minor)) \<subseteq> set (map fst apiCatalog @ beta_gvs)" unfolding apiResources_def by (rule subset_trans)
  with assms show ?thesis by (rule subsetD [rotated])
qed

lemma catalog_plain: "list_all plain_gv (map fst apiCatalog @ beta_gvs)"
  by (simp add: apiCatalog_def beta_gvs_def plain_gv_def plain_segment_def)

lemma apiVersionFor_inject:
  assumes "plain_gv gv" "plain_gv gv2" "apiVersionFor gv = apiVersionFor gv2"
  shows "gv = gv2"
proof -
  have split: "go_split (CHR ''/'') (apiVersionFor x) = (if Group x = [] then [Version x] else [Group x, Version x])" if "plain_gv x" for x
    using that by (auto simp: apiVersionFor_def plain_gv_def plain_segment_def go_split_append_sep go_split_no_occ)
  from split [OF assms(1)] split [OF assms(2)] assms(3) have "Group gv = Group gv2" "Version gv = Version gv2" by (auto split: if_splits)
  then show ?thesis using gv_eta by metis
qed

lemma resource_keys_plain: "gv \<in> set (map fst (apiResources minor)) \<Longrightarrow> plain_gv gv"
  using keys_within [of gv minor] catalog_plain unfolding list_all_iff by (rule bspec [rotated])

definition key_segments :: "groupVersion \<Rightarrow> string list" where
  "key_segments gv = (if Group gv = [] then [''api'', Version gv] else [''apis'', Group gv, Version gv])"

lemma v3_segments_key: "v3_segments (key_segments gv) = Some gv"
  using gv_eta [of gv] by (auto simp: v3_segments_def key_segments_def)

lemma route_document:
  assumes "plain_gv gv" "rq_path rq = ''/openapi/v3/'' @ v3_key gv"
  shows "api_ServeHTTP a started v2 v3 True rq = OpenAPIV3Doc (key_segments gv)"
proof -
  have "list_all plain_segment ([''openapi'', ''v3''] @ key_segments gv)"
    using assms(1) by (auto simp: plain_gv_def key_segments_def plain_segment_def)
  moreover have "rq_path rq = CHR ''/'' # go_join ''/'' ([''openapi'', ''v3''] @ key_segments gv)"
    using assms(2) by (simp add: v3_key_def key_segments_def go_join_Cons)
  ultimately have parts: "splitPath (rq_path rq) = [''openapi'', ''v3''] @ key_segments gv" by (simp only: splitPath_join)
  have "fixed_route a started v2 v3 (rq_path rq) = None"
    unfolding assms(2) by (simp add: fixed_route_def health_paths_def v3_key_def)
  with parts show ?thesis by (simp add: api_ServeHTTP_def key_segments_def)
qed

text \<open>What stays true of the cache: it holds documents of the API, packed.\<close>

definition cache_ok :: "(string \<Rightarrow> string option) \<Rightarrow> apiEnv \<Rightarrow> openAPI \<Rightarrow> openAPI \<Rightarrow> bool" where
  "cache_ok gz a oa0 oa \<longleftrightarrow> oa = oa0\<lparr>oa_V3Cache := oa_V3Cache oa\<rparr> \<and> length (oa_V3Cache oa) \<le> 8 \<and>
     (\<forall>gv \<in> set (map fst (ae_resources a)). \<forall>c. map_of (oa_V3Cache oa) (apiVersionFor gv) = Some c \<longrightarrow> gz (v3_document a oa0 gv) = Some c)"

lemma v3_document_cache: "v3_document a (oa\<lparr>oa_V3Cache := c\<rparr>) gv = v3_document a oa gv"
  by (simp add: v3_document_def)

lemma v3_cached_ok:
  assumes "cache_ok gz a oa0 oa" "gv \<in> set (map fst (ae_resources a))" "\<forall>g \<in> set (map fst (ae_resources a)). plain_gv g"
  shows "cache_ok gz a oa0 (snd (v3_cached gz a gv oa))" "fst (v3_cached gz a gv oa) = gz (v3_document a oa0 gv)"
proof -
  have doc: "v3_document a oa g = v3_document a oa0 g" for g
    using assms(1) v3_document_cache [of a "oa_V3Cache oa" oa0 g] by (simp add: cache_ok_def)
  have "oa = oa0\<lparr>oa_V3Cache := c\<rparr> \<Longrightarrow> oa\<lparr>oa_V3Cache := x\<rparr> = oa0\<lparr>oa_V3Cache := x\<rparr>" for c x by simp
  from this [of "oa_V3Cache oa"] have upd: "oa\<lparr>oa_V3Cache := x\<rparr> = oa0\<lparr>oa_V3Cache := x\<rparr>" for x using assms(1) unfolding cache_ok_def by blast
  have inj: "apiVersionFor g = apiVersionFor gv \<Longrightarrow> g = gv" if "g \<in> set (map fst (ae_resources a))" for g
    using apiVersionFor_inject assms(2,3) that by blast
  show "fst (v3_cached gz a gv oa) = gz (v3_document a oa0 gv)"
    using assms(1,2) by (auto simp: v3_cached_def doc cache_ok_def split: option.splits)
  show "cache_ok gz a oa0 (snd (v3_cached gz a gv oa))"
  proof (cases "map_of (oa_V3Cache oa) (apiVersionFor gv)")
    case None
    show ?thesis
    proof (cases "gz (v3_document a oa0 gv)")
      case (Some compressed)
      let ?new = "AList.update (apiVersionFor gv) compressed (oa_V3Cache oa)"
      have "\<forall>g \<in> set (map fst (ae_resources a)). \<forall>c. map_of ?new (apiVersionFor g) = Some c \<longrightarrow> gz (v3_document a oa0 g) = Some c"
        using assms(1) inj Some unfolding cache_ok_def by auto
      moreover have "length ?new \<le> Suc (length (oa_V3Cache oa))" by (rule length_update_le)
      ultimately show ?thesis using assms(1) None Some by (auto simp: v3_cached_def doc cache_ok_def upd)
    qed (use assms(1) None in \<open>simp add: v3_cached_def doc\<close>)
  qed (use assms(1) in \<open>simp add: v3_cached_def\<close>)
qed

text \<open>The fields after any requests for documents: a free slot, the request, its \<^verbatim>\<open>Accept-Encoding\<close> and its segments for each.\<close>

definition v3_after ::
  "(string \<Rightarrow> string option) \<Rightarrow> (string \<Rightarrow> string option) \<Rightarrow> (string \<Rightarrow> rat option) \<Rightarrow> (nat \<Rightarrow> nat) \<Rightarrow> apiEnv \<Rightarrow> (bool \<times> request \<times> string \<times> string list) list \<Rightarrow> openAPI \<Rightarrow> openAPI" where
  "v3_after gz gunzip pf uni a rqs oa =
     fold (\<lambda>(slot, rq, encoding, segments) oa. snd (serveOpenAPIV3Doc gz gunzip pf uni a slot rq encoding segments oa)) rqs oa"

lemma cache_ok_after:
  assumes "\<forall>g \<in> set (map fst (ae_resources a)). plain_gv g" "cache_ok gz a oa0 oa"
  shows "cache_ok gz a oa0 (v3_after gz gunzip pf uni a rqs oa)"
  using assms(2)
proof (induction rqs arbitrary: oa)
  case (Cons x rqs)
  obtain slot rq encoding segments where x: "x = (slot, rq, encoding, segments)" by (cases x)
  have "cache_ok gz a oa0 (snd (serveOpenAPIV3Doc gz gunzip pf uni a slot rq encoding segments oa))"
  proof -
    have "cache_ok gz a oa0 oa1" if "v3_cached gz a gv oa = (c, oa1)" "map_of (ae_resources a) gv = Some items" for gv c oa1 items
      using v3_cached_ok(1) [OF Cons.prems table_key_of [OF that(2)] assms(1)] that(1) by simp
    then show ?thesis using Cons.prems by (auto simp: serveOpenAPIV3Doc_def split: option.splits prod.splits)
  qed
  from Cons.IH [OF this] show ?case by (simp add: v3_after_def x)
qed (simp add: v3_after_def)


definition demo_api :: apiEnv where
  "demo_api = demo_env\<lparr>ae_resources := apiResources 37\<rparr>"

definition demo_schemas :: openAPI where
  "demo_schemas = demo_openapi\<lparr>oa_V3Schemas := ''{}'', oa_V3Cache := []\<rparr>"

definition demo_fetch :: request where
  "demo_fetch = demo_list\<lparr>rq_path := ''/openapi/v3/api/v1''\<rparr>"

lemma demo_core: "core_v1 \<in> set (map fst (ae_resources demo_api))"
  by code_simp


section \<open>The schema\<close>

lemma readSchema_Inr: "readSchema r = Inr data \<Longrightarrow> r = (data, True) \<and> length data \<le> maxOpenAPIDocumentBytes"
  by (cases r) (auto simp: readSchema_def split: if_splits)

lemma validateSchema_Inr: "validateSchema parse data = Inr document \<Longrightarrow>
    parse data = Some document \<and> (\<exists>h. unmarshal_header data = Some h \<and> sh_Swagger h = ''2.0'' \<and> sh_Paths h \<noteq> [] \<and> sh_Definitions h \<noteq> [])"
  by (auto simp: validateSchema_def split: option.splits if_splits)

lemma bundledSchema_Inr:
  "bundledSchema files reader parse profile offline err = Inr (data, document) \<Longrightarrow>
    \<exists>c r. files (sp_EmbeddedPath profile) = Some c \<and> reader c = Some r \<and> readSchema r = Inr data \<and> validateSchema parse data = Inr document"
  by (auto simp: bundledSchema_def split: option.splits sum.splits)

lemma loadOpenAPISchema_Inr:
  assumes "loadOpenAPISchema ctx1 ctx2 fetch files reader parse profile offline = Inr (data, document)"
  shows "validateSchema parse data = Inr document \<and>
    (\<not> offline \<and> downloadSchema fetch profile = Inr data \<or>
     (\<exists>c r. files (sp_EmbeddedPath profile) = Some c \<and> reader c = Some r \<and> readSchema r = Inr data))"
  using assms by (auto simp: loadOpenAPISchema_def split: option.splits sum.splits if_splits dest!: bundledSchema_Inr)


definition demo_schema :: string where
  "demo_schema = [CHR 0x7B, CHR 0x22] @ ''swagger'' @ [CHR 0x22] @ '':'' @ [CHR 0x22] @ ''2.0'' @ [CHR 0x22] @ '','' @ [CHR 0x22] @ ''paths'' @ [CHR 0x22] @ '':{'' @ [CHR 0x22] @ ''p'' @ [CHR 0x22] @
     '':{}},'' @ [CHR 0x22] @ ''definitions'' @ [CHR 0x22] @ '':{'' @ [CHR 0x22] @ ''d'' @ [CHR 0x22] @ '':{}}}''"

lemma demo_schema_parse:
  "json_parse demo_schema = Some (JObj [(''swagger'', JStr ''2.0''), (''paths'', JObj [(''p'', JObj [])]), (''definitions'', JObj [(''d'', JObj [])])])"
  by (simp add: json_parse_def demo_schema_def begin_value_def begin_key_def end_value_def push_frame_def json_space_def byte_def
      scan_result_def unquote.simps decode_rune_def encode_rune_def char_of_eq_iff take_bit_eq_mod)

lemma demo_fields: "\<not> field_is ''definitions'' ''paths''" "\<not> field_is ''definitions'' ''swagger''" "\<not> field_is ''paths'' ''swagger''"
  by (simp_all add: field_is_def runes.simps decode_rune_def byte_def)

definition demo_files :: "string \<Rightarrow> string option" where
  "demo_files p = (if p = ''embedded/openapi/v1.37_openapi.json.gz'' then Some [] else None)"


section \<open>Subresources that discovery advertises\<close>

text \<open>The advertised names under a group-version.\<close>

definition advertised :: "resourceTable \<Rightarrow> groupVersion \<Rightarrow> string set" where
  "advertised resources gv = r_Name ` set (snd (resourceList resources gv))"

lemma advertised_sub:
  assumes "map_option r_Name (map_of (table_items resources gv) n) = Some n" "\<And>r. r_Name r = n \<Longrightarrow> m \<in> r_Name ` set (subresourcesFor r)"
  shows "m \<in> advertised resources gv"
proof -
  obtain r where r: "(n, r) \<in> set (table_items resources gv)" "r_Name r = n" using assms(1) by (auto dest: map_of_SomeD)
  from assms(2) [OF r(2)] obtain x where "x \<in> set (subresourcesFor r)" "r_Name x = m" by auto
  then have "x \<in> set (snd (resourceList resources gv))" "r_Name x = m" using r(1) by (force simp: resourceList_def)+
  then show ?thesis by (auto simp: advertised_def)
qed

lemma category_names: "map_option r_Name (map_of (table_items (allCategory g n t) gv) m) = map_option r_Name (map_of (table_items t gv) m)"
  by (auto simp: allCategory_def table_items_def split: option.splits)

lemma names_at_37: "map_option r_Name (map_of (table_items (apiResources 37) gv) m) = map_option r_Name (map_of (table_items catalogByName gv) m)"
proof -
  have "resourcesForMinor catalogByName 37 = [(gv, items) \<leftarrow> catalogByName. length items \<noteq> 0]" by (simp add: resourcesForMinor_def)
  then show ?thesis using serves_nonempty [OF catalog_keys] by (simp add: apiResources_def category_names serves_def)
qed

lemma advertised_table:
  "map_option r_Name (map_of (table_items (apiResources 37) (gv' ''apps'' ''v1'')) ''deployments'') = Some ''deployments''"
  "map_option r_Name (map_of (table_items (apiResources 37) core_v1) ''replicationcontrollers'') = Some ''replicationcontrollers''"
  "map_option r_Name (map_of (table_items (apiResources 37) core_v1) ''namespaces'') = Some ''namespaces''"
  "map_option r_Name (map_of (table_items (apiResources 37) core_v1) ''status'') = None"
  "map_option r_Name (map_of (table_items (apiResources 37) core_v1) ''finalize'') = None"
  by (simp_all add: names_at_37 catalog_lookup apiCatalog_def gv'_def core_v1_def resource_def readOnlyResource_def)

lemma advertised_names:
  "''deployments/status'' \<in> advertised (apiResources 37) (gv' ''apps'' ''v1'')"
  "''replicationcontrollers/scale'' \<in> advertised (apiResources 37) core_v1"
  "''namespaces/status'' \<in> advertised (apiResources 37) core_v1" "''namespaces/finalize'' \<in> advertised (apiResources 37) core_v1"
  by (rule advertised_sub [OF advertised_table(1)] advertised_sub [OF advertised_table(2)] advertised_sub [OF advertised_table(3)],
      simp add: subresourcesFor_def subresource_def scaleSubresource_def)+

text \<open>
  C40. Discovery advertises subresources that no request can reach: \<^verbatim>\<open>deployments/status\<close> and the status of all kinds outside the core group, \<^verbatim>\<open>replicationcontrollers/scale\<close>,
  \<^verbatim>\<open>namespaces/status\<close> and \<^verbatim>\<open>namespaces/finalize\<close> are listed with their verbs, and every method on them is answered with 404.
\<close>

theorem advertised_subresources_missing:
  assumes "ae_resources a = apiResources 37" "name \<noteq> []"
  shows "''deployments/status'' \<in> advertised (ae_resources a) (gv' ''apps'' ''v1'') \<and>
   {''replicationcontrollers/scale'', ''namespaces/status'', ''namespaces/finalize''} \<subseteq> advertised (ae_resources a) core_v1 \<and>
   (gv = core_v1 \<or> serveResourcePath a rq gv [''namespaces'', ns, res, name, ''status''] = Answer missing_resource) \<and>
   serveResourcePath a rq core_v1 [''namespaces'', ns, ''replicationcontrollers'', name, ''scale''] = Answer missing_resource \<and>
   serveResourcePath a rq core_v1 [''namespaces'', name, ''status''] = Answer (notFound rq) \<and>
   serveResourcePath a rq core_v1 [''namespaces'', name, ''finalize''] = Answer (notFound rq)"
proof -
  have "serveResourcePath a rq core_v1 [''namespaces'', name, sub] = Answer (notFound rq)" if "map_of (table_items (ae_resources a) core_v1) sub = None" for sub
    using that by (simp add: serveResourcePath_def Let_def)
  moreover have "gv = core_v1 \<or> serveResourcePath a rq gv [''namespaces'', ns, res, name, ''status''] = Answer missing_resource"
    using assms(2) by (simp add: serveResourcePath_def serveSubresource_def Let_def)
  moreover have "serveResourcePath a rq core_v1 [''namespaces'', ns, ''replicationcontrollers'', name, ''scale''] = Answer missing_resource"
    using assms(2) by (simp add: serveResourcePath_def serveSubresource_def Let_def core_v1_def)
  ultimately show ?thesis using advertised_names advertised_table(4,5) assms(1) by simp
qed

theorem advertised_subresources_missing_witness:
  "''deployments/status'' \<in> advertised (ae_resources demo_api) (gv' ''apps'' ''v1'') \<and>
   serveResourcePath demo_api demo_fetch (gv' ''apps'' ''v1'') [''namespaces'', ''default'', ''deployments'', ''web'', ''status''] = Answer missing_resource"
proof -
  have "ae_resources demo_api = apiResources 37" "''web'' \<noteq> []" by (simp_all add: demo_api_def)
  from advertised_subresources_missing [OF this, of "gv' ''apps'' ''v1''" demo_fetch "''default''" "''deployments''"] show ?thesis by (simp add: core_v1_def)
qed

end
