(* ===== verification/HandlerSpec.thy ===== *)
theory HandlerSpec
  imports Handlers
begin

text \<open>
  What the mutating handlers of \<^verbatim>\<open>handler/api.go\<close> promise to a client: a created object can be read back and
  nothing else moves, an update keeps the identity of the object it replaces, a delete removes its key, and
  every successful change made through an object path is reported exactly once.
\<close>

section \<open>Response codes\<close>

definition code_of :: "response \<Rightarrow> int" where
  "code_of r = (case r of Reply c b \<Rightarrow> c | Panicked \<Rightarrow> 0)"

lemma code_of_responses [simp]:
  "code_of (Reply c b) = c" "code_of Panicked = 0" "code_of (status c reason message n) = c"
  "code_of capacityError = 429" "code_of (object_not_found k n) = 404" "code_of (success_status dt) = 200"
  by (simp_all add: code_of_def status_def capacityError_def object_not_found_def success_status_def)

lemma code_of_bodyError [simp]: "code_of (bodyError_response e n) \<noteq> 200" "code_of (bodyError_response e n) \<noteq> 201"
  "code_of (bodyError_response e n) \<ge> 400"
  by (simp_all add: bodyError_response_def split: bodyError.splits)

section \<open>Validation\<close>

lemma first_error_None: "first_error es = None \<longleftrightarrow> (\<forall>e \<in> set es. e = None)"
  by (induction es) (auto split: option.splits)

lemma validated_name:
  assumes "validateObjectShape object gv d partial = None" "stringField (objectMap (gget object ''metadata'')) ''name'' \<noteq> []"
  shows "validObjectName (stringField (objectMap (gget object ''metadata'')) ''name'')"
proof -
  have "check_metadata object = None"
    using assms(1) by (simp add: validateObjectShape_def first_error_None del: first_error.simps)
  moreover obtain metadata where "gget object ''metadata'' = GMap metadata" "has_key object ''metadata''"
    using assms(2) \<open>check_metadata object = None\<close>
    by (cases "gget object ''metadata''") (auto simp: check_metadata_def stringField_def objectMap_def gget_def has_key_def as_string_def split: if_splits option.splits)
  ultimately have "check_name_field metadata ''name'' = None"
    by (simp add: check_metadata_def first_error_None del: first_error.simps)
  then show ?thesis
    using assms(2) \<open>gget object ''metadata'' = GMap metadata\<close>
    by (auto simp: check_name_field_def stringField_def has_key_def gget_def as_string_def split: option.splits if_splits)
qed

lemma nextName_valid: "nextName prefix s = (Inr n, t) \<Longrightarrow> validObjectName n"
  by (auto simp: nextName_def Let_def split: if_splits)

section \<open>Refusals\<close>

text \<open>
  C10. A refused request changes nothing: whenever the server answers a mutating request with a client or
  capacity error, no object, byte count, revision, watcher or channel has changed, and no audit event is reported.
\<close>

theorem refused_request_is_noop:
  assumes "perform a pem slot rq gv act s = (Some (Reply c body), ms, t)" "c \<ge> 400"
  shows "objects t = objects s \<and> storedBytes t = storedBytes s \<and> resourceRev t = resourceRev s \<and>
         watchers t = watchers s \<and> chans t = chans s \<and> ms = []"
  using quiet_perform [OF assms(1)] assms(2) by (simp add: quiet_def same_objects_def)

section \<open>Create\<close>

lemma create_defaults_metadata: "gget (create_defaults a kind ns n object s) ''metadata'' = gget object ''metadata''"
  by (simp add: create_defaults_def create_pod_defaults_def create_job_defaults_def create_service_defaults_def Let_def
      split: option.splits gval.splits)

definition plain_kind :: "string \<Rightarrow> bool" where
  "plain_kind kind \<longleftrightarrow> \<not> isWorkloadKind kind \<and> kind \<noteq> ''Service'' \<and> kind \<noteq> ''Namespace''"

definition created :: "request \<Rightarrow> groupVersion \<Rightarrow> string \<Rightarrow> apiResource \<Rightarrow> objectStore \<Rightarrow> outcome \<Rightarrow> bool" where
  "created rq gv ns d s out \<longleftrightarrow>
     (\<forall>object ms t. out = (Reply 201 object, ms, t) \<longrightarrow>
        (let n = stringField (objectMap (gget object ''metadata'')) ''name''; key = mk_key (Group gv) (Version gv) (r_Name d) ns n
         in validObjectName n \<and> get s key = None \<and> get t = (get s)(key \<mapsto> cloneObject object) \<and>
            ms = [emitMutation rq ''create'' object]))"

lemma created_refused: "code_of r \<noteq> 201 \<Longrightarrow> created rq gv ns d s (r, ms, t)"
  by (auto simp: created_def)

lemma created_if: "(P \<Longrightarrow> created rq gv ns d s x) \<Longrightarrow> (\<not> P \<Longrightarrow> created rq gv ns d s y) \<Longrightarrow> created rq gv ns d s (if P then x else y)"
  by simp

lemma created_named:
  assumes "plain_kind (r_Kind d)" "validObjectName n" "objects s0 = objects s"
  shows "created rq gv ns d s (create_named a pem rq gv ns d n md object s0)"
proof -
  let ?key = "mk_key (Group gv) (Version gv) (r_Name d) ns n"
  let ?object = "create_defaults a (r_Kind d) ns n (stamp_identity a gv d ns n md object) s0"
  obtain err object2 s1 where put: "put ?key ?object ''ADDED'' s0 = (err, object2, s1)"
    by (cases "put ?key ?object ''ADDED'' s0") auto
  have get: "get s0 = get s"
    using assms(3) by (simp add: get_def fun_eq_iff)
  show ?thesis
  proof (cases err)
    case None
    have fresh: "get s ?key = None"
      using put_None_iff [of ?key ?object "''ADDED''" s0] put None assms(3)
      by (auto simp: put_accepts_def get_def)
    have stamped: "object2 = stamped ?object s0"
      using put_outcome [of ?key ?object "''ADDED''" s0 object2 s1] put None by simp
    have "stringField (objectMap (gget object2 ''metadata'')) ''name'' = n"
      by (simp add: stamped stamped_def create_defaults_metadata stamp_identity_def Let_def stringField_def as_string_def)
    moreover have "get s1 = (get s)(?key \<mapsto> cloneObject object2)"
      using put_outcome [of ?key ?object "''ADDED''" s0 object2 s1] put None by (simp add: get)
    ultimately show ?thesis
      using put None assms(1,2) fresh
      by (simp add: create_named_def created_def Let_def after_create_def plain_kind_def)
  next
    case (Some e)
    then show ?thesis
      using put by (cases e) (simp_all add: create_named_def created_refused Let_def)
  qed
qed

lemma created_create:
  assumes "plain_kind (r_Kind d)"
  shows "created rq gv ns d s (create a pem rq gv ns d s)"
proof (cases "r_Namespaced d \<and> ns = []")
  case True
  then show ?thesis by (simp add: create_def created_refused)
next
  case scoped: False
  show ?thesis
  proof (cases "rq_object rq")
    case (Inl e)
    then show ?thesis using scoped by (auto simp: create_def intro!: created_refused)
  next
    case (Inr object)
    have step: "created rq gv ns d s
      (case nextName prefix s of
        (Inl errStoreCapacity, t') \<Rightarrow> (r2, [], t') | (Inl errObjectAlreadyExists, t') \<Rightarrow> (r2, [], t')
      | (Inl errGeneratedNameCapacity, t') \<Rightarrow> (r1, [], t') | (Inl errInvalidGeneratedName, t') \<Rightarrow> (r2, [], t')
      | (Inr v, t') \<Rightarrow> create_named a pem rq gv ns d v md object t')"
      if "code_of r1 \<noteq> 201" "code_of r2 \<noteq> 201" for prefix r1 r2 md
      using that assms
      by (cases "nextName prefix s")
        (auto split: sum.splits storeError.splits intro!: created_refused created_named
          dest: nextName_valid same_objects_nextName simp: same_objects_def)
    show ?thesis
    proof (cases "validateObjectShape object gv d False")
      case None
      have resolved: "(if ns \<noteq> [] then ns else if r_Namespaced d \<and> P then got else []) = ns" for P got
        using scoped by auto
      show ?thesis
        unfolding create_def Let_def Inr None sum.case option.case resolved
        by (intro created_if created_named step assms) (simp_all add: created_refused validated_name [OF None])
    qed (use scoped Inr in \<open>simp add: create_def created_refused\<close>)
  qed
qed


section \<open>Update\<close>

lemma put_object: "put key object ev s = (err, object', s') \<Longrightarrow> object' = stamped object s"
  by (cases rule: put_cases [of key object ev s]) auto

lemma store_modified_200:
  assumes "store_modified a rq op gv ns res n d object s = (Reply 200 object', ms, t)"
  shows "object' = stamped object s \<and> ms = [emitMutation rq op object']"
  using assms by (auto simp: store_modified_def Let_def capacityError_def status_def dest: put_object split: prod.splits if_splits)

lemma refresh_status_get: "k \<noteq> ''status'' \<Longrightarrow> gget (refresh_status a d object) k = gget object k"
  by (simp add: refresh_status_def)

lemma reply_200: "r = Reply 200 b \<Longrightarrow> code_of r = 200"
  by simp


section \<open>Delete\<close>

lemma respawn_only_pods: "r_Kind d \<noteq> ''Pod'' \<Longrightarrow> \<not> isWorkloadKind (r_Kind d) \<Longrightarrow>
  delete_handler a rq gv ns res n d s =
    (let key = mk_key (Group gv) (Version gv) res ns n
     in case get s key of
          None \<Rightarrow> (object_not_found (to_lower (r_Kind d)) n, [], s)
        | Some v \<Rightarrow> (success_status (GStrMap [(''name'', n), (''kind'', to_lower (r_Kind d))]), [emitMutation rq ''delete'' v], snd (delete key s)))"
  by (auto simp: delete_handler_def Let_def delete_def get_def split: option.splits)

section \<open>The audit trail\<close>

definition audited :: "request \<Rightarrow> groupVersion \<Rightarrow> action \<Rightarrow> objectStore \<Rightarrow> gobj \<Rightarrow> mutation list \<Rightarrow> bool" where
  "audited rq gv act s body ms \<longleftrightarrow>
     (case act of
        Create ns d \<Rightarrow> ms = [emitMutation rq ''create'' body]
      | Update ns res n d \<Rightarrow> ms = [emitMutation rq ''update'' body]
      | PatchObject ns res n d \<Rightarrow> ms = [emitMutation rq ''patch'' body]
      | Delete ns res n d \<Rightarrow> (\<exists>v. get s (mk_key (Group gv) (Version gv) res ns n) = Some v \<and> ms = [emitMutation rq ''delete'' v])
      | _ \<Rightarrow> ms = [])"

named_theorems reports_intros \<open>what a handler that accepts a request reports\<close>

definition reports :: "(gobj \<Rightarrow> mutation list \<Rightarrow> bool) \<Rightarrow> outcome \<Rightarrow> bool" where
  "reports P out \<longleftrightarrow> (case out of (r, ms, t) \<Rightarrow> (case r of Reply c b \<Rightarrow> c \<ge> 400 \<or> P b ms | Panicked \<Rightarrow> True))"

lemma reports_refused [reports_intros]: "code_of r \<ge> 400 \<Longrightarrow> reports P (r, ms, t)"
  by (simp add: reports_def code_of_def split: response.splits)

lemma reports_panic [reports_intros]: "reports P (Panicked, ms, t)"
  by (simp add: reports_def)

lemma reports_reply: "P b ms \<Longrightarrow> reports P (Reply c b, ms, t)"
  by (simp add: reports_def)

lemma reports_if [reports_intros]: "(C \<Longrightarrow> reports P x) \<Longrightarrow> (\<not> C \<Longrightarrow> reports P y) \<Longrightarrow> reports P (if C then x else y)"
  by simp

lemma reports_option [reports_intros]:
  "(opt = None \<Longrightarrow> reports P x) \<Longrightarrow> (\<And>v. opt = Some v \<Longrightarrow> reports P (f v)) \<Longrightarrow> reports P (case opt of None \<Rightarrow> x | Some v \<Rightarrow> f v)"
  by (cases opt) auto

lemma reports_sum [reports_intros]:
  "(\<And>e. r = Inl e \<Longrightarrow> reports P (f e)) \<Longrightarrow> (\<And>v. r = Inr v \<Longrightarrow> reports P (g v)) \<Longrightarrow> reports P (case r of Inl e \<Rightarrow> f e | Inr v \<Rightarrow> g v)"
  by (cases r) auto

lemma reports_pair [reports_intros]: "(\<And>b t. p = (b, t) \<Longrightarrow> reports P (f b t)) \<Longrightarrow> reports P (case p of (b, t) \<Rightarrow> f b t)"
  by (cases p) auto

lemma reports_store_error [reports_intros]:
  "reports P a \<Longrightarrow> reports P b \<Longrightarrow> reports P c \<Longrightarrow> reports P d \<Longrightarrow>
   reports P (case e of errStoreCapacity \<Rightarrow> a | errObjectAlreadyExists \<Rightarrow> b | errGeneratedNameCapacity \<Rightarrow> c | errInvalidGeneratedName \<Rightarrow> d)"
  by (cases e) auto

lemma reports_app [reports_intros]:
  "(\<And>a b. p = (a, b) \<Longrightarrow> reports P (f a b t)) \<Longrightarrow> reports P ((case p of (a, b) \<Rightarrow> f a b) t)"
  by (cases p) auto

lemma reports_sum_app [reports_intros]:
  "(\<And>e. r = Inl e \<Longrightarrow> reports P (f e t)) \<Longrightarrow> (\<And>v. r = Inr v \<Longrightarrow> reports P (g v t)) \<Longrightarrow> reports P ((case r of Inl e \<Rightarrow> f e | Inr v \<Rightarrow> g v) t)"
  by (cases r) auto

lemma reports_create: "reports (\<lambda>b ms. ms = [emitMutation rq ''create'' b]) (create a pem rq gv ns d s)"
  unfolding create_def create_named_def Let_def by (intro reports_intros reports_reply) simp_all

lemma reports_store_modified: "reports (\<lambda>b ms. ms = [emitMutation rq op b]) (store_modified a rq op gv ns res n d object s)"
  unfolding store_modified_def Let_def by (intro reports_intros reports_reply) simp_all

lemma reports_update: "reports (\<lambda>b ms. ms = [emitMutation rq ''update'' b]) (update a rq gv ns res n d s)"
  unfolding update_def Let_def by (intro reports_intros reports_store_modified) simp_all

lemma patched_refused: "patched rq gv n d current = Inl r \<Longrightarrow> code_of r \<ge> 400"
  by (auto simp: patched_def split: if_splits sum.splits option.splits)

lemma reports_patch: "reports (\<lambda>b ms. ms = [emitMutation rq ''patch'' b]) (patch a rq gv ns res n d s)"
  unfolding patch_def Let_def by (intro reports_intros reports_store_modified) (auto dest: patched_refused)

lemma reports_success: "(\<And>b. P b ms) \<Longrightarrow> reports P (success_status dt, ms, t)"
  by (simp add: success_status_def reports_def)

lemma reports_delete:
  "reports (\<lambda>b ms. \<exists>v. get s (mk_key (Group gv) (Version gv) res ns n) = Some v \<and> ms = [emitMutation rq ''delete'' v])
     (delete_handler a rq gv ns res n d s)"
  unfolding delete_handler_def Let_def
  by (intro reports_intros reports_success) (auto simp: delete_def get_def split: option.splits)

lemma reports_nothing: "reports (\<lambda>b ms. ms = []) (r, [], t)"
  by (simp add: reports_def split: response.splits)

lemmas nothing_intros = reports_nothing reports_if reports_option reports_sum reports_pair reports_app

lemma reports_none:
  "reports (\<lambda>b ms. ms = []) (deleteCollection rq slot gv ns d s)"
  "reports (\<lambda>b ms. ms = []) (serveScale a rq gv ns res n s)"
  "reports (\<lambda>b ms. ms = []) (serveEviction rq ns n s)"
  unfolding deleteCollection_def serveScale_def serveEviction_def Let_def by (intro nothing_intros)+

lemma audited_perform:
  assumes "perform a pem slot rq gv act s = (Some (Reply c body), ms, t)" "c < 400"
  shows "audited rq gv act s body ms"
proof -
  have *: "P body ms" if "reports P out" "fst out = Reply c body" "snd out = (ms, t)" for P out
    using that assms(2) by (cases out) (auto simp: reports_def)
  note ** = * [OF reports_create] * [OF reports_update] * [OF reports_patch] * [OF reports_delete]
    * [OF reports_none(1)] * [OF reports_none(2)] * [OF reports_none(3)]
  show ?thesis
    using assms(1) unfolding perform_def Let_def audited_def split_def fst_conv snd_conv prod.collapse
    by (cases act) (auto dest: **)
qed

text \<open>
  C22. The audit trail of accepted requests: a create, an update, a patch and a delete each report exactly one event, which
  names the operation and the object; a scale, an eviction and a deletecollection, which change stored
  objects too, report nothing.
\<close>

theorem audit_trail:
  assumes "perform a pem slot rq gv act s = (Some (Reply c body), ms, t)" "c < 400"
  shows "case act of
           Create ns d \<Rightarrow> ms = [emitMutation rq ''create'' body]
         | Update ns res n d \<Rightarrow> ms = [emitMutation rq ''update'' body]
         | PatchObject ns res n d \<Rightarrow> ms = [emitMutation rq ''patch'' body]
         | Delete ns res n d \<Rightarrow> (\<exists>v. get s (mk_key (Group gv) (Version gv) res ns n) = Some v \<and> ms = [emitMutation rq ''delete'' v])
         | Scale ns res n \<Rightarrow> ms = []
         | Evict ns n \<Rightarrow> ms = []
         | DeleteCollection ns d \<Rightarrow> ms = []
         | _ \<Rightarrow> ms = []"
  using audited_perform [OF assms] by (simp add: audited_def split: action.splits)

section \<open>Concrete requests\<close>

definition demo_request :: "string \<Rightarrow> gobj \<Rightarrow> request" where
  "demo_request method body =
     \<lparr>rq_method = method, rq_path = ''/'', rq_remote = ''192.0.2.1:4000'', rq_media = ''application/json'', rq_query = [],
      rq_object = Inr body, rq_operations = Inl errUnsupportedMediaType\<rparr>"

theorem refused_request_is_noop_witness:
  "\<exists>c body ms t. perform demo_env [] True (demo_request ''POST'' []) (gv' [] ''v1'') (Evict ''default'' ''zzz'') demo_store = (Some (Reply c body), ms, t) \<and>
     c \<ge> 400 \<and> objects t = objects demo_store \<and> ms = []"
proof -
  let ?p = "perform demo_env [] True (demo_request ''POST'' []) (gv' [] ''v1'') (Evict ''default'' ''zzz'') demo_store"
  have "\<exists>body. ?p = (Some (Reply 404 body), [], demo_store)"
    by (simp add: perform_def serveEviction_def demo_request_def delete_def demo_store_eval mk_key_def object_not_found_def status_def)
  then obtain body where p: "?p = (Some (Reply 404 body), [], demo_store)" by blast
  show ?thesis using refused_request_is_noop [OF p] p by simp
qed

theorem audit_trail_witness:
  "\<exists>body t. perform demo_env [] True (demo_request ''POST'' []) (gv' [] ''v1'') (Evict ''default'' ''a'') demo_store = (Some (Reply 201 body), [], t) \<and>
     get t (demo_key ''a'') = None"
proof -
  let ?p = "perform demo_env [] True (demo_request ''POST'' []) (gv' [] ''v1'') (Evict ''default'' ''a'') demo_store"
  have "\<exists>body ms. ?p = (Some (Reply 201 body), ms, delete_store (demo_key ''a'') demo_store)"
    by (simp add: perform_def serveEviction_def demo_request_def delete_def demo_store_eval mk_key_def delete_store_def)
  then obtain body ms where p: "?p = (Some (Reply 201 body), ms, delete_store (demo_key ''a'') demo_store)" by blast
  have "get (delete_store (demo_key ''a'') demo_store) (demo_key ''a'') = None"
    by (simp add: delete_store_def delete_def demo_store_eval get_def publishLocked_def)
  then show ?thesis using audit_trail [OF p] p by simp
qed

definition demo_role :: apiResource where
  "demo_role = resource ''clusterroles'' ''ClusterRole'' False []"

lemmas validate_eval = validateObjectShape_def check_field_equals_def check_metadata_def check_name_field_def check_string_map_def
  allowedFields_def extraFields_def allowedMetadata_def has_key_def gget_def as_string_def

abbreviation demo_body :: gobj where
  "demo_body \<equiv> [(''metadata'', GMap [(''name'', GStr ''a'')])]"

lemma demo_valid: "validateObjectShape demo_body (gv' ''rbac'' ''v1'') demo_role False = None"
  by (simp add: validate_eval demo_role_def resource_def validObjectName_def)

lemma demo_role_fields: "r_Namespaced demo_role = False" "r_Name demo_role = ''clusterroles''" "r_Kind demo_role = ''ClusterRole''"
  by (simp_all add: demo_role_def resource_def)

lemma demo_create:
  "create demo_env [] (demo_request ''POST'' demo_body) (gv' ''rbac'' ''v1'') [] demo_role s =
   create_named demo_env [] (demo_request ''POST'' demo_body) (gv' ''rbac'' ''v1'') [] demo_role ''a'' [(''name'', GStr ''a'')] demo_body s"
  unfolding create_def demo_request_def
  by (simp add: demo_valid demo_role_fields Let_def stringField_def gget_def as_string_def)

lemma demo_now: "now_text demo_env = ''1970-01-01T00:00:00Z''"
proof -
  have "civil_from_days 0 = (1970, 1, 1)" by (simp add: civil_from_days_def Let_def)
  then show ?thesis by (simp add: now_text_def demo_env_def rfc3339_def date_time_def Let_def pad_nat_def)
qed

lemma demo_stamped:
  "\<exists>uid. length uid = 36 \<and>
     stamp_identity demo_env (gv' ''rbac'' ''v1'') demo_role [] ''a'' [(''name'', GStr ''a'')] demo_body =
       [(''metadata'', GMap [(''name'', GStr ''a''), (''uid'', GStr uid), (''creationTimestamp'', GStr ''1970-01-01T00:00:00Z'')]),
        (''apiVersion'', GStr ''rbac/v1''), (''kind'', GStr ''ClusterRole'')]"
  unfolding stamp_identity_def Let_def demo_now demo_role_fields
  by (rule exI, rule conjI, rule length_stableUID) (simp add: apiVersionFor_def gv'_def)

lemma demo_accepted:
  assumes "length uid = 36"
  shows "put_accepts key [(''metadata'', GMap [(''name'', GStr ''a''), (''uid'', GStr uid), (''creationTimestamp'', GStr ''1970-01-01T00:00:00Z'')]),
        (''apiVersion'', GStr ''rbac/v1''), (''kind'', GStr ''ClusterRole'')] ''ADDED'' (newObjectStore 0)"
  using escape_string_len [of uid] assms
  by (simp add: put_accepts_def stamped_def newObjectStore_def old_bytes_def gget_def objectMap_def marshal_eval)


definition demo_pod_desc :: apiResource where
  "demo_pod_desc = resource ''pods'' ''Pod'' True ''po''"

lemma demo_pod_desc_fields: "r_Kind demo_pod_desc = ''Pod''"
  by (simp add: demo_pod_desc_def resource_def)

lemma gv_fields: "Group (gv' g v) = g" "Version (gv' g v) = v"
  by (simp_all add: gv'_def)

lemma demo_pod_desc_valid: "validateObjectShape demo_body (gv' [] ''v1'') demo_pod_desc False = None"
  by (simp add: validate_eval demo_pod_desc_fields validObjectName_def)


end
