(* ===== verification/Sinks.thy ===== *)
theory Sinks
  imports EventLogger
begin

text \<open>
  The remote log sinks (\<^verbatim>\<open>logger/sink_http.go\<close>) and their construction (\<^verbatim>\<open>NewSinks\<close>): the headers and bodies each kind of
  sink posts. A Go map is an association list in the order the run iterates it. The URL package, the HTTP client and the printing of a
  floating-point time are parameters.
\<close>

section \<open>Requests\<close>

definition mergeSinkHeaders :: "(string \<times> string) list \<Rightarrow> (string \<times> string) list \<Rightarrow> (string \<times> string) list" where
  "mergeSinkHeaders custom headers = fold (\<lambda>(name, v). AList.update name v) headers (fold (\<lambda>(name, v). AList.update name v) custom [])"

text \<open>\<^verbatim>\<open>strings.EqualFold\<close> against an ASCII name of letters without k and s, the only ones a rune beyond ASCII folds to.\<close>

definition hasHeader :: "(string \<times> string) list \<Rightarrow> string \<Rightarrow> bool" where
  "hasHeader headers name = list_ex (\<lambda>(key, v). to_lower key = to_lower name) headers"

text \<open>\<^verbatim>\<open>textproto.CanonicalMIMEHeaderKey\<close> on a name of header characters: upper case at the start and behind a hyphen.\<close>

definition upper_char :: "char \<Rightarrow> char" where
  "upper_char c = (if 97 \<le> byte c \<and> byte c \<le> 122 then char_of (byte c - 32) else c)"

fun canonical_key :: "bool \<Rightarrow> string \<Rightarrow> string" where
  "canonical_key up [] = []"
| "canonical_key up (c # cs) = (if up then upper_char c else lower_char c) # canonical_key (c = CHR ''-'') cs"

definition header_set :: "string \<Rightarrow> string \<Rightarrow> (string \<times> string) list \<Rightarrow> (string \<times> string) list" where
  "header_set name v headers = AList.update (canonical_key True name) v headers"

definition request_headers :: "(string \<times> string) list \<Rightarrow> string \<Rightarrow> (string \<times> string) list" where
  "request_headers headers contentType = header_set ''Content-Type'' contentType (fold (\<lambda>(name, v). header_set name v) headers [])"

text \<open>The HTTP client: the status of the answer to a POST, or \<open>None\<close> when it fails.\<close>

type_synonym http_client = "string \<Rightarrow> (string \<times> string) list \<Rightarrow> string \<Rightarrow> int option"

definition postBatch :: "http_client \<Rightarrow> string \<Rightarrow> (string \<times> string) list \<Rightarrow> string \<Rightarrow> string \<Rightarrow> string + unit" where
  "postBatch client endpoint headers contentType body =
     (case client endpoint (request_headers headers contentType) body of
        None \<Rightarrow> Inl ''deliver log sink batch''
      | Some status \<Rightarrow>
          if status < 200 \<or> status > 299 then Inl (''log sink endpoint returned status '' @ show_int status) else Inr ())"

section \<open>The kinds of sink\<close>

definition splunkHeaders :: "LogSinkConfig \<Rightarrow> (string \<times> string) list" where
  "splunkHeaders cfg =
     (let headers = mergeSinkHeaders (sink_Headers cfg) []
      in if sink_Token cfg \<noteq> [] then AList.update ''Authorization'' (''Splunk '' @ sink_Token cfg) headers else headers)"

fun splunk_record :: "(nat \<Rightarrow> bool) \<Rightarrow> (Event \<Rightarrow> string) \<Rightarrow> string \<Rightarrow> string \<Rightarrow> string \<Rightarrow> sinkPayload \<Rightarrow> string" where
  "splunk_record uni hecTime index source sourcetype payload =
     ''{'' @ json_quote ''time'' @ '':'' @ hecTime (sp_event payload)
     @ '','' @ json_quote ''host'' @ '':'' @ go_quote uni ''helix-honeypot''
     @ '','' @ json_quote ''sourcetype'' @ '':'' @ go_quote uni sourcetype
     @ (if index \<noteq> [] then '','' @ json_quote ''index'' @ '':'' @ go_quote uni index else [])
     @ (if source \<noteq> [] then '','' @ json_quote ''source'' @ '':'' @ go_quote uni source else [])
     @ '','' @ json_quote ''event'' @ '':'' @ sp_json payload @ ''}''"

definition buildSplunkBody :: "(nat \<Rightarrow> bool) \<Rightarrow> (Event \<Rightarrow> string) \<Rightarrow> sinkPayload list \<Rightarrow> string \<Rightarrow> string \<Rightarrow> string \<Rightarrow> string" where
  "buildSplunkBody uni hecTime payloads index source sourcetype = concat (map (splunk_record uni hecTime index source sourcetype) payloads)"

definition splunk_send :: "http_client \<Rightarrow> (nat \<Rightarrow> bool) \<Rightarrow> (Event \<Rightarrow> string) \<Rightarrow> string \<Rightarrow> LogSinkConfig \<Rightarrow> sinkPayload list \<Rightarrow> string + unit" where
  "splunk_send client uni hecTime endpoint cfg payloads =
     postBatch client endpoint (splunkHeaders cfg) ''application/json''
       (buildSplunkBody uni hecTime payloads (sink_Index cfg) (sink_Source cfg)
          (if sink_Sourcetype cfg = [] then ''_json'' else sink_Sourcetype cfg))"

definition elasticHeaders :: "LogSinkConfig \<Rightarrow> (string \<times> string) list" where
  "elasticHeaders cfg =
     mergeSinkHeaders (sink_Headers cfg)
       (if sink_Token cfg \<noteq> [] then [(''Authorization'', ''ApiKey '' @ sink_Token cfg)]
        else if sink_Username cfg \<noteq> []
        then [(''Authorization'', ''Basic '' @ base64_encode (sink_Username cfg @ '':'' @ sink_Password cfg))]
        else [])"

definition bulkAction :: "(nat \<Rightarrow> bool) \<Rightarrow> string \<Rightarrow> string" where
  "bulkAction uni index =
     ''{'' @ json_quote ''index'' @ '':{'' @ json_quote ''_index'' @ '':'' @ go_quote uni index @ ''}}'' @ [CHR 0x0A]"

definition bulkBody :: "(nat \<Rightarrow> bool) \<Rightarrow> string \<Rightarrow> sinkPayload list \<Rightarrow> string" where
  "bulkBody uni index payloads = concat (map (\<lambda>payload. bulkAction uni index @ sp_json payload @ [CHR 0x0A]) payloads)"

definition elastic_send :: "http_client \<Rightarrow> (nat \<Rightarrow> bool) \<Rightarrow> LogSinkConfig \<Rightarrow> sinkPayload list \<Rightarrow> string + unit" where
  "elastic_send client uni cfg payloads =
     postBatch client (rev (dropWhile (\<lambda>c. c = CHR 0x2F) (rev (sink_URL cfg))) @ ''/_bulk'') (elasticHeaders cfg) ''application/x-ndjson''
       (bulkBody uni (sink_Index cfg) payloads)"

definition httpHeaders :: "LogSinkConfig \<Rightarrow> (string \<times> string) list" where
  "httpHeaders cfg =
     (let headers = mergeSinkHeaders (sink_Headers cfg) []
      in if sink_Token cfg \<noteq> [] \<and> \<not> hasHeader headers ''Authorization''
         then AList.update ''Authorization'' (''Bearer '' @ sink_Token cfg) headers else headers)"

definition ndjsonBody :: "sinkPayload list \<Rightarrow> string" where
  "ndjsonBody payloads = concat (map (\<lambda>payload. sp_json payload @ [CHR 0x0A]) payloads)"

definition http_send :: "http_client \<Rightarrow> LogSinkConfig \<Rightarrow> sinkPayload list \<Rightarrow> string + unit" where
  "http_send client cfg payloads = postBatch client (sink_URL cfg) (httpHeaders cfg) ''application/x-ndjson'' (ndjsonBody payloads)"

section \<open>Construction\<close>

text \<open>
  \<open>openFile\<close> opens a file for appending; \<open>splunkURL\<close> parses and completes a Splunk URL; both may fail. A sink that is built in vain is closed.
\<close>

definition NewSink :: "(string \<Rightarrow> fileSink option) \<Rightarrow> (string \<Rightarrow> string option) \<Rightarrow> LogSinkConfig \<Rightarrow> string + Sink" where
  "NewSink openFile splunkURL cfg =
     (if sink_Type cfg = ''file''
      then (case openFile (sink_Path cfg) of None \<Rightarrow> Inl ''open log sink file'' | Some f \<Rightarrow> Inr (FileSink f))
      else if sink_Type cfg = ''splunk''
      then (case splunkURL (sink_URL cfg) of None \<Rightarrow> Inl ''invalid splunk url'' | Some endpoint \<Rightarrow> Inr (ShipperSink newBatchShipper))
      else if sink_Type cfg \<in> set [''elasticsearch'', ''elk'', ''http''] then Inr (ShipperSink newBatchShipper)
      else Inl (''unknown log sink type '' @ CHR 0x22 # sink_Type cfg @ [CHR 0x22]))"

fun close_sink :: "Sink \<Rightarrow> Sink" where
  "close_sink (FileSink s) = FileSink (fileSink_Close s)"
| "close_sink (ShipperSink s) = ShipperSink (drain True True (Close s))"

text \<open>The result is the error and the sinks that were opened and closed again, or the sinks.\<close>

fun build_sinks :: "(LogSinkConfig \<Rightarrow> string + Sink) \<Rightarrow> LogSinkConfig list \<Rightarrow> Sink list \<Rightarrow> (string \<times> Sink list) + Sink list" where
  "build_sinks new [] sinks = Inr sinks"
| "build_sinks new (cfg # cfgs) sinks =
     (case new cfg of
        Inl e \<Rightarrow> Inl (''log sink '' @ show_nat (length sinks + 1) @ '' ('' @ sink_Type cfg @ ''): '' @ e, map close_sink sinks)
      | Inr sink \<Rightarrow> build_sinks new cfgs (sinks @ [sink]))"

definition NewSinks :: "(string \<Rightarrow> fileSink option) \<Rightarrow> (string \<Rightarrow> string option) \<Rightarrow> LogSinkConfig list \<Rightarrow> (string \<times> Sink list) + Sink list" where
  "NewSinks openFile splunkURL cfgs = build_sinks (NewSink openFile splunkURL) cfgs []"

definition NewEventLoggerFromConfig :: "logEnv \<Rightarrow> (string \<Rightarrow> fileSink option) \<Rightarrow> (string \<Rightarrow> string option) \<Rightarrow> Config \<Rightarrow> string + EventLogger" where
  "NewEventLoggerFromConfig env openFile splunkURL cfg =
     (case NewSinks openFile splunkURL (log_Sinks (c_Logging cfg)) of
        Inl (e, closedSinks) \<Rightarrow> Inl e
      | Inr sinks \<Rightarrow> Inr (AttachSinks sinks (NewEventLoggerWithConfig env (c_Logging cfg) (Config_SensitiveValues cfg))))"

definition EventLogger_Close :: "EventLogger \<Rightarrow> EventLogger \<times> Sink list" where
  "EventLogger_Close l = (l\<lparr>el_sinks := []\<rparr>, map close_sink (el_sinks l))"

section \<open>Framing\<close>

definition event_payload :: "Event \<Rightarrow> sinkPayload" where
  "event_payload e = \<lparr>sp_event = e, sp_json = marshalEvent e\<rparr>"

lemma split_lines:
  assumes "list_all (\<lambda>w. nl \<notin> set w) ws"
  shows "go_split nl (concat (map (\<lambda>w. w @ [nl]) ws)) = ws @ [[]]"
  using assms by (induction ws) (simp_all add: go_split_append_sep go_split_no_occ)

lemma bulkAction_line: "\<exists>action. bulkAction uni index = action @ [nl] \<and> nl \<notin> set action"
  by (intro exI [of _ "''{'' @ json_quote ''index'' @ '':{'' @ json_quote ''_index'' @ '':'' @ go_quote uni index @ ''}}''"])
    (simp add: bulkAction_def json_quote_line go_quote_line)

text \<open>
  A collector reads back exactly the events of a batch: splitting the body at line breaks gives one line per event for a webhook, and for Elasticsearch
  the action line and the document of each event in turn, whatever the events and the index contain.
\<close>

lemma batches_framed:
  "go_split (CHR 0x0A) (ndjsonBody (map event_payload es)) = map marshalEvent es @ [[]] \<and>
   (\<exists>action. bulkAction uni index = action @ [CHR 0x0A] \<and>
      go_split (CHR 0x0A) (bulkBody uni index (map event_payload es)) = concat (map (\<lambda>e. [action, marshalEvent e]) es) @ [[]])"
proof -
  obtain action where action: "bulkAction uni index = action @ [nl]" "nl \<notin> set action" using bulkAction_line by blast
  have "ndjsonBody (map event_payload es) = concat (map (\<lambda>w. w @ [nl]) (map marshalEvent es))"
    by (induction es) (simp_all add: ndjsonBody_def event_payload_def)
  moreover have "bulkBody uni index (map event_payload es) = concat (map (\<lambda>w. w @ [nl]) (concat (map (\<lambda>e. [action, marshalEvent e]) es)))"
    by (induction es) (simp_all add: bulkBody_def event_payload_def action)
  moreover have "list_all (\<lambda>w. nl \<notin> set w) (map marshalEvent es)" "list_all (\<lambda>w. nl \<notin> set w) (concat (map (\<lambda>e. [action, marshalEvent e]) es))"
    using action(2) by (induction es) (simp_all add: marshalEvent_line)
  ultimately show ?thesis using action by (simp only: split_lines) blast
qed

text \<open>
  A failed start leaves nothing open: when one sink cannot be built, every sink built before it has been closed, and the
  error names its position.
\<close>

lemma build_sinks_failure:
  "build_sinks new cfgs sinks = Inl (e, closedSinks) \<Longrightarrow> \<exists>opened. closedSinks = map close_sink (sinks @ opened)"
proof (induction cfgs arbitrary: sinks)
  case (Cons cfg cfgs)
  show ?case
  proof (cases "new cfg")
    case (Inl e)
    then show ?thesis using Cons.prems by (auto intro: exI [of _ "[]"])
  next
    case (Inr sink)
    then obtain opened where "closedSinks = map close_sink ((sinks @ [sink]) @ opened)" using Cons.prems Cons.IH [of "sinks @ [sink]"] by auto
    then show ?thesis by (intro exI [of _ "sink # opened"]) simp
  qed
qed simp

fun sink_open :: "Sink \<Rightarrow> bool" where
  "sink_open (FileSink s) \<longleftrightarrow> \<not> fs_closed s"
| "sink_open (ShipperSink s) \<longleftrightarrow> \<not> closed s \<or> run_phase s \<noteq> Exited"

lemma drain_closed: "closed (drain ok1 ok2 s) = closed s"
proof (induction ok1 ok2 s rule: drain.induct)
  case (1 ok1 ok2 s)
  then show ?case by (subst drain.simps) (auto simp: flush_frame drain_payload_def split: list.splits)
qed

lemma close_sink_closes: "\<not> sink_open (close_sink sink)"
  by (cases sink) (simp_all add: fileSink_Close_def drain_closed drain_result Close_def close_swap_def close_done_def)

lemma failed_start_leaks_nothing:
  "NewSinks openFile splunkURL cfgs = Inl (e, closedSinks) \<Longrightarrow> list_all (\<lambda>sink. \<not> sink_open sink) closedSinks"
  using build_sinks_failure [of "NewSink openFile splunkURL" cfgs "[]" e closedSinks] by (auto simp: NewSinks_def list_all_iff close_sink_closes)

text \<open>
  A custom header that spells \<^verbatim>\<open>Authorization\<close> in another case competes with the token of a Splunk sink: which of the two is sent depends on the
  order in which the map is iterated.
\<close>

lemma header_case_race:
  "map_of (request_headers [(''authorization'', ''a''), (''Authorization'', ''b'')] t) ''Authorization'' = Some ''b''"
  "map_of (request_headers [(''Authorization'', ''b''), (''authorization'', ''a'')] t) ''Authorization'' = Some ''a''"
proof -
  have A: "char_of (65 :: nat) = CHR ''A''" by (simp add: char_of_eq_iff take_bit_eq_mod)
  show "map_of (request_headers [(''authorization'', ''a''), (''Authorization'', ''b'')] t) ''Authorization'' = Some ''b''"
    "map_of (request_headers [(''Authorization'', ''b''), (''authorization'', ''a'')] t) ''Authorization'' = Some ''a''"
    by (simp_all add: request_headers_def header_set_def upper_char_def lower_char_def byte_def A)
qed

end
