(* ===== verification/Middleware.thy ===== *)
theory Middleware
  imports HandlerSpec Sinks
begin

text \<open>
  The way of a request through the HTTP sensors: \<^verbatim>\<open>HTTPMiddleware\<close> of \<^verbatim>\<open>logger/logger.go\<close>, which answers returned errors, drains the body and writes the event, and
  \<^verbatim>\<open>limitRequestBody\<close> and \<^verbatim>\<open>recoverPanics\<close> of \<^verbatim>\<open>honeypots/k8s/k8s.go\<close>, put together as \<^verbatim>\<open>StartK8SHoneypot\<close>, \<^verbatim>\<open>StartKubeletHoneypot\<close> and \<^verbatim>\<open>StartHTTPHoneypot\<close> do. The
  web framework runs what was added first as the outermost layer; a panic unwinds through every layer that does not recover it.
\<close>

section \<open>Layers\<close>

text \<open>A body: the bytes the client delivers and whether it then ends without an error. \<^verbatim>\<open>http.MaxBytesReader\<close> cuts it with an error.\<close>

record httpRequest =
  hq_remote :: string
  hq_method :: string
  hq_path :: string
  hq_forwarded :: "string list" \<comment> \<open>\<^verbatim>\<open>X-Forwarded-For\<close>\<close>
  hq_agent :: string
  hq_body :: "(string \<times> bool) option"

definition max_bytes :: "nat \<Rightarrow> string \<times> bool \<Rightarrow> string \<times> bool" where
  "max_bytes n = (\<lambda>(bytes, ok). (take n bytes, ok \<and> length bytes \<le> n))"

definition limitRequestBody :: "httpRequest \<Rightarrow> httpRequest" where
  "limitRequestBody hq = hq\<lparr>hq_body := map_option (max_bytes 65536) (hq_body hq)\<rparr>"

text \<open>How a handler ends: it has written a response of a status and size; it returns an error, whose status the framework knows, having committed a response or not; or it panics.\<close>

datatype handled =
    Answered int int
  | Failed int "(int \<times> int) option"
  | Unwinding

definition error_status :: "int \<Rightarrow> int" where
  "error_status code = (if code < 400 \<or> code > 599 then 500 else code)"

text \<open>The error handler of \<^verbatim>\<open>NewRouter\<close>.\<close>

definition HTTPErrorHandler :: "handled \<Rightarrow> handled" where
  "HTTPErrorHandler h =
     (case h of Failed code (Some (st, n)) \<Rightarrow> Answered st n | Failed code None \<Rightarrow> Answered (error_status code) 0 | _ \<Rightarrow> h)"

definition received_count :: "httpRequest \<Rightarrow> int" where
  "received_count hq = (case hq_body hq of None \<Rightarrow> 0 | Some body \<Rightarrow> int (length (fst (max_bytes 65536 body))))"

definition HTTPMiddleware :: "logEnv \<Rightarrow> (nat \<times> bool) list \<Rightarrow> string \<Rightarrow> httpRequest \<Rightarrow> handled \<Rightarrow> EventLogger \<Rightarrow> handled \<times> EventLogger" where
  "HTTPMiddleware env results sensor hq h l =
     (case HTTPErrorHandler h of
        Answered st n \<Rightarrow>
          (Answered st n,
           middleware_log env results sensor (hq_remote hq) (hq_method hq) (hq_path hq) (hq_forwarded hq) (hq_agent hq) st n (received_count hq) l)
      | other \<Rightarrow> (other, l))"

definition internal_error :: gobj where
  "internal_error = [(''apiVersion'', GStr ''v1''), (''kind'', GStr ''Status''), (''status'', GStr ''Failure''),
     (''message'', GStr ''the simulated API server encountered an internal error''), (''reason'', GStr ''InternalError''), (''code'', GInt 500)]"

definition json_response :: "int \<Rightarrow> gobj \<Rightarrow> handled" where
  "json_response code body = Answered code (int (length (marshal (GMap body))) + 1)"

definition recoverPanics :: "handled \<Rightarrow> handled" where
  "recoverPanics h = (case h of Unwinding \<Rightarrow> json_response 500 internal_error | _ \<Rightarrow> h)"

section \<open>Sensors\<close>

text \<open>The HTTP sensor answers everything with \<^verbatim>\<open>OK\<close>.\<close>

definition http_request :: "logEnv \<Rightarrow> (nat \<times> bool) list \<Rightarrow> httpRequest \<Rightarrow> EventLogger \<Rightarrow> handled \<times> EventLogger" where
  "http_request env results hq l = HTTPMiddleware env results ''http'' hq (Answered 200 2) l"

definition kubelet_request :: "logEnv \<Rightarrow> (nat \<times> bool) list \<Rightarrow> httpRequest \<Rightarrow> handled \<Rightarrow> EventLogger \<Rightarrow> handled \<times> EventLogger" where
  "kubelet_request env results hq h l = HTTPMiddleware env results ''kubelet'' (limitRequestBody hq) h l"

text \<open>What \<^verbatim>\<open>emitMutation\<close> sends to the log, which \<^verbatim>\<open>SetEmitter\<close> has connected.\<close>

definition mutation_event :: "mutation \<Rightarrow> Event" where
  "mutation_event m =
     \<lparr>e_Timestamp = [], e_EventID = [], e_Sensor = ''kubernetes'', e_SessionID = [], e_Action = m_Action m,
      e_Outcome = ''simulated'', e_Profile = [], e_Target = m_Target m, e_RemoteAddr = m_RemoteAddr m, e_ClientAddr = [], e_Method = m_Method m, e_Path = m_Path m,
      e_StatusCode = 0, e_BytesReceived = 0, e_BytesSent = 0, e_UserAgent = [], e_Detail = []\<rparr>"

definition answered :: "response \<Rightarrow> handled" where
  "answered r = (case r of Reply code body \<Rightarrow> json_response code body | Panicked \<Rightarrow> Unwinding)"

text \<open>A mutating request to the API server: the handler with its mutation events, then the layers. \<open>results\<close> are the results of the writer, the same for each event.\<close>

definition k8s_request ::
  "logEnv \<Rightarrow> (nat \<times> bool) list \<Rightarrow> httpRequest \<Rightarrow> apiEnv \<Rightarrow> string \<Rightarrow> bool \<Rightarrow> request \<Rightarrow> groupVersion \<Rightarrow> action \<Rightarrow> objectStore \<times> EventLogger \<Rightarrow>
   handled option \<times> objectStore \<times> EventLogger" where
  "k8s_request env results hq a pem slot rq gv act = (\<lambda>(s, l).
     case perform a pem slot rq gv act s of
       (None, _, t) \<Rightarrow> (None, t, l)
     | (Some r, ms, t) \<Rightarrow>
         (let l1 = fold (\<lambda>m l. logger_write env results (mutation_event m) [] l) ms l;
              (h, l2) = HTTPMiddleware env results ''kubernetes'' (limitRequestBody hq) (answered r) l1
          in (Some (recoverPanics h), t, l2)))"

section \<open>Every answered request is logged\<close>

text \<open>A line of the log: no line break inside, one at the end.\<close>

definition one_line_added :: "EventLogger \<Rightarrow> EventLogger \<Rightarrow> bool" where
  "one_line_added l l' \<longleftrightarrow> (\<exists>line. CHR 0x0A \<notin> set line \<and> el_out l' = el_out l @ line @ [CHR 0x0A])"

lemma log_line: "validSensor (e_Sensor event) \<Longrightarrow> one_line_added l (logger_write env [] event addr l)"
proof -
  assume "validSensor (e_Sensor event)"
  then obtain e where e: "sanitize_event (el_sensitiveValues l) (el_includeUserAgent l)
      (case le_parse env (e_Timestamp event) of Some t \<Rightarrow> t | None \<Rightarrow> le_now env) (le_uuid env) (normalizeIPString addr) event = Some e"
    by (auto simp: sanitize_event_def)
  let ?line = "if el_format l = ''text'' then marshalText (le_print env) e else marshalEvent e"
  have "el_out (logger_write env [] event addr l) = el_out l @ ?line @ [CHR 0x0A]" unfolding logger_write_def e by (cases ?line) simp_all
  moreover have "CHR 0x0A \<notin> set ?line" using marshalText_line marshalEvent_line by simp
  ultimately show ?thesis unfolding one_line_added_def by blast
qed

text \<open>A request that is answered without a panic leaves exactly one line behind those of its mutations.\<close>

lemma middleware_logs:
  assumes "HTTPMiddleware env [] sensor hq h l = (h', l')" "h \<noteq> Unwinding"
  shows "one_line_added l l'" "\<exists>st n. h' = Answered st n"
proof -
  have valid: "validSensor (if validSensor sensor then sensor else ''http'')" by (simp add: validSensor_def)
  obtain st n where "HTTPErrorHandler h = Answered st n" 
  proof (cases h)
    case (Failed code c)
    then show thesis using that by (cases c) (auto simp: HTTPErrorHandler_def)
  qed (use assms(2) that in \<open>auto simp: HTTPErrorHandler_def\<close>)
  with assms(1) have "h' = Answered st n" and l: "l' = middleware_log env [] sensor (hq_remote hq) (hq_method hq) (hq_path hq) (hq_forwarded hq) (hq_agent hq) st n (received_count hq) l"
    by (simp_all add: HTTPMiddleware_def)
  then show "\<exists>st n. h' = Answered st n" by blast
  show "one_line_added l l'" unfolding l middleware_log_def by (rule log_line) (use valid in \<open>simp add: middleware_event_def\<close>)
qed

section \<open>A panic leaves no trace\<close>

lemma with_defaults_other: "k \<notin> fst ` set ds \<Longrightarrow> gget (with_defaults ds m) k = gget m k"
  unfolding with_defaults_def by (induction ds arbitrary: m) (auto simp: gget_gset)

lemma workload_defaults_replicas: "gget (applyWorkloadDefaults kind spec) ''replicas'' = gget spec ''replicas''"
proof -
  consider "kind = ''Deployment''" | "kind = ''StatefulSet''" | "kind = ''DaemonSet''" | "kind \<notin> {''Deployment'', ''StatefulSet'', ''DaemonSet''}" by blast
  then have "''replicas'' \<notin> fst ` set (workloadDefaults kind)" by cases (simp_all add: workloadDefaults_def)
  then have "gget (with_defaults (workloadDefaults kind) spec) ''replicas'' = gget spec ''replicas''" by (rule with_defaults_other)
  then show ?thesis by (simp add: applyWorkloadDefaults_def Let_def gget_gset split: gval.splits)
qed

lemma job_defaults_replicas:
  "gget (objectMap (gget (create_job_defaults object) ''spec'')) ''replicas'' = gget (objectMap (gget object ''spec'')) ''replicas''"
  "gget (create_job_defaults object) ''kind'' = gget object ''kind''"
proof -
  let ?ds = "[(''completions'', GInt 1), (''parallelism'', GInt 1), (''backoffLimit'', GInt 6), (''suspend'', GBool False), (''completionMode'', GStr ''NonIndexed'')]"
  have "gget (with_defaults ?ds (objectMap (gget object ''spec''))) ''replicas'' = gget (objectMap (gget object ''spec'')) ''replicas''"
    by (rule with_defaults_other) simp
  then show "gget (objectMap (gget (create_job_defaults object) ''spec'')) ''replicas'' = gget (objectMap (gget object ''spec'')) ''replicas''"
    by (simp add: create_job_defaults_def Let_def split: gval.split)
  show "gget (create_job_defaults object) ''kind'' = gget object ''kind''" by (simp add: create_job_defaults_def Let_def)
qed

lemma create_defaults_replicas:
  assumes "kind = ''DaemonSet'' \<or> kind = ''Job''"
  shows "gget (objectMap (gget (create_defaults a kind ns n object s) ''spec'')) ''replicas'' = gget (objectMap (gget object ''spec'')) ''replicas''"
    and "gget (create_defaults a kind ns n object s) ''kind'' = gget object ''kind''"
proof -
  define object1 where "object1 = (if has_key object ''status'' then object
     else case syntheticStatus a kind object of Some st \<Rightarrow> gset ''status'' (GMap st) object | None \<Rightarrow> object)"
  have o1: "gget object1 k = gget object k" if "k \<noteq> ''status''" for k using that by (auto simp: object1_def split: option.split)
  have cd: "create_defaults a kind ns n object s =
      (if kind = ''Job'' then create_job_defaults object1 else gset ''spec'' (GMap (applyWorkloadDefaults kind (objectMap (gget object1 ''spec'')))) object1)"
    using assms by (auto simp: create_defaults_def Let_def object1_def)
  show "gget (objectMap (gget (create_defaults a kind ns n object s) ''spec'')) ''replicas'' = gget (objectMap (gget object ''spec'')) ''replicas''"
    "gget (create_defaults a kind ns n object s) ''kind'' = gget object ''kind''"
    unfolding cd by (simp_all add: job_defaults_replicas workload_defaults_replicas o1)
qed

text \<open>Reconciling a DaemonSet or Job writes pods and events only.\<close>

named_theorems pod_frame \<open>an object that is no pod and no event reads as before\<close>

lemmas [pod_frame] = unchanged_refl unchanged_fold unchanged_if unchanged_option unchanged_snd_if unchanged_snd_option unchanged_snd_Pair unchanged_case_app

abbreviation other_resource :: "objectKey \<Rightarrow> bool" where
  "other_resource k \<equiv> k_resource k \<noteq> ''pods'' \<and> k_resource k \<noteq> ''events''"

lemma other_emitEvent [pod_frame]: "other_resource k \<Longrightarrow> unchanged k s t \<Longrightarrow> unchanged k s (emitEvent a ns uid kd av n r m src t)"
  unfolding emitEvent_def Let_def put_store_def by (rule unchanged_put) (auto simp: mk_key_def)

lemma other_lifecycle [pod_frame]: "other_resource k \<Longrightarrow> unchanged k s t \<Longrightarrow> unchanged k s (emitPodLifecycleEvents a ns pod t)"
  unfolding emitPodLifecycleEvents_def Let_def by (intro pod_frame) simp_all

lemma other_create_pod [pod_frame]:
  assumes "other_resource k" "unchanged k s t"
  shows "unchanged k s (create_pod a ns n pod t)"
proof -
  have "unchanged k s (snd (snd (put (pod_key ns n) pod ''ADDED'' t)))" using assms by (intro unchanged_put) (auto simp: pod_key_def mk_key_def)
  then show ?thesis using assms(1) by (auto simp: create_pod_def split: prod.splits intro: other_lifecycle)
qed

lemma other_delete_pods [pod_frame]: "other_resource k \<Longrightarrow> unchanged k s t \<Longrightarrow> unchanged k s (delete_pods ns names t)"
  unfolding delete_pods_def by (intro unchanged_fold) (auto simp: delete_store_def unchanged_def get_delete pod_key_def mk_key_def)

lemma other_workloadEvents [pod_frame]: "other_resource k \<Longrightarrow> unchanged k s t \<Longrightarrow> unchanged k s (snd (emitWorkloadEvents a kind ns n object t))"
  unfolding emitWorkloadEvents_def Let_def by (intro pod_frame) simp_all

lemma other_materializePods:
  assumes "other_resource k" "stringField object ''kind'' \<noteq> ''Deployment''"
  shows "unchanged k s (snd (materializePods a gv ns n object s))"
  unfolding materializePods_def Let_def if_not_P [OF assms(2)] by (intro pod_frame) (use assms(1) in simp_all)

definition silent :: "groupVersion \<Rightarrow> string \<Rightarrow> apiResource \<Rightarrow> objectStore \<Rightarrow> outcome \<Rightarrow> bool" where
  "silent gv ns d s = (\<lambda>(r, ms, t). ms = [] \<and>
     (400 \<le> code_of r \<and> code_of r < 500 \<or>
      r = Panicked \<and> (\<exists>name. get s (mk_key (Group gv) (Version gv) (r_Name d) ns name) = None \<and> get t (mk_key (Group gv) (Version gv) (r_Name d) ns name) \<noteq> None)))"

lemma silent_refused: "400 \<le> code_of r \<Longrightarrow> code_of r < 500 \<Longrightarrow> silent gv ns d s (r, [], t)"
  by (simp add: silent_def)

lemma silent_named:
  assumes kind: "r_Kind d = ''DaemonSet'' \<or> r_Kind d = ''Job''" and d: "r_Namespaced d" "r_Name d \<noteq> ''pods''" "r_Name d \<noteq> ''events''"
    and neg: "intField (objectMap (gget object ''spec'')) ''replicas'' < 0" and s0: "objects s0 = objects s"
  shows "silent gv ns d s (create_named a pem rq gv ns d n md object s0)"
proof -
  let ?key = "mk_key (Group gv) (Version gv) (r_Name d) ns n"
  let ?object = "create_defaults a (r_Kind d) ns n (stamp_identity a gv d ns n md object) s0"
  have workload: "isWorkloadKind (r_Kind d)" using kind by (auto simp: isWorkloadKind_def)
  show ?thesis
  proof (cases "put_accepts ?key ?object ''ADDED'' s0")
    case True
    let ?new = "stamped ?object s0" and ?s1 = "put_state ?key ?object ''ADDED'' s0"
    have new: "gget ?new k = gget ?object k" if "k \<noteq> ''metadata''" for k using that by (simp add: stamped_def)
    have "gget ?object ''kind'' = GStr (r_Kind d)" using create_defaults_replicas(2) [OF kind] by (simp add: stamp_identity_def Let_def)
    then have k: "stringField ?new ''kind'' = r_Kind d" by (simp add: stringField_def new as_string_def)
    have "gget (objectMap (gget ?object ''spec'')) ''replicas'' = gget (objectMap (gget object ''spec'')) ''replicas''"
      using create_defaults_replicas(1) [OF kind] by (simp add: stamp_identity_def Let_def)
    then have "intField (objectMap (gget ?new ''spec'')) ''replicas'' < 0" using neg by (simp add: intField_def new)
    then have panics: "fst (materializePods a gv ns n ?new ?s1)" using kind k by (intro negative_replicas_panic) simp_all
    have "other_resource ?key" using d by (simp add: mk_key_def)
    moreover have "stringField ?new ''kind'' \<noteq> ''Deployment''" using k kind by auto
    ultimately have "get (snd (materializePods a gv ns n ?new ?s1)) ?key = get ?s1 ?key" using other_materializePods unfolding unchanged_def by blast
    moreover have "get ?s1 ?key \<noteq> None" by (simp add: get_put_state)
    moreover have "get s ?key = None" using True s0 by (simp add: put_accepts_def get_def)
    ultimately show ?thesis using panics workload d(1)
      by (auto simp: create_named_def put_success [OF True] after_create_def Let_def silent_def split: prod.splits)
  next
    case False
    from put_refused [OF this] obtain e where "put ?key ?object ''ADDED'' s0 = (Some e, stamped ?object s0, s0)" by blast
    then show ?thesis by (cases e) (simp_all add: create_named_def silent_def)
  qed
qed

lemma silent_if: "(P \<Longrightarrow> silent gv ns d s x) \<Longrightarrow> (\<not> P \<Longrightarrow> silent gv ns d s y) \<Longrightarrow> silent gv ns d s (if P then x else y)"
  by simp

lemma silent_create:
  assumes kind: "r_Kind d = ''DaemonSet'' \<or> r_Kind d = ''Job''" and d: "r_Namespaced d" "r_Name d \<noteq> ''pods''" "r_Name d \<noteq> ''events''"
    and object: "rq_object rq = Inr object" and neg: "intField (objectMap (gget object ''spec'')) ''replicas'' < 0"
  shows "silent gv ns d s (create a pem rq gv ns d s)"
proof (cases "ns = []")
  case scoped: False
  have named: "silent gv ns d s (create_named a pem rq gv ns d n md object s0)" if "objects s0 = objects s" for n md s0
    by (rule silent_named [OF kind d neg that])
  have step: "silent gv ns d s
      (case nextName prefix s of
        (Inl errStoreCapacity, t') \<Rightarrow> (r2, [], t') | (Inl errObjectAlreadyExists, t') \<Rightarrow> (r2, [], t')
      | (Inl errGeneratedNameCapacity, t') \<Rightarrow> (r1, [], t') | (Inl errInvalidGeneratedName, t') \<Rightarrow> (r2, [], t')
      | (Inr v, t') \<Rightarrow> create_named a pem rq gv ns d v md object t')"
      if "code_of r1 = 422" "code_of r2 = 422" for prefix r1 r2 md
    using that by (cases "nextName prefix s")
      (auto split: sum.splits storeError.splits intro!: silent_refused named dest: same_objects_nextName simp: same_objects_def)
  show ?thesis
  proof (cases "validateObjectShape object gv d False")
    case None
    have resolved: "(if ns \<noteq> [] then ns else if r_Namespaced d \<and> P then got else []) = ns" for P got using scoped by simp
    show ?thesis
      unfolding create_def Let_def object None sum.case option.case resolved
      by (intro silent_if named step) (simp_all add: silent_refused)
  qed (use scoped object in \<open>simp add: create_def silent_refused\<close>)
qed (use d in \<open>simp add: create_def silent_refused\<close>)

text \<open>
  C20. An attacker can change the cluster without leaving a trace: a DaemonSet or Job with a negative replica count that is not refused is stored, is answered with 500, and
  neither a mutation event nor the event of the request reaches the log, because the panic unwinds through the layer that writes the event before it is recovered.
\<close>

theorem panicking_create_unlogged:
  assumes "r_Kind d = ''DaemonSet'' \<or> r_Kind d = ''Job''" "r_Namespaced d" "r_Name d \<noteq> ''pods''" "r_Name d \<noteq> ''events''"
    and "rq_object rq = Inr object" "intField (objectMap (gget object ''spec'')) ''replicas'' < 0"
    and "k8s_request env results hq a pem slot rq gv (Create ns d) (s, l) = (Some (Answered code n), t, l')" "code < 400 \<or> 500 \<le> code"
  shows "code = 500 \<and> l' = l \<and>
     (\<exists>name. get s (mk_key (Group gv) (Version gv) (r_Name d) ns name) = None \<and> get t (mk_key (Group gv) (Version gv) (r_Name d) ns name) \<noteq> None)"
proof -
  obtain r ms u where c: "create a pem rq gv ns d s = (r, ms, u)" by (metis prod.exhaust)
  note quiet = silent_create [OF assms(1-6), of gv ns s a pem, unfolded c silent_def prod.case]
  have run: "k8s_request env results hq a pem slot rq gv (Create ns d) (s, l) =
      (let (h, l2) = HTTPMiddleware env results ''kubernetes'' (limitRequestBody hq) (answered r) l in (Some (recoverPanics h), u, l2))"
    using quiet by (simp add: k8s_request_def perform_def c)
  show ?thesis
  proof (cases r)
    case (Reply st body)
    then have "code = st" "400 \<le> st" "st < 500"
      using assms(7) quiet by (auto simp: run answered_def json_response_def HTTPMiddleware_def HTTPErrorHandler_def recoverPanics_def)
    then show ?thesis using assms(8) by simp
  next
    case Panicked
    then show ?thesis using assms(7) quiet by (auto simp: run answered_def json_response_def HTTPMiddleware_def HTTPErrorHandler_def recoverPanics_def)
  qed
qed

definition demo_job :: gobj where
  "demo_job = [(''metadata'', GMap [(''name'', GStr ''a'')]), (''spec'', GMap [(''replicas'', GInt (- 1))]), (''status'', GMap [])]"

definition demo_jobs :: apiResource where
  "demo_jobs = resource ''jobs'' ''Job'' True []"

definition demo_spaces :: objectStore where
  "demo_spaces = (newObjectStore 0)\<lparr>objects := [(mk_key [] ''v1'' ''namespaces'' [] ''d'', [])], storedBytes := 2\<rparr>"

definition demo_http :: httpRequest where
  "demo_http = \<lparr>hq_remote = ''192.0.2.1:4000'', hq_method = ''POST'', hq_path = ''/'', hq_forwarded = [], hq_agent = [], hq_body = None\<rparr>"

lemma demo_job_valid: "validateObjectShape demo_job (gv' ''batch'' ''v1'') demo_jobs False = None"
  by (simp add: validate_eval demo_jobs_def demo_job_def resource_def validObjectName_def)

lemma demo_jobs_fields: "r_Namespaced demo_jobs" "r_Name demo_jobs = ''jobs''" "r_Kind demo_jobs = ''Job''"
  by (simp_all add: demo_jobs_def resource_def)

lemma demo_job_stored:
  "put_accepts (mk_key ''batch'' ''v1'' ''jobs'' ''d'' ''a'')
     (create_defaults demo_env ''Job'' ''d'' ''a'' (stamp_identity demo_env (gv' ''batch'' ''v1'') demo_jobs ''d'' ''a'' [(''name'', GStr ''a''), (''namespace'', GStr ''d'')] demo_job) demo_spaces)
     ''ADDED'' demo_spaces"
proof -
  have "\<exists>uid. length uid = 36 \<and> stamp_identity demo_env (gv' ''batch'' ''v1'') demo_jobs ''d'' ''a'' [(''name'', GStr ''a''), (''namespace'', GStr ''d'')] demo_job =
     [(''metadata'', GMap [(''name'', GStr ''a''), (''namespace'', GStr ''d''), (''uid'', GStr uid), (''creationTimestamp'', GStr ''1970-01-01T00:00:00Z'')]),
      (''spec'', GMap [(''replicas'', GInt (- 1))]), (''status'', GMap []), (''apiVersion'', GStr ''batch/v1''), (''kind'', GStr ''Job'')]"
    unfolding stamp_identity_def Let_def demo_now demo_jobs_fields
    by (rule exI, rule conjI, rule length_stableUID) (simp add: apiVersionFor_def gv'_def demo_job_def)
  then obtain uid where uid: "length uid = 36" and st: "stamp_identity demo_env (gv' ''batch'' ''v1'') demo_jobs ''d'' ''a'' [(''name'', GStr ''a''), (''namespace'', GStr ''d'')] demo_job =
     [(''metadata'', GMap [(''name'', GStr ''a''), (''namespace'', GStr ''d''), (''uid'', GStr uid), (''creationTimestamp'', GStr ''1970-01-01T00:00:00Z'')]),
      (''spec'', GMap [(''replicas'', GInt (- 1))]), (''status'', GMap []), (''apiVersion'', GStr ''batch/v1''), (''kind'', GStr ''Job'')]" by blast
  have cd: "create_defaults demo_env ''Job'' ''d'' ''a'' (stamp_identity demo_env (gv' ''batch'' ''v1'') demo_jobs ''d'' ''a'' [(''name'', GStr ''a''), (''namespace'', GStr ''d'')] demo_job) demo_spaces =
     [(''metadata'', GMap [(''name'', GStr ''a''), (''namespace'', GStr ''d''), (''uid'', GStr uid), (''creationTimestamp'', GStr ''1970-01-01T00:00:00Z'')]),
      (''spec'', GMap [(''replicas'', GInt (- 1)), (''completions'', GInt 1), (''parallelism'', GInt 1), (''backoffLimit'', GInt 6),
         (''suspend'', GBool False), (''completionMode'', GStr ''NonIndexed'')]),
      (''status'', GMap []), (''apiVersion'', GStr ''batch/v1''), (''kind'', GStr ''Job'')]"
  proof -
    let ?spec = "[(''replicas'', GInt (- 1)), (''completions'', GInt 1), (''parallelism'', GInt 1), (''backoffLimit'', GInt 6), (''suspend'', GBool False), (''completionMode'', GStr ''NonIndexed'')]"
    have job: "create_job_defaults object = gset ''spec'' (GMap ?spec) object" if "gget object ''spec'' = GMap [(''replicas'', GInt (- 1))]" for object
    proof -
      have "with_defaults [(''completions'', GInt 1), (''parallelism'', GInt 1), (''backoffLimit'', GInt 6), (''suspend'', GBool False), (''completionMode'', GStr ''NonIndexed'')]
        [(''replicas'', GInt (- 1))] = ?spec" by (simp add: with_defaults_def has_key_def)
      moreover have "gget ?spec ''template'' = GNil" by (simp add: gget_def)
      ultimately show ?thesis by (simp add: create_job_defaults_def that Let_def)
    qed
    have "create_defaults demo_env ''Job'' ''d'' ''a'' object demo_spaces = create_job_defaults object" if "has_key object ''status''" for object
      using that by (simp add: create_defaults_def Let_def)
    then show ?thesis unfolding st by (simp add: job has_key_def gget_def)
  qed
  show ?thesis unfolding cd using escape_string_len [of uid] uid
    by (simp add: put_accepts_def stamped_def demo_spaces_def newObjectStore_def old_bytes_def gget_def objectMap_def marshal_eval number_text_int show_int_def mk_key_def)
qed

lemma demo_job_create:
  "create demo_env [] (demo_request ''POST'' demo_job) (gv' ''batch'' ''v1'') ''d'' demo_jobs demo_spaces =
   create_named demo_env [] (demo_request ''POST'' demo_job) (gv' ''batch'' ''v1'') ''d'' demo_jobs ''a'' [(''name'', GStr ''a''), (''namespace'', GStr ''d'')] demo_job demo_spaces"
proof -
  have "namespaceExists ''d'' demo_spaces" by (simp add: namespaceExists_def demo_spaces_def get_def mk_key_def)
  moreover have "gget demo_job ''metadata'' = GMap [(''name'', GStr ''a'')]" by (simp add: gget_def demo_job_def)
  moreover have "rq_object (demo_request ''POST'' demo_job) = Inr demo_job" by (simp add: demo_request_def)
  ultimately show ?thesis
    unfolding create_def by (simp add: demo_job_valid demo_jobs_fields Let_def stringField_def gget_def as_string_def)
qed

theorem panicking_create_unlogged_witness:
  "\<forall>env l. \<exists>n t. k8s_request env [] demo_http demo_env [] True (demo_request ''POST'' demo_job) (gv' ''batch'' ''v1'') (Create ''d'' demo_jobs) (demo_spaces, l) =
       (Some (Answered 500 n), t, l) \<and> (\<exists>name. get t (mk_key ''batch'' ''v1'' ''jobs'' ''d'' name) \<noteq> None)"
proof (intro allI)
  fix env l
  let ?c = "create demo_env [] (demo_request ''POST'' demo_job) (gv' ''batch'' ''v1'') ''d'' demo_jobs demo_spaces"
  have d: "r_Kind demo_jobs = ''DaemonSet'' \<or> r_Kind demo_jobs = ''Job''" "r_Namespaced demo_jobs" "r_Name demo_jobs \<noteq> ''pods''" "r_Name demo_jobs \<noteq> ''events''"
    "rq_object (demo_request ''POST'' demo_job) = Inr demo_job" "intField (objectMap (gget demo_job ''spec'')) ''replicas'' < 0"
    by (simp_all add: demo_jobs_fields demo_request_def demo_job_def intField_def gget_def objectMap_def wrap_int64_def)
  have "code_of (fst ?c) \<in> {0, 201}"
    unfolding demo_job_create create_named_def Let_def demo_jobs_fields gv'_simps put_success [OF demo_job_stored] by (simp split: prod.splits)
  with silent_create [OF d, of "gv' ''batch'' ''v1''" "''d''" demo_spaces demo_env "[]"] obtain t where c: "?c = (Panicked, [], t)"
    by (auto simp: silent_def split: prod.splits)
  then obtain n where run: "k8s_request env [] demo_http demo_env [] True (demo_request ''POST'' demo_job) (gv' ''batch'' ''v1'') (Create ''d'' demo_jobs) (demo_spaces, l) =
      (Some (Answered 500 n), t, l)"
    by (simp add: k8s_request_def perform_def answered_def HTTPMiddleware_def HTTPErrorHandler_def recoverPanics_def json_response_def)
  from panicking_create_unlogged [OF d this] this
  show "\<exists>n t. k8s_request env [] demo_http demo_env [] True (demo_request ''POST'' demo_job) (gv' ''batch'' ''v1'') (Create ''d'' demo_jobs) (demo_spaces, l) =
       (Some (Answered 500 n), t, l) \<and> (\<exists>name. get t (mk_key ''batch'' ''v1'' ''jobs'' ''d'' name) \<noteq> None)"
    by (auto simp: demo_jobs_fields)
qed

end
