(* ===== verification/ConfigLoader.thy ===== *)
theory ConfigLoader
  imports Names ModelConfig NetAddr Utf8
begin

text \<open>
  Loading and validating the configuration (\<^verbatim>\<open>config/config.go\<close>): defaults, the overlay of environment variables,
  normalization and validation. The environment is a map of variables. Reading and decoding the TOML file (a third-party decoder) is an
  input of \<^verbatim>\<open>NewConfig\<close>; the URL parser of \<^verbatim>\<open>net/url\<close> and the Unicode table of lower-case
  letters are parameters, collected in the record \<open>loaderLib\<close>. An argument that an error message quotes with \<^verbatim>\<open>%q\<close> stands
  between quotes without its escapes; no code reads it.
\<close>

section \<open>Defaults\<close>

definition Defaults :: Config where
  "Defaults =
     \<lparr>c_AI = \<lparr>ai_Host = ''127.0.0.1'', ai_Port = ''11434'', ai_Token = []\<rparr>,
      c_Docker = \<lparr>docker_Host = ''127.0.0.1'', docker_Port = ''2375''\<rparr>,
      c_HTTP = \<lparr>http_Host = ''127.0.0.1'', http_Port = ''8081''\<rparr>,
      c_UDP = \<lparr>udp_Host = ''127.0.0.1'', udp_Port = ''9053''\<rparr>,
      c_TCP = \<lparr>tcp_Host = ''127.0.0.1'', tcp_Port = ''9022''\<rparr>,
      c_Kubelet = \<lparr>kubelet_Host = ''127.0.0.1'', kubelet_Port = ''10250'', kubelet_NodeName = ''worker-01'', kubelet_TLSEnabled = None,
                   kubelet_TLSCertFile = [], kubelet_TLSKeyFile = []\<rparr>,
      c_K8S = \<lparr>k8s_APIVersion = ''v1.37'', k8s_SchemaOffline = False, k8s_IPBase = ''10.42.0.0'', k8s_GenerateKubeSys = True,
               k8s_GenerateRand = False, k8s_Host = ''127.0.0.1'', k8s_Port = ''8080'', k8s_TLSEnabled = False, k8s_TLSCertFile = [],
               k8s_TLSKeyFile = [], k8s_Namespaces = [], k8s_Honeytokens = [], k8s_TokenValues = [], k8s_TokenNames = []\<rparr>,
      c_RunMode = ''k8s'',
      c_Logging = \<lparr>log_Format = ''json'', log_IncludeUserAgent = False, log_TrustedProxyCIDRs = [], log_Sinks = []\<rparr>\<rparr>"

section \<open>Environment\<close>

type_synonym environment = "(string \<times> string) list"

fun firstSetEnv :: "environment \<Rightarrow> string list \<Rightarrow> string option" where
  "firstSetEnv env [] = None"
| "firstSetEnv env (key # keys) =
     (case map_of env key of
        Some v \<Rightarrow> if trim_space v \<noteq> [] then Some (trim_space v) else firstSetEnv env keys
      | None \<Rightarrow> firstSetEnv env keys)"

definition firstEnv :: "environment \<Rightarrow> string list \<Rightarrow> string" where
  "firstEnv env keys = (case firstSetEnv env keys of Some v \<Rightarrow> v | None \<Rightarrow> [])"

definition setString :: "environment \<Rightarrow> (string \<Rightarrow> Config \<Rightarrow> Config) \<Rightarrow> string list \<Rightarrow> Config \<Rightarrow> Config" where
  "setString env upd keys c = (case firstSetEnv env keys of Some v \<Rightarrow> upd v c | None \<Rightarrow> c)"

text \<open>\<^verbatim>\<open>strconv.ParseBool\<close>\<close>

definition parse_bool :: "string \<Rightarrow> bool option" where
  "parse_bool s =
     (if s \<in> set [''1'', ''t'', ''T'', ''TRUE'', ''true'', ''True''] then Some True
      else if s \<in> set [''0'', ''f'', ''F'', ''FALSE'', ''false'', ''False''] then Some False else None)"

type_synonym 'a result = "string + 'a"

definition set_bool :: "environment \<Rightarrow> (bool \<Rightarrow> Config \<Rightarrow> Config) \<Rightarrow> string list \<Rightarrow> Config \<Rightarrow> Config result" where
  "set_bool env upd keys c =
     (case firstSetEnv env keys of
        None \<Rightarrow> Inr c
      | Some v \<Rightarrow> (case parse_bool v of None \<Rightarrow> Inl (''invalid boolean for '' @ hd keys) | Some b \<Rightarrow> Inr (upd b c)))"

text \<open>\<^verbatim>\<open>splitList\<close>: the loop over the comma-separated parts.\<close>

fun split_parts :: "string \<Rightarrow> nat \<Rightarrow> nat \<Rightarrow> string list \<Rightarrow> string list \<Rightarrow> string list result" where
  "split_parts variable maxCount maxEntryBytes [] out = Inr out"
| "split_parts variable maxCount maxEntryBytes (raw # raws) out =
     (let part = trim_space raw
      in if part = [] then split_parts variable maxCount maxEntryBytes raws out
         else if length out = maxCount then Inl (variable @ '' may contain at most '' @ show_nat maxCount @ '' entries'')
         else if length part > maxEntryBytes then Inl (variable @ '' entries may be at most '' @ show_nat maxEntryBytes @ '' bytes'')
         else split_parts variable maxCount maxEntryBytes raws (out @ [part]))"

definition splitList :: "string \<Rightarrow> string \<Rightarrow> nat \<Rightarrow> nat \<Rightarrow> nat \<Rightarrow> string list result" where
  "splitList value variable maxCount maxEntryBytes maxInputBytes =
     (if length value > maxInputBytes then Inl (variable @ '' exceeds the token-list size limit'')
      else split_parts variable maxCount maxEntryBytes (go_split (CHR '','') value) [])"

definition set_list :: "environment \<Rightarrow> (string list \<Rightarrow> Config \<Rightarrow> Config) \<Rightarrow> string \<Rightarrow> nat \<Rightarrow> nat \<Rightarrow> nat \<Rightarrow> Config \<Rightarrow> Config result" where
  "set_list env upd key maxCount maxEntryBytes maxInputBytes c =
     (case firstSetEnv env [key] of
        None \<Rightarrow> Inr c
      | Some v \<Rightarrow> (case splitList v key maxCount maxEntryBytes maxInputBytes of Inl e \<Rightarrow> Inl e | Inr l \<Rightarrow> Inr (upd l c)))"

section \<open>Honeytokens and headers from the environment\<close>

definition cut :: "char \<Rightarrow> string \<Rightarrow> string \<times> string \<times> bool" where
  "cut sep s = (case cut_at [sep] s of Some (a, b) \<Rightarrow> (a, b, True) | None \<Rightarrow> (s, [], False))"

definition entry_error :: "nat \<Rightarrow> string \<Rightarrow> string" where
  "entry_error index rest = ''HELIX_K8S_HONEYTOKENS entry '' @ show_nat index @ '' '' @ rest"

fun parse_pairs :: "nat \<Rightarrow> string list \<Rightarrow> (string \<times> string) list \<Rightarrow> (string \<times> string) list result" where
  "parse_pairs index [] entries = Inr entries"
| "parse_pairs index (pair # pairs) entries =
     (let (key0, fieldValue, ok) = cut (CHR ''='') pair; key = trim_space key0
      in if \<not> ok \<or> key = [] then Inl (entry_error index ''contains a malformed key=value pair'')
         else if map_of entries key \<noteq> None then Inl (entry_error index ''repeats a data key'')
         else parse_pairs index pairs (entries @ [(key, fieldValue)]))"

fun parse_entries :: "string list \<Rightarrow> K8SHoneytoken list \<Rightarrow> K8SHoneytoken list result" where
  "parse_entries [] tokens = Inr tokens"
| "parse_entries (raw # raws) tokens =
     (let entry = trim_space raw
      in if entry = [] then parse_entries raws tokens
         else if length tokens \<ge> 64 then Inl ''HELIX_K8S_HONEYTOKENS may contain at most 64 entries''
         else let index = length tokens + 1; (head, data, found) = cut (CHR '':'') entry
           in if \<not> found then Inl (entry_error index ''lacks a 'name:key=value' separator'')
              else let (name, namespace, _) = cut (CHR ''@'') (trim_space head)
                in case parse_pairs index (go_split (CHR '','') data) [] of
                     Inl e \<Rightarrow> Inl e
                   | Inr entries \<Rightarrow>
                       parse_entries raws (tokens @ [\<lparr>ht_Name = name, ht_Namespace = namespace, ht_Type = [], ht_Data = entries\<rparr>]))"

definition parseEnvHoneytokens :: "string \<Rightarrow> K8SHoneytoken list result" where
  "parseEnvHoneytokens value =
     (if length value > 65536 then Inl ''HELIX_K8S_HONEYTOKENS exceeds the 65536-byte limit''
      else case parse_entries (go_split (CHR '';'') value) [] of
             Inl e \<Rightarrow> Inl e
           | Inr tokens \<Rightarrow> if tokens = [] then Inl ''HELIX_K8S_HONEYTOKENS contains no entries'' else Inr tokens)"

definition validSinkHeaderName :: "string \<Rightarrow> bool" where
  "validSinkHeaderName value \<longleftrightarrow>
     value \<noteq> [] \<and>
     list_all (\<lambda>char. isLowerAlphaNumeric char \<or> CHR ''A'' \<le> char \<and> char \<le> CHR ''Z'' \<or>
       char \<in> set ''!#$%&*+-.^_|~'' \<or> char = CHR 0x27 \<or> char = CHR 0x60) value"

definition validateSinkHeaders :: "(string \<times> string) list \<Rightarrow> string option" where
  "validateSinkHeaders headers =
     (if length headers > 16 then Some ''sink headers may contain at most 16 entries''
      else case find (\<lambda>(name, v). \<not> validSinkHeaderName name \<or> length name > 128 \<or>
                        length v > 2048 \<or> CHR 0x0D \<in> set v \<or> CHR 0x0A \<in> set v) headers of
             None \<Rightarrow> None
           | Some (name, v) \<Rightarrow>
               (if \<not> validSinkHeaderName name \<or> length name > 128 then Some ''sink headers contain an invalid name''
                else Some (''sink headers contain an invalid value for '' @ CHR 0x22 # name @ [CHR 0x22])))"

fun parse_headers :: "string \<Rightarrow> string list \<Rightarrow> (string \<times> string) list \<Rightarrow> (string \<times> string) list result" where
  "parse_headers variable [] headers = Inr headers"
| "parse_headers variable (raw # raws) headers =
     (let entry = trim_space raw
      in if entry = [] then parse_headers variable raws headers
         else if length headers \<ge> 16 then Inl (variable @ '' may contain at most 16 headers'')
         else let (name0, headerValue, ok) = cut (CHR '':'') entry; name = trim_space name0
           in if \<not> ok \<or> name = [] then Inl (variable @ '' contains a malformed 'Name:Value' entry'')
              else parse_headers variable raws (AList.update name (trim_space headerValue) headers))"

definition parseEnvHeaders :: "string \<Rightarrow> string \<Rightarrow> (string \<times> string) list result" where
  "parseEnvHeaders value variable =
     (if length value > 65536 then Inl (variable @ '' exceeds the 65536-byte limit'')
      else case parse_headers variable (go_split (CHR '';'') value) [] of
             Inl e \<Rightarrow> Inl e
           | Inr headers \<Rightarrow> (case validateSinkHeaders headers of None \<Rightarrow> Inr headers | Some e \<Rightarrow> Inl (variable @ '': '' @ e)))"

section \<open>Overlaying the environment\<close>

definition emptySink :: "string \<Rightarrow> LogSinkConfig" where
  "emptySink kind =
     \<lparr>sink_Type = kind, sink_URL = [], sink_Path = [], sink_Index = [], sink_Source = [], sink_Sourcetype = [], sink_Token = [],
      sink_Username = [], sink_Password = [], sink_Headers = []\<rparr>"

definition add_sink :: "LogSinkConfig \<Rightarrow> Config \<Rightarrow> Config" where
  "add_sink sink c = c\<lparr>c_Logging := (c_Logging c)\<lparr>log_Sinks := log_Sinks (c_Logging c) @ [sink]\<rparr>\<rparr>"

definition applyEnvSinks :: "environment \<Rightarrow> Config \<Rightarrow> Config result" where
  "applyEnvSinks env c =
     (let c1 = (case firstSetEnv env [''HELIX_LOG_FILE''] of
                  Some path \<Rightarrow> add_sink ((emptySink ''file'')\<lparr>sink_Path := path\<rparr>) c | None \<Rightarrow> c);
          c2 = (case firstSetEnv env [''HELIX_SPLUNK_URL''] of
                  Some url \<Rightarrow> add_sink ((emptySink ''splunk'')\<lparr>sink_URL := url, sink_Token := firstEnv env [''HELIX_SPLUNK_TOKEN''],
                    sink_Index := firstEnv env [''HELIX_SPLUNK_INDEX''], sink_Source := firstEnv env [''HELIX_SPLUNK_SOURCE''],
                    sink_Sourcetype := firstEnv env [''HELIX_SPLUNK_SOURCETYPE'']\<rparr>) c1
                | None \<Rightarrow> c1);
          c3 = (case firstSetEnv env [''HELIX_ELASTICSEARCH_URL'', ''HELIX_ELK_URL''] of
                  Some url \<Rightarrow> add_sink ((emptySink ''elasticsearch'')\<lparr>sink_URL := url, sink_Index := firstEnv env [''HELIX_ELASTICSEARCH_INDEX''],
                    sink_Token := firstEnv env [''HELIX_ELASTICSEARCH_TOKEN''], sink_Username := firstEnv env [''HELIX_ELASTICSEARCH_USERNAME''],
                    sink_Password := firstEnv env [''HELIX_ELASTICSEARCH_PASSWORD'']\<rparr>) c2
                | None \<Rightarrow> c2)
      in case firstSetEnv env [''HELIX_HTTP_SINK_URL''] of
           None \<Rightarrow> Inr c3
         | Some url \<Rightarrow>
             (let sink = (emptySink ''http'')\<lparr>sink_URL := url, sink_Token := firstEnv env [''HELIX_HTTP_SINK_TOKEN'']\<rparr>
              in case firstSetEnv env [''HELIX_HTTP_SINK_HEADERS''] of
                   None \<Rightarrow> Inr (add_sink sink c3)
                 | Some v \<Rightarrow>
                     (case parseEnvHeaders v ''HELIX_HTTP_SINK_HEADERS'' of
                        Inl e \<Rightarrow> Inl e
                      | Inr headers \<Rightarrow> Inr (add_sink (sink\<lparr>sink_Headers := headers\<rparr>) c3))))"

abbreviation k8s_field :: "(K8SConfig \<Rightarrow> K8SConfig) \<Rightarrow> Config \<Rightarrow> Config" where
  "k8s_field f c \<equiv> c\<lparr>c_K8S := f (c_K8S c)\<rparr>"

abbreviation kubelet_field :: "(KubeletConfig \<Rightarrow> KubeletConfig) \<Rightarrow> Config \<Rightarrow> Config" where
  "kubelet_field f c \<equiv> c\<lparr>c_Kubelet := f (c_Kubelet c)\<rparr>"

abbreviation log_field :: "(LoggingConfig \<Rightarrow> LoggingConfig) \<Rightarrow> Config \<Rightarrow> Config" where
  "log_field f c \<equiv> c\<lparr>c_Logging := f (c_Logging c)\<rparr>"

definition string_settings :: "((string \<Rightarrow> Config \<Rightarrow> Config) \<times> string list) list" where
  "string_settings =
     [(\<lambda>v c. c\<lparr>c_RunMode := v\<rparr>, [''HELIX_RUN_MODE'', ''RUN_MODE'']),
      (\<lambda>v. k8s_field (\<lambda>k. k\<lparr>k8s_APIVersion := v\<rparr>), [''HELIX_K8S_API_VERSION'', ''K8SAPI_VERSION'']),
      (\<lambda>v. k8s_field (\<lambda>k. k\<lparr>k8s_IPBase := v\<rparr>), [''HELIX_K8S_IP_BASE'', ''IP_BASE'']),
      (\<lambda>v. k8s_field (\<lambda>k. k\<lparr>k8s_Host := v\<rparr>), [''HELIX_K8S_HOST'', ''K8S_HOST'']),
      (\<lambda>v. k8s_field (\<lambda>k. k\<lparr>k8s_Port := v\<rparr>), [''HELIX_K8S_PORT'', ''K8S_PORT'']),
      (\<lambda>v c. c\<lparr>c_HTTP := (c_HTTP c)\<lparr>http_Host := v\<rparr>\<rparr>, [''HELIX_HTTP_HOST'']),
      (\<lambda>v c. c\<lparr>c_HTTP := (c_HTTP c)\<lparr>http_Port := v\<rparr>\<rparr>, [''HELIX_HTTP_PORT'']),
      (\<lambda>v c. c\<lparr>c_Docker := (c_Docker c)\<lparr>docker_Host := v\<rparr>\<rparr>, [''HELIX_DOCKER_HOST'']),
      (\<lambda>v c. c\<lparr>c_AI := (c_AI c)\<lparr>ai_Host := v\<rparr>\<rparr>, [''HELIX_AI_HOST'']),
      (\<lambda>v c. c\<lparr>c_AI := (c_AI c)\<lparr>ai_Port := v\<rparr>\<rparr>, [''HELIX_AI_PORT'']),
      (\<lambda>v c. c\<lparr>c_AI := (c_AI c)\<lparr>ai_Token := v\<rparr>\<rparr>, [''HELIX_AI_TOKEN'']),
      (\<lambda>v c. c\<lparr>c_Docker := (c_Docker c)\<lparr>docker_Port := v\<rparr>\<rparr>, [''HELIX_DOCKER_PORT'']),
      (\<lambda>v c. c\<lparr>c_TCP := (c_TCP c)\<lparr>tcp_Host := v\<rparr>\<rparr>, [''HELIX_TCP_HOST'']),
      (\<lambda>v c. c\<lparr>c_TCP := (c_TCP c)\<lparr>tcp_Port := v\<rparr>\<rparr>, [''HELIX_TCP_PORT'']),
      (\<lambda>v c. c\<lparr>c_UDP := (c_UDP c)\<lparr>udp_Host := v\<rparr>\<rparr>, [''HELIX_UDP_HOST'']),
      (\<lambda>v c. c\<lparr>c_UDP := (c_UDP c)\<lparr>udp_Port := v\<rparr>\<rparr>, [''HELIX_UDP_PORT'']),
      (\<lambda>v. kubelet_field (\<lambda>k. k\<lparr>kubelet_Host := v\<rparr>), [''HELIX_KUBELET_HOST'']),
      (\<lambda>v. kubelet_field (\<lambda>k. k\<lparr>kubelet_Port := v\<rparr>), [''HELIX_KUBELET_PORT'']),
      (\<lambda>v. kubelet_field (\<lambda>k. k\<lparr>kubelet_NodeName := v\<rparr>), [''HELIX_KUBELET_NODE_NAME'']),
      (\<lambda>v. kubelet_field (\<lambda>k. k\<lparr>kubelet_TLSCertFile := v\<rparr>), [''HELIX_KUBELET_TLS_CERT_FILE'']),
      (\<lambda>v. kubelet_field (\<lambda>k. k\<lparr>kubelet_TLSKeyFile := v\<rparr>), [''HELIX_KUBELET_TLS_KEY_FILE'']),
      (\<lambda>v. k8s_field (\<lambda>k. k\<lparr>k8s_TLSCertFile := v\<rparr>), [''HELIX_K8S_TLS_CERT_FILE'']),
      (\<lambda>v. k8s_field (\<lambda>k. k\<lparr>k8s_TLSKeyFile := v\<rparr>), [''HELIX_K8S_TLS_KEY_FILE''])]"

fun run_settings :: "(Config \<Rightarrow> Config result) list \<Rightarrow> Config \<Rightarrow> Config result" where
  "run_settings [] c = Inr c"
| "run_settings (f # fs) c = (case f c of Inl e \<Rightarrow> Inl e | Inr c1 \<Rightarrow> run_settings fs c1)"

definition set_honeytokens :: "environment \<Rightarrow> Config \<Rightarrow> Config result" where
  "set_honeytokens env c =
     (case firstSetEnv env [''HELIX_K8S_HONEYTOKENS''] of
        None \<Rightarrow> Inr c
      | Some v \<Rightarrow> (case parseEnvHoneytokens v of
                     Inl e \<Rightarrow> Inl e
                   | Inr tokens \<Rightarrow> Inr (k8s_field (\<lambda>k. k\<lparr>k8s_Honeytokens := k8s_Honeytokens k @ tokens\<rparr>) c)))"

definition other_settings :: "environment \<Rightarrow> (Config \<Rightarrow> Config result) list" where
  "other_settings env =
     [set_bool env (\<lambda>b. k8s_field (\<lambda>k. k\<lparr>k8s_SchemaOffline := b\<rparr>)) [''HELIX_K8S_SCHEMA_OFFLINE''],
      set_bool env (\<lambda>b. k8s_field (\<lambda>k. k\<lparr>k8s_TLSEnabled := b\<rparr>)) [''HELIX_K8S_TLS_ENABLED''],
      set_bool env (\<lambda>b. kubelet_field (\<lambda>k. k\<lparr>kubelet_TLSEnabled := Some b\<rparr>)) [''HELIX_KUBELET_TLS_ENABLED''],
      set_bool env (\<lambda>b. k8s_field (\<lambda>k. k\<lparr>k8s_GenerateKubeSys := b\<rparr>)) [''HELIX_K8S_GENERATE_KUBE_SYSTEM'', ''GENERATE_KUBE_SYSTEM''],
      set_bool env (\<lambda>b. k8s_field (\<lambda>k. k\<lparr>k8s_GenerateRand := b\<rparr>)) [''HELIX_K8S_GENERATE_RANDOMNESS'', ''GENERATE_RANDOMNESS''],
      set_list env (\<lambda>l. k8s_field (\<lambda>k. k\<lparr>k8s_TokenValues := l\<rparr>)) ''HELIX_K8S_TOKEN_VALUES'' 64 256 (16384 + 64 - 1),
      set_list env (\<lambda>l. k8s_field (\<lambda>k. k\<lparr>k8s_TokenNames := l\<rparr>)) ''HELIX_K8S_TOKEN_NAMES'' 64 256 (16384 + 64 - 1),
      set_list env (\<lambda>l. k8s_field (\<lambda>k. k\<lparr>k8s_Namespaces := l\<rparr>)) ''HELIX_K8S_NAMESPACES'' 64 63 (64 * (63 + 1)),
      set_honeytokens env,
      Inr \<circ> setString env (\<lambda>v. log_field (\<lambda>l. l\<lparr>log_Format := v\<rparr>)) [''HELIX_LOG_FORMAT''],
      set_bool env (\<lambda>b. log_field (\<lambda>l. l\<lparr>log_IncludeUserAgent := b\<rparr>)) [''HELIX_LOG_INCLUDE_USER_AGENT''],
      set_list env (\<lambda>l. log_field (\<lambda>g. g\<lparr>log_TrustedProxyCIDRs := l\<rparr>)) ''HELIX_LOG_TRUSTED_PROXY_CIDRS'' 16 64 (16 * (64 + 1)),
      applyEnvSinks env]"

definition applyEnvironment :: "environment \<Rightarrow> Config \<Rightarrow> Config result" where
  "applyEnvironment env c = run_settings (other_settings env) (fold (\<lambda>(upd, keys). setString env upd keys) string_settings c)"

section \<open>Normalization\<close>

record parsedURL =
  url_Scheme :: string
  url_Host :: string
  url_User :: bool \<comment> \<open>user information is present\<close>
  url_Fragment :: string

record loaderLib =
  parseURL :: "string \<Rightarrow> parsedURL option"
  unicodeLower :: "nat \<Rightarrow> nat" \<comment> \<open>\<^verbatim>\<open>unicode.ToLower\<close> beyond ASCII\<close>

definition normalize_honeytoken :: "K8SHoneytoken \<Rightarrow> K8SHoneytoken" where
  "normalize_honeytoken h =
     h\<lparr>ht_Namespace := trim_space (ht_Namespace h), ht_Type := (if trim_space (ht_Type h) = [] then ''Opaque'' else trim_space (ht_Type h))\<rparr>"

definition normalize_sink :: "loaderLib \<Rightarrow> LogSinkConfig \<Rightarrow> LogSinkConfig" where
  "normalize_sink lib s =
     s\<lparr>sink_Type := toLower (unicodeLower lib) (trim_space (sink_Type s)), sink_URL := trim_space (sink_URL s), sink_Index := trim_space (sink_Index s)\<rparr>"

definition normalize :: "loaderLib \<Rightarrow> Config \<Rightarrow> Config" where
  "normalize lib c =
     (let k = c_K8S c; l = c_Logging c;
          version = trim_space (k8s_APIVersion k); format = toLower (unicodeLower lib) (trim_space (log_Format l))
      in c\<lparr>c_RunMode := toLower (unicodeLower lib) (trim_space (c_RunMode c)),
           c_K8S := k\<lparr>k8s_APIVersion := (if has_prefix version ''1.'' then ''v'' @ version else version),
                      k8s_IPBase := trim_space (k8s_IPBase k),
                      k8s_Honeytokens := map normalize_honeytoken (k8s_Honeytokens k)\<rparr>,
           c_Kubelet := (c_Kubelet c)\<lparr>kubelet_NodeName := trim_space (kubelet_NodeName (c_Kubelet c))\<rparr>,
           c_Logging := l\<lparr>log_Format := (if format = [] then ''json'' else format), log_Sinks := map (normalize_sink lib) (log_Sinks l)\<rparr>\<rparr>)"

section \<open>Validation\<close>

fun first_failure :: "string option list \<Rightarrow> string option" where
  "first_failure [] = None"
| "first_failure (e # es) = (case e of Some m \<Rightarrow> Some m | None \<Rightarrow> first_failure es)"

definition check :: "bool \<Rightarrow> string \<Rightarrow> string option" where
  "check bad message = (if bad then Some message else None)"

definition validateTokens :: "K8SConfig \<Rightarrow> string option" where
  "validateTokens k =
     first_failure
       ([check (length (k8s_TokenValues k) > 64) ''Kubernetes token_values may contain at most 64 entries'',
         check (length (k8s_TokenNames k) > 64) ''Kubernetes token_names may contain at most 64 entries'']
        @ concat (map (\<lambda>(i, v).
            [check (trim_space v = []) (''Kubernetes token_values entry '' @ show_nat (i + 1) @ '' must not be empty''),
             check (length v > 256) (''Kubernetes token_values entry '' @ show_nat (i + 1) @ '' exceeds the 256-byte limit'')])
            (enumerate 0 (k8s_TokenValues k)))
        @ map (\<lambda>(i, name). check (\<not> validTokenName name)
            (''invalid Kubernetes token_names entry '' @ show_nat (i + 1) @ '': expected a lowercase DNS subdomain name''))
            (enumerate 0 (k8s_TokenNames k))
        @ [check (sum_list (map length (k8s_TokenValues k)) + sum_list (map length (k8s_TokenNames k)) > 16384)
             ''Kubernetes token_names and token_values exceed the 16384-byte aggregate limit''])"

definition validateNamespaces :: "string list \<Rightarrow> string option" where
  "validateNamespaces namespaces =
     first_failure
       (check (length namespaces > 64) ''Kubernetes namespaces may contain at most 64 entries''
        # concat (map (\<lambda>(i, namespace).
            [check (\<not> validDNSLabel namespace) (''invalid Kubernetes namespaces entry '' @ show_nat (i + 1) @ '': expected a lowercase DNS label''),
             check (namespace \<in> set (take i namespaces)) (''duplicate Kubernetes namespaces entry '' @ show_nat (i + 1))])
            (enumerate 0 namespaces)))"

definition honeytoken_ns :: "K8SHoneytoken \<Rightarrow> string" where
  "honeytoken_ns h = (if ht_Namespace h = [] then ''default'' else ht_Namespace h)"

definition secretID :: "K8SHoneytoken \<Rightarrow> string" where
  "secretID h = honeytoken_ns h @ CHR 0x00 # ht_Name h"

definition allowedNamespaces :: "K8SConfig \<Rightarrow> string list" where
  "allowedNamespaces k = [''default'', ''kube-system'', ''kube-public'', ''kube-node-lease''] @ k8s_Namespaces k"

definition honeytoken_checks :: "K8SConfig \<Rightarrow> nat \<times> K8SHoneytoken \<Rightarrow> string option list" where
  "honeytoken_checks k ih =
     (case ih of (i, h) \<Rightarrow>
        let n = show_nat (i + 1); namespace = honeytoken_ns h
        in [check (\<not> validTokenName (ht_Name h)) (''invalid Kubernetes honeytokens entry '' @ n @ '' name: expected a lowercase DNS subdomain''),
            check (\<not> validDNSLabel namespace) (''invalid Kubernetes honeytokens entry '' @ n @ '' namespace: expected a lowercase DNS label''),
            check (namespace \<notin> set (allowedNamespaces k))
              (''Kubernetes honeytokens entry '' @ n @ '' uses a namespace that is neither built in nor configured in k8s.namespaces''),
            check (secretID h \<in> secretID ` set (take i (k8s_Honeytokens k)))
              (''duplicate Kubernetes honeytokens entry '' @ n @ '' name and namespace''),
            check (\<not> validHoneytokenType (ht_Type h)) (''invalid Kubernetes honeytokens entry '' @ n @ '' type''),
            check (ht_Data h = []) (''Kubernetes honeytokens entry '' @ n @ '' must include at least one data entry''),
            check (length (ht_Data h) > 16) (''Kubernetes honeytokens entry '' @ n @ '' may contain at most 16 data entries'')]
           @ concat (map (\<lambda>(key, v).
               [check (\<not> config_validSecretDataKey key) (''Kubernetes honeytokens entry '' @ n @ '' contains an invalid data key''),
                check (length v > 4096) (''Kubernetes honeytokens entry '' @ n @ '' data values may be at most 4096 bytes'')]) (ht_Data h)))"

definition validateHoneytokens :: "K8SConfig \<Rightarrow> string option" where
  "validateHoneytokens k =
     first_failure
       (check (length (k8s_Honeytokens k) > 64) ''Kubernetes honeytokens may contain at most 64 entries''
        # concat (map (honeytoken_checks k) (enumerate 0 (k8s_Honeytokens k)))
        @ [check (sum_list (map (length \<circ> ht_Data) (k8s_Honeytokens k)) > 256)
             ''Kubernetes honeytokens may contain at most 256 data entries in total'',
           check (sum_list (map length (configured_tokens k)) > 16384)
             ''Kubernetes token and honeytoken data exceeds the 16384-byte aggregate payload limit''])"

definition validateLogging :: "LoggingConfig \<Rightarrow> string option" where
  "validateLogging l =
     first_failure
       ([check (log_Format l \<noteq> ''json'' \<and> log_Format l \<noteq> ''text'') ''logging format must be json or text'',
         check (length (log_TrustedProxyCIDRs l) > 16) ''logging trusted_proxy_cidrs may contain at most 16 entries'']
        @ concat (map (\<lambda>(i, cidr).
            [check (length cidr > 64) (''logging trusted_proxy_cidrs entry '' @ show_nat (i + 1) @ '' exceeds the 64-byte limit''),
             check (\<not> ParseCIDR_ok cidr) (''invalid logging trusted_proxy_cidrs entry '' @ show_nat (i + 1) @ '': expected a CIDR''),
             check (cidr \<in> set (take i (log_TrustedProxyCIDRs l))) (''duplicate logging trusted_proxy_cidrs entry '' @ show_nat (i + 1))])
            (enumerate 0 (log_TrustedProxyCIDRs l))))"

definition validateSinkURL :: "loaderLib \<Rightarrow> string \<Rightarrow> string option" where
  "validateSinkURL lib raw =
     (if raw = [] \<or> length raw > 2048 then Some ''sink url is required and may be at most 2048 bytes''
      else case parseURL lib raw of
             None \<Rightarrow> Some ''sink url must be an absolute URL''
           | Some parsed \<Rightarrow>
               (if url_Host parsed = [] then Some ''sink url must be an absolute URL''
                else if url_Scheme parsed \<noteq> ''http'' \<and> url_Scheme parsed \<noteq> ''https'' then Some ''sink url scheme must be http or https''
                else if url_User parsed then Some ''sink url must not embed credentials: use token, username, or password fields''
                else if url_Fragment parsed \<noteq> [] then Some ''sink url must not contain a fragment''
                else None))"

definition validSinkIndex :: "loaderLib \<Rightarrow> string \<Rightarrow> bool" where
  "validSinkIndex lib value \<longleftrightarrow>
     \<not> (length value = 0 \<or> length value > 255 \<or> toLower (unicodeLower lib) value \<noteq> value) \<and>
     \<not> list_ex (\<lambda>c. c \<in> set ('' *?<>|,#:/'' @ [CHR 0x5C, CHR 0x22])) value \<and>
     \<not> (value = ''.'' \<or> value = ''..'' \<or> hd value \<in> set ''-_+.'')"

definition sink_error :: "nat \<Rightarrow> string \<Rightarrow> string" where
  "sink_error i rest = ''invalid logging sinks entry '' @ show_nat (i + 1) @ '': '' @ rest"

definition sink_checks :: "loaderLib \<Rightarrow> nat \<times> LogSinkConfig \<Rightarrow> string option list" where
  "sink_checks lib it =
     (case it of (i, sink) \<Rightarrow>
        [check (length (sink_Token sink) > 2048 \<or> length (sink_Password sink) > 2048) (sink_error i ''credentials exceed the 2048-byte limit''),
         check (length (sink_Username sink) > 256 \<or> length (sink_Source sink) > 256 \<or> length (sink_Sourcetype sink) > 256)
           (sink_error i ''fields exceed the 256-byte limit''),
         map_option (sink_error i) (validateSinkHeaders (sink_Headers sink)),
         if sink_Type sink = ''file''
         then check (sink_Path sink = [] \<or> length (sink_Path sink) > 1024 \<or> CHR 0x00 \<in> set (sink_Path sink))
                (sink_error i ''file sinks require a path of at most 1024 bytes'')
         else if sink_Type sink \<in> set [''splunk'', ''elasticsearch'', ''elk'', ''http'']
         then map_option (sink_error i) (validateSinkURL lib (sink_URL sink))
         else Some (sink_error i (''unknown type '' @ CHR 0x22 # sink_Type sink @ CHR 0x22 # '': choose file, splunk, elasticsearch, or http'')),
         check ((sink_Type sink = ''elasticsearch'' \<or> sink_Type sink = ''elk'') \<and> \<not> validSinkIndex lib (sink_Index sink))
           (sink_error i ''elasticsearch sinks require a valid index name'')])"

definition validateSinks :: "loaderLib \<Rightarrow> LogSinkConfig list \<Rightarrow> string option" where
  "validateSinks lib sinks =
     first_failure (check (length sinks > 8) ''logging sinks may contain at most 8 entries'' # concat (map (sink_checks lib) (enumerate 0 sinks)))"

definition validateKubernetesProfile :: "K8SConfig \<Rightarrow> string option" where
  "validateKubernetesProfile k =
     (let version = trim_prefix (k8s_APIVersion k) ''v1.'';
          badVersion = (\<not> has_prefix (k8s_APIVersion k) ''v1.'' \<or>
            (case atoi version of None \<Rightarrow> True | Some minor \<Rightarrow> minor < 19 \<or> minor > 37 \<or> show_int minor \<noteq> version));
          badBase = (case ParseIP (k8s_IPBase k) of None \<Rightarrow> True | Some ip \<Rightarrow> (case To4 ip of None \<Rightarrow> True | Some v4 \<Rightarrow> \<not> private4 v4))
      in first_failure
           [check badVersion (''invalid Kubernetes profile '' @ CHR 0x22 # k8s_APIVersion k @ CHR 0x22 # '': supported simulated profiles are v1.19 through v1.37''),
            check badBase (''invalid Kubernetes pod network base '' @ CHR 0x22 # k8s_IPBase k @ CHR 0x22 # '': use an RFC 1918 IPv4 address'')])"

definition validateHost :: "string \<Rightarrow> string option" where
  "validateHost host = check (ParseIP host = None) ''must be an IPv4 or IPv6 literal (hostnames are not resolved)''"

definition validatePort :: "string \<Rightarrow> string option" where
  "validatePort port =
     check (case atoi port of None \<Rightarrow> True | Some n \<Rightarrow> n < 1 \<or> n > 65535 \<or> show_int n \<noteq> port) ''must be a decimal port from 1 through 65535''"

definition listener :: "Config \<Rightarrow> (string \<times> string) option" where
  "listener c =
     (if c_RunMode c = ''ai'' then Some (ai_Host (c_AI c), ai_Port (c_AI c))
      else if c_RunMode c = ''docker'' then Some (docker_Host (c_Docker c), docker_Port (c_Docker c))
      else if c_RunMode c = ''k8s'' then Some (k8s_Host (c_K8S c), k8s_Port (c_K8S c))
      else if c_RunMode c = ''http'' then Some (http_Host (c_HTTP c), http_Port (c_HTTP c))
      else if c_RunMode c = ''tcp'' then Some (tcp_Host (c_TCP c), tcp_Port (c_TCP c))
      else if c_RunMode c = ''udp'' then Some (udp_Host (c_UDP c), udp_Port (c_UDP c))
      else if c_RunMode c = ''kubelet'' then Some (kubelet_Host (c_Kubelet c), kubelet_Port (c_Kubelet c))
      else None)"

definition Validate :: "loaderLib \<Rightarrow> Config \<Rightarrow> string option" where
  "Validate lib c =
     (case listener c of
        None \<Rightarrow> Some (''unknown run mode '' @ CHR 0x22 # c_RunMode c @ CHR 0x22 # '': choose k8s, http, tcp, udp, kubelet, docker, or ai'')
      | Some (host, port) \<Rightarrow>
          first_failure
            ([check (c_RunMode c = ''ai'' \<and> length (ai_Token (c_AI c)) > 256) ''AI token exceeds the 256-byte limit'',
              check (c_RunMode c = ''kubelet'' \<and> \<not> validTokenName (kubelet_NodeName (c_Kubelet c)))
                ''invalid kubelet node_name: expected a lowercase DNS subdomain'']
             @ (if c_RunMode c = ''k8s''
                then [validateKubernetesProfile (c_K8S c), validateTokens (c_K8S c), validateNamespaces (k8s_Namespaces (c_K8S c)),
                      validateHoneytokens (c_K8S c)]
                else [])
             @ [validateLogging (c_Logging c), validateSinks lib (log_Sinks (c_Logging c)),
                map_option (\<lambda>e. ''invalid '' @ c_RunMode c @ '' bind host: '' @ e) (validateHost host),
                map_option (\<lambda>e. ''invalid '' @ c_RunMode c @ '' bind port: '' @ e) (validatePort port)]))"

text \<open>\<^verbatim>\<open>NewConfig\<close> on the outcome of reading the file: an error, a decoded configuration, or no file.\<close>

definition NewConfig :: "loaderLib \<Rightarrow> environment \<Rightarrow> Config result option \<Rightarrow> Config result" where
  "NewConfig lib env file =
     (case (case file of None \<Rightarrow> Inr Defaults | Some r \<Rightarrow> r) of
        Inl e \<Rightarrow> Inl e
      | Inr c0 \<Rightarrow>
          (case applyEnvironment env c0 of
             Inl e \<Rightarrow> Inl e
           | Inr c1 \<Rightarrow> (let c = normalize lib c1 in case Validate lib c of Some e \<Rightarrow> Inl e | None \<Rightarrow> Inr c)))"

end
