(* ===== verification/SeedSpec.thy ===== *)
theory SeedSpec
  imports Seed
begin

text \<open>
  What seeding promises: Secret data is encoded whole or refused whatever the order of its keys, the budget
  holds, seeding only adds, and every namespaced object it stores lives in a namespace that exists.
\<close>

section \<open>Secret data\<close>

lemma base64_len_ge: "n \<le> base64_len n"
  unfolding base64_len_def by presburger

definition secret_bytes :: "(string \<times> string) list \<Rightarrow> nat" where
  "secret_bytes data = (\<Sum>(key, v) \<leftarrow> data. length key + base64_len (length v))"

lemma secret_bytes_simps [simp]: "secret_bytes [] = 0" "secret_bytes ((k, v) # data) = length k + base64_len (length v) + secret_bytes data"
  by (simp_all add: secret_bytes_def)

lemma encode_entries_spec:
  "n \<le> maxStoredObjectBytes \<Longrightarrow>
   encode_entries n data =
     (if list_all (validSecretDataKey \<circ> fst) data \<and> n + secret_bytes data \<le> maxStoredObjectBytes
      then Some (map (\<lambda>(key, v). (key, base64_encode v)) data) else None)"
proof (induction data arbitrary: n)
  case (Cons kv data)
  obtain key v where kv: "kv = (key, v)" by fastforce
  show ?case
  proof (cases "n + length key + base64_len (length v) \<le> maxStoredObjectBytes")
    case True
    with base64_len_ge [of "length v"] have "length v \<le> maxStoredObjectBytes" by linarith
    with True show ?thesis using Cons.IH [OF True] by (simp add: kv Let_def add.assoc)
  next
    case False
    then show ?thesis using Cons.prems by (simp add: kv Let_def)
  qed
qed simp

text \<open>
  Secret data is encoded whole or refused: it is accepted exactly when it has at most 512 keys, every key is
  valid, and the keys and the encoded values take at most 256 KiB together; then every value is encoded under its
  key. The answer does not depend on the order in which the map is iterated.
\<close>

lemma encodeSecretData_spec:
  "encodeSecretData data =
     (if length data \<le> 512 \<and> list_all (validSecretDataKey \<circ> fst) data \<and>
         (\<Sum>(key, v) \<leftarrow> data. length key + length (base64_encode v)) \<le> 256 * 1024
      then Some (map (\<lambda>(key, v). (key, base64_encode v)) data) else None)"
  using encode_entries_spec [of 0 data]
  by (simp add: encodeSecretData_def secret_bytes_def length_base64_encode)

section \<open>Seeding only writes\<close>

abbreviation stamped_item :: "seedItem \<Rightarrow> objectStore \<Rightarrow> gobj" where
  "stamped_item i s \<equiv> seed_object (rfc3339 (startedAt s)) i"

lemma seed_one_cases:
  obtains (skip) "seed_one i (n, s) = (n, s)"
  | (store) "n < maxSeedObjects" "put_accepts (item_key i) (stamped_item i s) ''ADDED'' s"
      "seed_one i (n, s) = (Suc n, put_state (item_key i) (stamped_item i s) ''ADDED'' s)"
proof (cases "n < maxSeedObjects")
  case True
  show ?thesis
  proof (cases rule: put_cases [of "item_key i" "stamped_item i s" "''ADDED''" s])
    case stored
    then show ?thesis using True by (intro that(2)) (simp_all add: seed_one_def store_seed_def)
  next
    case (refused e)
    then show ?thesis using True by (intro that(1)) (simp add: seed_one_def store_seed_def)
  qed
next
  case False
  then show ?thesis by (intro that(1)) (simp add: seed_one_def)
qed

lemma writes_seed_one: "writes s (snd x) \<Longrightarrow> writes s (snd (seed_one i x))"
proof -
  assume s: "writes s (snd x)"
  show ?thesis
  proof (cases rule: seed_one_cases [of i "fst x" "snd x"])
    case store
    have "writes s (snd (snd (put (item_key i) (stamped_item i (snd x)) ''ADDED'' (snd x))))"
      using writes_put_store [OF s] by (simp add: put_store_def)
    then show ?thesis using store put_success [OF store(2)] by simp
  qed (use s in simp)
qed

lemma writes_seed: "writes s (seed version now gvs k s)"
proof -
  have "writes s (snd (fold seed_one items x))" if "writes s (snd x)" for items x
    using that
  proof (induction items arbitrary: x)
    case (Cons i items)
    then show ?case using Cons.IH [OF writes_seed_one [OF Cons.prems, of i]] by simp
  qed simp
  then show ?thesis by (simp add: seed_def writes_refl)
qed

text \<open>A run of seeding from \<open>(n, s)\<close> adds keys of the items it was given, keeps the others, and counts what it adds.\<close>

definition grown :: "seedItem list \<Rightarrow> nat \<times> objectStore \<Rightarrow> nat \<times> objectStore \<Rightarrow> bool" where
  "grown items x y \<longleftrightarrow>
     (\<forall>key. get (snd x) key \<noteq> None \<longrightarrow> get (snd y) key = get (snd x) key) \<and>
     (\<forall>key. get (snd y) key \<noteq> None \<longrightarrow> get (snd x) key \<noteq> None \<or> key \<in> item_key ` set items) \<and>
     length (objects (snd y)) + fst x = length (objects (snd x)) + fst y \<and>
     (fst x \<le> maxSeedObjects \<longrightarrow> fst y \<le> maxSeedObjects) \<and> startedAt (snd y) = startedAt (snd x)"

lemma grown_refl: "grown items x x"
  by (simp add: grown_def)

lemma grown_trans: "grown xs x y \<Longrightarrow> grown ys y z \<Longrightarrow> grown (xs @ ys) x z"
proof -
  assume xy: "grown xs x y" and yz: "grown ys y z"
  have "get (snd z) key = get (snd x) key" if "get (snd x) key \<noteq> None" for key
    using that xy yz by (metis grown_def)
  moreover have "get (snd x) key \<noteq> None \<or> key \<in> item_key ` set (xs @ ys)" if "get (snd z) key \<noteq> None" for key
    using that xy yz unfolding grown_def by (metis (no_types, lifting) UnCI image_Un set_append)
  ultimately show "grown (xs @ ys) x z"
    using xy yz by (simp add: grown_def)
qed

lemma grown_one: "grown [i] x (seed_one i x)"
proof (cases rule: seed_one_cases [of i "fst x" "snd x"])
  case store
  have "map_of (objects (snd x)) (item_key i) = None"
    using store(2) by (auto simp: put_accepts_def)
  then have "get (snd x) (item_key i) = None" "length (objects (put_state (item_key i) (stamped_item i (snd x)) ''ADDED'' (snd x))) = Suc (length (objects (snd x)))"
    by (simp_all add: get_def store_simps length_update map_of_eq_None_iff)
  then show ?thesis
    using store(1,3) by (auto simp: grown_def get_put_state store_simps)
qed (simp add: grown_refl)

lemma grown_fold: "grown items x (fold seed_one items x)"
proof (induction items arbitrary: x)
  case (Cons i items)
  show ?case using grown_trans [OF grown_one [of i x] Cons.IH [of "seed_one i x"]] by simp
qed (simp add: grown_refl)

section \<open>Every namespace is stored\<close>

lemma length_pad_le: "n < 10 ^ k \<Longrightarrow> 0 < k \<Longrightarrow> w \<le> k \<Longrightarrow> length (pad_nat w n) \<le> k"
  using show_nat_length_le [of n k] by (simp add: pad_nat_def)

lemma civil_bounds:
  assumes "days < 200000" "civil_from_days days = (y, m, d)"
  shows "y < 10 ^ 8 \<and> m < 10 ^ 8 \<and> d < 10 ^ 8"
proof -
  define doe where "doe = (days + 719468) mod 146097"
  define yoe where "yoe = (doe - doe div 1460 + doe div 36524 - doe div 146096) div 365"
  define doy where "doy = doe - (365 * yoe + yoe div 4 - yoe div 100)"
  define mp where "mp = (5 * doy + 2) div 153"
  define era where "era = (days + 719468) div 146097"
  have "era \<le> 6" using assms(1) by (simp add: era_def)
  have doe: "doe < 146097" by (simp add: doe_def)
  have yoe: "yoe \<le> doe" unfolding yoe_def by linarith
  have doy: "doy \<le> doe" by (simp add: doy_def)
  have mp: "mp \<le> 5 * doy + 2" by (simp add: mp_def)
  have "civil_from_days days =
      ((if (if mp < 10 then mp + 3 else mp - 9) \<le> 2 then yoe + era * 400 + 1 else yoe + era * 400),
       (if mp < 10 then mp + 3 else mp - 9), doy - (153 * mp + 2) div 5 + 1)"
    by (simp only: civil_from_days_def Let_def doe_def yoe_def doy_def mp_def era_def)
  with assms(2) have "y \<le> yoe + era * 400 + 1" "m \<le> mp + 3" "d \<le> doy + 1" by (auto split: if_splits)
  with \<open>era \<le> 6\<close> doe yoe doy mp show ?thesis by simp
qed

lemma length_rfc3339:
  assumes "t < 2 ^ 34"
  shows "length (rfc3339 t) \<le> 64"
proof -
  obtain y m d where ymd: "civil_from_days (t div 86400) = (y, m, d)" by (cases "civil_from_days (t div 86400)") auto
  have "t div 86400 < 200000" using assms by (simp add: div_less_iff_less_mult)
  note ymd_small = civil_bounds [OF this ymd]
  have "length (pad_nat 4 y) \<le> 8" "length (pad_nat 2 m) \<le> 8" "length (pad_nat 2 d) \<le> 8"
    using ymd_small by (simp_all add: length_pad_le)
  moreover have "t mod 86400 div 3600 < 10 ^ 5" "t mod 86400 div 60 mod 60 < 10 ^ 5" "t mod 86400 mod 60 < 10 ^ 5"
  proof -
    have "t mod 86400 < 86400" by simp
    then show "t mod 86400 div 3600 < 10 ^ 5" by (simp add: div_less_iff_less_mult)
    show "t mod 86400 div 60 mod 60 < 10 ^ 5" by (rule less_trans [OF mod_less_divisor]) simp_all
    show "t mod 86400 mod 60 < 10 ^ 5" by (rule less_trans [OF mod_less_divisor]) simp_all
  qed
  then have "length (pad_nat 2 (t mod 86400 div 3600)) \<le> 5" "length (pad_nat 2 (t mod 86400 div 60 mod 60)) \<le> 5"
    "length (pad_nat 2 (t mod 86400 mod 60)) \<le> 5"
    by (simp_all only: length_pad_le)
  ultimately show ?thesis by (simp add: rfc3339_def date_time_def ymd Let_def)
qed

definition namespace_key :: "string \<Rightarrow> objectKey" where
  "namespace_key ns = mk_key [] ''v1'' ''namespaces'' [] ns"

lemma namespace_item_key: "item_key (namespace_item ns) = namespace_key ns"
  by (simp add: item_key_def namespace_item_def item_def gv'_def namespace_key_def)

lemma sKind_namespaces: "sKind (gv' [] ''v1'') ''namespaces'' = Some ''Namespace''"
  by (simp add: sKind_def apiCatalog_def gv'_def resource_def readOnlyResource_def createOnlyResource_def)

lemma namespace_object:
  "\<exists>uid. length uid = 36 \<and> seed_object stamp (namespace_item ns) =
     [(''metadata'', GMap [(''labels'', GStrMap [(''kubernetes.io/metadata.name'', ns)]), (''name'', GStr ns), (''uid'', GStr uid), (''creationTimestamp'', GStr stamp)]),
      (''status'', GMap [(''phase'', GStr ''Active'')]), (''apiVersion'', GStr ''v1''), (''kind'', GStr ''Namespace'')]"
  unfolding seed_object_def namespace_item_def item_def Let_def seedItem.simps sKind_namespaces
  by (rule exI, rule conjI, rule length_stableUID) (simp add: apiVersionFor_def gv'_def gget_def has_key_def)

lemma length_rev: "length (show_nat (unat (r :: 64 word))) \<le> 20"
proof (rule show_nat_length_le)
  have "unat r < 2 ^ 64" using unsigned_less [of r, where ?'a = nat] by simp
  then show "unat r < 10 ^ 20" by simp
qed simp

lemma namespace_item_small:
  assumes "length ns \<le> 63" "length stamp \<le> 64"
  shows "encodedLen (stamped (seed_object stamp (namespace_item ns)) s) \<le> 4096"
proof -
  obtain uid where uid: "length uid = 36" "seed_object stamp (namespace_item ns) =
     [(''metadata'', GMap [(''labels'', GStrMap [(''kubernetes.io/metadata.name'', ns)]), (''name'', GStr ns), (''uid'', GStr uid), (''creationTimestamp'', GStr stamp)]),
      (''status'', GMap [(''phase'', GStr ''Active'')]), (''apiVersion'', GStr ''v1''), (''kind'', GStr ''Namespace'')]"
    using namespace_object by blast
  show ?thesis
    using assms uid(1) escape_string_len [of uid] escape_string_len [of ns] escape_string_len [of stamp]
      escape_string_len [of "show_nat (unat (resourceRev s + 1))"] length_rev [of "resourceRev s + 1"]
    by (simp add: uid(2) stamped_def gget_def objectMap_def marshal_eval)
qed

text \<open>Storing namespaces in an almost empty store always succeeds.\<close>

definition roomy :: "nat \<Rightarrow> nat \<times> objectStore \<Rightarrow> bool" where
  "roomy m x \<longleftrightarrow> fst x = m \<and> length (objects (snd x)) = m \<and> storedBytes (snd x) \<le> 4096 * int m"

lemma seed_namespace:
  assumes "roomy m x" "m < 128" "length ns \<le> 63" "length (rfc3339 (startedAt (snd x))) \<le> 64" "get (snd x) (namespace_key ns) = None"
  shows "roomy (Suc m) (seed_one (namespace_item ns) x) \<and> get (snd (seed_one (namespace_item ns) x)) (namespace_key ns) \<noteq> None"
proof -
  let ?o = "stamped_item (namespace_item ns) (snd x)"
  have small: "encodedLen (stamped ?o (snd x)) \<le> 4096" by (rule namespace_item_small [OF assms(3,4)])
  have free: "map_of (objects (snd x)) (namespace_key ns) = None" using assms(5) by (simp add: get_def)
  have "put_accepts (item_key (namespace_item ns)) ?o ''ADDED'' (snd x)"
    using small free assms(1,2) by (simp add: namespace_item_key put_accepts_def roomy_def old_bytes_def)
  then have "seed_one (namespace_item ns) x = (Suc (fst x), put_state (namespace_key ns) ?o ''ADDED'' (snd x))"
    using assms(1,2) put_success by (cases x) (simp add: seed_one_def store_seed_def roomy_def namespace_item_key)
  moreover have "old_bytes (namespace_key ns) (snd x) = 0" using free by (simp add: old_bytes_def)
  ultimately show ?thesis
    using assms(1) small free
    by (simp add: roomy_def store_simps get_put_state length_update map_of_eq_None_iff)
qed

lemma seed_namespaces:
  assumes "roomy m x" "m + length order \<le> 128" "distinct order" "list_all (\<lambda>ns. length ns \<le> 63) order"
    "length (rfc3339 (startedAt (snd x))) \<le> 64" "\<And>ns. ns \<in> set order \<Longrightarrow> get (snd x) (namespace_key ns) = None"
  shows "(\<forall>ns \<in> set order. get (snd (fold seed_one (map namespace_item order) x)) (namespace_key ns) \<noteq> None) \<and>
         roomy (m + length order) (fold seed_one (map namespace_item order) x)"
  using assms
proof (induction order arbitrary: m x)
  case (Cons ns order)
  let ?y = "seed_one (namespace_item ns) x"
  have y: "roomy (Suc m) ?y" "get (snd ?y) (namespace_key ns) \<noteq> None"
    using seed_namespace [OF Cons.prems(1), of ns] Cons.prems by simp_all
  have g: "grown [namespace_item ns] x ?y" by (rule grown_one)
  have "namespace_key ns' \<noteq> namespace_key ns" if "ns' \<in> set order" for ns'
    using that Cons.prems(3) by (auto simp: namespace_key_def mk_key_def)
  then have fresh: "get (snd ?y) (namespace_key ns') = None" if "ns' \<in> set order" for ns'
    using that g Cons.prems(6) [of ns'] by (auto simp: grown_def namespace_item_key)
  have "(\<forall>ns' \<in> set order. get (snd (fold seed_one (map namespace_item order) ?y)) (namespace_key ns') \<noteq> None) \<and>
      roomy (Suc m + length order) (fold seed_one (map namespace_item order) ?y)"
    by (rule Cons.IH [OF y(1)]) (use Cons.prems g fresh in \<open>simp_all add: grown_def\<close>)
  moreover have "get (snd (fold seed_one (map namespace_item order) ?y)) (namespace_key ns) \<noteq> None"
    using grown_fold [of "map namespace_item order" ?y] y(2) by (simp add: grown_def)
  ultimately show ?case by simp
qed simp

section \<open>The order of the namespaces\<close>

definition order_ok :: "string list \<Rightarrow> bool" where
  "order_ok order \<longleftrightarrow> distinct order \<and> length order \<le> 128 \<and> list_all validNamespaceName order"

lemma order_ok_add: "order_ok order \<Longrightarrow> order_ok (addNamespace ns order)"
  by (simp add: order_ok_def addNamespace_def)

lemma order_ok_fold: "order_ok order \<Longrightarrow> order_ok (fold addNamespace nss order)"
  by (induction nss arbitrary: order) (simp_all add: order_ok_add)

lemma namespaceOrder_ok: "order_ok (namespaceOrder k)"
  unfolding namespaceOrder_def by (rule order_ok_fold) (simp add: order_ok_def)

lemma order_mono: "set order \<subseteq> set (fold addNamespace nss order)"
proof (induction nss arbitrary: order)
  case (Cons ns nss)
  have "set order \<subseteq> set (addNamespace ns order)" by (auto simp: addNamespace_def)
  with Cons.IH [of "addNamespace ns order"] show ?case by simp
qed simp

lemma base_namespaces: "{''default'', ''kube-system'', ''kube-public'', ''kube-node-lease''} \<subseteq> set (namespaceOrder k)"
proof -
  let ?base = "[''default'', ''kube-system'', ''kube-public'', ''kube-node-lease'']"
  have "fold addNamespace ?base [] = ?base"
    by (simp add: addNamespace_def validNamespaceName_def validObjectName_def contains_str_def has_prefix_def)
  then have "fold addNamespace (?base @ nss) [] = fold addNamespace nss ?base" for nss by (simp only: fold_append comp_def)
  moreover have "set ?base \<subseteq> set (fold addNamespace nss ?base)" for nss by (rule order_mono)
  ultimately show ?thesis unfolding namespaceOrder_def by (simp only: list.set)
qed

section \<open>Seeded objects live in seeded namespaces\<close>

definition housed :: "string list \<Rightarrow> seedItem \<Rightarrow> bool" where
  "housed order i \<longleftrightarrow> si_namespace i = [] \<or> si_namespace i \<in> set order"

lemma housed_item: "housed order (item g v res ns n object) \<longleftrightarrow> ns = [] \<or> ns \<in> set order"
  by (simp add: housed_def item_def)

lemma housed_parts:
  assumes "''default'' \<in> set order" "''kube-system'' \<in> set order" "''kube-node-lease'' \<in> set order"
  shows "i \<in> set (node_items version ipBase started name j role) \<Longrightarrow> housed order i"
    "i \<in> set (apiserver_items ipBase) \<Longrightarrow> housed order i"
    "i \<in> set (system_items now ipBase) \<Longrightarrow> housed order i"
    "i \<in> set (sample_items now ipBase) \<Longrightarrow> housed order i"
    "i \<in> set (honeytoken_items order h) \<Longrightarrow> housed order i"
    "i \<in> set (legacy_item names it) \<Longrightarrow> housed order i"
  using assms
  by (auto simp: node_items_def apiserver_items_def system_items_def sample_items_def honeytoken_items_def legacy_item_def housed_item
      Let_def split: if_splits option.splits prod.splits)

lemma housed_furniture:
  "ns \<in> set order \<Longrightarrow> i \<in> set (namespace_furniture ns) \<Longrightarrow> housed order i"
  "housed order (namespace_item ns)"
  "i \<in> set (furniture_items stamp gvs) \<Longrightarrow> housed order i"
  by (auto simp: namespace_furniture_def namespace_item_def furniture_items_def apiservice_item_def webhook_item_def crd_item_def role_item_def
      binding_item_def housed_item)

lemma housed_seed_items: "i \<in> set (seed_items version now started gvs k) \<Longrightarrow> housed (namespaceOrder k) i"
proof -
  assume i: "i \<in> set (seed_items version now started gvs k)"
  have base: "''default'' \<in> set (namespaceOrder k)" "''kube-system'' \<in> set (namespaceOrder k)" "''kube-node-lease'' \<in> set (namespaceOrder k)"
    using base_namespaces [of k] by simp_all
  from i show ?thesis
    unfolding seed_items_def Let_def set_append set_concat set_map
    by (auto simp del: enumerate_simps split: if_splits dest: housed_parts [OF base] intro: housed_furniture)
qed

lemma seed_split:
  "\<exists>rest. seed_items version now started gvs k = map namespace_item (namespaceOrder k) @ rest"
  unfolding seed_items_def Let_def by blast

lemma namespaces_seeded:
  assumes "t0 < 2 ^ 34" "ns \<in> set (namespaceOrder k)"
  shows "namespaceExists ns (seed version now gvs k (newObjectStore t0))"
proof -
  let ?s = "newObjectStore t0" and ?order = "namespaceOrder k"
  let ?x = "fold seed_one (map namespace_item ?order) (0, ?s)"
  obtain rest where items: "seed_items version now t0 gvs k = map namespace_item ?order @ rest"
    using seed_split by blast
  have "list_all (\<lambda>ns. length ns \<le> 63) ?order" "distinct ?order" "length ?order \<le> 128"
    using namespaceOrder_ok [of k] by (auto simp: order_ok_def list_all_iff validNamespaceName_def)
  then have "get (snd ?x) (namespace_key ns) \<noteq> None"
    using seed_namespaces [of 0 "(0, ?s)" ?order] assms length_rfc3339 [OF assms(1)]
    by (simp add: roomy_def newObjectStore_def get_def)
  then have "get (snd (fold seed_one rest ?x)) (namespace_key ns) \<noteq> None"
    using grown_fold [of rest ?x] by (simp add: grown_def)
  moreover have "startedAt ?s = t0" by (simp add: newObjectStore_def)
  ultimately show ?thesis
    by (simp add: seed_def items namespaceExists_def namespace_key_def mk_key_def)
qed

lemma seeded_namespaces_roomy:
  assumes "t0 < 2 ^ 34"
  shows "roomy (length (namespaceOrder k)) (fold seed_one (map namespace_item (namespaceOrder k)) (0, newObjectStore t0))"
proof -
  have "list_all (\<lambda>ns. length ns \<le> 63) (namespaceOrder k)" "distinct (namespaceOrder k)" "length (namespaceOrder k) \<le> 128"
    using namespaceOrder_ok [of k] by (auto simp: order_ok_def list_all_iff validNamespaceName_def)
  then show ?thesis
    using seed_namespaces [of 0 "(0, newObjectStore t0)" "namespaceOrder k"] length_rfc3339 [OF assms]
    by (simp add: roomy_def newObjectStore_def get_def)
qed

section \<open>A batch that fits is stored\<close>

text \<open>While the budgets last, items under fresh keys that are not too large are all stored.\<close>

lemma stored_item:
  assumes "fst x < maxSeedObjects" "length (objects (snd x)) = fst x" "storedBytes (snd x) + 262144 \<le> maxStoredBytes"
    "get (snd x) (item_key i) = None" "encodedLen (stamped (stamped_item i (snd x)) (snd x)) \<le> maxStoredObjectBytes"
  shows "seed_one i x = (Suc (fst x), put_state (item_key i) (stamped_item i (snd x)) ''ADDED'' (snd x)) \<and>
         length (objects (snd (seed_one i x))) = Suc (fst x) \<and> storedBytes (snd (seed_one i x)) \<le> storedBytes (snd x) + 262144"
proof -
  have free: "map_of (objects (snd x)) (item_key i) = None" "old_bytes (item_key i) (snd x) = 0"
    using assms(4) by (simp_all add: get_def old_bytes_def)
  then have "put_accepts (item_key i) (stamped_item i (snd x)) ''ADDED'' (snd x)" using assms by (simp add: put_accepts_def)
  from put_success [OF this] assms(1)
  have eq: "seed_one i x = (Suc (fst x), put_state (item_key i) (stamped_item i (snd x)) ''ADDED'' (snd x))"
    by (cases x) (simp add: seed_one_def store_seed_def)
  then show ?thesis using assms(2,5) free by (simp add: store_simps length_update map_of_eq_None_iff)
qed

lemma seed_all:
  assumes "fst x + length items \<le> maxSeedObjects" "length (objects (snd x)) = fst x"
    "storedBytes (snd x) + 262144 * int (length items) \<le> maxStoredBytes" "distinct (map item_key items)"
    "\<And>i. i \<in> set items \<Longrightarrow> get (snd x) (item_key i) = None"
    "\<And>i s. i \<in> set items \<Longrightarrow> startedAt s = startedAt (snd x) \<Longrightarrow> encodedLen (stamped (stamped_item i s) s) \<le> maxStoredObjectBytes"
  shows "\<forall>i \<in> set items. \<exists>s. get (snd (fold seed_one items x)) (item_key i) = Some (cloneObject (stamped (stamped_item i s) s))"
  using assms
proof (induction items arbitrary: x)
  case (Cons i items)
  let ?y = "seed_one i x"
  have y: "?y = (Suc (fst x), put_state (item_key i) (stamped_item i (snd x)) ''ADDED'' (snd x)) \<and>
      length (objects (snd ?y)) = Suc (fst x) \<and> storedBytes (snd ?y) \<le> storedBytes (snd x) + 262144"
    by (rule stored_item) (use Cons.prems in auto)
  have g: "grown [i] x ?y" by (rule grown_one)
  have "\<forall>j \<in> set items. \<exists>s. get (snd (fold seed_one items ?y)) (item_key j) = Some (cloneObject (stamped (stamped_item j s) s))"
  proof (rule Cons.IH)
    show "get (snd ?y) (item_key j) = None" if "j \<in> set items" for j
    proof -
      have "item_key i \<notin> item_key ` set items" using Cons.prems(4) by simp
      then have "item_key j \<noteq> item_key i" using that by (metis image_eqI)
      moreover have "get (snd x) (item_key j) = None" using that Cons.prems(5) [of j] by simp
      ultimately show ?thesis using g unfolding grown_def by fastforce
    qed
    show "encodedLen (stamped (stamped_item j s) s) \<le> maxStoredObjectBytes" if "j \<in> set items" "startedAt s = startedAt (snd ?y)" for j s
      using that Cons.prems(6) [of j s] g by (simp add: grown_def)
  qed (use Cons.prems y in auto)
  moreover have "get (snd ?y) (item_key i) = Some (cloneObject (stamped (stamped_item i (snd x)) (snd x)))"
    using y by (simp add: get_put_state)
  then have "get (snd (fold seed_one items ?y)) (item_key i) = Some (cloneObject (stamped (stamped_item i (snd x)) (snd x)))"
    using grown_fold [of items ?y] by (simp add: grown_def)
  ultimately show ?case by auto
qed simp

text \<open>Whatever is seeded, it takes at most 256 KiB an item.\<close>

lemma seed_bytes: "storedBytes (snd (fold seed_one items x)) \<le> storedBytes (snd x) + 262144 * int (length items)"
proof (induction items arbitrary: x)
  case (Cons i items)
  have "storedBytes (snd (seed_one i x)) \<le> storedBytes (snd x) + 262144"
  proof (cases rule: seed_one_cases [of i "fst x" "snd x"])
    case store
    then have "old_bytes (item_key i) (snd x) = 0" by (auto simp: put_accepts_def old_bytes_def)
    with store show ?thesis by (simp add: store_simps put_accepts_def)
  qed simp
  with Cons.IH [of "seed_one i x"] show ?case by simp
qed simp

text \<open>
  C17. The seeded cluster is consistent whatever the configuration: at most 512 objects are seeded, the four system namespaces
  exist, and every namespaced object, each honeytoken Secret included, lives in a namespace that exists. (The start
  time is assumed to be before the year 2500.)
\<close>

theorem seeded_cluster_consistent:
  assumes "t0 < 2 ^ 34"
  shows "let t = seed version now gvs k (newObjectStore t0)
         in length (objects t) \<le> 512 \<and>
            list_all (\<lambda>ns. namespaceExists ns t) [''default'', ''kube-system'', ''kube-public'', ''kube-node-lease''] \<and>
            (\<forall>key. get t key \<noteq> None \<longrightarrow> k_namespace key = [] \<or> namespaceExists (k_namespace key) t)"
proof -
  let ?items = "seed_items version now t0 gvs k" and ?s = "newObjectStore t0"
  let ?t = "seed version now gvs k ?s"
  have "grown ?items (0, ?s) (fold seed_one ?items (0, ?s))" by (rule grown_fold)
  then have t: "length (objects ?t) \<le> 512" "\<And>key. get ?t key \<noteq> None \<Longrightarrow> key \<in> item_key ` set ?items"
    by (auto simp: grown_def seed_def newObjectStore_def get_def)
  have "k_namespace key = [] \<or> namespaceExists (k_namespace key) ?t" if "get ?t key \<noteq> None" for key
    using t(2) [OF that] housed_seed_items namespaces_seeded [OF assms]
    by (fastforce simp: housed_def item_key_def mk_key_def)
  moreover have "list_all (\<lambda>ns. namespaceExists ns ?t) [''default'', ''kube-system'', ''kube-public'', ''kube-node-lease'']"
    using base_namespaces [of k] namespaces_seeded [OF assms] by simp
  ultimately show ?thesis using t(1) by (simp only: Let_def) blast
qed

theorem seeded_cluster_consistent_witness:
  "namespaceExists ''kube-system'' (seed ''v1.37'' [] [] demo_k8s (newObjectStore 1753000000))"
  using seeded_cluster_consistent [of 1753000000 "''v1.37''" "[]" "[]" demo_k8s] by (simp add: Let_def)

end
