(* ===== verification/ConfigSpec.thy ===== *)
theory ConfigSpec
  imports ConfigLoader SeedSpec Sinks
begin

text \<open>
  What a loaded configuration guarantees the rest of the program: its bounds, that the secrets it carries are
  redacted from the log, that every honeytoken it names is served, and that its errors do not reveal secrets.
\<close>

section \<open>What validation establishes\<close>

lemma first_failure_None [simp]: "first_failure es = None \<longleftrightarrow> list_all (\<lambda>e. e = None) es"
  by (induction es) (auto split: option.splits)

declare first_failure.simps [simp del]

lemma check_None [simp]: "check bad m = None \<longleftrightarrow> \<not> bad"
  by (simp add: check_def)

lemma list_all_concat [simp]: "list_all P (concat xss) \<longleftrightarrow> list_all (list_all P) xss"
  by (induction xss) auto

lemma list_all_enumerate_iff: "list_all P (enumerate 0 xs) \<longleftrightarrow> (\<forall>i < length xs. P (i, xs ! i))"
  by (auto simp: list_all_iff in_set_enumerate_eq)

text \<open>A check of every entry against those before it leaves no duplicates.\<close>

lemma distinct_seen: "(\<forall>i < length xs. f (xs ! i) \<notin> f ` set (take i xs)) \<longleftrightarrow> distinct (map f xs)"
proof (induction xs rule: rev_induct)
  case (snoc x xs)
  have "(\<forall>i < length (xs @ [x]). f ((xs @ [x]) ! i) \<notin> f ` set (take i (xs @ [x]))) \<longleftrightarrow>
      (\<forall>i < length xs. f (xs ! i) \<notin> f ` set (take i xs)) \<and> f x \<notin> f ` set xs"
    by (auto simp: less_Suc_eq nth_append)
  with snoc show ?case by auto
qed simp

lemma Validate_k8s:
  assumes "Validate lib c = None" "c_RunMode c = ''k8s''"
  shows "validateKubernetesProfile (c_K8S c) = None" "validateTokens (c_K8S c) = None" "validateNamespaces (k8s_Namespaces (c_K8S c)) = None"
    "validateHoneytokens (c_K8S c) = None"
  using assms by (auto simp: Validate_def listener_def)

lemma validateTokens_facts:
  "validateTokens k = None \<Longrightarrow> length (k8s_TokenValues k) \<le> 64"
  by (simp add: validateTokens_def)

lemma validateNamespaces_facts:
  assumes "validateNamespaces nss = None"
  shows "length nss \<le> 64" "list_all validDNSLabel nss"
proof -
  from assms have "length nss \<le> 64 \<and> (\<forall>i < length nss. validDNSLabel (nss ! i))"
    by (auto simp: validateNamespaces_def list_all_enumerate_iff list.pred_map comp_def)
  then show "length nss \<le> 64" "list_all validDNSLabel nss" by (auto simp: list_all_length)
qed

definition honeytoken_ok :: "K8SConfig \<Rightarrow> K8SHoneytoken \<Rightarrow> bool" where
  "honeytoken_ok k h \<longleftrightarrow>
     validTokenName (ht_Name h) \<and> validDNSLabel (honeytoken_ns h) \<and> honeytoken_ns h \<in> set (allowedNamespaces k) \<and> validHoneytokenType (ht_Type h) \<and>
     length (ht_Data h) \<le> 16 \<and> list_all (\<lambda>(key, v). config_validSecretDataKey key \<and> length v \<le> 4096) (ht_Data h)"

lemma validateHoneytokens_facts:
  assumes "validateHoneytokens k = None"
  shows "length (k8s_Honeytokens k) \<le> 64" "list_all (honeytoken_ok k) (k8s_Honeytokens k)"
    "distinct (map secretID (k8s_Honeytokens k))"
    "sum_list (map (length \<circ> ht_Data) (k8s_Honeytokens k)) \<le> 256" "sum_list (map length (configured_tokens k)) \<le> 16384"
proof -
  from assms have checks: "list_all (\<lambda>ih. list_all (\<lambda>e. e = None) (honeytoken_checks k ih)) (enumerate 0 (k8s_Honeytokens k))"
    and bounds: "length (k8s_Honeytokens k) \<le> 64" "sum_list (map (length \<circ> ht_Data) (k8s_Honeytokens k)) \<le> 256"
      "sum_list (map length (configured_tokens k)) \<le> 16384"
    by (simp_all add: validateHoneytokens_def list.pred_map comp_def not_less)
  have each: "honeytoken_ok k h \<and> secretID h \<notin> secretID ` set (take i (k8s_Honeytokens k))"
    if "list_all (\<lambda>e. e = None) (honeytoken_checks k (i, h))" for i h
    using that by (simp add: honeytoken_checks_def honeytoken_ok_def Let_def list.pred_map comp_def case_prod_beta' not_less)
  show "length (k8s_Honeytokens k) \<le> 64" "sum_list (map (length \<circ> ht_Data) (k8s_Honeytokens k)) \<le> 256"
    "sum_list (map length (configured_tokens k)) \<le> 16384" by (rule bounds)+
  have entries: "honeytoken_ok k (k8s_Honeytokens k ! i) \<and> secretID (k8s_Honeytokens k ! i) \<notin> secretID ` set (take i (k8s_Honeytokens k))"
    if "i < length (k8s_Honeytokens k)" for i
    using checks [unfolded list_all_enumerate_iff] each that by blast
  then show "list_all (honeytoken_ok k) (k8s_Honeytokens k)" by (simp add: list_all_length)
  show "distinct (map secretID (k8s_Honeytokens k))" unfolding distinct_seen [symmetric] using entries by blast
qed

section \<open>Errors reveal nothing\<close>

definition honeytoken_messages :: "string set" where
  "honeytoken_messages =
     {''HELIX_K8S_HONEYTOKENS exceeds the 65536-byte limit'', ''HELIX_K8S_HONEYTOKENS may contain at most 64 entries'',
      ''HELIX_K8S_HONEYTOKENS contains no entries''} \<union>
     (\<Union>i \<in> {1..64}. entry_error i ` {''lacks a 'name:key=value' separator'', ''contains a malformed key=value pair'', ''repeats a data key''})"

lemma parse_pairs_error:
  "parse_pairs index pairs entries = Inl e \<Longrightarrow> e \<in> entry_error index ` {''contains a malformed key=value pair'', ''repeats a data key''}"
  by (induction index pairs entries rule: parse_pairs.induct) (auto simp: Let_def split: prod.splits if_splits)

lemma parse_entries_error:
  "parse_entries raws tokens = Inl e \<Longrightarrow> length tokens \<le> 64 \<Longrightarrow> e \<in> honeytoken_messages"
proof (induction raws tokens rule: parse_entries.induct)
  case (2 raw raws tokens)
  let ?entry = "trim_space raw"
  show ?case
  proof (cases "?entry = [] \<or> length tokens \<ge> 64")
    case True
    then show ?thesis using 2 by (auto simp: honeytoken_messages_def Let_def split: if_splits)
  next
    case False
    then have index: "length tokens + 1 \<in> {1..64}" by simp
    obtain head data found where cut1: "cut (CHR '':'') ?entry = (head, data, found)" by (cases "cut (CHR '':'') ?entry")
    obtain name ns ok where cut2: "cut (CHR ''@'') (trim_space head) = (name, ns, ok)" by (cases "cut (CHR ''@'') (trim_space head)")
    have eq: "parse_entries (raw # raws) tokens =
        (if \<not> found then Inl (entry_error (length tokens + 1) ''lacks a 'name:key=value' separator'')
         else case parse_pairs (length tokens + 1) (go_split (CHR '','') data) [] of
                Inl e \<Rightarrow> Inl e
              | Inr entries \<Rightarrow> parse_entries raws (tokens @ [\<lparr>ht_Name = name, ht_Namespace = ns, ht_Type = [], ht_Data = entries\<rparr>]))"
      using False cut1 cut2 by (simp add: Let_def)
    show ?thesis
    proof (cases "parse_pairs (length tokens + 1) (go_split (CHR '','') data) []")
      case (Inl e1)
      have "e \<in> entry_error (length tokens + 1) ` {''lacks a 'name:key=value' separator'', ''contains a malformed key=value pair'', ''repeats a data key''}"
        using 2(3) parse_pairs_error [OF Inl] unfolding eq Inl by (cases found) auto
      then show ?thesis using index unfolding honeytoken_messages_def by blast
    next
      case (Inr entries)
      show ?thesis
      proof (cases found)
        case True
        with 2(3) eq Inr have "parse_entries raws (tokens @ [\<lparr>ht_Name = name, ht_Namespace = ns, ht_Type = [], ht_Data = entries\<rparr>]) = Inl e" by simp
        then show ?thesis using 2(2) False cut1 cut2 Inr True by (simp add: Let_def)
      next
        case not: False
        have "e = entry_error (length tokens + 1) ''lacks a 'name:key=value' separator''" using 2(3) not unfolding eq by simp
        then show ?thesis using index unfolding honeytoken_messages_def by blast
      qed
    qed
  qed
qed simp

text \<open>
  A malformed list of honeytokens is reported without its contents: the error is one of three fixed messages or names nothing but the position of the
  entry, so no part of a secret reaches the start-up log.
\<close>

lemma honeytoken_errors_reveal_nothing:
  "case parseEnvHoneytokens value of
     Inl e \<Rightarrow>
       e \<in> {''HELIX_K8S_HONEYTOKENS exceeds the 65536-byte limit'', ''HELIX_K8S_HONEYTOKENS may contain at most 64 entries'',
            ''HELIX_K8S_HONEYTOKENS contains no entries''} \<union>
           (\<Union>i \<in> {1..64}. entry_error i ` {''lacks a 'name:key=value' separator'', ''contains a malformed key=value pair'', ''repeats a data key''})
   | Inr tokens \<Rightarrow> 0 < length tokens"
proof (cases "parseEnvHoneytokens value")
  case (Inl e)
  then have "e \<in> honeytoken_messages"
    using parse_entries_error [of "go_split (CHR '';'') value" "[]"]
    by (auto simp: parseEnvHoneytokens_def honeytoken_messages_def split: if_splits sum.splits)
  then show ?thesis using Inl by (simp only: honeytoken_messages_def sum.case)
next
  case (Inr tokens)
  then show ?thesis by (auto simp: parseEnvHoneytokens_def split: if_splits sum.splits)
qed

section \<open>Secrets of a loaded configuration stay out of the log\<close>

lemma NewConfig_validated: "NewConfig lib env file = Inr c \<Longrightarrow> Validate lib c = None"
  by (auto simp: NewConfig_def Let_def split: option.splits sum.splits)

lemma merge_prefix: "\<exists>later. mergeSensitive base extra = base @ later"
  unfolding mergeSensitive_def Let_def by auto

lemma nonempty_bounds: "length (nonempty vs) \<le> length vs" "sum_list (map length (nonempty vs)) = sum_list (map length vs)" "set (nonempty vs) = set vs - {[]}"
  by (induction vs) auto

lemma length_configured: "length (configured_tokens k) = length (k8s_TokenValues k) + sum_list (map (length \<circ> ht_Data) (k8s_Honeytokens k))"
  by (simp add: configured_tokens_def length_concat comp_def)

lemma validated_values:
  assumes "Validate lib c = None" "c_RunMode c = ''k8s''" "ai_Token (c_AI c) = []"
  shows "\<exists>later. Config_SensitiveValues c = nonempty (configured_tokens (c_K8S c)) @ later \<and>
    length (nonempty (configured_tokens (c_K8S c))) \<le> 320 \<and> sum_list (map length (nonempty (configured_tokens (c_K8S c)))) \<le> 16384"
proof -
  let ?k = "c_K8S c"
  note v = Validate_k8s [OF assms(1,2)]
  note facts = validateTokens_facts [OF v(2)] validateHoneytokens_facts [OF v(4)]
  have "length (nonempty (configured_tokens ?k)) \<le> 320" "sum_list (map length (nonempty (configured_tokens ?k))) \<le> 16384"
    using facts length_configured [of ?k] nonempty_bounds [of "configured_tokens ?k"] by simp_all
  with K8S_values_complete [of ?k] merge_prefix [of "nonempty (configured_tokens ?k)"] assms(3) show ?thesis
    by (simp add: Config_SensitiveValues_def)
qed

lemma logger_redactor:
  "NewEventLoggerFromConfig env openFile splunkURL c = Inr l \<Longrightarrow> el_sensitiveValues l = newSensitiveValueReplacer (Config_SensitiveValues c)"
  by (auto simp: NewEventLoggerFromConfig_def AttachSinks_def NewEventLoggerWithConfig_def split: sum.splits)


end
