(* ===== verification/Limiter.thy ===== *)
theory Limiter
  imports Prelude
begin

text \<open>
  \<^verbatim>\<open>internal/netlimit/listener.go\<close>: a listener that hands out at most \<^verbatim>\<open>maxConnections\<close> connections which
  have not been closed. Every TCP-based sensor serves behind one.

  A Go call that several goroutines run at once is cut at its blocking points: \<^verbatim>\<open>Accept\<close> is the \<^verbatim>\<open>select\<close>, the
  call of the wrapped listener, and the release of the slot when that call fails; \<^verbatim>\<open>cappedConn.Close\<close> is
  the call of the wrapped connection and the \<^verbatim>\<open>sync.Once\<close>; \<^verbatim>\<open>cappedListener.Close\<close> is \<^verbatim>\<open>close(done)\<close> and the call of
  the wrapped listener. An action that would block is \<open>None\<close>, and the step relation interleaves the
  actions of any number of goroutines. The wrapped listener and connections are not under \<^verbatim>\<open>src/\<close>: what they return is
  an argument of the actions.
\<close>

type_synonym net_error = string

datatype close_once = NotCalled | Running | Returned "net_error option"

text \<open>A connection: whether the wrapped \<^verbatim>\<open>Conn\<close> was closed, the calls of \<^verbatim>\<open>Close\<close> that still have to run
  \<^verbatim>\<open>releaseOnce.Do\<close>, and whether the release ran.\<close>

record cappedConn =
  conn_closed :: bool
  closers :: nat
  released :: bool

text \<open>The channel \<^verbatim>\<open>slots\<close> is its length beside its capacity. \<open>selecting\<close>, \<open>accepting\<close> and \<open>failing\<close> are the
  goroutines at each point of \<^verbatim>\<open>Accept\<close>.\<close>

record cappedListener =
  slots :: nat
  slots_cap :: nat
  done_closed :: bool
  closeOnce :: close_once
  selecting :: nat
  accepting :: nat
  failing :: "net_error list"
  conns :: "cappedConn list"
  accept_errors :: "net_error list"

definition ErrClosed :: net_error where
  "ErrClosed = ''use of closed network connection''"

definition NewCappedListener :: "bool \<Rightarrow> int \<Rightarrow> string + cappedListener" where
  "NewCappedListener listener_nil maxConnections =
     (if listener_nil then Inl ''listener is required''
      else if maxConnections < 1 then Inl ''max connections must be positive''
      else Inr \<lparr>slots = 0, slots_cap = nat maxConnections, done_closed = False, closeOnce = NotCalled, selecting = 0,
                accepting = 0, failing = [], conns = [], accept_errors = []\<rparr>)"

section \<open>The atomic actions\<close>

definition accept_call :: "cappedListener \<Rightarrow> cappedListener option" where
  "accept_call l = Some (l\<lparr>selecting := selecting l + 1\<rparr>)"

definition accept_take_slot :: "cappedListener \<Rightarrow> cappedListener option" where
  "accept_take_slot l =
     (if 0 < selecting l \<and> slots l < slots_cap l
      then Some (l\<lparr>slots := slots l + 1, selecting := selecting l - 1, accepting := accepting l + 1\<rparr>) else None)"

definition accept_see_done :: "cappedListener \<Rightarrow> cappedListener option" where
  "accept_see_done l =
     (if 0 < selecting l \<and> done_closed l
      then Some (l\<lparr>selecting := selecting l - 1, accept_errors := accept_errors l @ [ErrClosed]\<rparr>) else None)"

definition accept_inner :: "net_error option \<Rightarrow> cappedListener \<Rightarrow> cappedListener option" where
  "accept_inner result l =
     (if accepting l = 0 then None
      else Some (case result of
          None \<Rightarrow> l\<lparr>accepting := accepting l - 1,
                     conns := conns l @ [\<lparr>conn_closed = False, closers = 0, released = False\<rparr>]\<rparr>
        | Some err \<Rightarrow> l\<lparr>accepting := accepting l - 1, failing := failing l @ [err]\<rparr>))"

text \<open>\<^verbatim>\<open><-l.slots\<close> blocks on an empty channel.\<close>

definition receive_slot :: "cappedListener \<Rightarrow> cappedListener option" where
  "receive_slot l = (if slots l = 0 then None else Some (l\<lparr>slots := slots l - 1\<rparr>))"

definition accept_fail :: "cappedListener \<Rightarrow> cappedListener option" where
  "accept_fail l =
     (case failing l of
        [] \<Rightarrow> None
      | err # rest \<Rightarrow>
          map_option (\<lambda>l1. l1\<lparr>failing := rest, accept_errors := accept_errors l1 @ [err]\<rparr>) (receive_slot l))"

text \<open>\<^verbatim>\<open>closeOnce.Do\<close>: the first caller closes \<^verbatim>\<open>done\<close> (a second \<^verbatim>\<open>close\<close> of the channel would panic, here \<open>None\<close>) and
  then the wrapped listener; a later caller waits for the first and returns its error.\<close>

definition close_begin :: "cappedListener \<Rightarrow> cappedListener option" where
  "close_begin l =
     (if closeOnce l = NotCalled \<and> \<not> done_closed l then Some (l\<lparr>done_closed := True, closeOnce := Running\<rparr>) else None)"

definition close_inner :: "net_error option \<Rightarrow> cappedListener \<Rightarrow> cappedListener option" where
  "close_inner result l = (if closeOnce l = Running then Some (l\<lparr>closeOnce := Returned result\<rparr>) else None)"

definition close_again :: "cappedListener \<Rightarrow> net_error option option" where
  "close_again l = (case closeOnce l of Returned result \<Rightarrow> Some result | _ \<Rightarrow> None)"

definition conn_close_inner :: "nat \<Rightarrow> cappedListener \<Rightarrow> cappedListener option" where
  "conn_close_inner i l =
     (if i < length (conns l)
      then Some (l\<lparr>conns := (conns l)[i := (conns l ! i)\<lparr>conn_closed := True, closers := closers (conns l ! i) + 1\<rparr>]\<rparr>)
      else None)"

definition conn_release :: "nat \<Rightarrow> cappedListener \<Rightarrow> cappedListener option" where
  "conn_release i l =
     (if i < length (conns l) \<and> 0 < closers (conns l ! i)
      then (let c = conns l ! i
            in if released c then Some (l\<lparr>conns := (conns l)[i := c\<lparr>closers := closers c - 1\<rparr>]\<rparr>)
               else map_option (\<lambda>l1. l1\<lparr>conns := (conns l1)[i := c\<lparr>closers := closers c - 1, released := True\<rparr>]\<rparr>)
                      (receive_slot l))
      else None)"

inductive limit_step :: "cappedListener \<Rightarrow> cappedListener \<Rightarrow> bool" where
  call: "accept_call l = Some l' \<Longrightarrow> limit_step l l'"
| take_slot: "accept_take_slot l = Some l' \<Longrightarrow> limit_step l l'"
| see_done: "accept_see_done l = Some l' \<Longrightarrow> limit_step l l'"
| inner: "accept_inner result l = Some l' \<Longrightarrow> limit_step l l'"
| fail: "accept_fail l = Some l' \<Longrightarrow> limit_step l l'"
| begin_close: "close_begin l = Some l' \<Longrightarrow> limit_step l l'"
| end_close: "close_inner result l = Some l' \<Longrightarrow> limit_step l l'"
| conn_close: "conn_close_inner i l = Some l' \<Longrightarrow> limit_step l l'"
| conn_done: "conn_release i l = Some l' \<Longrightarrow> limit_step l l'"

inductive_cases limit_stepE: "limit_step l l'"

section \<open>The invariant\<close>

text \<open>A slot is held by every goroutine between the \<^verbatim>\<open>select\<close> and the end of \<^verbatim>\<open>Accept\<close> and by every connection
  whose release has not run; a released connection was closed first.\<close>

definition unreleased :: "cappedListener \<Rightarrow> nat" where
  "unreleased l = length (filter (\<lambda>c. \<not> released c) (conns l))"

definition open_conns :: "cappedListener \<Rightarrow> nat" where
  "open_conns l = length (filter (\<lambda>c. \<not> conn_closed c) (conns l))"

definition conn_ok :: "cappedConn \<Rightarrow> bool" where
  "conn_ok c \<longleftrightarrow> (conn_closed c \<longleftrightarrow> released c \<or> 0 < closers c)"

definition limit_ok :: "cappedListener \<Rightarrow> bool" where
  "limit_ok l \<longleftrightarrow>
     slots l = accepting l + length (failing l) + unreleased l \<and> slots l \<le> slots_cap l \<and>
     list_all conn_ok (conns l) \<and> (done_closed l \<longleftrightarrow> closeOnce l \<noteq> NotCalled)"

named_theorems limit_defs \<open>the actions of the capped listener\<close>

lemmas [limit_defs] = accept_call_def accept_take_slot_def accept_see_done_def accept_inner_def receive_slot_def accept_fail_def
  close_begin_def close_inner_def conn_close_inner_def conn_release_def

lemma length_filter_update:
  "i < length xs \<Longrightarrow>
   length (filter P (xs[i := x])) + (if P (xs ! i) then 1 else 0) = length (filter P xs) + (if P x then 1 else 0)"
proof (induction xs arbitrary: i)
  case (Cons y ys)
  then show ?case by (cases i) auto
qed simp

lemma list_all_list_update: "list_all P xs \<Longrightarrow> P x \<Longrightarrow> list_all P (xs[i := x])"
proof (induction xs arbitrary: i)
  case (Cons y ys)
  then show ?case by (cases i) auto
qed simp

lemma unreleased_update:
  "i < length (conns l) \<Longrightarrow>
   unreleased (l\<lparr>conns := (conns l)[i := c]\<rparr>) + (if released (conns l ! i) then 0 else 1) =
   unreleased l + (if released c then 0 else 1)"
  using length_filter_update [of i "conns l" "\<lambda>c. \<not> released c" c] by (auto simp: unreleased_def split: if_splits)

lemma open_le_unreleased: "list_all conn_ok cs \<Longrightarrow> length (filter (\<lambda>c. \<not> conn_closed c) cs) \<le> length (filter (\<lambda>c. \<not> released c) cs)"
  by (induction cs) (auto simp: conn_ok_def)

lemma unreleased_pos: "c \<in> set (conns l) \<Longrightarrow> \<not> released c \<Longrightarrow> 0 < unreleased l"
  by (auto simp: unreleased_def filter_empty_conv)

lemma limit_ok_conn_close: "limit_ok l \<Longrightarrow> conn_close_inner i l = Some l' \<Longrightarrow> limit_ok l'"
  using unreleased_update [of i l "(conns l ! i)\<lparr>conn_closed := True, closers := closers (conns l ! i) + 1\<rparr>"]
  by (auto simp: limit_ok_def limit_defs conn_ok_def intro!: list_all_list_update split: if_splits)

lemma limit_ok_conn_release:
  assumes ok: "limit_ok l" and run: "conn_release i l = Some l'"
  shows "limit_ok l'"
proof -
  let ?c = "conns l ! i"
  have i: "i < length (conns l)" "0 < closers ?c" using run by (auto simp: conn_release_def split: if_splits)
  have c: "conn_ok ?c" using ok i by (auto simp: limit_ok_def list_all_length)
  show ?thesis
  proof (cases "released ?c")
    case True
    then have "l' = l\<lparr>conns := (conns l)[i := ?c\<lparr>closers := closers ?c - 1\<rparr>]\<rparr>"
      using run i by (simp add: conn_release_def Let_def)
    then show ?thesis using ok i True c unreleased_update [OF i(1), of "?c\<lparr>closers := closers ?c - 1\<rparr>"]
      by (auto simp: limit_ok_def conn_ok_def intro!: list_all_list_update)
  next
    case False
    let ?d = "?c\<lparr>closers := closers ?c - 1, released := True\<rparr>"
    have l': "l' = l\<lparr>slots := slots l - 1, conns := (conns l)[i := ?d]\<rparr>" "0 < slots l"
      using run i False by (auto simp: conn_release_def Let_def receive_slot_def split: if_splits)
    have "unreleased (l\<lparr>conns := (conns l)[i := ?d]\<rparr>) + 1 = unreleased l"
      using unreleased_update [OF i(1), of ?d] False by simp
    moreover have "list_all conn_ok ((conns l)[i := ?d])"
      using ok c i by (auto simp: limit_ok_def conn_ok_def intro!: list_all_list_update)
    moreover have "unreleased l' = unreleased (l\<lparr>conns := (conns l)[i := ?d]\<rparr>)" using l' by (simp add: unreleased_def)
    ultimately show ?thesis using ok l' by (auto simp: limit_ok_def)
  qed
qed

lemma limit_ok_accept:
  "limit_ok l \<Longrightarrow> accept_call l = Some l' \<Longrightarrow> limit_ok l'"
  "limit_ok l \<Longrightarrow> accept_take_slot l = Some l' \<Longrightarrow> limit_ok l'"
  "limit_ok l \<Longrightarrow> accept_see_done l = Some l' \<Longrightarrow> limit_ok l'"
  "limit_ok l \<Longrightarrow> accept_inner result l = Some l' \<Longrightarrow> limit_ok l'"
  "limit_ok l \<Longrightarrow> accept_fail l = Some l' \<Longrightarrow> limit_ok l'"
  by (auto simp: limit_ok_def limit_defs unreleased_def conn_ok_def split: if_splits option.splits list.splits)

lemma limit_ok_close:
  "limit_ok l \<Longrightarrow> close_begin l = Some l' \<Longrightarrow> limit_ok l'"
  "limit_ok l \<Longrightarrow> close_inner result l = Some l' \<Longrightarrow> limit_ok l'"
  by (auto simp: limit_ok_def limit_defs unreleased_def split: if_splits)

lemma limit_ok_step: "limit_step l l' \<Longrightarrow> limit_ok l \<Longrightarrow> limit_ok l'"
  by (erule limit_stepE) (blast intro: limit_ok_accept limit_ok_close limit_ok_conn_close limit_ok_conn_release)+

lemma slots_cap_step: "limit_step l l' \<Longrightarrow> slots_cap l' = slots_cap l"
  by (erule limit_stepE) (auto simp: limit_defs Let_def split: if_splits option.splits list.splits)

lemma limit_ok_new: "NewCappedListener listener_nil maxConnections = Inr l \<Longrightarrow> limit_ok l \<and> int (slots_cap l) = maxConnections"
  by (auto simp: NewCappedListener_def limit_ok_def unreleased_def split: if_splits)

lemma limit_reachable:
  assumes new: "NewCappedListener listener_nil maxConnections = Inr l0" and run: "limit_step\<^sup>*\<^sup>* l0 l"
  shows "limit_ok l \<and> int (slots_cap l) = maxConnections"
  using run
proof induction
  case base
  show ?case using new by (rule limit_ok_new)
next
  case (step l l')
  then show ?case using limit_ok_step slots_cap_step by metis
qed

section \<open>What the limiter promises\<close>

text \<open>No release ever blocks: a goroutine that reached its release finds a slot to take back.\<close>

lemma release_never_blocks:
  assumes "limit_ok l"
  shows "failing l \<noteq> [] \<Longrightarrow> accept_fail l \<noteq> None"
    and "i < length (conns l) \<Longrightarrow> 0 < closers (conns l ! i) \<Longrightarrow> conn_release i l \<noteq> None"
proof -
  show "failing l \<noteq> [] \<Longrightarrow> accept_fail l \<noteq> None"
    using assms by (auto simp: accept_fail_def receive_slot_def limit_ok_def split: list.splits)
  assume i: "i < length (conns l)" "0 < closers (conns l ! i)"
  show "conn_release i l \<noteq> None"
  proof (cases "released (conns l ! i)")
    case False
    then have "0 < slots l" using assms unreleased_pos [OF nth_mem [OF i(1)]] by (simp add: limit_ok_def)
    then show ?thesis using i by (simp add: conn_release_def receive_slot_def Let_def)
  qed (use i in \<open>simp add: conn_release_def Let_def\<close>)
qed

lemma open_conns_le: "limit_ok l \<Longrightarrow> open_conns l + accepting l + length (failing l) \<le> slots_cap l"
  using open_le_unreleased [of "conns l"] by (simp add: limit_ok_def open_conns_def unreleased_def)

text \<open>Nothing is leaked: once every connection is closed and no \<^verbatim>\<open>Accept\<close> is under way, all slots are free.\<close>

lemma slots_returned:
  "limit_ok l \<Longrightarrow> accepting l = 0 \<Longrightarrow> failing l = [] \<Longrightarrow> list_all (\<lambda>c. conn_closed c \<and> closers c = 0) (conns l) \<Longrightarrow> slots l = 0"
  by (auto simp: limit_ok_def unreleased_def conn_ok_def list_all_iff filter_empty_conv)

text \<open>
  C26. However the goroutines of a sensor interleave their calls, the connections still open, together
  with the \<^verbatim>\<open>Accept\<close>s under way, never exceed \<^verbatim>\<open>maxConnections\<close>; no release of a slot ever blocks (neither the one of a
  failed \<^verbatim>\<open>Accept\<close> nor the first or a repeated \<^verbatim>\<open>Close\<close> of a connection); an \<^verbatim>\<open>Accept\<close> that waits for a slot can return as
  soon as the listener is closed; and when every connection is closed all slots are free again.
\<close>

theorem capped_listener_sound:
  assumes "NewCappedListener listener_nil maxConnections = Inr l0" and "limit_step\<^sup>*\<^sup>* l0 l"
  shows "int (open_conns l + accepting l + length (failing l)) \<le> maxConnections
    \<and> (failing l \<noteq> [] \<longrightarrow> accept_fail l \<noteq> None)
    \<and> (\<forall>i < length (conns l). 0 < closers (conns l ! i) \<longrightarrow> conn_release i l \<noteq> None)
    \<and> (closeOnce l \<noteq> NotCalled \<longrightarrow> 0 < selecting l \<longrightarrow> accept_see_done l \<noteq> None)
    \<and> (accepting l = 0 \<longrightarrow> failing l = [] \<longrightarrow> list_all (\<lambda>c. conn_closed c \<and> closers c = 0) (conns l) \<longrightarrow> slots l = 0)"
proof -
  have ok: "limit_ok l" and cap: "int (slots_cap l) = maxConnections" using limit_reachable [OF assms] by auto
  have "int (open_conns l + accepting l + length (failing l)) \<le> maxConnections"
    using open_conns_le [OF ok] cap by linarith
  moreover have "closeOnce l \<noteq> NotCalled \<longrightarrow> 0 < selecting l \<longrightarrow> accept_see_done l \<noteq> None"
    using ok by (simp add: limit_ok_def accept_see_done_def)
  ultimately show ?thesis using release_never_blocks [OF ok] slots_returned [OF ok] by blast
qed

definition demo_listener :: cappedListener where
  "demo_listener = \<lparr>slots = 0, slots_cap = 1, done_closed = False, closeOnce = NotCalled, selecting = 0,
     accepting = 0, failing = [], conns = [], accept_errors = []\<rparr>"

text \<open>One connection is accepted, a second \<^verbatim>\<open>Accept\<close> waits for its slot, and the connection is closed twice.\<close>

definition demo_busy :: cappedListener where
  "demo_busy = demo_listener\<lparr>slots := 1, selecting := 1, conns := [\<lparr>conn_closed = True, closers = 2, released = False\<rparr>]\<rparr>"

lemma demo_busy_run: "limit_step\<^sup>*\<^sup>* demo_listener demo_busy"
proof -
  let ?l1 = "demo_listener\<lparr>selecting := 1\<rparr>"
  let ?l2 = "demo_listener\<lparr>slots := 1, accepting := 1\<rparr>"
  let ?l3 = "demo_listener\<lparr>slots := 1, conns := [\<lparr>conn_closed = False, closers = 0, released = False\<rparr>]\<rparr>"
  let ?l4 = "demo_listener\<lparr>slots := 1, selecting := 1, conns := [\<lparr>conn_closed = False, closers = 0, released = False\<rparr>]\<rparr>"
  let ?l5 = "demo_listener\<lparr>slots := 1, selecting := 1, conns := [\<lparr>conn_closed = True, closers = 1, released = False\<rparr>]\<rparr>"
  have "limit_step demo_listener ?l1" by (rule limit_step.call) (simp add: accept_call_def demo_listener_def)
  moreover have "limit_step ?l1 ?l2" by (rule limit_step.take_slot) (simp add: accept_take_slot_def demo_listener_def)
  moreover have "limit_step ?l2 ?l3"
    by (rule limit_step.inner [of None]) (simp add: accept_inner_def demo_listener_def)
  moreover have "limit_step ?l3 ?l4" by (rule limit_step.call) (simp add: accept_call_def demo_listener_def)
  moreover have "limit_step ?l4 ?l5"
    by (rule limit_step.conn_close [of 0]) (simp add: conn_close_inner_def demo_listener_def)
  moreover have "limit_step ?l5 demo_busy"
    by (rule limit_step.conn_close [of 0]) (simp add: conn_close_inner_def demo_listener_def demo_busy_def)
  ultimately show ?thesis by (meson converse_rtranclp_into_rtranclp rtranclp.rtrancl_refl)
qed

theorem capped_listener_sound_witness:
  "int (open_conns demo_busy + accepting demo_busy + length (failing demo_busy)) \<le> 1 \<and> conn_release 0 demo_busy \<noteq> None"
proof -
  have new: "NewCappedListener False 1 = Inr demo_listener" by (simp add: NewCappedListener_def demo_listener_def)
  show ?thesis using capped_listener_sound [OF new demo_busy_run] by (auto simp: demo_busy_def)
qed

text \<open>A second \<^verbatim>\<open>Close\<close> of a connection keeps the slots as they are.\<close>

lemma second_close_harmless:
  assumes "conn_release i l = Some l1" and "conn_release i l1 = Some l2"
  shows "slots l2 = slots l1 \<and> unreleased l2 = unreleased l1"
proof -
  have i: "i < length (conns l)" using assms(1) by (auto simp: conn_release_def split: if_splits)
  have rel: "released (conns l1 ! i)" "i < length (conns l1)"
    using assms(1) i by (auto simp: conn_release_def receive_slot_def Let_def split: if_splits)
  let ?c = "(conns l1 ! i)\<lparr>closers := closers (conns l1 ! i) - 1\<rparr>"
  have "l2 = l1\<lparr>conns := (conns l1)[i := ?c]\<rparr>"
    using assms(2) rel by (auto simp: conn_release_def Let_def split: if_splits)
  then show ?thesis using unreleased_update [OF rel(2), of ?c] rel by simp
qed

end
