(* ===== verification/Start.thy ===== *)
theory Start
  imports OpenApi Middleware ConfigSpec Limiter
begin

text \<open>
  Starting the honeypot: \<^verbatim>\<open>cmd/main.go\<close>, \<^verbatim>\<open>server/server.go\<close>, \<^verbatim>\<open>NewAPIContext\<close> of \<^verbatim>\<open>handler/api.go\<close>, the names of a self-signed certificate (\<^verbatim>\<open>internal/tlsgen\<close>), and the \<^verbatim>\<open>Start\<close> functions of the
  HTTP sensors with the order in which they acquire and release the listener and the log. Listening, serving and the cryptographic library are parameters.
\<close>

section \<open>Errors\<close>

datatype goError =
    Plain string
  | Canceled \<comment> \<open>\<^verbatim>\<open>context.Canceled\<close>\<close>
  | DeadlineExceeded
  | ServerClosed \<comment> \<open>\<^verbatim>\<open>http.ErrServerClosed\<close>\<close>
  | Wrap string goError \<comment> \<open>\<^verbatim>\<open>fmt.Errorf\<close> with \<^verbatim>\<open>%w\<close>\<close>

fun errors_Is :: "goError \<Rightarrow> goError \<Rightarrow> bool" where
  "errors_Is (Wrap m e) target = (Wrap m e = target \<or> errors_Is e target)"
| "errors_Is e target = (e = target)"

section \<open>Modes\<close>

datatype runMode = ModeAI | ModeDocker | ModeK8S | ModeHTTP | ModeTCP | ModeUDP | ModeKubelet

definition mode_of :: "string \<Rightarrow> runMode option" where
  "mode_of m =
     (if m = ''ai'' then Some ModeAI else if m = ''docker'' then Some ModeDocker else if m = ''k8s'' then Some ModeK8S else if m = ''http'' then Some ModeHTTP
      else if m = ''tcp'' then Some ModeTCP else if m = ''udp'' then Some ModeUDP else if m = ''kubelet'' then Some ModeKubelet else None)"

text \<open>\<open>ctx1\<close> and \<open>ctx2\<close> are the error of the context before and after the configuration is loaded; \<open>run\<close> is what the mode returns in the end.\<close>

definition StartHoneypot :: "bool \<Rightarrow> goError option \<Rightarrow> goError option \<Rightarrow> string + Config \<Rightarrow> (runMode \<Rightarrow> Config \<Rightarrow> goError option) \<Rightarrow> goError option" where
  "StartHoneypot ctx_nil ctx1 ctx2 loaded run =
     (if ctx_nil then Some (Plain ''start honeypot: context must not be nil'')
      else case ctx1 of
          Some e \<Rightarrow> Some e
        | None \<Rightarrow>
            (case loaded of
               Inl e \<Rightarrow> Some (Wrap ''load configuration: '' (Plain e))
             | Inr cfg \<Rightarrow>
                 (case ctx2 of
                    Some e \<Rightarrow> Some e
                  | None \<Rightarrow>
                      (case mode_of (c_RunMode cfg) of
                         None \<Rightarrow> Some (Plain (''unsupported run mode '' @ GoValue.go_quote (c_RunMode cfg)))
                       | Some m \<Rightarrow> map_option (Wrap (c_RunMode cfg @ '' honeypot: '')) (run m cfg)))))"

definition StartDefenseHoneypot :: "goError option" where
  "StartDefenseHoneypot = Some (Plain ''active-defense mode is disabled'')"

definition cmd_run :: "bool \<Rightarrow> goError option \<Rightarrow> goError option" where
  "cmd_run ctx_done started =
     (case started of None \<Rightarrow> None | Some e \<Rightarrow> if ctx_done \<and> errors_Is e Canceled then None else Some (Wrap ''run honeypot: '' e))"

definition main_exit :: "goError option \<Rightarrow> nat" where
  "main_exit r = (if r = None then 0 else 1)"

section \<open>The API server\<close>

text \<open>\<open>net.JoinHostPort\<close>\<close>

definition join_host_port :: "string \<Rightarrow> string \<Rightarrow> string" where
  "join_host_port host port = (if CHR '':'' \<in> set host then CHR 0x5B # host @ CHR 0x5D # '':'' @ port else host @ '':'' @ port)"

text \<open>\<^verbatim>\<open>strings.Trim(s, "[]")\<close>\<close>

definition trim_brackets :: "string \<Rightarrow> string" where
  "trim_brackets s = (let b = (\<lambda>c. c = CHR 0x5B \<or> c = CHR 0x5D) in rev (dropWhile b (rev (dropWhile b s))))"

definition listenAddress :: "string \<Rightarrow> string \<Rightarrow> string + string" where
  "listenAddress host0 port0 =
     (let host = trim_space host0; port = trim_space port0
      in if port = [] then Inl ''Kubernetes API port is required''
         else if CHR '':'' \<in> set port \<or> CHR ''/'' \<in> set port then Inl (''invalid Kubernetes API port '' @ GoValue.go_quote port)
         else Inr (join_host_port (trim_brackets host) port))"

text \<open>What the code outside the repository does for \<^verbatim>\<open>NewAPIContext\<close>.\<close>

record 'doc schemaWorld =
  w_ctx1 :: "string option"
  w_ctx2 :: "string option"
  w_fetch :: "string \<Rightarrow> string + httpReply"
  w_files :: "string \<Rightarrow> string option"
  w_reader :: "string \<Rightarrow> stream option"
  w_parse :: "string \<Rightarrow> 'doc option"
  w_encode :: "'doc \<Rightarrow> string option" \<comment> \<open>\<^verbatim>\<open>proto.Marshal\<close>\<close>
  w_gzip :: "string \<Rightarrow> string option"

definition load_schema :: "'doc schemaWorld \<Rightarrow> SchemaProfile \<Rightarrow> bool \<Rightarrow> string + openAPI" where
  "load_schema w profile offline =
     (case loadOpenAPISchema (w_ctx1 w) (w_ctx2 w) (w_fetch w) (w_files w) (w_reader w) (w_parse w) profile offline of
        Inl e \<Rightarrow> Inl e
      | Inr (fixture, document) \<Rightarrow>
          (case w_encode w document of
             None \<Rightarrow> Inl (''encode OpenAPI v2 schema for '' @ sp_Version profile)
           | Some binaryDoc \<Rightarrow> load_documents (w_gzip w) fixture binaryDoc))"

text \<open>The environment of the handlers, the documents, and the seeded store. \<open>clock\<close> is the time in nanoseconds, which is also that of the store and cut to seconds for \<^verbatim>\<open>startedAt\<close>.\<close>

definition NewAPIContext :: "'doc schemaWorld \<Rightarrow> nat \<Rightarrow> groupVersion list \<Rightarrow> Config option \<Rightarrow> string + apiEnv \<times> openAPI \<times> objectStore" where
  "NewAPIContext w clock gvs config =
     (case config of
        None \<Rightarrow> Inl ''Kubernetes API configuration is required''
      | Some cfg \<Rightarrow>
          (let k = c_K8S cfg
           in case SchemaProfileForVersion (k8s_APIVersion k) of
                None \<Rightarrow> Inl ''unsupported Kubernetes schema profile''
              | Some profile \<Rightarrow>
                  (let version = sp_Version profile; minor = (case parseKubernetesVersion version of Some m \<Rightarrow> m | None \<Rightarrow> 0);
                       env = \<lparr>ae_resources = apiResources minor, ae_ipBase = k8s_IPBase k, ae_version = version, ae_clock = clock\<rparr>
                   in if length (k8s_TokenValues k) > 128 then Inl ''Kubernetes honeypot supports at most 128 decoy tokens''
                      else if list_ex (\<lambda>token. length token > 4096) (k8s_TokenValues k) then Inl ''Kubernetes decoy token values must be 4 KiB or smaller''
                      else if list_ex (\<lambda>name. name \<noteq> [] \<and> \<not> validObjectName name) (k8s_TokenNames k)
                      then Inl ''Kubernetes decoy secret names must be valid DNS subdomains''
                      else case load_schema w profile (k8s_SchemaOffline k) of
                             Inl e \<Rightarrow> Inl e
                           | Inr oa \<Rightarrow> Inr (env, oa, seed version (now_text env) gvs k (newObjectStore (clock div 1000000000))))))"

section \<open>Certificates\<close>

text \<open>The names and addresses of a self-signed certificate, beside the fixed ones.\<close>

definition host_names :: "string \<Rightarrow> string list" where
  "host_names host = [name \<leftarrow> map (trim_brackets \<circ> trim_space) (go_split (CHR '','') host). name \<noteq> [] \<and> name \<noteq> ''0.0.0.0'' \<and> name \<noteq> ''::'']"

definition cert_IPAddresses :: "string \<Rightarrow> nat list" where
  "cert_IPAddresses host = List.map_filter ParseIP ([''127.0.0.1'', ''::1''] @ host_names host)"

definition cert_DNSNames :: "string \<Rightarrow> string list" where
  "cert_DNSNames host =
     [''localhost'', ''kubernetes'', ''kubernetes.default'', ''kubernetes.default.svc'', ''kubernetes.default.svc.cluster.local''] @ [name \<leftarrow> host_names host. ParseIP name = None]"

text \<open>The template of \<^verbatim>\<open>selfSigned\<close>; its usages and the basic constraints are constants. Times are in seconds.\<close>

record certTemplate =
  ct_SerialNumber :: nat
  ct_CommonName :: string
  ct_NotBefore :: int
  ct_NotAfter :: int
  ct_DNSNames :: "string list"
  ct_IPAddresses :: "nat list"

definition cert_template :: "nat \<Rightarrow> int \<Rightarrow> string \<Rightarrow> string \<Rightarrow> certTemplate" where
  "cert_template serial now commonName host =
     \<lparr>ct_SerialNumber = serial, ct_CommonName = commonName, ct_NotBefore = now - 3600, ct_NotAfter = now + 365 * 24 * 3600,
      ct_DNSNames = cert_DNSNames host, ct_IPAddresses = cert_IPAddresses host\<rparr>"

text \<open>The cryptographic library: a fresh key, a random number below a limit, signing a template with a key, encoding a key, and the pair of certificate and key read from their encodings or from files.\<close>

record 'key crypto =
  cl_GenerateKey :: "string + 'key"
  cl_Int :: "nat \<Rightarrow> string + nat"
  cl_CreateCertificate :: "certTemplate \<Rightarrow> 'key \<Rightarrow> string + string"
  cl_MarshalECPrivateKey :: "'key \<Rightarrow> string + string"
  cl_X509KeyPair :: "string \<Rightarrow> string \<Rightarrow> string + string list"
  cl_LoadX509KeyPair :: "string \<Rightarrow> string \<Rightarrow> string + string list"

definition selfSigned :: "'key crypto \<Rightarrow> int \<Rightarrow> string \<Rightarrow> string \<Rightarrow> string + string list" where
  "selfSigned lib now commonName host =
     (case cl_GenerateKey lib of
        Inl e \<Rightarrow> Inl (''generate TLS key: '' @ e)
      | Inr key \<Rightarrow>
          (case cl_Int lib (2 ^ 128) of
             Inl e \<Rightarrow> Inl (''generate certificate serial: '' @ e)
           | Inr serial \<Rightarrow>
               (case cl_CreateCertificate lib (cert_template serial now commonName host) key of
                  Inl e \<Rightarrow> Inl (''self-sign TLS certificate: '' @ e)
                | Inr der \<Rightarrow>
                    (case cl_MarshalECPrivateKey lib key of
                       Inl e \<Rightarrow> Inl (''encode TLS key: '' @ e)
                     | Inr keyDER \<Rightarrow>
                         (case cl_X509KeyPair lib der keyDER of Inl e \<Rightarrow> Inl (''assemble TLS certificate: '' @ e) | Inr cert \<Rightarrow> Inr cert)))))"

definition Certificate :: "'key crypto \<Rightarrow> int \<Rightarrow> string \<Rightarrow> string \<Rightarrow> string \<Rightarrow> string \<Rightarrow> string + string list" where
  "Certificate lib now certFile0 keyFile0 commonName host =
     (let certFile = trim_space certFile0; keyFile = trim_space keyFile0
      in if certFile \<noteq> [] \<or> keyFile \<noteq> [] then
           (if certFile = [] \<or> keyFile = [] then Inl ''both TLS cert and key files are required''
            else case cl_LoadX509KeyPair lib certFile keyFile of
                Inl e \<Rightarrow> Inl (''load TLS certificate pair: '' @ e)
              | Inr chain \<Rightarrow> if chain = [] then Inl ''TLS certificate file contains no certificates'' else Inr chain)
         else selfSigned lib now commonName host)"

section \<open>Listeners and logs\<close>

text \<open>What a \<^verbatim>\<open>Start\<close> function does with the listener and the log, in order.\<close>

datatype startAction = OpenLog | CloseLog | OpenListener | CloseListener | Serve

text \<open>How the calls of one start end; \<open>None\<close> is success.\<close>

record startWorld =
  sw_api :: "goError option"
  sw_log :: "goError option"
  sw_listen :: "goError option"
  sw_cert :: "goError option"
  sw_serve :: "goError option"
  sw_ctx :: bool

type_synonym started = "goError option \<times> startAction list"

definition serve_result :: "string \<Rightarrow> goError option \<Rightarrow> goError option" where
  "serve_result what r = (case r of None \<Rightarrow> None | Some e \<Rightarrow> if errors_Is e ServerClosed then None else Some (Wrap what e))"

definition cap_error :: "int \<Rightarrow> goError option" where
  "cap_error n = (case NewCappedListener False n of Inl e \<Rightarrow> Some (Plain e) | Inr _ \<Rightarrow> None)"

definition StartHTTPHoneypot :: "Config option \<Rightarrow> startWorld \<Rightarrow> started" where
  "StartHTTPHoneypot config w =
     (if config = None then (Some (Plain ''HTTP honeypot requires configuration''), [])
      else case sw_log w of
          Some e \<Rightarrow> (Some (Wrap ''configure event sinks: '' e), [])
        | None \<Rightarrow>
            (case sw_listen w of
               Some e \<Rightarrow> (Some (Wrap ''listen HTTP honeypot: '' e), [OpenLog, CloseLog])
             | None \<Rightarrow>
                 (case cap_error 128 of
                    Some e \<Rightarrow> (Some (Wrap ''cap HTTP honeypot listener: '' e), [OpenLog, OpenListener, CloseListener, CloseLog])
                  | None \<Rightarrow> (serve_result ''serve HTTP honeypot: '' (sw_serve w), [OpenLog, OpenListener, Serve, CloseListener, CloseLog]))))"

definition StartKubeletHoneypot :: "Config option \<Rightarrow> startWorld \<Rightarrow> started" where
  "StartKubeletHoneypot config w =
     (case config of
        None \<Rightarrow> (Some (Plain ''kubelet honeypot requires configuration''), [])
      | Some cfg \<Rightarrow>
          (case sw_log w of
             Some e \<Rightarrow> (Some (Wrap ''configure event sinks: '' e), [])
           | None \<Rightarrow>
               (case sw_listen w of
                  Some e \<Rightarrow> (Some (Wrap ''listen kubelet honeypot: '' e), [OpenLog, CloseLog])
                | None \<Rightarrow>
                    (let tlsEnabled = (kubelet_TLSEnabled (c_Kubelet cfg) \<noteq> Some False)
                     in case cap_error 128 of
                          Some e \<Rightarrow> (Some (Wrap ''cap kubelet honeypot listener: '' e), [OpenLog, OpenListener, CloseListener, CloseLog])
                        | None \<Rightarrow>
                            (case (if tlsEnabled then sw_cert w else None) of
                               Some e \<Rightarrow> (Some (Wrap ''configure kubelet honeypot TLS: '' e), [OpenLog, OpenListener, CloseListener, CloseLog])
                             | None \<Rightarrow> (serve_result ''serve kubelet honeypot: '' (sw_serve w), [OpenLog, OpenListener, Serve, CloseListener, CloseLog]))))))"

definition StartK8SHoneypot :: "Config option \<Rightarrow> startWorld \<Rightarrow> started" where
  "StartK8SHoneypot config w =
     (case config of
        None \<Rightarrow> (Some (Plain ''Kubernetes configuration is required''), [])
      | Some cfg \<Rightarrow>
          (case sw_api w of
             Some e \<Rightarrow> (Some e, [])
           | None \<Rightarrow>
               (case listenAddress (k8s_Host (c_K8S cfg)) (k8s_Port (c_K8S cfg)) of
                  Inl e \<Rightarrow> (Some (Plain e), [])
                | Inr address \<Rightarrow>
                    (case sw_listen w of
                       Some e \<Rightarrow> (Some (Wrap ''listen for Kubernetes honeypot API: '' e), [])
                     | None \<Rightarrow>
                         (case cap_error 64 of
                            Some e \<Rightarrow> (Some (Wrap ''cap Kubernetes honeypot connections: '' e), [OpenListener, CloseListener])
                          | None \<Rightarrow>
                              (case (if k8s_TLSEnabled (c_K8S cfg) then sw_cert w else None) of
                                 Some e \<Rightarrow> (Some (Wrap ''configure Kubernetes honeypot TLS: '' e), [OpenListener, CloseListener])
                               | None \<Rightarrow>
                                   (case sw_log w of
                                      Some e \<Rightarrow> (Some (Wrap ''configure event sinks: '' e), [OpenListener, CloseListener])
                                    | None \<Rightarrow> (serve_result ''start Kubernetes honeypot API: '' (sw_serve w), [OpenListener, OpenLog, Serve, CloseLog, CloseListener]))))))))"

text \<open>The Docker and the AI sensor; \<open>what\<close> is the error without configuration. Of the two only the AI sensor looks at its context first.\<close>

definition StartPlainHoneypot :: "string \<Rightarrow> goError option \<Rightarrow> bool \<Rightarrow> Config option \<Rightarrow> startWorld \<Rightarrow> started" where
  "StartPlainHoneypot what ctx_error ctx_nil config w =
     (if ctx_nil \<or> config = None then (Some (Plain what), [])
      else if ctx_error \<noteq> None then (ctx_error, [])
      else case sw_log w of
          Some e \<Rightarrow> (Some e, [])
        | None \<Rightarrow>
            (case sw_listen w of
               Some e \<Rightarrow> (Some e, [OpenLog, CloseLog])
             | None \<Rightarrow>
                 (case cap_error 64 of
                    Some e \<Rightarrow> (Some e, [OpenLog, OpenListener, CloseListener, CloseLog])
                  | None \<Rightarrow>
                      (case sw_serve w of
                         Some e \<Rightarrow> if errors_Is e ServerClosed \<or> sw_ctx w then None else Some e
                       | None \<Rightarrow> None, [OpenLog, OpenListener, Serve, CloseListener, CloseLog]))))"

definition StartDockerHoneypot :: "bool \<Rightarrow> Config option \<Rightarrow> startWorld \<Rightarrow> started" where
  "StartDockerHoneypot = StartPlainHoneypot ''Docker sensor requires context and configuration'' None"

definition StartAIHoneypot :: "goError option \<Rightarrow> bool \<Rightarrow> Config option \<Rightarrow> startWorld \<Rightarrow> started" where
  "StartAIHoneypot = StartPlainHoneypot ''AI sensor requires context and configuration''"

text \<open>The socket sensors: \<open>sw_serve\<close> is the result of the accept or read loop of \<open>Sockets\<close>. The TCP sensor closes its listener again at the end.\<close>

definition StartSocketHoneypot :: "string \<Rightarrow> startAction list \<Rightarrow> Config option \<Rightarrow> startWorld \<Rightarrow> started" where
  "StartSocketHoneypot protocol leaving config w =
     (if config = None then (Some (Plain (protocol @ '' honeypot requires configuration'')), [])
      else case sw_listen w of
          Some e \<Rightarrow> (Some (Wrap (''listen '' @ protocol @ '' honeypot: '') e), [])
        | None \<Rightarrow>
            (case sw_log w of
               Some e \<Rightarrow> (Some (Wrap ''configure event sinks: '' e), [OpenListener, CloseListener])
             | None \<Rightarrow> (sw_serve w, [OpenListener, OpenLog, Serve] @ leaving @ [CloseLog, CloseListener])))"

definition StartTCPHoneypot :: "Config option \<Rightarrow> startWorld \<Rightarrow> started" where
  "StartTCPHoneypot = StartSocketHoneypot ''TCP'' [CloseListener]"

definition StartUDPHoneypot :: "Config option \<Rightarrow> startWorld \<Rightarrow> started" where
  "StartUDPHoneypot = StartSocketHoneypot ''UDP'' []"

end
