(* ===== verification/HoneytokenSpec.thy ===== *)
theory HoneytokenSpec
  imports ConfigSpec "HOL-Library.Multiset"
begin

text \<open>
  From the configuration file to the API: every honeytoken the loader accepts is stored by the seeding, within all limits of the store, and can be
  read. The second part is a concrete configuration for the theorems about loading.
\<close>

section \<open>Honeytokens are served\<close>

lemma dns_label_trim: "dns_label s \<Longrightarrow> trim_space s = s"
  by (rule trim_space_plain) (auto simp: plain_char_def isLowerAlphaNumeric_def less_eq_char_def dest!: dns_label_alphabet)

lemma honeytoken_ns_eq: "honeytoken_ok k h \<Longrightarrow> honeytoken_namespace h = honeytoken_ns h"
  using dns_label_trim [of "ht_Namespace h"]
  by (auto simp: honeytoken_namespace_def honeytoken_ns_def honeytoken_ok_def name_simps trim_space_plain split: if_splits)

lemma fold_addNamespace_complete:
  assumes "set order \<subseteq> B" "distinct order" "set nss \<subseteq> B" "finite B" "card B < 128" "ns \<in> set nss" "validNamespaceName ns"
  shows "ns \<in> set (fold addNamespace nss order)"
  using assms
proof (induction nss arbitrary: order)
  case (Cons m nss)
  have "length order < 128" using Cons.prems card_mono [of B "set order"] distinct_card [of order] by simp
  then have m: "ns = m \<Longrightarrow> ns \<in> set (addNamespace m order)" using Cons.prems(7) by (auto simp: addNamespace_def)
  show ?case
  proof (cases "ns \<in> set nss")
    case True
    then show ?thesis using Cons.IH [of "addNamespace m order"] Cons.prems by (auto simp: addNamespace_def)
  next
    case False
    then show ?thesis using m Cons.prems(6) order_mono [of "addNamespace m order" nss] by auto
  qed
qed simp

lemma fold_addNamespace_within: "set (fold addNamespace nss order) \<subseteq> set order \<union> set nss"
proof (induction nss arbitrary: order)
  case (Cons m nss)
  have "set (addNamespace m order) \<subseteq> insert m (set order)" by (auto simp: addNamespace_def)
  with Cons.IH [of "addNamespace m order"] show ?case by auto
qed simp

lemma allowed_in_order:
  assumes "validateNamespaces (k8s_Namespaces k) = None" "validateHoneytokens k = None"
  shows "length (namespaceOrder k) \<le> 68" "honeytoken_ok k h \<Longrightarrow> honeytoken_ns h \<in> set (namespaceOrder k)"
proof -
  let ?base = "[''default'', ''kube-system'', ''kube-public'', ''kube-node-lease'']"
  let ?hs = "map honeytoken_namespace (filter (\<lambda>h. validObjectName (ht_Name h)) (take maxSeedSecrets (k8s_Honeytokens k)))"
  let ?cs = "map trim_space (take maxSeedObjects (k8s_Namespaces k))"
  let ?B = "set (allowedNamespaces k)"
  note ns = validateNamespaces_facts [OF assms(1)] and hs = validateHoneytokens_facts [OF assms(2)]
  have trim: "trim_space n = n" if "n \<in> set (k8s_Namespaces k)" for n
    using ns(2) that dns_label_trim by (auto simp: list_all_iff name_simps)
  then have cs: "set ?cs = set (k8s_Namespaces k)" using ns(1) by auto
  have "set ?hs \<subseteq> ?B"
    using hs(2) honeytoken_ns_eq by (fastforce simp: list_all_iff honeytoken_ok_def dest: in_set_takeD)
  then have within: "set (?base @ ?hs @ ?cs) \<subseteq> ?B" using cs unfolding set_append by (auto simp: allowedNamespaces_def)
  have "length (allowedNamespaces k) \<le> 68" using ns(1) by (simp add: allowedNamespaces_def)
  then have card: "card ?B \<le> 68" using card_length [of "allowedNamespaces k"] by linarith
  have order: "namespaceOrder k = fold addNamespace (?base @ ?hs @ ?cs) []" by (simp only: namespaceOrder_def)
  have "set (namespaceOrder k) \<subseteq> ?B" using fold_addNamespace_within [of "?base @ ?hs @ ?cs" "[]"] within unfolding order list.set(1) Un_empty_left by (rule subset_trans)
  moreover have "distinct (namespaceOrder k)" using namespaceOrder_ok [of k] by (simp add: order_ok_def)
  ultimately show "length (namespaceOrder k) \<le> 68" using card_mono [of ?B "set (namespaceOrder k)"] card by (simp add: distinct_card)
  show "honeytoken_ns h \<in> set (namespaceOrder k)" if "honeytoken_ok k h"
    unfolding order
  proof (rule fold_addNamespace_complete [of _ ?B])
    show "honeytoken_ns h \<in> set (?base @ ?hs @ ?cs)" using that cs unfolding honeytoken_ok_def allowedNamespaces_def set_append by blast
    show "validNamespaceName (honeytoken_ns h)" using that by (simp add: honeytoken_ok_def name_simps)
    show "set (?base @ ?hs @ ?cs) \<subseteq> ?B" by (rule within)
  qed (use card in simp_all)
qed

text \<open>The size of a honeytoken Secret.\<close>

lemma sum_sort: "sum_list (map f (sort_key g xs)) = sum_list (map f xs)" for f :: "_ \<Rightarrow> nat"
  by (metis mset_map mset_sort sum_mset_sum_list)

lemma length_join: "length (go_join sep ws) \<le> sum_list (map (\<lambda>w. length w + length sep) ws)"
  by (induction sep ws rule: go_join.induct) auto

lemma length_quote: "length (json_quote s) \<le> 6 * length s + 2"
  using escape_string_len [of s] by (simp add: json_quote_def)

lemma length_json_object: "length (json_object fs) \<le> 2 + sum_list (map (\<lambda>(key, t). 6 * length key + length t + 4) fs)"
proof -
  let ?w = "\<lambda>(key, t). json_quote key @ '':'' @ t"
  have "length (json_object fs) \<le> 2 + sum_list (map (\<lambda>w. length w + 1) (map ?w (sort_key fst fs)))"
    using length_join [of "'',''" "map ?w (sort_key fst fs)"] by (simp add: json_object_def)
  also have "\<dots> = 2 + sum_list (map (\<lambda>kt. length (?w kt) + 1) fs)" using sum_sort [of "\<lambda>kt. length (?w kt) + 1"] by (simp add: comp_def)
  also have "sum_list (map (\<lambda>kt. length (?w kt) + 1) fs) \<le> sum_list (map (\<lambda>(key, t). 6 * length key + length t + 4) fs)"
  proof (rule sum_list_mono)
    show "length (?w kt) + 1 \<le> (case kt of (key, t) \<Rightarrow> 6 * length key + length t + 4)" for kt
      using length_quote [of "fst kt"] by (cases kt) simp
  qed
  finally show ?thesis by simp
qed

lemma honeytoken_data_small:
  assumes "length data \<le> 16" "list_all (\<lambda>(key, v). config_validSecretDataKey key \<and> length v \<le> 4096) data" "sum_list (map (length \<circ> snd) data) \<le> 16384"
  shows "length (json_object (map (\<lambda>(key, v). (key, json_quote (base64_encode v))) data)) \<le> 160000"
proof -
  have "sum_list (map (\<lambda>(key, v). 6 * length key + length (json_quote (base64_encode v)) + 4) data) \<le> 1600 * length data + 8 * sum_list (map (length \<circ> snd) data)"
    using assms(2)
  proof (induction data)
    case (Cons kv data)
    obtain key v where kv: "kv = (key, v)" by fastforce
    have "length key \<le> 253" using Cons.prems kv by (simp add: config_validSecretDataKey_def)
    moreover have "length (json_quote (base64_encode v)) \<le> 8 * length v + 18"
      using length_quote [of "base64_encode v"] length_base64 [of v] by linarith
    ultimately show ?case using Cons kv by simp
  qed simp
  moreover have eq: "map (\<lambda>(key, t). 6 * length key + length t + 4) (map (\<lambda>(key, v). (key, json_quote (base64_encode v))) data) =
      map (\<lambda>(key, v). 6 * length key + length (json_quote (base64_encode v)) + 4) data" by auto
  note object = length_json_object [of "map (\<lambda>(key, v). (key, json_quote (base64_encode v))) data", unfolded eq]
  ultimately show ?thesis using object assms(1,3) by linarith
qed

definition secret_item :: "K8SHoneytoken \<Rightarrow> seedItem" where
  "secret_item h =
     item [] ''v1'' ''secrets'' (honeytoken_ns h) (ht_Name h)
       [(''type'', GStr (let t = trim_space (ht_Type h) in if t = [] then ''Opaque'' else t)),
        (''data'', GStrMap (map (\<lambda>(key, v). (key, base64_encode v)) (ht_Data h)))]"

lemma length_trim_left: "length (trim_left ws s) \<le> length s"
proof (induction ws s rule: trim_left.induct)
  case (1 ws s)
  then show ?case by (subst trim_left.simps) (auto split: option.splits intro: le_trans)
qed

lemma length_trim: "length (trim_space s) \<le> length s"
  using length_trim_left [of "map rev white_space" "rev (trim_left white_space s)"] length_trim_left [of white_space s]
  by (simp add: trim_space_def)

lemma secret_type_small: "validHoneytokenType t \<Longrightarrow> length (let t' = trim_space t in if t' = [] then ''Opaque'' else t') \<le> 256"
  using length_trim [of t] by (simp add: validHoneytokenType_def Let_def split: if_splits)

lemma base64_entries_small:
  "list_all (\<lambda>(key, v). config_validSecretDataKey key \<and> length v \<le> 4096) data \<Longrightarrow>
   list_all (validSecretDataKey \<circ> fst) data \<and> secret_bytes data \<le> 6000 * length data"
proof (induction data)
  case (Cons kv data)
  obtain key v where kv: "kv = (key, v)" by fastforce
  have "length key \<le> 253" "length v \<le> 4096" "validSecretDataKey key"
    using Cons.prems kv by (auto simp: config_validSecretDataKey_def validSecretDataKey_def isLowerAlphaNumeric_def list_all_iff)
  moreover have "base64_len (length v) \<le> 5464" using \<open>length v \<le> 4096\<close> by (simp add: base64_len_def)
  ultimately show ?case using Cons kv by simp
qed simp

lemma honeytoken_items_single:
  assumes "honeytoken_ok k h" "honeytoken_ns h \<in> set order"
  shows "honeytoken_items order h = [secret_item h]"
proof -
  have "list_all (validSecretDataKey \<circ> fst) (ht_Data h) \<and> secret_bytes (ht_Data h) \<le> 6000 * length (ht_Data h)" "length (ht_Data h) \<le> 16"
    using assms(1) base64_entries_small [of "ht_Data h"] by (simp_all add: honeytoken_ok_def)
  then have "encodeSecretData (ht_Data h) = Some (map (\<lambda>(key, v). (key, base64_encode v)) (ht_Data h))"
    using encode_entries_spec [of 0 "ht_Data h"] by (simp add: encodeSecretData_def)
  moreover have "validObjectName (ht_Name h)" "validNamespaceName (honeytoken_ns h)" using assms(1) by (simp_all add: honeytoken_ok_def name_simps)
  ultimately show ?thesis
    using assms honeytoken_ns_eq [OF assms(1)] secret_type_small [of "ht_Type h"]
    by (auto simp: honeytoken_items_def secret_item_def honeytoken_ok_def Let_def)
qed

lemma sKind_secrets: "sKind (gv' [] ''v1'') ''secrets'' = Some ''Secret''"
  by (simp add: sKind_def apiCatalog_def gv'_def resource_def readOnlyResource_def createOnlyResource_def)

lemma secret_object_of:
  assumes "ns \<noteq> []"
  shows "\<exists>uid. length uid = 36 \<and>
    seed_object stamp (item [] ''v1'' ''secrets'' ns name [(''type'', GStr t), (''data'', GStrMap data)]) =
      [(''type'', GStr t), (''data'', GStrMap data), (''apiVersion'', GStr ''v1''), (''kind'', GStr ''Secret''),
       (''metadata'', GMap [(''name'', GStr name), (''namespace'', GStr ns), (''uid'', GStr uid), (''creationTimestamp'', GStr stamp)])]"
  unfolding seed_object_def item_def Let_def seedItem.simps sKind_secrets
  by (rule exI, rule conjI, rule length_stableUID) (simp add: assms apiVersionFor_def gv'_def gget_def has_key_def objectMap_def Let_def)

lemma secret_object:
  assumes "honeytoken_ns h \<noteq> []"
  shows "\<exists>uid type. length uid = 36 \<and> type = (let t = trim_space (ht_Type h) in if t = [] then ''Opaque'' else t) \<and>
    seed_object stamp (secret_item h) =
      [(''type'', GStr type), (''data'', GStrMap (map (\<lambda>(key, v). (key, base64_encode v)) (ht_Data h))), (''apiVersion'', GStr ''v1''), (''kind'', GStr ''Secret''),
       (''metadata'', GMap [(''name'', GStr (ht_Name h)), (''namespace'', GStr (honeytoken_ns h)), (''uid'', GStr uid), (''creationTimestamp'', GStr stamp)])]"
  unfolding secret_item_def using secret_object_of [OF assms] by blast

lemma secret_item_small:
  assumes "honeytoken_ok k h" "sum_list (map (length \<circ> snd) (ht_Data h)) \<le> 16384" "length stamp \<le> 64"
  shows "encodedLen (stamped (seed_object stamp (secret_item h)) s) \<le> maxStoredObjectBytes"
proof -
  have ns: "honeytoken_ns h \<noteq> []" "length (honeytoken_ns h) \<le> 63" "length (ht_Name h) \<le> 253"
    using assms(1) by (auto simp: honeytoken_ok_def name_simps dns_label_def)
  obtain uid type where o: "length uid = 36" "type = (let t = trim_space (ht_Type h) in if t = [] then ''Opaque'' else t)"
    "seed_object stamp (secret_item h) =
      [(''type'', GStr type), (''data'', GStrMap (map (\<lambda>(key, v). (key, base64_encode v)) (ht_Data h))), (''apiVersion'', GStr ''v1''), (''kind'', GStr ''Secret''),
       (''metadata'', GMap [(''name'', GStr (ht_Name h)), (''namespace'', GStr (honeytoken_ns h)), (''uid'', GStr uid), (''creationTimestamp'', GStr stamp)])]"
    using secret_object [OF ns(1)] by blast
  have type: "length type \<le> 256" using secret_type_small assms(1) by (simp add: o(2) honeytoken_ok_def)
  let ?data = "map (\<lambda>(key, v). (key, base64_encode v)) (ht_Data h)"
  have "map (\<lambda>(key, s). (key, json_quote s)) ?data = map (\<lambda>(key, v). (key, json_quote (base64_encode v))) (ht_Data h)" by auto
  with honeytoken_data_small [of "ht_Data h"] assms(1,2) have data: "length (marshal (GStrMap ?data)) \<le> 160000"
    unfolding marshal.simps honeytoken_ok_def by (simp only:)
  let ?meta = "[(''name'', GStr (ht_Name h)), (''namespace'', GStr (honeytoken_ns h)), (''uid'', GStr uid), (''creationTimestamp'', GStr stamp),
    (''resourceVersion'', GStr (show_nat (unat (resourceRev s + 1))))]"
  have "length (marshal (GMap ?meta)) \<le> 6000"
    using length_json_object [of "map (\<lambda>(k, v). (k, marshal v)) ?meta"] length_quote [of "ht_Name h"] length_quote [of "honeytoken_ns h"] length_quote [of uid]
      length_quote [of stamp] length_quote [of "show_nat (unat (resourceRev s + 1))"] length_rev [of "resourceRev s + 1"] ns o(1) assms(3)
    by simp
  moreover have "stamped (seed_object stamp (secret_item h)) s =
      [(''type'', GStr type), (''data'', GStrMap ?data), (''apiVersion'', GStr ''v1''), (''kind'', GStr ''Secret''), (''metadata'', GMap ?meta)]"
    by (simp add: o(3) stamped_def gget_def objectMap_def)
  moreover note length_json_object [of "map (\<lambda>(k, v). (k, marshal v)) [(''type'', GStr type), (''data'', GStrMap ?data), (''apiVersion'', GStr ''v1''),
    (''kind'', GStr ''Secret''), (''metadata'', GMap ?meta)]"]
  ultimately show ?thesis
    using data type length_quote [of type] length_quote [of "''v1''"] length_quote [of "''Secret''"]
    by (simp add: encodedLen_def del: marshal.simps(8,9)) (simp del: marshal.simps(8,9) add: marshal.simps(8))
qed

text \<open>What is seeded before the honeytokens: few objects, and no Secret.\<close>

definition early_items :: "string \<Rightarrow> string \<Rightarrow> nat \<Rightarrow> K8SConfig \<Rightarrow> seedItem list" where
  "early_items version now started k =
     concat (map (\<lambda>(i, name, role). node_items version (k8s_IPBase k) started name i role)
       (enumerate 0 [(''control-plane-01'', ''control-plane''), (''worker-01'', ''worker''), (''worker-02'', ''worker'')]))
     @ apiserver_items (k8s_IPBase k)
     @ (if k8s_GenerateKubeSys k then system_items now (k8s_IPBase k) else [])
     @ (if k8s_GenerateRand k then sample_items now (k8s_IPBase k) else [])"

lemma early_items_facts:
  "length (early_items version now started k) \<le> 16"
  "i \<in> set (early_items version now started k) \<Longrightarrow> k_resource (item_key i) \<noteq> ''secrets''"
  "k_resource (item_key (namespace_item ns)) \<noteq> ''secrets''"
  by (auto simp: early_items_def node_items_def apiserver_items_def system_items_def sample_items_def namespace_item_def item_def item_key_def
      mk_key_def Let_def split: if_splits)

lemma seed_items_split:
  "\<exists>rest. seed_items version now started gvs k =
     map namespace_item (namespaceOrder k) @ early_items version now started k
     @ concat (map (honeytoken_items (namespaceOrder k)) (take maxSeedSecrets (k8s_Honeytokens k))) @ rest"
  unfolding seed_items_def early_items_def Let_def append_assoc by blast

lemma data_part: "h \<in> set hs \<Longrightarrow> sum_list (map (length \<circ> snd) (ht_Data h)) \<le> sum_list (map length (concat (map (\<lambda>h. map snd (ht_Data h)) hs)))"
  by (induction hs) (auto simp: comp_def)

lemma secret_item_key: "item_key (secret_item h) = mk_key [] ''v1'' ''secrets'' (honeytoken_ns h) (ht_Name h)"
  by (simp add: item_key_def secret_item_def item_def gv'_def)

lemma secret_keys_distinct: "distinct (map secretID hs) \<Longrightarrow> distinct (map (item_key \<circ> secret_item) hs)"
  by (induction hs) (auto simp: secret_item_key mk_key_def secretID_def image_iff)

lemma seed_count: "fst (fold seed_one items x) \<le> fst x + length items"
proof (induction items arbitrary: x)
  case (Cons i items)
  have "fst (seed_one i x) \<le> Suc (fst x)" by (cases rule: seed_one_cases [of i "fst x" "snd x"]) simp_all
  with Cons.IH [of "seed_one i x"] show ?case by simp
qed simp

lemma seeded_secret:
  assumes "Validate lib c = None" "c_RunMode c = ''k8s''" "t0 < 2 ^ 34" "h \<in> set (k8s_Honeytokens (c_K8S c))"
  shows "\<exists>s. get (seed version now gvs (c_K8S c) (newObjectStore t0)) (item_key (secret_item h)) =
      Some (cloneObject (stamped (stamped_item (secret_item h) s) s))"
proof -
  let ?k = "c_K8S c" let ?order = "namespaceOrder ?k" and ?hs = "k8s_Honeytokens ?k" and ?x0 = "(0, newObjectStore t0)"
  let ?names = "map namespace_item ?order" and ?early = "early_items version now t0 ?k" and ?secrets = "map secret_item ?hs"
  let ?x1 = "fold seed_one ?names ?x0" let ?x2 = "fold seed_one ?early ?x1" let ?x3 = "fold seed_one ?secrets ?x2"
  note v = Validate_k8s [OF assms(1,2)] note hs = validateHoneytokens_facts [OF v(4)] and order = allowed_in_order [OF v(3,4)]
  have ok: "honeytoken_ok ?k g" if "g \<in> set ?hs" for g using hs(2) that by (simp add: list_all_iff)
  have "map (honeytoken_items ?order) ?hs = map (\<lambda>g. [secret_item g]) ?hs"
    by (rule map_cong [OF refl]) (rule honeytoken_items_single [OF ok order(2) [OF ok]])
  moreover have "take maxSeedSecrets ?hs = ?hs" using hs(1) by simp
  ultimately have "concat (map (honeytoken_items ?order) (take maxSeedSecrets ?hs)) = ?secrets" by (simp only: concat_map_singleton)
  with seed_items_split obtain rest where items: "seed_items version now t0 gvs ?k = ?names @ ?early @ ?secrets @ rest" by metis
  have g1: "grown ?names ?x0 ?x1" and g2: "grown ?early ?x1 ?x2" by (rule grown_fold)+
  have r1: "roomy (length ?order) ?x1" by (rule seeded_namespaces_roomy [OF assms(3)])
  have x2: "length (objects (snd ?x2)) = fst ?x2" "fst ?x2 \<le> 84" "storedBytes (snd ?x2) \<le> 4096 * 68 + 262144 * 16" "startedAt (snd ?x2) = t0"
    using g1 g2 r1 order(1) seed_count [of ?early ?x1] seed_bytes [of ?early ?x1] early_items_facts(1) [of version now t0 ?k]
    by (auto simp: grown_def roomy_def newObjectStore_def)
  have fresh: "get (snd ?x2) (item_key (secret_item g)) = None" for g
  proof (rule ccontr)
    assume "get (snd ?x2) (item_key (secret_item g)) \<noteq> None"
    then have "item_key (secret_item g) \<in> item_key ` set ?names \<union> item_key ` set ?early"
      using g1 g2 unfolding grown_def by (auto simp: newObjectStore_def get_def)
    moreover have "k_resource (item_key (secret_item g)) = ''secrets''" by (simp add: secret_item_key mk_key_def)
    ultimately show False using early_items_facts(2,3) by auto
  qed
  have "\<forall>i \<in> set ?secrets. \<exists>s. get (snd ?x3) (item_key i) = Some (cloneObject (stamped (stamped_item i s) s))"
  proof (rule seed_all)
    show "encodedLen (stamped (stamped_item i s) s) \<le> maxStoredObjectBytes" if "i \<in> set ?secrets" "startedAt s = startedAt (snd ?x2)" for i s
    proof -
      from that(1) obtain g where g: "i = secret_item g" "g \<in> set ?hs" unfolding set_map by blast
      have "sum_list (map (length \<circ> snd) (ht_Data g)) \<le> 16384" using data_part [OF g(2)] hs(5) by (simp add: configured_tokens_def)
      then show ?thesis using secret_item_small [OF ok [OF g(2)]] that(2) x2(4) length_rfc3339 [OF assms(3)] g(1) by simp
    qed
  qed (use x2 hs(1,3) fresh secret_keys_distinct in \<open>auto simp: comp_def\<close>)
  then obtain s where "get (snd ?x3) (item_key (secret_item h)) = Some (cloneObject (stamped (stamped_item (secret_item h) s) s))"
    using assms(4) by auto
  moreover have "startedAt (newObjectStore t0) = t0" by (simp add: newObjectStore_def)
  ultimately show ?thesis using grown_fold [of rest ?x3] by (auto simp: seed_def items grown_def)
qed

text \<open>
  C4. Every honeytoken of an accepted configuration is served: when the loader accepts a configuration for the Kubernetes sensor, the seeded cluster holds each of its
  honeytokens as a Secret under its name, in its namespace, which exists, with every value encoded under its key; no limit of the store or of the
  seeding drops one. (The start time is before the year 2500.)
\<close>

theorem honeytokens_served:
  assumes "NewConfig lib environ file = Inr c" "c_RunMode c = ''k8s''" "t0 < 2 ^ 34" "h \<in> set (k8s_Honeytokens (c_K8S c))"
  shows "let t = seed version now gvs (c_K8S c) (newObjectStore t0);
             ns = (if ht_Namespace h = [] then ''default'' else ht_Namespace h)
         in namespaceExists ns t \<and>
            (\<exists>secret. get t (mk_key [] ''v1'' ''secrets'' ns (ht_Name h)) = Some secret \<and> gget secret ''kind'' = GStr ''Secret'' \<and>
               gget secret ''data'' = GMap (map (\<lambda>(key, v). (key, GStr (base64_encode v))) (ht_Data h)))"
proof -
  note valid = NewConfig_validated [OF assms(1)]
  note v = Validate_k8s [OF valid assms(2)]
  have ok: "honeytoken_ok (c_K8S c) h" using validateHoneytokens_facts(2) [OF v(4)] assms(4) by (simp add: list_all_iff)
  then have "honeytoken_ns h \<noteq> []" by (auto simp: honeytoken_ok_def name_simps dns_label_def)
  obtain s where s: "get (seed version now gvs (c_K8S c) (newObjectStore t0)) (item_key (secret_item h)) =
      Some (cloneObject (stamped (stamped_item (secret_item h) s) s))"
    using seeded_secret [OF valid assms(2-4)] by blast
  obtain uid type where "stamped_item (secret_item h) s =
      [(''type'', GStr type), (''data'', GStrMap (map (\<lambda>(key, v). (key, base64_encode v)) (ht_Data h))), (''apiVersion'', GStr ''v1''), (''kind'', GStr ''Secret''),
       (''metadata'', GMap [(''name'', GStr (ht_Name h)), (''namespace'', GStr (honeytoken_ns h)), (''uid'', GStr uid), (''creationTimestamp'', GStr (rfc3339 (startedAt s)))])]"
    using secret_object [OF \<open>honeytoken_ns h \<noteq> []\<close>] by blast
  then have "gget (stamped (stamped_item (secret_item h) s) s) ''kind'' = GStr ''Secret''"
    "gget (stamped (stamped_item (secret_item h) s) s) ''data'' = GStrMap (map (\<lambda>(key, v). (key, base64_encode v)) (ht_Data h))"
    by (simp_all add: stamped_def gget_def objectMap_def)
  moreover have "map (\<lambda>(k, s). (k, GStr s)) (map (\<lambda>(key, v). (key, base64_encode v)) (ht_Data h)) = map (\<lambda>(key, v). (key, GStr (base64_encode v))) (ht_Data h)"
    by auto
  moreover have "namespaceExists (honeytoken_ns h) (seed version now gvs (c_K8S c) (newObjectStore t0))"
    using namespaces_seeded [OF assms(3)] allowed_in_order(2) [OF v(3,4) ok] by blast
  ultimately show ?thesis
    using s by (simp add: gget_cloneObject secret_item_key honeytoken_ns_def Let_def)
qed

section \<open>A configuration\<close>

definition demo_lib :: loaderLib where
  "demo_lib = \<lparr>parseURL = (\<lambda>s. None), unicodeLower = (\<lambda>r. r)\<rparr>"

definition demo_token :: K8SHoneytoken where
  "demo_token = \<lparr>ht_Name = ''db'', ht_Namespace = ''kube-system'', ht_Type = ''Opaque'', ht_Data = [(''password'', ''hunter2'')]\<rparr>"

definition demo_config :: Config where
  "demo_config = Defaults\<lparr>c_K8S := (c_K8S Defaults)\<lparr>k8s_Honeytokens := [demo_token]\<rparr>\<rparr>"

lemma applyEnvironment_empty: "applyEnvironment [] c = Inr c"
proof -
  have none: "firstSetEnv [] keys = None" for keys by (induction keys) simp_all
  have "fold (\<lambda>(upd, keys). setString [] upd keys) settings c = c" for settings
    by (induction settings) (auto simp: setString_def none)
  then show ?thesis
    by (simp add: applyEnvironment_def other_settings_def set_bool_def set_list_def set_honeytokens_def setString_def applyEnvSinks_def none Let_def)
qed

lemma demo_normal: "normalize demo_lib demo_config = demo_config"
  by code_simp

lemma ParseIP_show_ip4: "n < 2 ^ 32 \<Longrightarrow> ParseIP (show_ip4 n) = Some (0xFFFF * 2 ^ 32 + n)"
  by (simp add: ParseIP_def ParseAddr_show_ip4)

lemma demo_addresses: "ParseIP ''10.42.0.0'' = Some (0xFFFF * 2 ^ 32 + 170524672)" "ParseIP ''127.0.0.1'' = Some (0xFFFF * 2 ^ 32 + 2130706433)"
  using ParseIP_show_ip4 [of 170524672] ParseIP_show_ip4 [of 2130706433] by (simp_all add: show_ip4_def)

lemma demo_token_ok: "validateHoneytokens (c_K8S demo_config) = None"
  by (simp add: validateHoneytokens_def demo_config_def Defaults_def demo_token_def honeytoken_checks_def honeytoken_ns_def secretID_def allowedNamespaces_def
      configured_tokens_def validTokenName_def validDNSLabel_def validHoneytokenType_def config_validSecretDataKey_def isLowerAlphaNumeric_def Let_def)

lemma demo_profile_ok: "validateKubernetesProfile (c_K8S demo_config) = None"
  by (simp add: validateKubernetesProfile_def demo_config_def Defaults_def demo_addresses To4_def private4_def trim_prefix_def has_prefix_def atoi_def
      parse_digits_def is_digit_def digits_val_def digit_val_def show_int_def Let_def)

lemma demo_config_valid: "Validate demo_lib demo_config = None"
proof -
  have "c_RunMode demo_config = ''k8s''" "k8s_Host (c_K8S demo_config) = ''127.0.0.1''" "k8s_Port (c_K8S demo_config) = ''8080''"
    by (simp_all add: demo_config_def Defaults_def)
  moreover have "validateTokens (c_K8S demo_config) = None" "validateNamespaces (k8s_Namespaces (c_K8S demo_config)) = None"
    "validateLogging (c_Logging demo_config) = None" "validateSinks demo_lib (log_Sinks (c_Logging demo_config)) = None"
    by (simp_all add: demo_config_def Defaults_def validateTokens_def validateNamespaces_def validateLogging_def validateSinks_def configured_tokens_def)
  moreover have "validateHost ''127.0.0.1'' = None" by (simp add: validateHost_def demo_addresses)
  moreover have "validatePort ''8080'' = None"
    by (simp add: validatePort_def atoi_def parse_digits_def is_digit_def digits_val_def digit_val_def show_int_def)
  ultimately show ?thesis
    using demo_token_ok demo_profile_ok by (simp add: Validate_def listener_def)
qed

lemma demo_loaded: "NewConfig demo_lib [] (Some (Inr demo_config)) = Inr demo_config"
  by (simp add: NewConfig_def applyEnvironment_empty demo_normal demo_config_valid)

theorem honeytokens_served_witness:
  "namespaceExists ''kube-system'' (seed ''v1.37'' [] [] (c_K8S demo_config) (newObjectStore 1753000000)) \<and>
   (\<exists>secret. get (seed ''v1.37'' [] [] (c_K8S demo_config) (newObjectStore 1753000000)) (mk_key [] ''v1'' ''secrets'' ''kube-system'' ''db'') = Some secret \<and>
      gget secret ''data'' = GMap [(''password'', GStr (base64_encode ''hunter2''))])"
proof -
  have "c_RunMode demo_config = ''k8s''" "demo_token \<in> set (k8s_Honeytokens (c_K8S demo_config))"
    by (simp_all add: demo_config_def Defaults_def)
  from honeytokens_served [OF demo_loaded this(1) _ this(2), of 1753000000 "''v1.37''" "[]" "[]"] show ?thesis
    by (auto simp: Let_def demo_token_def)
qed

definition demo_log_env :: logEnv where
  "demo_log_env = \<lparr>le_now = [], le_parse = (\<lambda>s. None), le_uuid = ''id'', le_print = (\<lambda>r. True), le_lower = (\<lambda>r. r)\<rparr>"


end
