(* ===== verification/StartSpec.thy ===== *)
theory StartSpec
  imports Start HoneytokenSpec
begin

text \<open>
  Properties of starting: an accepted configuration runs in a mode that exists and passes every later check of its values, and each \<^verbatim>\<open>Start\<close> function releases what it has opened.
\<close>

section \<open>Accepted configurations start\<close>

lemma mode_of_listener: "listener c \<noteq> None \<longleftrightarrow> mode_of (c_RunMode c) \<noteq> None"
  by (auto simp: listener_def mode_of_def)

lemma accepted_mode: "Validate lib c = None \<Longrightarrow> \<exists>m. mode_of (c_RunMode c) = Some m"
  using mode_of_listener [of c] by (auto simp: Validate_def split: option.splits)

lemma accepted_tokens:
  assumes "validateTokens k = None"
  shows "length (k8s_TokenValues k) \<le> 128" "\<not> list_ex (\<lambda>token. length token > 4096) (k8s_TokenValues k)"
    "\<not> list_ex (\<lambda>name. name \<noteq> [] \<and> \<not> validObjectName name) (k8s_TokenNames k)"
proof -
  have "\<forall>i < length (k8s_TokenValues k). length (k8s_TokenValues k ! i) \<le> 256" "\<forall>i < length (k8s_TokenNames k). validTokenName (k8s_TokenNames k ! i)"
    using assms by (auto simp: validateTokens_def list_all_concat list_all_enumerate_iff list.pred_map comp_def)
  then show "\<not> list_ex (\<lambda>token. length token > 4096) (k8s_TokenValues k)" "\<not> list_ex (\<lambda>name. name \<noteq> [] \<and> \<not> validObjectName name) (k8s_TokenNames k)"
    using config_validators_agree by (fastforce simp: list_ex_iff in_set_conv_nth)+
  show "length (k8s_TokenValues k) \<le> 128" using validateTokens_facts [OF assms] by simp
qed

lemma accepted_version:
  assumes "validateKubernetesProfile k = None"
  shows "SchemaProfileForVersion (k8s_APIVersion k) = Some (profile_of (k8s_APIVersion k))"
proof -
  obtain minor where m: "19 \<le> minor" "minor \<le> 37" "show_int minor = trim_prefix (k8s_APIVersion k) ''v1.''" "has_prefix (k8s_APIVersion k) ''v1.''"
    using assms by (auto simp: validateKubernetesProfile_def Let_def not_less split: option.splits)
  then have "k8s_APIVersion k = ''v1.'' @ show_int minor" by (auto simp: has_prefix_conv trim_prefix_def has_prefix_def)
  with profile_of_minor [OF m(1,2)] show ?thesis by simp
qed

lemma accepted_port:
  assumes "validatePort port = None"
  shows "listenAddress host port = Inr (join_host_port (trim_brackets (trim_space host)) port)"
proof -
  obtain n where n: "1 \<le> n" "show_int n = port" using assms by (auto simp: validatePort_def not_less split: option.splits)
  have plain: "\<forall>c \<in> set port. plain_char c" using show_int_plain n(2) by blast
  have digits: "\<forall>c \<in> set port. is_digit c" using n show_nat_digits by (auto simp: show_int_def list_all_iff)
  have "trim_space port = port" by (rule trim_space_plain [OF plain])
  moreover have "CHR '':'' \<notin> set port" "CHR ''/'' \<notin> set port" using digits by (auto simp: is_digit_def)
  moreover have "port \<noteq> []" using n by (auto simp: show_int_def show_nat_nonempty)
  ultimately show ?thesis by (simp add: listenAddress_def)
qed


definition demo_world :: "string schemaWorld" where
  "demo_world = \<lparr>w_ctx1 = None, w_ctx2 = None, w_fetch = (\<lambda>_. Inl ''unreachable''), w_files = (\<lambda>_. None), w_reader = (\<lambda>_. None), w_parse = Some, w_encode = Some, w_gzip = Some\<rparr>"


section \<open>What is opened is closed\<close>

text \<open>The listener and the log are open while serving, and closed in the end.\<close>

definition well_bracketed :: "startAction list \<Rightarrow> bool" where
  "well_bracketed acts \<longleftrightarrow>
     count_list acts OpenLog = count_list acts CloseLog \<and> count_list acts OpenListener \<le> count_list acts CloseListener \<and>
     (\<forall>before after. acts = before @ Serve # after \<longrightarrow>
        OpenLog \<in> set before \<and> CloseLog \<in> set after \<and> OpenListener \<in> set before \<and> CloseListener \<in> set after)"

lemma bracketed_lists:
  "well_bracketed []" "well_bracketed [OpenLog, CloseLog]" "well_bracketed [OpenListener, CloseListener]" "well_bracketed [OpenLog, OpenListener, CloseListener, CloseLog]"
  "well_bracketed [OpenLog, OpenListener, Serve, CloseListener, CloseLog]" "well_bracketed [OpenListener, OpenLog, Serve, CloseLog, CloseListener]"
  "well_bracketed [OpenListener, OpenLog, Serve, CloseListener, CloseLog, CloseListener]"
  by (auto simp: well_bracketed_def Cons_eq_append_conv)

lemma sensors_release:
  "well_bracketed (snd (StartHTTPHoneypot cfg w))" "well_bracketed (snd (StartKubeletHoneypot cfg w))" "well_bracketed (snd (StartK8SHoneypot cfg w))"
  "well_bracketed (snd (StartDockerHoneypot nilCtx cfg w))" "well_bracketed (snd (StartAIHoneypot err nilCtx cfg w))"
  "well_bracketed (snd (StartTCPHoneypot cfg w))" "well_bracketed (snd (StartUDPHoneypot cfg w))"
  by (simp_all add: StartHTTPHoneypot_def StartKubeletHoneypot_def StartK8SHoneypot_def StartDockerHoneypot_def StartAIHoneypot_def StartPlainHoneypot_def
      StartTCPHoneypot_def StartUDPHoneypot_def StartSocketHoneypot_def Let_def bracketed_lists
      split: option.split sum.split)

text \<open>A cancelled run ends without an error, whatever wraps the cancellation.\<close>

lemma cancelled_run: "errors_Is e Canceled \<Longrightarrow> main_exit (cmd_run True (Some (Wrap m e))) = 0"
  by (simp add: cmd_run_def main_exit_def)

end
