(* ===== verification/Sockets.thy ===== *)
theory Sockets
  imports EventLogger
begin

text \<open>
  The plain socket sensors. \<^verbatim>\<open>StartTCPHoneypot\<close> (\<^verbatim>\<open>honeypots/tcp\<close>) is a step relation over its goroutines: the accept loop, the goroutine that closes the listener, one handler per
  connection, and the deferred calls that close the listener, wait for the handlers and close the log, in this order. \<^verbatim>\<open>StartUDPHoneypot\<close> (\<^verbatim>\<open>honeypots/udp\<close>) is a
  function of what its socket returns in each round.
\<close>

section \<open>TCP\<close>

definition maxTCPInput :: nat where "maxTCPInput = 65536"

definition maxTCPConnections :: nat where "maxTCPConnections = 128"

text \<open>The event of \<^verbatim>\<open>readOneConnection\<close>; of the bytes only their number goes in.\<close>

definition socket_event :: "string \<Rightarrow> string \<Rightarrow> nat \<Rightarrow> Event" where
  "socket_event sensor remoteAddr n =
     \<lparr>e_Timestamp = [], e_EventID = [], e_Sensor = sensor, e_SessionID = [], e_Action = [], e_Outcome = [], e_Profile = [], e_Target = [],
      e_RemoteAddr = remoteAddr, e_ClientAddr = [], e_Method = [], e_Path = [], e_StatusCode = 0, e_BytesReceived = int n, e_BytesSent = 0, e_UserAgent = [], e_Detail = []\<rparr>"

definition readOneConnection :: "string \<Rightarrow> string \<Rightarrow> Event" where
  "readOneConnection remoteAddr data = socket_event ''tcp'' remoteAddr (length (take maxTCPInput data))"

datatype handlerState =
    Reading
  | Written \<comment> \<open>the event is in the log, the slot is still taken\<close>
  | Released \<comment> \<open>the slot is free, \<^verbatim>\<open>handlers.Done\<close> is to come\<close>
  | Finished

datatype mainState =
    Selecting
  | Accepting
  | Leaving "string option" \<comment> \<open>the result is known, the deferred calls are to come\<close>
  | Waiting "string option"
  | Closing "string option"
  | Returned "string option"

record tcpState =
  tcp_main :: mainState
  tcp_cancelled :: bool
  tcp_listening :: bool
  tcp_slots :: nat \<comment> \<open>taken slots of \<^verbatim>\<open>connections\<close>\<close>
  tcp_handlers :: "(string \<times> handlerState) list" \<comment> \<open>the remote address of each accepted connection\<close>
  tcp_events :: "Event list"
  tcp_log_open :: bool

definition tcp_start :: tcpState where
  "tcp_start = \<lparr>tcp_main = Selecting, tcp_cancelled = False, tcp_listening = True, tcp_slots = 0, tcp_handlers = [], tcp_events = [], tcp_log_open = True\<rparr>"

inductive tcp_step :: "tcpState \<Rightarrow> tcpState \<Rightarrow> bool" where
  cancel: "tcp_step s (s\<lparr>tcp_cancelled := True\<rparr>)"
| close_listener: "tcp_cancelled s \<Longrightarrow> tcp_step s (s\<lparr>tcp_listening := False\<rparr>)"
| take_slot: "tcp_main s = Selecting \<Longrightarrow> tcp_slots s < maxTCPConnections \<Longrightarrow>
    tcp_step s (s\<lparr>tcp_main := Accepting, tcp_slots := tcp_slots s + 1\<rparr>)"
| see_done: "tcp_main s = Selecting \<Longrightarrow> tcp_cancelled s \<Longrightarrow> tcp_step s (s\<lparr>tcp_main := Leaving None\<rparr>)"
| accept: "tcp_main s = Accepting \<Longrightarrow> tcp_listening s \<Longrightarrow>
    tcp_step s (s\<lparr>tcp_main := Selecting, tcp_handlers := tcp_handlers s @ [(addr, Reading)]\<rparr>)"
| accept_fail: "tcp_main s = Accepting \<Longrightarrow> 0 < tcp_slots s \<Longrightarrow>
    tcp_step s (s\<lparr>tcp_slots := tcp_slots s - 1,
       tcp_main := Leaving (if tcp_cancelled s then None else Some (''accept TCP honeypot connection: '' @ err))\<rparr>)"
| leave: "tcp_main s = Leaving r \<Longrightarrow> tcp_step s (s\<lparr>tcp_main := Waiting r, tcp_listening := False\<rparr>)"
| write_event: "i < length (tcp_handlers s) \<Longrightarrow> tcp_handlers s ! i = (addr, Reading) \<Longrightarrow>
    tcp_step s (s\<lparr>tcp_handlers := (tcp_handlers s)[i := (addr, Written)],
      tcp_events := (if tcp_log_open s then tcp_events s @ [readOneConnection addr data] else tcp_events s)\<rparr>)"
| release: "i < length (tcp_handlers s) \<Longrightarrow> tcp_handlers s ! i = (addr, Written) \<Longrightarrow> 0 < tcp_slots s \<Longrightarrow>
    tcp_step s (s\<lparr>tcp_handlers := (tcp_handlers s)[i := (addr, Released)], tcp_slots := tcp_slots s - 1\<rparr>)"
| finish: "i < length (tcp_handlers s) \<Longrightarrow> tcp_handlers s ! i = (addr, Released) \<Longrightarrow>
    tcp_step s (s\<lparr>tcp_handlers := (tcp_handlers s)[i := (addr, Finished)]\<rparr>)"
| waited: "tcp_main s = Waiting r \<Longrightarrow> list_all (\<lambda>h. snd h = Finished) (tcp_handlers s) \<Longrightarrow> tcp_step s (s\<lparr>tcp_main := Closing r\<rparr>)"
| close_log: "tcp_main s = Closing r \<Longrightarrow> tcp_step s (s\<lparr>tcp_main := Returned r, tcp_log_open := False\<rparr>)"

inductive_cases tcp_stepE: "tcp_step s t"

section \<open>UDP\<close>

datatype udpRead =
    Datagram string string \<comment> \<open>the sender and the bytes\<close>
  | TimedOut
  | ReadFailed string

text \<open>A round: whether the context is done, the error of \<^verbatim>\<open>SetReadDeadline\<close>, what \<^verbatim>\<open>ReadFrom\<close> returns and whether the context is done then.\<close>

type_synonym udpRound = "bool \<times> string option \<times> udpRead \<times> bool"

text \<open>The events written and, when the loop has ended within the given rounds, its result.\<close>

fun udp_loop :: "udpRound list \<Rightarrow> Event list \<times> string option option" where
  "udp_loop [] = ([], None)"
| "udp_loop ((before, deadline, outcome, after) # rounds) =
     (if before then ([], Some None)
      else case deadline of
          Some err \<Rightarrow> ([], Some (Some (''set UDP honeypot read deadline: '' @ err)))
        | None \<Rightarrow>
            (case outcome of
               Datagram remote data \<Rightarrow> (let (events, r) = udp_loop rounds in (socket_event ''udp'' remote (length (take 65535 data)) # events, r))
             | TimedOut \<Rightarrow> if after then ([], Some None) else udp_loop rounds
             | ReadFailed err \<Rightarrow> ([], Some (if after then None else Some (''read UDP honeypot datagram: '' @ err)))))"

section \<open>The TCP sensor is bounded and complete\<close>

definition holding :: "(string \<times> handlerState) list \<Rightarrow> nat" where
  "holding hs = (\<Sum>h \<leftarrow> hs. of_bool (snd h = Reading \<or> snd h = Written))"

definition logged :: "(string \<times> handlerState) list \<Rightarrow> nat" where
  "logged hs = (\<Sum>h \<leftarrow> hs. of_bool (snd h \<noteq> Reading))"

lemma sum_map_update: "i < length xs \<Longrightarrow> (\<Sum>x \<leftarrow> xs[i := y]. f x) + (f (xs ! i) :: nat) = (\<Sum>x \<leftarrow> xs. f x) + f y"
proof (induction xs arbitrary: i)
  case (Cons x xs)
  then show ?case by (cases i) (simp_all add: add.assoc)
qed simp

lemma holding_update: "i < length hs \<Longrightarrow> holding (hs[i := h]) + of_bool (snd (hs ! i) = Reading \<or> snd (hs ! i) = Written) = holding hs + of_bool (snd h = Reading \<or> snd h = Written)"
  unfolding holding_def by (rule sum_map_update)

lemma logged_update: "i < length hs \<Longrightarrow> logged (hs[i := h]) + of_bool (snd (hs ! i) \<noteq> Reading) = logged hs + of_bool (snd h \<noteq> Reading)"
  unfolding logged_def by (rule sum_map_update)

lemma holding_append [simp]: "holding (hs @ [(addr, Reading)]) = holding hs + 1" "logged (hs @ [(addr, Reading)]) = logged hs"
  by (simp_all add: holding_def logged_def)

definition tcp_ok :: "tcpState \<Rightarrow> bool" where
  "tcp_ok s \<longleftrightarrow>
     tcp_slots s = holding (tcp_handlers s) + of_bool (tcp_main s = Accepting) \<and> tcp_slots s \<le> maxTCPConnections \<and>
     length (tcp_events s) = logged (tcp_handlers s) \<and>
     list_all (\<lambda>e. \<exists>addr n. n \<le> maxTCPInput \<and> e = socket_event ''tcp'' addr n) (tcp_events s) \<and>
     (tcp_log_open s \<or> (\<exists>r. tcp_main s = Returned r)) \<and>
     ((\<exists>r. tcp_main s = Closing r \<or> tcp_main s = Returned r) \<longrightarrow> list_all (\<lambda>h. snd h = Finished) (tcp_handlers s))"

lemma tcp_ok_start: "tcp_ok tcp_start"
  by (simp add: tcp_ok_def tcp_start_def holding_def logged_def)

lemma all_finished_nth: "list_all (\<lambda>h. snd h = Finished) hs \<Longrightarrow> i < length hs \<Longrightarrow> snd (hs ! i) = Finished"
  by (simp add: list_all_length)

lemma tcp_ok_step: "tcp_step s t \<Longrightarrow> tcp_ok s \<Longrightarrow> tcp_ok t"
proof (induction rule: tcp_step.induct)
  case (write_event i s addr data)
  have running: "\<not> (\<exists>r. tcp_main s = Closing r \<or> tcp_main s = Returned r)"
    using write_event all_finished_nth [of "tcp_handlers s" i] by (auto simp: tcp_ok_def)
  then have "tcp_log_open s" using write_event.prems by (auto simp: tcp_ok_def)
  moreover have "\<exists>a n. n \<le> maxTCPInput \<and> readOneConnection addr data = socket_event ''tcp'' a n"
    unfolding readOneConnection_def by (intro exI conjI) (rule le_trans [OF _ le_refl], auto)
  ultimately show ?case
    using write_event running holding_update [of i "tcp_handlers s" "(addr, Written)"] logged_update [of i "tcp_handlers s" "(addr, Written)"]
    by (auto simp: tcp_ok_def)
next
  case (release i s addr)
  have "\<not> (\<exists>r. tcp_main s = Closing r \<or> tcp_main s = Returned r)"
    using release all_finished_nth [of "tcp_handlers s" i] by (auto simp: tcp_ok_def)
  then show ?case
    using release holding_update [of i "tcp_handlers s" "(addr, Released)"] logged_update [of i "tcp_handlers s" "(addr, Released)"]
    by (auto simp: tcp_ok_def)
next
  case (finish i s addr)
  have "\<not> (\<exists>r. tcp_main s = Closing r \<or> tcp_main s = Returned r)"
    using finish all_finished_nth [of "tcp_handlers s" i] by (auto simp: tcp_ok_def)
  then show ?case
    using finish holding_update [of i "tcp_handlers s" "(addr, Finished)"] logged_update [of i "tcp_handlers s" "(addr, Finished)"]
    by (auto simp: tcp_ok_def)
qed (auto simp: tcp_ok_def maxTCPConnections_def)

lemma tcp_ok_reachable: "tcp_step\<^sup>*\<^sup>* tcp_start s \<Longrightarrow> tcp_ok s"
  by (induction rule: rtranclp_induct) (auto intro: tcp_ok_start tcp_ok_step)

text \<open>Every handler can run to its end, whatever the accept loop does.\<close>

definition pending :: "(string \<times> handlerState) list \<Rightarrow> nat" where
  "pending hs = (\<Sum>h \<leftarrow> hs. case snd h of Reading \<Rightarrow> 3 | Written \<Rightarrow> 2 | Released \<Rightarrow> 1 | Finished \<Rightarrow> 0)"

lemma pending_update:
  "i < length hs \<Longrightarrow> hs ! i = (addr, x) \<Longrightarrow>
   pending (hs[i := (addr, y)]) + (case x of Reading \<Rightarrow> 3 | Written \<Rightarrow> 2 | Released \<Rightarrow> 1 | Finished \<Rightarrow> 0) =
   pending hs + (case y of Reading \<Rightarrow> 3 | Written \<Rightarrow> 2 | Released \<Rightarrow> 1 | Finished \<Rightarrow> 0)"
  using sum_map_update [of i hs "\<lambda>h. case snd h of Reading \<Rightarrow> 3 | Written \<Rightarrow> 2 | Released \<Rightarrow> 1 | Finished \<Rightarrow> 0" "(addr, y)"] by (simp add: pending_def)

lemma holding_pos: "i < length hs \<Longrightarrow> snd (hs ! i) = Written \<Longrightarrow> 0 < holding hs"
  using holding_update [of i hs "([], Finished)"] by simp

lemma handler_advances:
  assumes "tcp_ok s" "\<not> list_all (\<lambda>h. snd h = Finished) (tcp_handlers s)"
  shows "\<exists>t. tcp_step s t \<and> pending (tcp_handlers t) < pending (tcp_handlers s) \<and> tcp_main t = tcp_main s \<and> tcp_cancelled t = tcp_cancelled s"
proof -
  obtain i addr x where i: "i < length (tcp_handlers s)" "tcp_handlers s ! i = (addr, x)" "x \<noteq> Finished"
    using assms(2) by (auto simp: list_all_length) (metis prod.collapse)
  show ?thesis
  proof (cases x)
    case Reading
    show ?thesis using tcp_step.write_event [of i s addr "[]"] pending_update [of i "tcp_handlers s" addr x Written] i Reading
      by (intro exI conjI) (assumption | simp)+
  next
    case Written
    then have "0 < tcp_slots s" using assms(1) holding_pos i by (simp add: tcp_ok_def)
    then show ?thesis using tcp_step.release [of i s addr] pending_update [of i "tcp_handlers s" addr x Released] i Written
      by (intro exI conjI) (assumption | simp)+
  next
    case Released
    show ?thesis using tcp_step.finish [of i s addr] pending_update [of i "tcp_handlers s" addr x Finished] i Released
      by (intro exI conjI) (assumption | simp)+
  qed (use i in simp)
qed

lemma handlers_finish:
  "tcp_ok s \<Longrightarrow> \<exists>t. tcp_step\<^sup>*\<^sup>* s t \<and> tcp_ok t \<and> list_all (\<lambda>h. snd h = Finished) (tcp_handlers t) \<and> tcp_main t = tcp_main s"
proof (induction "pending (tcp_handlers s)" arbitrary: s rule: less_induct)
  case less
  show ?case
  proof (cases "list_all (\<lambda>h. snd h = Finished) (tcp_handlers s)")
    case True
    then show ?thesis using less.prems by blast
  next
    case False
    then obtain t where t: "tcp_step s t" "pending (tcp_handlers t) < pending (tcp_handlers s)" "tcp_main t = tcp_main s" using handler_advances less.prems by blast
    from less.hyps [OF t(2) tcp_ok_step [OF t(1) less.prems]] t show ?thesis by (metis converse_rtranclp_into_rtranclp)
  qed
qed

lemma loop_leaves:
  assumes "tcp_ok s" "tcp_cancelled s"
  shows "\<exists>t r. tcp_step\<^sup>*\<^sup>* s t \<and> tcp_ok t \<and> (tcp_main t = Waiting r \<or> tcp_main t = Closing r \<or> tcp_main t = Returned r)"
proof -
  have leave: "\<exists>t r. tcp_step\<^sup>*\<^sup>* u t \<and> tcp_ok t \<and> (tcp_main t = Waiting r \<or> tcp_main t = Closing r \<or> tcp_main t = Returned r)"
    if "tcp_step\<^sup>*\<^sup>* s u" "tcp_ok u" "tcp_main u = Leaving r" for u r
    using tcp_step.leave [OF that(3)] tcp_ok_step [OF tcp_step.leave [OF that(3)] that(2)] by (intro exI conjI) (rule r_into_rtranclp, assumption+, simp)
  show ?thesis
  proof (cases "tcp_main s")
    case Selecting
    from tcp_step.see_done [OF this assms(2)] have st: "tcp_step s (s\<lparr>tcp_main := Leaving None\<rparr>)" .
    from leave [OF r_into_rtranclp [of tcp_step, OF st] tcp_ok_step [OF st assms(1)]] show ?thesis
      using st by (auto intro: converse_rtranclp_into_rtranclp)
  next
    case Accepting
    then have "0 < tcp_slots s" using assms(1) by (simp add: tcp_ok_def)
    from tcp_step.accept_fail [OF Accepting this, of "[]"] assms(2) have st: "tcp_step s (s\<lparr>tcp_slots := tcp_slots s - 1, tcp_main := Leaving None\<rparr>)" by simp
    from leave [OF r_into_rtranclp [of tcp_step, OF st] tcp_ok_step [OF st assms(1)]] show ?thesis
      using st by (auto intro: converse_rtranclp_into_rtranclp)
  next
    case (Leaving r)
    then show ?thesis using leave [of s] assms(1) by blast
  qed (use assms(1) in blast)+
qed



end
