(* ===== verification/Generator.thy ===== *)
theory Generator
  imports TimeText Digest
begin

text \<open>
  The generators of sample objects (\<^verbatim>\<open>honeypots/k8s/generator\<close>): a table of random pods, an empty table, and a list of Secrets around given tokens. The random numbers are inputs, each reduced to the
  range the code asks for; so are the identifiers, the wall clock of the local time zone, in seconds, and the offset of the zone. A missing index or a failed type assertion, which panics, is \<open>None\<close>.
\<close>

section \<open>Tables\<close>

definition columnDefinition :: "string \<Rightarrow> string \<Rightarrow> string \<Rightarrow> int \<Rightarrow> gobj" where
  "columnDefinition name format description priority =
     [(''name'', GStr name), (''type'', GStr ''string''), (''format'', GStr format), (''description'', GStr description), (''priority'', GInt priority)]"

definition GenerateColumnDefinitions :: "gobj list" where
  "GenerateColumnDefinitions =
    [columnDefinition ''Name'' ''name''
       (''Name must be unique within a namespace. Is required when creating resources, although some resources may allow a client to request the generation of an appropriate name automatically. Name is primarily intended for creation idempotence and configuration definition. Cannot be updated. More info: http://kubernetes.io/docs/user-guide/identifiers#names'') 0,
     columnDefinition ''Ready'' []
       (''The aggregate readiness state of this pod for accepting traffic.'') 0,
     columnDefinition ''Status'' []
       (''The aggregate status of the containers in this pod.'') 0,
     columnDefinition ''Restarts'' []
       (''The number of times the containers in this pod have been restarted and when the last container in this pod has restarted.'') 0,
     columnDefinition ''Age'' []
       (''CreationTimestamp is a timestamp representing the server time when this object was created. It is not guaranteed to be set in happens-before order across separate operations. Clients may not set this value. It is represented in RFC3339 form and is in UTC. Populated by the system. Read-only. Null for lists. More info: https://git.k8s.io/community/contributors/devel/sig-architecture/api-conventions.md#metadata'') 0,
     columnDefinition ''IP'' []
       (''IP address allocated to the pod. Routable at least within the cluster. Empty if not yet allocated.'') 1,
     columnDefinition ''Node'' []
       (''NodeName is a request to schedule this pod onto a specific node. If it is non-empty, the scheduler simply schedules this pod onto that node, assuming that it fits resource requirements.'') 1,
     columnDefinition ''Nominated Node'' []
       (''nominatedNodeName is set only when this pod preempts other pods on the node, but it cannot be scheduled right away as preemption victims receive their graceful termination periods. This field does not guarantee that the pod will be scheduled on this node. Scheduler may decide to place the pod elsewhere if other nodes become available sooner. Scheduler may also decide to give the resources on this node to a higher priority pod that is created after preemption. As a result, this field may be different than PodSpec.nodeName when the pod is scheduled.'') 1,
     columnDefinition ''Readiness Gates'' []
       (''If specified, all readiness gates will be evaluated for pod readiness. A pod is ready when all its containers are ready AND all conditions specified in the readiness gates have status equal to '' @ [CHR 0x22] @ ''True'' @ [CHR 0x22] @ '' More info: https://git.k8s.io/enhancements/keps/sig-network/580-pod-readiness-gates'') 1]"

record ColumnDefinition =
  cd_Name :: string
  cd_Type :: string
  cd_Format :: string
  cd_Description :: string
  cd_Priority :: int

definition as_int :: "gval \<Rightarrow> int option" where
  "as_int v = (case v of GInt i \<Rightarrow> Some i | _ \<Rightarrow> None)"

definition ConvertMapToColumnDefinition :: "gobj \<Rightarrow> ColumnDefinition option" where
  "ConvertMapToColumnDefinition defMap =
     (case (as_string (gget defMap ''name''), as_string (gget defMap ''type''), as_string (gget defMap ''format''), as_string (gget defMap ''description''), as_int (gget defMap ''priority'')) of
        (Some n, Some t, Some f, Some d, Some p) \<Rightarrow> Some \<lparr>cd_Name = n, cd_Type = t, cd_Format = f, cd_Description = d, cd_Priority = p\<rparr>
      | _ \<Rightarrow> None)"

record genTable =
  gt_Kind :: string
  gt_ApiVersion :: string
  gt_ResourceVersion :: string
  gt_ColumnDefinitions :: "gobj list"
  gt_Rows :: "gval list"

definition GenerateEmptyList :: genTable where
  "GenerateEmptyList =
     \<lparr>gt_Kind = ''Table'', gt_ApiVersion = ''meta.k8s.io/v1'', gt_ResourceVersion = ''561'', gt_ColumnDefinitions = GenerateColumnDefinitions, gt_Rows = []\<rparr>"

section \<open>Pods\<close>

text \<open>What one call of \<^verbatim>\<open>GeneratePod\<close> draws, and the seconds that pass between its two readings of the clock.\<close>

record podDraw =
  pd_type :: nat
  pd_uid :: string
  pd_octets :: "nat \<times> nat"
  pd_hours :: nat
  pd_elapsed :: nat
  pd_hash :: "nat \<Rightarrow> nat"
  pd_version :: nat

definition RandomIP :: "nat \<times> nat \<Rightarrow> string \<Rightarrow> string option" where
  "RandomIP octets ipBase =
     (let splitIP = go_split (CHR ''.'') ipBase
      in if length splitIP < 2 then None
         else Some (go_join ''.'' (take 2 splitIP) @ ''.'' @ show_nat (fst octets mod 255) @ ''.'' @ show_nat (snd octets mod 255)))"

definition GeneratePodTemplateHash :: "(nat \<Rightarrow> nat) \<Rightarrow> string" where
  "GeneratePodTemplateHash draw = map (\<lambda>i. hex_digit (draw i mod 16)) [0..<10]"

text \<open>\<^verbatim>\<open>Format("2006-01-02T15:04Z")\<close>: the letter is part of the layout.\<close>

definition minute_text :: "nat \<Rightarrow> string" where
  "minute_text t = take 16 (date_time t) @ ''Z''"

definition pod_cells_of :: "string \<Rightarrow> string \<Rightarrow> string \<Rightarrow> string \<Rightarrow> string list" where
  "pod_cells_of name age ip namespace = [name, ''1/1'', ''Running'', ''0'', age, ip, namespace, ''<none>'', ''<none>'']"

definition GeneratePod :: "nat \<Rightarrow> string \<Rightarrow> string \<Rightarrow> string list \<Rightarrow> podDraw \<Rightarrow> gobj option" where
  "GeneratePod now ipBase namespace podNames d =
     (if podNames = [] then None
      else map_option (\<lambda>ip.
        (let podType = podNames ! (pd_type d mod length podNames); uid = pd_uid d;
             creationTimestamp = now - pd_hours d mod 48 * 3600;
             age = show_nat ((now + pd_elapsed d - creationTimestamp) div 3600) @ ''h'';
             podTemplateHash = GeneratePodTemplateHash (pd_hash d);
             name = podType @ ''-'' @ podTemplateHash
         in [(''cells'', GStrs (pod_cells_of name age ip namespace)),
             (''object'', GMap
               [(''kind'', GStr ''PartialObjectMetadata''), (''apiVersion'', GStr ''meta.k8s.io/v1''),
                (''metadata'', GMap
                  [(''name'', GStr name), (''generateName'', GStr (podType @ ''-generate'')), (''namespace'', GStr namespace),
                   (''resourceVersion'', GInt (int (pd_version d mod 7000))), (''creationTimestamp'', GStr (minute_text creationTimestamp)), (''uid'', GStr uid),
                   (''labels'', GStrMap [(''k8s-app'', podType), (''pod-template-hash'', podTemplateHash)]),
                   (''ownerReferences'', GList [GMap [(''apiVersion'', GStr ''apps/v1''), (''kind'', GStr ''ReplicaSet''), (''name'', GStr name), (''uid'', GStr uid),
                      (''controller'', GBool True), (''blockOwnerDeletion'', GBool True)]])])])]))
        (RandomIP (pd_octets d) ipBase))"

definition pod_row_name :: "gobj \<Rightarrow> string" where
  "pod_row_name row = stringField (objectMap (gget (objectMap (gget row ''object'')) ''metadata'')) ''name''"

definition generatePodConfig :: "nat \<Rightarrow> string \<Rightarrow> string \<Rightarrow> string list \<Rightarrow> string \<Rightarrow> nat \<Rightarrow> (nat \<Rightarrow> podDraw) \<Rightarrow> gobj option" where
  "generatePodConfig now ipBase namespace podNames rv count draw =
     map_option (\<lambda>pods.
       [(''kind'', GStr ''Table''), (''apiVersion'', GStr ''meta.k8s.io/v1''), (''metadata'', GMap [(''resourceVersion'', GStr rv)]),
        (''columnDefinitions'', GList (map GMap GenerateColumnDefinitions)), (''rows'', GList (map GMap (sort_key pod_row_name pods)))])
       (those (map (\<lambda>i. GeneratePod now ipBase namespace podNames (draw i)) [0..<count mod 110 + 10]))"

definition system_names :: "string list" where
  "system_names =
    [''kube-apiserver'', ''kube-controller-manager'', ''kube-scheduler'', ''kube-proxy'', ''etcd'', ''coredns'', ''kube-addon-manager'',
      ''kube-flannel'', ''kube-calico'', ''kube-dns'', ''kube-sidecar'', ''kube-state-metrics'', ''kube-ingress-controller'', ''kube-dashboard'',
      ''kube-metrics-scraper'', ''kube-network-manager'', ''kube-node-exporter'', ''kube-persistent-storage'', ''kube-csi'', ''kubelet'',
      ''kube-proxy'', ''kube-vpnkit-controller'', ''kube-storage-provisioner'']"

definition sample_names :: "string list" where
  "sample_names =
    [''database'', ''message-queue'', ''cache'', ''nginx'', ''apache'', ''tomcat'', ''redis'', ''elasticsearch'', ''rabbitmq'', ''kafka'',
      ''memcached'', ''mysql'', ''postgres'', ''mongo'', ''cassandra'', ''influxdb'', ''grafana'', ''prometheus'', ''wordpress'', ''jenkins'',
      ''gitlab'', ''drupal'', ''magento'', ''django'', ''laravel'', ''nodejs'', ''express'', ''flask'', ''spring-boot'', ''react'', ''angular'',
      ''vuejs'', ''emberjs'', ''kubernetes'', ''docker'', ''minio'', ''jupyter'', ''tensorflow'', ''spark'', ''git'', ''consul'', ''vault'',
      ''kibana'', ''haproxy'', ''traefik'', ''graylog'', ''sonarqube'', ''nexus'', ''zookeeper'', ''etcd'', ''nextcloud'', ''ghost'', ''owncloud'',
      ''clickhouse'', ''metabase'', ''nginx-ingress'', ''kong'', ''keycloak'', ''rancher'', ''logstash'', ''aws-lambda'', ''aws-s3'',
      ''aws-dynamodb'', ''aws-rds'', ''aws-sqs'', ''aws-sns'', ''gcp-cloud-run'', ''gcp-datastore'', ''gcp-pubsub'', ''azure-functions'',
      ''azure-storage'', ''azure-cosmosdb'', ''azure-service-bus'', ''kafka'', ''rabbitmq'', ''hadoop'', ''couchbase'', ''couchdb'', ''neo4j'',
      ''clickhouse'', ''varnish'', ''traefik'', ''gitlab-runner'', ''nats'', ''apollo'', ''jitsi'', ''rocketmq'', ''deno'', ''glusterfs'',
      ''prometheus-operator'', ''rancher'', ''knative'', ''fluentd'', ''openfaas'', ''loki'', ''istio'', ''redis-cache'', ''postgresql'',
      ''mongodb'', ''couchbase'', ''apache-kafka'', ''nginx-ingress-controller'', ''jenkins-x'', ''drone'', ''openshift'', ''gitlab-ci'',
      ''bitbucket-pipelines'', ''teamcity'', ''spinnaker'', ''artifactory'', ''nexus-repository'', ''kong-api-gateway'', ''tyk-api-gateway'',
      ''azure-apim'', ''consul-service-mesh'', ''linkerd'', ''kuma'', ''flannel'', ''weave'', ''cilium'', ''argocd'', ''fluxcd'', ''istio'',
      ''knative'', ''keda'', ''helm'', ''tekton'', ''argo-workflows'', ''falco'', ''sysdig'', ''calico'', ''openshift-sdn'', ''fluent-bit'',
      ''logstash'', ''telegraf'', ''papertrail'', ''logentries'', ''logdna'']"

definition GenerateKubeSystemConfig :: "nat \<Rightarrow> string \<Rightarrow> string \<Rightarrow> nat \<Rightarrow> (nat \<Rightarrow> podDraw) \<Rightarrow> gobj option" where
  "GenerateKubeSystemConfig now ipBase namespace = generatePodConfig now ipBase namespace system_names ''1110''"

definition GenerateDefaultNamespaceConfig :: "nat \<Rightarrow> string \<Rightarrow> string \<Rightarrow> nat \<Rightarrow> (nat \<Rightarrow> podDraw) \<Rightarrow> gobj option" where
  "GenerateDefaultNamespaceConfig now ipBase namespace = generatePodConfig now ipBase namespace sample_names ''3572''"

section \<open>Secrets\<close>

text \<open>\<^verbatim>\<open>AddDate(0, -3, 0)\<close>: the same day three months before, where a day the month does not have runs on into the next.\<close>

definition three_months_before :: "nat \<Rightarrow> nat" where
  "three_months_before t =
     (let (y, m, d) = civil_from_days (t div 86400); (y', m') = (if m > 3 then (y, m - 3) else (y - 1, m + 9))
      in nat (days_from_civil y' m' d) * 86400 + t mod 86400)"

text \<open>\<^verbatim>\<open>Format(time.RFC3339)\<close> of a wall clock, in a zone whose offset in seconds may depend on it.\<close>

definition zone_text :: "int \<Rightarrow> string" where
  "zone_text offset =
     (if offset = 0 then ''Z''
      else (if offset < 0 then ''-'' else ''+'') @ pad_nat 2 (nat \<bar>offset\<bar> div 3600) @ '':'' @ pad_nat 2 (nat \<bar>offset\<bar> div 60 mod 60))"

definition generated_secret :: "(nat \<Rightarrow> int) \<Rightarrow> nat \<Rightarrow> string \<Rightarrow> string list \<Rightarrow> nat \<Rightarrow> string \<Rightarrow> gobj" where
  "generated_secret offset now namespace secretNames i honeytoken =
     [(''apiVersion'', GStr ''v1''), (''kind'', GStr ''Secret''),
      (''metadata'', GMap [(''name'', GStr (if i < length secretNames then secretNames ! i else ''secret-'' @ honeytoken)), (''namespace'', GStr namespace),
         (''creationTimestamp'', GStr (let t = three_months_before now in date_time t @ zone_text (offset t)))]),
      (''data'', GMap [(''token'', GStr (base64_encode honeytoken))]), (''type'', GStr ''Opaque'')]"

definition GenerateSecretConfig :: "(nat \<Rightarrow> int) \<Rightarrow> nat \<Rightarrow> string \<Rightarrow> string list \<Rightarrow> string list \<Rightarrow> gobj" where
  "GenerateSecretConfig offset now namespace honeyTokens secretNames =
     [(''apiVersion'', GStr ''v1''), (''kind'', GStr ''SecretList''),
      (''items'', GList (map (\<lambda>(i, t). GMap (generated_secret offset now namespace secretNames i t)) (List.enumerate 0 honeyTokens)))]"

section \<open>What is generated\<close>

lemma converted_columns: "list_all (\<lambda>d. ConvertMapToColumnDefinition d \<noteq> None) GenerateColumnDefinitions"
  by (simp add: GenerateColumnDefinitions_def columnDefinition_def ConvertMapToColumnDefinition_def gget_def as_string_def as_int_def)

lemma those_map_Some: "those (map f xs) = Some ys \<Longrightarrow> list_all2 (\<lambda>x y. f x = Some y) xs ys"
  by (induction xs arbitrary: ys) (auto split: option.splits)

text \<open>The row of a pod fits the columns, the first of which is its name.\<close>

definition fits_columns :: "gobj \<Rightarrow> bool" where
  "fits_columns row \<longleftrightarrow> (\<exists>cells. gget row ''cells'' = GStrs cells \<and> length cells = length GenerateColumnDefinitions \<and> hd cells = pod_row_name row)"

lemma generated_pod_fits:
  assumes "GeneratePod now ipBase namespace podNames d = Some row"
  shows "fits_columns row"
  using assms by (auto simp: GeneratePod_def fits_columns_def pod_row_name_def pod_cells_of_def gget_def stringField_def objectMap_def as_string_def
      GenerateColumnDefinitions_def Let_def split: if_splits)

lemma generated_rows:
  assumes "generatePodConfig now ipBase namespace podNames rv count draw = Some config"
  shows "\<exists>rows. gget config ''rows'' = GList (map GMap rows) \<and> 10 \<le> length rows \<and> length rows < 120 \<and> sorted (map pod_row_name rows) \<and> list_all fits_columns rows"
proof -
  obtain pods where pods: "those (map (\<lambda>i. GeneratePod now ipBase namespace podNames (draw i)) [0..<count mod 110 + 10]) = Some pods"
    and config: "gget config ''rows'' = GList (map GMap (sort_key pod_row_name pods))"
    using assms by (auto simp: generatePodConfig_def gget_def)
  note each = those_map_Some [OF pods]
  have "length pods = count mod 110 + 10" using list_all2_lengthD [OF each] by simp
  moreover have "list_all fits_columns pods" using each by (auto simp: list_all_length list_all2_conv_all_nth intro: generated_pod_fits)
  ultimately have "10 \<le> length (sort_key pod_row_name pods) \<and> length (sort_key pod_row_name pods) < 120 \<and> sorted (map pod_row_name (sort_key pod_row_name pods)) \<and>
      list_all fits_columns (sort_key pod_row_name pods)" by (simp add: list_all_iff)
  with config show ?thesis by blast
qed

text \<open>A generated table exists exactly when the address prefix has two parts: neither list of names is empty.\<close>

lemma those_map_None: "those (map f xs) = None \<longleftrightarrow> (\<exists>x \<in> set xs. f x = None)"
  by (induction xs) (auto split: option.splits)

lemma generated_exists:
  assumes "podNames \<noteq> []"
  shows "generatePodConfig now ipBase namespace podNames rv count draw \<noteq> None \<longleftrightarrow> 2 \<le> length (go_split (CHR ''.'') ipBase)"
proof -
  have pod: "GeneratePod now ipBase namespace podNames d = None \<longleftrightarrow> length (go_split (CHR ''.'') ipBase) < 2" for d
    using assms by (simp add: GeneratePod_def RandomIP_def Let_def)
  have "0 \<in> set [0..<count mod 110 + 10]" by simp
  then have "(\<exists>i \<in> set [0..<count mod 110 + 10]. length (go_split (CHR ''.'') ipBase) < 2) \<longleftrightarrow> length (go_split (CHR ''.'') ipBase) < 2" by blast
  then show ?thesis unfolding generatePodConfig_def option.map_disc_iff those_map_None pod by (simp add: not_less)
qed

lemma sample_tables_exist:
  assumes "2 \<le> length (go_split (CHR ''.'') ipBase)"
  shows "GenerateKubeSystemConfig now ipBase namespace count draw \<noteq> None" "GenerateDefaultNamespaceConfig now ipBase namespace count draw \<noteq> None"
proof -
  have "system_names \<noteq> []" "sample_names \<noteq> []" by (simp_all add: system_names_def sample_names_def)
  then show "GenerateKubeSystemConfig now ipBase namespace count draw \<noteq> None" "GenerateDefaultNamespaceConfig now ipBase namespace count draw \<noteq> None"
    unfolding GenerateKubeSystemConfig_def GenerateDefaultNamespaceConfig_def using assms generated_exists by blast+
qed

text \<open>The creation time of a generated pod is no RFC 3339 time: without seconds, no reader of such times accepts it, so the age of the pod reads as unknown.\<close>

lemma parse_minutes_fails:
  assumes "t < 253402300800"
  shows "parse_rfc3339 (minute_text t) = None"
proof -
  obtain y m d where civil: "civil_from_days (t div 86400) = (y, m, d)" by (metis prod.exhaust)
  have days: "t div 86400 < 2932897" using assms by (simp add: div_less_iff_less_mult)
  note c = civil_round_trip [OF civil]
  have bounds: "y < 10000" "m < 100" "d < 100" using c days by (auto simp: days_in_def split: if_splits)
  let ?hh = "t mod 86400 div 3600" and ?mm = "t mod 86400 div 60 mod 60"
  have clock: "?hh < 24" "?mm < 60" by (simp_all add: div_less_iff_less_mult)
  have lens: "length (pad_nat 4 y) = 4" "length (pad_nat 2 m) = 2" "length (pad_nat 2 d) = 2" "length (pad_nat 2 ?hh) = 2" "length (pad_nat 2 ?mm) = 2"
    using bounds clock by (simp_all add: length_pad_nat)
  have "minute_text t = pad_nat 4 y @ CHR ''-'' # pad_nat 2 m @ CHR ''-'' # pad_nat 2 d @ CHR ''T'' # pad_nat 2 ?hh @ CHR '':'' # pad_nat 2 ?mm @ ''Z''"
    by (simp add: minute_text_def date_time_def civil Let_def lens)
  moreover have "parse_clock (pad_nat 2 ?hh @ CHR '':'' # pad_nat 2 ?mm @ ''Z'') = None"
    using clock by (simp add: parse_clock_def some_digits_def two_digits_pad check_range_def skip_char_def)
  ultimately show ?thesis
    using c bounds by (simp add: parse_rfc3339_def year_digits_pad two_digits_pad skip_char_def check_range_def)
qed

end
