(* ===== verification/Spec2Isabelle.thy ===== *)
theory Spec2Isabelle
  imports StoreRefinement DockerSpec AiSpec Kubelet ProtoSpec OpenApiSpec StartSpec Sockets Generator
begin

text \<open>
  Helix is a honeypot: it imitates a Kubernetes API server (and, in smaller sensors, a kubelet, a Docker
  daemon, a model server and bare HTTP, TCP and UDP services), lets anyone talk to it, and records what they do. This development models
  its core, the simulated Kubernetes API with its store and controllers, the configuration it starts from and the log it writes, and proves what an
  operator relies on: clients cannot exhaust or crash it, it answers consistently, every planted secret is served, no planted
  secret reaches the log, and no event is lost silently. Paths below are those of the repository.

  \<^bold>\<open>The parts and their theories.\<close>

  \<^item> \<open>Prelude\<close>, \<open>Utf8\<close>, \<open>NetAddr\<close>, \<open>Digest\<close>, \<open>GoTime\<close>: what the code uses of Go's library, written out: decimal text,
    \<^verbatim>\<open>strings\<close>, UTF-8, addresses and prefixes of \<^verbatim>\<open>net/netip\<close> with their reading and printing (the round trip is proved for IPv4 and IPv6), SHA-256, FNV,
    base64 and RFC 3339 time.
  \<^item> \<open>GoValue\<close>: JSON-like values (\<^verbatim>\<open>map[string]any\<close>) with the typed accessors of \<^verbatim>\<open>handler/table.go\<close>, \<^verbatim>\<open>json.Marshal\<close> and \<^verbatim>\<open>cloneObject\<close>.
  \<^item> \<open>Names\<close>, \<open>Selectors\<close>, \<open>Addresses\<close>, \<open>Catalog\<close>: name validation, label and field selectors, cluster addresses, and the
    catalogue of resources with discovery (\<^verbatim>\<open>handler/api.go\<close>, \<^verbatim>\<open>handler/state.go\<close>, \<^verbatim>\<open>handler/schema.go\<close>).
  \<^item> \<open>KeyedStore\<close>: the contract between a keyed store and its clients, as a locale; \<open>ObjectStore\<close> (\<^verbatim>\<open>objectStore\<close> of \<^verbatim>\<open>handler/state.go\<close>)
    satisfies it. The store's record keeps the fields of the struct, the map as an association list, and every watch channel with its
    buffer and whether it is closed; a panic is the field \<open>chan_panic\<close>. \<open>store_step\<close> is one operation under the store's
    lock, so its reachable states are those of every interleaving of requests. \<open>StoreRefinement\<close> is the abstract store, a versioned map, and the simulation.
  \<^item> \<open>Controller\<close> (\<^verbatim>\<open>handler/controller.go\<close>): Deployments, ReplicaSets, pods, events, Endpoints and EndpointSlices as reconciliation leaves them.
  \<^item> \<open>Patch\<close>: merge patch and JSON patch, with the sharing of copied values in an explicit heap.
  \<^item> \<open>Handlers\<close>: the mutating requests of \<^verbatim>\<open>handler/api.go\<close> (create, update, patch, delete, deletecollection, scale, eviction) as functions
    from request and store to response, reported mutations and store. \<open>HandlerSpec\<close> has their properties.
  \<^item> \<open>TimeText\<close>, \<open>Base64Url\<close>: reading a time and showing an age, and base64 for URLs, both with their round trips. \<open>Tables\<close> (\<^verbatim>\<open>handler/table.go\<close>): the columns and cells of every kind.
    \<open>Paging\<close>: listing with continue tokens. \<open>Reading\<close>: the other reading requests of \<^verbatim>\<open>handler/api.go\<close> (watch, pod logs, tokens, access reviews, metrics) and the routing of
    paths in \<^verbatim>\<open>ServeHTTP\<close>. \<open>WatchStream\<close> runs one watch against all other clients; \<open>ReadingSpec\<close> has further properties.
  \<^item> \<open>OpenApi\<close> (\<^verbatim>\<open>handler/schema.go\<close> and the OpenAPI handlers of \<^verbatim>\<open>handler/api.go\<close>): choosing, checking and serving the OpenAPI documents with negotiation, entity tags and
    the cache of version 3; \<open>OpenApiSpec\<close> has their properties.
  \<^item> \<open>ModelConfig\<close> (\<^verbatim>\<open>model/config.go\<close>), \<open>ConfigLoader\<close> (\<^verbatim>\<open>config/config.go\<close>): the configuration records, the lists of credentials to redact, and
    loading: defaults, environment, normalization, validation. \<open>ConfigSpec\<close> says what an accepted configuration guarantees.
  \<^item> \<open>Seed\<close> (\<^verbatim>\<open>seed\<close> of \<^verbatim>\<open>handler/state.go\<close>): the objects of the fresh cluster. \<open>SeedSpec\<close> and \<open>HoneytokenSpec\<close> have their properties.
  \<^item> \<open>Shipper\<close>, \<open>Redaction\<close>, \<open>EventLogger\<close>, \<open>Sinks\<close> (\<^verbatim>\<open>logger/\<close>): the batching goroutine of a remote sink as a step relation over its atomic actions, the
    privacy filter, the event log with its lines, lock and client addresses, and the headers and bodies of the sinks.
  \<^item> \<open>Json\<close>: \<^verbatim>\<open>encoding/json\<close> as a byte-wise scanner and a decoder, with the round trip over the encoder of \<open>GoValue\<close>. \<open>ProtoWire\<close>: the decoding of
    request bodies in \<^verbatim>\<open>handler/api.go\<close> (JSON, the Kubernetes Protobuf messages, media types, size limits); \<open>ProtoSpec\<close> states the wire format as a locale and reads encoded objects back.
  \<^item> \<open>Limiter\<close> (\<^verbatim>\<open>netlimit/listener.go\<close>): the capped listener, every call cut at its blocking points, as a step relation.
  \<^item> \<open>Docker\<close>, \<open>DockerSpec\<close> (\<^verbatim>\<open>honeypots/docker\<close>), \<open>AiSensor\<close>, \<open>AiSpec\<close> (\<^verbatim>\<open>honeypots/ai\<close>), \<open>Kubelet\<close> (\<^verbatim>\<open>honeypots/kubelet\<close>): the smaller sensors, each a function from
    request and state to response, event and state, and their properties.
  \<^item> \<open>Middleware\<close>: the layers a request passes (\<^verbatim>\<open>HTTPMiddleware\<close>, \<^verbatim>\<open>limitRequestBody\<close>, \<^verbatim>\<open>recoverPanics\<close>) in the order the sensors put them, and the HTTP sensor. \<open>Sockets\<close>: the TCP sensor as a step
    relation over its goroutines, and the read loop of the UDP sensor.
  \<^item> \<open>Start\<close> (\<^verbatim>\<open>cmd/main.go\<close>, \<^verbatim>\<open>server/server.go\<close>, the \<^verbatim>\<open>Start\<close> function of each sensor, \<^verbatim>\<open>NewAPIContext\<close>, \<^verbatim>\<open>internal/tlsgen\<close>): from the configuration to the running sensor, with the
    order in which listener and log are opened and closed; \<open>StartSpec\<close> connects it with \<open>ConfigSpec\<close>.
  \<^item> \<open>Generator\<close> (\<^verbatim>\<open>honeypots/k8s/generator\<close>): the sample tables and Secrets; no other package of the repository imports it.
  \<^item> This theory: the whole server as a step relation over client actions, its bounds, and its refinement of the versioned map.

  \<^bold>\<open>What the lemmas show.\<close> The store: the byte counter is exact and the limits hold in every reachable state; a put stores what it returns or changes nothing;
  watchers get every matching event in order or are closed; no channel operation panics; following the continue tokens enumerates every match once; a watch delivers every matching change since it was opened. The handlers: a refused request has no
  effect and reports nothing; a created object is readable as returned; an update keeps the identity; table rows fit their columns. The configuration: each accepted honeytoken is seeded within all limits, each accepted
  secret is redacted in all its encodings, errors name positions only. The log: one line per event, a client address that cannot be forged, and
  closing that completes and accounts for every event. The sensors: bounded state whatever clients send, log records free of payload, replies within the
  announced budget and correctly framed; the TCP sensor returns only after every accepted connection is logged. Starting: an accepted configuration passes all later checks, and what is opened is closed. OpenAPI: only the schema of
  the configured release is served, and every document the index names is there. Several theorems record where the code departs from what it cites (JSON patch,
  event names, replica counts, sink credentials, ConfigMaps in Protobuf, tables without continue tokens, watches that replay one page only, the kubelet's view of the pods,
  advertised subresources that are not served, a request that crashes its handler and leaves no trace in the log).

  \<^bold>\<open>Bounds and fuel.\<close> No definition runs on fuel: loops that the code bounds (eight rounds of unescaping, 32 hops, pages, two delivery attempts) recurse over those
  bounds, the others have a termination proof. The revision, the name counter and the watch ids are 64-bit words; theorems that need them not to
  wrap say so. Start times are taken to be below \<open>2 ^ 34\<close> seconds, the year 2514, where RFC 3339 text has its usual length.

  \<^bold>\<open>Parameters.\<close> The TOML and YAML decoders, the Protobuf wire reader, the OpenAPI and the cryptographic library, gzip, the reading of decimal fractions, the URL parser, the HTTP client, the web framework's request, sockets, the clock and the random event ids are inputs; so are the
  Unicode tables beyond ASCII and the order in which Go iterates a map, which is the order of an association list.

  \<^bold>\<open>Not modelled.\<close> The serving loops, timeouts and routing tables of the web framework and of \<^verbatim>\<open>net/http\<close>,
  whose result is an input of \<open>Start\<close>; and the contents of certificates beyond the names, addresses and times they are issued for.
\<close>

section \<open>The running server\<close>

text \<open>
  The API server from the outside: any client sends any mutating request, opens a watch, reads an event from a watch it
  holds, or closes it. A request is one step here; each handler is a sequence of store operations
  (\<open>writes_perform\<close>), so requests that interleave at the store's lock are covered by the invariants of
  \<open>ObjectStore\<close>, which hold after every single store operation.
\<close>

inductive server_step :: "store_state \<Rightarrow> store_state \<Rightarrow> bool" where
  request: "server_step (s, ws) (snd (snd (perform a rootCAPEM slot rq gv act s)), ws)"
| open_watch: "watch gv ns res ls fs s = (w, s') \<Longrightarrow> nextWatcher s \<noteq> - 1 \<Longrightarrow> server_step (s, ws) (s', w # ws)"
| read_watch: "w \<in> set ws \<Longrightarrow> recv_event w s = Some (e, s') \<Longrightarrow> server_step (s, ws) (s', ws)"
| close_watch: "w \<in> set ws \<Longrightarrow> server_step (s, ws) (unwatch w s, remove1 w ws)"

inductive_cases server_stepE: "server_step (s, ws) st"

lemma server_step_store_steps: "server_step st st' \<Longrightarrow> store_step\<^sup>*\<^sup>* st st'"
proof (induction rule: server_step.induct)
  case (request s ws a slot rq gv act)
  show ?case by (rule writes_store_steps [OF writes_perform])
qed (blast intro: store_step.intros)+

lemma system_ok_seeded: "system_ok (seed version now gvs k (newObjectStore t0), [])"
  by (rule writes_system_ok [OF writes_seed], rule system_ok_reachable) (rule rtranclp.rtrancl_refl)

lemma system_ok_store_steps: "store_step\<^sup>*\<^sup>* st st' \<Longrightarrow> system_ok st \<Longrightarrow> system_ok st'"
  by (induction rule: rtranclp_induct) (auto intro: system_ok_step)

lemma system_ok_server: "server_step\<^sup>*\<^sup>* st st' \<Longrightarrow> system_ok st \<Longrightarrow> system_ok st'"
  by (induction rule: rtranclp_induct) (auto intro: system_ok_store_steps [OF server_step_store_steps])


definition demo_evict :: objectStore where
  "demo_evict = snd (snd (perform demo_env rootCAPEM True (demo_request ''POST'' []) (gv' [] ''v1'') (Evict ''default'' ''redis-0'')
     (seed ''v1.37'' [] [] demo_k8s (newObjectStore 0))))"




end
